(* ===== verification/Prelude.thy ===== *)
theory Prelude
  imports Complex_Main "HOL-Library.Sublist" "HOL-Library.Char_ord" "HOL-Library.List_Lexorder"
begin

text \<open>
  Shared vocabulary of the development.

  A Python \<open>str\<close> is a \<open>string\<close> whose characters are its code points (below 256); the
  string operations below are the ones the source calls (\<open>strip\<close>, \<open>split\<close>, \<open>join\<close>,
  \<open>lower\<close>, \<open>upper\<close>, \<open>startswith\<close>, \<open>in\<close>, \<open>replace\<close>, \<open>int\<close>, \<open>str\<close>).
  A point in time is an \<open>instant\<close>: microseconds since the Unix epoch, UTC.  Where the source
  distinguishes naive from aware datetimes, \<open>py_datetime\<close> does too.  A JSON column is a
  \<open>json\<close> value; a Python \<open>float\<close> is a rational number (no rounding).
\<close>

named_theorems status_simps \<open>unfoldings of the workspace status tables\<close>
named_theorems row_simps \<open>frame facts of the row operations\<close>

section \<open>Types\<close>

type_synonym instant = int
type_synonym state_map = "string \<rightharpoonup> string"

datatype py_datetime = Naive instant | Aware instant

datatype json =
    JNull
  | JBool bool
  | JInt int
  | JFloat rat
  | JStr string
  | JArr "json list"
  | JObj "(string \<times> json) list"

text \<open>\<open>value.get(key)\<close> on a JSON object: the last binding of a key wins, as in a Python dict.\<close>

definition json_get :: "string \<Rightarrow> json \<Rightarrow> json option" where
  "json_get k j = (case j of JObj kvs \<Rightarrow> map_of (rev kvs) k | _ \<Rightarrow> None)"

definition is_mapping :: "json \<Rightarrow> bool" where
  "is_mapping j = (case j of JObj _ \<Rightarrow> True | _ \<Rightarrow> False)"

text \<open>Normalisation to UTC: a naive value is read as UTC, an aware one is converted.\<close>

definition as_utc :: "py_datetime \<Rightarrow> instant" where
  "as_utc d = (case d of Naive t \<Rightarrow> t | Aware t \<Rightarrow> t)"

section \<open>Python strings\<close>

definition is_space :: "char \<Rightarrow> bool" where
  "is_space c = (of_char c \<in> set [9, 10, 11, 12, 13, 28, 29, 30, 31, 32, 133, 160::nat])"

definition is_digit :: "char \<Rightarrow> bool" where
  "is_digit c = (48 \<le> (of_char c :: nat) \<and> (of_char c :: nat) \<le> 57)"

definition py_lstrip :: "string \<Rightarrow> string" where
  "py_lstrip s = dropWhile is_space s"

definition py_strip :: "string \<Rightarrow> string" where
  "py_strip s = rev (dropWhile is_space (rev (dropWhile is_space s)))"

text \<open>SQL \<open>trim\<close> removes blanks only.\<close>

definition sql_trim :: "string \<Rightarrow> string" where
  "sql_trim s = rev (dropWhile (\<lambda>c. c = CHR '' '') (rev (dropWhile (\<lambda>c. c = CHR '' '') s)))"

definition py_lower_char :: "char \<Rightarrow> char" where
  "py_lower_char c =
     (let n = (of_char c :: nat) in
      if (65 \<le> n \<and> n \<le> 90) \<or> (192 \<le> n \<and> n \<le> 222 \<and> n \<noteq> 215) then char_of (n + 32) else c)"

definition py_lower :: "string \<Rightarrow> string" where
  "py_lower s = map py_lower_char s"

definition py_upper_char :: "char \<Rightarrow> char" where
  "py_upper_char c =
     (let n = (of_char c :: nat) in
      if (97 \<le> n \<and> n \<le> 122) \<or> (224 \<le> n \<and> n \<le> 254 \<and> n \<noteq> 247) then char_of (n - 32) else c)"

definition py_upper :: "string \<Rightarrow> string" where
  "py_upper s = map py_upper_char s"

definition startswith :: "string \<Rightarrow> string \<Rightarrow> bool" where
  "startswith s p = (take (length p) s = p)"

definition endswith :: "string \<Rightarrow> string \<Rightarrow> bool" where
  "endswith s p = startswith (rev s) (rev p)"

fun contains :: "string \<Rightarrow> string \<Rightarrow> bool" where
  "contains [] p = (p = [])"
| "contains (c # s) p = (startswith (c # s) p \<or> contains s p)"

fun py_split :: "char \<Rightarrow> string \<Rightarrow> string list" where
  "py_split d [] = [[]]"
| "py_split d (c # s) =
     (if c = d then [] # py_split d s
      else (case py_split d s of [] \<Rightarrow> [[c]] | w # ws \<Rightarrow> (c # w) # ws))"

fun py_join :: "string \<Rightarrow> string list \<Rightarrow> string" where
  "py_join sep [] = []"
| "py_join sep [w] = w"
| "py_join sep (w # v # ws) = w @ sep @ py_join sep (v # ws)"

text \<open>\<open>s.replace(old, new)\<close> for a non-empty \<open>old\<close>: left to right, occurrences not overlapping.\<close>

function py_replace :: "string \<Rightarrow> string \<Rightarrow> string \<Rightarrow> string" where
  "py_replace old new s =
     (if old = [] then s
      else (case s of [] \<Rightarrow> []
        | c # r \<Rightarrow> if startswith s old then new @ py_replace old new (drop (length old) s)
                   else c # py_replace old new r))"
  by pat_completeness auto
termination
  by (relation "measure (\<lambda>(old, new, s). length s)") auto

declare py_replace.simps [simp del]

section \<open>Integers as text\<close>

definition digit_char :: "nat \<Rightarrow> char" where
  "digit_char d = char_of (48 + d)"

fun nat_digits :: "nat \<Rightarrow> string" where
  "nat_digits n = (if n < 10 then [digit_char n] else nat_digits (n div 10) @ [digit_char (n mod 10)])"

declare nat_digits.simps [simp del]

text \<open>\<open>str(i)\<close>.\<close>

definition py_str_int :: "int \<Rightarrow> string" where
  "py_str_int i = (if i < 0 then CHR ''-'' # nat_digits (nat (- i)) else nat_digits (nat i))"

definition digit_val :: "char \<Rightarrow> nat" where
  "digit_val c = of_char c - 48"

definition digits_val :: "string \<Rightarrow> nat" where
  "digits_val s = foldl (\<lambda>a c. 10 * a + digit_val c) 0 s"

text \<open>Digits with single underscores between them, as \<open>int\<close> and \<open>float\<close> literals allow.\<close>

fun digit_body :: "string \<Rightarrow> string option" where
  "digit_body [] = None"
| "digit_body [c] = (if is_digit c then Some [c] else None)"
| "digit_body (c # d # s) =
     (if \<not> is_digit c then None
      else if d = CHR ''_'' then map_option ((#) c) (digit_body s)
      else map_option ((#) c) (digit_body (d # s)))"

text \<open>\<open>int(s)\<close>: \<open>None\<close> where it raises \<open>ValueError\<close>.\<close>

definition py_int :: "string \<Rightarrow> int option" where
  "py_int s =
     (case py_strip s of
        [] \<Rightarrow> None
      | c # r \<Rightarrow>
          if c = CHR ''-'' then map_option (\<lambda>ds. - int (digits_val ds)) (digit_body r)
          else if c = CHR ''+'' then map_option (\<lambda>ds. int (digits_val ds)) (digit_body r)
          else map_option (\<lambda>ds. int (digits_val ds)) (digit_body (c # r)))"

section \<open>Lemmas on strings and lists\<close>

lemma py_split_nonempty [simp]: "py_split d s \<noteq> []"
  by (induction s) (auto split: list.splits)

lemma py_join_Cons: "ws \<noteq> [] \<Longrightarrow> py_join sep (w # ws) = w @ sep @ py_join sep ws"
  by (cases ws) auto

lemma py_join_split: "py_join [d] (py_split d s) = s"
proof (induction s)
  case (Cons c s)
  then show ?case
    by (cases "py_split d s"; cases "tl (py_split d s)") (auto simp: py_join_Cons)
qed simp

lemma py_split_no_sep: "w \<in> set (py_split d s) \<Longrightarrow> d \<notin> set w"
proof (induction s arbitrary: w)
  case (Cons c s)
  then show ?case by (cases "py_split d s") (auto split: if_splits)
qed simp

lemma py_split_append:
  "d \<notin> set w \<Longrightarrow> py_split d (w @ d # s) = w # py_split d s"
  by (induction w) auto

lemma py_split_plain: "d \<notin> set w \<Longrightarrow> py_split d w = [w]"
  by (induction w) auto

lemma py_split_join:
  "ws \<noteq> [] \<Longrightarrow> \<forall>w \<in> set ws. d \<notin> set w \<Longrightarrow> py_split d (py_join [d] ws) = ws"
proof (induction "[d]" ws rule: py_join.induct)
  case (3 w v ws)
  then show ?case by (simp add: py_split_append)
qed (auto simp: py_split_plain)

lemma startswith_append [simp]: "startswith (p @ s) p"
  by (simp add: startswith_def)

lemma startswith_iff: "startswith s p \<longleftrightarrow> (\<exists>t. s = p @ t)"
  by (metis append_eq_conv_conj append_take_drop_id startswith_append startswith_def)

lemma contains_iff: "contains s p \<longleftrightarrow> (\<exists>a b. s = a @ p @ b)"
proof (induction s)
  case (Cons c s)
  show ?case
    unfolding contains.simps startswith_iff Cons.IH
    by (metis append_Cons append_Nil list.exhaust list.inject)
qed auto

end
