(* ===== verification/Lifecycle.thy ===== *)
theory Lifecycle
  imports Prelude
begin

text \<open>
  The workspace lifecycle: the status vocabulary of \<open>db/enums.py\<close> and the transition table and
  guards of \<open>control/state_machine.py\<close>.  A frozenset of statuses is a list whose members are
  its elements; the raising guard returns \<open>Inl\<close> the error it raises.  A run is a list of statuses
  each of which the table allows after the one before it.
\<close>

section \<open>Statuses\<close>

datatype WorkspaceStatus =
    Requested | Provisioning | Ready | Running | Validating | Pushing | Monitoring_pr
  | Blocked | Recovering | Completed | Failed | Cancelled | Destroying | Destroyed

definition all_statuses :: "WorkspaceStatus list" where
  "all_statuses =
     [Requested, Provisioning, Ready, Running, Validating, Pushing, Monitoring_pr,
      Blocked, Recovering, Completed, Failed, Cancelled, Destroying, Destroyed]"

instantiation WorkspaceStatus :: enum
begin

definition enum_WorkspaceStatus :: "WorkspaceStatus list" where
  "enum_WorkspaceStatus = all_statuses"

definition enum_all_WorkspaceStatus :: "(WorkspaceStatus \<Rightarrow> bool) \<Rightarrow> bool" where
  "enum_all_WorkspaceStatus P = list_all P all_statuses"

definition enum_ex_WorkspaceStatus :: "(WorkspaceStatus \<Rightarrow> bool) \<Rightarrow> bool" where
  "enum_ex_WorkspaceStatus P = list_ex P all_statuses"

instance
proof
  have all: "x \<in> set all_statuses" for x :: WorkspaceStatus
    by (cases x) (simp_all add: all_statuses_def)
  then show "(UNIV :: WorkspaceStatus set) = set enum_class.enum"
    by (auto simp: enum_WorkspaceStatus_def)
  show "distinct (enum_class.enum :: WorkspaceStatus list)"
    by (simp add: enum_WorkspaceStatus_def all_statuses_def)
  show "enum_class.enum_all P = Ball UNIV P" for P :: "WorkspaceStatus \<Rightarrow> bool"
    using all by (auto simp: enum_all_WorkspaceStatus_def list_all_iff)
  show "enum_class.enum_ex P = Bex UNIV P" for P :: "WorkspaceStatus \<Rightarrow> bool"
    using all by (auto simp: enum_ex_WorkspaceStatus_def list_ex_iff)
qed

end

fun status_value :: "WorkspaceStatus \<Rightarrow> string" where
  "status_value Requested = ''requested''"
| "status_value Provisioning = ''provisioning''"
| "status_value Ready = ''ready''"
| "status_value Running = ''running''"
| "status_value Validating = ''validating''"
| "status_value Pushing = ''pushing''"
| "status_value Monitoring_pr = ''monitoring_pr''"
| "status_value Blocked = ''blocked''"
| "status_value Recovering = ''recovering''"
| "status_value Completed = ''completed''"
| "status_value Failed = ''failed''"
| "status_value Cancelled = ''cancelled''"
| "status_value Destroying = ''destroying''"
| "status_value Destroyed = ''destroyed''"

text \<open>The enum constructor \<open>WorkspaceStatus(raw)\<close>: \<open>None\<close> where it raises \<open>ValueError\<close>.\<close>

definition WorkspaceStatus_of :: "string \<Rightarrow> WorkspaceStatus option" where
  "WorkspaceStatus_of raw = find (\<lambda>s. status_value s = raw) all_statuses"

definition WORKSPACE_TEARDOWN_STATUSES :: "WorkspaceStatus list" where
  "WORKSPACE_TEARDOWN_STATUSES = [Destroying, Destroyed]"

definition MERGE_QUEUE_EXCLUDED_STATUSES :: "WorkspaceStatus list" where
  "MERGE_QUEUE_EXCLUDED_STATUSES = WORKSPACE_TEARDOWN_STATUSES @ [Completed, Failed, Cancelled]"

section \<open>The transition table\<close>

fun transitions :: "WorkspaceStatus \<Rightarrow> WorkspaceStatus list" where
  "transitions Requested = [Provisioning, Failed, Cancelled]"
| "transitions Provisioning = [Ready, Monitoring_pr, Failed, Cancelled]"
| "transitions Ready = [Running, Monitoring_pr, Failed, Cancelled, Destroying]"
| "transitions Running = [Validating, Monitoring_pr, Blocked, Recovering, Failed, Cancelled]"
| "transitions Validating =
     [Running, Pushing, Monitoring_pr, Blocked, Completed, Failed, Cancelled]"
| "transitions Pushing = [Running, Monitoring_pr, Blocked, Completed, Failed, Cancelled]"
| "transitions Blocked = [Running, Validating, Pushing, Monitoring_pr, Failed, Cancelled]"
| "transitions Recovering = [Running, Failed, Cancelled]"
| "transitions Monitoring_pr = [Ready, Blocked, Completed, Failed, Cancelled]"
| "transitions Completed = [Destroying]"
| "transitions Failed = [Destroying]"
| "transitions Cancelled = [Destroying]"
| "transitions Destroying = [Destroyed, Failed]"
| "transitions Destroyed = []"

definition terminal_statuses :: "WorkspaceStatus list" where
  "terminal_statuses = [Destroyed]"

definition callback_terminal_statuses :: "WorkspaceStatus list" where
  "callback_terminal_statuses = [Cancelled, Destroyed, Destroying, Failed, Completed]"

record InvalidWorkspaceTransitionError =
  from_state :: WorkspaceStatus
  to_state :: WorkspaceStatus
  message :: string

definition invalid_transition :: "WorkspaceStatus \<Rightarrow> WorkspaceStatus \<Rightarrow> InvalidWorkspaceTransitionError" where
  "invalid_transition src dst =
     \<lparr>from_state = src, to_state = dst,
      message = ''Invalid workspace transition: '' @ status_value src @ '' -> '' @ status_value dst
        @ ''. Allowed next states from '' @ status_value src @ '': [''
        @ py_join '', '' (map (\<lambda>v. [CHR 0x27] @ v @ [CHR 0x27]) (sort (map status_value (transitions src))))
        @ '']''\<rparr>"

definition can_transition :: "WorkspaceStatus \<Rightarrow> WorkspaceStatus \<Rightarrow> bool" where
  "can_transition src dst = (dst \<in> set (transitions src))"

definition assert_transition ::
    "WorkspaceStatus \<Rightarrow> WorkspaceStatus \<Rightarrow> InvalidWorkspaceTransitionError + unit" where
  "assert_transition src dst =
     (if \<not> can_transition src dst then Inl (invalid_transition src dst) else Inr ())"

definition is_terminal :: "WorkspaceStatus \<Rightarrow> bool" where
  "is_terminal s = (s \<in> set terminal_statuses)"

definition is_callback_terminal :: "WorkspaceStatus \<Rightarrow> bool" where
  "is_callback_terminal s = (s \<in> set callback_terminal_statuses)"

definition allowed_next :: "WorkspaceStatus \<Rightarrow> WorkspaceStatus set" where
  "allowed_next s = set (transitions s)"

lemmas [status_simps] =
  can_transition_def is_terminal_def is_callback_terminal_def allowed_next_def
  terminal_statuses_def callback_terminal_statuses_def WORKSPACE_TEARDOWN_STATUSES_def
  MERGE_QUEUE_EXCLUDED_STATUSES_def

section \<open>Runs\<close>

inductive lifecycle_run :: "WorkspaceStatus \<Rightarrow> WorkspaceStatus list \<Rightarrow> WorkspaceStatus \<Rightarrow> bool" where
  run_refl: "lifecycle_run s [] s"
| run_step: "can_transition s t \<Longrightarrow> lifecycle_run t p u \<Longrightarrow> lifecycle_run s (t # p) u"

inductive_cases run_NilE [elim!]: "lifecycle_run s [] u"
inductive_cases run_ConsE: "lifecycle_run s (t # p) u"
inductive_simps run_Nil_simp [simp]: "lifecycle_run s [] u"
inductive_simps run_Cons_simp [simp]: "lifecycle_run s (t # p) u"

lemma run_append:
  "lifecycle_run s (p @ q) u \<longleftrightarrow> (\<exists>t. lifecycle_run s p t \<and> lifecycle_run t q u)"
  by (induction p arbitrary: s) auto

text \<open>An invariant of the table holds along every run.\<close>

lemma run_invariant:
  assumes "lifecycle_run s p u" and "\<And>a b. P a \<Longrightarrow> can_transition a b \<Longrightarrow> P b" and "P s"
  shows "\<forall>t \<in> set p. P t" and "P u"
  using assms by (induction rule: lifecycle_run.induct) auto

text \<open>A run that starts outside a set and ends inside it enters it by an edge.\<close>

lemma run_entry_edge:
  assumes "lifecycle_run s p u" and "\<not> P s" and "P u"
  shows "\<exists>a b. a \<in> set (s # p) \<and> b \<in> set p \<and> \<not> P a \<and> P b \<and> can_transition a b"
  using assms by (induction rule: lifecycle_run.induct) force+

lemma callback_terminal_closed:
  "is_callback_terminal s \<Longrightarrow> can_transition s t \<Longrightarrow> is_callback_terminal t"
  by (cases s) (auto simp: status_simps)

lemma completed_predecessor:
  "can_transition s Completed \<longleftrightarrow> s \<in> {Validating, Pushing, Monitoring_pr}"
  by (cases s) (simp_all add: status_simps)

lemma provisioning_gate:
  "can_transition s t \<Longrightarrow> s = Requested \<Longrightarrow> t \<noteq> Provisioning \<Longrightarrow> is_callback_terminal t"
  by (auto simp: status_simps)

lemma status_value_inj: "status_value s = status_value t \<longleftrightarrow> s = t"
  by (cases s; cases t) simp_all

section \<open>Properties of the lifecycle\<close>

text \<open>A shortest way to teardown from each status.\<close>

fun teardown_path :: "WorkspaceStatus \<Rightarrow> WorkspaceStatus list" where
  "teardown_path Destroyed = []"
| "teardown_path Destroying = [Destroyed]"
| "teardown_path s =
     (if can_transition s Destroying then [Destroying, Destroyed] else [Cancelled, Destroying, Destroyed])"

lemma teardown_path_run: "lifecycle_run s (teardown_path s) Destroyed"
  by (cases s) (simp_all add: status_simps)

lemma teardown_path_length: "length (teardown_path s) \<le> 3"
  by (cases s) simp_all

lemma destroyed_run: "lifecycle_run Destroyed p u \<longleftrightarrow> p = [] \<and> u = Destroyed"
  by (cases p) (auto simp: status_simps)

text \<open>
  No workspace can get stuck.  From every status some sequence of at most three legal
  transitions reaches \<open>Destroyed\<close>, and \<open>Destroyed\<close> is the only status a workspace cannot leave,
  which is exactly what \<open>is_terminal\<close> and an empty \<open>allowed_next\<close> report.
\<close>

theorem lifecycle_teardown:
  "(\<exists>p. length p \<le> 3 \<and> lifecycle_run s p Destroyed)
   \<and> (is_terminal s \<longleftrightarrow> allowed_next s = {})
   \<and> (is_terminal s \<longleftrightarrow> (\<forall>p u. lifecycle_run s p u \<longrightarrow> u = s))"
proof (intro conjI)
  show "\<exists>p. length p \<le> 3 \<and> lifecycle_run s p Destroyed"
    using teardown_path_run teardown_path_length by blast
  show "is_terminal s \<longleftrightarrow> allowed_next s = {}"
    by (cases s) (simp_all add: status_simps)
  show "is_terminal s \<longleftrightarrow> (\<forall>p u. lifecycle_run s p u \<longrightarrow> u = s)"
  proof
    assume "is_terminal s"
    then show "\<forall>p u. lifecycle_run s p u \<longrightarrow> u = s" by (simp add: status_simps destroyed_run)
  next
    assume "\<forall>p u. lifecycle_run s p u \<longrightarrow> u = s"
    then have "Destroyed = s" using teardown_path_run by blast
    then show "is_terminal s" by (simp add: status_simps)
  qed
qed

theorem lifecycle_teardown_witness:
  "(\<exists>p. length p \<le> 3 \<and> lifecycle_run Recovering p Destroyed) \<and> allowed_next Recovering \<noteq> {}
   \<and> lifecycle_run Recovering [Running, Validating] Validating \<and> \<not> is_terminal Recovering"
  using lifecycle_teardown [of Recovering] by (auto simp: status_simps)

text \<open>
  A finished workspace never works again.  Once a status for which callbacks are
  final is reached, every later status of every run is one of them too, so no run goes back to
  provisioning, execution, validation or monitoring.
\<close>

theorem callback_terminal_absorbing:
  assumes "is_callback_terminal s" and "lifecycle_run s p u"
  shows "\<forall>t \<in> set (s # p). is_callback_terminal t
           \<and> t \<notin> {Requested, Provisioning, Ready, Running, Validating, Pushing, Blocked, Recovering, Monitoring_pr}"
proof -
  have "\<forall>t \<in> set (s # p). is_callback_terminal t"
    using run_invariant(1) [OF assms(2), of is_callback_terminal] callback_terminal_closed assms(1) by auto
  moreover have "is_callback_terminal t \<Longrightarrow>
      t \<notin> {Requested, Provisioning, Ready, Running, Validating, Pushing, Blocked, Recovering, Monitoring_pr}" for t
    by (cases t) (simp_all add: status_simps)
  ultimately show ?thesis by blast
qed

theorem callback_terminal_absorbing_witness:
  "is_callback_terminal Failed \<and> lifecycle_run Failed [Destroying, Failed] Failed
   \<and> is_callback_terminal Destroying"
  using callback_terminal_absorbing [of Failed "[Destroying, Failed]" Failed] by (simp add: status_simps)

lemma run_to_completed_last:
  "lifecycle_run s p Completed \<Longrightarrow> s \<noteq> Completed \<Longrightarrow>
    \<exists>q t. p = q @ [Completed] \<and> lifecycle_run s q t \<and> t \<in> {Validating, Pushing, Monitoring_pr}"
  by (cases p rule: rev_cases) (auto simp: run_append completed_predecessor)

lemma terminal_never_completes:
  "lifecycle_run s q t \<Longrightarrow> t \<in> {Validating, Pushing, Monitoring_pr} \<Longrightarrow> \<not> is_callback_terminal s"
  using run_invariant(2) [of s q t is_callback_terminal] callback_terminal_closed
  by (auto simp: status_simps)

text \<open>
  Completion is earned.  Every run from a fresh request to \<open>Completed\<close> passes through
  provisioning and takes its last step from validation, pushing or pull-request monitoring.
\<close>

theorem completion_earned:
  assumes "lifecycle_run Requested p Completed"
  shows "\<exists>q t. p = Provisioning # q @ [Completed] \<and> lifecycle_run Provisioning q t
           \<and> t \<in> {Validating, Pushing, Monitoring_pr}"
proof -
  obtain q t where q: "p = q @ [Completed]" "lifecycle_run Requested q t"
      "t \<in> {Validating, Pushing, Monitoring_pr}"
    using run_to_completed_last [OF assms] by auto
  then obtain b r where r: "q = b # r" "can_transition Requested b" "lifecycle_run b r t"
    by (cases q) auto
  with terminal_never_completes q(3) have "b = Provisioning" using provisioning_gate by blast
  with q r show ?thesis by auto
qed

theorem completion_earned_witness:
  "lifecycle_run Requested [Provisioning, Ready, Running, Validating, Completed] Completed
   \<and> (\<exists>q t. [Provisioning, Ready, Running, Validating, Completed] = Provisioning # q @ [Completed]
        \<and> lifecycle_run Provisioning q t \<and> t \<in> {Validating, Pushing, Monitoring_pr})"
proof (rule conjI)
  show r: "lifecycle_run Requested [Provisioning, Ready, Running, Validating, Completed] Completed"
    by (simp add: status_simps)
  show "\<exists>q t. [Provisioning, Ready, Running, Validating, Completed] = Provisioning # q @ [Completed]
        \<and> lifecycle_run Provisioning q t \<and> t \<in> {Validating, Pushing, Monitoring_pr}"
    by (rule completion_earned [OF r])
qed

end
