(* ===== verification/Rows.thy ===== *)
theory Rows
  imports Lifecycle
begin

text \<open>
  The control-plane tables of \<open>db/models.py\<close> that the modelled operations read and write, as
  records.  A nullable column is an \<open>option\<close>.  A relationship that SQLAlchemy may leave unloaded
  (\<open>Workspace.operations\<close>, \<open>Workspace.validation_runs\<close>) is an \<open>option\<close> too: \<open>None\<close> is
  "unloaded".
\<close>

section \<open>Operations, validation runs, events\<close>

record Operation =
  op_id :: string
  op_type :: string
  op_status :: string
  op_payload :: "json option"
  op_created_at :: instant

record ValidationRun =
  run_attempt_id :: "string option"
  run_tier :: int
  run_status :: string
  run_started_at :: instant

record WorkspaceEvent =
  event_type :: string
  old_state :: WorkspaceStatus
  new_state :: WorkspaceStatus
  event_reason_code :: "string option"
  event_payload :: "json option"
  event_order :: int

section \<open>Workspaces\<close>

record Workspace =
  ws_id :: string
  status :: WorkspaceStatus
  version :: int
  event_sequence :: int
  repo_url :: string
  branch_base :: string
  branch_name :: "string option"
  base_commit :: "string option"
  task_title :: string
  task_prompt :: string
  task_external_id :: "string option"
  task_class :: "string option"
  owned_paths :: "string list"
  task_policy :: json
  auto_merge :: bool
  resolved_profile :: json
  created_at :: instant
  ws_agent :: string
  node_id :: "string option"
  execution_claimed_by :: "string option"
  execution_claim_expires_at :: "instant option"
  execution_claim_epoch :: int
  pr_url :: "string option"
  pr_number :: "int option"
  monitor_last_commit_sha :: "string option"
  monitor_started_at :: "instant option"
  monitor_claimed_by :: "string option"
  monitor_claim_expires_at :: "instant option"
  block_reason_code :: "string option"
  block_type :: "string option"
  block_violations :: "json option"
  block_resume_phase :: "string option"
  block_epoch :: int
  blocked_at :: "instant option"
  pending_operator_hint :: "json option"
  filesystem_reclaimed_at :: "instant option"
  updated_at :: instant
  ws_operations :: "Operation list option"
  validation_runs :: "ValidationRun list option"
  events :: "WorkspaceEvent list"

text \<open>
  The section of \<open>resolved_profile\<close> the merge rules read: \<open>None\<close> when there is no \<open>validation\<close>
  section, \<open>Some t\<close> with the section's \<open>requested_tier\<close> otherwise (an integer, by the profile
  schema).
\<close>

definition validation_profile :: "Workspace \<Rightarrow> int option option" where
  "validation_profile w =
     map_option (\<lambda>v. case json_get ''requested_tier'' v of Some (JInt t) \<Rightarrow> Some t | _ \<Rightarrow> None)
       (json_get ''validation'' (resolved_profile w))"

lemma validation_profile_frame [simp, row_simps]:
  "validation_profile (w\<lparr>auto_merge := b\<rparr>) = validation_profile w"
  "validation_profile (w\<lparr>status := s\<rparr>) = validation_profile w"
  by (simp_all add: validation_profile_def)

section \<open>Tasks, attempts, merge candidates, reservations, grants\<close>

record Task =
  tk_id :: string
  tk_external_id :: "string option"
  tk_idempotency_key :: "string option"
  tk_repo_url :: string
  tk_base_branch :: string
  tk_title :: string
  tk_prompt :: string
  tk_task_class :: "string option"
  tk_owned_paths :: "string list"

record TaskAttempt =
  at_id :: string
  at_task_id :: string
  at_workspace_id :: string
  attempt_number :: int
  parent_attempt_id :: "string option"
  redispatch_from_attempt_id :: "string option"
  superseded_by_attempt_id :: "string option"
  is_canonical_for_merge :: bool
  at_agent :: string
  at_status :: WorkspaceStatus
  at_repo_url :: string
  at_base_branch :: string
  at_title :: string
  at_task_class :: "string option"
  at_owned_paths :: "string list"

datatype CandidateStatus = Open | Closed | Merged

record MergeCandidate =
  mc_id :: string
  mc_task_id :: string
  mc_attempt_id :: string
  mc_workspace_id :: string
  mc_pr_url :: string
  mc_pr_number :: "int option"
  mc_repo_url :: string
  mc_base_branch :: string
  mc_branch_name :: "string option"
  mc_head_sha :: "string option"
  mc_base_sha :: "string option"
  mc_status :: CandidateStatus
  close_reason :: "string option"
  ready :: bool
  manual_merge_required :: bool
  waiting_for_monitor :: bool
  failed_or_cancelled :: bool
  completed :: bool
  not_canonical :: bool
  policy_blocked :: bool
  stale :: bool
  stale_reason :: "string option"
  mc_created_at :: instant
  mc_updated_at :: instant
  closed_at :: "instant option"
  merged_at :: "instant option"

text \<open>\<open>rr_node_id\<close>: the column is not nullable, the queries allow for NULL all the same.\<close>

record ResourceReservation =
  rr_id :: string
  rr_workspace_id :: string
  rr_node_id :: "string option"
  rr_steady_cpu :: rat
  rr_steady_memory_gb :: rat
  rr_peak_cpu :: rat
  rr_peak_memory_gb :: rat
  rr_disk_mb :: "int option"
  rr_dind_slots :: int
  rr_reserved_at :: instant
  released_at :: "instant option"

record OperatorGrant =
  grant_workspace_id :: string
  grant_block_epoch :: int
  normalized_path :: string
  approve_policy_downgrade :: bool
  consumed_at :: "instant option"
  revoked_at :: "instant option"

record QueueDecision =
  qd_id :: string
  qd_workspace_id :: string
  qd_task_id :: string
  qd_attempt_id :: string
  qd_decision :: string
  qd_reason_code :: string
  qd_class_priority :: int
  qd_computed_priority :: int
  qd_age_boost :: int
  qd_retry_bonus :: int
  qd_resource_summary :: json
  qd_overlap_risk_summary :: json
  qd_score_summary :: json
  qd_decided_at :: instant

record ProviderModelCircuitBreaker =
  br_provider :: string
  br_model :: string
  br_state :: string
  failure_count :: int
  opened_at :: "instant option"
  cooldown_until :: "instant option"
  last_reason_code :: "string option"
  last_failure_fingerprint :: "string option"
  last_workspace_id :: "string option"
  last_attempt_id :: "string option"

record RestoreRowHold =
  hold_family :: string
  hold_row_id :: string
  hold_state :: string

section \<open>The database\<close>

text \<open>
  \<open>restore_quarantine\<close>: some \<open>NodeLifecycleRow\<close> has a non-null \<open>restore_quarantine\<close>.
\<close>

record database =
  workspaces :: "string \<rightharpoonup> Workspace"
  tasks :: "Task list"
  attempts :: "TaskAttempt list"
  candidates :: "MergeCandidate list"
  reservations :: "ResourceReservation list"
  grants :: "OperatorGrant list"
  queue_decisions :: "QueueDecision list"
  circuit_breakers :: "ProviderModelCircuitBreaker list"
  restore_quarantine :: bool
  restore_holds :: "RestoreRowHold list"

definition put_workspace :: "database \<Rightarrow> Workspace \<Rightarrow> database" where
  "put_workspace db w = db\<lparr>workspaces := (workspaces db)(ws_id w \<mapsto> w)\<rparr>"

text \<open>Rows are found by their own key.\<close>

definition db_keys_ok :: "database \<Rightarrow> bool" where
  "db_keys_ok db = (\<forall>i w. workspaces db i = Some w \<longrightarrow> ws_id w = i)"

lemma put_workspace_frame [simp, row_simps]:
  "tasks (put_workspace db w) = tasks db"
  "attempts (put_workspace db w) = attempts db"
  "candidates (put_workspace db w) = candidates db"
  "reservations (put_workspace db w) = reservations db"
  "grants (put_workspace db w) = grants db"
  "queue_decisions (put_workspace db w) = queue_decisions db"
  "circuit_breakers (put_workspace db w) = circuit_breakers db"
  "restore_quarantine (put_workspace db w) = restore_quarantine db"
  "restore_holds (put_workspace db w) = restore_holds db"
  by (simp_all add: put_workspace_def)

lemma put_workspace_same [simp]: "workspaces (put_workspace db w) (ws_id w) = Some w"
  by (simp add: put_workspace_def)

lemma put_workspace_other [simp]:
  "i \<noteq> ws_id w \<Longrightarrow> workspaces (put_workspace db w) i = workspaces db i"
  by (simp add: put_workspace_def)

lemma db_keys_ok_put [intro]: "db_keys_ok db \<Longrightarrow> db_keys_ok (put_workspace db w)"
  by (auto simp: db_keys_ok_def put_workspace_def)

section \<open>Rows for the examples\<close>

definition sample_workspace :: "string \<Rightarrow> WorkspaceStatus \<Rightarrow> Workspace" where
  "sample_workspace i s =
     \<lparr>ws_id = i, status = s, version = 1, event_sequence = 0, repo_url = ''git@host:r'',
      branch_base = ''main'', branch_name = Some ''feature'', base_commit = None, task_title = ''title'',
      task_prompt = ''prompt'', task_external_id = None, task_class = None,
      owned_paths = [], task_policy = JObj [], auto_merge = True, resolved_profile = JObj [], created_at = 0, ws_agent = ''codex'',
      node_id = None, execution_claimed_by = None, execution_claim_expires_at = None,
      execution_claim_epoch = 0, pr_url = Some ''pr'', pr_number = Some 1,
      monitor_last_commit_sha = None, monitor_started_at = None, monitor_claimed_by = None,
      monitor_claim_expires_at = None, block_reason_code = None, block_type = None,
      block_violations = None, block_resume_phase = None, block_epoch = 0, blocked_at = None,
      pending_operator_hint = None, filesystem_reclaimed_at = None, updated_at = 0,
      ws_operations = None, validation_runs = None, events = []\<rparr>"

definition sample_attempt :: TaskAttempt where
  "sample_attempt = \<lparr>at_id = ''a1'', at_task_id = ''t1'', at_workspace_id = ''w1'', attempt_number = 1,
     parent_attempt_id = None, redispatch_from_attempt_id = None, superseded_by_attempt_id = None, is_canonical_for_merge = False,
     at_agent = ''codex'', at_status = Requested, at_repo_url = ''git@host:r'', at_base_branch = ''main'', at_title = ''title'',
     at_task_class = None, at_owned_paths = []\<rparr>"

definition sample_task :: Task where
  "sample_task = \<lparr>tk_id = ''t1'', tk_external_id = None, tk_idempotency_key = None, tk_repo_url = ''git@host:r'',
     tk_base_branch = ''main'', tk_title = ''title'', tk_prompt = ''prompt'', tk_task_class = None, tk_owned_paths = []\<rparr>"

definition sample_reservation :: "string \<Rightarrow> ResourceReservation" where
  "sample_reservation i = \<lparr>rr_id = ''r1'', rr_workspace_id = i, rr_node_id = Some ''local'', rr_steady_cpu = 1,
     rr_steady_memory_gb = 2, rr_peak_cpu = 2, rr_peak_memory_gb = 4, rr_disk_mb = None, rr_dind_slots = 0,
     rr_reserved_at = 0, released_at = None\<rparr>"

definition sample_db :: "WorkspaceStatus \<Rightarrow> database" where
  "sample_db s =
     \<lparr>workspaces = [''w1'' \<mapsto> sample_workspace ''w1'' s], tasks = [sample_task], attempts = [sample_attempt],
      candidates = [], reservations = [sample_reservation ''w1''],
      grants = [], queue_decisions = [], circuit_breakers = [], restore_quarantine = False, restore_holds = []\<rparr>"

lemma sample_sel [simp]:
  "workspaces (sample_db s) ''w1'' = Some (sample_workspace ''w1'' s)"
  "ws_id (sample_workspace i s) = i" "status (sample_workspace i s) = s"
  "event_sequence (sample_workspace i s) = 0" "events (sample_workspace i s) = []"
  "version (sample_workspace i s) = 1" "candidates (sample_db s) = []"
  by (simp_all add: sample_db_def sample_workspace_def)

lemma sample_db_keys [simp]: "db_keys_ok (sample_db s)"
  by (simp add: db_keys_ok_def sample_db_def sample_workspace_def)

end
