(* ===== verification/Merge_Eligibility.thy ===== *)
theory Merge_Eligibility
  imports Rows
begin

text \<open>
  Validation staleness of a merge candidate: \<open>runtime/merge_eligibility.py\<close> and the advisory
  stale reasons of \<open>db/models.py\<close>.  The loops over operations and runs are recursive functions
  with the loop's accumulator; the lemmas show that they compute the declarative notions
  \<open>rebase_times\<close> (when the branch was last rebased) and "a sufficient run exists".
\<close>

section \<open>Stale reasons\<close>

definition ADVISORY_PLAN_ARTIFACT_OVERLAP_REASON :: string where
  "ADVISORY_PLAN_ARTIFACT_OVERLAP_REASON = ''ADVISORY_PLAN_ARTIFACT_OVERLAP''"

definition DOCS_TASK_SCOPE_VIOLATION_STALE_REASON :: string where
  "DOCS_TASK_SCOPE_VIOLATION_STALE_REASON = ''docs_task_scope_violation''"

definition VALIDATION_INSUFFICIENT_TIER_STALE_REASON :: string where
  "VALIDATION_INSUFFICIENT_TIER_STALE_REASON = ''validation_insufficient_tier''"

definition VALIDATION_MISSING_FOR_CURRENT_HEAD_STALE_REASON :: string where
  "VALIDATION_MISSING_FOR_CURRENT_HEAD_STALE_REASON = ''validation_missing_for_current_head''"

definition stale_reason_blocks_merge :: "string option \<Rightarrow> bool" where
  "stale_reason_blocks_merge r =
     (case r of None \<Rightarrow> False | Some c \<Rightarrow> c \<noteq> ADVISORY_PLAN_ARTIFACT_OVERLAP_REASON)"

definition stale_reason_severity :: "string option \<Rightarrow> string" where
  "stale_reason_severity r = (if stale_reason_blocks_merge r then ''blocking'' else ''advisory'')"

definition stale_reason_required_action :: "string option \<Rightarrow> string option" where
  "stale_reason_required_action r =
     (if \<not> stale_reason_blocks_merge r then None
      else if r = Some VALIDATION_INSUFFICIENT_TIER_STALE_REASON
            \<or> r = Some VALIDATION_MISSING_FOR_CURRENT_HEAD_STALE_REASON then Some ''validate''
      else if r = Some DOCS_TASK_SCOPE_VIOLATION_STALE_REASON then Some ''resolve_task_scope''
      else Some ''rebase'')"

section \<open>Tiers\<close>

definition task_class_tier :: "string option \<Rightarrow> int" where
  "task_class_tier c =
     (if c = Some ''migration_task'' then 3
      else if c = Some ''refactor_task'' \<or> c = Some ''dependency_task'' \<or> c = Some ''build_config_task''
      then 2 else 1)"

text \<open>\<open>isinstance(v, int)\<close> accepts a Python bool, whose numeric value is 0 or 1.\<close>

definition json_int :: "json \<Rightarrow> int option" where
  "json_int j = (case j of JInt i \<Rightarrow> Some i | JBool b \<Rightarrow> Some (of_bool b) | _ \<Rightarrow> None)"

definition payload_requested_tier :: "int \<Rightarrow> json option \<Rightarrow> int" where
  "payload_requested_tier dflt p =
     (case p of None \<Rightarrow> dflt
      | Some d \<Rightarrow>
          if \<not> is_mapping d then dflt
          else (case Option.bind (json_get ''requested_tier'' d) json_int of
              Some t \<Rightarrow> t
            | None \<Rightarrow>
                (case json_get ''validation'' d of None \<Rightarrow> dflt
                 | Some v \<Rightarrow>
                     if \<not> is_mapping v then dflt
                     else (case Option.bind (json_get ''requested_tier'' v) json_int of
                         Some t \<Rightarrow> t | None \<Rightarrow> dflt))))"

fun rebase_time_loop :: "instant option \<Rightarrow> Operation list \<Rightarrow> instant option" where
  "rebase_time_loop t [] = t"
| "rebase_time_loop t (op # ops) =
     (if op_type op = ''rebase'' \<and> op_status op = ''succeeded''
         \<and> (case t of None \<Rightarrow> True | Some t' \<Rightarrow> op_created_at op > t')
      then rebase_time_loop (Some (op_created_at op)) ops
      else rebase_time_loop t ops)"

definition after_rebase :: "instant option \<Rightarrow> instant \<Rightarrow> bool" where
  "after_rebase rt t = (case rt of None \<Rightarrow> True | Some r \<Rightarrow> t > r)"

definition validate_op_tier :: "int \<Rightarrow> instant option \<Rightarrow> Operation \<Rightarrow> int" where
  "validate_op_tier dflt rt op =
     (let t = payload_requested_tier dflt (op_payload op) in
      if rt \<noteq> None \<and> after_rebase rt (op_created_at op) then max t 2 else t)"

fun validate_ops_loop :: "int \<Rightarrow> instant option \<Rightarrow> int \<Rightarrow> Operation list \<Rightarrow> int" where
  "validate_ops_loop dflt rt acc [] = acc"
| "validate_ops_loop dflt rt acc (op # ops) =
     (if op_type op = ''validate'' \<and> op_status op = ''succeeded''
      then validate_ops_loop dflt rt (max acc (validate_op_tier dflt rt op)) ops
      else validate_ops_loop dflt rt acc ops)"

definition successful_validation_run_tier :: "ValidationRun \<Rightarrow> int option" where
  "successful_validation_run_tier r = (if run_status r \<noteq> ''succeeded'' then None else Some (run_tier r))"

fun runs_loop :: "(ValidationRun \<Rightarrow> bool) \<Rightarrow> instant option \<Rightarrow> int \<Rightarrow> ValidationRun list \<Rightarrow> int" where
  "runs_loop sel rt acc [] = acc"
| "runs_loop sel rt acc (r # rs) =
     (if \<not> sel r then runs_loop sel rt acc rs
      else if \<not> after_rebase rt (run_started_at r) then runs_loop sel rt acc rs
      else (case successful_validation_run_tier r of
          None \<Rightarrow> runs_loop sel rt acc rs
        | Some t \<Rightarrow> runs_loop sel rt (max acc t) rs))"

section \<open>The two staleness verdicts\<close>

definition loaded :: "'a list option \<Rightarrow> 'a list" where
  "loaded x = (case x of None \<Rightarrow> [] | Some xs \<Rightarrow> xs)"

definition required_tier :: "Workspace \<Rightarrow> int" where
  "required_tier w =
     (let rt = rebase_time_loop None (loaded (ws_operations w)) in
      if rt \<noteq> None then max (task_class_tier (task_class w)) 2 else task_class_tier (task_class w))"

definition default_op_tier :: "Workspace \<Rightarrow> int" where
  "default_op_tier w = (case validation_profile w of Some (Some t) \<Rightarrow> t | _ \<Rightarrow> 1)"

definition compute_stale_reason :: "Workspace \<Rightarrow> string option \<times> string option" where
  "compute_stale_reason w =
     (let ops = loaded (ws_operations w);
          rt = rebase_time_loop None ops;
          actual = validate_ops_loop (default_op_tier w) rt 1 ops;
          actual' = runs_loop (\<lambda>_. True) rt actual (loaded (validation_runs w))
      in if actual' < required_tier w
         then (Some VALIDATION_INSUFFICIENT_TIER_STALE_REASON, Some ''validate'')
         else (None, None))"

definition compute_stale_reason_for_attempt :: "Workspace \<Rightarrow> string \<Rightarrow> string option \<times> string option" where
  "compute_stale_reason_for_attempt w a =
     (let rt = rebase_time_loop None (loaded (ws_operations w));
          actual = runs_loop (\<lambda>r. run_attempt_id r = Some a) rt 0 (loaded (validation_runs w))
      in if actual < required_tier w
         then (Some VALIDATION_INSUFFICIENT_TIER_STALE_REASON, Some ''validate'')
         else (None, None))"

section \<open>What the loops compute\<close>

definition rebase_times :: "Operation list \<Rightarrow> instant set" where
  "rebase_times ops =
     op_created_at ` {op \<in> set ops. op_type op = ''rebase'' \<and> op_status op = ''succeeded''}"

text \<open>A run that counts: selected, succeeded, and started after every successful rebase.\<close>

definition counts :: "(ValidationRun \<Rightarrow> bool) \<Rightarrow> Workspace \<Rightarrow> ValidationRun \<Rightarrow> bool" where
  "counts sel w r =
     (sel r \<and> run_status r = ''succeeded''
      \<and> (\<forall>t \<in> rebase_times (loaded (ws_operations w)). t < run_started_at r))"

lemma rebase_times_Cons:
  "rebase_times (op # ops) =
     (if op_type op = ''rebase'' \<and> op_status op = ''succeeded''
      then insert (op_created_at op) (rebase_times ops) else rebase_times ops)"
  by (auto simp: rebase_times_def)

lemma after_rebase_loop:
  "after_rebase (rebase_time_loop t ops) x \<longleftrightarrow>
     after_rebase t x \<and> (\<forall>r \<in> rebase_times ops. r < x)"
  by (induction t ops rule: rebase_time_loop.induct)
    (auto simp: rebase_times_Cons after_rebase_def rebase_times_def split: option.splits)

lemma rebase_time_None_iff:
  "rebase_time_loop t ops = None \<longleftrightarrow> t = None \<and> rebase_times ops = {}"
  by (induction t ops rule: rebase_time_loop.induct)
    (auto simp: rebase_times_Cons rebase_times_def split: option.splits)

lemma runs_loop_ge_iff:
  "n \<le> runs_loop sel rt acc rs \<longleftrightarrow>
     n \<le> acc \<or> (\<exists>r \<in> set rs. sel r \<and> run_status r = ''succeeded''
                    \<and> after_rebase rt (run_started_at r) \<and> n \<le> run_tier r)"
  by (induction sel rt acc rs rule: runs_loop.induct)
    (auto simp: successful_validation_run_tier_def)

lemma validate_ops_loop_ge_iff:
  "n \<le> validate_ops_loop d rt acc ops \<longleftrightarrow>
     n \<le> acc \<or> (\<exists>op \<in> set ops. op_type op = ''validate'' \<and> op_status op = ''succeeded''
                    \<and> n \<le> validate_op_tier d rt op)"
  by (induction d rt acc ops rule: validate_ops_loop.induct) auto

lemma counts_iff:
  "counts sel w r \<longleftrightarrow>
     sel r \<and> run_status r = ''succeeded''
     \<and> after_rebase (rebase_time_loop None (loaded (ws_operations w))) (run_started_at r)"
  by (auto simp: counts_def after_rebase_loop) (simp_all add: after_rebase_def)

lemma required_tier_pos: "1 \<le> required_tier w"
  by (simp add: required_tier_def task_class_tier_def Let_def)

lemma required_tier_rebased:
  "rebase_times (loaded (ws_operations w)) \<noteq> {} \<Longrightarrow> 2 \<le> required_tier w"
  by (simp add: required_tier_def Let_def rebase_time_None_iff)

lemma fresh_for_attempt_iff:
  "compute_stale_reason_for_attempt w a = (None, None) \<longleftrightarrow>
     (\<exists>r \<in> set (loaded (validation_runs w)).
        counts (\<lambda>r. run_attempt_id r = Some a) w r \<and> required_tier w \<le> run_tier r)"
proof -
  have "\<not> required_tier w \<le> 0" using required_tier_pos [of w] by simp
  then show ?thesis
    unfolding compute_stale_reason_for_attempt_def Let_def counts_iff
      not_le [symmetric] runs_loop_ge_iff
    by auto
qed

lemma fresh_iff:
  "compute_stale_reason w = (None, None) \<longleftrightarrow>
     required_tier w \<le> 1
     \<or> (\<exists>op \<in> set (loaded (ws_operations w)). op_type op = ''validate'' \<and> op_status op = ''succeeded''
          \<and> required_tier w \<le> validate_op_tier (default_op_tier w)
                (rebase_time_loop None (loaded (ws_operations w))) op)
     \<or> (\<exists>r \<in> set (loaded (validation_runs w)).
          counts (\<lambda>_. True) w r \<and> required_tier w \<le> run_tier r)"
  unfolding compute_stale_reason_def Let_def counts_iff
    not_le [symmetric] runs_loop_ge_iff validate_ops_loop_ge_iff
  by auto

section \<open>Properties\<close>

text \<open>The per-attempt staleness verdict is exactly the merge rule it stands for.  An
  attempt is fresh if and only if one of its own validation runs succeeded, started after every
  successful rebase, and reached the required tier (which is at least 2 once the branch was
  rebased); otherwise the verdict is the insufficient-tier reason with the action \<open>validate\<close>.\<close>

theorem stale_for_attempt_exact:
  "compute_stale_reason_for_attempt w a =
     (if \<exists>r \<in> set (loaded (validation_runs w)).
           run_attempt_id r = Some a \<and> run_status r = ''succeeded''
           \<and> (\<nexists>t. t \<in> rebase_times (loaded (ws_operations w)) \<and> run_started_at r \<le> t)
           \<and> task_class_tier (task_class w) \<le> run_tier r
           \<and> (rebase_times (loaded (ws_operations w)) = {} \<or> 2 \<le> run_tier r)
      then (None, None)
      else (Some VALIDATION_INSUFFICIENT_TIER_STALE_REASON, Some ''validate''))"
proof -
  have tier: "required_tier w \<le> n \<longleftrightarrow>
      task_class_tier (task_class w) \<le> n
      \<and> (rebase_times (loaded (ws_operations w)) = {} \<or> 2 \<le> n)" for n
    using rebase_time_None_iff [of None "loaded (ws_operations w)"]
    by (auto simp: required_tier_def Let_def)
  have two: "compute_stale_reason_for_attempt w a \<in>
      {(None, None), (Some VALIDATION_INSUFFICIENT_TIER_STALE_REASON, Some ''validate'')}"
    by (simp add: compute_stale_reason_for_attempt_def Let_def)
  show ?thesis
    using fresh_for_attempt_iff [of w a] two
    unfolding counts_def tier by (auto simp: not_le)
qed

text \<open>
  Evidence that is fresh for one attempt is fresh for the workspace.  The
  per-attempt verdict is the stricter of the two: a workspace whose attempt is fresh is never
  reported stale by the workspace-wide verdict.\<close>

theorem attempt_fresh_workspace_fresh:
  "compute_stale_reason_for_attempt w a = (None, None) \<Longrightarrow> compute_stale_reason w = (None, None)"
  unfolding fresh_for_attempt_iff fresh_iff by (auto simp: counts_def)

definition sample_run :: ValidationRun where
  "sample_run = \<lparr>run_attempt_id = Some ''a1'', run_tier = 2, run_status = ''succeeded'', run_started_at = 7\<rparr>"

definition rebased_workspace :: Workspace where
  "rebased_workspace = (sample_workspace ''w1'' Monitoring_pr)\<lparr>
     ws_operations := Some [\<lparr>op_id = ''o1'', op_type = ''rebase'', op_status = ''succeeded'', op_payload = None,
        op_created_at = 3\<rparr>],
     validation_runs := Some [sample_run]\<rparr>"

theorem attempt_fresh_workspace_fresh_witness:
  "compute_stale_reason_for_attempt rebased_workspace ''a1'' = (None, None)
   \<and> compute_stale_reason rebased_workspace = (None, None)"
proof -
  have f: "compute_stale_reason_for_attempt rebased_workspace ''a1'' = (None, None)"
    by (simp add: compute_stale_reason_for_attempt_def rebased_workspace_def sample_workspace_def sample_run_def
        loaded_def required_tier_def task_class_tier_def successful_validation_run_tier_def after_rebase_def)
  from attempt_fresh_workspace_fresh [OF f] f show ?thesis by simp
qed

end
