(* ===== verification/Candidates.thy ===== *)
theory Candidates
  imports Merge_Eligibility
begin

text \<open>
  The merge-candidate repository of \<open>db/repositories/quality_repo.py\<close> and the canonical-attempt
  switch of \<open>db/repositories/task_repo.py\<close>.  A candidate row that a flush really changes gets a
  new \<open>updated_at\<close> (\<open>touch\<close>), as the column's \<open>onupdate\<close> does; \<open>now\<close> is the one clock
  reading of the transaction and \<open>new_id\<close> the identifier a fresh row is given.
\<close>

section \<open>Readiness flags\<close>

definition is_docs_path :: "string \<Rightarrow> bool" where
  "is_docs_path n =
     (n = [] \<or> startswith n ''docs/'' \<or> n \<in> set [''README.md'', ''CHANGELOG.md'', ''CONTRIBUTING.md'']
      \<or> endswith n ''.md'' \<or> endswith n ''.mdx'' \<or> endswith n ''.rst'')"

fun claims_non_docs_path :: "string list \<Rightarrow> bool" where
  "claims_non_docs_path [] = False"
| "claims_non_docs_path (p # ps) =
     (if is_docs_path (py_replace [CHR 0x5C] ''/'' (py_strip p)) then claims_non_docs_path ps else True)"

definition initial_scope_stale_reason :: "Workspace \<Rightarrow> string option" where
  "initial_scope_stale_reason w =
     (if task_class w \<noteq> Some ''docs_task'' then None
      else if \<not> claims_non_docs_path (owned_paths w) then None
      else Some DOCS_TASK_SCOPE_VIOLATION_STALE_REASON)"

definition sync_staleness :: "Workspace \<Rightarrow> MergeCandidate \<Rightarrow> MergeCandidate" where
  "sync_staleness w c =
     (case initial_scope_stale_reason w of
        Some r \<Rightarrow> c\<lparr>stale := True, stale_reason := Some r\<rparr>
      | None \<Rightarrow>
          (case fst (compute_stale_reason w) of
             Some r \<Rightarrow> c\<lparr>stale := True, stale_reason := Some r\<rparr>
           | None \<Rightarrow>
               if stale_reason c \<in> {Some VALIDATION_INSUFFICIENT_TIER_STALE_REASON,
                                    Some VALIDATION_MISSING_FOR_CURRENT_HEAD_STALE_REASON,
                                    Some DOCS_TASK_SCOPE_VIOLATION_STALE_REASON}
               then c\<lparr>stale := False, stale_reason := None\<rparr> else c))"

definition sync_candidate_readiness ::
    "bool \<Rightarrow> bool option \<Rightarrow> Workspace \<Rightarrow> TaskAttempt \<Rightarrow> MergeCandidate \<Rightarrow> MergeCandidate" where
  "sync_candidate_readiness sync_validation_staleness recompute_stale w a c =
     (let sync = (case recompute_stale of Some b \<Rightarrow> b | None \<Rightarrow> sync_validation_staleness);
          is_open = (mc_status c = Open);
          is_canonical = is_canonical_for_merge a;
          is_completed = (mc_status c = Merged \<or> status w = Completed);
          c1 = (if sync then sync_staleness w c else c);
          gate = (is_open \<and> status w = Monitoring_pr \<and> is_canonical
                  \<and> \<not> policy_blocked c1 \<and> \<not> stale c1);
          c2 = c1\<lparr>completed := is_completed,
                   failed_or_cancelled := (status w \<in> {Failed, Cancelled}),
                   not_canonical := \<not> is_canonical,
                   waiting_for_monitor := (is_open \<and> status w = Pushing),
                   manual_merge_required := (gate \<and> \<not> auto_merge w),
                   ready := (gate \<and> auto_merge w)\<rparr>;
          c3 = (if \<not> is_open
                then c2\<lparr>ready := False, waiting_for_monitor := False, manual_merge_required := False\<rparr>
                else c2)
      in if is_completed
         then c3\<lparr>ready := False, waiting_for_monitor := False, manual_merge_required := False,
                  failed_or_cancelled := False, stale := False, stale_reason := None\<rparr>
         else c3)"

definition sync_readiness :: "Workspace \<Rightarrow> TaskAttempt \<Rightarrow> MergeCandidate \<Rightarrow> MergeCandidate" where
  "sync_readiness = sync_candidate_readiness True None"

lemmas readiness_defs = sync_readiness_def sync_candidate_readiness_def sync_staleness_def Let_def

section \<open>Row access\<close>

definition touch :: "instant \<Rightarrow> MergeCandidate \<Rightarrow> MergeCandidate \<Rightarrow> MergeCandidate" where
  "touch now old new = (if new = old then new else new\<lparr>mc_updated_at := now\<rparr>)"

definition put_candidate :: "database \<Rightarrow> MergeCandidate \<Rightarrow> database" where
  "put_candidate db c = db\<lparr>candidates := map (\<lambda>d. if mc_id d = mc_id c then c else d) (candidates db)\<rparr>"

definition put_attempt :: "database \<Rightarrow> TaskAttempt \<Rightarrow> database" where
  "put_attempt db a = db\<lparr>attempts := map (\<lambda>b. if at_id b = at_id a then a else b) (attempts db)\<rparr>"

definition attempt_by_workspace :: "database \<Rightarrow> string \<Rightarrow> TaskAttempt option" where
  "attempt_by_workspace db wid = find (\<lambda>a. at_workspace_id a = wid) (attempts db)"

definition get_canonical_for_task :: "database \<Rightarrow> string \<Rightarrow> TaskAttempt option" where
  "get_canonical_for_task db tid =
     find (\<lambda>a. at_task_id a = tid \<and> is_canonical_for_merge a) (attempts db)"

definition candidate_by_attempt :: "database \<Rightarrow> string \<Rightarrow> MergeCandidate option" where
  "candidate_by_attempt db aid = find (\<lambda>c. mc_attempt_id c = aid) (candidates db)"

text \<open>Re-derive a candidate's flags from the workspace and attempt rows it refers to.\<close>

definition resync :: "database \<Rightarrow> MergeCandidate \<Rightarrow> MergeCandidate" where
  "resync db c =
     (case (workspaces db (mc_workspace_id c), find (\<lambda>a. at_id a = mc_attempt_id c) (attempts db)) of
        (Some w, Some a) \<Rightarrow> sync_readiness w a c
      | _ \<Rightarrow> c)"

section \<open>Operations\<close>

definition mark_canonical_for_merge :: "database \<Rightarrow> TaskAttempt \<Rightarrow> TaskAttempt option \<times> database" where
  "mark_canonical_for_merge db a =
     (let previous = get_canonical_for_task db (at_task_id a);
          db1 = (case previous of None \<Rightarrow> db
                 | Some p \<Rightarrow>
                     if at_id p \<noteq> at_id a
                     then put_attempt db (p\<lparr>is_canonical_for_merge := False,
                                            superseded_by_attempt_id := Some (at_id a)\<rparr>)
                     else db)
      in (previous, put_attempt db1 (a\<lparr>is_canonical_for_merge := True\<rparr>)))"

definition close_row :: "instant \<Rightarrow> string \<Rightarrow> database \<Rightarrow> MergeCandidate \<Rightarrow> MergeCandidate" where
  "close_row now reason db c =
     touch now c (resync db (c\<lparr>mc_status := Closed, close_reason := Some reason, closed_at := Some now\<rparr>))"

definition close_open_for_attempt :: "instant \<Rightarrow> string \<Rightarrow> string \<Rightarrow> database \<Rightarrow> database" where
  "close_open_for_attempt now aid reason db =
     (case candidate_by_attempt db aid of
        None \<Rightarrow> db
      | Some c \<Rightarrow> if mc_status c \<noteq> Open then db else put_candidate db (close_row now reason db c))"

definition close_open_for_workspace :: "instant \<Rightarrow> string \<Rightarrow> string \<Rightarrow> database \<Rightarrow> database" where
  "close_open_for_workspace now wid reason db =
     db\<lparr>candidates := map (\<lambda>c. if mc_workspace_id c = wid \<and> mc_status c = Open
                               then close_row now reason db c else c) (candidates db)\<rparr>"

fun latest_candidate :: "MergeCandidate list \<Rightarrow> MergeCandidate option" where
  "latest_candidate [] = None"
| "latest_candidate (c # cs) =
     (case latest_candidate cs of
        None \<Rightarrow> Some c
      | Some d \<Rightarrow>
          if mc_updated_at c > mc_updated_at d
             \<or> (mc_updated_at c = mc_updated_at d \<and> mc_id c \<ge> mc_id d)
          then Some c else Some d)"

definition mark_workspace_merged :: "instant \<Rightarrow> string \<Rightarrow> database \<Rightarrow> database" where
  "mark_workspace_merged now wid db =
     (case latest_candidate (filter (\<lambda>c. mc_workspace_id c = wid \<and> mc_status c = Open) (candidates db)) of
        None \<Rightarrow> db
      | Some c \<Rightarrow>
          put_candidate db (touch now c (resync db
            (c\<lparr>mc_status := Merged, close_reason := None, closed_at := None, merged_at := Some now\<rparr>))))"

definition new_candidate ::
    "string \<Rightarrow> string \<Rightarrow> TaskAttempt \<Rightarrow> Workspace \<Rightarrow> string \<Rightarrow> string option \<Rightarrow> string option \<Rightarrow> instant \<Rightarrow> MergeCandidate" where
  "new_candidate new_id tid a w url head_sha base_sha now =
     \<lparr>mc_id = new_id, mc_task_id = tid, mc_attempt_id = at_id a, mc_workspace_id = ws_id w,
      mc_pr_url = url, mc_pr_number = pr_number w, mc_repo_url = repo_url w,
      mc_base_branch = branch_base w, mc_branch_name = branch_name w,
      mc_head_sha = head_sha, mc_base_sha = base_sha, mc_status = Open, close_reason = None,
      ready = False, manual_merge_required = False, waiting_for_monitor = False,
      failed_or_cancelled = False, completed = False, not_canonical = False,
      policy_blocked = False, stale = False, stale_reason = None,
      mc_created_at = now, mc_updated_at = now, closed_at = None, merged_at = None\<rparr>"

definition reopen_candidate ::
    "string \<Rightarrow> Workspace \<Rightarrow> string \<Rightarrow> string option \<Rightarrow> string option \<Rightarrow> MergeCandidate \<Rightarrow> MergeCandidate" where
  "reopen_candidate tid w url head_sha base_sha c =
     c\<lparr>mc_task_id := tid, mc_workspace_id := ws_id w, mc_pr_url := url, mc_pr_number := pr_number w,
       mc_repo_url := repo_url w, mc_base_branch := branch_base w, mc_branch_name := branch_name w,
       mc_head_sha := (if head_sha \<noteq> None then head_sha else mc_head_sha c),
       mc_base_sha := (if base_sha \<noteq> None then base_sha else mc_base_sha c),
       mc_status := Open, close_reason := None, closed_at := None, merged_at := None\<rparr>"

datatype candidate_error = MissingPrUrl

definition create_or_update_open_for_attempt ::
    "string \<Rightarrow> instant \<Rightarrow> string \<Rightarrow> TaskAttempt \<Rightarrow> Workspace \<Rightarrow> string option \<Rightarrow> string option \<Rightarrow> database
      \<Rightarrow> candidate_error + database" where
  "create_or_update_open_for_attempt new_id now tid a w head_sha base_sha db =
     (case pr_url w of
        None \<Rightarrow> Inl MissingPrUrl
      | Some url \<Rightarrow>
          if url = [] then Inl MissingPrUrl
          else (case candidate_by_attempt db (at_id a) of
              None \<Rightarrow>
                Inr (db\<lparr>candidates := candidates db
                       @ [sync_readiness w a (new_candidate new_id tid a w url head_sha base_sha now)]\<rparr>)
            | Some c \<Rightarrow>
                Inr (put_candidate db (touch now c
                       (sync_readiness w a (reopen_candidate tid w url head_sha base_sha c))))))"

definition make_attempt_canonical_and_create_candidate ::
    "string \<Rightarrow> instant \<Rightarrow> string \<Rightarrow> TaskAttempt \<Rightarrow> Workspace \<Rightarrow> string option \<Rightarrow> string option \<Rightarrow> database
      \<Rightarrow> candidate_error + database" where
  "make_attempt_canonical_and_create_candidate new_id now tid a w head_sha base_sha db =
     (let (previous, db1) = mark_canonical_for_merge db a;
          a' = a\<lparr>is_canonical_for_merge := True\<rparr>;
          db2 = (case previous of None \<Rightarrow> db1
                 | Some p \<Rightarrow> if at_id p \<noteq> at_id a
                             then close_open_for_attempt now (at_id p) ''CANONICAL_CHANGED'' db1 else db1)
      in create_or_update_open_for_attempt new_id now tid a' w head_sha base_sha db2)"

section \<open>Identity of a candidate under the writes\<close>

text \<open>The columns that say which candidate a row is and whether it is open.\<close>

definition mc_key :: "MergeCandidate \<Rightarrow> string \<times> string \<times> string \<times> string \<times> CandidateStatus" where
  "mc_key c = (mc_id c, mc_task_id c, mc_attempt_id c, mc_workspace_id c, mc_status c)"

lemma sync_candidate_readiness_key [simp]: "mc_key (sync_candidate_readiness b r w a c) = mc_key c"
  by (simp add: readiness_defs mc_key_def split: option.splits)

lemma sync_readiness_key [simp]: "mc_key (sync_readiness w a c) = mc_key c"
  by (simp add: sync_readiness_def)

lemma touch_key [simp]: "mc_key (touch now old c) = mc_key c"
  by (simp add: touch_def mc_key_def)

lemma resync_key [simp]: "mc_key (resync db c) = mc_key c"
  by (simp add: resync_def split: option.splits)

lemma close_row_key [simp]:
  "mc_key (close_row now r db c) = (mc_id c, mc_task_id c, mc_attempt_id c, mc_workspace_id c, Closed)"
  by (simp add: close_row_def) (simp add: mc_key_def)

lemma mc_keyD:
  assumes "mc_key c = (i, t, a, w, s)"
  shows "mc_id c = i" "mc_task_id c = t" "mc_attempt_id c = a" "mc_workspace_id c = w" "mc_status c = s"
  using assms by (simp_all add: mc_key_def)

lemmas close_row_simps [simp] = close_row_key [THEN mc_keyD(1)] close_row_key [THEN mc_keyD(2)]
  close_row_key [THEN mc_keyD(3)] close_row_key [THEN mc_keyD(4)] close_row_key [THEN mc_keyD(5)]

text \<open>The staleness pair the synchronisation leaves.\<close>

definition staleness :: "Workspace \<Rightarrow> bool \<Rightarrow> string option \<Rightarrow> bool \<times> string option" where
  "staleness w s r =
     (case initial_scope_stale_reason w of Some x \<Rightarrow> (True, Some x)
      | None \<Rightarrow> (case fst (compute_stale_reason w) of Some x \<Rightarrow> (True, Some x)
          | None \<Rightarrow> if r \<in> {Some VALIDATION_INSUFFICIENT_TIER_STALE_REASON,
                             Some VALIDATION_MISSING_FOR_CURRENT_HEAD_STALE_REASON,
                             Some DOCS_TASK_SCOPE_VIOLATION_STALE_REASON}
                    then (False, None) else (s, r)))"

lemma staleness_idem: "staleness w (fst (staleness w s r)) (snd (staleness w s r)) = staleness w s r"
  by (simp add: staleness_def split: option.splits)

lemma sync_staleness_eq:
  "sync_staleness w c = c\<lparr>stale := fst (staleness w (stale c) (stale_reason c)),
                         stale_reason := snd (staleness w (stale c) (stale_reason c))\<rparr>"
  by (simp add: sync_staleness_def staleness_def split: option.splits)

lemma sync_staleness_sel [simp]:
  "mc_status (sync_staleness w c) = mc_status c" "policy_blocked (sync_staleness w c) = policy_blocked c"
  by (simp_all add: sync_staleness_eq)

text \<open>What the flags become, as one update of the staleness-synchronised row.\<close>

definition flags :: "Workspace \<Rightarrow> TaskAttempt \<Rightarrow> MergeCandidate \<Rightarrow> MergeCandidate" where
  "flags w a c =
     (let done = (mc_status c = Merged \<or> status w = Completed);
          gate = (mc_status c = Open \<and> \<not> done \<and> status w = Monitoring_pr \<and> is_canonical_for_merge a
                  \<and> \<not> policy_blocked c \<and> \<not> stale c)
      in c\<lparr>ready := (gate \<and> auto_merge w), manual_merge_required := (gate \<and> \<not> auto_merge w),
           waiting_for_monitor := (mc_status c = Open \<and> status w = Pushing),
           failed_or_cancelled := (\<not> done \<and> status w \<in> {Failed, Cancelled}),
           completed := done, not_canonical := \<not> is_canonical_for_merge a,
           stale := (\<not> done \<and> stale c), stale_reason := (if done then None else stale_reason c)\<rparr>)"

lemma sync_readiness_flags: "sync_readiness w a c = flags w a (sync_staleness w c)"
  unfolding sync_readiness_def sync_candidate_readiness_def flags_def Let_def
  by (cases "status w"; cases "mc_status c") simp_all

lemma sync_readiness_idem: "sync_readiness w a (sync_readiness w a c) = sync_readiness w a c"
  by (cases "mc_status c = Merged \<or> status w = Completed")
    (auto simp: sync_readiness_flags sync_staleness_eq flags_def Let_def staleness_idem)

section \<open>Properties\<close>

text \<open>
  Property C16: a candidate is offered for automatic merge exactly when it may be merged.  After the
  flags are re-derived, \<open>ready\<close> holds if and only if the candidate is open, its workspace monitors
  the pull request with automatic merge on, its attempt is canonical, no policy blocks it, neither
  the docs scope nor the validation tier makes it stale, and it was not already stale for another
  reason.  \<open>manual_merge_required\<close> is the same with automatic merge off, so the two exclude each
  other, and re-deriving twice changes nothing.
\<close>

theorem candidate_readiness_exact:
  "ready (sync_readiness w a c) =
     (mc_status c = Open \<and> status w = Monitoring_pr \<and> auto_merge w \<and> is_canonical_for_merge a
      \<and> \<not> policy_blocked c \<and> initial_scope_stale_reason w = None \<and> fst (compute_stale_reason w) = None
      \<and> (if stale c then stale_reason c \<in> {Some VALIDATION_INSUFFICIENT_TIER_STALE_REASON,
            Some VALIDATION_MISSING_FOR_CURRENT_HEAD_STALE_REASON, Some DOCS_TASK_SCOPE_VIOLATION_STALE_REASON}
         else True))
   \<and> manual_merge_required (sync_readiness w a c) =
       ready (sync_readiness (w\<lparr>auto_merge := \<not> auto_merge w\<rparr>) a c)
   \<and> \<not> (ready (sync_readiness w a c) \<and> manual_merge_required (sync_readiness w a c))
   \<and> sync_readiness w a (sync_readiness w a c) = sync_readiness w a c"
proof (intro conjI)
  have flip: "initial_scope_stale_reason (w\<lparr>auto_merge := b\<rparr>) = initial_scope_stale_reason w"
    "compute_stale_reason (w\<lparr>auto_merge := b\<rparr>) = compute_stale_reason w" for b
    by (simp_all add: initial_scope_stale_reason_def compute_stale_reason_def default_op_tier_def required_tier_def Let_def)
  show "ready (sync_readiness w a c) =
     (mc_status c = Open \<and> status w = Monitoring_pr \<and> auto_merge w \<and> is_canonical_for_merge a
      \<and> \<not> policy_blocked c \<and> initial_scope_stale_reason w = None \<and> fst (compute_stale_reason w) = None
      \<and> (if stale c then stale_reason c \<in> {Some VALIDATION_INSUFFICIENT_TIER_STALE_REASON,
            Some VALIDATION_MISSING_FOR_CURRENT_HEAD_STALE_REASON, Some DOCS_TASK_SCOPE_VIOLATION_STALE_REASON}
         else True))"
    by (auto simp: readiness_defs split: option.splits)
  show "manual_merge_required (sync_readiness w a c) =
       ready (sync_readiness (w\<lparr>auto_merge := \<not> auto_merge w\<rparr>) a c)"
    by (simp add: readiness_defs flip split: option.splits)
  show "\<not> (ready (sync_readiness w a c) \<and> manual_merge_required (sync_readiness w a c))"
    by (simp add: readiness_defs)
  show "sync_readiness w a (sync_readiness w a c) = sync_readiness w a c"
    by (rule sync_readiness_idem)
qed

end
