(* ===== verification/Merge_Invariant.thy ===== *)
theory Merge_Invariant
  imports Candidates
begin

text \<open>
  The merge queue admits one candidate per task: the invariant on attempts and candidates, and its
  preservation by every write of the candidate repository.
\<close>

section \<open>The merge-queue invariant\<close>

text \<open>
  Row identities are unique (\<open>uq_merge_candidates_attempt_id\<close> and the primary keys), a task has at
  most one canonical attempt, and every open candidate belongs to the canonical attempt of its task.
\<close>

definition canonical_of :: "database \<Rightarrow> MergeCandidate \<Rightarrow> bool" where
  "canonical_of db c =
     (\<exists>a \<in> set (attempts db). at_id a = mc_attempt_id c \<and> at_task_id a = mc_task_id c
                              \<and> is_canonical_for_merge a)"

definition attempts_ok :: "database \<Rightarrow> bool" where
  "attempts_ok db =
     (distinct (map at_id (attempts db))
      \<and> (\<forall>a \<in> set (attempts db). \<forall>b \<in> set (attempts db).
            is_canonical_for_merge a \<longrightarrow> is_canonical_for_merge b \<longrightarrow> at_task_id a = at_task_id b
            \<longrightarrow> at_id a = at_id b))"

definition candidates_ok :: "database \<Rightarrow> bool" where
  "candidates_ok db =
     (distinct (map mc_id (candidates db)) \<and> distinct (map mc_attempt_id (candidates db))
      \<and> (\<forall>c \<in> set (candidates db). mc_status c = Open \<longrightarrow> canonical_of db c))"

definition merge_inv :: "database \<Rightarrow> bool" where
  "merge_inv db = (attempts_ok db \<and> candidates_ok db)"

lemma distinct_map_same: "distinct (map f xs) \<Longrightarrow> x \<in> set xs \<Longrightarrow> y \<in> set xs \<Longrightarrow> f x = f y \<Longrightarrow> x = y"
  by (auto simp: distinct_map inj_on_def)

lemma find_SomeD: "find P xs = Some x \<Longrightarrow> x \<in> set xs \<and> P x"
  by (auto simp: find_Some_iff)

text \<open>Two open candidates of one task are the same row.\<close>

lemma merge_inv_open_unique:
  assumes inv: "merge_inv db" and c: "c \<in> set (candidates db)" and d: "d \<in> set (candidates db)"
    and "mc_status c = Open" "mc_status d = Open" "mc_task_id c = mc_task_id d"
  shows "c = d"
proof -
  from assms obtain a b where "a \<in> set (attempts db)" "at_id a = mc_attempt_id c"
      "at_task_id a = mc_task_id c" "is_canonical_for_merge a"
      "b \<in> set (attempts db)" "at_id b = mc_attempt_id d" "at_task_id b = mc_task_id d"
      "is_canonical_for_merge b"
    unfolding merge_inv_def candidates_ok_def canonical_of_def by meson
  with inv assms(6) have "mc_attempt_id c = mc_attempt_id d"
    unfolding merge_inv_def attempts_ok_def by metis
  with inv c d show ?thesis
    unfolding merge_inv_def candidates_ok_def by (blast intro: distinct_map_same)
qed

lemma attempts_ok_cong: "attempts db' = attempts db \<Longrightarrow> attempts_ok db' = attempts_ok db"
  by (simp only: attempts_ok_def)

lemma merge_inv_canonical:
  "merge_inv db \<Longrightarrow> c \<in> set (candidates db) \<Longrightarrow> mc_status c = Open \<Longrightarrow> canonical_of db c"
  by (simp add: merge_inv_def candidates_ok_def)

text \<open>A rewrite of the candidate list that keeps identities and opens canonical rows only.\<close>

lemma merge_inv_map:
  assumes inv: "attempts_ok db" "distinct (map mc_id (candidates db))"
      "distinct (map mc_attempt_id (candidates db))"
    and keep: "\<And>c. c \<in> set (candidates db) \<Longrightarrow> mc_id (f c) = mc_id c \<and> mc_attempt_id (f c) = mc_attempt_id c"
    and opens: "\<And>c. c \<in> set (candidates db) \<Longrightarrow> mc_status (f c) = Open \<Longrightarrow> canonical_of db (f c)"
    and att: "attempts db' = attempts db" and cand: "candidates db' = map f (candidates db)"
  shows "merge_inv db'"
proof -
  have ids: "map mc_id (candidates db') = map mc_id (candidates db)"
    "map mc_attempt_id (candidates db') = map mc_attempt_id (candidates db)"
    by (auto simp: cand keep)
  have "canonical_of db' c = canonical_of db c" for c by (simp add: canonical_of_def att)
  with opens have "\<forall>c \<in> set (candidates db'). mc_status c = Open \<longrightarrow> canonical_of db' c"
    by (auto simp: cand)
  with inv ids show ?thesis
    by (simp only: merge_inv_def attempts_ok_def candidates_ok_def att) blast
qed

lemmas merge_invD = merge_inv_def [THEN iffD1, THEN conjunct1]
  merge_inv_def [THEN iffD1, THEN conjunct2, unfolded candidates_ok_def, THEN conjunct1]
  merge_inv_def [THEN iffD1, THEN conjunct2, unfolded candidates_ok_def, THEN conjunct2, THEN conjunct1]

lemma put_candidate_inv:
  assumes inv: "merge_inv db" and c: "c \<in> set (candidates db)"
    and "mc_id c' = mc_id c" "mc_attempt_id c' = mc_attempt_id c"
    and "mc_status c' = Open \<Longrightarrow> canonical_of db c'"
  shows "merge_inv (put_candidate db c')"
proof (rule merge_inv_map [OF merge_invD [OF inv]])
  have only: "d = c" if "d \<in> set (candidates db)" "mc_id d = mc_id c'" for d
    using distinct_map_same [OF merge_invD(2) [OF inv] that(1) c] that(2) assms(3) by simp
  show "candidates (put_candidate db c') = map (\<lambda>d. if mc_id d = mc_id c' then c' else d) (candidates db)"
    "attempts (put_candidate db c') = attempts db"
    by (simp_all add: put_candidate_def)
  fix d assume d: "d \<in> set (candidates db)"
  show "mc_id (if mc_id d = mc_id c' then c' else d) = mc_id d
      \<and> mc_attempt_id (if mc_id d = mc_id c' then c' else d) = mc_attempt_id d"
    using only [OF d] assms(3,4) by (cases "mc_id d = mc_id c'") auto
  show "canonical_of db (if mc_id d = mc_id c' then c' else d)"
    if "mc_status (if mc_id d = mc_id c' then c' else d) = Open"
    using that assms(5) merge_inv_canonical [OF inv d] by (simp split: if_splits)
qed

lemma close_open_for_workspace_inv [intro]:
  "merge_inv db \<Longrightarrow> merge_inv (close_open_for_workspace now wid r db)"
  by (rule merge_inv_map [where db = db and f = "\<lambda>c. if mc_workspace_id c = wid \<and> mc_status c = Open
        then close_row now r db c else c"])
    (auto simp: close_open_for_workspace_def merge_invD merge_inv_canonical)

text \<open>Closing the candidate of an attempt, seen as a rewrite of the whole list.\<close>

lemma close_open_for_attempt_candidates:
  assumes "distinct (map mc_id (candidates db))" "distinct (map mc_attempt_id (candidates db))"
  shows "candidates (close_open_for_attempt now aid r db) =
    map (\<lambda>c. if mc_attempt_id c = aid \<and> mc_status c = Open then close_row now r db c else c) (candidates db)"
proof (cases "candidate_by_attempt db aid")
  case None
  then have "mc_attempt_id c \<noteq> aid" if "c \<in> set (candidates db)" for c
    using that by (auto simp: candidate_by_attempt_def find_None_iff)
  then have "map (\<lambda>c. if mc_attempt_id c = aid \<and> mc_status c = Open then close_row now r db c else c)
      (candidates db) = candidates db"
    by (intro map_idI) auto
  with None show ?thesis by (simp add: close_open_for_attempt_def)
next
  case (Some c)
  then have c: "c \<in> set (candidates db)" "mc_attempt_id c = aid"
    by (auto simp: candidate_by_attempt_def dest!: find_SomeD)
  have "(if mc_id d = mc_id c then close_row now r db c else d) =
      (if mc_attempt_id d = aid \<and> mc_status d = Open then close_row now r db d else d)"
    if d: "d \<in> set (candidates db)" and o: "mc_status c = Open" for d
    using distinct_map_same [OF assms(1) d c(1)] distinct_map_same [OF assms(2) d c(1)] c o by metis
  moreover have "\<not> (mc_attempt_id d = aid \<and> mc_status d = Open)"
    if d: "d \<in> set (candidates db)" and o: "mc_status c \<noteq> Open" for d
    using distinct_map_same [OF assms(2) d c(1)] c o by metis
  ultimately show ?thesis using Some
    by (cases "mc_status c = Open")
      (auto simp: close_open_for_attempt_def put_candidate_def intro!: map_idI [symmetric])
qed

lemma close_open_for_attempt_attempts [simp]:
  "attempts (close_open_for_attempt now aid r db) = attempts db"
  by (simp add: close_open_for_attempt_def put_candidate_def split: option.splits)

lemma latest_candidate_mem: "latest_candidate cs = Some c \<Longrightarrow> c \<in> set cs"
  by (induction cs arbitrary: c) (auto split: option.splits if_splits)

lemma merged_row_key:
  "mc_key (touch now c (resync db (c\<lparr>mc_status := Merged, close_reason := None,
      closed_at := None, merged_at := Some now\<rparr>)))
    = (mc_id c, mc_task_id c, mc_attempt_id c, mc_workspace_id c, Merged)"
  by simp (simp add: mc_key_def)

lemma mark_workspace_merged_inv [intro]:
  "merge_inv db \<Longrightarrow> merge_inv (mark_workspace_merged now wid db)"
  by (auto simp: mark_workspace_merged_def mc_keyD [OF merged_row_key] intro!: put_candidate_inv
        dest!: latest_candidate_mem split: option.splits)

lemma reopened_row_key:
  "mc_key (touch now c (sync_readiness w a (reopen_candidate tid w url h b c)))
    = (mc_id c, tid, mc_attempt_id c, ws_id w, Open)"
  by simp (simp add: mc_key_def reopen_candidate_def)

lemma new_row_key:
  "mc_key (sync_readiness w a (new_candidate i tid a w url h b now)) = (i, tid, at_id a, ws_id w, Open)"
  by simp (simp add: mc_key_def new_candidate_def)

lemma create_or_update_inv:
  assumes inv: "merge_inv db" and fresh: "new_id \<notin> mc_id ` set (candidates db)"
    and canon: "b \<in> set (attempts db)" "at_id b = at_id a" "at_task_id b = tid" "is_canonical_for_merge b"
    and res: "create_or_update_open_for_attempt new_id now tid a w h bs db = Inr db'"
  shows "merge_inv db'"
proof (cases "candidate_by_attempt db (at_id a)")
  case (Some c)
  with res have db': "db' = put_candidate db (touch now c
      (sync_readiness w a (reopen_candidate tid w (the (pr_url w)) h bs c)))"
    by (auto simp: create_or_update_open_for_attempt_def split: option.splits if_splits)
  from Some have "c \<in> set (candidates db)" "mc_attempt_id c = at_id a"
    by (auto simp: candidate_by_attempt_def dest!: find_SomeD)
  with canon show ?thesis unfolding db'
    by (intro put_candidate_inv [OF inv]) (auto simp: mc_keyD [OF reopened_row_key] canonical_of_def)
next
  case None
  define n where "n = sync_readiness w a (new_candidate new_id tid a w (the (pr_url w)) h bs now)"
  from res None have db': "db' = db\<lparr>candidates := candidates db @ [n]\<rparr>"
    by (auto simp: n_def create_or_update_open_for_attempt_def split: option.splits if_splits)
  have n: "mc_id n = new_id" "mc_attempt_id n = at_id a" "mc_task_id n = tid"
    unfolding n_def by (rule mc_keyD [OF new_row_key])+
  have a: "at_id a \<notin> mc_attempt_id ` set (candidates db)"
    using None by (auto simp: candidate_by_attempt_def find_None_iff)
  have same: "canonical_of db' c = canonical_of db c" for c
    by (simp add: db' canonical_of_def)
  have "canonical_of db n"
    unfolding canonical_of_def n using canon by blast
  then have "\<forall>c \<in> set (candidates db'). mc_status c = Open \<longrightarrow> canonical_of db' c"
    unfolding same using merge_inv_canonical [OF inv] by (simp add: db')
  moreover have "distinct (map mc_id (candidates db'))" "distinct (map mc_attempt_id (candidates db'))"
    using merge_invD(2,3) [OF inv] fresh a by (simp_all add: db' n)
  moreover have "attempts_ok db'"
    using merge_invD(1) [OF inv] attempts_ok_cong [of db' db] by (simp add: db')
  ultimately show ?thesis
    unfolding merge_inv_def candidates_ok_def by blast
qed

section \<open>Switching the canonical attempt\<close>

definition switch_canonical :: "TaskAttempt \<Rightarrow> TaskAttempt \<Rightarrow> TaskAttempt" where
  "switch_canonical a b =
     (if at_id b = at_id a then b\<lparr>is_canonical_for_merge := True\<rparr>
      else if at_task_id b = at_task_id a \<and> is_canonical_for_merge b
      then b\<lparr>is_canonical_for_merge := False, superseded_by_attempt_id := Some (at_id a)\<rparr>
      else b)"

lemma switch_canonical_id [simp]:
  "at_id (switch_canonical a b) = at_id b" "at_task_id (switch_canonical a b) = at_task_id b"
  by (simp_all add: switch_canonical_def)

lemma switch_canonical_canon [simp]:
  "is_canonical_for_merge (switch_canonical a b) \<longleftrightarrow>
     at_id b = at_id a \<or> is_canonical_for_merge b \<and> at_task_id b \<noteq> at_task_id a"
  by (auto simp: switch_canonical_def)

lemma attempts_same:
  "attempts_ok db \<Longrightarrow> b \<in> set (attempts db) \<Longrightarrow> c \<in> set (attempts db) \<Longrightarrow> at_id b = at_id c \<Longrightarrow> b = c"
  by (auto simp: attempts_ok_def dest: distinct_map_same)

lemma canonical_same:
  assumes "attempts_ok db" "b \<in> set (attempts db)" "c \<in> set (attempts db)"
    and "is_canonical_for_merge b" "is_canonical_for_merge c" "at_task_id b = at_task_id c"
  shows "b = c"
proof -
  have "at_id b = at_id c" using assms unfolding attempts_ok_def by blast
  with assms show ?thesis by (blast intro: attempts_same)
qed

lemma mark_canonical_attempts:
  assumes ok: "attempts_ok db" and a: "a \<in> set (attempts db)"
  shows "attempts (snd (mark_canonical_for_merge db a)) = map (switch_canonical a) (attempts db)"
proof (cases "get_canonical_for_task db (at_task_id a)")
  case None
  then have none: "\<not> (at_task_id b = at_task_id a \<and> is_canonical_for_merge b)"
    if "b \<in> set (attempts db)" for b
    using that by (auto simp: get_canonical_for_task_def find_None_iff)
  have "(if at_id b = at_id a then a\<lparr>is_canonical_for_merge := True\<rparr> else b) = switch_canonical a b"
    if "b \<in> set (attempts db)" for b
    using none [OF that] attempts_same [OF ok that a] by (auto simp: switch_canonical_def)
  with None show ?thesis
    by (simp add: mark_canonical_for_merge_def put_attempt_def Let_def)
next
  case (Some p)
  then have p: "p \<in> set (attempts db)" "at_task_id p = at_task_id a" "is_canonical_for_merge p"
    by (auto simp: get_canonical_for_task_def dest!: find_SomeD)
  define p' where "p' = (if at_id p \<noteq> at_id a
    then p\<lparr>is_canonical_for_merge := False, superseded_by_attempt_id := Some (at_id a)\<rparr> else p)"
  have "(if at_id b = at_id a then a\<lparr>is_canonical_for_merge := True\<rparr>
         else if at_id b = at_id p then p' else b) = switch_canonical a b"
    if b: "b \<in> set (attempts db)" for b
  proof -
    consider "at_id b = at_id a" | "at_id b \<noteq> at_id a" "at_id b = at_id p"
      | "at_id b \<noteq> at_id a" "at_id b \<noteq> at_id p" by blast
    then show ?thesis
    proof cases
      case 1
      with attempts_same [OF ok b a] have "b = a" by simp
      then show ?thesis by (simp add: switch_canonical_def)
    next
      case 2
      with attempts_same [OF ok b p(1)] have "b = p" by simp
      with 2 p show ?thesis by (simp add: switch_canonical_def p'_def)
    next
      case 3
      then have "\<not> (at_task_id b = at_task_id a \<and> is_canonical_for_merge b)"
        using canonical_same [OF ok b p(1)] p by auto
      with 3 show ?thesis by (auto simp: switch_canonical_def)
    qed
  qed
  then have "map (\<lambda>b. if at_id b = at_id a then a\<lparr>is_canonical_for_merge := True\<rparr>
      else if at_id b = at_id p then p' else b) (attempts db) = map (switch_canonical a) (attempts db)"
    by simp
  moreover have "attempts (snd (mark_canonical_for_merge db a)) =
      map (\<lambda>b. if at_id b = at_id a then a\<lparr>is_canonical_for_merge := True\<rparr>
        else if at_id b = at_id p then p' else b) (attempts db)"
    using attempts_same [OF ok _ p(1)]
    by (cases "at_id p = at_id a")
      (simp_all add: mark_canonical_for_merge_def put_attempt_def Let_def Some p'_def)
  ultimately show ?thesis by simp
qed

lemma mark_canonical_candidates [simp]:
  "candidates (snd (mark_canonical_for_merge db a)) = candidates db"
  by (simp add: mark_canonical_for_merge_def put_attempt_def Let_def split: option.splits)

lemma mark_canonical_attempts_ok:
  assumes ok: "attempts_ok db" and a: "a \<in> set (attempts db)"
  shows "attempts_ok (snd (mark_canonical_for_merge db a))"
proof -
  have step: "at_id x = at_id y"
    if x: "x \<in> set (attempts db)" and y: "y \<in> set (attempts db)" and t: "at_task_id x = at_task_id y"
      and cx: "is_canonical_for_merge (switch_canonical a x)"
      and cy: "is_canonical_for_merge (switch_canonical a y)" for x y
  proof (rule ccontr)
    assume ne: "at_id x \<noteq> at_id y"
    have tx: "at_task_id x = at_task_id a" if "at_id x = at_id a"
      using attempts_same [OF ok x a that] by simp
    have ty: "at_task_id y = at_task_id a" if "at_id y = at_id a"
      using attempts_same [OF ok y a that] by simp
    from cx cy t ne tx ty have "is_canonical_for_merge x \<and> is_canonical_for_merge y"
      unfolding switch_canonical_canon by metis
    with canonical_same [OF ok x y] t have "x = y" by simp
    with ne show False by simp
  qed
  have "\<forall>x \<in> set (map (switch_canonical a) (attempts db)).
      \<forall>y \<in> set (map (switch_canonical a) (attempts db)). is_canonical_for_merge x
        \<longrightarrow> is_canonical_for_merge y \<longrightarrow> at_task_id x = at_task_id y \<longrightarrow> at_id x = at_id y"
  proof (intro ballI impI)
    fix u v assume "u \<in> set (map (switch_canonical a) (attempts db))"
      "v \<in> set (map (switch_canonical a) (attempts db))"
      and c: "is_canonical_for_merge u" "is_canonical_for_merge v" "at_task_id u = at_task_id v"
    then obtain x y where xy: "x \<in> set (attempts db)" "y \<in> set (attempts db)"
      "u = switch_canonical a x" "v = switch_canonical a y" by auto
    with c step [OF xy(1,2)] show "at_id u = at_id v" by (simp only: switch_canonical_id)
  qed
  moreover have "map at_id (map (switch_canonical a) (attempts db)) = map at_id (attempts db)" by simp
  moreover have "distinct (map at_id (attempts db))" using ok by (simp add: attempts_ok_def)
  ultimately show ?thesis
    unfolding attempts_ok_def mark_canonical_attempts [OF ok a] by (simp only:)
qed

text \<open>After the switch an open candidate is still canonical unless it is the demoted attempt's.\<close>

lemma mark_canonical_keeps:
  assumes inv: "merge_inv db" and a: "a \<in> set (attempts db)"
    and c: "c \<in> set (candidates db)" "mc_status c = Open"
    and other: "\<And>p. fst (mark_canonical_for_merge db a) = Some p \<Longrightarrow> at_id p \<noteq> at_id a \<Longrightarrow> mc_attempt_id c \<noteq> at_id p"
  shows "canonical_of (snd (mark_canonical_for_merge db a)) c"
proof -
  from inv have ok: "attempts_ok db" by (simp add: merge_inv_def)
  from inv c obtain b where b: "b \<in> set (attempts db)" "at_id b = mc_attempt_id c"
      "at_task_id b = mc_task_id c" "is_canonical_for_merge b"
    by (auto simp: merge_inv_def candidates_ok_def canonical_of_def)
  have "at_id b = at_id a \<or> at_task_id b \<noteq> at_task_id a"
  proof (rule ccontr)
    assume "\<not> ?thesis"
    then have n: "at_id b \<noteq> at_id a" "at_task_id b = at_task_id a" by auto
    obtain p where p: "get_canonical_for_task db (at_task_id a) = Some p"
      using b n by (cases "get_canonical_for_task db (at_task_id a)")
        (auto simp: get_canonical_for_task_def find_None_iff)
    then have "p \<in> set (attempts db)" "at_task_id p = at_task_id a" "is_canonical_for_merge p"
      by (auto simp: get_canonical_for_task_def dest!: find_SomeD)
    with canonical_same [OF ok b(1)] b n have "b = p" by simp
    with other [of p] p n b show False by (simp add: mark_canonical_for_merge_def Let_def)
  qed
  with b(4) have "is_canonical_for_merge (switch_canonical a b)" by auto
  with b show ?thesis
    unfolding canonical_of_def mark_canonical_attempts [OF ok a] by force
qed

lemma make_canonical_inv:
  assumes inv: "merge_inv db" and a: "a \<in> set (attempts db)"
    and fresh: "new_id \<notin> mc_id ` set (candidates db)"
    and res: "make_attempt_canonical_and_create_candidate new_id now (at_task_id a) a w h bs db = Inr db'"
  shows "merge_inv db'"
proof -
  let ?m = "mark_canonical_for_merge db a"
  define db2 where "db2 = (case fst ?m of None \<Rightarrow> snd ?m
      | Some p \<Rightarrow> if at_id p \<noteq> at_id a
                  then close_open_for_attempt now (at_id p) ''CANONICAL_CHANGED'' (snd ?m) else snd ?m)"
  define g where "g c = (case fst ?m of Some p \<Rightarrow>
      if at_id p \<noteq> at_id a \<and> mc_attempt_id c = at_id p \<and> mc_status c = Open
      then close_row now ''CANONICAL_CHANGED'' (snd ?m) c else c | None \<Rightarrow> c)" for c
  have att: "attempts db2 = attempts (snd ?m)"
    by (simp add: db2_def split: option.splits)
  have cand: "candidates db2 = map g (candidates (snd ?m))"
    using merge_invD(2,3) [OF inv]
    by (auto simp: db2_def g_def close_open_for_attempt_candidates map_idI split: option.splits)
  have "canonical_of (snd ?m) (g c)" if "c \<in> set (candidates db)" "mc_status (g c) = Open" for c
  proof -
    from that(2) have "g c = c" "mc_status c = Open"
      by (auto simp: g_def split: option.splits if_splits)
    moreover from that(2) have "mc_attempt_id c \<noteq> at_id p" if "fst ?m = Some p" "at_id p \<noteq> at_id a" for p
      using that by (auto simp: g_def split: if_splits)
    ultimately show ?thesis using mark_canonical_keeps [OF inv a that(1)] by simp
  qed
  moreover have gid: "mc_id (g c) = mc_id c \<and> mc_attempt_id (g c) = mc_attempt_id c" for c
    by (simp add: g_def split: option.splits)
  ultimately have inv2: "merge_inv db2"
    using merge_inv_map [OF mark_canonical_attempts_ok [OF merge_invD(1) [OF inv] a] _ _ _ _ att cand]
      merge_invD(2,3) [OF inv] by simp
  have ids: "mc_id ` set (candidates db2) = mc_id ` set (candidates db)"
    by (simp add: cand gid image_image)
  have sw: "switch_canonical a a \<in> set (attempts db2)"
    using a by (simp add: att mark_canonical_attempts [OF merge_invD(1) [OF inv] a])
  from res have "create_or_update_open_for_attempt new_id now (at_task_id a)
      (a\<lparr>is_canonical_for_merge := True\<rparr>) w h bs db2 = Inr db'"
    by (simp add: make_attempt_canonical_and_create_candidate_def db2_def Let_def case_prod_beta)
  from create_or_update_inv [OF inv2 _ sw _ _ _ this] show ?thesis
    using fresh ids by simp
qed

end
