(* ===== verification/Transitions.thy ===== *)
theory Transitions
  imports Merge_Invariant
begin

text \<open>
  Status changes of a workspace row: \<open>WorkspaceRepository.transition\<close>, \<open>transition_if_current\<close>
  (in its row-locking and its single-guarded-update form), event-order reservation and the merge
  candidate and reservation side effects (\<open>db/repositories/workspace_repo.py\<close>), with the work gate
  of \<open>db/repositories/workspace_recovery.py\<close>.  A guarded SQL statement is a function of the
  database that leaves it unchanged and returns \<open>None\<close> when it matches no row; \<open>now\<close> is the
  transaction's clock reading and \<open>new_id\<close> the identifier of a candidate it may create.
\<close>

section \<open>The work gate\<close>

text \<open>\<open>column[...].as_string()\<close>: SQL \<open>NULL\<close> for a missing key and for JSON null.\<close>

definition json_path_null :: "json option \<Rightarrow> bool" where
  "json_path_null j = (case j of None \<Rightarrow> True | Some v \<Rightarrow> v = JNull)"

definition recovery_allows_work :: "database \<Rightarrow> Workspace \<Rightarrow> bool" where
  "recovery_allows_work db w =
     (\<not> restore_quarantine db
      \<and> \<not> list_ex (\<lambda>h. hold_family h = ''tasks'' \<and> hold_state h = ''held''
             \<and> list_ex (\<lambda>a. at_task_id a = hold_row_id h \<and> at_workspace_id a = ws_id w) (attempts db))
           (restore_holds db)
      \<and> (let recovery = json_get ''hosted_recovery'' (task_policy w) in
          (json_path_null (json_get ''hosted_node'' (task_policy w))
           \<and> json_path_null (Option.bind recovery (json_get ''restore_id'')))
          \<or> Option.bind recovery (json_get ''disposition'') \<noteq> Some (JStr ''attention'')))"

section \<open>Event orders\<close>

definition reserve_workspace_event_orders :: "int \<Rightarrow> bool \<Rightarrow> Workspace \<Rightarrow> int \<times> Workspace" where
  "reserve_workspace_event_orders count bump_version w =
     (let seq = event_sequence w + count;
          w' = w\<lparr>event_sequence := seq, version := (if bump_version then version w + 1 else version w)\<rparr>
      in (seq - count + 1, w'))"

record WorkspaceEventCreate =
  ec_type :: string
  ec_reason_code :: "string option"
  ec_payload :: "json option"

fun number_events :: "WorkspaceStatus \<Rightarrow> int \<Rightarrow> WorkspaceEventCreate list \<Rightarrow> WorkspaceEvent list" where
  "number_events s n [] = []"
| "number_events s n (e # es) =
     \<lparr>event_type = ec_type e, old_state = s, new_state = s, event_reason_code = ec_reason_code e,
      event_payload = ec_payload e, event_order = n\<rparr> # number_events s (n + 1) es"

definition add_events :: "WorkspaceEventCreate list \<Rightarrow> Workspace \<Rightarrow> Workspace" where
  "add_events es w =
     (if es = [] then w
      else (let (first, w') = reserve_workspace_event_orders (int (length es)) False w
            in w'\<lparr>events := events w' @ number_events (status w') first es\<rparr>))"

definition add_event :: "string \<Rightarrow> string option \<Rightarrow> json option \<Rightarrow> Workspace \<Rightarrow> Workspace" where
  "add_event ty reason payload w =
     add_events [\<lparr>ec_type = ty, ec_reason_code = reason, ec_payload = payload\<rparr>] w"

definition add_event_with_states ::
    "string \<Rightarrow> WorkspaceStatus \<Rightarrow> WorkspaceStatus \<Rightarrow> string option \<Rightarrow> json option \<Rightarrow> Workspace \<Rightarrow> Workspace" where
  "add_event_with_states ty old new reason payload w =
     (let (n, w') = reserve_workspace_event_orders 1 False w
      in w'\<lparr>events := events w' @ [\<lparr>event_type = ty, old_state = old, new_state = new,
              event_reason_code = reason, event_payload = payload, event_order = n\<rparr>]\<rparr>)"

definition advance_workspace_version :: "Workspace \<Rightarrow> int \<times> Workspace" where
  "advance_workspace_version w = (version w + 1, w\<lparr>version := version w + 1\<rparr>)"

section \<open>Side effects of a status change\<close>

definition transition_releases_provisioning_execution_claim :: "WorkspaceStatus \<Rightarrow> WorkspaceStatus \<Rightarrow> bool" where
  "transition_releases_provisioning_execution_claim old to = (old = Provisioning \<and> to \<noteq> Provisioning)"

definition filesystem_terminal :: "WorkspaceStatus list" where
  "filesystem_terminal = [Completed, Failed, Cancelled, Destroyed]"

definition transition_invalidates_filesystem_reclamation :: "WorkspaceStatus \<Rightarrow> WorkspaceStatus \<Rightarrow> bool" where
  "transition_invalidates_filesystem_reclamation old to =
     (old \<in> set filesystem_terminal \<and> to \<notin> set filesystem_terminal)"

definition releases_resource_reservation :: "WorkspaceStatus \<Rightarrow> bool" where
  "releases_resource_reservation s = (s \<in> set [Completed, Failed, Cancelled, Destroyed])"

definition candidate_terminal_close_reason :: "WorkspaceStatus \<Rightarrow> string" where
  "candidate_terminal_close_reason s =
     (if s = Failed then ''WORKSPACE_FAILED''
      else if s = Cancelled then ''WORKSPACE_CANCELLED''
      else ''WORKSPACE_'' @ py_upper (status_value s))"

definition release_active_for_workspace :: "instant \<Rightarrow> string \<Rightarrow> database \<Rightarrow> database" where
  "release_active_for_workspace now wid db =
     db\<lparr>reservations := map (\<lambda>r. if rr_workspace_id r = wid \<and> released_at r = None
                                 then r\<lparr>released_at := Some now\<rparr> else r) (reservations db)\<rparr>"

definition sync_merge_candidate_lifecycle ::
    "string \<Rightarrow> instant \<Rightarrow> Workspace \<Rightarrow> TaskAttempt option \<Rightarrow> WorkspaceStatus \<Rightarrow> database \<Rightarrow> database" where
  "sync_merge_candidate_lifecycle new_id now w attempt to db =
     (if to = Monitoring_pr then
        (case attempt of
           None \<Rightarrow> db
         | Some a \<Rightarrow>
             if pr_url w = None \<or> pr_url w = Some [] then db
             else if at_task_id a \<notin> tk_id ` set (tasks db) then db
             else (case make_attempt_canonical_and_create_candidate new_id now (at_task_id a) a w
                          (monitor_last_commit_sha w) (base_commit w) db of
                     Inr db' \<Rightarrow> db' | Inl _ \<Rightarrow> db))
      else if to = Completed then mark_workspace_merged now (ws_id w) db
      else if to = Failed \<or> to = Cancelled
      then close_open_for_workspace now (ws_id w) (candidate_terminal_close_reason to) db
      else db)"

definition state_changed_event ::
    "WorkspaceStatus \<Rightarrow> WorkspaceStatus \<Rightarrow> string \<Rightarrow> json option \<Rightarrow> int \<Rightarrow> WorkspaceEvent" where
  "state_changed_event old to reason payload order =
     \<lparr>event_type = ''workspace.state_changed'', old_state = old, new_state = to,
      event_reason_code = Some reason, event_payload = payload, event_order = order\<rparr>"

text \<open>
  The part all three forms share: the attempt row follows the status, the monitor start is stamped
  once, the candidate and the reservations follow, and the event is appended.
\<close>

definition finish_transition ::
    "string \<Rightarrow> instant \<Rightarrow> WorkspaceStatus \<Rightarrow> WorkspaceStatus \<Rightarrow> string \<Rightarrow> json option \<Rightarrow> int
      \<Rightarrow> Workspace \<Rightarrow> database \<Rightarrow> Workspace \<times> database" where
  "finish_transition new_id now old to reason payload order w db =
     (let attempt = map_option (\<lambda>a. a\<lparr>at_status := to\<rparr>) (attempt_by_workspace db (ws_id w));
          db1 = (case attempt of None \<Rightarrow> db | Some a \<Rightarrow> put_attempt db a);
          w1 = (if to = Monitoring_pr \<and> monitor_started_at w = None
                then w\<lparr>monitor_started_at := Some now\<rparr> else w);
          db2 = sync_merge_candidate_lifecycle new_id now w1 attempt to (put_workspace db1 w1);
          db3 = (if releases_resource_reservation to
                 then release_active_for_workspace now (ws_id w1) db2 else db2);
          w2 = w1\<lparr>events := events w1 @ [state_changed_event old to reason payload order]\<rparr>
      in (w2, put_workspace db3 w2))"

section \<open>The transitions\<close>

definition apply_status :: "instant \<Rightarrow> WorkspaceStatus \<Rightarrow> WorkspaceStatus \<Rightarrow> Workspace \<Rightarrow> Workspace" where
  "apply_status now old to w =
     (let w1 = w\<lparr>status := to, updated_at := now\<rparr>;
          w2 = (if transition_invalidates_filesystem_reclamation old to
                then w1\<lparr>filesystem_reclaimed_at := None\<rparr> else w1)
      in if transition_releases_provisioning_execution_claim old to
         then w2\<lparr>execution_claimed_by := None, execution_claim_expires_at := None\<rparr> else w2)"

definition transition ::
    "string \<Rightarrow> instant \<Rightarrow> Workspace \<Rightarrow> WorkspaceStatus \<Rightarrow> string \<Rightarrow> json option \<Rightarrow> database
      \<Rightarrow> InvalidWorkspaceTransitionError + (Workspace \<times> database)" where
  "transition new_id now w to reason payload db =
     (case assert_transition (status w) to of
        Inl e \<Rightarrow> Inl e
      | Inr _ \<Rightarrow>
          (let (order, w1) = reserve_workspace_event_orders 1 True w
           in Inr (finish_transition new_id now (status w) to reason payload order
                     (apply_status now (status w) to w1) db)))"

text \<open>The row-locking form (PostgreSQL): \<open>SELECT ... FOR UPDATE\<close>, then the writes of \<open>transition\<close>.\<close>

definition transition_if_current_locked ::
    "string \<Rightarrow> instant \<Rightarrow> string \<Rightarrow> WorkspaceStatus \<Rightarrow> WorkspaceStatus \<Rightarrow> string \<Rightarrow> json option
      \<Rightarrow> (Workspace \<Rightarrow> bool) list \<Rightarrow> database \<Rightarrow> (Workspace \<times> database) option" where
  "transition_if_current_locked new_id now wid from_status to reason payload conds db =
     (case workspaces db wid of
        None \<Rightarrow> None
      | Some w \<Rightarrow>
          if status w = from_status \<and> list_all (\<lambda>c. c w) conds
          then (let (order, w1) = reserve_workspace_event_orders 1 True w
                in Some (finish_transition new_id now (status w) to reason payload order
                          (apply_status now (status w) to w1) db))
          else None)"

text \<open>The other form: one guarded \<open>UPDATE ... RETURNING event_sequence\<close>, then a reload.\<close>

definition guarded_update :: "instant \<Rightarrow> WorkspaceStatus \<Rightarrow> WorkspaceStatus \<Rightarrow> Workspace \<Rightarrow> Workspace" where
  "guarded_update now from_status to w =
     (let w1 = w\<lparr>status := to, updated_at := now, event_sequence := event_sequence w + 1,
                 version := version w + 1\<rparr>;
          w2 = (if transition_invalidates_filesystem_reclamation from_status to
                then w1\<lparr>filesystem_reclaimed_at := None\<rparr> else w1);
          w3 = (if to = Monitoring_pr
                then w2\<lparr>monitor_started_at := (case monitor_started_at w of None \<Rightarrow> Some now | Some t \<Rightarrow> Some t)\<rparr>
                else w2)
      in if transition_releases_provisioning_execution_claim from_status to
         then w3\<lparr>execution_claimed_by := None, execution_claim_expires_at := None\<rparr> else w3)"

definition transition_if_current_with_atomic_update ::
    "string \<Rightarrow> instant \<Rightarrow> string \<Rightarrow> WorkspaceStatus \<Rightarrow> WorkspaceStatus \<Rightarrow> string \<Rightarrow> json option
      \<Rightarrow> (Workspace \<Rightarrow> bool) list \<Rightarrow> database \<Rightarrow> (Workspace \<times> database) option" where
  "transition_if_current_with_atomic_update new_id now wid from_status to reason payload conds db =
     (case workspaces db wid of
        None \<Rightarrow> None
      | Some w \<Rightarrow>
          if status w = from_status \<and> list_all (\<lambda>c. c w) conds
          then (let db1 = put_workspace db (guarded_update now from_status to w)
                in (case workspaces db1 wid of
                      None \<Rightarrow> None
                    | Some w1 \<Rightarrow>
                        Some (finish_transition new_id now from_status to reason payload
                                (event_sequence w1) w1 db1)))
          else None)"

definition transition_if_current ::
    "bool \<Rightarrow> string \<Rightarrow> instant \<Rightarrow> string \<Rightarrow> WorkspaceStatus \<Rightarrow> WorkspaceStatus \<Rightarrow> string \<Rightarrow> json option
      \<Rightarrow> (Workspace \<Rightarrow> bool) list \<Rightarrow> database
      \<Rightarrow> InvalidWorkspaceTransitionError + (Workspace \<times> database) option" where
  "transition_if_current postgresql new_id now wid from_status to reason payload conds db =
     (case assert_transition from_status to of
        Inl e \<Rightarrow> Inl e
      | Inr _ \<Rightarrow>
          (let conds' = conds @ [recovery_allows_work db]
           in Inr (if \<not> postgresql
                   then transition_if_current_with_atomic_update new_id now wid from_status to reason
                          payload conds' db
                   else transition_if_current_locked new_id now wid from_status to reason
                          payload conds' db)))"

end
