(* ===== verification/Transition_Facts.thy ===== *)
theory Transition_Facts
  imports Transitions
begin

text \<open>
  What a status change does to the database: the frame lemmas of the repository writes, the row a
  transition leaves, the agreement of its two SQL forms, and the preservation of the event-order and
  merge-queue invariants.
\<close>

section \<open>Frames\<close>

lemma put_candidate_frame [simp, row_simps]:
  "workspaces (put_candidate db c) = workspaces db" "attempts (put_candidate db c) = attempts db"
  "reservations (put_candidate db c) = reservations db" "tasks (put_candidate db c) = tasks db"
  by (simp_all add: put_candidate_def)

lemma put_attempt_frame [simp, row_simps]:
  "workspaces (put_attempt db a) = workspaces db" "candidates (put_attempt db a) = candidates db"
  "reservations (put_attempt db a) = reservations db" "tasks (put_attempt db a) = tasks db"
  by (simp_all add: put_attempt_def)

lemma close_open_frame [simp, row_simps]:
  "workspaces (close_open_for_attempt now i r db) = workspaces db"
  "workspaces (close_open_for_workspace now i r db) = workspaces db"
  "workspaces (mark_workspace_merged now i db) = workspaces db"
  by (simp_all add: close_open_for_attempt_def close_open_for_workspace_def mark_workspace_merged_def
      split: option.splits)

lemma mark_canonical_workspaces [simp, row_simps]:
  "workspaces (snd (mark_canonical_for_merge db a)) = workspaces db"
  by (simp add: mark_canonical_for_merge_def Let_def split: option.splits)

lemma create_or_update_workspaces:
  "create_or_update_open_for_attempt i now t a w h b db = Inr db' \<Longrightarrow> workspaces db' = workspaces db"
  by (auto simp: create_or_update_open_for_attempt_def split: option.splits if_splits)

lemma make_canonical_workspaces:
  "make_attempt_canonical_and_create_candidate i now t a w h b db = Inr db' \<Longrightarrow> workspaces db' = workspaces db"
  by (auto simp: make_attempt_canonical_and_create_candidate_def Let_def case_prod_beta
      dest!: create_or_update_workspaces split: option.splits if_splits)

lemma sync_lifecycle_workspaces [simp, row_simps]:
  "workspaces (sync_merge_candidate_lifecycle i now w a to db) = workspaces db"
  by (auto simp: sync_merge_candidate_lifecycle_def make_canonical_workspaces
      split: option.splits sum.splits)

lemma release_frame [simp, row_simps]:
  "workspaces (release_active_for_workspace now i db) = workspaces db"
  "attempts (release_active_for_workspace now i db) = attempts db"
  "candidates (release_active_for_workspace now i db) = candidates db"
  by (simp_all add: release_active_for_workspace_def)

section \<open>The row a transition leaves\<close>

definition started_row :: "instant \<Rightarrow> WorkspaceStatus \<Rightarrow> Workspace \<Rightarrow> Workspace" where
  "started_row now to w =
     (if to = Monitoring_pr \<and> monitor_started_at w = None
      then w\<lparr>monitor_started_at := Some now\<rparr> else w)"

lemma started_row_simps [simp]:
  "ws_id (started_row now to w) = ws_id w" "status (started_row now to w) = status w"
  "version (started_row now to w) = version w" "event_sequence (started_row now to w) = event_sequence w"
  "events (started_row now to w) = events w"
  by (simp_all add: started_row_def)

lemma finish_transition_row:
  "fst (finish_transition i now old to r p n w db) =
     (started_row now to w)\<lparr>events := events w @ [state_changed_event old to r p n]\<rparr>"
  by (simp add: finish_transition_def started_row_def Let_def)

lemma finish_transition_workspaces:
  "workspaces (snd (finish_transition i now old to r p n w db)) =
     (workspaces db)(ws_id w \<mapsto> fst (finish_transition i now old to r p n w db))"
  by (auto simp: finish_transition_def Let_def put_workspace_def split: option.splits)

lemma apply_status_simps [simp]:
  "ws_id (apply_status now old to w) = ws_id w" "status (apply_status now old to w) = to"
  "version (apply_status now old to w) = version w"
  "event_sequence (apply_status now old to w) = event_sequence w"
  "events (apply_status now old to w) = events w"
  "execution_claim_epoch (apply_status now old to w) = execution_claim_epoch w"
  "block_epoch (apply_status now old to w) = block_epoch w"
  by (simp_all add: apply_status_def Let_def)

lemma reserve_simps [simp]:
  "fst (reserve_workspace_event_orders n b w) = event_sequence w + 1"
  "ws_id (snd (reserve_workspace_event_orders n b w)) = ws_id w"
  "status (snd (reserve_workspace_event_orders n b w)) = status w"
  "event_sequence (snd (reserve_workspace_event_orders n b w)) = event_sequence w + n"
  "version (snd (reserve_workspace_event_orders n b w)) = (if b then version w + 1 else version w)"
  "events (snd (reserve_workspace_event_orders n b w)) = events w"
  "execution_claim_epoch (snd (reserve_workspace_event_orders n b w)) = execution_claim_epoch w"
  "block_epoch (snd (reserve_workspace_event_orders n b w)) = block_epoch w"
  by (simp_all add: reserve_workspace_event_orders_def Let_def)

section \<open>The two SQL forms agree\<close>

lemma guarded_update_row:
  "started_row now to (guarded_update now old to w) =
   started_row now to (apply_status now old to (snd (reserve_workspace_event_orders 1 True w)))"
  by (simp add: started_row_def guarded_update_def apply_status_def reserve_workspace_event_orders_def
      Let_def split: option.splits)

lemma finish_transition_overwrites:
  assumes "ws_id u = ws_id w" and "started_row now to u = started_row now to w"
  shows "finish_transition i now old to r p n u (put_workspace db u') =
     (if ws_id u' = ws_id w then finish_transition i now old to r p n w db
      else finish_transition i now old to r p n u (put_workspace db u'))"
proof (cases "ws_id u' = ws_id w")
  case True
  have ow: "put_workspace (put_workspace db u') v = put_workspace db v" if "ws_id v = ws_id u'" for v
    using that by (simp add: put_workspace_def)
  have comm: "put_attempt (put_workspace db u') a = put_workspace (put_attempt db a) u'" for a
    by (simp add: put_attempt_def put_workspace_def)
  have ow2: "put_workspace (put_workspace (put_attempt db a) u') v = put_workspace (put_attempt db a) v"
    if "ws_id v = ws_id u'" for v a
    using that by (simp add: put_workspace_def)
  have ev: "events u = events w" using assms(2) by (metis started_row_simps(5))
  show ?thesis
    using True assms ow ow2 ev
    unfolding finish_transition_def Let_def started_row_def [symmetric]
    by (simp add: attempt_by_workspace_def comm split: option.splits)
qed simp

lemma locked_eq_atomic:
  assumes "db_keys_ok db"
  shows "transition_if_current_locked i now wid old to r p conds db =
         transition_if_current_with_atomic_update i now wid old to r p conds db"
proof (cases "workspaces db wid")
  case (Some w)
  with assms have [simp]: "ws_id w = wid" by (simp add: db_keys_ok_def)
  let ?g = "guarded_update now old to w"
  let ?l = "apply_status now old to (snd (reserve_workspace_event_orders 1 True w))"
  have g: "ws_id ?g = wid" "event_sequence ?g = event_sequence w + 1"
    by (simp_all add: guarded_update_def Let_def)
  have "finish_transition i now old to r p n ?g (put_workspace db ?g) = finish_transition i now old to r p n ?l db" for n
    using finish_transition_overwrites [of ?g ?l now to i old r p n db ?g] guarded_update_row g by simp
  with Some g show ?thesis
    by (auto simp: transition_if_current_locked_def transition_if_current_with_atomic_update_def
        case_prod_beta put_workspace_def)
qed (simp add: transition_if_current_locked_def transition_if_current_with_atomic_update_def)

lemma transition_if_current_eq:
  assumes "db_keys_ok db"
  shows "transition_if_current pg i now wid old to r p conds db =
     (if can_transition old to
      then Inr (transition_if_current_locked i now wid old to r p (conds @ [recovery_allows_work db]) db)
      else Inl (invalid_transition old to))"
  using locked_eq_atomic [OF assms]
  by (simp add: transition_if_current_def assert_transition_def Let_def)

lemma locked_SomeD:
  assumes "db_keys_ok db" and "transition_if_current_locked i now wid old to r p conds db = Some (w', db')"
  obtains w where "workspaces db wid = Some w" "ws_id w = wid" "status w = old" "list_all (\<lambda>c. c w) conds"
    "(w', db') = finish_transition i now old to r p (event_sequence w + 1)
        (apply_status now old to (snd (reserve_workspace_event_orders 1 True w))) db"
  using assms
  by (auto simp: transition_if_current_locked_def case_prod_beta db_keys_ok_def
      split: option.splits if_splits)

section \<open>Event orders\<close>

text \<open>The events of a row are numbered 1, 2, and so on up to its \<open>event_sequence\<close>.\<close>

definition events_ok :: "Workspace \<Rightarrow> bool" where
  "events_ok w = (0 \<le> event_sequence w \<and> map event_order (events w) = [1..event_sequence w])"

lemma events_ok_append:
  assumes "events_ok w" "map event_order es = [event_sequence w + 1..event_sequence w + int (length es)]"
    and "event_sequence w' = event_sequence w + int (length es)" "events w' = events w @ es"
  shows "events_ok w'"
proof -
  have "[1..event_sequence w + int (length es)] =
      [1..event_sequence w] @ [event_sequence w + 1..event_sequence w + int (length es)]"
    using assms(1) upto_split2 [of 1 "event_sequence w" "event_sequence w + int (length es)"]
    by (cases "event_sequence w = 0") (auto simp: events_ok_def)
  with assms show ?thesis by (auto simp: events_ok_def)
qed

lemma number_events_orders: "map event_order (number_events s n es) = [n..n + int (length es) - 1]"
  by (induction s n es rule: number_events.induct) (auto simp: upto.simps)

lemma number_events_length [simp]: "length (number_events s n es) = length es"
  by (induction s n es rule: number_events.induct) auto

lemma add_events_simps [simp]:
  "ws_id (add_events es w) = ws_id w" "status (add_events es w) = status w"
  "version (add_events es w) = version w" "block_epoch (add_events es w) = block_epoch w"
  by (simp_all add: add_events_def reserve_workspace_event_orders_def Let_def)

lemma add_events_ok: "events_ok w \<Longrightarrow> events_ok (add_events es w)"
  by (rule events_ok_append [where w = w and es = "number_events (status w) (event_sequence w + 1) es"])
    (auto simp: add_events_def number_events_orders reserve_workspace_event_orders_def Let_def)

lemma add_event_ok [intro]: "events_ok w \<Longrightarrow> events_ok (add_event ty r p w)"
  by (simp add: add_event_def add_events_ok)

lemma add_event_with_states_ok [intro]: "events_ok w \<Longrightarrow> events_ok (add_event_with_states ty o' n' r p w)"
  by (rule events_ok_append) (auto simp: add_event_with_states_def reserve_workspace_event_orders_def Let_def)

lemma finish_transition_events_ok:
  assumes "events_ok w"
  shows "events_ok (fst (finish_transition i now old to r p (event_sequence w + 1)
           (apply_status now old to (snd (reserve_workspace_event_orders 1 True w))) db))"
  by (rule events_ok_append [OF assms, where es = "[state_changed_event old to r p (event_sequence w + 1)]"])
    (simp_all add: finish_transition_row state_changed_event_def)

section \<open>The merge-queue invariant across status changes\<close>

definition at_key :: "TaskAttempt \<Rightarrow> string \<times> string \<times> bool" where
  "at_key a = (at_id a, at_task_id a, is_canonical_for_merge a)"

lemma canonical_of_key:
  "canonical_of db c \<longleftrightarrow> (mc_attempt_id c, mc_task_id c, True) \<in> set (map at_key (attempts db))"
  by (force simp: canonical_of_def at_key_def)

lemma attempts_ok_key:
  "attempts_ok db \<longleftrightarrow> distinct (map fst (map at_key (attempts db)))
     \<and> (\<forall>x y t. (x, t, True) \<in> set (map at_key (attempts db)) \<longrightarrow> (y, t, True) \<in> set (map at_key (attempts db))
          \<longrightarrow> x = y)"
proof -
  have "map fst (map at_key (attempts db)) = map at_id (attempts db)" by (simp add: at_key_def)
  moreover have "(x, t, True) \<in> set (map at_key (attempts db)) \<longleftrightarrow>
      (\<exists>a \<in> set (attempts db). at_id a = x \<and> at_task_id a = t \<and> is_canonical_for_merge a)" for x t
    by (force simp: at_key_def)
  ultimately show ?thesis unfolding attempts_ok_def by (simp only:) blast
qed

lemma merge_inv_cong:
  assumes "candidates db' = candidates db" "map at_key (attempts db') = map at_key (attempts db)"
  shows "merge_inv db' \<longleftrightarrow> merge_inv db"
  unfolding merge_inv_def candidates_ok_def canonical_of_key attempts_ok_key assms ..

lemma put_attempt_inv:
  assumes inv: "merge_inv db" and a: "a \<in> set (attempts db)" and k: "at_key a' = at_key a"
  shows "merge_inv (put_attempt db a')" and "a' \<in> set (attempts (put_attempt db a'))"
proof -
  have id: "at_id a' = at_id a" using k by (simp add: at_key_def)
  have "at_key (if at_id b = at_id a' then a' else b) = at_key b" if "b \<in> set (attempts db)" for b
  proof (cases "at_id b = at_id a'")
    case True
    then have "b = a" using attempts_same [OF merge_invD(1) [OF inv] that a] id by simp
    then show ?thesis using k by simp
  qed simp
  then have "map at_key (attempts (put_attempt db a')) = map at_key (attempts db)"
    by (simp add: put_attempt_def)
  then show "merge_inv (put_attempt db a')"
    using inv merge_inv_cong [of "put_attempt db a'" db] by simp
  show "a' \<in> set (attempts (put_attempt db a'))"
    using a id by (force simp: put_attempt_def)
qed

lemma sync_lifecycle_inv:
  assumes "merge_inv db" "new_id \<notin> mc_id ` set (candidates db)"
    and "\<And>a. attempt = Some a \<Longrightarrow> a \<in> set (attempts db)"
  shows "merge_inv (sync_merge_candidate_lifecycle new_id now w attempt to db)"
proof (cases "to = Monitoring_pr")
  case True
  show ?thesis
  proof (cases attempt)
    case (Some a)
    then have "a \<in> set (attempts db)" using assms(3) by simp
    note mk = make_canonical_inv [OF assms(1) this assms(2)]
    show ?thesis
      using True Some assms(1)
      by (simp add: sync_merge_candidate_lifecycle_def split: sum.splits) (blast intro: mk)
  qed (simp add: True sync_merge_candidate_lifecycle_def assms)
next
  case False
  then show ?thesis
    using mark_workspace_merged_inv [OF assms(1)] close_open_for_workspace_inv [OF assms(1)] assms(1)
    by (simp add: sync_merge_candidate_lifecycle_def)
qed

lemma put_workspace_merge_inv [simp]: "merge_inv (put_workspace d v) = merge_inv d"
  by (rule merge_inv_cong) (simp_all add: put_workspace_def)

lemma release_merge_inv [simp]: "merge_inv (release_active_for_workspace now x d) = merge_inv d"
  by (rule merge_inv_cong) simp_all

lemma finish_transition_inv:
  assumes inv: "merge_inv db" and fresh: "new_id \<notin> mc_id ` set (candidates db)"
  shows "merge_inv (snd (finish_transition new_id now old to r p n w db))"
proof -
  let ?at = "map_option (\<lambda>a. a\<lparr>at_status := to\<rparr>) (attempt_by_workspace db (ws_id w))"
  define db1 where "db1 = (case ?at of None \<Rightarrow> db | Some a \<Rightarrow> put_attempt db a)"
  define db2 where "db2 = sync_merge_candidate_lifecycle new_id now (started_row now to w) ?at to
      (put_workspace db1 (started_row now to w))"
  have 1: "merge_inv db1 \<and> (\<forall>a. ?at = Some a \<longrightarrow> a \<in> set (attempts db1))"
  proof (cases "attempt_by_workspace db (ws_id w)")
    case (Some a)
    then have "a \<in> set (attempts db)" by (auto simp: attempt_by_workspace_def dest!: find_SomeD)
    then have "merge_inv (put_attempt db (a\<lparr>at_status := to\<rparr>))"
      and "a\<lparr>at_status := to\<rparr> \<in> set (attempts (put_attempt db (a\<lparr>at_status := to\<rparr>)))"
      by (rule put_attempt_inv [OF inv]; simp add: at_key_def)+
    with Some show ?thesis by (simp add: db1_def)
  qed (simp add: db1_def inv)
  have "candidates db1 = candidates db" by (simp add: db1_def split: option.splits)
  then have "merge_inv db2"
    unfolding db2_def using 1 fresh
    by (intro sync_lifecycle_inv) simp_all
  moreover have "snd (finish_transition new_id now old to r p n w db) =
      put_workspace (if releases_resource_reservation to
        then release_active_for_workspace now (ws_id w) db2 else db2)
       (fst (finish_transition new_id now old to r p n w db))"
    unfolding finish_transition_def Let_def started_row_def [symmetric] db1_def [symmetric] db2_def
    by simp
  ultimately show ?thesis by simp
qed

section \<open>Terminal clean-up\<close>

definition has_open_candidate :: "database \<Rightarrow> string \<Rightarrow> bool" where
  "has_open_candidate db wid = list_ex (\<lambda>c. mc_workspace_id c = wid \<and> mc_status c = Open) (candidates db)"

definition has_active_reservation :: "database \<Rightarrow> string \<Rightarrow> bool" where
  "has_active_reservation db wid =
     list_ex (\<lambda>r. rr_workspace_id r = wid \<and> released_at r = None) (reservations db)"

lemma finish_transition_closes:
  "to = Failed \<or> to = Cancelled \<Longrightarrow>
    \<not> has_open_candidate (snd (finish_transition i now old to r p n w db)) (ws_id w)"
  by (auto simp: finish_transition_def sync_merge_candidate_lifecycle_def close_open_for_workspace_def
      has_open_candidate_def list_ex_iff Let_def split: if_splits)

lemma finish_transition_releases:
  "releases_resource_reservation to \<Longrightarrow>
    \<not> has_active_reservation (snd (finish_transition i now old to r p n w db)) (ws_id w)"
  by (auto simp: finish_transition_def release_active_for_workspace_def has_active_reservation_def
      list_ex_iff Let_def split: if_splits)

section \<open>Serving requests\<close>

text \<open>
  The interface the workers rely on: a compare-and-set on the status of a row.  \<open>stat\<close> reads a
  row's status and \<open>move\<close> serves one request on it.
\<close>

locale status_cas =
  fixes stat :: "'db \<Rightarrow> 'id \<Rightarrow> WorkspaceStatus option"
    and good :: "'db \<Rightarrow> bool"
    and target :: "'req \<Rightarrow> 'id" and source_status :: "'req \<Rightarrow> WorkspaceStatus" and dest :: "'req \<Rightarrow> WorkspaceStatus"
    and move :: "'req \<Rightarrow> 'db \<Rightarrow> 'db option"
  assumes move_moves: "good db \<Longrightarrow> move r db = Some db' \<Longrightarrow>
      can_transition (source_status r) (dest r) \<and> stat db (target r) = Some (source_status r)
        \<and> stat db' (target r) = Some (dest r)"
    and move_frame: "good db \<Longrightarrow> move r db = Some db' \<Longrightarrow> i \<noteq> target r \<Longrightarrow> stat db' i = stat db i"
    and move_good: "good db \<Longrightarrow> move r db = Some db' \<Longrightarrow> good db'"
begin

lemma serve_good: "good db \<Longrightarrow> good (foldl (\<lambda>d r. case move r d of None \<Rightarrow> d | Some d' \<Rightarrow> d') db rs)"
  by (induction rs arbitrary: db) (auto split: option.splits dest: move_good)

lemma serve_run:
  assumes "good db" and "stat db i = Some s"
  shows "\<exists>p u. stat (foldl (\<lambda>d r. case move r d of None \<Rightarrow> d | Some d' \<Rightarrow> d') db rs) i = Some u
           \<and> lifecycle_run s p u \<and> length p \<le> length rs"
  using assms
proof (induction rs arbitrary: db s)
  case (Cons r rs)
  show ?case
  proof (cases "move r db")
    case None
    with Cons.IH [OF Cons.prems] show ?thesis by (auto intro: le_SucI)
  next
    case (Some db')
    note good' = move_good [OF Cons.prems(1) Some]
    show ?thesis
    proof (cases "i = target r")
      case True
      with move_moves [OF Cons.prems(1) Some] Cons.prems(2)
      have step: "can_transition s (dest r)" "stat db' i = Some (dest r)" by auto
      from Cons.IH [OF good' step(2)] obtain p u where
        "stat (foldl (\<lambda>d r. case move r d of None \<Rightarrow> d | Some d' \<Rightarrow> d') db' rs) i = Some u"
        "lifecycle_run (dest r) p u" "length p \<le> length rs" by blast
      with step(1) Some show ?thesis by (intro exI [of _ "dest r # p"] exI [of _ u]) simp
    next
      case False
      with move_frame [OF Cons.prems(1) Some] Cons.prems(2) have "stat db' i = Some s" by simp
      from Cons.IH [OF good' this] Some show ?thesis by (auto intro: le_SucI)
    qed
  qed
qed auto

lemma race_one_winner:
  assumes "good db" and "move r db = Some db'" and "target r' = target r"
    and "source_status r' = source_status r"
  shows "move r' db' = None"
proof (rule ccontr)
  assume "move r' db' \<noteq> None"
  then obtain d where "move r' db' = Some d" by auto
  from move_moves [OF move_good [OF assms(1,2)] this] move_moves [OF assms(1,2)] assms(3,4)
  have "can_transition (source_status r) (source_status r)" by auto
  then show False by (cases "source_status r") (simp_all add: status_simps)
qed

end

text \<open>A request of a worker, with the clock reading and the fresh candidate id of its transaction.\<close>

record TransitionRequest =
  rq_new_id :: string
  rq_now :: instant
  rq_workspace :: string
  rq_from :: WorkspaceStatus
  rq_to :: WorkspaceStatus
  rq_reason :: string
  rq_payload :: "json option"
  rq_conds :: "(Workspace \<Rightarrow> bool) list"

definition serve_request :: "bool \<Rightarrow> TransitionRequest \<Rightarrow> database \<Rightarrow> database option" where
  "serve_request postgresql r db =
     (case transition_if_current postgresql (rq_new_id r) (rq_now r) (rq_workspace r) (rq_from r)
             (rq_to r) (rq_reason r) (rq_payload r) (rq_conds r) db of
        Inr (Some (w, db')) \<Rightarrow> Some db'
      | _ \<Rightarrow> None)"

text \<open>Requests of several workers in the order the database serialises them.\<close>

definition serve_requests :: "bool \<Rightarrow> TransitionRequest list \<Rightarrow> database \<Rightarrow> database" where
  "serve_requests postgresql rs db =
     foldl (\<lambda>d r. case serve_request postgresql r d of None \<Rightarrow> d | Some d' \<Rightarrow> d') db rs"

definition status_of :: "database \<Rightarrow> string \<Rightarrow> WorkspaceStatus option" where
  "status_of db wid = map_option status (workspaces db wid)"

text \<open>What a served request writes, given the row it matched.\<close>

definition served :: "TransitionRequest \<Rightarrow> Workspace \<Rightarrow> database \<Rightarrow> Workspace \<times> database" where
  "served r w db =
     finish_transition (rq_new_id r) (rq_now r) (rq_from r) (rq_to r) (rq_reason r) (rq_payload r)
       (event_sequence w + 1)
       (apply_status (rq_now r) (rq_from r) (rq_to r) (snd (reserve_workspace_event_orders 1 True w))) db"

lemma served_row:
  "ws_id (fst (served r w db)) = ws_id w" "status (fst (served r w db)) = rq_to r"
  "version (fst (served r w db)) = version w + 1"
  "event_sequence (fst (served r w db)) = event_sequence w + 1"
  "events (fst (served r w db)) =
     events w @ [state_changed_event (rq_from r) (rq_to r) (rq_reason r) (rq_payload r) (event_sequence w + 1)]"
  by (simp_all add: served_def finish_transition_row)

lemma served_workspaces: "workspaces (snd (served r w db)) = (workspaces db)(ws_id w \<mapsto> fst (served r w db))"
  by (simp add: served_def finish_transition_workspaces)

lemma serve_requestD:
  assumes ok: "db_keys_ok db" and s: "serve_request pg r db = Some db'"
  obtains w where "workspaces db (rq_workspace r) = Some w" "ws_id w = rq_workspace r"
    "status w = rq_from r" "list_all (\<lambda>c. c w) (rq_conds r)" "recovery_allows_work db w"
    "can_transition (rq_from r) (rq_to r)" "db' = snd (served r w db)"
proof -
  from s obtain w' where l: "transition_if_current_locked (rq_new_id r) (rq_now r) (rq_workspace r) (rq_from r)
      (rq_to r) (rq_reason r) (rq_payload r) (rq_conds r @ [recovery_allows_work db]) db = Some (w', db')"
    and c: "can_transition (rq_from r) (rq_to r)"
    by (auto simp: serve_request_def transition_if_current_eq [OF ok] split: if_splits option.splits)
  obtain w where "workspaces db (rq_workspace r) = Some w" "ws_id w = rq_workspace r"
    "status w = rq_from r" "list_all (\<lambda>c. c w) (rq_conds r @ [recovery_allows_work db])"
    "(w', db') = served r w db"
    using locked_SomeD [OF ok l] unfolding served_def by metis
  with that c show thesis by (metis list_all_append list.pred_inject(2) snd_conv)
qed

lemma serve_request_workspaces:
  assumes ok: "db_keys_ok db" and s: "serve_request pg r db = Some db'"
  shows "status_of db' (rq_workspace r) = Some (rq_to r)"
    and "i \<noteq> rq_workspace r \<Longrightarrow> workspaces db' i = workspaces db i"
    and "db_keys_ok db'"
proof -
  obtain w where w: "ws_id w = rq_workspace r" "db' = snd (served r w db)"
    using serve_requestD [OF ok s] by metis
  then show "status_of db' (rq_workspace r) = Some (rq_to r)"
    and "i \<noteq> rq_workspace r \<Longrightarrow> workspaces db' i = workspaces db i"
    by (simp_all add: status_of_def served_workspaces served_row)
  from w ok show "db_keys_ok db'" by (simp add: db_keys_ok_def served_workspaces served_row)
qed

interpretation db_cas: status_cas status_of db_keys_ok rq_workspace rq_from rq_to "serve_request pg" for pg
proof
  fix db r db' i
  assume ok: "db_keys_ok db" and s: "serve_request pg r db = Some db'"
  note ws = serve_request_workspaces [OF ok s]
  show "can_transition (rq_from r) (rq_to r) \<and> status_of db (rq_workspace r) = Some (rq_from r)
      \<and> status_of db' (rq_workspace r) = Some (rq_to r)"
    using serve_requestD [OF ok s] ws(1) by (metis option.simps(9) status_of_def)
  show "db_keys_ok db'" by (rule ws(3))
  show "status_of db' i = status_of db i" if "i \<noteq> rq_workspace r"
    using ws(2) [OF that] by (simp add: status_of_def)
qed

end
