(* ===== verification/Claims.thy ===== *)
theory Claims
  imports Transition_Facts
begin

text \<open>
  Leases and fencing: the monitor and execution claims of \<open>db/repositories/workspace_repo_claims.py\<close>
  and the claim, resume and release steps of \<open>control/worker/claims.py\<close> and
  \<open>control/worker/claims_execution.py\<close>.  Every function is one guarded \<open>UPDATE\<close> (or one
  transaction) on the database; \<open>cutoff\<close>, \<open>now\<close> and \<open>lease_expires_at\<close> are the clock readings the
  caller passes.  The audit redaction of \<open>common/audit.py\<close> and the cooldown re-arming of
  \<open>service/provider_recovery.py\<close> are the parameters \<open>redact\<close> and \<open>rearm\<close>.
\<close>

section \<open>Guarded writes\<close>

text \<open>\<open>UPDATE workspaces SET ... WHERE id = wid AND ... RETURNING id\<close>.\<close>

definition update_where ::
    "(Workspace \<Rightarrow> bool) \<Rightarrow> (Workspace \<Rightarrow> Workspace) \<Rightarrow> string \<Rightarrow> database \<Rightarrow> bool \<times> database" where
  "update_where cond f wid db =
     (case workspaces db wid of
        None \<Rightarrow> (False, db)
      | Some w \<Rightarrow> if cond w then (True, put_workspace db (f w)) else (False, db))"

text \<open>\<open>column <= bound\<close> on a nullable column: \<open>NULL\<close> does not match.\<close>

definition sql_le :: "instant option \<Rightarrow> instant \<Rightarrow> bool" where
  "sql_le c b = (case c of None \<Rightarrow> False | Some t \<Rightarrow> t \<le> b)"

section \<open>Monitor claims\<close>

definition monitor_claim_available :: "instant \<Rightarrow> string \<Rightarrow> Workspace \<Rightarrow> bool" where
  "monitor_claim_available cutoff owner w =
     (monitor_claim_expires_at w = None \<or> sql_le (monitor_claim_expires_at w) cutoff
      \<or> monitor_claimed_by w = Some owner)"

definition stale_execution_claim :: "instant \<Rightarrow> Workspace \<Rightarrow> bool" where
  "stale_execution_claim cutoff w =
     (execution_claimed_by w = None \<or> execution_claim_expires_at w = None
      \<or> sql_le (execution_claim_expires_at w) cutoff)"

definition clearable_execution_claim ::
    "instant \<Rightarrow> string \<Rightarrow> string list option \<Rightarrow> Workspace \<Rightarrow> bool" where
  "clearable_execution_claim cutoff owner fresh_owners w =
     (stale_execution_claim cutoff w
      \<or> (case fresh_owners of
           None \<Rightarrow> False
         | Some fresh \<Rightarrow>
             (case execution_claimed_by w of
                None \<Rightarrow> False
              | Some o' \<Rightarrow> o' \<noteq> owner \<and> o' \<notin> set fresh)))"

definition claim_monitoring_pr ::
    "string \<Rightarrow> instant \<Rightarrow> instant \<Rightarrow> instant option \<Rightarrow> string list option \<Rightarrow> string \<Rightarrow> database
      \<Rightarrow> bool \<times> database" where
  "claim_monitoring_pr owner lease cutoff clear_cutoff fresh_owners wid db =
     update_where
       (\<lambda>w. recovery_allows_work db w \<and> status w = Monitoring_pr \<and> monitor_claim_available cutoff owner w
          \<and> (case clear_cutoff of
               None \<Rightarrow> True
             | Some cc \<Rightarrow> clearable_execution_claim cc owner fresh_owners w
                         \<or> execution_claimed_by w = Some owner))
       (\<lambda>w. let w' = w\<lparr>monitor_claimed_by := Some owner, monitor_claim_expires_at := Some lease\<rparr>
            in (case clear_cutoff of
                  None \<Rightarrow> w'
                | Some cc \<Rightarrow>
                    if clearable_execution_claim cc owner fresh_owners w
                    then w'\<lparr>execution_claimed_by := None, execution_claim_expires_at := None,
                            execution_claim_epoch := execution_claim_epoch w + 1\<rparr>
                    else w'))
       wid db"

definition refresh_monitoring_pr_claim ::
    "string \<Rightarrow> instant \<Rightarrow> string \<Rightarrow> database \<Rightarrow> bool \<times> database" where
  "refresh_monitoring_pr_claim owner lease =
     update_where (\<lambda>w. status w = Monitoring_pr \<and> monitor_claimed_by w = Some owner)
       (\<lambda>w. w\<lparr>monitor_claim_expires_at := Some lease\<rparr>)"

definition release_monitoring_pr_claim :: "string \<Rightarrow> string \<Rightarrow> database \<Rightarrow> bool \<times> database" where
  "release_monitoring_pr_claim owner =
     update_where (\<lambda>w. monitor_claimed_by w = Some owner)
       (\<lambda>w. w\<lparr>monitor_claimed_by := None, monitor_claim_expires_at := None\<rparr>)"

section \<open>Execution claims\<close>

definition active_worker_restart_recovery :: "Operation list \<Rightarrow> bool" where
  "active_worker_restart_recovery ops =
     list_ex (\<lambda>op.
       op_status op \<in> set [''pending'', ''running'']
       \<and> Option.bind (op_payload op) (json_get ''source'') = Some (JStr ''worker_restart'')
       \<and> ((op_type op = ''validate''
           \<and> Option.bind (op_payload op) (json_get ''recovery_mode'')
               \<in> {Some (JStr ''validate_only''), Some (JStr ''rebase_only'')})
          \<or> (op_type op = ''rebase''
             \<and> Option.bind (op_payload op) (json_get ''recovery_mode'') = Some (JStr ''rebase_only'')))) ops"

text \<open>\<open>ops\<close>: the rows of the operations table for this workspace.\<close>

definition claim_worker_restart_recovery_execution ::
    "Operation list \<Rightarrow> string \<Rightarrow> instant \<Rightarrow> instant \<Rightarrow> string \<Rightarrow> database \<Rightarrow> Workspace option \<times> database" where
  "claim_worker_restart_recovery_execution ops owner lease cutoff wid db =
     (let (hit, db') = update_where
            (\<lambda>w. recovery_allows_work db w \<and> status w = Running \<and> active_worker_restart_recovery ops
               \<and> (stale_execution_claim cutoff w \<or> execution_claimed_by w = Some owner))
            (\<lambda>w. w\<lparr>execution_claimed_by := Some owner, execution_claim_expires_at := Some lease\<rparr>) wid db
      in if hit then (map_option (\<lambda>w. w\<lparr>ws_operations := Some ops\<rparr>) (workspaces db' wid), db') else (None, db'))"

definition owns :: "string \<Rightarrow> int option \<Rightarrow> Workspace \<Rightarrow> bool" where
  "owns owner epoch w =
     (execution_claimed_by w = Some owner
      \<and> (case epoch of None \<Rightarrow> True | Some e \<Rightarrow> execution_claim_epoch w = e))"

definition refresh_execution_claim ::
    "string \<Rightarrow> instant \<Rightarrow> int option \<Rightarrow> string \<Rightarrow> database \<Rightarrow> bool \<times> database" where
  "refresh_execution_claim owner lease epoch =
     update_where (owns owner epoch) (\<lambda>w. w\<lparr>execution_claim_expires_at := Some lease\<rparr>)"

definition release_execution_claim :: "string \<Rightarrow> int option \<Rightarrow> string \<Rightarrow> database \<Rightarrow> bool \<times> database" where
  "release_execution_claim owner epoch =
     update_where (owns owner epoch)
       (\<lambda>w. w\<lparr>execution_claimed_by := None, execution_claim_expires_at := None\<rparr>)"

definition read_execution_claim_epoch :: "string \<Rightarrow> string \<Rightarrow> database \<Rightarrow> int option" where
  "read_execution_claim_epoch owner wid db =
     (case workspaces db wid of
        None \<Rightarrow> None
      | Some w \<Rightarrow> if execution_claimed_by w = Some owner then Some (execution_claim_epoch w) else None)"

definition read_provisioning_execution_claim_epoch :: "string \<Rightarrow> database \<Rightarrow> int option" where
  "read_provisioning_execution_claim_epoch wid db =
     (case workspaces db wid of
        None \<Rightarrow> None
      | Some w \<Rightarrow> if status w = Provisioning then Some (execution_claim_epoch w) else None)"

section \<open>The worker's steps\<close>

text \<open>The part of a worker the claim steps use, with the epochs it remembers.\<close>

record Worker =
  worker_id :: string
  config_node_id :: "string option"
  execution_claim_epochs :: "string \<rightharpoonup> int"

definition apply_execution_claim :: "Worker \<Rightarrow> instant \<Rightarrow> Workspace \<Rightarrow> Workspace" where
  "apply_execution_claim wk lease w =
     (let w1 = w\<lparr>execution_claimed_by := Some (worker_id wk), execution_claim_expires_at := Some lease,
                 execution_claim_epoch := execution_claim_epoch w + 1\<rparr>
      in (case config_node_id wk of None \<Rightarrow> w1 | Some n \<Rightarrow> w1\<lparr>node_id := Some n\<rparr>))"

definition blocked_attention_payload ::
    "(json \<Rightarrow> json) \<Rightarrow> string option \<Rightarrow> string option \<Rightarrow> string option \<Rightarrow> json" where
  "blocked_attention_payload redact reason_code ty reason =
     (let j = (\<lambda>x. case x of None \<Rightarrow> JNull | Some s \<Rightarrow> JStr s);
          raw = (if reason \<noteq> None then reason else reason_code)
      in JObj [(''source'', JStr ''blocked''), (''block_reason_code'', redact (j reason_code)),
               (''block_type'', j ty), (''reason'', redact (j raw))])"

datatype PauseResumeReason = Reason_blocked | Reason_recovering

fun PAUSED_RESUME_FROM_STATUS :: "PauseResumeReason \<Rightarrow> WorkspaceStatus" where
  "PAUSED_RESUME_FROM_STATUS Reason_blocked = Blocked"
| "PAUSED_RESUME_FROM_STATUS Reason_recovering = Recovering"

fun PAUSED_RESUME_CLAIM_REASON_CODE :: "PauseResumeReason \<Rightarrow> string" where
  "PAUSED_RESUME_CLAIM_REASON_CODE Reason_blocked = ''OPERATOR_GRANT_RESUME''"
| "PAUSED_RESUME_CLAIM_REASON_CODE Reason_recovering = ''PROVIDER_RECOVERY_IN_PLACE_RESUME''"

text \<open>
  Both targets are legal edges, so the assertion inside \<open>transition_if_current\<close> cannot fail here; the
  branch is kept and aborts the transaction.
\<close>

definition claim_paused_for_resume ::
    "bool \<Rightarrow> (json \<Rightarrow> json) \<Rightarrow> Worker \<Rightarrow> string \<Rightarrow> instant \<Rightarrow> instant \<Rightarrow> PauseResumeReason \<Rightarrow> string \<Rightarrow> database
      \<Rightarrow> bool \<times> database" where
  "claim_paused_for_resume pg redact wk new_id now lease reason wid db =
     (case transition_if_current pg new_id now wid (PAUSED_RESUME_FROM_STATUS reason) Running
             (PAUSED_RESUME_CLAIM_REASON_CODE reason) None [] db of
        Inl _ \<Rightarrow> (False, db)
      | Inr None \<Rightarrow> (False, db)
      | Inr (Some (w, db')) \<Rightarrow>
          (let w1 = (if reason = Reason_blocked
                     then add_event ''workspace.attention_cleared'' None
                            (Some (blocked_attention_payload redact (block_reason_code w) (block_type w) None)) w
                     else w)
           in (True, put_workspace db' (apply_execution_claim wk lease w1))))"

definition restore_paused_resume_claim ::
    "bool \<Rightarrow> (json \<Rightarrow> json) \<Rightarrow> (json \<Rightarrow> json option) \<Rightarrow> Worker \<Rightarrow> string \<Rightarrow> instant \<Rightarrow> PauseResumeReason \<Rightarrow> string
      \<Rightarrow> bool \<Rightarrow> string \<Rightarrow> database \<Rightarrow> database" where
  "restore_paused_resume_claim pg redact rearm wk new_id now reason reason_code rearm_cooldown wid db =
     (case transition_if_current pg new_id now wid Running (PAUSED_RESUME_FROM_STATUS reason) reason_code None
             [\<lambda>w. execution_claimed_by w = Some (worker_id wk)] db of
        Inl _ \<Rightarrow> db
      | Inr None \<Rightarrow> db
      | Inr (Some (w, db')) \<Rightarrow>
          (let w1 = (if reason = Reason_blocked
                     then add_event ''workspace.attention_required'' None
                            (Some (blocked_attention_payload redact (block_reason_code w) (block_type w) None)) w
                     else w);
               w2 = (if rearm_cooldown
                     then (case rearm (task_policy w1) of None \<Rightarrow> w1 | Some p \<Rightarrow> w1\<lparr>task_policy := p\<rparr>)
                     else w1)
           in put_workspace db' w2))"

text \<open>\<open>row_slots\<close>: what the admission check grants; \<open>scope\<close>: the node-scope condition.\<close>

definition claim_requested_for_provisioning ::
    "bool \<Rightarrow> Worker \<Rightarrow> int \<Rightarrow> (Workspace \<Rightarrow> bool) \<Rightarrow> string \<Rightarrow> instant \<Rightarrow> instant \<Rightarrow> string \<Rightarrow> database
      \<Rightarrow> bool \<times> database" where
  "claim_requested_for_provisioning pg wk row_slots scope new_id now lease wid db =
     (if row_slots \<le> 0 then (False, db)
      else (case transition_if_current pg new_id now wid Requested Provisioning ''WORKER_CLAIMED'' None [scope] db of
              Inl _ \<Rightarrow> (False, db)
            | Inr None \<Rightarrow> (False, db)
            | Inr (Some (w, db')) \<Rightarrow> (True, put_workspace db' (apply_execution_claim wk lease w))))"

definition worker_refresh_execution_claim :: "Worker \<Rightarrow> instant \<Rightarrow> string \<Rightarrow> database \<Rightarrow> bool \<times> database" where
  "worker_refresh_execution_claim wk lease wid db =
     refresh_execution_claim (worker_id wk) lease (execution_claim_epochs wk wid) wid db"

definition worker_release_execution_claim :: "Worker \<Rightarrow> bool \<Rightarrow> string \<Rightarrow> database \<Rightarrow> database" where
  "worker_release_execution_claim wk skip_if_blocked wid db =
     (if skip_if_blocked
         \<and> (case workspaces db wid of None \<Rightarrow> False | Some w \<Rightarrow> status w \<in> {Blocked, Recovering})
      then db
      else (let (released, db') = release_execution_claim (worker_id wk) (execution_claim_epochs wk wid) wid db
            in if released then db' else db))"

definition release_execution_claim_after_cancellation ::
    "Worker \<Rightarrow> string \<Rightarrow> database \<Rightarrow> Worker \<times> database" where
  "release_execution_claim_after_cancellation wk wid db =
     (wk\<lparr>execution_claim_epochs := (execution_claim_epochs wk)(wid := None)\<rparr>,
      worker_release_execution_claim wk False wid db)"

end
