(* ===== verification/Transition_Properties.thy ===== *)
theory Transition_Properties
  imports Transition_Facts
begin

text \<open>
  The guarantees of \<open>transition_if_current\<close>: what one committed request changes, that both SQL forms
  do the same, and what holds after any serialised sequence of requests of any number of workers.
\<close>

section \<open>Invariants of a request sequence\<close>

text \<open>A compare-and-set whose committed requests also keep an invariant, when they fit the state.\<close>

locale status_cas_inv = status_cas +
  fixes inv :: "'a \<Rightarrow> bool" and fits :: "'c list \<Rightarrow> 'a \<Rightarrow> bool"
  assumes move_inv: "good db \<Longrightarrow> inv db \<Longrightarrow> fits (r # rs) db \<Longrightarrow> move r db = Some db' \<Longrightarrow> inv db'"
    and fits_skip: "fits (r # rs) db \<Longrightarrow> fits rs db"
    and fits_next: "good db \<Longrightarrow> inv db \<Longrightarrow> fits (r # rs) db \<Longrightarrow> move r db = Some db' \<Longrightarrow> fits rs db'"
begin

lemma serve_inv:
  "good db \<Longrightarrow> inv db \<Longrightarrow> fits rs db \<Longrightarrow>
    inv (foldl (\<lambda>d r. case move r d of None \<Rightarrow> d | Some d' \<Rightarrow> d') db rs)"
proof (induction rs arbitrary: db)
  case (Cons r rs)
  show ?case
  proof (cases "move r db")
    case None
    with Cons fits_skip show ?thesis by simp
  next
    case (Some db')
    have "good db'" "inv db'" "fits rs db'"
      using move_good move_inv fits_next Cons.prems Some by blast+
    with Cons.IH Some show ?thesis by simp
  qed
qed simp

end

text \<open>Every row's events are numbered without gaps.\<close>

definition all_events_ok :: "database \<Rightarrow> bool" where
  "all_events_ok db = (\<forall>i w. workspaces db i = Some w \<longrightarrow> events_ok w)"

lemma served_events_ok: "events_ok w \<Longrightarrow> events_ok (fst (served r w db))"
  by (simp add: served_def finish_transition_events_ok)

interpretation event_cas: status_cas_inv status_of db_keys_ok rq_workspace rq_from rq_to
  "serve_request pg" all_events_ok "\<lambda>_ _. True" for pg
proof unfold_locales
  fix db r rs db'
  assume ok: "db_keys_ok db" and ev: "all_events_ok db" and s: "serve_request pg r db = Some db'"
  obtain w where "workspaces db (rq_workspace r) = Some w" "db' = snd (served r w db)"
    using serve_requestD [OF ok s] by metis
  with ev show "all_events_ok db'"
    by (simp add: all_events_ok_def served_workspaces served_events_ok)
qed simp_all

text \<open>The candidate ids the requests may introduce are new and different.\<close>

definition mc_ids :: "database \<Rightarrow> string list" where
  "mc_ids db = map mc_id (candidates db)"

definition fresh_requests :: "TransitionRequest list \<Rightarrow> database \<Rightarrow> bool" where
  "fresh_requests rs db =
     (distinct (map rq_new_id rs) \<and> (\<forall>r \<in> set rs. rq_new_id r \<notin> set (mc_ids db)))"

lemma put_candidate_ids [simp]: "mc_ids (put_candidate db c) = mc_ids db"
  by (simp add: put_candidate_def mc_ids_def)

lemma put_other_ids [simp]:
  "mc_ids (put_attempt db a) = mc_ids db" "mc_ids (put_workspace db w) = mc_ids db"
  "mc_ids (release_active_for_workspace now x db) = mc_ids db"
  by (simp_all add: mc_ids_def)

lemma close_open_ids [simp]:
  "mc_ids (close_open_for_attempt now aid r db) = mc_ids db"
  "mc_ids (close_open_for_workspace now wid r db) = mc_ids db"
  "mc_ids (mark_workspace_merged now wid db) = mc_ids db"
  by (simp_all add: close_open_for_attempt_def mark_workspace_merged_def split: option.splits)
    (simp add: close_open_for_workspace_def mc_ids_def)

lemma sync_readiness_id [simp]: "mc_id (sync_readiness w a c) = mc_id c" "mc_status (sync_readiness w a c) = mc_status c"
  using sync_readiness_key [of w a c] by (simp_all add: mc_key_def)

lemma create_or_update_ids:
  "create_or_update_open_for_attempt i now t a w h b db = Inr db' \<Longrightarrow>
    set (mc_ids db') \<subseteq> insert i (set (mc_ids db))"
  by (auto simp: create_or_update_open_for_attempt_def split: option.splits if_splits)
    (auto simp: mc_ids_def new_candidate_def)

lemma mark_canonical_ids [simp]: "mc_ids (snd (mark_canonical_for_merge db a)) = mc_ids db"
  by (simp add: mc_ids_def)

lemma make_canonical_ids:
  "make_attempt_canonical_and_create_candidate i now t a w h b db = Inr db' \<Longrightarrow>
    set (mc_ids db') \<subseteq> insert i (set (mc_ids db))"
  by (simp add: make_attempt_canonical_and_create_candidate_def Let_def case_prod_beta
      split: option.splits if_splits; drule create_or_update_ids; simp)

lemma sync_lifecycle_ids:
  "set (mc_ids (sync_merge_candidate_lifecycle i now w a to db)) \<subseteq> insert i (set (mc_ids db))"
  using make_canonical_ids
  by (auto simp: sync_merge_candidate_lifecycle_def split: option.splits sum.splits; blast)

lemma finish_transition_ids:
  "set (mc_ids (snd (finish_transition i now old to r p n w db))) \<subseteq> insert i (set (mc_ids db))"
proof -
  let ?at = "map_option (\<lambda>a. a\<lparr>at_status := to\<rparr>) (attempt_by_workspace db (ws_id w))"
  let ?db1 = "case ?at of None \<Rightarrow> db | Some a \<Rightarrow> put_attempt db a"
  have "mc_ids ?db1 = mc_ids db" by (simp split: option.splits)
  then show ?thesis
    using sync_lifecycle_ids [of i now "started_row now to w" ?at to "put_workspace ?db1 (started_row now to w)"]
    unfolding finish_transition_def Let_def started_row_def [symmetric] by simp
qed

interpretation merge_cas: status_cas_inv status_of db_keys_ok rq_workspace rq_from rq_to
  "serve_request pg" merge_inv fresh_requests for pg
proof unfold_locales
  fix db r rs db'
  assume ok: "db_keys_ok db" and inv: "merge_inv db" and fr: "fresh_requests (r # rs) db"
    and s: "serve_request pg r db = Some db'"
  obtain w where db': "db' = snd (served r w db)" using serve_requestD [OF ok s] by metis
  show "merge_inv db'"
    unfolding db' served_def using inv fr
    by (intro finish_transition_inv) (simp_all add: fresh_requests_def mc_ids_def)
  have "set (mc_ids db') \<subseteq> insert (rq_new_id r) (set (mc_ids db))"
    unfolding db' served_def by (rule finish_transition_ids)
  then have "rq_new_id q \<notin> set (mc_ids db')" if "q \<in> set rs" for q
    using fr that unfolding fresh_requests_def by (metis distinct.simps(2) image_eqI insertE
      list.set_intros(2) list.set_map list.simps(9) subsetD)
  with fr show "fresh_requests rs db'" by (simp add: fresh_requests_def)
qed (auto simp: fresh_requests_def)

section \<open>Examples\<close>

definition sample_request :: "WorkspaceStatus \<Rightarrow> WorkspaceStatus \<Rightarrow> TransitionRequest" where
  "sample_request s t = \<lparr>rq_new_id = ''mc1'', rq_now = 5, rq_workspace = ''w1'', rq_from = s, rq_to = t,
     rq_reason = ''TEST'', rq_payload = None, rq_conds = []\<rparr>"

lemma sample_recovery [simp]: "recovery_allows_work (sample_db s) (sample_workspace i t)"
  by (simp add: recovery_allows_work_def sample_db_def sample_workspace_def json_get_def json_path_null_def)

lemma sample_db_ok [simp]: "all_events_ok (sample_db s)" "merge_inv (sample_db s)"
  by (simp_all add: all_events_ok_def events_ok_def merge_inv_def attempts_ok_def candidates_ok_def
      sample_db_def sample_workspace_def)

lemma sample_request_sel [simp]:
  "rq_workspace (sample_request s t) = ''w1''" "rq_from (sample_request s t) = s" "rq_to (sample_request s t) = t"
  by (simp_all add: sample_request_def)

lemma sample_transition:
  "can_transition s t \<Longrightarrow> transition_if_current pg ''mc1'' 5 ''w1'' s t ''TEST'' None [] (sample_db s) =
    Inr (Some (served (sample_request s t) (sample_workspace ''w1'' s) (sample_db s)))"
  by (simp add: transition_if_current_eq transition_if_current_locked_def served_def sample_request_def
      case_prod_beta)

lemma sample_served:
  "can_transition s t \<Longrightarrow> serve_request pg (sample_request s t) (sample_db s) =
    Some (snd (served (sample_request s t) (sample_workspace ''w1'' s) (sample_db s)))"
  using sample_transition [of s t pg]
  by (simp add: serve_request_def) (simp add: sample_request_def case_prod_beta split: option.splits prod.splits)

section \<open>Properties\<close>

text \<open>
  Property C1: a committed status change is a compare-and-set along a legal edge.  When
  \<open>transition_if_current\<close> returns a row, the stored row had the expected status, met every extra
  condition and was not held by a recovery; the edge is in the table; the stored row is the returned
  one, with the new status, its version and its event sequence advanced by one, exactly one
  \<open>workspace.state_changed\<close> event appended with that order, and its fencing epochs unchanged; every
  other workspace row is untouched.
\<close>

theorem transition_if_current_commit:
  assumes ok: "db_keys_ok db"
    and res: "transition_if_current pg new_id now wid old to reason payload conds db = Inr (Some (w', db'))"
  shows "\<exists>w. workspaces db wid = Some w \<and> status w = old \<and> can_transition old to
    \<and> list_all (\<lambda>c. c w) conds \<and> recovery_allows_work db w
    \<and> workspaces db' = (workspaces db)(wid \<mapsto> w')
    \<and> status w' = to \<and> version w' = version w + 1 \<and> event_sequence w' = event_sequence w + 1
    \<and> events w' = events w @ [state_changed_event old to reason payload (event_sequence w')]
    \<and> execution_claim_epoch w' = execution_claim_epoch w \<and> block_epoch w' = block_epoch w"
proof -
  have edge: "can_transition old to"
    and l: "transition_if_current_locked new_id now wid old to reason payload
        (conds @ [recovery_allows_work db]) db = Some (w', db')"
    using res by (simp_all add: transition_if_current_eq [OF ok] split: if_splits)
  obtain w where w: "workspaces db wid = Some w" "ws_id w = wid" "status w = old"
      "list_all (\<lambda>c. c w) (conds @ [recovery_allows_work db])"
      "(w', db') = finish_transition new_id now old to reason payload (event_sequence w + 1)
        (apply_status now old to (snd (reserve_workspace_event_orders 1 True w))) db"
    by (rule locked_SomeD [OF ok l])
  have row: "w' = fst (finish_transition new_id now old to reason payload (event_sequence w + 1)
        (apply_status now old to (snd (reserve_workspace_event_orders 1 True w))) db)"
    and "workspaces db' = (workspaces db)(wid \<mapsto> w')"
    using w(5) w(2) finish_transition_workspaces [of new_id now old to reason payload]
    by (simp_all add: prod_eq_iff)
  with w edge show ?thesis
    by (intro exI [of _ w]) (simp add: row finish_transition_row started_row_def)
qed

theorem transition_if_current_commit_witness:
  "\<exists>w' db'. transition_if_current True ''mc1'' 5 ''w1'' Running Validating ''TEST'' None [] (sample_db Running)
       = Inr (Some (w', db')) \<and> status w' = Validating \<and> version w' = 2
     \<and> events w' = [state_changed_event Running Validating ''TEST'' None 1]"
proof -
  obtain w' db' where r: "transition_if_current True ''mc1'' 5 ''w1'' Running Validating ''TEST'' None []
      (sample_db Running) = Inr (Some (w', db'))"
    using sample_transition [of Running Validating] by (metis can_transition_def list.set_intros(1) surj_pair transitions.simps(4))
  from transition_if_current_commit [OF sample_db_keys r] r show ?thesis
    by (auto simp: sample_db_def sample_workspace_def)
qed

text \<open>
  Property C19: the two dialects agree.  The row-locking form used on PostgreSQL and the single
  guarded \<open>UPDATE\<close> used elsewhere return the same result and leave the same database, on every
  branch.
\<close>

theorem transition_dialects_agree:
  assumes "db_keys_ok db"
  shows "transition_if_current True new_id now wid old to reason payload conds db =
         transition_if_current False new_id now wid old to reason payload conds db"
  by (simp add: transition_if_current_eq [OF assms])

theorem transition_dialects_agree_witness:
  "transition_if_current True ''m'' 9 ''w1'' Pushing Monitoring_pr ''R'' None [] (sample_db Pushing) =
   transition_if_current False ''m'' 9 ''w1'' Pushing Monitoring_pr ''R'' None [] (sample_db Pushing)"
  by (rule transition_dialects_agree) simp

text \<open>
  Property C33: whatever requests any number of workers send, in whatever order the database serves
  them, the status of every workspace follows the table: after the sequence a row that was in status
  \<open>s\<close> is in a status reached from \<open>s\<close> by a run of at most as many legal transitions.
\<close>

theorem serve_requests_lifecycle:
  assumes "db_keys_ok db" and "status_of db wid = Some s"
  shows "\<exists>p u. status_of (serve_requests pg rs db) wid = Some u \<and> lifecycle_run s p u
           \<and> length p \<le> length rs"
  unfolding serve_requests_def using assms by (rule db_cas.serve_run)

theorem serve_requests_lifecycle_witness:
  "status_of (sample_db Running) ''w1'' = Some Running \<and>
   (\<exists>p u. status_of (serve_requests True [sample_request Running Validating, sample_request Running Failed]
        (sample_db Running)) ''w1'' = Some u \<and> lifecycle_run Running p u
        \<and> length p \<le> length [sample_request Running Validating, sample_request Running Failed])"
proof (rule conjI)
  show s: "status_of (sample_db Running) ''w1'' = Some Running"
    by (simp add: status_of_def sample_db_def sample_workspace_def)
  show "\<exists>p u. status_of (serve_requests True [sample_request Running Validating, sample_request Running Failed]
        (sample_db Running)) ''w1'' = Some u \<and> lifecycle_run Running p u
        \<and> length p \<le> length [sample_request Running Validating, sample_request Running Failed]"
    by (rule serve_requests_lifecycle [OF sample_db_keys s])
qed

text \<open>
  A race has one winner.  Once a request on a workspace has been committed, a second
  request that expects the same status, to whatever target and from whatever worker, changes
  nothing.
\<close>

theorem transition_race_one_winner:
  assumes "db_keys_ok db" and "serve_request pg r db = Some db'"
    and "rq_workspace r' = rq_workspace r" and "rq_from r' = rq_from r"
  shows "serve_request pg r' db' = None"
  using assms by (rule db_cas.race_one_winner)

theorem transition_race_one_winner_witness:
  "\<exists>db'. serve_request False (sample_request Running Validating) (sample_db Running) = Some db'
     \<and> serve_request False (sample_request Running Failed) db' = None"
proof -
  have "can_transition Running Validating" by (simp add: status_simps)
  from sample_served [OF this, of False] obtain db' where
    d: "serve_request False (sample_request Running Validating) (sample_db Running) = Some db'" by blast
  have "serve_request False (sample_request Running Failed) db' = None"
    by (rule transition_race_one_winner [OF sample_db_keys d]) simp_all
  with d show ?thesis by blast
qed

text \<open>
  The event log has no gaps.  After any sequence of requests the events of every
  workspace are still numbered 1, 2, and so on up to the row's event sequence.
\<close>

theorem serve_requests_events:
  assumes "db_keys_ok db" and "all_events_ok db"
  shows "all_events_ok (serve_requests pg rs db)"
  unfolding serve_requests_def using assms by (intro event_cas.serve_inv) auto

theorem serve_requests_events_witness:
  "all_events_ok (serve_requests True [sample_request Pushing Monitoring_pr, sample_request Monitoring_pr Completed]
     (sample_db Pushing))"
  by (rule serve_requests_events) simp_all

text \<open>
  Property C5: one merge candidate per task.  Any sequence of requests whose candidate ids are fresh
  keeps the merge-queue invariant, so at every moment a task has at most one open candidate, and it
  belongs to the task's canonical attempt.
\<close>

theorem serve_requests_merge_queue:
  assumes "db_keys_ok db" and "merge_inv db" and "fresh_requests rs db"
    and "c \<in> set (candidates (serve_requests pg rs db))" "mc_status c = Open"
    and "d \<in> set (candidates (serve_requests pg rs db))" "mc_status d = Open"
    and "mc_task_id d = mc_task_id c"
  shows "d = c \<and> canonical_of (serve_requests pg rs db) c"
proof -
  have inv: "merge_inv (serve_requests pg rs db)"
    unfolding serve_requests_def using assms(1-3) by (rule merge_cas.serve_inv)
  from merge_inv_open_unique [OF this assms(6,4,7,5,8)] merge_inv_canonical [OF this assms(4,5)]
  show ?thesis by blast
qed

lemma sample_serve_requests:
  "serve_requests pg [sample_request Pushing Monitoring_pr] (sample_db Pushing) =
     snd (served (sample_request Pushing Monitoring_pr) (sample_workspace ''w1'' Pushing) (sample_db Pushing))"
  using sample_served [of Pushing Monitoring_pr pg] by (simp add: serve_requests_def status_simps)

lemma sample_candidate:
  "\<exists>c. candidates (serve_requests pg [sample_request Pushing Monitoring_pr] (sample_db Pushing)) = [c]
     \<and> mc_status c = Open"
  unfolding sample_serve_requests served_def
  by (simp add: sample_request_def finish_transition_def Let_def sample_db_def sample_workspace_def
      sample_attempt_def sample_task_def attempt_by_workspace_def put_attempt_def put_workspace_def apply_status_def
      reserve_workspace_event_orders_def transition_invalidates_filesystem_reclamation_def
      filesystem_terminal_def transition_releases_provisioning_execution_claim_def
      releases_resource_reservation_def mark_canonical_for_merge_def get_canonical_for_task_def
      create_or_update_open_for_attempt_def candidate_by_attempt_def new_candidate_def
      sync_merge_candidate_lifecycle_def make_attempt_canonical_and_create_candidate_def)

theorem serve_requests_merge_queue_witness:
  "\<exists>c \<in> set (candidates (serve_requests True [sample_request Pushing Monitoring_pr] (sample_db Pushing))).
     mc_status c = Open
     \<and> canonical_of (serve_requests True [sample_request Pushing Monitoring_pr] (sample_db Pushing)) c"
proof -
  let ?rs = "[sample_request Pushing Monitoring_pr]"
  obtain c where c: "c \<in> set (candidates (serve_requests True ?rs (sample_db Pushing)))" "mc_status c = Open"
    using sample_candidate [of True] by auto
  have f: "fresh_requests ?rs (sample_db Pushing)" by (simp add: fresh_requests_def mc_ids_def)
  from serve_requests_merge_queue [OF sample_db_keys sample_db_ok(2) f c c refl] c show ?thesis by blast
qed

text \<open>
  A finished workspace leaves nothing behind.  After a committed move to \<open>Failed\<close> or
  \<open>Cancelled\<close> no merge candidate of the workspace is open, and after a move to any status that ends
  the work none of its resource reservations is active.
\<close>

theorem terminal_cleanup:
  assumes "db_keys_ok db" and "serve_request pg r db = Some db'"
  shows "(rq_to r \<in> {Failed, Cancelled} \<longrightarrow> \<not> has_open_candidate db' (rq_workspace r))
       \<and> (releases_resource_reservation (rq_to r) \<longrightarrow> \<not> has_active_reservation db' (rq_workspace r))"
proof -
  obtain w where w: "ws_id w = rq_workspace r" "db' = snd (served r w db)"
    using serve_requestD [OF assms] by metis
  then show ?thesis
    using finish_transition_closes [of "rq_to r"] finish_transition_releases [of "rq_to r"]
    by (metis apply_status_simps(1) insertE reserve_simps(2) served_def singletonD)
qed

theorem terminal_cleanup_witness:
  "\<exists>db'. serve_request True (sample_request Running Failed) (sample_db Running) = Some db'
     \<and> has_active_reservation (sample_db Running) ''w1'' \<and> \<not> has_active_reservation db' ''w1''"
proof -
  have "can_transition Running Failed" by (simp add: status_simps)
  from sample_served [OF this, of True] obtain db' where
    d: "serve_request True (sample_request Running Failed) (sample_db Running) = Some db'" by blast
  from terminal_cleanup [OF sample_db_keys d] have "\<not> has_active_reservation db' ''w1''"
    by (simp add: releases_resource_reservation_def)
  with d show ?thesis by (auto simp: has_active_reservation_def sample_db_def sample_reservation_def)
qed

end
