(* ===== verification/Claim_Properties.thy ===== *)
theory Claim_Properties
  imports Claims Transition_Properties
begin

text \<open>
  Fencing: the execution epoch of a row never decreases, every claim raises it, and a worker that
  holds an older epoch can never extend or drop the lease of its successor, however the steps of the
  workers interleave.
\<close>

section \<open>The fencing interface\<close>

text \<open>A store of rows with an epoch each, on which steps of several workers act.\<close>

locale epoch_store =
  fixes epoch :: "'db \<Rightarrow> 'id \<Rightarrow> int option" and good :: "'db \<Rightarrow> bool" and step :: "'op \<Rightarrow> 'db \<Rightarrow> 'db"
  assumes step_good: "good db \<Longrightarrow> good (step op db)"
    and step_epoch: "good db \<Longrightarrow> epoch db i = Some e \<Longrightarrow> \<exists>e'. epoch (step op db) i = Some e' \<and> e \<le> e'"
begin

lemma run_good: "good db \<Longrightarrow> good (foldl (\<lambda>d op. step op d) db ops)"
  by (induction ops arbitrary: db) (auto intro: step_good)

lemma run_epoch:
  "good db \<Longrightarrow> epoch db i = Some e \<Longrightarrow> \<exists>e'. epoch (foldl (\<lambda>d op. step op d) db ops) i = Some e' \<and> e \<le> e'"
proof (induction ops arbitrary: db e)
  case (Cons op ops)
  from step_epoch [OF Cons.prems] obtain e' where e': "epoch (step op db) i = Some e'" "e \<le> e'" by blast
  from Cons.IH [OF step_good [OF Cons.prems(1)] e'(1)] e'(2) show ?case by (auto intro: order_trans)
qed simp

end

text \<open>A write that is gated on the epoch a worker remembers.\<close>

locale fenced_store = epoch_store +
  fixes gated :: "'b \<Rightarrow> int \<Rightarrow> 'a \<Rightarrow> bool \<times> 'a"
  assumes gate: "epoch db i \<noteq> Some e \<Longrightarrow> gated i e db = (False, db)"
begin

lemma stale_forever:
  assumes "good db" "epoch db i = Some e'" "e < e'"
  shows "gated i e (foldl (\<lambda>d op. step op d) db ops) = (False, foldl (\<lambda>d op. step op d) db ops)"
proof (rule gate)
  from run_epoch [OF assms(1,2), of ops] assms(3) show "epoch (foldl (\<lambda>d op. step op d) db ops) i \<noteq> Some e" by auto
qed

end

section \<open>The steps of the workers\<close>

datatype worker_step =
  Serve TransitionRequest
| Claim_monitor string instant instant "instant option" "string list option" string
| Refresh_monitor string instant string
| Release_monitor string string
| Claim_restart "Operation list" string instant instant string
| Refresh_execution string instant "int option" string
| Release_execution string "int option" string
| Resume_paused Worker string instant instant PauseResumeReason string
| Restore_paused Worker string instant PauseResumeReason string bool string
| Claim_requested Worker int "Workspace \<Rightarrow> bool" string instant instant string

fun perform :: "bool \<Rightarrow> (json \<Rightarrow> json) \<Rightarrow> (json \<Rightarrow> json option) \<Rightarrow> worker_step \<Rightarrow> database \<Rightarrow> database" where
  "perform pg rd ra (Serve r) db = (case serve_request pg r db of None \<Rightarrow> db | Some db' \<Rightarrow> db')"
| "perform pg rd ra (Claim_monitor o' l c cc f i) db = snd (claim_monitoring_pr o' l c cc f i db)"
| "perform pg rd ra (Refresh_monitor o' l i) db = snd (refresh_monitoring_pr_claim o' l i db)"
| "perform pg rd ra (Release_monitor o' i) db = snd (release_monitoring_pr_claim o' i db)"
| "perform pg rd ra (Claim_restart ops o' l c i) db = snd (claim_worker_restart_recovery_execution ops o' l c i db)"
| "perform pg rd ra (Refresh_execution o' l e i) db = snd (refresh_execution_claim o' l e i db)"
| "perform pg rd ra (Release_execution o' e i) db = snd (release_execution_claim o' e i db)"
| "perform pg rd ra (Resume_paused wk n now l r i) db = snd (claim_paused_for_resume pg rd wk n now l r i db)"
| "perform pg rd ra (Restore_paused wk n now r rc b i) db =
     restore_paused_resume_claim pg rd ra wk n now r rc b i db"
| "perform pg rd ra (Claim_requested wk s sc n now l i) db =
     snd (claim_requested_for_provisioning pg wk s sc n now l i db)"

definition run_steps ::
    "bool \<Rightarrow> (json \<Rightarrow> json) \<Rightarrow> (json \<Rightarrow> json option) \<Rightarrow> worker_step list \<Rightarrow> database \<Rightarrow> database" where
  "run_steps pg rd ra ops db = foldl (\<lambda>d op. perform pg rd ra op d) db ops"

definition epoch_of :: "database \<Rightarrow> string \<Rightarrow> int option" where
  "epoch_of db wid = map_option execution_claim_epoch (workspaces db wid)"

text \<open>A write that leaves every other row alone and does not lower this row's epoch.\<close>

definition advances :: "database \<Rightarrow> database \<Rightarrow> bool" where
  "advances db db' =
     (\<forall>i w. workspaces db i = Some w \<longrightarrow>
        (\<exists>w'. workspaces db' i = Some w' \<and> execution_claim_epoch w \<le> execution_claim_epoch w'))"

lemma advances_refl [simp]: "advances db db"
  by (simp add: advances_def)

lemma advances_put:
  "db_keys_ok db \<Longrightarrow> workspaces db i = Some w \<Longrightarrow> workspaces db' = (workspaces db)(i \<mapsto> w') \<Longrightarrow>
     execution_claim_epoch w \<le> execution_claim_epoch w' \<Longrightarrow> advances db db'"
  by (simp add: advances_def)

lemma keys_put: "db_keys_ok db \<Longrightarrow> workspaces db' = (workspaces db)(i \<mapsto> w') \<Longrightarrow> ws_id w' = i \<Longrightarrow> db_keys_ok db'"
  by (simp add: db_keys_ok_def)

lemma update_where_ok:
  assumes ok: "db_keys_ok db" and f: "\<And>w. ws_id (f w) = ws_id w"
      "\<And>w. cond w \<Longrightarrow> execution_claim_epoch w \<le> execution_claim_epoch (f w)"
  shows "db_keys_ok (snd (update_where cond f i db)) \<and> advances db (snd (update_where cond f i db))"
proof (cases "workspaces db i")
  case (Some w)
  with ok have i: "ws_id w = i" by (simp add: db_keys_ok_def)
  show ?thesis
  proof (cases "cond w")
    case True
    with Some have d: "snd (update_where cond f i db) = put_workspace db (f w)" by (simp add: update_where_def)
    have w: "workspaces (put_workspace db (f w)) = (workspaces db)(i \<mapsto> f w)"
      by (simp add: put_workspace_def f i)
    show ?thesis
      unfolding d using keys_put [OF ok w] advances_put [OF ok Some w] f i True by simp
  qed (use Some ok in \<open>simp add: update_where_def\<close>)
qed (use ok in \<open>simp add: update_where_def\<close>)

text \<open>A committed transition, seen by the steps that go on writing the row it returned.\<close>

lemma transition_row:
  assumes "db_keys_ok db" and "transition_if_current pg n now i old to r p conds db = Inr (Some (w', db'))"
  obtains w where "workspaces db i = Some w" "status w = old" "list_all (\<lambda>c. c w) conds"
    "workspaces db' = (workspaces db)(i \<mapsto> w')" "ws_id w' = i" "status w' = to"
    "execution_claim_epoch w' = execution_claim_epoch w" "block_epoch w' = block_epoch w"
proof -
  have l: "transition_if_current_locked n now i old to r p (conds @ [recovery_allows_work db]) db = Some (w', db')"
    using assms(2) by (simp add: transition_if_current_eq [OF assms(1)] split: if_splits)
  obtain w where w: "workspaces db i = Some w" "ws_id w = i" "status w = old"
      "list_all (\<lambda>c. c w) (conds @ [recovery_allows_work db])"
      "(w', db') = finish_transition n now old to r p (event_sequence w + 1)
        (apply_status now old to (snd (reserve_workspace_event_orders 1 True w))) db"
    by (rule locked_SomeD [OF assms(1) l])
  have row: "w' = fst (finish_transition n now old to r p (event_sequence w + 1)
        (apply_status now old to (snd (reserve_workspace_event_orders 1 True w))) db)"
    and "workspaces db' = (workspaces db)(i \<mapsto> w')"
    using w(2,5) finish_transition_workspaces [of n now old to r p] by (simp_all add: prod_eq_iff)
  with w that [of w] show thesis by (simp add: row finish_transition_row started_row_def)
qed

lemma add_event_epoch [simp]: "execution_claim_epoch (add_event ty r p w) = execution_claim_epoch w"
  "ws_id (add_event ty r p w) = ws_id w" "status (add_event ty r p w) = status w"
  by (simp_all add: add_event_def add_events_def reserve_workspace_event_orders_def Let_def)

lemma apply_execution_claim_simps [simp]:
  "ws_id (apply_execution_claim wk l w) = ws_id w"
  "status (apply_execution_claim wk l w) = status w"
  "execution_claim_epoch (apply_execution_claim wk l w) = execution_claim_epoch w + 1"
  "execution_claimed_by (apply_execution_claim wk l w) = Some (worker_id wk)"
  "execution_claim_expires_at (apply_execution_claim wk l w) = Some l"
  by (simp_all add: apply_execution_claim_def Let_def split: option.splits)

text \<open>A transition whose returned row is rewritten once more.\<close>

lemma transition_then_put:
  assumes ok: "db_keys_ok db" and t: "transition_if_current pg n now i old to r p conds db = Inr (Some (w', db'))"
    and u: "ws_id u = ws_id w'" "execution_claim_epoch w' \<le> execution_claim_epoch u"
  shows "db_keys_ok (put_workspace db' u) \<and> advances db (put_workspace db' u)"
proof -
  obtain w where w: "workspaces db i = Some w" "workspaces db' = (workspaces db)(i \<mapsto> w')" "ws_id w' = i"
      "execution_claim_epoch w' = execution_claim_epoch w"
    by (rule transition_row [OF ok t])
  then have p: "workspaces (put_workspace db' u) = (workspaces db)(i \<mapsto> u)"
    using u by (simp add: put_workspace_def)
  show ?thesis
    using keys_put [OF ok p] advances_put [OF ok w(1) p] w u by simp
qed

lemma perform_ok:
  assumes ok: "db_keys_ok db"
  shows "db_keys_ok (perform pg rd ra op db) \<and> advances db (perform pg rd ra op db)"
proof (cases op)
  case (Serve r)
  show ?thesis
  proof (cases "serve_request pg r db")
    case (Some db')
    obtain w where w: "workspaces db (rq_workspace r) = Some w" "ws_id w = rq_workspace r" "db' = snd (served r w db)"
      using serve_requestD [OF ok Some] by metis
    have p: "workspaces db' = (workspaces db)(rq_workspace r \<mapsto> fst (served r w db))"
      by (simp add: w served_workspaces)
    have "execution_claim_epoch (fst (served r w db)) = execution_claim_epoch w"
      by (simp add: served_def finish_transition_row started_row_def)
    with keys_put [OF ok p] advances_put [OF ok w(1) p] Serve Some w served_row(1) show ?thesis by simp
  qed (simp add: Serve ok)
next
  case (Claim_monitor o' l c cc f i)
  show ?thesis unfolding Claim_monitor perform.simps claim_monitoring_pr_def
    by (rule update_where_ok [OF ok]) (simp_all add: Let_def split: option.splits)
next
  case (Claim_restart ops o' l c i)
  show ?thesis
    unfolding Claim_restart perform.simps claim_worker_restart_recovery_execution_def
    by (simp add: case_prod_beta) (intro conjI impI update_where_ok [OF ok, THEN conjunct1]
        update_where_ok [OF ok, THEN conjunct2]; simp)
next
  case (Resume_paused wk n now l r i)
  show ?thesis
    using transition_then_put [OF ok]
    by (simp add: Resume_paused claim_paused_for_resume_def Let_def ok split: sum.splits option.splits)
next
  case (Restore_paused wk n now r rc b i)
  show ?thesis
    using transition_then_put [OF ok]
    by (simp add: Restore_paused restore_paused_resume_claim_def Let_def ok split: sum.splits option.splits)
next
  case (Claim_requested wk s sc n now l i)
  show ?thesis
    using transition_then_put [OF ok]
    by (simp add: Claim_requested claim_requested_for_provisioning_def ok split: sum.splits option.splits)
qed (simp_all add: refresh_monitoring_pr_claim_def release_monitoring_pr_claim_def
      refresh_execution_claim_def release_execution_claim_def update_where_ok [OF ok])

lemma epoch_of_Some: "epoch_of db i = Some e \<longleftrightarrow> (\<exists>w. workspaces db i = Some w \<and> execution_claim_epoch w = e)"
  by (auto simp: epoch_of_def)

interpretation worker_epochs: epoch_store epoch_of db_keys_ok "perform pg rd ra" for pg rd ra
proof
  fix db op i e
  assume ok: "db_keys_ok db"
  note p = perform_ok [OF ok, of pg rd ra op]
  then show "db_keys_ok (perform pg rd ra op db)" by blast
  assume "epoch_of db i = Some e"
  with p show "\<exists>e'. epoch_of (perform pg rd ra op db) i = Some e' \<and> e \<le> e'"
    unfolding epoch_of_Some advances_def by metis
qed

text \<open>Both epoch-gated writes of a worker are fenced.\<close>

lemma gated_miss:
  assumes "epoch_of db i \<noteq> Some e"
  shows "update_where (owns owner (Some e)) f i db = (False, db)"
  using assms by (auto simp: update_where_def owns_def epoch_of_def split: option.splits)

interpretation fenced_refresh: fenced_store epoch_of db_keys_ok "perform pg rd ra"
  "\<lambda>i e. refresh_execution_claim owner lease (Some e) i" for pg rd ra owner lease
  by unfold_locales (simp add: refresh_execution_claim_def gated_miss)

interpretation fenced_release: fenced_store epoch_of db_keys_ok "perform pg rd ra"
  "\<lambda>i e. release_execution_claim owner (Some e) i" for pg rd ra owner
  by unfold_locales (simp add: release_execution_claim_def gated_miss)

section \<open>Properties\<close>

text \<open>
  Property C8: a superseded worker is fenced for good.  When a worker remembers an execution epoch
  older than the row's, then after any sequence of claims, refreshes, releases, resumes, restores
  and status changes of any workers its lease refresh and its lease release still match no row and
  leave the database as it is, and the provisioner's pre-launch check does not see its epoch.
\<close>

theorem stale_worker_fenced:
  assumes "db_keys_ok db" and "epoch_of db wid = Some e'" and "e < e'"
  shows "refresh_execution_claim owner lease (Some e) wid (run_steps pg rd ra ops db)
           = (False, run_steps pg rd ra ops db)
       \<and> release_execution_claim owner (Some e) wid (run_steps pg rd ra ops db)
           = (False, run_steps pg rd ra ops db)
       \<and> read_execution_claim_epoch owner wid (run_steps pg rd ra ops db) \<noteq> Some e
       \<and> read_provisioning_execution_claim_epoch wid (run_steps pg rd ra ops db) \<noteq> Some e"
proof (intro conjI)
  show "refresh_execution_claim owner lease (Some e) wid (run_steps pg rd ra ops db)
           = (False, run_steps pg rd ra ops db)"
    unfolding run_steps_def using assms by (rule fenced_refresh.stale_forever)
  show "release_execution_claim owner (Some e) wid (run_steps pg rd ra ops db)
           = (False, run_steps pg rd ra ops db)"
    unfolding run_steps_def using assms by (rule fenced_release.stale_forever)
  obtain e'' where "epoch_of (run_steps pg rd ra ops db) wid = Some e''" "e' \<le> e''"
    unfolding run_steps_def using worker_epochs.run_epoch [OF assms(1,2)] by blast
  then show "read_execution_claim_epoch owner wid (run_steps pg rd ra ops db) \<noteq> Some e"
    "read_provisioning_execution_claim_epoch wid (run_steps pg rd ra ops db) \<noteq> Some e"
    using assms(3) by (auto simp: epoch_of_Some read_execution_claim_epoch_def
        read_provisioning_execution_claim_epoch_def split: if_splits)
qed

definition claimed_db :: database where
  "claimed_db = put_workspace (sample_db Running) ((sample_workspace ''w1'' Running)
     \<lparr>execution_claimed_by := Some ''new'', execution_claim_expires_at := Some 90, execution_claim_epoch := 4\<rparr>)"

theorem stale_worker_fenced_witness:
  "epoch_of claimed_db ''w1'' = Some 4
   \<and> fst (release_execution_claim ''new'' (Some 3) ''w1''
        (run_steps True id Some [Refresh_execution ''new'' 120 (Some 4) ''w1''] claimed_db)) = False"
proof (rule conjI)
  have ok: "db_keys_ok claimed_db" unfolding claimed_db_def by (intro db_keys_ok_put sample_db_keys)
  show e: "epoch_of claimed_db ''w1'' = Some 4"
    by (simp add: epoch_of_def claimed_db_def put_workspace_def)
  show "fst (release_execution_claim ''new'' (Some 3) ''w1''
        (run_steps True id Some [Refresh_execution ''new'' 120 (Some 4) ''w1''] claimed_db)) = False"
    using stale_worker_fenced [OF ok e, of 3 "''new''"] by simp
qed

lemma resume_won:
  assumes ok: "db_keys_ok db"
    and won: "claim_paused_for_resume pg rd wk n now l r wid db = (True, db')"
  obtains w w' where "workspaces db wid = Some w" "status w = PAUSED_RESUME_FROM_STATUS r"
    "workspaces db' = (workspaces db)(wid \<mapsto> w')" "ws_id w' = wid" "status w' = Running"
    "execution_claimed_by w' = Some (worker_id wk)" "execution_claim_expires_at w' = Some l"
    "execution_claim_epoch w' = execution_claim_epoch w + 1"
proof -
  from won obtain u du where t: "transition_if_current pg n now wid (PAUSED_RESUME_FROM_STATUS r) Running
      (PAUSED_RESUME_CLAIM_REASON_CODE r) None [] db = Inr (Some (u, du))"
    by (auto simp: claim_paused_for_resume_def split: sum.splits option.splits)
  obtain w where w: "workspaces db wid = Some w" "status w = PAUSED_RESUME_FROM_STATUS r"
      "workspaces du = (workspaces db)(wid \<mapsto> u)" "ws_id u = wid" "status u = Running"
      "execution_claim_epoch u = execution_claim_epoch w"
    by (rule transition_row [OF ok t])
  let ?w1 = "if r = Reason_blocked then add_event ''workspace.attention_cleared'' None
      (Some (blocked_attention_payload rd (block_reason_code u) (block_type u) None)) u else u"
  have d: "db' = put_workspace du (apply_execution_claim wk l ?w1)"
    using won by (simp add: claim_paused_for_resume_def t)
  have "workspaces db' = (workspaces db)(wid \<mapsto> apply_execution_claim wk l ?w1)"
    unfolding d by (simp add: put_workspace_def w)
  with w that [of w "apply_execution_claim wk l ?w1"] show thesis by simp
qed

lemma resume_wrong_status:
  assumes "db_keys_ok db" and "status_of db wid \<noteq> Some (PAUSED_RESUME_FROM_STATUS r)"
  shows "claim_paused_for_resume pg rd wk n now l r wid db = (False, db)"
proof -
  have "can_transition (PAUSED_RESUME_FROM_STATUS r) Running" by (cases r) (simp_all add: status_simps)
  with assms(2) show ?thesis
    by (auto simp: claim_paused_for_resume_def transition_if_current_eq [OF assms(1)]
        transition_if_current_locked_def status_of_def split: option.splits)
qed

text \<open>
  A paused workspace is resumed once.  A won resume moves the row to \<open>Running\<close>, stamps
  the winner's lease and raises the epoch by one; a second resume of the same row by any worker
  fails and changes nothing; and the worker that held the row before can no longer refresh its lease.
\<close>

theorem paused_resume_once:
  assumes ok: "db_keys_ok db"
    and won: "claim_paused_for_resume pg rd wk n now l r wid db = (True, db')"
    and held: "epoch_of db wid = Some e"
  shows "status_of db' wid = Some Running \<and> read_execution_claim_epoch (worker_id wk) wid db' = Some (e + 1)
       \<and> claim_paused_for_resume pg' rd' wk' n' now' l' r' wid db' = (False, db')
       \<and> refresh_execution_claim prev l'' (Some e) wid db' = (False, db')"
proof -
  obtain w w' where w: "workspaces db wid = Some w" "workspaces db' = (workspaces db)(wid \<mapsto> w')" "ws_id w' = wid"
      "status w' = Running" "execution_claimed_by w' = Some (worker_id wk)"
      "execution_claim_epoch w' = execution_claim_epoch w + 1"
    by (rule resume_won [OF ok won])
  have s: "status_of db' wid = Some Running" using w by (simp add: status_of_def)
  have "db_keys_ok db'" using keys_put [OF ok w(2,3)] .
  moreover have "status_of db' wid \<noteq> Some (PAUSED_RESUME_FROM_STATUS r')" using s by (cases r') simp_all
  ultimately have "claim_paused_for_resume pg' rd' wk' n' now' l' r' wid db' = (False, db')"
    by (rule resume_wrong_status)
  moreover have "epoch_of db' wid = Some (e + 1)" using w held by (simp add: epoch_of_def)
  moreover have "refresh_execution_claim prev l'' (Some e) wid db' = (False, db')"
    using calculation(2) by (simp add: refresh_execution_claim_def gated_miss)
  ultimately show ?thesis
    using s w held by (simp add: read_execution_claim_epoch_def epoch_of_def)
qed

definition sample_worker :: Worker where
  "sample_worker = \<lparr>worker_id = ''wk'', config_node_id = Some ''node'', execution_claim_epochs = Map.empty\<rparr>"

lemma sample_resume:
  "fst (claim_paused_for_resume pg rd wk ''mc1'' 5 99 Reason_blocked ''w1'' (sample_db Blocked)) = True"
proof -
  have "can_transition Blocked Running" by (simp add: status_simps)
  then show ?thesis
    by (simp add: claim_paused_for_resume_def transition_if_current_eq transition_if_current_locked_def
        case_prod_beta Let_def split: prod.splits)
qed

theorem paused_resume_once_witness:
  "\<exists>db'. claim_paused_for_resume True id sample_worker ''mc1'' 5 99 Reason_blocked ''w1'' (sample_db Blocked) = (True, db')
     \<and> read_execution_claim_epoch ''wk'' ''w1'' db' = Some 1
     \<and> claim_paused_for_resume True id sample_worker ''mc2'' 6 99 Reason_blocked ''w1'' db' = (False, db')"
proof -
  obtain db' where d: "claim_paused_for_resume True id sample_worker ''mc1'' 5 99 Reason_blocked ''w1''
      (sample_db Blocked) = (True, db')"
    using sample_resume by (metis (full_types) prod.collapse)
  have "epoch_of (sample_db Blocked) ''w1'' = Some 0"
    by (simp add: epoch_of_def sample_db_def sample_workspace_def)
  from paused_resume_once [OF sample_db_keys d this] d show ?thesis
    by (auto simp: sample_worker_def)
qed

text \<open>
  Leases exclude each other.  While a worker holds an unexpired monitor lease no other
  worker's claim succeeds; while another live worker holds an unexpired execution lease a monitor
  claim that would have to clear it does not succeed either; and a claim that does clear an
  execution lease raises the epoch, so its former holder is fenced.
\<close>

theorem monitor_lease_exclusive:
  assumes "workspaces db wid = Some w" and "owner \<noteq> a"
    and "(monitor_claimed_by w = Some a \<and> monitor_claim_expires_at w = Some t \<and> cutoff < t)
       \<or> (execution_claimed_by w = Some a \<and> execution_claim_expires_at w = Some t
          \<and> (\<exists>cc. clear_cutoff = Some cc \<and> cc < t) \<and> a \<in> set (case fresh of None \<Rightarrow> [a] | Some f \<Rightarrow> f))"
  shows "claim_monitoring_pr owner lease cutoff clear_cutoff fresh wid db = (False, db)"
  using assms
  by (auto simp: claim_monitoring_pr_def update_where_def monitor_claim_available_def sql_le_def
      clearable_execution_claim_def stale_execution_claim_def split: option.splits)

theorem monitor_lease_exclusive_witness:
  "claim_monitoring_pr ''b'' 300 100 (Some 100) None ''w1'' claimed_db = (False, claimed_db)
   \<and> claim_monitoring_pr ''b'' 300 10 (Some 10) (Some [''new'']) ''w1''
       (put_workspace claimed_db ((sample_workspace ''w1'' Monitoring_pr)\<lparr>monitor_claimed_by := Some ''a'',
          monitor_claim_expires_at := Some 50\<rparr>))
     = (False, put_workspace claimed_db ((sample_workspace ''w1'' Monitoring_pr)\<lparr>monitor_claimed_by := Some ''a'',
          monitor_claim_expires_at := Some 50\<rparr>))"
proof (rule conjI)
  show "claim_monitoring_pr ''b'' 300 100 (Some 100) None ''w1'' claimed_db = (False, claimed_db)"
    by (simp add: claim_monitoring_pr_def update_where_def claimed_db_def put_workspace_def)
  show "claim_monitoring_pr ''b'' 300 10 (Some 10) (Some [''new'']) ''w1''
       (put_workspace claimed_db ((sample_workspace ''w1'' Monitoring_pr)\<lparr>monitor_claimed_by := Some ''a'',
          monitor_claim_expires_at := Some 50\<rparr>))
     = (False, put_workspace claimed_db ((sample_workspace ''w1'' Monitoring_pr)\<lparr>monitor_claimed_by := Some ''a'',
          monitor_claim_expires_at := Some 50\<rparr>))"
    by (rule monitor_lease_exclusive [where a = "''a''" and t = 50 and w = "(sample_workspace ''w1'' Monitoring_pr)
        \<lparr>monitor_claimed_by := Some ''a'', monitor_claim_expires_at := Some 50\<rparr>"])
      (simp_all add: put_workspace_def)
qed

text \<open>
  Taking over a monitored row is exact.  A monitor claim that succeeds leaves the
  claimant holding the monitor lease until the requested time, and clears the execution lease
  exactly when that lease was clearable, raising the epoch by one then and leaving it alone
  otherwise; the status and every other row are untouched.
\<close>

theorem monitor_claim_effect:
  assumes ok: "db_keys_ok db" and "claim_monitoring_pr owner lease cutoff (Some cc) fresh wid db = (True, db')"
  shows "\<exists>w w'. workspaces db wid = Some w \<and> workspaces db' = (workspaces db)(wid \<mapsto> w')
     \<and> status w = Monitoring_pr \<and> status w' = Monitoring_pr
     \<and> monitor_claimed_by w' = Some owner \<and> monitor_claim_expires_at w' = Some lease
     \<and> (if clearable_execution_claim cc owner fresh w
        then execution_claimed_by w' = None \<and> execution_claim_epoch w' = execution_claim_epoch w + 1
        else execution_claimed_by w' = Some owner \<and> execution_claimed_by w = Some owner
             \<and> execution_claim_epoch w' = execution_claim_epoch w)"
  using assms
  by (auto simp: claim_monitoring_pr_def update_where_def put_workspace_def db_keys_ok_def Let_def
      split: option.splits if_splits)

theorem monitor_claim_effect_witness:
  "\<exists>db'. claim_monitoring_pr ''b'' 300 100 (Some 100) None ''w1'' (sample_db Monitoring_pr) = (True, db')
     \<and> epoch_of db' ''w1'' = Some 1"
proof -
  obtain db' where d: "claim_monitoring_pr ''b'' 300 100 (Some 100) None ''w1'' (sample_db Monitoring_pr) = (True, db')"
    by (simp add: claim_monitoring_pr_def update_where_def monitor_claim_available_def clearable_execution_claim_def
        stale_execution_claim_def) (simp add: sample_workspace_def)
  from monitor_claim_effect [OF sample_db_keys d] have "epoch_of db' ''w1'' = Some 1"
    by (auto simp: epoch_of_def clearable_execution_claim_def stale_execution_claim_def)
      (simp_all add: sample_workspace_def)
  with d show ?thesis by blast
qed

end
