(* ===== verification/Glob.thy ===== *)
theory Glob
  imports Prelude
begin

text \<open>
  Python's \<open>fnmatch.fnmatchcase\<close>, as the owned-path and grant code uses it: \<open>*\<close> matches any run of
  characters (\<open>/\<close> included), \<open>?\<close> one character, \<open>[...]\<close> and \<open>[!...]\<close> a set of characters and ranges,
  and a \<open>[\<close> with no closing bracket is a literal.
\<close>

section \<open>Patterns\<close>

datatype glob_item = Any_run | Any_char | Lit char | Class bool "(char \<times> char) list"

function class_ranges :: "string \<Rightarrow> (char \<times> char) list" where
  "class_ranges [] = []"
| "class_ranges (x # s) =
     (case s of
        d # y # r \<Rightarrow> if d = CHR ''-'' then (x, y) # class_ranges r else (x, x) # class_ranges s
      | _ \<Rightarrow> (x, x) # class_ranges s)"
  by pat_completeness auto
termination
  by (relation "measure length") auto

text \<open>The text after a \<open>[\<close>: whether the set is negated, its body and what follows the closing bracket.\<close>

definition class_split :: "string \<Rightarrow> (bool \<times> string \<times> string) option" where
  "class_split s =
     (let neg = startswith s ''!'';
          s1 = (if neg then tl s else s);
          pre = (if startswith s1 '']'' then '']'' else []);
          s2 = drop (length pre) s1
      in if CHR '']'' \<in> set s2
         then Some (neg, pre @ takeWhile (\<lambda>c. c \<noteq> CHR '']'') s2, tl (dropWhile (\<lambda>c. c \<noteq> CHR '']'') s2))
         else None)"

lemma class_split_length:
  assumes "class_split s = Some (n, b, r)"
  shows "length r \<le> length s"
proof -
  have le: "length (dropWhile P t) - Suc 0 \<le> length s" if "length t \<le> length s" for P and t :: string
    using that length_dropWhile_le [of P t] by simp
  show ?thesis using assms by (auto simp: class_split_def Let_def le split: if_splits)
qed

function parse_glob :: "string \<Rightarrow> glob_item list" where
  "parse_glob [] = []"
| "parse_glob (c # s) =
     (if c = CHR ''*'' then Any_run # parse_glob s
      else if c = CHR ''?'' then Any_char # parse_glob s
      else if c = CHR ''['' then
        (case class_split s of
           None \<Rightarrow> Lit c # parse_glob s
         | Some (neg, body, r) \<Rightarrow> Class neg (class_ranges body) # parse_glob r)
      else Lit c # parse_glob s)"
  by pat_completeness auto
termination
  by (relation "measure length") (auto dest: class_split_length)

section \<open>Matching\<close>

fun glob_match :: "glob_item list \<Rightarrow> string \<Rightarrow> bool" where
  "glob_match [] s = (s = [])"
| "glob_match (Any_run # ps) [] = glob_match ps []"
| "glob_match (Any_run # ps) (c # s) = (glob_match ps (c # s) \<or> glob_match (Any_run # ps) s)"
| "glob_match (Any_char # ps) [] = False"
| "glob_match (Any_char # ps) (c # s) = glob_match ps s"
| "glob_match (Lit d # ps) [] = False"
| "glob_match (Lit d # ps) (c # s) = (c = d \<and> glob_match ps s)"
| "glob_match (Class neg rs # ps) [] = False"
| "glob_match (Class neg rs # ps) (c # s) =
     (list_ex (\<lambda>(a, b). a \<le> c \<and> c \<le> b) rs \<noteq> neg \<and> glob_match ps s)"

definition fnmatchcase :: "string \<Rightarrow> string \<Rightarrow> bool" where
  "fnmatchcase name pat = glob_match (parse_glob pat) name"

section \<open>Literal prefixes\<close>

definition is_wild :: "char \<Rightarrow> bool" where
  "is_wild c = (c = CHR ''*'' \<or> c = CHR ''?'' \<or> c = CHR ''['')"

lemma parse_glob_literal:
  "\<forall>c \<in> set p. \<not> is_wild c \<Longrightarrow> parse_glob (p @ s) = map Lit p @ parse_glob s"
  by (induction p) (auto simp: is_wild_def)

lemma glob_match_literal: "glob_match (map Lit p @ ps) s \<longleftrightarrow> (\<exists>t. s = p @ t \<and> glob_match ps t)"
proof (induction p arbitrary: s)
  case (Cons d p)
  then show ?case by (cases s) auto
qed simp

text \<open>Every match of a pattern starts with the pattern's text before its first wildcard.\<close>

lemma fnmatch_prefix:
  assumes "fnmatchcase s pat"
  shows "\<exists>t. s = takeWhile (\<lambda>c. \<not> is_wild c) pat @ t"
proof -
  have "parse_glob pat = map Lit (takeWhile (\<lambda>c. \<not> is_wild c) pat) @ parse_glob (dropWhile (\<lambda>c. \<not> is_wild c) pat)"
    using parse_glob_literal [of "takeWhile (\<lambda>c. \<not> is_wild c) pat" "dropWhile (\<lambda>c. \<not> is_wild c) pat"]
      set_takeWhileD by fastforce
  with assms show ?thesis by (auto simp: fnmatchcase_def glob_match_literal)
qed

lemma fnmatch_literal: "\<forall>c \<in> set pat. \<not> is_wild c \<Longrightarrow> fnmatchcase s pat \<longleftrightarrow> s = pat"
  using parse_glob_literal [of pat "[]"] glob_match_literal [of pat "[]" s] by (simp add: fnmatchcase_def)

end
