(* ===== verification/Owned_Paths.thy ===== *)
theory Owned_Paths
  imports Glob
begin

text \<open>
  Owned paths: normalisation and the plan-artifact classifier of \<open>common/owned_paths.py\<close>, and the
  overlap test of \<open>db/repositories/base.py\<close> that decides which workspaces may run side by side.
\<close>

section \<open>Normalisation\<close>

definition push_segment :: "string list \<Rightarrow> string \<Rightarrow> string list" where
  "push_segment segs s =
     (if s = [] \<or> s = ''.'' then segs else if s = ''..'' then butlast segs else segs @ [s])"

definition path_segments :: "string \<Rightarrow> string list" where
  "path_segments p = foldl push_segment [] (py_split (CHR ''/'') (py_replace [CHR 0x5C] ''/'' (py_strip p)))"

definition normalize_owned_path :: "string \<Rightarrow> string" where
  "normalize_owned_path p = py_join ''/'' (path_segments p)"

definition has_wildcard :: "string \<Rightarrow> bool" where
  "has_wildcard p = list_ex is_wild p"

text \<open>\<open>dict.fromkeys\<close>: the first occurrence of each element, in order.\<close>

fun dedupe :: "'a list \<Rightarrow> 'a list" where
  "dedupe [] = []"
| "dedupe (x # xs) = x # filter (\<lambda>y. y \<noteq> x) (dedupe xs)"

definition rstrip_slash :: "string \<Rightarrow> string" where
  "rstrip_slash s = rev (dropWhile (\<lambda>c. c = CHR ''/'') (rev s))"

section \<open>Plan artifacts\<close>

fun has_pair :: "string list \<Rightarrow> string \<Rightarrow> string \<Rightarrow> bool" where
  "has_pair (a # b # r) x y = ((a = x \<and> b = y) \<or> has_pair (b # r) x y)"
| "has_pair _ x y = False"

definition is_under_internal_plan_artifact_dir :: "string \<Rightarrow> bool" where
  "is_under_internal_plan_artifact_dir p =
     (let n = normalize_owned_path p
      in n \<noteq> ''docs/awf-plans/README.md'' \<and> has_pair (py_split (CHR ''/'') n) ''docs'' ''awf-plans'')"

definition is_alnum :: "char \<Rightarrow> bool" where
  "is_alnum c = (is_digit c \<or> (CHR ''A'' \<le> c \<and> c \<le> CHR ''Z'') \<or> (CHR ''a'' \<le> c \<and> c \<le> CHR ''z''))"

text \<open>\<open>INTERNAL_PLAN_ARTIFACT_NAME_RE.fullmatch\<close>.\<close>

definition is_artifact_stem :: "string \<Rightarrow> bool" where
  "is_artifact_stem b =
     (b = ''*'' \<or> (case b of [] \<Rightarrow> False
                   | c # r \<Rightarrow> is_alnum c \<and> list_all (\<lambda>d. is_alnum d \<or> d = CHR ''_'') r))"

definition INTERNAL_PLAN_ARTIFACT_NAME_RE :: "string \<Rightarrow> bool" where
  "INTERNAL_PLAN_ARTIFACT_NAME_RE f =
     (startswith f ''ws_''
      \<and> list_ex (\<lambda>ext. endswith (drop 3 f) ext
            \<and> is_artifact_stem (take (length f - 3 - length ext) (drop 3 f)))
          [''.md'', ''.json'', ''.conformance.json''])"

definition is_hex :: "char \<Rightarrow> bool" where
  "is_hex c = (is_digit c \<or> (CHR ''a'' \<le> c \<and> c \<le> CHR ''f''))"

text \<open>\<open>s.split(sep)\<close> for a non-empty separator.\<close>

function py_split_str :: "string \<Rightarrow> string \<Rightarrow> string list" where
  "py_split_str sep s =
     (if sep = [] then [s]
      else (case s of [] \<Rightarrow> [[]]
        | c # r \<Rightarrow>
            if startswith s sep then [] # py_split_str sep (drop (length sep) s)
            else (case py_split_str sep r of [] \<Rightarrow> [[c]] | w # ws \<Rightarrow> (c # w) # ws)))"
  by pat_completeness auto
termination
  by (relation "measure (\<lambda>(sep, s). length s)") auto

declare py_split_str.simps [simp del]

text \<open>
  The regular expression of \<open>_workspace_id_glob_path_pattern\<close>, matched directly: literal parts
  separated by \<open>ws_\<close> and 24 hex digits, the same ones at every place.
\<close>

fun match_parts :: "string option \<Rightarrow> string list \<Rightarrow> string \<Rightarrow> bool" where
  "match_parts i [] s = (s = [])"
| "match_parts i (part # parts) s =
     (startswith s ''ws_''
      \<and> (let s1 = drop 3 s; w = take 24 s1; s2 = drop 24 s1
         in length w = 24 \<and> list_all is_hex w \<and> (case i of None \<Rightarrow> True | Some x \<Rightarrow> w = x)
            \<and> startswith s2 part \<and> match_parts (Some w) parts (drop (length part) s2)))"

definition workspace_id_glob_path_matches :: "string \<Rightarrow> string \<Rightarrow> bool" where
  "workspace_id_glob_path_matches path globpath =
     (case py_split_str ''ws_*'' globpath of
        [] \<Rightarrow> False
      | p0 # parts \<Rightarrow>
          parts \<noteq> [] \<and> startswith path p0 \<and> match_parts None parts (drop (length p0) path))"

fun matches_configured_internal_plan_artifact_path :: "string \<Rightarrow> string list \<Rightarrow> bool" where
  "matches_configured_internal_plan_artifact_path n [] = False"
| "matches_configured_internal_plan_artifact_path n (a # as) =
     (if a = [] then matches_configured_internal_plan_artifact_path n as
      else if n = a then True
      else if contains n ''ws_*'' \<and> workspace_id_glob_path_matches a n then True
      else if contains a ''ws_*''
      then (if workspace_id_glob_path_matches n a then True
            else matches_configured_internal_plan_artifact_path n as)
      else if endswith a ''/**'' then matches_configured_internal_plan_artifact_path n as
      else if has_wildcard a \<and> fnmatchcase n a then True
      else matches_configured_internal_plan_artifact_path n as)"

definition is_internal_plan_artifact_normalized :: "string list \<Rightarrow> string \<Rightarrow> bool" where
  "is_internal_plan_artifact_normalized paths n =
     (if matches_configured_internal_plan_artifact_path n paths then True
      else if n = ''docs/awf-plans/**'' then True
      else if \<not> startswith n ''docs/awf-plans/'' then False
      else (let f = drop (length ''docs/awf-plans/'') n
            in CHR ''/'' \<notin> set f \<and> INTERNAL_PLAN_ARTIFACT_NAME_RE f))"

definition normalized_internal_plan_artifact_paths :: "string list \<Rightarrow> string list" where
  "normalized_internal_plan_artifact_paths ps = dedupe (map normalize_owned_path ps)"

definition is_internal_plan_artifact_owned_path :: "string list \<Rightarrow> string \<Rightarrow> bool" where
  "is_internal_plan_artifact_owned_path paths p =
     is_internal_plan_artifact_normalized (normalized_internal_plan_artifact_paths paths) (normalize_owned_path p)"

definition internal_plan_artifact_paths_from_template :: "string option \<Rightarrow> string \<Rightarrow> string list" where
  "internal_plan_artifact_paths_from_template wid template =
     (let n = normalize_owned_path template; hole = ''{workspace_id}'' in
      if \<not> contains n hole then []
      else (let repl = (case wid of None \<Rightarrow> ''ws_*'' | Some i \<Rightarrow> if i = [] then ''ws_*'' else i);
                parent = rev (tl (dropWhile (\<lambda>c. c \<noteq> CHR ''/'') (rev n)))
            in py_replace hole repl n #
               (if CHR ''/'' \<in> set n \<and> parent \<noteq> [] \<and> contains parent hole
                then [py_replace hole repl parent @ ''/**''] else [])))"

definition internal_plan_artifact_owned_paths_from_profile :: "json option \<Rightarrow> string option \<Rightarrow> string list" where
  "internal_plan_artifact_owned_paths_from_profile profile wid =
     (case Option.bind profile (json_get ''planning'') of
        None \<Rightarrow> []
      | Some planning \<Rightarrow>
          if \<not> is_mapping planning then []
          else if json_get ''required'' planning \<noteq> Some (JBool True) then []
          else dedupe (filter (\<lambda>p. p \<noteq> []) (concat (map (\<lambda>f.
                 case json_get f planning of
                   Some (JStr v) \<Rightarrow> internal_plan_artifact_paths_from_template wid v
                 | _ \<Rightarrow> []) [''plan_path'', ''conformance_report_path'']))))"

fun interworkspace_loop :: "string list \<Rightarrow> string list \<Rightarrow> string list \<Rightarrow> string list" where
  "interworkspace_loop internal seen [] = []"
| "interworkspace_loop internal seen (p # ps) =
     (let n = normalize_owned_path p in
      if n = [] \<or> is_internal_plan_artifact_normalized internal n then interworkspace_loop internal seen ps
      else if n \<in> set seen then interworkspace_loop internal seen ps
      else p # interworkspace_loop internal (n # seen) ps)"

definition interworkspace_owned_paths :: "string list \<Rightarrow> string list \<Rightarrow> string list" where
  "interworkspace_owned_paths internal ps =
     interworkspace_loop (normalized_internal_plan_artifact_paths internal) [] ps"

section \<open>Overlap\<close>

record OwnedPathOverlapMatch =
  left_path :: string
  right_path :: string
  normalized_left_path :: string
  normalized_right_path :: string
  match_reason_code :: string
  explanation :: string

definition owned_path_match ::
    "string \<Rightarrow> string \<Rightarrow> string \<Rightarrow> string \<Rightarrow> string \<Rightarrow> string \<Rightarrow> OwnedPathOverlapMatch" where
  "owned_path_match l r nl nr code expl =
     \<lparr>left_path = l, right_path = r, normalized_left_path = nl, normalized_right_path = nr,
      match_reason_code = code, explanation = expl\<rparr>"

definition wildcard_owned_path_match :: "string \<Rightarrow> string \<Rightarrow> string \<Rightarrow> string \<Rightarrow> OwnedPathOverlapMatch" where
  "wildcard_owned_path_match l r nl nr =
     owned_path_match l r nl nr ''OWNED_PATH_WILDCARD_MATCH''
       (''Wildcard owned-path prefixes overlap: '' @ l @ '' <-> '' @ r @ ''.'')"

definition is_descendant :: "string \<Rightarrow> string \<Rightarrow> bool" where
  "is_descendant parent child = startswith child (rstrip_slash parent @ ''/'')"

definition literal_paths_overlap :: "string \<Rightarrow> string \<Rightarrow> bool" where
  "literal_paths_overlap l r = (l = r \<or> is_descendant l r \<or> is_descendant r l)"

definition wildcard_prefix :: "string \<Rightarrow> string option" where
  "wildcard_prefix p = (if list_ex is_wild p then Some (takeWhile (\<lambda>c. \<not> is_wild c) p) else None)"

definition wildcard_prefix_overlaps :: "string \<Rightarrow> string \<Rightarrow> bool" where
  "wildcard_prefix_overlaps pre path =
     (if pre = [] then True
      else if startswith path pre then True
      else literal_paths_overlap (rstrip_slash pre) (rstrip_slash path))"

definition wildcard_prefixes_overlap :: "string \<Rightarrow> string \<Rightarrow> bool" where
  "wildcard_prefixes_overlap l r =
     (if l = [] \<or> r = [] then True
      else if startswith l r \<or> startswith r l then True
      else literal_paths_overlap (rstrip_slash l) (rstrip_slash r))"

definition owned_path_overlap_match :: "string \<Rightarrow> string \<Rightarrow> OwnedPathOverlapMatch option" where
  "owned_path_overlap_match l r =
     (let nl = normalize_owned_path l; nr = normalize_owned_path r;
          lp = wildcard_prefix nl; rp = wildcard_prefix nr;
          wild = Some (wildcard_owned_path_match l r nl nr)
      in if nl = [] \<or> nr = [] then None
         else if nl = nr then
           Some (owned_path_match l r nl nr ''OWNED_PATH_EXACT_MATCH''
             (''Owned paths normalize to the same path: '' @ nl @ ''.''))
         else if literal_paths_overlap nl nr then
           (let (anc, desc) = (if is_descendant nl nr then (nl, nr) else (nr, nl))
            in Some (owned_path_match l r nl nr ''OWNED_PATH_ANCESTOR_MATCH''
                 (''One owned path contains the other: '' @ anc @ '' -> '' @ desc @ ''.'')))
         else if (case lp of None \<Rightarrow> False | Some p \<Rightarrow> wildcard_prefix_overlaps p nr) then wild
         else if (case rp of None \<Rightarrow> False | Some p \<Rightarrow> wildcard_prefix_overlaps p nl) then wild
         else if (case (lp, rp) of (Some p, Some q) \<Rightarrow> wildcard_prefixes_overlap p q | _ \<Rightarrow> False) then wild
         else None)"

definition owned_paths_overlap :: "string \<Rightarrow> string \<Rightarrow> bool" where
  "owned_paths_overlap l r = (owned_path_overlap_match l r \<noteq> None)"

end
