(* ===== verification/Owned_Path_Properties.thy ===== *)
theory Owned_Path_Properties
  imports Owned_Paths
begin

text \<open>
  What normalisation guarantees, that the overlap test is symmetric and misses no conflict, and
  which paths take part in the checks between workspaces.
\<close>

section \<open>Normal forms\<close>

definition proper_segment :: "string \<Rightarrow> bool" where
  "proper_segment s = (s \<notin> {[], ''.'', ''..''} \<and> CHR ''/'' \<notin> set s \<and> CHR 0x5C \<notin> set s)"

lemma startswith_prefix: "startswith s p \<longleftrightarrow> prefix p s"
  by (auto simp: startswith_iff prefix_def)

lemma py_replace_char:
  "py_replace [a] [b] s = map (\<lambda>c. if c = a then b else c) s"
  by (induction s) (subst py_replace.simps; simp add: startswith_def)+

lemma split_mem: "w \<in> set (py_split d s) \<Longrightarrow> x \<in> set w \<Longrightarrow> x \<in> set s"
proof (induction s arbitrary: w)
  case (Cons c s)
  then show ?case by (cases "py_split d s") (force split: if_splits)+
qed simp

lemma push_segments_proper:
  assumes "list_all proper_segment acc" "\<And>s. s \<in> set xs \<Longrightarrow> CHR ''/'' \<notin> set s \<and> CHR 0x5C \<notin> set s"
  shows "list_all proper_segment (foldl push_segment acc xs)"
  using assms
proof (induction xs arbitrary: acc)
  case (Cons x xs)
  have "list_all proper_segment (push_segment acc x)"
    using Cons.prems by (auto simp: push_segment_def proper_segment_def list_all_iff dest: in_set_butlastD)
  with Cons show ?case by simp
qed simp

lemma path_segments_proper: "list_all proper_segment (path_segments p)"
  unfolding path_segments_def py_replace_char
proof (rule push_segments_proper)
  fix s
  assume s: "s \<in> set (py_split (CHR ''/'') (map (\<lambda>c. if c = CHR 0x5C then CHR ''/'' else c) (py_strip p)))"
  have "CHR 0x5C \<notin> set (map (\<lambda>c. if c = CHR 0x5C then CHR ''/'' else c) (py_strip p))" by auto
  with s show "CHR ''/'' \<notin> set s \<and> CHR 0x5C \<notin> set s" using py_split_no_sep split_mem by metis
qed simp

lemma push_segments_id: "list_all proper_segment xs \<Longrightarrow> foldl push_segment acc xs = acc @ xs"
  by (induction xs arbitrary: acc) (auto simp: push_segment_def proper_segment_def)

lemma join_segments:
  assumes "list_all proper_segment segs"
  shows "foldl push_segment [] (py_split (CHR ''/'') (py_join ''/'' segs)) = segs"
proof (cases "segs = []")
  case False
  with assms have "py_split (CHR ''/'') (py_join ''/'' segs) = segs"
    by (intro py_split_join) (auto simp: list_all_iff proper_segment_def)
  with assms show ?thesis by (simp add: push_segments_id)
qed (simp add: push_segment_def)

lemma join_no_backslash:
  "list_all proper_segment segs \<Longrightarrow> map (\<lambda>c. if c = CHR 0x5C then CHR ''/'' else c) (py_join ''/'' segs) = py_join ''/'' segs"
  by (induction "''/''::string" segs rule: py_join.induct)
    (auto simp: proper_segment_def intro!: map_idI)

lemma segments_of_stripped:
  assumes "py_strip (normalize_owned_path p) = normalize_owned_path p"
  shows "path_segments (normalize_owned_path p) = path_segments p"
  unfolding path_segments_def [of "normalize_owned_path p"] assms py_replace_char
  using path_segments_proper [of p]
  by (simp add: normalize_owned_path_def join_no_backslash join_segments)

text \<open>Normalising never makes the text longer.\<close>

lemma join_length: "length (py_join ''/'' ws) = sum_list (map length ws) + (length ws - 1)"
  by (induction "''/''::string" ws rule: py_join.induct) auto

definition weight :: "string list \<Rightarrow> nat" where
  "weight ws = sum_list (map (\<lambda>w. Suc (length w)) ws)"

lemma weight_butlast: "weight (butlast ws) \<le> weight ws"
  by (cases ws rule: rev_cases) (simp_all add: weight_def)

lemma push_weight: "weight (foldl push_segment acc xs) \<le> weight acc + weight xs"
proof (induction xs arbitrary: acc)
  case (Cons x xs)
  have "weight (push_segment acc x) \<le> weight acc + Suc (length x)"
    using weight_butlast [of acc] by (auto simp: push_segment_def weight_def)
  with Cons.IH [of "push_segment acc x"] show ?case by (simp add: weight_def)
qed simp

lemma weight_join: "ws \<noteq> [] \<Longrightarrow> weight ws = Suc (length (py_join ''/'' ws))"
  by (induction "''/''::string" ws rule: py_join.induct) (auto simp: weight_def)

lemma normalize_length: "length (normalize_owned_path p) \<le> length (py_strip p)"
proof (cases "path_segments p = []")
  case False
  let ?ws = "py_split (CHR ''/'') (py_replace [CHR 0x5C] ''/'' (py_strip p))"
  have "weight (path_segments p) \<le> weight ?ws"
    unfolding path_segments_def using push_weight [of "[]" ?ws] by (simp add: weight_def)
  then have "length (normalize_owned_path p) \<le> length (py_join ''/'' ?ws)"
    using False by (simp add: weight_join normalize_owned_path_def)
  then show ?thesis by (simp add: py_join_split py_replace_char)
qed (simp add: normalize_owned_path_def)

lemma strip_length: "length (py_strip s) \<le> length s"
  unfolding py_strip_def by (metis length_dropWhile_le length_rev order_trans)

lemma strip_length_eq:
  assumes "length (py_strip s) = length s"
  shows "py_strip s = s"
proof -
  let ?t = "dropWhile is_space s"
  have l: "length ?t \<le> length s" "length (dropWhile is_space (rev ?t)) \<le> length ?t"
    using length_dropWhile_le [of is_space s] length_dropWhile_le [of is_space "rev ?t"] by simp_all
  have full: "dropWhile P x = x" if "length (dropWhile P x) = length x" for P and x :: string
    using that by (metis append.left_neutral append_same_eq length_append takeWhile_dropWhile_id
        add_cancel_right_left length_0_conv)
  from assms l have "length ?t = length s" "length (dropWhile is_space (rev ?t)) = length (rev ?t)"
    by (simp_all add: py_strip_def)
  then show ?thesis by (simp add: py_strip_def full)
qed

text \<open>
  Normalised paths are canonical.  The normal form of a path is a join of segments none
  of which is empty, a dot or a double dot and none of which contains a separator, so it never
  escapes the repository; and normalising it again gives the same path exactly when it has no
  white space at its ends.
\<close>

theorem normalize_owned_path_canonical:
  "(\<exists>segs. normalize_owned_path p = py_join ''/'' segs \<and> list_all proper_segment segs)
   \<and> (normalize_owned_path (normalize_owned_path p) = normalize_owned_path p
        \<longleftrightarrow> py_strip (normalize_owned_path p) = normalize_owned_path p)"
proof (intro conjI iffI)
  show "\<exists>segs. normalize_owned_path p = py_join ''/'' segs \<and> list_all proper_segment segs"
    using path_segments_proper normalize_owned_path_def by blast
  show "normalize_owned_path (normalize_owned_path p) = normalize_owned_path p"
    if "py_strip (normalize_owned_path p) = normalize_owned_path p"
    using segments_of_stripped [OF that] by (simp add: normalize_owned_path_def)
  assume "normalize_owned_path (normalize_owned_path p) = normalize_owned_path p"
  then have "length (py_strip (normalize_owned_path p)) = length (normalize_owned_path p)"
    using normalize_length [of "normalize_owned_path p"] strip_length [of "normalize_owned_path p"] by simp
  then show "py_strip (normalize_owned_path p) = normalize_owned_path p" by (rule strip_length_eq)
qed

section \<open>Overlap\<close>

lemma normal_no_trailing_slash: "rstrip_slash (normalize_owned_path p) = normalize_owned_path p"
proof (cases "path_segments p" rule: rev_cases)
  case (snoc ws w)
  then have w: "w \<noteq> []" "CHR ''/'' \<notin> set w"
    using path_segments_proper [of p] by (simp_all add: proper_segment_def)
  have "\<exists>t. py_join ''/'' (ws @ [w]) = t @ w" by (cases "ws = []")
      (auto, induction ws rule: list_nonempty_induct, auto simp: py_join_Cons)
  then obtain t where "normalize_owned_path p = t @ w" by (auto simp: normalize_owned_path_def snoc)
  moreover obtain v c where "w = v @ [c]" using w(1) by (cases w rule: rev_cases) auto
  ultimately show ?thesis using w(2) by (auto simp: rstrip_slash_def)
qed (simp add: normalize_owned_path_def rstrip_slash_def)

lemma is_descendant_prefix: "is_descendant a b \<longleftrightarrow> prefix (rstrip_slash a @ ''/'') b"
  by (simp add: is_descendant_def startswith_prefix)

lemma literal_sym: "literal_paths_overlap l r = literal_paths_overlap r l"
  by (auto simp: literal_paths_overlap_def)

lemma prefixes_sym: "wildcard_prefixes_overlap l r = wildcard_prefixes_overlap r l"
  by (auto simp: wildcard_prefixes_overlap_def literal_sym)

text \<open>The overlap test without the explanations.\<close>

lemma owned_paths_overlap_iff:
  "owned_paths_overlap l r \<longleftrightarrow>
     (let nl = normalize_owned_path l; nr = normalize_owned_path r in
      nl \<noteq> [] \<and> nr \<noteq> []
      \<and> (nl = nr \<or> literal_paths_overlap nl nr
         \<or> (\<exists>p. wildcard_prefix nl = Some p \<and> wildcard_prefix_overlaps p nr)
         \<or> (\<exists>p. wildcard_prefix nr = Some p \<and> wildcard_prefix_overlaps p nl)
         \<or> (\<exists>p q. wildcard_prefix nl = Some p \<and> wildcard_prefix nr = Some q \<and> wildcard_prefixes_overlap p q)))"
  by (simp add: owned_paths_overlap_def owned_path_overlap_match_def Let_def split: option.splits prod.splits)

text \<open>
  The overlap test is fair: the verdict does not depend on which of the two workspaces
  asks, and every path that names something overlaps itself.
\<close>

theorem owned_paths_overlap_symmetric:
  "owned_paths_overlap l r = owned_paths_overlap r l
   \<and> owned_paths_overlap l l = (normalize_owned_path l \<noteq> [])"
  unfolding owned_paths_overlap_iff Let_def by (auto simp: literal_sym prefixes_sym)

text \<open>The files an owned path claims: itself, everything below it, and what its glob matches.\<close>

definition claims :: "string \<Rightarrow> string \<Rightarrow> bool" where
  "claims p f =
     (let n = normalize_owned_path p in n \<noteq> [] \<and> (f = n \<or> is_descendant n f \<or> fnmatchcase f n))"

lemma claims_wild:
  assumes "claims p f" and "wildcard_prefix (normalize_owned_path p) = Some pre"
  shows "prefix pre f"
proof -
  let ?n = "normalize_owned_path p"
  have pre: "pre = takeWhile (\<lambda>c. \<not> is_wild c) ?n" using assms(2) by (simp add: wildcard_prefix_def split: if_splits)
  have n: "prefix pre ?n" unfolding pre by (simp add: takeWhile_is_prefix)
  from assms(1) consider "f = ?n" | "is_descendant ?n f" | "fnmatchcase f ?n" by (auto simp: claims_def Let_def)
  then show ?thesis
  proof cases
    case 2
    then have "prefix (?n @ ''/'') f" by (simp add: is_descendant_prefix normal_no_trailing_slash)
    with n show ?thesis by (metis prefix_order.trans prefixI)
  next
    case 3
    then show ?thesis using fnmatch_prefix pre by (auto intro: prefixI)
  qed (use n in simp)
qed

lemma claims_plain:
  assumes "claims p f" and "wildcard_prefix (normalize_owned_path p) = None"
  shows "f = normalize_owned_path p \<or> prefix (normalize_owned_path p @ ''/'') f"
proof -
  have "\<forall>c \<in> set (normalize_owned_path p). \<not> is_wild c"
    using assms(2) by (simp add: wildcard_prefix_def list_ex_iff split: if_splits)
  with assms(1) show ?thesis
    by (auto simp: claims_def Let_def fnmatch_literal is_descendant_prefix normal_no_trailing_slash)
qed

lemma plain_plain:
  assumes "f = a \<or> prefix (a @ ''/'') f" and "f = b \<or> prefix (b @ ''/'') f"
    and "rstrip_slash a = a" "rstrip_slash b = b"
  shows "literal_paths_overlap a b"
proof -
  have "prefix (a @ ''/'') (b @ ''/'') \<or> prefix (b @ ''/'') (a @ ''/'') \<or> a = b"
    if "prefix (a @ ''/'') f" "prefix (b @ ''/'') f"
    using prefix_same_cases [OF that] by blast
  then show ?thesis
    using assms by (auto simp: literal_paths_overlap_def is_descendant_prefix)
qed

lemma rstrip_append: "rstrip_slash (u @ x) = (if rstrip_slash x = [] then rstrip_slash u else u @ rstrip_slash x)"
  by (auto simp: rstrip_slash_def dropWhile_append)

lemma wild_plain:
  assumes pre: "prefix pre f" and b: "f = b \<or> prefix (b @ ''/'') f" "rstrip_slash b = b"
  shows "wildcard_prefix_overlaps pre b"
proof -
  consider "prefix pre b" | "prefix (b @ ''/'') pre"
    using b(1)
  proof
    assume "prefix (b @ ''/'') f"
    from prefix_same_cases [OF pre this] that show thesis by (auto simp: prefix_snoc)
  qed (use pre that in simp)
  then show ?thesis
  proof cases
    case 1
    then show ?thesis by (simp add: wildcard_prefix_overlaps_def startswith_prefix)
  next
    case 2
    then obtain x where "pre = (b @ ''/'') @ x" by (auto simp: prefix_def)
    then have "rstrip_slash pre = b \<or> prefix (b @ ''/'') (rstrip_slash pre)"
      using b(2) by (simp only: rstrip_append) (auto simp: rstrip_slash_def dropWhile_append)
    then show ?thesis
      using b(2) by (auto simp: wildcard_prefix_overlaps_def literal_paths_overlap_def is_descendant_prefix)
  qed
qed

text \<open>
  Property C21: no conflict is missed.  Whenever two owned paths both claim some file, because it is
  the path itself, lies below it or is matched by its glob, the overlap test reports them.
\<close>

theorem owned_paths_overlap_complete:
  assumes "claims l f" and "claims r f"
  shows "owned_paths_overlap l r"
proof -
  let ?nl = "normalize_owned_path l" and ?nr = "normalize_owned_path r"
  have ne: "?nl \<noteq> []" "?nr \<noteq> []" using assms by (simp_all add: claims_def Let_def)
  note rs = normal_no_trailing_slash
  show ?thesis
  proof (cases "wildcard_prefix ?nl")
    case lNone: None
    note cl = claims_plain [OF assms(1) lNone]
    show ?thesis
    proof (cases "wildcard_prefix ?nr")
      case None
      from plain_plain [OF cl claims_plain [OF assms(2) None] rs rs] ne show ?thesis
        by (simp add: owned_paths_overlap_iff Let_def)
    next
      case (Some q)
      from wild_plain [OF claims_wild [OF assms(2) Some] cl rs] ne Some show ?thesis
        by (simp add: owned_paths_overlap_iff Let_def)
    qed
  next
    case lSome: (Some p)
    note wl = claims_wild [OF assms(1) lSome]
    show ?thesis
    proof (cases "wildcard_prefix ?nr")
      case None
      from wild_plain [OF wl claims_plain [OF assms(2) None] rs] ne lSome show ?thesis
        by (simp add: owned_paths_overlap_iff Let_def)
    next
      case (Some q)
      from prefix_same_cases [OF wl claims_wild [OF assms(2) Some]]
      have "wildcard_prefixes_overlap p q" by (auto simp: wildcard_prefixes_overlap_def startswith_prefix)
      with ne lSome Some show ?thesis by (simp add: owned_paths_overlap_iff Let_def)
    qed
  qed
qed

theorem owned_paths_overlap_complete_witness:
  "claims ''src/*.py'' ''src/a.py'' \<and> claims ''./src'' ''src/a.py'' \<and> owned_paths_overlap ''src/*.py'' ''./src''"
proof -
  have l: "claims ''src/*.py'' ''src/a.py''" and r: "claims ''./src'' ''src/a.py''" by code_simp+
  with owned_paths_overlap_complete [OF l r] show ?thesis by simp
qed

section \<open>Paths between workspaces\<close>

lemma interworkspace_spec:
  "set (map normalize_owned_path (interworkspace_loop internal seen ps)) =
     {n \<in> normalize_owned_path ` set ps. n \<noteq> [] \<and> \<not> is_internal_plan_artifact_normalized internal n \<and> n \<notin> set seen}
   \<and> distinct (map normalize_owned_path (interworkspace_loop internal seen ps))
   \<and> subseq (interworkspace_loop internal seen ps) ps"
  by (induction internal seen ps rule: interworkspace_loop.induct)
    (auto simp: Let_def split: if_splits)

text \<open>
  The paths that take part in the checks between workspaces are exactly the declared
  ones that name something and are not generated plan artifacts: up to normalisation none is lost,
  none is added and none is listed twice, and they keep the declared order.
\<close>

theorem interworkspace_owned_paths_exact:
  "set (map normalize_owned_path (interworkspace_owned_paths internal ps)) =
     {n \<in> normalize_owned_path ` set ps. n \<noteq> []
        \<and> \<not> is_internal_plan_artifact_normalized (normalized_internal_plan_artifact_paths internal) n}
   \<and> distinct (map normalize_owned_path (interworkspace_owned_paths internal ps))
   \<and> subseq (interworkspace_owned_paths internal ps) ps"
  unfolding interworkspace_owned_paths_def using interworkspace_spec [of _ "[]" ps] by simp

end
