(* ===== verification/Quality_Gates.thy ===== *)
theory Quality_Gates
  imports Owned_Path_Properties
begin

text \<open>
  The protected quality gate of \<open>control/quality_gates.py\<close> (with \<open>control/quality_gates_common.py\<close>):
  which changed files are protected, which of those changes the task owns or an operator granted,
  and the violations that remain.  The two content classifiers (\<open>quality_gates_pyproject.py\<close> and
  \<open>quality_gates_workflow.py\<close>) are the parameters \<open>classify_pyproject\<close> and \<open>classify_workflow\<close>.
\<close>

section \<open>Paths\<close>

record ProtectedFileDiff =
  diff_path :: string
  old_text :: "string option"
  new_text :: "string option"

record QualityGateViolation =
  v_path :: string
  protected_pattern :: string
  v_section :: "string option"
  v_line :: "int option"
  v_reason :: string

record GrantSpec =
  grant_path :: string
  downgrade_approved :: bool

function strip_dot_slash :: "string \<Rightarrow> string" where
  "strip_dot_slash s = (if startswith s ''./'' then strip_dot_slash (drop 2 s) else s)"
  by pat_completeness auto
termination
  by (relation "measure length") (auto simp: startswith_iff)

declare strip_dot_slash.simps [simp del]

definition normalize_path :: "string \<Rightarrow> string" where
  "normalize_path p = strip_dot_slash (py_replace [CHR 0x5C] ''/'' (py_strip p))"

definition PROTECTED_QUALITY_GATE_PATHS :: "string list" where
  "PROTECTED_QUALITY_GATE_PATHS =
     [''.awf/workspace.yml'', ''.coveragerc'', ''.github/workflows/'', ''pyproject.toml'', ''pytest.ini'',
      ''setup.cfg'', ''setup.py'', ''tox.ini'']"

definition matched_protected_pattern :: "string \<Rightarrow> string option" where
  "matched_protected_pattern path =
     find (\<lambda>pattern. let n = normalize_path pattern
        in if endswith n ''/'' then startswith path n else path = n) PROTECTED_QUALITY_GATE_PATHS"

definition protected_quality_gate_pattern :: "string \<Rightarrow> string option" where
  "protected_quality_gate_pattern p = matched_protected_pattern (normalize_path p)"

definition is_workflow_yaml_path :: "string \<Rightarrow> bool" where
  "is_workflow_yaml_path p = (startswith p ''.github/workflows/'' \<and> (endswith p ''.yml'' \<or> endswith p ''.yaml''))"

definition requires_protected_file_diff :: "string \<Rightarrow> bool" where
  "requires_protected_file_diff p =
     (let n = normalize_path p in n = ''pyproject.toml'' \<or> is_workflow_yaml_path n)"

definition is_owned :: "string \<Rightarrow> string list \<Rightarrow> bool" where
  "is_owned p owned = list_ex (owned_paths_overlap p) owned"

definition diff_classified_protected_paths :: "string list \<Rightarrow> string list \<Rightarrow> string list" where
  "diff_classified_protected_paths owned changed =
     dedupe (filter (\<lambda>p. p \<noteq> [] \<and> requires_protected_file_diff p \<and> \<not> is_owned p owned) (map normalize_path changed))"

definition unowned_protected_paths :: "string list \<Rightarrow> string list \<Rightarrow> string list" where
  "unowned_protected_paths owned changed =
     dedupe (filter (\<lambda>p. p \<noteq> [] \<and> matched_protected_pattern p \<noteq> None \<and> \<not> is_owned p owned)
       (map normalize_path changed))"

definition changed_paths_are_only_internal_plan_artifacts :: "string list \<Rightarrow> bool" where
  "changed_paths_are_only_internal_plan_artifacts changed =
     (let ps = filter (\<lambda>p. p \<noteq> []) (map normalize_path changed)
      in ps \<noteq> [] \<and> list_all (\<lambda>p. startswith p ''docs/awf-plans/'') ps)"

section \<open>Grants\<close>

definition grant_matches :: "string \<Rightarrow> string \<Rightarrow> bool" where
  "grant_matches path grant =
     (let n = normalize_path grant
      in if n = [] then False
         else if list_ex is_wild n then fnmatchcase path n
         else (let d = rstrip_slash n in path = d \<or> startswith path (d @ ''/'')))"

definition grant_with_policy_downgrade_matches :: "string \<Rightarrow> GrantSpec list \<Rightarrow> bool" where
  "grant_with_policy_downgrade_matches path grants =
     list_ex (\<lambda>g. downgrade_approved g \<and> grant_matches path (grant_path g)) grants"

section \<open>The gate\<close>

definition violation :: "string \<Rightarrow> string \<Rightarrow> string \<Rightarrow> int option \<Rightarrow> string \<Rightarrow> QualityGateViolation" where
  "violation path protected section' line reason =
     \<lparr>v_path = path, protected_pattern = protected, v_section = Some section', v_line = line, v_reason = reason\<rparr>"

type_synonym classifier = "ProtectedFileDiff \<Rightarrow> string \<Rightarrow> QualityGateViolation list"

definition protected_path_violations ::
    "classifier \<Rightarrow> classifier \<Rightarrow> string \<Rightarrow> string \<Rightarrow> (string \<rightharpoonup> ProtectedFileDiff) \<Rightarrow> QualityGateViolation list" where
  "protected_path_violations classify_pyproject classify_workflow path protected file_diffs =
     (if path = ''pyproject.toml'' then
        (case file_diffs path of
           None \<Rightarrow> [violation path protected path None ''diff unavailable for protected pyproject.toml change'']
         | Some d \<Rightarrow> classify_pyproject d protected)
      else if is_workflow_yaml_path path then
        (case file_diffs path of
           None \<Rightarrow> [violation path protected path None ''diff unavailable for protected workflow change'']
         | Some d \<Rightarrow> classify_workflow d protected)
      else [violation path protected path None
              ''protected quality-gate file changed outside declared owned_paths''])"

fun gate_loop ::
    "classifier \<Rightarrow> classifier \<Rightarrow> string list \<Rightarrow> (string \<rightharpoonup> ProtectedFileDiff) \<Rightarrow> GrantSpec list \<Rightarrow> string list
      \<Rightarrow> QualityGateViolation list" where
  "gate_loop cp cw owned file_diffs grants [] = []"
| "gate_loop cp cw owned file_diffs grants (raw # rest) =
     (let path = normalize_path raw in
      if path = [] then gate_loop cp cw owned file_diffs grants rest
      else (case matched_protected_pattern path of
              None \<Rightarrow> gate_loop cp cw owned file_diffs grants rest
            | Some protected \<Rightarrow>
                if is_owned path owned then gate_loop cp cw owned file_diffs grants rest
                else (let vs = protected_path_violations cp cw path protected file_diffs in
                      if vs = [] then gate_loop cp cw owned file_diffs grants rest
                      else if grant_with_policy_downgrade_matches path grants
                      then gate_loop cp cw owned file_diffs grants rest
                      else vs @ gate_loop cp cw owned file_diffs grants rest)))"

text \<open>The file_diffs are keyed by normalised path; a later entry for the same path replaces an earlier one.\<close>

definition find_protected_quality_gate_changes ::
    "classifier \<Rightarrow> classifier \<Rightarrow> string list \<Rightarrow> string list \<Rightarrow> (string \<times> ProtectedFileDiff) list \<Rightarrow> GrantSpec list
      \<Rightarrow> QualityGateViolation list" where
  "find_protected_quality_gate_changes cp cw changed owned file_diffs grants =
     gate_loop cp cw owned (map_of (rev (map (\<lambda>(p, d). (normalize_path p, d)) file_diffs))) grants changed"

section \<open>Messages\<close>

text \<open>The one character of the messages outside Latin-1, a dash, is written as its UTF-8 bytes.\<close>

definition format_violation_detail :: "QualityGateViolation \<Rightarrow> string" where
  "format_violation_detail v =
     (let sec = (case v_section v of None \<Rightarrow> protected_pattern v
                 | Some s \<Rightarrow> if s = [] then protected_pattern v else s);
          line = (case v_line v of None \<Rightarrow> ''line unknown'' | Some n \<Rightarrow> ''line '' @ py_str_int n)
      in v_path v @ '' :: '' @ sec @ '' :: '' @ line @ '' :: '' @ v_reason v)"

definition quality_gate_violation_message :: "QualityGateViolation list \<Rightarrow> string" where
  "quality_gate_violation_message vs =
     (let nl = [CHR 0x0A];
          details = py_join nl (map (\<lambda>v. ''- '' @ format_violation_detail v) (take 8 vs));
          suffix = (if length vs \<le> 8 then []
                    else nl @ ''- ... and '' @ py_str_int (int (length vs) - 8) @ '' more'');
          m = ''agent changed protected quality-gate file(s) outside declared owned_paths:'' @ nl
              @ details @ suffix @ nl
              @ ''AWF only allows narrowly classified safe protected-file edits without ''
              @ ''explicit ownership. Add meaningful tests or declare explicit ownership ''
              @ ''of the policy file when an operator-approved policy change is required.''
      in if list_ex (\<lambda>v. normalize_path (v_path v) = ''.awf/workspace.yml'') vs
         then m @ nl @ ''Note: editing AWF validation config in .awf/workspace.yml ''
              @ ''has no effect mid-run '' @ [CHR 0xE2, CHR 0x80, CHR 0x94] @ '' `requested_tier` is set at dispatch ''
              @ ''(validation.requested_tier) and `final_gate` is fixed at provision ''
              @ ''time. Do not edit the file to raise the AWF validation level; a ''
              @ ''validation command the repo delegates to CI is gated by CI, not AWF.''
         else m)"

definition plan_only_output_message :: "string list \<Rightarrow> string" where
  "plan_only_output_message changed =
     (let ps = filter (\<lambda>p. p \<noteq> []) (map normalize_path changed);
          suffix = (if length ps \<le> 8 then [] else '', and '' @ py_str_int (int (length ps) - 8) @ '' more'')
      in ''agent produced only AWF plan/conformance artifact changes ('' @ py_join '', '' (take 8 ps) @ suffix
         @ ''). AWF will not open a PR until the branch contains ''
         @ ''implementation, test, or user-facing documentation output for the task.'')"

definition opt_json :: "string option \<Rightarrow> json" where
  "opt_json x = (case x of None \<Rightarrow> JNull | Some s \<Rightarrow> JStr s)"

definition quality_gate_violation_details :: "QualityGateViolation list \<Rightarrow> json" where
  "quality_gate_violation_details vs =
     JArr (map (\<lambda>v. JObj [(''path'', JStr (v_path v)), (''protected_pattern'', JStr (protected_pattern v)),
        (''section'', opt_json (v_section v)), (''line'', (case v_line v of None \<Rightarrow> JNull | Some n \<Rightarrow> JInt n)),
        (''reason'', JStr (v_reason v))]) vs)"

section \<open>Properties\<close>

lemma gate_loop_iff:
  "v \<in> set (gate_loop cp cw owned file_diffs grants changed) \<longleftrightarrow>
     (\<exists>raw \<in> set changed. \<exists>pat. normalize_path raw \<noteq> []
        \<and> matched_protected_pattern (normalize_path raw) = Some pat
        \<and> \<not> is_owned (normalize_path raw) owned
        \<and> \<not> grant_with_policy_downgrade_matches (normalize_path raw) grants
        \<and> v \<in> set (protected_path_violations cp cw (normalize_path raw) pat file_diffs))"
  by (induction changed)
    (auto simp: Let_def split: option.splits)

text \<open>
  When a changed path may pass: it names nothing, is not protected, is owned by the task, was
  granted with the downgrade acknowledged, or its content is at hand and the classifier for its kind
  finds nothing wrong with it.
\<close>

definition harmless :: "classifier \<Rightarrow> classifier \<Rightarrow> (string \<rightharpoonup> ProtectedFileDiff) \<Rightarrow> string \<Rightarrow> string \<Rightarrow> bool" where
  "harmless cp cw dm path pat =
     (\<exists>d. dm path = Some d
        \<and> (if path = ''pyproject.toml'' then cp d pat = [] else is_workflow_yaml_path path \<and> cw d pat = []))"

definition gate_allows ::
    "classifier \<Rightarrow> classifier \<Rightarrow> string list \<Rightarrow> (string \<rightharpoonup> ProtectedFileDiff) \<Rightarrow> GrantSpec list \<Rightarrow> string \<Rightarrow> bool" where
  "gate_allows cp cw owned dm grants path =
     (path = [] \<or> is_owned path owned \<or> grant_with_policy_downgrade_matches path grants
      \<or> (case matched_protected_pattern path of None \<Rightarrow> True | Some pat \<Rightarrow> harmless cp cw dm path pat))"

lemma protected_path_violations_empty:
  "protected_path_violations cp cw path pat dm = [] \<longleftrightarrow> harmless cp cw dm path pat"
  by (auto simp: protected_path_violations_def harmless_def split: option.splits)

lemma gate_loop_empty:
  "gate_loop cp cw owned dm grants changed = [] \<longleftrightarrow>
     list_all (\<lambda>raw. gate_allows cp cw owned dm grants (normalize_path raw)) changed"
  by (induction changed)
    (auto simp: Let_def gate_allows_def protected_path_violations_empty split: option.splits)

lemma unapproved_grants_ignored:
  "grant_with_policy_downgrade_matches path (filter downgrade_approved grants) =
   grant_with_policy_downgrade_matches path grants"
  by (auto simp: grant_with_policy_downgrade_matches_def list_ex_iff)

lemma gate_loop_approved:
  "gate_loop cp cw owned dm (filter downgrade_approved grants) changed = gate_loop cp cw owned dm grants changed"
  by (induction changed)
    (simp_all add: Let_def unapproved_grants_ignored split: option.splits)

text \<open>
  Property C17: the gate is exact and fails closed.  It reports nothing if and only if every changed
  path may pass; a protected file with no classifier or with no content at hand is never harmless,
  whatever the classifiers would say; and a grant that does not acknowledge the policy downgrade has
  no influence on the result.
\<close>

theorem quality_gate_exact:
  "(find_protected_quality_gate_changes cp cw changed owned file_diffs grants = []) =
     list_all (\<lambda>raw. gate_allows cp cw owned
        (map_of (rev (map (\<lambda>(p, d). (normalize_path p, d)) file_diffs))) grants (normalize_path raw)) changed
   \<and> \<not> harmless cp cw (\<lambda>_. None) path pat
   \<and> harmless cp cw dm ''setup.cfg'' pat = False
   \<and> find_protected_quality_gate_changes cp cw changed owned file_diffs grants =
       find_protected_quality_gate_changes cp cw changed owned file_diffs (filter downgrade_approved grants)"
  by (simp add: find_protected_quality_gate_changes_def gate_loop_empty gate_loop_approved harmless_def
      is_workflow_yaml_path_def startswith_def)

text \<open>
  A protected change never slips through for want of evidence.  A changed path that is
  protected, neither owned nor granted, and whose content was not supplied leaves a violation that
  names the path and the pattern it matched, whatever the classifiers are.
\<close>

theorem quality_gate_missing_content:
  assumes "raw \<in> set changed" and "path = normalize_path raw" and "path \<noteq> []"
    and "matched_protected_pattern path = Some pat"
    and "\<not> is_owned path owned" and "\<not> grant_with_policy_downgrade_matches path grants"
    and "path \<notin> normalize_path ` fst ` set file_diffs"
  shows "\<exists>v \<in> set (find_protected_quality_gate_changes cp cw changed owned file_diffs grants).
           v_path v = path \<and> protected_pattern v = pat"
proof -
  let ?d = "map_of (rev (map (\<lambda>(p, d). (normalize_path p, d)) file_diffs))"
  have "?d path = None" using assms(7) by (auto simp: map_of_eq_None_iff image_iff)
  then have "\<exists>v \<in> set (protected_path_violations cp cw path pat ?d). v_path v = path \<and> protected_pattern v = pat"
    by (auto simp: protected_path_violations_def violation_def)
  with assms(1-6) show ?thesis
    unfolding find_protected_quality_gate_changes_def by (meson gate_loop_iff)
qed

theorem quality_gate_missing_content_witness:
  "\<exists>v \<in> set (find_protected_quality_gate_changes (\<lambda>_ _. []) (\<lambda>_ _. []) [''./tox.ini''] [''src''] []
        [\<lparr>grant_path = ''tox.ini'', downgrade_approved = False\<rparr>]).
      v_path v = ''tox.ini'' \<and> protected_pattern v = ''tox.ini''"
proof (rule quality_gate_missing_content [where raw = "''./tox.ini''"])
  show "''tox.ini'' = normalize_path ''./tox.ini''" by code_simp
  show "matched_protected_pattern ''tox.ini'' = Some ''tox.ini''" by code_simp
  show "\<not> is_owned ''tox.ini'' [''src'']" by code_simp
  show "\<not> grant_with_policy_downgrade_matches ''tox.ini'' [\<lparr>grant_path = ''tox.ini'', downgrade_approved = False\<rparr>]"
    by (simp add: grant_with_policy_downgrade_matches_def)
qed simp_all

end
