(* ===== verification/Blocking.thy ===== *)
theory Blocking
  imports Claim_Properties Quality_Gates
begin

text \<open>
  Operator pauses: entering \<open>blocked\<close> on a protected violation (\<open>control/blocked_transition.py\<close>), the
  epoch-scoped operator grants (\<open>control/operator_grants.py\<close>), the operator hint a blocked workspace
  may carry (\<open>runtime/operator_hints.py\<close>), the selection of blocked workspaces to resume
  (\<open>db/repositories/workspace_repo_resumable.py\<close>) and grant-path canonicalisation
  (\<open>service/controls_guide.py\<close>).
\<close>

section \<open>Operator hints\<close>

datatype hint_status = Pending | Needs_human | Agent_failed

fun hint_status_value :: "hint_status \<Rightarrow> string" where
  "hint_status_value Pending = ''pending''"
| "hint_status_value Needs_human = ''needs_human''"
| "hint_status_value Agent_failed = ''agent_failed''"

record OperatorHint =
  hint_reason :: string
  hint_directive :: "string option"
  hint_operation_id :: "string option"
  hint_requested_at :: "string option"
  hint_reason_code :: string
  hint_status :: hint_status
  hint_status_reason :: "string option"

definition optional_string :: "json option \<Rightarrow> string option" where
  "optional_string v = (case v of Some (JStr s) \<Rightarrow> if s = [] then None else Some s | _ \<Rightarrow> None)"

definition optional_stripped_string :: "json option \<Rightarrow> string option" where
  "optional_stripped_string v =
     (case v of Some (JStr s) \<Rightarrow> if py_strip s = [] then None else Some (py_strip s) | _ \<Rightarrow> None)"

definition hint_status_of :: "json option \<Rightarrow> hint_status" where
  "hint_status_of v =
     (if v = Some (JStr ''needs_human'') then Needs_human
      else if v = Some (JStr ''agent_failed'') then Agent_failed else Pending)"

definition pre_pr_operator_hint_from_payload :: "json option \<Rightarrow> OperatorHint option" where
  "pre_pr_operator_hint_from_payload payload =
     (case payload of
        Some (JObj kvs) \<Rightarrow>
          (let get = (\<lambda>k. json_get k (JObj kvs)) in
           case get ''reason'' of
             Some (JStr reason) \<Rightarrow>
               if py_strip reason = [] then None
               else Some \<lparr>hint_reason = reason,
                          hint_directive = optional_stripped_string (get ''directive''),
                          hint_operation_id = optional_string (get ''operation_id''),
                          hint_requested_at = optional_string (get ''requested_at''),
                          hint_reason_code = (case optional_string (get ''reason_code'') of
                             None \<Rightarrow> ''OPERATOR_GUIDE'' | Some c \<Rightarrow> c),
                          hint_status = hint_status_of (get ''status''),
                          hint_status_reason = optional_string (get ''status_reason'')\<rparr>
           | _ \<Rightarrow> None)
      | _ \<Rightarrow> None)"

definition some_field :: "string \<Rightarrow> string option \<Rightarrow> (string \<times> json) list" where
  "some_field k v = (case v of None \<Rightarrow> [] | Some s \<Rightarrow> [(k, JStr s)])"

definition build_pending_operator_hint_payload :: "OperatorHint \<Rightarrow> json" where
  "build_pending_operator_hint_payload h =
     JObj ([(''reason'', JStr (hint_reason h))] @ some_field ''directive'' (hint_directive h)
       @ some_field ''operation_id'' (hint_operation_id h) @ some_field ''requested_at'' (hint_requested_at h)
       @ [(''reason_code'', JStr (hint_reason_code h)), (''status'', JStr (hint_status_value (hint_status h)))]
       @ some_field ''status_reason'' (hint_status_reason h))"

section \<open>Entering blocked\<close>

definition is_monitor_origin_block_resume_phase :: "string option \<Rightarrow> bool" where
  "is_monitor_origin_block_resume_phase p =
     (case p of None \<Rightarrow> False | Some s \<Rightarrow> s \<noteq> [] \<and> startswith s ''monitor_'')"

record BlockRequest =
  br_from :: WorkspaceStatus
  br_violations :: "QualityGateViolation list"
  br_resume_phase :: string
  br_block_type :: string
  br_block_reason_code :: string
  br_transition_reason_code :: string
  br_execution_owner_id :: "string option"
  br_monitor_owner_id :: "string option"
  br_fence_unclaimed_monitor :: bool
  br_extra_payload :: "(string \<times> json) list"

definition block_conditions :: "BlockRequest \<Rightarrow> (Workspace \<Rightarrow> bool) list" where
  "block_conditions b =
     (case br_execution_owner_id b of None \<Rightarrow> [] | Some o' \<Rightarrow> [\<lambda>w. execution_claimed_by w = Some o'])
     @ (case br_monitor_owner_id b of
          Some m \<Rightarrow> [\<lambda>w. monitor_claimed_by w = Some m]
        | None \<Rightarrow> if br_fence_unclaimed_monitor b then [\<lambda>w. monitor_claimed_by w = None] else [])"

definition block_payload :: "BlockRequest \<Rightarrow> json" where
  "block_payload b =
     JObj ([(''block_type'', JStr (br_block_type b)), (''block_reason_code'', JStr (br_block_reason_code b)),
            (''resume_phase'', JStr (br_resume_phase b)),
            (''violations'', quality_gate_violation_details (br_violations b))] @ br_extra_payload b)"

definition enter_blocked_for_protected_violation_in_session ::
    "bool \<Rightarrow> (json \<Rightarrow> json) \<Rightarrow> string \<Rightarrow> instant \<Rightarrow> BlockRequest \<Rightarrow> string \<Rightarrow> database
      \<Rightarrow> InvalidWorkspaceTransitionError + (Workspace \<times> database) option" where
  "enter_blocked_for_protected_violation_in_session pg redact new_id now b wid db =
     (case transition_if_current pg new_id now wid (br_from b) Blocked (br_transition_reason_code b)
             (Some (block_payload b)) (block_conditions b) db of
        Inl e \<Rightarrow> Inl e
      | Inr None \<Rightarrow> Inr None
      | Inr (Some (w, db')) \<Rightarrow>
          (let w1 = w\<lparr>block_reason_code := Some (br_block_reason_code b), block_type := Some (br_block_type b),
                      block_violations := Some (quality_gate_violation_details (br_violations b)),
                      block_resume_phase := Some (br_resume_phase b), block_epoch := block_epoch w + 1,
                      blocked_at := Some now, pending_operator_hint := None\<rparr>;
               w2 = add_event ''workspace.attention_required'' None
                      (Some (blocked_attention_payload redact (Some (br_block_reason_code b))
                               (Some (br_block_type b)) None)) w1
           in Inr (Some (w2, put_workspace db' w2))))"

section \<open>Grants\<close>

definition active_grant :: "Workspace \<Rightarrow> OperatorGrant \<Rightarrow> bool" where
  "active_grant w g =
     (grant_workspace_id g = ws_id w \<and> consumed_at g = None \<and> revoked_at g = None
      \<and> grant_block_epoch g = block_epoch w)"

definition active_operator_grant_specs_in_session :: "string \<Rightarrow> database \<Rightarrow> GrantSpec list" where
  "active_operator_grant_specs_in_session wid db =
     (case workspaces db wid of
        None \<Rightarrow> []
      | Some w \<Rightarrow>
          map (\<lambda>g. \<lparr>grant_path = normalized_path g, downgrade_approved = approve_policy_downgrade g\<rparr>)
            (filter (active_grant w) (grants db)))"

definition consume_active_operator_grants_in_session :: "instant \<Rightarrow> string \<Rightarrow> database \<Rightarrow> nat \<times> database" where
  "consume_active_operator_grants_in_session now wid db =
     (case workspaces db wid of
        None \<Rightarrow> (0, db)
      | Some w \<Rightarrow>
          (length (filter (active_grant w) (grants db)),
           db\<lparr>grants := map (\<lambda>g. if active_grant w g then g\<lparr>consumed_at := Some now\<rparr> else g) (grants db)\<rparr>))"

datatype grant_path_error = Path_is_empty | Leading_slash | Traversal | Too_long

definition MAX_GRANT_PATH_LENGTH :: nat where
  "MAX_GRANT_PATH_LENGTH = 1024"

definition canonicalize_grant_path :: "string \<Rightarrow> grant_path_error + string" where
  "canonicalize_grant_path p =
     (let n = strip_dot_slash (py_replace [CHR 0x5C] ''/'' (py_strip p)) in
      if n = [] then Inl Path_is_empty
      else if startswith n ''/'' then Inl Leading_slash
      else if list_ex (\<lambda>s. s = ''..'') (py_split (CHR ''/'') n) then Inl Traversal
      else if length n > MAX_GRANT_PATH_LENGTH then Inl Too_long
      else Inr n)"

section \<open>Selecting blocked workspaces to resume\<close>

definition text_field :: "string \<Rightarrow> json option \<Rightarrow> bool" where
  "text_field k hint =
     (case Option.bind hint (json_get k) of Some (JStr s) \<Rightarrow> sql_trim s \<noteq> [] | _ \<Rightarrow> False)"

definition actionable_hint :: "Workspace \<Rightarrow> bool" where
  "actionable_hint w =
     (text_field ''directive'' (pending_operator_hint w) \<and> text_field ''reason'' (pending_operator_hint w))"

definition resumable_blocked :: "database \<Rightarrow> string option \<Rightarrow> string list \<Rightarrow> Workspace \<Rightarrow> bool" where
  "resumable_blocked db node excluded w =
     (recovery_allows_work db w \<and> status w = Blocked
      \<and> (case block_resume_phase w of None \<Rightarrow> True | Some p \<Rightarrow> \<not> startswith p ''monitor_'')
      \<and> (actionable_hint w
         \<or> (list_ex (active_grant w) (grants db) \<and> block_type w \<noteq> Some ''plan_conformance_decision''))
      \<and> (case node of None \<Rightarrow> True | Some n \<Rightarrow> node_id w = Some n \<or> node_id w = None)
      \<and> ws_id w \<notin> set excluded)"

text \<open>\<open>rows\<close>: the workspaces table in any order; the result is ordered by \<open>updated_at\<close>, then \<open>id\<close>.\<close>

definition list_resumable_blocked_ids ::
    "database \<Rightarrow> Workspace list \<Rightarrow> int \<Rightarrow> string list \<Rightarrow> string option \<Rightarrow> string list" where
  "list_resumable_blocked_ids db rows limit excluded node =
     (if limit \<le> 0 then []
      else take (nat limit) (map ws_id
             (sort_key updated_at (sort_key ws_id (filter (resumable_blocked db node excluded) rows)))))"

end
