(* ===== verification/Blocking_Properties.thy ===== *)
theory Blocking_Properties
  imports Blocking
begin

text \<open>
  A re-block takes back every earlier approval, grants are used once, a fenced pause cannot overwrite
  a newer owner, and which blocked workspaces the worker picks up again.
\<close>

section \<open>Grant epochs\<close>

text \<open>No grant is scoped to an epoch its workspace has not reached.\<close>

definition grants_ok :: "database \<Rightarrow> bool" where
  "grants_ok db =
     (\<forall>g \<in> set (grants db). \<forall>w. workspaces db (grant_workspace_id g) = Some w \<longrightarrow> grant_block_epoch g \<le> block_epoch w)"

lemma put_candidate_grants [simp]: "grants (put_candidate db c) = grants db" "grants (put_attempt db a) = grants db"
  by (simp_all add: put_candidate_def put_attempt_def)

lemma lifecycle_grants [simp]: "grants (sync_merge_candidate_lifecycle i now w a to db) = grants db"
proof -
  have c: "grants db' = grants db" if "create_or_update_open_for_attempt i now t a w h b db = Inr db'"
    for t a w h b db db'
    using that by (auto simp: create_or_update_open_for_attempt_def split: option.splits if_splits)
  have k: "grants (snd (mark_canonical_for_merge db a)) = grants db" for db a
    by (simp add: mark_canonical_for_merge_def Let_def split: option.splits)
  have o: "grants (close_open_for_attempt now x r db) = grants db"
    "grants (close_open_for_workspace now x r db) = grants db" "grants (mark_workspace_merged now x db) = grants db"
    for x r db
    by (simp_all add: close_open_for_attempt_def close_open_for_workspace_def mark_workspace_merged_def
        split: option.splits)
  have m: "grants db' = grants db" if "make_attempt_canonical_and_create_candidate i now t a w h b db = Inr db'"
    for t a w h b db'
    using that c by (fastforce simp: make_attempt_canonical_and_create_candidate_def Let_def case_prod_beta k o
        split: option.splits if_splits)
  show ?thesis
    by (auto simp: sync_merge_candidate_lifecycle_def o m split: option.splits sum.splits)
qed

lemma finish_transition_grants: "grants (snd (finish_transition i now old to r p n w db)) = grants db"
  by (simp add: finish_transition_def Let_def release_active_for_workspace_def split: option.splits)

lemma transition_grants:
  assumes "db_keys_ok db" and "transition_if_current pg n now i old to r p conds db = Inr (Some (w', db'))"
  shows "grants db' = grants db"
proof -
  have "transition_if_current_locked n now i old to r p (conds @ [recovery_allows_work db]) db = Some (w', db')"
    using assms(2) by (simp add: transition_if_current_eq [OF assms(1)] split: if_splits)
  then show ?thesis
    by (rule locked_SomeD [OF assms(1)]) (metis finish_transition_grants snd_conv)
qed

lemma enter_blockedD:
  assumes ok: "db_keys_ok db"
    and res: "enter_blocked_for_protected_violation_in_session pg rd n now b wid db = Inr (Some (w', db'))"
  obtains w where "workspaces db wid = Some w" "status w = br_from b" "list_all (\<lambda>c. c w) (block_conditions b)"
    "workspaces db' = (workspaces db)(wid \<mapsto> w')" "ws_id w' = wid" "status w' = Blocked"
    "block_epoch w' = block_epoch w + 1" "pending_operator_hint w' = None"
    "block_resume_phase w' = Some (br_resume_phase b)" "grants db' = grants db"
proof -
  from res obtain u du where t: "transition_if_current pg n now wid (br_from b) Blocked (br_transition_reason_code b)
      (Some (block_payload b)) (block_conditions b) db = Inr (Some (u, du))"
    by (auto simp: enter_blocked_for_protected_violation_in_session_def split: sum.splits option.splits)
  obtain w where w: "workspaces db wid = Some w" "status w = br_from b" "list_all (\<lambda>c. c w) (block_conditions b)"
      "workspaces du = (workspaces db)(wid \<mapsto> u)" "ws_id u = wid" "status u = Blocked" "block_epoch u = block_epoch w"
    by (rule transition_row [OF ok t])
  from res have r: "db' = put_workspace du w'" "ws_id w' = ws_id u" "status w' = status u"
      "block_epoch w' = block_epoch u + 1" "pending_operator_hint w' = None"
      "block_resume_phase w' = Some (br_resume_phase b)"
    by (auto simp: enter_blocked_for_protected_violation_in_session_def t Let_def add_event_def add_events_def
        reserve_workspace_event_orders_def)
  have "workspaces db' = (workspaces db)(wid \<mapsto> w')" using r w by (simp add: put_workspace_def)
  with w r transition_grants [OF ok t] that [of w] show thesis by simp
qed

text \<open>
  Property C25: a re-block takes back every earlier approval.  When a workspace enters \<open>blocked\<close> its stored row
  has a block epoch one higher than before and no directive, the grants table is as it was, and so no grant
  recorded before is active any more and the worker does not select the workspace for resumption, whatever phase it
  would resume in, until an operator acts again; the active grants of other workspaces stay as they were.
\<close>

theorem reblock_invalidates_grants:
  assumes ok: "db_keys_ok db" and gr: "grants_ok db"
    and res: "enter_blocked_for_protected_violation_in_session pg rd n now b wid db = Inr (Some (w', db'))"
  shows "(\<exists>w. workspaces db wid = Some w \<and> block_epoch w' = block_epoch w + 1) \<and> workspaces db' wid = Some w'
       \<and> status w' = Blocked \<and> pending_operator_hint w' = None \<and> block_resume_phase w' = Some (br_resume_phase b)
       \<and> grants db' = grants db \<and> active_operator_grant_specs_in_session wid db' = []
       \<and> \<not> resumable_blocked db' node excluded w' \<and> \<not> resumable_blocked db' node excluded (w'\<lparr>block_resume_phase := phase\<rparr>)
       \<and> (\<forall>i. i \<noteq> wid \<longrightarrow> active_operator_grant_specs_in_session i db' = active_operator_grant_specs_in_session i db)"
proof -
  obtain w where w: "workspaces db wid = Some w" "workspaces db' = (workspaces db)(wid \<mapsto> w')" "ws_id w' = wid"
      "status w' = Blocked" "block_epoch w' = block_epoch w + 1" "pending_operator_hint w' = None"
      "block_resume_phase w' = Some (br_resume_phase b)" "grants db' = grants db"
    by (rule enter_blockedD [OF ok res])
  have none: "\<not> active_grant (w'\<lparr>block_resume_phase := x\<rparr>) g" if "g \<in> set (grants db)" for g x
  proof
    assume "active_grant (w'\<lparr>block_resume_phase := x\<rparr>) g"
    then have "grant_workspace_id g = wid" "grant_block_epoch g = block_epoch w + 1" using w by (simp_all add: active_grant_def)
    with gr that w(1) show False by (force simp: grants_ok_def)
  qed
  have none': "\<not> active_grant w' g" if "g \<in> set (grants db)" for g
    using none [OF that, of "block_resume_phase w'"] by simp
  then have "filter (active_grant w') (grants db') = []" using w by (simp add: filter_empty_conv)
  moreover have "\<not> resumable_blocked db' node excluded w'"
    using none' w by (auto simp: resumable_blocked_def actionable_hint_def text_field_def list_ex_iff)
  moreover have "\<not> resumable_blocked db' node excluded (w'\<lparr>block_resume_phase := phase\<rparr>)"
    using none w by (auto simp: resumable_blocked_def actionable_hint_def text_field_def list_ex_iff)
  ultimately show ?thesis
    using w by (simp add: active_operator_grant_specs_in_session_def split: option.splits)
qed

definition sample_block :: BlockRequest where
  "sample_block = \<lparr>br_from = Monitoring_pr, br_violations = [], br_resume_phase = ''monitor_protected_scope_push'',
     br_block_type = ''protected_quality_gate'', br_block_reason_code = ''QUALITY_GATE_POLICY_CHANGED'',
     br_transition_reason_code = ''PROTECTED_VIOLATION_BLOCKED'', br_execution_owner_id = None,
     br_monitor_owner_id = None, br_fence_unclaimed_monitor = True, br_extra_payload = []\<rparr>"

definition granted_db :: database where
  "granted_db = (sample_db Monitoring_pr)\<lparr>grants := [\<lparr>grant_workspace_id = ''w1'', grant_block_epoch = 0,
     normalized_path = ''tox.ini'', approve_policy_downgrade = True, consumed_at = None, revoked_at = None\<rparr>]\<rparr>"

lemma granted_db_ok [simp]: "db_keys_ok granted_db" "grants_ok granted_db"
  using sample_db_keys [of Monitoring_pr]
  by (simp_all add: granted_db_def db_keys_ok_def grants_ok_def) (simp add: sample_workspace_def)

text \<open>A workspace that an operator had released with a grant and a directive, blocked again by the executor.\<close>

definition released_workspace :: Workspace where
  "released_workspace = (sample_workspace ''w1'' Running)\<lparr>execution_claimed_by := Some ''worker'',
     pending_operator_hint := Some (JObj [(''reason'', JStr ''why''), (''directive'', JStr ''go on'')])\<rparr>"

definition released_db :: database where
  "released_db = granted_db\<lparr>workspaces := [''w1'' \<mapsto> released_workspace]\<rparr>"

definition executor_block :: BlockRequest where
  "executor_block = sample_block\<lparr>br_from := Running, br_resume_phase := ''post_agent_commit'', br_execution_owner_id := Some ''worker'',
     br_fence_unclaimed_monitor := False\<rparr>"

lemma released_db_ok: "db_keys_ok released_db" "grants_ok released_db"
  by (simp_all add: released_db_def granted_db_def db_keys_ok_def grants_ok_def released_workspace_def) (simp add: sample_workspace_def)

lemma released_db_blocks:
  "\<exists>w' db'. enter_blocked_for_protected_violation_in_session pg rd ''mc'' 9 executor_block ''w1'' released_db
     = Inr (Some (w', db'))"
proof -
  have "can_transition Running Blocked" by (simp add: status_simps)
  moreover have "recovery_allows_work released_db released_workspace"
    using sample_recovery [of Running "''w1''" Running]
    by (simp add: released_db_def granted_db_def released_workspace_def recovery_allows_work_def sample_db_def)
  moreover have "workspaces released_db ''w1'' = Some released_workspace" "status released_workspace = Running"
      "execution_claimed_by released_workspace = Some ''worker''"
    by (simp_all add: released_db_def released_workspace_def)
  ultimately show ?thesis
    using released_db_ok(1)
    by (simp add: enter_blocked_for_protected_violation_in_session_def transition_if_current_eq
        transition_if_current_locked_def case_prod_beta executor_block_def sample_block_def block_conditions_def Let_def split: prod.splits)
qed

theorem reblock_invalidates_grants_witness:
  "active_operator_grant_specs_in_session ''w1'' released_db \<noteq> [] \<and> actionable_hint released_workspace
   \<and> (\<exists>w' db'. enter_blocked_for_protected_violation_in_session True id ''mc'' 9 executor_block ''w1'' released_db
        = Inr (Some (w', db')) \<and> active_operator_grant_specs_in_session ''w1'' db' = [] \<and> block_epoch w' = 1
        \<and> pending_operator_hint w' = None \<and> block_resume_phase w' = Some ''post_agent_commit'' \<and> \<not> resumable_blocked db' None [] w')"
proof (intro conjI)
  show "active_operator_grant_specs_in_session ''w1'' released_db \<noteq> []"
    by (simp add: active_operator_grant_specs_in_session_def released_db_def granted_db_def active_grant_def released_workspace_def)
      (simp add: sample_workspace_def)
  show "actionable_hint released_workspace"
    by (simp add: released_workspace_def actionable_hint_def text_field_def json_get_def sql_trim_def)
  obtain w' db' where r: "enter_blocked_for_protected_violation_in_session True id ''mc'' 9 executor_block ''w1'' released_db
      = Inr (Some (w', db'))"
    using released_db_blocks by blast
  have "workspaces released_db ''w1'' = Some released_workspace" "block_epoch released_workspace = 0"
      "br_resume_phase executor_block = ''post_agent_commit''"
    by (simp_all add: released_db_def released_workspace_def sample_workspace_def executor_block_def)
  with reblock_invalidates_grants [OF released_db_ok r, of None "[]"] r
  show "\<exists>w' db'. enter_blocked_for_protected_violation_in_session True id ''mc'' 9 executor_block ''w1'' released_db
        = Inr (Some (w', db')) \<and> active_operator_grant_specs_in_session ''w1'' db' = [] \<and> block_epoch w' = 1
        \<and> pending_operator_hint w' = None \<and> block_resume_phase w' = Some ''post_agent_commit'' \<and> \<not> resumable_blocked db' None [] w'"
    by auto
qed

section \<open>Single use\<close>

text \<open>
  A grant is used once.  Consuming returns how many grants were active, leaves none
  active for the workspace, so that consuming again returns zero and changes nothing, and does not
  touch what is active for any other workspace.
\<close>

theorem grants_single_use:
  assumes ok: "db_keys_ok db" and res: "consume_active_operator_grants_in_session now wid db = (n, db')"
  shows "n = length (active_operator_grant_specs_in_session wid db)
       \<and> active_operator_grant_specs_in_session wid db' = []
       \<and> consume_active_operator_grants_in_session now' wid db' = (0, db')
       \<and> (\<forall>i. i \<noteq> wid \<longrightarrow> active_operator_grant_specs_in_session i db' = active_operator_grant_specs_in_session i db)"
proof (cases "workspaces db wid")
  case None
  with res show ?thesis
    by (auto simp: consume_active_operator_grants_in_session_def active_operator_grant_specs_in_session_def)
next
  case (Some w)
  with ok have i: "ws_id w = wid" by (simp add: db_keys_ok_def)
  let ?use = "\<lambda>g. if active_grant w g then g\<lparr>consumed_at := Some now\<rparr> else g"
  from res Some have n: "n = length (filter (active_grant w) (grants db))"
    and d: "db' = db\<lparr>grants := map ?use (grants db)\<rparr>"
    by (simp_all add: consume_active_operator_grants_in_session_def)
  have dead: "\<not> active_grant w (?use g)" for g by (simp add: active_grant_def)
  then have nil: "filter (active_grant w) (map ?use (grants db)) = []" by (simp add: filter_map comp_def)
  have idm: "map (\<lambda>g. if active_grant w g then g\<lparr>consumed_at := Some now'\<rparr> else g) (map ?use (grants db)) = map ?use (grants db)"
    by (intro map_idI) (auto simp: active_grant_def)
  have other: "filter (active_grant u) (map ?use gs) = filter (active_grant u) gs" if "ws_id u \<noteq> wid" for u gs
    using that i by (induction gs) (auto simp: active_grant_def)
  have "active_operator_grant_specs_in_session j db' = active_operator_grant_specs_in_session j db" if "j \<noteq> wid" for j
    using other ok that by (simp add: d active_operator_grant_specs_in_session_def db_keys_ok_def split: option.splits)
  with Some n nil idm show ?thesis
    by (simp add: d active_operator_grant_specs_in_session_def consume_active_operator_grants_in_session_def
        del: map_map)
qed

theorem grants_single_use_witness:
  "fst (consume_active_operator_grants_in_session 7 ''w1'' granted_db) = 1
   \<and> active_operator_grant_specs_in_session ''w1''
       (snd (consume_active_operator_grants_in_session 7 ''w1'' granted_db)) = []"
proof -
  have "fst (consume_active_operator_grants_in_session 7 ''w1'' granted_db) = 1"
    by (simp add: consume_active_operator_grants_in_session_def granted_db_def active_grant_def)
      (simp add: sample_workspace_def)
  then show ?thesis
    using grants_single_use [OF granted_db_ok(1), of 7 "''w1''"] by (metis prod.collapse)
qed

section \<open>Fenced pauses\<close>

text \<open>
  A stale monitor or executor cannot pause the workspace of its successor.  A pause
  that names the execution owner, the monitor owner, or an unclaimed monitor, changes nothing when
  the stored row has another owner.
\<close>

theorem blocked_pause_fenced:
  assumes "db_keys_ok db" and "workspaces db wid = Some w" and "can_transition (br_from b) Blocked"
    and "(\<exists>x. br_execution_owner_id b = Some x \<and> execution_claimed_by w \<noteq> Some x)
       \<or> (\<exists>m. br_monitor_owner_id b = Some m \<and> monitor_claimed_by w \<noteq> Some m)
       \<or> (br_monitor_owner_id b = None \<and> br_fence_unclaimed_monitor b \<and> monitor_claimed_by w \<noteq> None)"
  shows "enter_blocked_for_protected_violation_in_session pg rd n now b wid db = Inr None"
proof -
  have "\<not> list_all (\<lambda>c. c w) (block_conditions b)"
    using assms(4) by (auto simp: block_conditions_def split: option.splits)
  with assms(1-3) show ?thesis
    by (auto simp: enter_blocked_for_protected_violation_in_session_def transition_if_current_eq
        transition_if_current_locked_def)
qed

theorem blocked_pause_fenced_witness:
  "enter_blocked_for_protected_violation_in_session False id ''mc'' 9 (sample_block\<lparr>br_monitor_owner_id := Some ''old''\<rparr>)
     ''w1'' (sample_db Monitoring_pr) = Inr None"
proof (rule blocked_pause_fenced [where w = "sample_workspace ''w1'' Monitoring_pr"])
  show "can_transition (br_from (sample_block\<lparr>br_monitor_owner_id := Some ''old''\<rparr>)) Blocked"
    by (simp add: sample_block_def status_simps)
  show "(\<exists>x. br_execution_owner_id (sample_block\<lparr>br_monitor_owner_id := Some ''old''\<rparr>) = Some x
         \<and> execution_claimed_by (sample_workspace ''w1'' Monitoring_pr) \<noteq> Some x)
     \<or> (\<exists>m. br_monitor_owner_id (sample_block\<lparr>br_monitor_owner_id := Some ''old''\<rparr>) = Some m
         \<and> monitor_claimed_by (sample_workspace ''w1'' Monitoring_pr) \<noteq> Some m)
     \<or> (br_monitor_owner_id (sample_block\<lparr>br_monitor_owner_id := Some ''old''\<rparr>) = None
         \<and> br_fence_unclaimed_monitor (sample_block\<lparr>br_monitor_owner_id := Some ''old''\<rparr>)
         \<and> monitor_claimed_by (sample_workspace ''w1'' Monitoring_pr) \<noteq> None)"
    by (simp add: sample_workspace_def)
qed simp_all

section \<open>Hints\<close>

text \<open>What the control plane stores: a non-blank reason, and no blank or untrimmed optional text.\<close>

definition hint_ok :: "OperatorHint \<Rightarrow> bool" where
  "hint_ok h =
     (py_strip (hint_reason h) \<noteq> [] \<and> hint_reason_code h \<noteq> []
      \<and> (case hint_directive h of None \<Rightarrow> True | Some d \<Rightarrow> d \<noteq> [] \<and> py_strip d = d)
      \<and> hint_operation_id h \<noteq> Some [] \<and> hint_requested_at h \<noteq> Some [] \<and> hint_status_reason h \<noteq> Some [])"

lemma hint_get:
  "json_get ''reason'' (build_pending_operator_hint_payload h) = Some (JStr (hint_reason h))"
  "json_get ''directive'' (build_pending_operator_hint_payload h) = map_option JStr (hint_directive h)"
  "json_get ''operation_id'' (build_pending_operator_hint_payload h) = map_option JStr (hint_operation_id h)"
  "json_get ''requested_at'' (build_pending_operator_hint_payload h) = map_option JStr (hint_requested_at h)"
  "json_get ''reason_code'' (build_pending_operator_hint_payload h) = Some (JStr (hint_reason_code h))"
  "json_get ''status'' (build_pending_operator_hint_payload h) = Some (JStr (hint_status_value (hint_status h)))"
  "json_get ''status_reason'' (build_pending_operator_hint_payload h) = map_option JStr (hint_status_reason h)"
  by (simp_all add: build_pending_operator_hint_payload_def json_get_def some_field_def split: option.splits)

lemma optional_round:
  "x \<noteq> Some [] \<Longrightarrow> optional_string (map_option JStr x) = x"
  "(case x of None \<Rightarrow> True | Some d \<Rightarrow> d \<noteq> [] \<and> py_strip d = d) \<Longrightarrow> optional_stripped_string (map_option JStr x) = x"
  by (cases x; auto simp: optional_string_def optional_stripped_string_def)+

lemma hint_status_round: "hint_status_of (Some (JStr (hint_status_value s))) = s"
  by (cases s) (simp_all add: hint_status_of_def)

text \<open>
  An operator hint survives the database.  Reading back the payload built from a
  well-formed hint gives the same hint, whatever its status.
\<close>

theorem operator_hint_roundtrip:
  assumes "hint_ok h"
  shows "pre_pr_operator_hint_from_payload (Some (build_pending_operator_hint_payload h)) = Some h"
proof -
  obtain kvs where k: "build_pending_operator_hint_payload h = JObj kvs"
    by (simp add: build_pending_operator_hint_payload_def)
  have "optional_string (Some (JStr (hint_reason_code h))) = Some (hint_reason_code h)"
    using assms by (simp add: optional_string_def hint_ok_def)
  with assms show ?thesis
    unfolding k pre_pr_operator_hint_from_payload_def
    by (simp add: hint_get [of h, unfolded k] hint_ok_def optional_round hint_status_round)
qed

theorem operator_hint_roundtrip_witness:
  "pre_pr_operator_hint_from_payload (Some (build_pending_operator_hint_payload
     \<lparr>hint_reason = ''why'', hint_directive = Some ''redo it'', hint_operation_id = None, hint_requested_at = None,
      hint_reason_code = ''OPERATOR_GUIDE'', hint_status = Needs_human, hint_status_reason = None\<rparr>)) =
   Some \<lparr>hint_reason = ''why'', hint_directive = Some ''redo it'', hint_operation_id = None, hint_requested_at = None,
      hint_reason_code = ''OPERATOR_GUIDE'', hint_status = Needs_human, hint_status_reason = None\<rparr>"
  by (rule operator_hint_roundtrip) code_simp

section \<open>Resumption\<close>

lemma sort_take_first:
  fixes f :: "'a \<Rightarrow> 'b::linorder"
  assumes "sorted (map f xs)" "x \<in> set (take n xs)" "y \<in> set (drop n xs)"
  shows "f x \<le> f y"
proof -
  have "sorted (map f (take n xs) @ map f (drop n xs))" using assms(1) by (metis append_take_drop_id map_append)
  with assms(2,3) show ?thesis by (auto simp: sorted_append)
qed

text \<open>
  The worker resumes only what an operator cleared, oldest first.  The selected ids are
  those of rows that are blocked before a pull request, not held by a recovery, and carry either a
  directive or an active grant (a planning decision needs the directive); there are at most
  \<open>limit\<close> of them, and no row left out was updated earlier than a selected one.
\<close>

theorem resumable_blocked_selection:
  assumes "0 < limit"
  shows "\<exists>sel. list_resumable_blocked_ids db rows limit excluded node = map ws_id sel
     \<and> length sel = min (nat limit) (length (filter (resumable_blocked db node excluded) rows))
     \<and> sorted (map updated_at sel)
     \<and> (\<forall>w \<in> set sel. w \<in> set rows \<and> status w = Blocked \<and> recovery_allows_work db w
          \<and> \<not> is_monitor_origin_block_resume_phase (block_resume_phase w)
          \<and> (if block_type w = Some ''plan_conformance_decision'' then actionable_hint w
             else actionable_hint w \<or> (\<exists>g \<in> set (grants db). active_grant w g)))
     \<and> (\<forall>w \<in> set rows - set sel. resumable_blocked db node excluded w \<longrightarrow>
          (\<forall>v \<in> set sel. updated_at v \<le> updated_at w))"
proof -
  let ?all = "sort_key updated_at (sort_key ws_id (filter (resumable_blocked db node excluded) rows))"
  let ?sel = "take (nat limit) ?all"
  have "list_resumable_blocked_ids db rows limit excluded node = map ws_id ?sel"
    using assms by (simp add: list_resumable_blocked_ids_def take_map)
  moreover have "length ?sel = min (nat limit) (length (filter (resumable_blocked db node excluded) rows))"
    by (simp add: min.commute)
  moreover have "sorted (map updated_at ?sel)"
    by (simp add: take_map [symmetric] sorted_wrt_take)
  moreover have "w \<in> set rows \<and> status w = Blocked \<and> recovery_allows_work db w
          \<and> \<not> is_monitor_origin_block_resume_phase (block_resume_phase w)
          \<and> (if block_type w = Some ''plan_conformance_decision'' then actionable_hint w
             else actionable_hint w \<or> (\<exists>g \<in> set (grants db). active_grant w g))" if "w \<in> set ?sel" for w
    using in_set_takeD [OF that]
    by (auto simp: resumable_blocked_def is_monitor_origin_block_resume_phase_def list_ex_iff split: option.splits)
  moreover have "updated_at v \<le> updated_at w"
    if "w \<in> set rows - set ?sel" "resumable_blocked db node excluded w" "v \<in> set ?sel" for w v
  proof (rule sort_take_first [where xs = ?all and n = "nat limit"])
    show "sorted (map updated_at ?all)" by simp
    show "v \<in> set ?sel" by (rule that)
    have "w \<in> set ?all" using that by simp
    then have "w \<in> set ?sel \<or> w \<in> set (drop (nat limit) ?all)" by (metis append_take_drop_id in_set_conv_decomp set_append UnE)
    with that show "w \<in> set (drop (nat limit) ?all)" by blast
  qed
  ultimately show ?thesis by blast
qed

definition tab_hint :: json where
  "tab_hint = JObj [(''reason'', JStr ''why''), (''directive'', JStr [CHR 0x09])]"

definition tab_hint_workspace :: Workspace where
  "tab_hint_workspace = (sample_workspace ''w1'' Blocked)\<lparr>pending_operator_hint := Some tab_hint\<rparr>"

lemma tab_hint_resumable: "resumable_blocked (sample_db Blocked) None [] tab_hint_workspace"
proof -
  have "recovery_allows_work (sample_db Blocked) tab_hint_workspace"
    using sample_recovery [of Blocked "''w1''" Blocked] by (simp add: tab_hint_workspace_def recovery_allows_work_def)
  then show ?thesis
    by (simp add: resumable_blocked_def) (simp add: tab_hint_workspace_def sample_workspace_def actionable_hint_def
        text_field_def tab_hint_def json_get_def sql_trim_def)
qed

theorem resumable_blocked_selection_witness:
  "\<exists>sel :: Workspace list.
     list_resumable_blocked_ids (sample_db Blocked) [tab_hint_workspace] 3 [] None = map ws_id sel \<and> length sel = 1"
proof -
  have pos: "0 < (3 :: int)" by simp
  obtain sel :: "Workspace list" where "list_resumable_blocked_ids (sample_db Blocked) [tab_hint_workspace] 3 [] None = map ws_id sel"
    "length sel = min (nat 3) (length (filter (resumable_blocked (sample_db Blocked) None []) [tab_hint_workspace]))"
    using resumable_blocked_selection [OF pos, of "sample_db Blocked" "[tab_hint_workspace]" "[]" None] by blast
  with tab_hint_resumable show ?thesis by (intro exI [of _ sel]) simp
qed

text \<open>
  The selector and the resume path disagree on white space other than blanks.  The SQL
  test trims blanks only, so a directive made of a tab makes a blocked workspace eligible, while the
  resume path, which strips all white space, finds no directive in it and the workspace has no
  active grant either.
\<close>

theorem tab_directive_selected_without_directive:
  "list_resumable_blocked_ids (sample_db Blocked) [tab_hint_workspace] 1 [] None = [''w1'']
   \<and> map_option hint_directive (pre_pr_operator_hint_from_payload (pending_operator_hint tab_hint_workspace)) = Some None
   \<and> active_operator_grant_specs_in_session ''w1'' (sample_db Blocked) = []"
proof (intro conjI)
  show "list_resumable_blocked_ids (sample_db Blocked) [tab_hint_workspace] 1 [] None = [''w1'']"
    using tab_hint_resumable by (simp add: list_resumable_blocked_ids_def tab_hint_workspace_def)
  show "map_option hint_directive (pre_pr_operator_hint_from_payload (pending_operator_hint tab_hint_workspace)) = Some None"
    by (simp add: tab_hint_workspace_def tab_hint_def pre_pr_operator_hint_from_payload_def json_get_def
        optional_stripped_string_def py_strip_def is_space_def)
  show "active_operator_grant_specs_in_session ''w1'' (sample_db Blocked) = []"
    by (simp add: active_operator_grant_specs_in_session_def) (simp add: sample_db_def)
qed

end
