(* ===== verification/Monitor_Models.thy ===== *)
theory Monitor_Models
  imports Prelude "HOL-Library.Product_Lexorder"
begin

text \<open>
  Wire shapes of the PR monitor (\<open>runtime/pr_monitor_models.py\<close>): what the runner assembles after polling
  the forge.  \<open>monitor_env\<close> gathers the library functions the decision core calls and the registry
  time-out detector of \<open>runtime/_docker_pull_detection.py\<close>; every definition that uses one takes it as
  an argument, so the theorems hold for all of them.  Aware datetimes are carried in UTC, as
  the forge clients parse them.
\<close>

record monitor_env =
  sha256_hex :: "string \<Rightarrow> string"
  iso_format :: "py_datetime \<Rightarrow> string"
  from_iso_format :: "string \<Rightarrow> py_datetime option"
  docker_registry_timeout :: "string \<Rightarrow> bool"

section \<open>Forge enumerations\<close>

datatype MergeableState = MERGEABLE | CONFLICTING | UNKNOWN

fun mergeable_value :: "MergeableState \<Rightarrow> string" where
  "mergeable_value MERGEABLE = ''MERGEABLE''"
| "mergeable_value CONFLICTING = ''CONFLICTING''"
| "mergeable_value UNKNOWN = ''UNKNOWN''"

datatype MergeStateStatus = CLEAN | BEHIND | DIRTY | BLOCKED | HAS_HOOKS | UNSTABLE | UNKNOWN_STATUS

fun merge_state_value :: "MergeStateStatus \<Rightarrow> string" where
  "merge_state_value CLEAN = ''CLEAN''"
| "merge_state_value BEHIND = ''BEHIND''"
| "merge_state_value DIRTY = ''DIRTY''"
| "merge_state_value BLOCKED = ''BLOCKED''"
| "merge_state_value HAS_HOOKS = ''HAS_HOOKS''"
| "merge_state_value UNSTABLE = ''UNSTABLE''"
| "merge_state_value UNKNOWN_STATUS = ''UNKNOWN''"

datatype CheckState = SUCCESS | FAILURE | PENDING | NEUTRAL

section \<open>Review feedback\<close>

record ReviewThreadComment =
  rtc_comment_id :: "string option"
  rtc_body :: string
  rtc_author :: "string option"
  rtc_created_at :: "py_datetime option"
  rtc_updated_at :: "py_datetime option"
  rtc_url :: "string option"
  rtc_viewer_did_author :: bool
  rtc_review_id :: "string option"

record ReviewComment =
  comment_id :: string
  comment_body_excerpt :: string
  comment_author :: "string option"
  comment_is_resolved :: bool
  blocks_merge :: bool
  comment_body :: "string option"
  comment_url :: "string option"
  comment_created_at :: "py_datetime option"
  comment_updated_at :: "py_datetime option"
  comment_state :: "string option"
  source_kind :: string
  comment_viewer_did_author :: bool

record ReviewThread =
  thread_id :: string
  thread_path :: "string option"
  thread_line :: "int option"
  body_excerpt :: string
  thread_author :: "string option"
  is_resolved :: bool
  comments :: "ReviewThreadComment list"
  thread_url :: "string option"
  is_outdated :: bool
  review_context :: "ReviewComment option"

section \<open>Checks and the PR snapshot\<close>

record CheckFailure =
  check_name :: string
  conclusion :: string
  log_excerpt :: string
  run_id :: "string option"
  failing_commands :: "string list"
  test_node_ids :: "string list"
  assertion_snippets :: "string list"
  error_summaries :: "string list"
  suggested_repro_commands :: "string list"
  evidence_warnings :: "string list"

record CheckTiming =
  timing_name :: string
  timing_status :: "string option"
  timing_conclusion :: "string option"
  started_at :: "py_datetime option"
  completed_at :: "py_datetime option"
  details_url :: "string option"
  app_slug :: "string option"
  app_name :: "string option"
  creator_login :: "string option"

record PRStatus =
  number :: int
  head_sha :: string
  mergeable :: MergeableState
  check_state :: CheckState
  unresolved_inline_threads :: "ReviewThread list"
  unresolved_review_comments :: "ReviewComment list"
  base_behind_count :: int
  head_ref :: "string option"
  base_ref :: "string option"
  base_ref_drifted :: bool
  blocking_reviews :: "ReviewComment list"
  merge_state_status :: MergeStateStatus
  ci_failures :: "CheckFailure list"
  ci_runs_in_progress :: bool
  checks :: "CheckTiming list"
  no_checks_observed :: bool
  awaiting_required_checks_grace_active :: bool
  unsynchronized_remote_head_sha :: "string option"
  pr_head_sync_grace_active :: bool
  changed_paths :: "string list"
  pr_closed :: bool
  pr_merged :: bool
  pr_merge_commit_sha :: "string option"
  latest_external_review_activity_at :: "py_datetime option"
  latest_external_review_activity_source :: "string option"
  quiet_period_anchor_at :: "py_datetime option"
  quiet_period_anchor_source :: "string option"
  outdated_unresolved_inline_threads :: "ReviewThread list"

text \<open>\<open>x or default\<close> and truthiness of an optional string.\<close>

definition truthy :: "string option \<Rightarrow> bool" where
  "truthy v = (case v of None \<Rightarrow> False | Some s \<Rightarrow> s \<noteq> [])"

lemma truthy_None [simp]: "\<not> truthy None"
  by (simp add: truthy_def)

lemma truthy_Some [simp]: "truthy (Some s) \<longleftrightarrow> s \<noteq> []"
  by (simp add: truthy_def)

section \<open>Concrete environments and snapshots\<close>

text \<open>An environment with an injective stand-in for the digest, and constructors that
  fill the fields a concrete example does not mention with the dataclass defaults.\<close>

definition plain_env :: monitor_env where
  "plain_env = \<lparr>sha256_hex = (\<lambda>s. CHR ''h'' # s),
     iso_format = (\<lambda>d. case d of Naive t \<Rightarrow> CHR ''n'' # py_str_int t | Aware t \<Rightarrow> CHR ''a'' # py_str_int t),
     from_iso_format = (\<lambda>s. case s of [] \<Rightarrow> None
        | c # r \<Rightarrow> (if c = CHR ''n'' then map_option Naive (py_int r)
                    else if c = CHR ''a'' then map_option Aware (py_int r) else None)),
     docker_registry_timeout = (\<lambda>_. False)\<rparr>"

definition plain_thread :: "string \<Rightarrow> string \<Rightarrow> string \<Rightarrow> ReviewThread" where
  "plain_thread i login body = \<lparr>thread_id = i, thread_path = None, thread_line = None, body_excerpt = body,
     thread_author = Some login, is_resolved = False, comments = [], thread_url = None,
     is_outdated = False, review_context = None\<rparr>"

definition plain_failure :: "string option \<Rightarrow> string \<Rightarrow> CheckFailure" where
  "plain_failure run text = \<lparr>check_name = ''ci'', conclusion = ''FAILURE'', log_excerpt = text, run_id = run,
     failing_commands = [], test_node_ids = [], assertion_snippets = [], error_summaries = [],
     suggested_repro_commands = [], evidence_warnings = []\<rparr>"

definition green_status :: PRStatus where
  "green_status = \<lparr>number = 7, head_sha = ''abc'', mergeable = MERGEABLE, check_state = SUCCESS,
     unresolved_inline_threads = [], unresolved_review_comments = [], base_behind_count = 0,
     head_ref = None, base_ref = None, base_ref_drifted = False, blocking_reviews = [],
     merge_state_status = CLEAN, ci_failures = [], ci_runs_in_progress = False, checks = [],
     no_checks_observed = False, awaiting_required_checks_grace_active = False,
     unsynchronized_remote_head_sha = None, pr_head_sync_grace_active = False, changed_paths = [],
     pr_closed = False, pr_merged = False, pr_merge_commit_sha = None,
     latest_external_review_activity_at = None, latest_external_review_activity_source = None,
     quiet_period_anchor_at = None, quiet_period_anchor_source = None,
     outdated_unresolved_inline_threads = []\<rparr>"

end
