(* ===== verification/Json_Text.thy ===== *)
theory Json_Text
  imports Prelude
begin

text \<open>
  The part of \<open>json.dumps(value, sort_keys=True, separators=(",", ":"))\<close> the PR monitor relies on to
  build hash inputs: strings with the default ASCII escapes, \<open>null\<close>, objects and arrays.  The locale
  \<open>prefix_code\<close> collects what makes such a text readable back: no encoding is a proper prefix of
  another one, so arrays of encodings determine their elements.
\<close>

section \<open>The serialiser\<close>

definition hex_digit :: "nat \<Rightarrow> char" where
  "hex_digit d = (if d < 10 then char_of (48 + d) else char_of (87 + d))"

definition json_escape :: "char \<Rightarrow> string" where
  "json_escape c =
     (let n = (of_char c :: nat) in
      if n = 34 then [CHR 0x5C, CHR 0x22]
      else if n = 92 then [CHR 0x5C, CHR 0x5C]
      else if n = 10 then [CHR 0x5C, CHR ''n'']
      else if n = 13 then [CHR 0x5C, CHR ''r'']
      else if n = 9 then [CHR 0x5C, CHR ''t'']
      else if n = 12 then [CHR 0x5C, CHR ''f'']
      else if n = 8 then [CHR 0x5C, CHR ''b'']
      else if 32 \<le> n \<and> n \<le> 126 then [c]
      else [CHR 0x5C, CHR ''u'', CHR ''0'', CHR ''0'', hex_digit (n div 16), hex_digit (n mod 16)])"

definition dumps_string :: "string \<Rightarrow> string" where
  "dumps_string s = CHR 0x22 # concat (map json_escape s) @ [CHR 0x22]"

definition dumps_optional :: "string option \<Rightarrow> string" where
  "dumps_optional v = (case v of None \<Rightarrow> ''null'' | Some s \<Rightarrow> dumps_string s)"

definition dumps_array :: "string list \<Rightarrow> string" where
  "dumps_array xs = ''['' @ py_join '','' xs @ '']''"

definition dumps_object :: "(string \<times> string) list \<Rightarrow> string" where
  "dumps_object kvs = CHR 0x7B # py_join '','' (map (\<lambda>(k, v). dumps_string k @ '':'' @ v) kvs) @ [CHR 0x7D]"

section \<open>Prefix codes\<close>

locale prefix_code =
  fixes enc :: "'a \<Rightarrow> string"
  assumes read_back: "enc x @ r = enc y @ s \<Longrightarrow> x = y \<and> r = s"
    and starts: "enc x \<noteq> []" "hd (enc x) \<noteq> CHR '']''"
begin

lemma enc_inj [simp]: "enc x = enc y \<longleftrightarrow> x = y"
  using read_back [of x "[]" y "[]"] by auto

lemma enc_not_close: "CHR '']'' # r \<noteq> enc y @ s" "enc y @ s \<noteq> CHR '']'' # r"
  using starts [of y] by (cases "enc y"; auto)+

lemma join_read_back:
  "py_join '','' (map enc xs) @ CHR '']'' # r = py_join '','' (map enc ys) @ CHR '']'' # s \<Longrightarrow>
     xs = ys \<and> r = s"
proof (induction xs arbitrary: ys)
  case Nil
  show ?case
  proof (cases ys)
    case (Cons y zs)
    then show ?thesis
      using Nil.prems by (cases zs) (auto simp: py_join_Cons enc_not_close)
  qed (use Nil.prems in auto)
next
  case (Cons x xs)
  show ?case
  proof (cases ys)
    case Nil
    then show ?thesis
      using Cons.prems by (cases xs) (auto simp: py_join_Cons enc_not_close)
  next
    case ys: (Cons y zs)
    show ?thesis
    proof (cases "xs = [] \<or> zs = []")
      case True
      then show ?thesis
        using Cons.prems ys
        by (cases xs; cases zs) (auto simp: py_join_Cons dest!: read_back)
    next
      case False
      then have "enc x @ CHR '','' # py_join '','' (map enc xs) @ CHR '']'' # r
                 = enc y @ CHR '','' # py_join '','' (map enc zs) @ CHR '']'' # s"
        using Cons.prems ys by (simp add: py_join_Cons)
      then show ?thesis
        using Cons.IH [of zs] ys by (auto dest!: read_back)
    qed
  qed
qed

lemma array_inj: "dumps_array (map enc xs) = dumps_array (map enc ys) \<longleftrightarrow> xs = ys"
  using join_read_back [of xs "[]" ys "[]"] by (auto simp: dumps_array_def)

end

section \<open>Strings and nullable strings are prefix codes\<close>

text \<open>The reader of one escaped character.\<close>

definition hex_val :: "char \<Rightarrow> nat" where
  "hex_val c = (let n = of_char c in if n < 58 then n - 48 else n - 87)"

fun read_char :: "string \<Rightarrow> (char \<times> string) option" where
  "read_char [] = None"
| "read_char (c # r) =
     (if c = CHR 0x22 then None
      else if c \<noteq> CHR 0x5C then Some (c, r)
      else (case r of
              [] \<Rightarrow> None
            | d # t \<Rightarrow>
                if d = CHR ''n'' then Some (CHR 0x0A, t)
                else if d = CHR ''r'' then Some (CHR 0x0D, t)
                else if d = CHR ''t'' then Some (CHR 0x09, t)
                else if d = CHR ''f'' then Some (CHR 0x0C, t)
                else if d = CHR ''b'' then Some (CHR 0x08, t)
                else if d = CHR ''u'' then
                  Some (char_of (16 * hex_val (t ! 2) + hex_val (t ! 3)), drop 4 t)
                else Some (d, t)))"

lemma hex_val_digit: "d < 16 \<Longrightarrow> hex_val (hex_digit d) = d"
  by (simp add: hex_val_def hex_digit_def Let_def)

lemma char_eq_code: "c = d \<longleftrightarrow> (of_char c :: nat) = of_char d"
  by (metis of_char_eq_iff)

lemma read_char_unicode:
  "n < 256 \<Longrightarrow> read_char ([CHR 0x5C, CHR ''u'', CHR ''0'', CHR ''0'', hex_digit (n div 16), hex_digit (n mod 16)] @ r)
     = Some (char_of n, r)"
  by (simp add: hex_val_digit)

lemma read_char_escape: "read_char (json_escape c @ r) = Some (c, r)"
proof -
  let ?n = "of_char c :: nat"
  consider (special) "?n \<in> set [34, 92, 10, 13, 9, 12, 8]"
    | (plain) "?n \<notin> set [34, 92, 10, 13, 9, 12, 8]" "32 \<le> ?n" "?n \<le> 126"
    | (code) "?n \<notin> set [34, 92, 10, 13, 9, 12, 8]" "\<not> (32 \<le> ?n \<and> ?n \<le> 126)"
    by blast
  then show ?thesis
  proof cases
    case special
    then have "c \<in> set [CHR 0x22, CHR 0x5C, CHR 0x0A, CHR 0x0D, CHR 0x09, CHR 0x0C, CHR 0x08]"
      by (simp add: char_eq_code)
    then show ?thesis
      by (auto simp: json_escape_def)
  next
    case plain
    then have "json_escape c = [c]" "c \<noteq> CHR 0x22" "c \<noteq> CHR 0x5C"
      by (simp_all add: json_escape_def char_eq_code)
    then show ?thesis by simp
  next
    case code
    then have "json_escape c = [CHR 0x5C, CHR ''u'', CHR ''0'', CHR ''0'', hex_digit (?n div 16), hex_digit (?n mod 16)]"
      unfolding json_escape_def Let_def
      by (simp only: list.set insert_iff empty_iff if_False simp_thms de_Morgan_disj)
    then show ?thesis
      using read_char_unicode [of ?n r] by simp
  qed
qed

lemma escape_read_back: "json_escape c @ r = json_escape d @ s \<Longrightarrow> c = d \<and> r = s"
  by (metis option.inject prod.inject read_char_escape)

lemma escape_not_quote: "json_escape c @ r \<noteq> CHR 0x22 # s"
  using read_char_escape [of c r] by auto

lemma escaped_read_back:
  "concat (map json_escape s) @ CHR 0x22 # r = concat (map json_escape t) @ CHR 0x22 # u \<Longrightarrow> s = t \<and> r = u"
proof (induction s arbitrary: t)
  case Nil
  show ?case
  proof (cases t)
    case (Cons d t')
    then show ?thesis
      using Nil.prems escape_not_quote [of d "concat (map json_escape t') @ CHR 0x22 # u" r] by simp
  qed (use Nil.prems in simp)
next
  case (Cons c s)
  show ?case
  proof (cases t)
    case Nil
    then show ?thesis
      using Cons.prems escape_not_quote [of c "concat (map json_escape s) @ CHR 0x22 # r" u] by simp
  next
    case t: (Cons d t')
    then have "c = d \<and> concat (map json_escape s) @ CHR 0x22 # r = concat (map json_escape t') @ CHR 0x22 # u"
      using Cons.prems by (intro escape_read_back) simp
    then show ?thesis
      using Cons.IH [of t'] t by blast
  qed
qed

lemma dumps_string_read_back: "dumps_string s @ r = dumps_string t @ u \<Longrightarrow> s = t \<and> r = u"
  by (intro escaped_read_back) (simp add: dumps_string_def)

interpretation json_string: prefix_code dumps_string
proof
  show "dumps_string x @ r = dumps_string y @ s \<Longrightarrow> x = y \<and> r = s" for x y r s
    by (rule dumps_string_read_back)
qed (simp_all add: dumps_string_def)

lemma dumps_optional_read_back:
  assumes "dumps_optional v @ r = dumps_optional w @ s"
  shows "v = w \<and> r = s"
proof (cases v)
  case None
  then show ?thesis
    using assms by (cases w) (simp_all add: dumps_optional_def dumps_string_def)
next
  case v: (Some a)
  show ?thesis
  proof (cases w)
    case None
    then show ?thesis
      using assms v by (simp add: dumps_optional_def dumps_string_def)
  next
    case (Some b)
    then show ?thesis
      using assms v dumps_string_read_back [of a r b s] by (simp add: dumps_optional_def)
  qed
qed

interpretation json_optional: prefix_code dumps_optional
proof
  show "dumps_optional x @ r = dumps_optional y @ s \<Longrightarrow> x = y \<and> r = s" for x y r s
    by (rule dumps_optional_read_back)
qed (simp_all add: dumps_optional_def dumps_string_def split: option.splits)

end
