(* ===== verification/Feedback_Policy.thy ===== *)
theory Feedback_Policy
  imports Monitor_Models Json_Text
begin

text \<open>
  Review-feedback policy (\<open>runtime/feedback_policy.py\<close>): the verdict taxonomy, the body hash that binds
  a verdict to the conversation it answered, and the canonical unresolved view the merge gates read.
\<close>

section \<open>Verdicts\<close>

definition CLOSED_OUTDATED_THREAD_VERDICTS :: "string list" where
  "CLOSED_OUTDATED_THREAD_VERDICTS = [''false_positive'', ''fix_committed'']"

definition REQUEUE_ON_BODY_CHANGE_VERDICTS :: "string list" where
  "REQUEUE_ON_BODY_CHANGE_VERDICTS = CLOSED_OUTDATED_THREAD_VERDICTS @ [''defer'', ''needs_human'']"

definition RESOLVABLE_THREAD_VERDICTS :: "string list" where
  "RESOLVABLE_THREAD_VERDICTS = [''defer'', ''false_positive'', ''fix_committed'']"

definition verdict_in :: "string list \<Rightarrow> string option \<Rightarrow> bool" where
  "verdict_in vs verdict = (case verdict of None \<Rightarrow> False | Some v \<Rightarrow> v \<in> set vs)"

definition needs_comment_attention :: "string option \<Rightarrow> bool" where
  "needs_comment_attention verdict = (verdict = None \<or> verdict = Some ''agent_failed'')"

section \<open>Body hashes\<close>

definition review_thread_body_state_key :: "string \<Rightarrow> string" where
  "review_thread_body_state_key i = ''__review_thread_body_hash__:'' @ i"

definition content_row :: "string option \<times> string \<Rightarrow> string" where
  "content_row = (\<lambda>(author, body).
     dumps_object [(''author'', dumps_optional author), (''body'', dumps_string body)])"

definition legacy_row :: "string option \<times> string \<times> string option \<times> string option \<Rightarrow> string" where
  "legacy_row = (\<lambda>(author, body, cid, created).
     dumps_object [(''author'', dumps_optional author), (''body'', dumps_string body),
       (''comment_id'', dumps_optional cid), (''created_at'', dumps_optional created)])"

definition review_thread_resolution_body :: "ReviewThread \<Rightarrow> string" where
  "review_thread_resolution_body thread =
     dumps_array (map content_row
       (if comments thread \<noteq> []
        then map (\<lambda>c. (rtc_author c, rtc_body c)) (comments thread)
        else [(thread_author thread, body_excerpt thread)]))"

definition legacy_review_thread_resolution_body :: "monitor_env \<Rightarrow> ReviewThread \<Rightarrow> string" where
  "legacy_review_thread_resolution_body env thread =
     dumps_array (map legacy_row
       (if comments thread \<noteq> []
        then map (\<lambda>c. (rtc_author c, rtc_body c, rtc_comment_id c,
                       map_option (iso_format env) (rtc_created_at c))) (comments thread)
        else [(thread_author thread, body_excerpt thread, None, None)]))"

definition legacy_fallback_review_thread_resolution_body :: "ReviewThread \<Rightarrow> string" where
  "legacy_fallback_review_thread_resolution_body thread =
     dumps_array (map legacy_row
       (if comments thread \<noteq> []
        then map (\<lambda>c. (rtc_author c, rtc_body c, None, None)) (comments thread)
        else [(thread_author thread, body_excerpt thread, None, None)]))"

definition review_thread_body_hash :: "monitor_env \<Rightarrow> ReviewThread \<Rightarrow> string" where
  "review_thread_body_hash env thread = sha256_hex env (review_thread_resolution_body thread)"

definition legacy_review_thread_body_hash :: "monitor_env \<Rightarrow> ReviewThread \<Rightarrow> string" where
  "legacy_review_thread_body_hash env thread =
     sha256_hex env (legacy_review_thread_resolution_body env thread)"

definition legacy_fallback_review_thread_body_hash :: "monitor_env \<Rightarrow> ReviewThread \<Rightarrow> string" where
  "legacy_fallback_review_thread_body_hash env thread =
     sha256_hex env (legacy_fallback_review_thread_resolution_body thread)"

definition review_thread_body_hashes :: "monitor_env \<Rightarrow> ReviewThread \<Rightarrow> string list" where
  "review_thread_body_hashes env thread =
     [review_thread_body_hash env thread, legacy_review_thread_body_hash env thread,
      legacy_fallback_review_thread_body_hash env thread]"

definition recorded_review_thread_body_matches :: "monitor_env \<Rightarrow> string option \<Rightarrow> ReviewThread \<Rightarrow> bool" where
  "recorded_review_thread_body_matches env recorded thread =
     (case recorded of None \<Rightarrow> False | Some h \<Rightarrow> h \<in> set (review_thread_body_hashes env thread))"

section \<open>Attention\<close>

definition thread_needs_attention :: "monitor_env \<Rightarrow> state_map \<Rightarrow> ReviewThread \<Rightarrow> bool" where
  "thread_needs_attention env m thread =
     (if needs_comment_attention (m (thread_id thread)) then True
      else \<not> recorded_review_thread_body_matches env
               (m (review_thread_body_state_key (thread_id thread))) thread)"

definition thread_enters_address_comments :: "monitor_env \<Rightarrow> state_map \<Rightarrow> ReviewThread \<Rightarrow> bool" where
  "thread_enters_address_comments env m thread =
     (let verdict = m (thread_id thread);
          recorded = m (review_thread_body_state_key (thread_id thread)) in
      if needs_comment_attention verdict then True
      else if \<not> verdict_in REQUEUE_ON_BODY_CHANGE_VERDICTS verdict then False
      else if recorded = None then False
      else \<not> recorded_review_thread_body_matches env recorded thread)"

definition thread_resolution_pending :: "monitor_env \<Rightarrow> state_map \<Rightarrow> ReviewThread \<Rightarrow> bool" where
  "thread_resolution_pending env m thread =
     (if \<not> verdict_in RESOLVABLE_THREAD_VERDICTS (m (thread_id thread)) then False
      else recorded_review_thread_body_matches env
             (m (review_thread_body_state_key (thread_id thread))) thread)"

definition outdated_thread_has_fresh_feedback :: "monitor_env \<Rightarrow> state_map \<Rightarrow> ReviewThread \<Rightarrow> bool" where
  "outdated_thread_has_fresh_feedback env m thread =
     (if \<not> verdict_in CLOSED_OUTDATED_THREAD_VERDICTS (m (thread_id thread)) then False
      else thread_needs_attention env m thread)"

section \<open>Same-ID transport copies\<close>

text \<open>\<open>datetime.min\<close> in UTC.\<close>

definition FRESHNESS_EPOCH :: instant where
  "FRESHNESS_EPOCH = - 62135596800000000"

definition comment_stamps :: "ReviewThreadComment \<Rightarrow> instant list" where
  "comment_stamps c = map as_utc (List.map_filter id [rtc_created_at c, rtc_updated_at c])"

definition review_thread_conversation_rank :: "ReviewThread \<Rightarrow> nat \<times> instant" where
  "review_thread_conversation_rank thread =
     (if comments thread \<noteq> []
      then (let stamps = concat (map comment_stamps (comments thread)) in
            (length (comments thread), if stamps = [] then FRESHNESS_EPOCH else Max (set stamps)))
      else (1, FRESHNESS_EPOCH))"

definition body_matches_recorded :: "monitor_env \<Rightarrow> state_map \<Rightarrow> ReviewThread \<Rightarrow> bool" where
  "body_matches_recorded env m thread =
     recorded_review_thread_body_matches env (m (review_thread_body_state_key (thread_id thread))) thread"

definition prefer_duplicate_review_thread ::
  "monitor_env \<Rightarrow> state_map option \<Rightarrow> ReviewThread \<Rightarrow> ReviewThread \<Rightarrow> ReviewThread" where
  "prefer_duplicate_review_thread env state_map existing candidate =
     (let exist_rank = review_thread_conversation_rank existing;
          cand_rank = review_thread_conversation_rank candidate;
          by_body = (if review_thread_body_hash env candidate \<noteq> review_thread_body_hash env existing
                     then candidate else existing) in
      if exist_rank < cand_rank then candidate
      else if cand_rank < exist_rank then existing
      else (case state_map of
              None \<Rightarrow> by_body
            | Some m \<Rightarrow>
                (let exist_match = body_matches_recorded env m existing;
                     cand_match = body_matches_recorded env m candidate in
                 if exist_match \<and> \<not> cand_match then existing
                 else if cand_match \<and> \<not> exist_match then candidate
                 else by_body)))"

text \<open>\<open>None\<close> is the \<open>ValueError\<close> of an empty sequence.\<close>

fun preferred_duplicate_review_thread ::
  "monitor_env \<Rightarrow> state_map option \<Rightarrow> ReviewThread list \<Rightarrow> ReviewThread option" where
  "preferred_duplicate_review_thread env m [] = None"
| "preferred_duplicate_review_thread env m (copy # copies) =
     Some (foldl (prefer_duplicate_review_thread env m) copy copies)"

section \<open>The canonical unresolved view\<close>

record canonical_view =
  index_by_id :: "string \<rightharpoonup> nat"
  active_ids :: "string set"
  combined :: "ReviewThread list"

definition consider_thread ::
  "monitor_env \<Rightarrow> state_map option \<Rightarrow> bool \<Rightarrow> canonical_view \<Rightarrow> ReviewThread \<Rightarrow> canonical_view" where
  "consider_thread env m from_active v thread =
     (let tid = thread_id thread in
      case index_by_id v tid of
        None \<Rightarrow> v\<lparr>index_by_id := (index_by_id v)(tid \<mapsto> length (combined v)),
                  combined := combined v @ [thread],
                  active_ids := (if from_active then insert tid (active_ids v) else active_ids v)\<rparr>
      | Some k \<Rightarrow>
          if \<not> from_active \<and> tid \<in> active_ids v then v
          else v\<lparr>combined := (combined v)[k := prefer_duplicate_review_thread env m (combined v ! k) thread]\<rparr>)"

definition canonical_unresolved_inline_threads ::
  "monitor_env \<Rightarrow> state_map option \<Rightarrow> ReviewThread list \<Rightarrow> ReviewThread list \<Rightarrow> ReviewThread list" where
  "canonical_unresolved_inline_threads env m active outdated =
     combined (foldl (consider_thread env m False)
                (foldl (consider_thread env m True) \<lparr>index_by_id = Map.empty, active_ids = {}, combined = []\<rparr> active)
                outdated)"

definition unresolved_active_count :: "ReviewThread list \<Rightarrow> nat" where
  "unresolved_active_count active = card (set (map thread_id active))"

definition unresolved_outdated_unique_count :: "ReviewThread list \<Rightarrow> ReviewThread list \<Rightarrow> nat" where
  "unresolved_outdated_unique_count active outdated =
     card (set (map thread_id outdated) - set (map thread_id active))"

definition unresolved_canonical_count :: "monitor_env \<Rightarrow> ReviewThread list \<Rightarrow> ReviewThread list \<Rightarrow> nat" where
  "unresolved_canonical_count env active outdated =
     length (canonical_unresolved_inline_threads env None active outdated)"

definition unresolved_thread_counts ::
  "monitor_env \<Rightarrow> ReviewThread list \<Rightarrow> ReviewThread list \<Rightarrow> (string \<times> nat) list" where
  "unresolved_thread_counts env active outdated =
     [(''unresolved_threads'', unresolved_canonical_count env active outdated),
      (''unresolved_active_threads'', unresolved_active_count active),
      (''unresolved_outdated_threads'', unresolved_outdated_unique_count active outdated)]"

end
