(* ===== verification/Feedback_Properties.thy ===== *)
theory Feedback_Properties
  imports Feedback_Policy
begin

text \<open>
  Facts about the feedback policy: the serialised body determines the conversation (so only a digest
  collision can hide a new reply), the choice among transport copies is a maximum that never
  leaves a matching body for a non-matching one, and the canonical view is one preferred
  thread per distinct ID, active feed first.
\<close>

section \<open>Serialised conversations\<close>

definition conversation :: "ReviewThread \<Rightarrow> (string option \<times> string) list" where
  "conversation thread =
     (if comments thread \<noteq> [] then map (\<lambda>c. (rtc_author c, rtc_body c)) (comments thread)
      else [(thread_author thread, body_excerpt thread)])"

lemma conversation_nonempty [simp]: "conversation t \<noteq> []"
  by (simp add: conversation_def)

lemma resolution_body_conversation:
  "review_thread_resolution_body t = dumps_array (map content_row (conversation t))"
  by (simp add: review_thread_resolution_body_def conversation_def)

lemma content_row_text:
  "content_row (a, b) =
     CHR 0x7B # dumps_string ''author'' @ '':'' @ dumps_optional a
       @ CHR '','' # dumps_string ''body'' @ '':'' @ dumps_string b @ [CHR 0x7D]"
  by (simp add: content_row_def dumps_object_def)

lemma legacy_row_text:
  "\<exists>rest. legacy_row (a, b, i, c) =
     CHR 0x7B # dumps_string ''author'' @ '':'' @ dumps_optional a
       @ CHR '','' # dumps_string ''body'' @ '':'' @ dumps_string b @ CHR '','' # rest"
  by (simp add: legacy_row_def dumps_object_def)

lemma content_row_read_back:
  assumes "content_row p @ r = content_row q @ s"
  shows "p = q \<and> r = s"
proof -
  obtain a b c d where pq: "p = (a, b)" "q = (c, d)"
    by (cases p; cases q)
  have "dumps_optional a @ (CHR '','' # dumps_string ''body'' @ '':'' @ dumps_string b @ CHR 0x7D # r)
        = dumps_optional c @ (CHR '','' # dumps_string ''body'' @ '':'' @ dumps_string d @ CHR 0x7D # s)"
    using assms by (simp add: pq content_row_text)
  from dumps_optional_read_back [OF this]
  have ac: "a = c" and "dumps_string b @ CHR 0x7D # r = dumps_string d @ CHR 0x7D # s"
    by simp_all
  from dumps_string_read_back [OF this(2)] ac show ?thesis
    by (simp add: pq)
qed

interpretation content: prefix_code content_row
proof
  show "content_row x @ r = content_row y @ s \<Longrightarrow> x = y \<and> r = s" for x y r s
    by (rule content_row_read_back)
  show "content_row x \<noteq> []" "hd (content_row x) \<noteq> CHR '']''" for x
    by (cases x; simp add: content_row_text)+
qed

lemma content_not_legacy_row: "content_row p @ r \<noteq> legacy_row q @ s"
proof
  assume eq: "content_row p @ r = legacy_row q @ s"
  obtain a b where p: "p = (a, b)" by (cases p)
  obtain c d i t where q: "q = (c, d, i, t)" by (cases q)
  obtain rest where legacy: "legacy_row q =
     CHR 0x7B # dumps_string ''author'' @ '':'' @ dumps_optional c
       @ CHR '','' # dumps_string ''body'' @ '':'' @ dumps_string d @ CHR '','' # rest"
    using legacy_row_text [of c d i t] q by auto
  have "dumps_optional a @ (CHR '','' # dumps_string ''body'' @ '':'' @ dumps_string b @ CHR 0x7D # r)
        = dumps_optional c @ (CHR '','' # dumps_string ''body'' @ '':'' @ dumps_string d @ CHR '','' # rest @ s)"
    using eq by (simp add: p legacy content_row_text)
  from dumps_optional_read_back [OF this]
  have "dumps_string b @ CHR 0x7D # r = dumps_string d @ CHR '','' # rest @ s"
    by simp
  from dumps_string_read_back [OF this] show False
    by simp
qed

lemma py_join_map_Cons:
  "\<exists>rest. py_join sep (map f (x # xs)) @ tail = f x @ rest"
  by (cases xs) auto

lemma content_not_legacy_array:
  assumes "xs \<noteq> []" "ys \<noteq> []"
  shows "dumps_array (map content_row xs) \<noteq> dumps_array (map legacy_row ys)"
proof
  assume eq: "dumps_array (map content_row xs) = dumps_array (map legacy_row ys)"
  obtain x xs' y ys' where xy: "xs = x # xs'" "ys = y # ys'"
    using assms by (metis neq_Nil_conv)
  from py_join_map_Cons [of "'',''" content_row x xs' "'']''"]
  obtain r where r: "py_join '','' (map content_row xs) @ '']'' = content_row x @ r"
    unfolding xy ..
  from py_join_map_Cons [of "'',''" legacy_row y ys' "'']''"]
  obtain s where s: "py_join '','' (map legacy_row ys) @ '']'' = legacy_row y @ s"
    unfolding xy ..
  have "py_join '','' (map content_row xs) @ '']'' = py_join '','' (map legacy_row ys) @ '']''"
    using eq unfolding dumps_array_def by (simp only: same_append_eq)
  then have "content_row x @ r = legacy_row y @ s"
    by (simp only: r s)
  then show False
    by (rule content_not_legacy_row [THEN notE])
qed

lemma hash_matches_iff:
  assumes "inj (sha256_hex env)"
  shows "recorded_review_thread_body_matches env (Some (review_thread_body_hash env old)) t
           \<longleftrightarrow> conversation t = conversation old"
proof -
  have "review_thread_resolution_body old \<noteq> legacy_review_thread_resolution_body env t"
    "review_thread_resolution_body old \<noteq> legacy_fallback_review_thread_resolution_body t"
    unfolding resolution_body_conversation legacy_review_thread_resolution_body_def
      legacy_fallback_review_thread_resolution_body_def
    by (intro content_not_legacy_array; simp)+
  then show ?thesis
    using assms
    by (auto simp: recorded_review_thread_body_matches_def review_thread_body_hashes_def
        review_thread_body_hash_def legacy_review_thread_body_hash_def
        legacy_fallback_review_thread_body_hash_def inj_eq resolution_body_conversation content.array_inj)
qed

lemma own_hash_matches:
  "recorded_review_thread_body_matches env (Some (review_thread_body_hash env t)) t"
  by (simp add: recorded_review_thread_body_matches_def review_thread_body_hashes_def)

section \<open>The preferred copy\<close>

abbreviation rank :: "ReviewThread \<Rightarrow> nat \<times> instant" where
  "rank \<equiv> review_thread_conversation_rank"

lemma prefer_either:
  "prefer_duplicate_review_thread env m a b = a \<or> prefer_duplicate_review_thread env m a b = b"
  by (auto simp: prefer_duplicate_review_thread_def Let_def split: option.splits)

lemma prefer_rank: "rank (prefer_duplicate_review_thread env m a b) = max (rank a) (rank b)"
  unfolding prefer_duplicate_review_thread_def Let_def
  by (auto simp: max_def not_less split: option.splits intro: antisym)

lemma prefer_match:
  assumes "x = a \<or> x = b" "rank a \<le> rank x" "rank b \<le> rank x" "body_matches_recorded env m x"
  shows "body_matches_recorded env m (prefer_duplicate_review_thread env (Some m) a b)"
  using assms unfolding prefer_duplicate_review_thread_def Let_def by auto

lemma foldl_prefer_mem: "foldl (prefer_duplicate_review_thread env m) a bs \<in> set (a # bs)"
proof (induction bs arbitrary: a)
  case (Cons b bs)
  then show ?case
    using prefer_either [of env m a b] by (metis foldl_Cons insert_iff list.set(2))
qed simp

lemma foldl_prefer_rank:
  "rank (foldl (prefer_duplicate_review_thread env m) a bs) = Max (rank ` set (a # bs))"
proof (induction bs arbitrary: a)
  case (Cons b bs)
  have "rank (foldl (prefer_duplicate_review_thread env m) a (b # bs))
        = Max (rank ` set (prefer_duplicate_review_thread env m a b # bs))"
    using Cons.IH by simp
  also have "\<dots> = Max (rank ` set (a # b # bs))"
    by (cases "bs = []") (simp_all add: prefer_rank max.assoc)
  finally show ?case .
qed simp

text \<open>Among the richest copies, one whose body matches the recorded hash is never displaced.\<close>

lemma foldl_prefer_match:
  assumes "x \<in> set (a # bs)" "rank x = Max (rank ` set (a # bs))" "body_matches_recorded env m x"
  shows "body_matches_recorded env m (foldl (prefer_duplicate_review_thread env (Some m)) a bs)"
  using assms
proof (induction bs arbitrary: a x)
  case (Cons b bs)
  let ?p = "prefer_duplicate_review_thread env (Some m) a b"
  have top: "Max (rank ` set (?p # bs)) = Max (rank ` set (a # b # bs))"
    using foldl_prefer_rank [of env "Some m" ?p bs] foldl_prefer_rank [of env "Some m" a "b # bs"] by simp
  have le: "rank y \<le> rank x" if "y \<in> {a, b}" for y
    unfolding Cons.prems(2) using that by (intro Max_ge) auto
  show ?case
  proof (cases "x \<in> set bs")
    case True
    then show ?thesis using Cons.IH [of x ?p] Cons.prems top by simp
  next
    case False
    then have x: "x = a \<or> x = b"
      using Cons.prems(1) by auto
    then have "rank ?p = rank x"
      unfolding prefer_rank using le [of a] le [of b] by (auto simp: max_def)
    moreover have "body_matches_recorded env m ?p"
      using prefer_match [OF x le le Cons.prems(3)] by simp
    ultimately show ?thesis
      using Cons.IH [of ?p ?p] Cons.prems(2) top by simp
  qed
qed simp

section \<open>The canonical view\<close>

text \<open>Distinct elements in order of first occurrence (\<open>dict.fromkeys\<close>).\<close>

definition uniq :: "'a list \<Rightarrow> 'a list" where
  "uniq xs = rev (remdups (rev xs))"

lemma uniq_simps [simp]: "set (uniq xs) = set xs" "distinct (uniq xs)" "uniq [] = []"
  by (simp_all add: uniq_def)

lemma uniq_snoc [simp]: "uniq (xs @ [x]) = (if x \<in> set xs then uniq xs else uniq xs @ [x])"
  by (simp add: uniq_def)

lemma uniq_snoc2 [simp]:
  "uniq (xs @ ys @ [x]) = (if x \<in> set xs \<union> set ys then uniq (xs @ ys) else uniq (xs @ ys) @ [x])"
  using uniq_snoc [of "xs @ ys" x] by simp

definition copies_of :: "ReviewThread list \<Rightarrow> ReviewThread list \<Rightarrow> string \<Rightarrow> ReviewThread list" where
  "copies_of active outdated i =
     (if i \<in> set (map thread_id active) then filter (\<lambda>t. thread_id t = i) active
      else filter (\<lambda>t. thread_id t = i) outdated)"

lemma no_copies: "i \<notin> thread_id ` set ts \<Longrightarrow> filter (\<lambda>t. thread_id t = i) ts = []"
  by (auto simp: filter_empty_conv)

lemma preferred_snoc:
  "preferred_duplicate_review_thread env m (ts @ [t]) =
     (case preferred_duplicate_review_thread env m ts of
        None \<Rightarrow> Some t | Some p \<Rightarrow> Some (prefer_duplicate_review_thread env m p t))"
  by (cases ts) simp_all

definition view_inv ::
  "monitor_env \<Rightarrow> state_map option \<Rightarrow> string list \<Rightarrow> (string \<Rightarrow> ReviewThread list) \<Rightarrow> canonical_view \<Rightarrow> bool" where
  "view_inv env m ids C v \<longleftrightarrow>
     distinct ids \<and> length (combined v) = length ids \<and>
     (\<forall>k < length ids. index_by_id v (ids ! k) = Some k
        \<and> Some (combined v ! k) = preferred_duplicate_review_thread env m (C (ids ! k))) \<and>
     (\<forall>i. i \<notin> set ids \<longrightarrow> index_by_id v i = None)"

lemma view_inv_cong:
  "view_inv env m ids C v \<Longrightarrow> (\<And>i. i \<in> set ids \<Longrightarrow> C i = C' i) \<Longrightarrow> view_inv env m ids C' v"
  by (simp add: view_inv_def)

lemma view_new:
  assumes "view_inv env m ids C v" "thread_id t \<notin> set ids" "C' (thread_id t) = [t]"
    "\<And>i. i \<in> set ids \<Longrightarrow> C' i = C i"
  shows "view_inv env m (ids @ [thread_id t]) C' (consider_thread env m from_active v t)"
  using assms by (auto simp: view_inv_def consider_thread_def Let_def nth_append less_Suc_eq)

lemma view_duplicate:
  assumes inv: "view_inv env m ids C v" and old: "thread_id t \<in> set ids"
    and no_active: "from_active \<or> thread_id t \<notin> active_ids v"
    and C': "C' (thread_id t) = C (thread_id t) @ [t]"
    "\<And>i. i \<in> set ids \<Longrightarrow> i \<noteq> thread_id t \<Longrightarrow> C' i = C i"
  shows "view_inv env m ids C' (consider_thread env m from_active v t)"
proof -
  obtain k where k: "k < length ids" "ids ! k = thread_id t"
    using old by (metis in_set_conv_nth)
  have ix: "index_by_id v (thread_id t) = Some k"
    and pk: "preferred_duplicate_review_thread env m (C (thread_id t)) = Some (combined v ! k)"
    using inv k by (auto simp: view_inv_def)
  have neq: "ids ! j \<noteq> thread_id t" if "j < length ids" "j \<noteq> k" for j
    using inv k that by (metis view_inv_def nth_eq_iff_index_eq)
  have C: "C' (ids ! j) = C (ids ! j)" if "j < length ids" "j \<noteq> k" for j
    using C'(2) neq that by simp
  have new: "preferred_duplicate_review_thread env m (C' (thread_id t))
      = Some (prefer_duplicate_review_thread env m (combined v ! k) t)"
    by (simp add: C'(1) preferred_snoc pk)
  show ?thesis
    using inv k ix no_active new C
    by (auto simp: view_inv_def consider_thread_def Let_def nth_list_update)
qed

lemma view_shadowed:
  assumes "view_inv env m ids C v" "thread_id t \<in> set ids" "thread_id t \<in> active_ids v"
  shows "consider_thread env m False v t = v"
proof -
  obtain k where "k < length ids" "ids ! k = thread_id t"
    using assms(2) by (metis in_set_conv_nth)
  then show ?thesis
    using assms by (auto simp: view_inv_def consider_thread_def Let_def)
qed

lemma consider_active_ids:
  "active_ids (consider_thread env m False v t) = active_ids v"
  by (auto simp: consider_thread_def Let_def split: option.splits)

abbreviation empty_view :: canonical_view where
  "empty_view \<equiv> \<lparr>index_by_id = Map.empty, active_ids = {}, combined = []\<rparr>"

lemma active_pass:
  "view_inv env m (uniq (map thread_id active)) (copies_of active []) (foldl (consider_thread env m True) empty_view active)
   \<and> active_ids (foldl (consider_thread env m True) empty_view active) = set (map thread_id active)"
proof (induction active rule: rev_induct)
  case Nil
  show ?case by (simp add: view_inv_def)
next
  case (snoc t active)
  let ?v = "foldl (consider_thread env m True) empty_view active"
  have inv: "view_inv env m (uniq (map thread_id active)) (copies_of active []) ?v"
    and act: "active_ids ?v = set (map thread_id active)"
    using snoc.IH by blast+
  have ids: "active_ids (consider_thread env m True ?v t) = set (map thread_id (active @ [t]))"
    using inv act
    by (cases "thread_id t \<in> set (map thread_id active)")
       (auto simp: consider_thread_def Let_def view_inv_def split: option.splits)
  show ?case
  proof (cases "thread_id t \<in> set (map thread_id active)")
    case True
    have "view_inv env m (uniq (map thread_id active)) (copies_of (active @ [t]) []) (consider_thread env m True ?v t)"
      by (rule view_duplicate [OF inv]) (use True in \<open>auto simp: copies_of_def\<close>)
    then show ?thesis
      using True ids by simp
  next
    case False
    have "view_inv env m (uniq (map thread_id active) @ [thread_id t]) (copies_of (active @ [t]) []) (consider_thread env m True ?v t)"
      by (rule view_new [OF inv]) (use False in \<open>auto simp: copies_of_def no_copies\<close>)
    then show ?thesis
      using False ids by simp
  qed
qed

lemma outdated_pass:
  "view_inv env m (uniq (map thread_id active @ map thread_id outdated)) (copies_of active outdated)
     (foldl (consider_thread env m False) (foldl (consider_thread env m True) empty_view active) outdated)
   \<and> active_ids (foldl (consider_thread env m False) (foldl (consider_thread env m True) empty_view active) outdated)
       = set (map thread_id active)"
proof (induction outdated rule: rev_induct)
  case Nil
  show ?case using active_pass by simp
next
  case (snoc t outdated)
  let ?v = "foldl (consider_thread env m False) (foldl (consider_thread env m True) empty_view active) outdated"
  let ?ids = "uniq (map thread_id active @ map thread_id outdated)"
  have inv: "view_inv env m ?ids (copies_of active outdated) ?v"
    and act: "active_ids ?v = set (map thread_id active)"
    using snoc.IH by blast+
  have same: "copies_of active (outdated @ [t]) i = copies_of active outdated i"
    if "i \<noteq> thread_id t \<or> i \<in> set (map thread_id active)" for i
    using that by (auto simp: copies_of_def)
  consider (shadowed) "thread_id t \<in> set (map thread_id active)"
    | (dup) "thread_id t \<notin> set (map thread_id active)" "thread_id t \<in> set (map thread_id outdated)"
    | (new) "thread_id t \<notin> set ?ids"
    by fastforce
  then show ?case
  proof cases
    case shadowed
    then have "consider_thread env m False ?v t = ?v"
      using view_shadowed [OF inv] act by simp
    moreover have "view_inv env m ?ids (copies_of active (outdated @ [t])) ?v"
      by (rule view_inv_cong [OF inv]) (use same shadowed in metis)
    ultimately show ?thesis
      using shadowed act by simp
  next
    case dup
    have "view_inv env m ?ids (copies_of active (outdated @ [t])) (consider_thread env m False ?v t)"
      by (rule view_duplicate [OF inv]) (use dup act same in \<open>auto simp: copies_of_def\<close>)
    then show ?thesis
      using dup act by (simp add: consider_active_ids)
  next
    case new
    have "view_inv env m (?ids @ [thread_id t]) (copies_of active (outdated @ [t])) (consider_thread env m False ?v t)"
      by (rule view_new [OF inv]) (use new same in \<open>auto simp: copies_of_def no_copies\<close>)
    then show ?thesis
      using new act by (simp add: consider_active_ids)
  qed
qed

lemma canonical_view_spec:
  "map Some (canonical_unresolved_inline_threads env m active outdated) =
     map (\<lambda>i. preferred_duplicate_review_thread env m (copies_of active outdated i))
       (uniq (map thread_id (active @ outdated)))"
  using outdated_pass [of env m active outdated]
  by (auto simp: canonical_unresolved_inline_threads_def view_inv_def intro: nth_equalityI)

lemma preferred_mem: "preferred_duplicate_review_thread env m ts = Some p \<Longrightarrow> p \<in> set ts"
  using foldl_prefer_mem [of env m] by (cases ts) auto

lemma copies_of_sub:
  "t \<in> set (copies_of active outdated i) \<Longrightarrow> thread_id t = i \<and> t \<in> set active \<union> set outdated"
  by (auto simp: copies_of_def split: if_splits)

lemma canonical_mem:
  assumes "t \<in> set (canonical_unresolved_inline_threads env m active outdated)"
  shows "preferred_duplicate_review_thread env m (copies_of active outdated (thread_id t)) = Some t"
    "t \<in> set active \<union> set outdated"
proof -
  have "Some t \<in> set (map Some (canonical_unresolved_inline_threads env m active outdated))"
    using assms by simp
  then obtain i where "preferred_duplicate_review_thread env m (copies_of active outdated i) = Some t"
    unfolding canonical_view_spec by auto
  then show "preferred_duplicate_review_thread env m (copies_of active outdated (thread_id t)) = Some t"
    "t \<in> set active \<union> set outdated"
    using preferred_mem copies_of_sub by metis+
qed

lemma canonical_ids:
  "map thread_id (canonical_unresolved_inline_threads env m active outdated) = uniq (map thread_id (active @ outdated))"
proof (rule nth_equalityI)
  let ?cs = "canonical_unresolved_inline_threads env m active outdated"
  let ?ids = "uniq (map thread_id (active @ outdated))"
  show len: "length (map thread_id ?cs) = length ?ids"
    using arg_cong [OF canonical_view_spec, of length] by simp
  show "map thread_id ?cs ! k = ?ids ! k" if "k < length (map thread_id ?cs)" for k
  proof -
    have "Some (?cs ! k) = preferred_duplicate_review_thread env m (copies_of active outdated (?ids ! k))"
      using arg_cong [OF canonical_view_spec [of env m active outdated], of "\<lambda>xs. xs ! k"] that len
      by (simp del: map_append)
    then have "?cs ! k \<in> set (copies_of active outdated (?ids ! k))"
      using preferred_mem by metis
    then show ?thesis
      using copies_of_sub that by simp
  qed
qed

lemma canonical_covers:
  assumes "t \<in> set active \<union> set outdated"
  obtains c where "c \<in> set (canonical_unresolved_inline_threads env m active outdated)"
    "thread_id c = thread_id t"
proof -
  have "thread_id t \<in> set (map thread_id (canonical_unresolved_inline_threads env m active outdated))"
    unfolding canonical_ids using assms by auto
  then show ?thesis
    using that by auto
qed

section \<open>Properties\<close>

text \<open>
  Property C34: the canonical unresolved view is, for every distinct thread ID in order of first
  occurrence over the active and then the outdated feed, the preferred copy of that thread, taken
  among the active copies whenever the ID is active and among the outdated ones otherwise; and
  its length is the operator counters' active count plus outdated-only count.
\<close>

theorem canonical_view_exact:
  "map Some (canonical_unresolved_inline_threads env m active outdated) =
     map (\<lambda>i. preferred_duplicate_review_thread env m (copies_of active outdated i))
       (uniq (map thread_id (active @ outdated)))
   \<and> unresolved_canonical_count env active outdated
       = unresolved_active_count active + unresolved_outdated_unique_count active outdated"
proof
  have "length (canonical_unresolved_inline_threads env None active outdated)
        = card (set (map thread_id (active @ outdated)))"
    by (metis canonical_ids distinct_card length_map uniq_simps(1,2))
  also have "\<dots> = card (set (map thread_id active) \<union> (set (map thread_id outdated) - set (map thread_id active)))"
    by (intro arg_cong [of _ _ card]) auto
  also have "\<dots> = card (set (map thread_id active)) + card (set (map thread_id outdated) - set (map thread_id active))"
    by (intro card_Un_disjoint) auto
  finally show "unresolved_canonical_count env active outdated
       = unresolved_active_count active + unresolved_outdated_unique_count active outdated"
    by (simp only: unresolved_canonical_count_def unresolved_active_count_def unresolved_outdated_unique_count_def)
qed (rule canonical_view_spec)

text \<open>
  Reducing same-ID transport copies picks one of them, of maximal conversation rank; and when a
  copy of that rank matches the recorded body hash, the picked one matches too, so a repaired
  thread does not oscillate between representations.
\<close>

theorem preferred_copy_best:
  assumes "copies \<noteq> []"
  shows "\<exists>p. preferred_duplicate_review_thread env (Some m) copies = Some p \<and> p \<in> set copies
      \<and> list_all (\<lambda>t. review_thread_conversation_rank t \<le> review_thread_conversation_rank p) copies
      \<and> (body_matches_recorded env m p \<longleftrightarrow>
           list_ex (\<lambda>t. review_thread_conversation_rank t = review_thread_conversation_rank p
                       \<and> body_matches_recorded env m t) copies)"
proof -
  obtain a bs where copies: "copies = a # bs"
    using assms by (cases copies) auto
  define p where "p = foldl (prefer_duplicate_review_thread env (Some m)) a bs"
  have mem: "p \<in> set (a # bs)" and top: "rank p = Max (rank ` set (a # bs))"
    unfolding p_def by (rule foldl_prefer_mem, rule foldl_prefer_rank)
  have "rank t \<le> rank p" if "t \<in> set (a # bs)" for t
    unfolding top using that by (intro Max_ge) auto
  moreover have "body_matches_recorded env m p"
    if "t \<in> set (a # bs)" "rank t = rank p" "body_matches_recorded env m t" for t
    unfolding p_def using foldl_prefer_match [of t a bs env m] that top by simp
  ultimately show ?thesis
    using mem by (intro exI [of _ p]) (auto simp: copies p_def [symmetric] list_all_iff list_ex_iff)
qed

theorem preferred_copy_best_witness:
  "\<exists>p. preferred_duplicate_review_thread plain_env (Some Map.empty)
          [plain_thread ''t'' ''bob'' ''old'', plain_thread ''t'' ''bob'' ''new''] = Some p
      \<and> p \<in> {plain_thread ''t'' ''bob'' ''old'', plain_thread ''t'' ''bob'' ''new''}"
  using preferred_copy_best [of "[plain_thread ''t'' ''bob'' ''old'', plain_thread ''t'' ''bob'' ''new'']"
      plain_env Map.empty] by auto

end
