(* ===== verification/Numeric_Text.thy ===== *)
theory Numeric_Text
  imports Prelude
begin

text \<open>
  Numbers as text, for the counters and time stamps the PR monitor keeps in its string map:
  \<open>str(int)\<close> / \<open>int(str)\<close> and \<open>f"{x:.6f}"\<close> / \<open>float(str)\<close>, with their round trips.  A Python
  \<open>float\<close> is a rational number; the literals \<open>inf\<close> and \<open>nan\<close>, which the monitor never
  writes, are read as \<open>None\<close> (unparsable).
\<close>

section \<open>Fixed-point text\<close>

definition round_half_even :: "rat \<Rightarrow> int" where
  "round_half_even x =
     (let f = \<lfloor>x\<rfloor>; d = x - of_int f in
      if d < 1 / 2 then f else if 1 / 2 < d then f + 1 else if even f then f else f + 1)"

definition pad_digits :: "nat \<Rightarrow> nat \<Rightarrow> string" where
  "pad_digits w n = replicate (w - length (nat_digits n)) CHR ''0'' @ nat_digits n"

definition py_fixed6 :: "rat \<Rightarrow> string" where
  "py_fixed6 x =
     (let n = nat \<bar>round_half_even (x * 1000000)\<bar> in
      (if x < 0 then ''-'' else []) @ nat_digits (n div 1000000) @ CHR ''.'' # pad_digits 6 (n mod 1000000))"

section \<open>Float literals\<close>

definition scale10 :: "int \<Rightarrow> rat \<Rightarrow> rat" where
  "scale10 e x = (if 0 \<le> e then x * 10 ^ nat e else x / 10 ^ nat (- e))"

definition is_exp_char :: "char \<Rightarrow> bool" where
  "is_exp_char c = (c = CHR ''e'' \<or> c = CHR ''E'')"

definition digits_or_empty :: "string \<Rightarrow> string option" where
  "digits_or_empty s = (if s = [] then Some [] else digit_body s)"

definition float_mantissa :: "string \<Rightarrow> rat option" where
  "float_mantissa s =
     (case py_split CHR ''.'' s of
        [a] \<Rightarrow> map_option (\<lambda>ds. of_nat (digits_val ds)) (digit_body a)
      | [a, b] \<Rightarrow>
          if a = [] \<and> b = [] then None
          else (case (digits_or_empty a, digits_or_empty b) of
                  (Some ds, Some fs) \<Rightarrow> Some (of_nat (digits_val ds) + of_nat (digits_val fs) / 10 ^ length fs)
                | _ \<Rightarrow> None)
      | _ \<Rightarrow> None)"

definition float_exponent :: "string \<Rightarrow> int option" where
  "float_exponent s =
     (case s of
        [] \<Rightarrow> None
      | c # r \<Rightarrow>
          if c = CHR ''-'' then map_option (\<lambda>ds. - int (digits_val ds)) (digit_body r)
          else if c = CHR ''+'' then map_option (\<lambda>ds. int (digits_val ds)) (digit_body r)
          else map_option (\<lambda>ds. int (digits_val ds)) (digit_body s))"

definition float_body :: "string \<Rightarrow> rat option" where
  "float_body s =
     (let m = takeWhile (\<lambda>c. \<not> is_exp_char c) s; e = dropWhile (\<lambda>c. \<not> is_exp_char c) s in
      case float_mantissa m of
        None \<Rightarrow> None
      | Some x \<Rightarrow> if e = [] then Some x else map_option (\<lambda>k. scale10 k x) (float_exponent (tl e)))"

text \<open>\<open>float(s)\<close>: \<open>None\<close> where it raises \<open>ValueError\<close>.\<close>

definition py_float :: "string \<Rightarrow> rat option" where
  "py_float s =
     (case py_strip s of
        [] \<Rightarrow> None
      | c # r \<Rightarrow>
          if c = CHR ''-'' then map_option uminus (float_body r)
          else if c = CHR ''+'' then float_body r
          else float_body (c # r))"

section \<open>Round trips\<close>

lemma digit_char_digit: "d < 10 \<Longrightarrow> is_digit (digit_char d) \<and> digit_val (digit_char d) = d"
  by (simp add: is_digit_def digit_char_def digit_val_def)

lemma digits_val_snoc: "digits_val (s @ [c]) = 10 * digits_val s + digit_val c"
  by (simp add: digits_val_def)

lemma nat_digits_val: "digits_val (nat_digits n) = n"
proof (induction n rule: nat_digits.induct)
  case (1 n)
  show ?case
  proof (cases "n < 10")
    case True
    then show ?thesis by (subst nat_digits.simps) (simp add: digits_val_def digit_char_digit)
  next
    case False
    then show ?thesis
      using 1 by (subst nat_digits.simps) (simp add: digits_val_snoc digit_char_digit)
  qed
qed

lemma nat_digits_digits: "list_all is_digit (nat_digits n)"
proof (induction n rule: nat_digits.induct)
  case (1 n)
  then show ?case
    by (subst nat_digits.simps) (simp add: digit_char_digit)
qed

lemma nat_digits_nonempty [simp]: "nat_digits n \<noteq> []"
  by (subst nat_digits.simps) simp

lemma nat_digits_length: "n < 10 ^ Suc k \<Longrightarrow> length (nat_digits n) \<le> Suc k"
proof (induction k arbitrary: n)
  case 0
  then show ?case by (subst nat_digits.simps) simp
next
  case (Suc k)
  have "n div 10 < 10 ^ Suc k"
    using Suc.prems by (simp add: less_mult_imp_div_less)
  then show ?case
    using Suc.IH [of "n div 10"] by (subst nat_digits.simps) simp
qed

lemma digit_char_facts:
  "is_digit c \<Longrightarrow> \<not> is_space c \<and> \<not> is_exp_char c \<and> c \<noteq> CHR ''-'' \<and> c \<noteq> CHR ''+'' \<and> c \<noteq> CHR ''_'' \<and> c \<noteq> CHR ''.''"
  by (auto simp: is_digit_def is_space_def is_exp_char_def)

lemma digit_body_digits: "s \<noteq> [] \<Longrightarrow> list_all is_digit s \<Longrightarrow> digit_body s = Some s"
  by (induction s rule: digit_body.induct) (auto simp: digit_char_facts)

lemma dropWhile_id: "s \<noteq> [] \<Longrightarrow> \<not> P (hd s) \<Longrightarrow> dropWhile P s = s"
  by (cases s) auto

lemma py_strip_id:
  "s \<noteq> [] \<Longrightarrow> \<not> is_space (hd s) \<Longrightarrow> \<not> is_space (last s) \<Longrightarrow> py_strip s = s"
  by (simp add: py_strip_def dropWhile_id hd_rev)

lemma py_int_str_int: "0 \<le> n \<Longrightarrow> py_int (py_str_int n) = Some n"
proof -
  assume n: "0 \<le> n"
  let ?d = "nat_digits (nat n)"
  have d: "list_all is_digit ?d" "?d \<noteq> []"
    by (simp_all add: nat_digits_digits)
  then have h: "is_digit (hd ?d)" "is_digit (last ?d)"
    by (simp_all add: list_all_iff)
  then have "py_strip ?d = ?d"
    using d by (simp add: py_strip_id digit_char_facts)
  moreover obtain c r where cr: "?d = c # r"
    using d(2) by (cases ?d) auto
  moreover have "is_digit c"
    using h(1) cr by simp
  ultimately show ?thesis
    using n digit_body_digits [OF d(2) d(1)]
    by (simp add: py_int_def py_str_int_def digit_char_facts)
       (metis cr int_nat_eq nat_digits_val)
qed

lemma pad_digits_val: "digits_val (pad_digits w n) = n"
proof -
  have "foldl (\<lambda>a c. 10 * a + digit_val c) 0 (replicate k CHR ''0'') = 0" for k
    by (induction k) (simp_all add: digit_val_def)
  then show ?thesis
    using nat_digits_val [of n] by (simp add: pad_digits_def digits_val_def)
qed

lemma pad_digits_digits: "list_all is_digit (pad_digits w n)"
  using nat_digits_digits [of n] by (auto simp: pad_digits_def list_all_iff is_digit_def)

lemma pad_digits_length: "n < 10 ^ Suc k \<Longrightarrow> length (pad_digits (Suc k) n) = Suc k"
  using nat_digits_length [of n k] by (simp add: pad_digits_def)

lemma takeWhile_digits:
  "list_all (\<lambda>c. \<not> P c) s \<Longrightarrow> takeWhile (\<lambda>c. \<not> P c) s = s \<and> dropWhile (\<lambda>c. \<not> P c) s = []"
  by (induction s) auto

lemma float_body_fixed:
  assumes "list_all is_digit a" "a \<noteq> []" "list_all is_digit b" "b \<noteq> []"
  shows "float_body (a @ CHR ''.'' # b) = Some (of_nat (digits_val a) + of_nat (digits_val b) / 10 ^ length b)"
proof -
  have "list_all (\<lambda>c. \<not> is_exp_char c) (a @ CHR ''.'' # b)"
    using assms digit_char_facts by (auto simp: list_all_iff) (simp add: is_exp_char_def)
  note tw = takeWhile_digits [OF this]
  have "CHR ''.'' \<notin> set a" "CHR ''.'' \<notin> set b"
    using assms by (auto simp: list_all_iff is_digit_def)
  then have "py_split CHR ''.'' (a @ CHR ''.'' # b) = [a, b]"
    by (simp add: py_split_append py_split_plain)
  then have "float_mantissa (a @ CHR ''.'' # b)
      = Some (of_nat (digits_val a) + of_nat (digits_val b) / 10 ^ length b)"
    using assms by (simp add: float_mantissa_def digits_or_empty_def digit_body_digits)
  then show ?thesis
    unfolding float_body_def Let_def tw [THEN conjunct1] tw [THEN conjunct2] by simp
qed

lemma py_float_fixed6:
  assumes "0 \<le> x"
  shows "py_float (py_fixed6 x) = Some (of_int (round_half_even (x * 1000000)) / 1000000)"
proof -
  let ?q = "round_half_even (x * 1000000)"
  define n where "n = nat \<bar>?q\<bar>"
  have "0 \<le> \<lfloor>x * 1000000\<rfloor>"
    using assms by simp
  then have q: "0 \<le> ?q"
    unfolding round_half_even_def Let_def by (simp split: if_splits)
  let ?a = "nat_digits (n div 1000000)" and ?b = "pad_digits 6 (n mod 1000000)"
  have fixed: "py_fixed6 x = ?a @ CHR ''.'' # ?b"
    using assms by (simp add: py_fixed6_def Let_def n_def)
  have len: "length ?b = 6"
    using pad_digits_length [of "n mod 1000000" 5] by simp
  then have b: "?b \<noteq> []" "list_all is_digit ?b"
    using pad_digits_digits [of 6 "n mod 1000000"] by auto
  then have b_last: "is_digit (last ?b)"
    by (simp add: list_all_iff)
  have a: "is_digit (hd ?a)"
    using nat_digits_digits [of "n div 1000000"] by (simp add: list_all_iff)
  obtain c r where cr: "?a = c # r"
    by (cases ?a) auto
  have "py_strip (py_fixed6 x) = py_fixed6 x"
    unfolding fixed using a b b_last by (intro py_strip_id) (auto simp: digit_char_facts hd_append)
  then have "py_float (py_fixed6 x) = float_body (py_fixed6 x)"
    using a cr by (simp add: py_float_def fixed digit_char_facts)
  also have "\<dots> = Some (of_nat (n div 1000000) + of_nat (n mod 1000000) / 1000000)"
    unfolding fixed using float_body_fixed [of ?a ?b] b len nat_digits_digits
    by (simp add: nat_digits_val pad_digits_val)
  also have "of_nat (n div 1000000) + of_nat (n mod 1000000) / (1000000::rat) = of_nat n / 1000000"
  proof -
    have "(of_nat n :: rat) = of_nat (1000000 * (n div 1000000) + n mod 1000000)"
      by (simp only: mult_div_mod_eq)
    also have "\<dots> = 1000000 * of_nat (n div 1000000) + of_nat (n mod 1000000)"
      by (simp only: of_nat_add of_nat_mult of_nat_numeral)
    finally show ?thesis by simp
  qed
  also have "(of_nat n :: rat) = of_int ?q"
    using q by (simp add: n_def)
  finally show ?thesis .
qed

lemma round_half_even_near: "\<bar>of_int (round_half_even x) - x\<bar> \<le> 1 / 2"
  unfolding round_half_even_def Let_def
  by (auto simp: abs_if split: if_splits) (linarith+)

end
