(* ===== verification/Monitor_State.thy ===== *)
theory Monitor_State
  imports Blocking Feedback_Properties Numeric_Text
begin

text \<open>
  The PR monitor's state, configuration and action vocabulary (\<open>runtime/pr_monitor.py\<close>,
  \<open>runtime/pr_monitor_actions.py\<close>, \<open>runtime/monitor_state_keys.py\<close>).  \<open>threads_addressed_ids\<close> is the
  persisted string map: review verdicts under the item's own ID, bookkeeping under reserved keys.
\<close>

section \<open>Reserved keys\<close>

definition PROTECTED_BLOCK_PRESERVED_HEAD_STATE_KEY :: string where
  "PROTECTED_BLOCK_PRESERVED_HEAD_STATE_KEY = ''__awf_protected_block_preserved_head__''"

definition AWAITING_WORKFLOW_SCOPE_STATE_KEY :: string where
  "AWAITING_WORKFLOW_SCOPE_STATE_KEY = ''__awf_awaiting_workflow_scope__''"

definition PARKED_UNPUBLISHED_REPAIR_STATE_KEY :: string where
  "PARKED_UNPUBLISHED_REPAIR_STATE_KEY = ''__awf_parked_unpublished_repair__''"

definition MERGE_BLOCK_ATTENTION_STATE_KEY :: string where
  "MERGE_BLOCK_ATTENTION_STATE_KEY = ''__awf_merge_block_attention__''"

definition MERGE_BLOCK_ATTENTION_ORIGIN_STATE_KEY :: string where
  "MERGE_BLOCK_ATTENTION_ORIGIN_STATE_KEY = ''__awf_merge_block_attention_origin__''"

definition MERGE_BLOCK_ATTENTION_ORIGIN_MERGE_REJECTION :: string where
  "MERGE_BLOCK_ATTENTION_ORIGIN_MERGE_REJECTION = ''merge_rejection''"

definition merge_method_blocked_key :: "int \<Rightarrow> string \<Rightarrow> string" where
  "merge_method_blocked_key n sha =
     ''__awf_merge_method_blocked__:'' @ py_str_int n @ '':'' @ sha"

definition outdated_resolve_requeued_key :: "string \<Rightarrow> string" where
  "outdated_resolve_requeued_key i = ''__awf_outdated_resolve_requeued__:'' @ i"

definition operator_decision_key :: "string \<Rightarrow> string" where
  "operator_decision_key i = ''__operator_decision__:'' @ i"

definition retired_operator_decision_key :: "string \<Rightarrow> string" where
  "retired_operator_decision_key i = ''__operator_decision_retired__:'' @ i"

definition REVIEW_THREAD_DISPOSITION_BASELINE_STATE_KEY :: string where
  "REVIEW_THREAD_DISPOSITION_BASELINE_STATE_KEY = ''__awf_review_thread_disposition_baseline__''"

definition with_settled_disposition_baseline :: "state_map option \<Rightarrow> state_map" where
  "with_settled_disposition_baseline threads_addressed =
     [REVIEW_THREAD_DISPOSITION_BASELINE_STATE_KEY \<mapsto> ''[]'']
       ++ (case threads_addressed of None \<Rightarrow> Map.empty | Some m \<Rightarrow> m)"

section \<open>State\<close>

record MonitorState =
  iter_count :: int
  last_push_sha :: "string option"
  hosted_terminal_head_advanced :: bool
  monitor_writes_suppressed :: bool
  current_pr_head_ref :: "string option"
  current_pr_head_ref_checked :: bool
  pending_item_commit_provenance :: "string option"
  no_progress_signature :: "string option"
  no_progress_count :: int
  threads_addressed_ids :: state_map
  state_started_at :: rat
  operator_hint :: "OperatorHint option"
  changed_ids :: "string set"

definition set_key :: "string \<Rightarrow> string \<Rightarrow> MonitorState \<Rightarrow> MonitorState" where
  "set_key k v st = st\<lparr>threads_addressed_ids := (threads_addressed_ids st)(k \<mapsto> v)\<rparr>"

definition pop_key :: "string \<Rightarrow> MonitorState \<Rightarrow> MonitorState" where
  "pop_key k st = st\<lparr>threads_addressed_ids := (threads_addressed_ids st)(k := None)\<rparr>"

definition mark_addressed :: "string \<Rightarrow> string \<Rightarrow> MonitorState \<Rightarrow> MonitorState" where
  "mark_addressed i verdict st =
     (set_key i verdict st)\<lparr>changed_ids := insert i (changed_ids st)\<rparr>"

definition has_preserved_protected_block :: "MonitorState \<Rightarrow> bool" where
  "has_preserved_protected_block st =
     truthy (threads_addressed_ids st PROTECTED_BLOCK_PRESERVED_HEAD_STATE_KEY)"

definition awaiting_workflow_scope :: "MonitorState \<Rightarrow> bool" where
  "awaiting_workflow_scope st = truthy (threads_addressed_ids st AWAITING_WORKFLOW_SCOPE_STATE_KEY)"

definition mark_awaiting_workflow_scope :: "MonitorState \<Rightarrow> MonitorState" where
  "mark_awaiting_workflow_scope = set_key AWAITING_WORKFLOW_SCOPE_STATE_KEY ''1''"

definition clear_awaiting_workflow_scope :: "MonitorState \<Rightarrow> MonitorState" where
  "clear_awaiting_workflow_scope = pop_key AWAITING_WORKFLOW_SCOPE_STATE_KEY"

definition parked_unpublished_repair :: "MonitorState \<Rightarrow> string option" where
  "parked_unpublished_repair st =
     (let v = threads_addressed_ids st PARKED_UNPUBLISHED_REPAIR_STATE_KEY in
      if truthy v then v else None)"

definition mark_parked_unpublished_repair :: "string \<Rightarrow> MonitorState \<Rightarrow> MonitorState" where
  "mark_parked_unpublished_repair signature = set_key PARKED_UNPUBLISHED_REPAIR_STATE_KEY signature"

definition clear_parked_unpublished_repair :: "MonitorState \<Rightarrow> MonitorState" where
  "clear_parked_unpublished_repair = pop_key PARKED_UNPUBLISHED_REPAIR_STATE_KEY"

definition clear_merge_block_attention :: "MonitorState \<Rightarrow> MonitorState" where
  "clear_merge_block_attention st =
     pop_key MERGE_BLOCK_ATTENTION_ORIGIN_STATE_KEY (pop_key MERGE_BLOCK_ATTENTION_STATE_KEY st)"

definition merge_block_attention_active ::
  "monitor_env \<Rightarrow> instant \<Rightarrow> rat option \<Rightarrow> MonitorState \<Rightarrow> bool \<times> MonitorState" where
  "merge_block_attention_active env now ttl_seconds st =
     (case threads_addressed_ids st MERGE_BLOCK_ATTENTION_STATE_KEY of
        None \<Rightarrow> (False, st)
      | Some raw \<Rightarrow>
          if raw = [] then (False, st)
          else if raw = ''1''
            then (True, set_key MERGE_BLOCK_ATTENTION_STATE_KEY (iso_format env (Aware now)) st)
          else (case ttl_seconds of
              None \<Rightarrow> (True, st)
            | Some ttl \<Rightarrow>
                (case from_iso_format env raw of
                   None \<Rightarrow> (True, st)
                 | Some stamped \<Rightarrow>
                     if of_int (now - as_utc stamped) / 1000000 \<le> ttl then (True, st)
                     else (False, clear_merge_block_attention st))))"

definition mark_merge_block_attention ::
  "monitor_env \<Rightarrow> instant \<Rightarrow> bool \<Rightarrow> MonitorState \<Rightarrow> MonitorState" where
  "mark_merge_block_attention env now originated_from_merge_rejection st =
     (let st' = set_key MERGE_BLOCK_ATTENTION_STATE_KEY (iso_format env (Aware now)) st in
      if originated_from_merge_rejection
      then set_key MERGE_BLOCK_ATTENTION_ORIGIN_STATE_KEY MERGE_BLOCK_ATTENTION_ORIGIN_MERGE_REJECTION st'
      else st')"

definition merge_block_attention_originated_from_merge_rejection :: "MonitorState \<Rightarrow> bool" where
  "merge_block_attention_originated_from_merge_rejection st =
     (threads_addressed_ids st MERGE_BLOCK_ATTENTION_ORIGIN_STATE_KEY
        = Some MERGE_BLOCK_ATTENTION_ORIGIN_MERGE_REJECTION)"

definition clear_changed_thread_ids :: "string set \<Rightarrow> MonitorState \<Rightarrow> MonitorState" where
  "clear_changed_thread_ids ids st = st\<lparr>changed_ids := changed_ids st - ids\<rparr>"

definition control_label :: "OperatorHint \<Rightarrow> string" where
  "control_label hint =
     (if hint_directive hint \<noteq> None \<or> hint_reason_code hint = ''OPERATOR_GUIDE''
      then ''operator guide hint'' else ''operator remonitor hint'')"

section \<open>Configuration\<close>

record MonitorConfig =
  cfg_auto_merge :: bool
  delete_source_branch_on_merge :: bool
  require_ci :: bool
  poll_interval_seconds :: rat
  merge_block_attention_ttl_seconds :: "rat option"
  settle_interval_seconds :: rat
  initial_review_grace_period_seconds :: rat
  pre_merge_settle_seconds :: rat
  non_check_reviewer_settle_seconds :: rat
  non_check_reviewer_logins :: "string list"
  stale_pending_check_warning_seconds :: rat
  awaiting_required_checks_grace_seconds :: rat
  pr_head_sync_grace_seconds :: rat
  max_no_progress_sync_base_attempts :: int
  ci_transient_rerun_max_attempts :: int
  ci_transient_infra_wait_max_seconds :: rat
  ci_transient_infra_wait_max_backoff_seconds :: rat

definition post_init :: "MonitorConfig \<Rightarrow> MonitorConfig" where
  "post_init config =
     (case merge_block_attention_ttl_seconds config of
        None \<Rightarrow> config\<lparr>merge_block_attention_ttl_seconds := Some (2 * poll_interval_seconds config)\<rparr>
      | Some _ \<Rightarrow> config)"

definition default_config :: MonitorConfig where
  "default_config = post_init \<lparr>cfg_auto_merge = False, delete_source_branch_on_merge = True, require_ci = True,
     poll_interval_seconds = 60, merge_block_attention_ttl_seconds = None, settle_interval_seconds = 30,
     initial_review_grace_period_seconds = 900, pre_merge_settle_seconds = 90,
     non_check_reviewer_settle_seconds = 900,
     non_check_reviewer_logins = [''greptile-apps'', ''chatgpt-codex-connector''],
     stale_pending_check_warning_seconds = 900, awaiting_required_checks_grace_seconds = 600,
     pr_head_sync_grace_seconds = 600, max_no_progress_sync_base_attempts = 3,
     ci_transient_rerun_max_attempts = 2, ci_transient_infra_wait_max_seconds = 1800,
     ci_transient_infra_wait_max_backoff_seconds = 300\<rparr>"

section \<open>Actions\<close>

datatype AbortReason =
    pr_closed_externally
  | no_progress_on_comments
  | merge_conflict_unresolvable
  | merge_conflict_not_reproduced
  | base_sync_no_progress
  | stale

datatype wait_reason =
    pending_checks
  | unknown_mergeable_state
  | awaiting_required_checks
  | ci_run_in_progress
  | pr_head_not_synchronized

datatype MonitorAction =
    AddressComments "ReviewThread list" "ReviewComment list"
  | AddressOperatorHint OperatorHint
  | ReportCiFailure "CheckFailure list"
  | RerunTransientCI "CheckFailure list"
  | WaitForTransientCI "CheckFailure list" rat int
  | SyncBase
  | WaitForCI wait_reason
  | Merge
  | NotifyHuman "string option" "string option"
  | ShortCircuitCompleted
  | Abort AbortReason

definition PR_HEAD_NOT_SYNCHRONIZED_REASON :: string where
  "PR_HEAD_NOT_SYNCHRONIZED_REASON = ''PR_HEAD_NOT_SYNCHRONIZED''"

definition pr_head_not_synchronized_message :: "PRStatus \<Rightarrow> string" where
  "pr_head_not_synchronized_message pr =
     PR_HEAD_NOT_SYNCHRONIZED_REASON @ '': the PR head branch is at ''
       @ (case unsynchronized_remote_head_sha pr of None \<Rightarrow> ''None'' | Some s \<Rightarrow> s)
       @ '', the commit AWF pushed, but PR #'' @ py_str_int (number pr)
       @ '' still reports head '' @ head_sha pr
       @ ''. AWF will not close, reopen, or push to the PR to nudge it. ''
       @ ''GitHub usually re-synchronizes on a new push, or on closing and reopening the PR''
       @ ''; if you close it, reopen it right away, because AWF stops monitoring a PR it finds closed.''"

definition BOT_REVIEWER_LOGINS :: "string list" where
  "BOT_REVIEWER_LOGINS = [''greptile-apps'', ''coderabbitai'', ''gemini-code-assist'',
     ''chatgpt-codex-connector'', ''cursor'', ''codex'', ''github-actions'']"

section \<open>Helpers of the decision core\<close>

definition is_bot_author :: "string option \<Rightarrow> bool" where
  "is_bot_author login =
     (case login of
        None \<Rightarrow> False
      | Some l \<Rightarrow> if l = [] then False else l \<in> set BOT_REVIEWER_LOGINS \<or> endswith l ''[bot]'')"

definition mark_review_thread_addressed ::
  "monitor_env \<Rightarrow> ReviewThread \<Rightarrow> string \<Rightarrow> MonitorState \<Rightarrow> MonitorState" where
  "mark_review_thread_addressed env thread verdict st =
     (let tid = thread_id thread;
          recorded_body = threads_addressed_ids st (review_thread_body_state_key tid);
          body_superseded = (recorded_body \<noteq> None \<and> \<not> recorded_review_thread_body_matches env recorded_body thread);
          st1 = mark_addressed tid verdict st;
          st2 = mark_addressed (review_thread_body_state_key tid) (review_thread_body_hash env thread) st1;
          st3 = (if body_superseded then pop_key (retired_operator_decision_key tid) st2 else st2) in
      if verdict \<noteq> ''agent_failed''
      then (case threads_addressed_ids st3 (operator_decision_key tid) of
              None \<Rightarrow> st3
            | Some decision \<Rightarrow>
                mark_addressed (retired_operator_decision_key tid) decision
                  (pop_key (operator_decision_key tid) st3))
      else st3)"

definition is_bot_review_thread :: "ReviewThread \<Rightarrow> bool" where
  "is_bot_review_thread thread =
     list_all is_bot_author
       (if comments thread \<noteq> [] then map rtc_author (comments thread) else [thread_author thread])"

definition agent_can_triage_review_comment :: "ReviewComment \<Rightarrow> bool" where
  "agent_can_triage_review_comment comment =
     (if \<not> blocks_merge comment then True
      else source_kind comment = ''issue'' \<and> is_bot_author (comment_author comment))"

definition sync_base_no_progress_signature :: "PRStatus \<Rightarrow> string" where
  "sync_base_no_progress_signature pr =
     head_sha pr @ ''|'' @ mergeable_value (mergeable pr) @ ''|''
       @ merge_state_value (merge_state_status pr)
       @ ''|base_behind='' @ py_str_int (base_behind_count pr)"

definition sync_base_no_progress_exhausted :: "PRStatus \<Rightarrow> MonitorState \<Rightarrow> MonitorConfig \<Rightarrow> bool" where
  "sync_base_no_progress_exhausted pr st config =
     (max_no_progress_sync_base_attempts config > 0
      \<and> no_progress_signature st = Some (sync_base_no_progress_signature pr)
      \<and> no_progress_count st \<ge> max_no_progress_sync_base_attempts config)"

text \<open>The runner's bookkeeping after a SyncBase attempt (\<open>pushed\<close> or \<open>failed\<close> means progress).\<close>

definition record_sync_base_progress :: "bool \<Rightarrow> bool \<Rightarrow> PRStatus \<Rightarrow> MonitorState \<Rightarrow> MonitorState" where
  "record_sync_base_progress pushed failed pr st =
     (if pushed \<or> failed then st\<lparr>no_progress_signature := None, no_progress_count := 0\<rparr>
      else if no_progress_signature st = Some (sync_base_no_progress_signature pr)
        then st\<lparr>no_progress_count := no_progress_count st + 1\<rparr>
      else st\<lparr>no_progress_signature := Some (sync_base_no_progress_signature pr),
              no_progress_count := 1\<rparr>)"

section \<open>Initial state\<close>

definition fresh_state :: MonitorState where
  "fresh_state = \<lparr>iter_count = 0, last_push_sha = None, hosted_terminal_head_advanced = False,
     monitor_writes_suppressed = False, current_pr_head_ref = None, current_pr_head_ref_checked = False,
     pending_item_commit_provenance = None, no_progress_signature = None, no_progress_count = 0,
     threads_addressed_ids = Map.empty, state_started_at = 0, operator_hint = None,
     changed_ids = {}\<rparr>"

section \<open>Frame facts\<close>

lemma state_key_ops [simp]:
  "threads_addressed_ids (set_key k v st) = (threads_addressed_ids st)(k \<mapsto> v)"
  "threads_addressed_ids (pop_key k st) = (threads_addressed_ids st)(k := None)"
  "threads_addressed_ids (mark_addressed k v st) = (threads_addressed_ids st)(k \<mapsto> v)"
  "operator_hint (set_key k v st) = operator_hint st"
  "operator_hint (pop_key k st) = operator_hint st"
  "operator_hint (mark_addressed k v st) = operator_hint st"
  by (simp_all add: set_key_def pop_key_def mark_addressed_def)

lemma key_not_id [simp]:
  "review_thread_body_state_key i \<noteq> i" "i \<noteq> review_thread_body_state_key i"
  "retired_operator_decision_key i \<noteq> i" "i \<noteq> retired_operator_decision_key i"
  "operator_decision_key i \<noteq> i" "i \<noteq> operator_decision_key i"
  by (simp_all add: review_thread_body_state_key_def retired_operator_decision_key_def operator_decision_key_def)

lemma key_families [simp]:
  "review_thread_body_state_key i \<noteq> retired_operator_decision_key j"
  "review_thread_body_state_key i \<noteq> operator_decision_key j"
  "retired_operator_decision_key i \<noteq> operator_decision_key j"
  "retired_operator_decision_key i \<noteq> review_thread_body_state_key j"
  "operator_decision_key i \<noteq> retired_operator_decision_key j"
  "operator_decision_key i \<noteq> review_thread_body_state_key j"
  by (simp_all add: review_thread_body_state_key_def retired_operator_decision_key_def operator_decision_key_def)

lemma mark_review_thread_addressed_map:
  "threads_addressed_ids (mark_review_thread_addressed env t v st) (thread_id t) = Some v"
  "threads_addressed_ids (mark_review_thread_addressed env t v st) (review_thread_body_state_key (thread_id t))
     = Some (review_thread_body_hash env t)"
  by (auto simp: mark_review_thread_addressed_def Let_def split: option.splits)

end
