(* ===== verification/CI_Classification.thy ===== *)
theory CI_Classification
  imports Monitor_Models
begin

text \<open>
  CI-failure classification (\<open>runtime/pr_monitor_ci_classification.py\<close>): transient infrastructure flakes
  against code failures.  The two regular expressions of the source are values of \<open>rx\<close>; all their
  repetitions are over single-character classes, so \<open>rx_ends\<close> lists the end positions of the matches
  that start at a position by structural recursion.  The registry time-out detector
  (\<open>runtime/_docker_pull_detection.py\<close>) is the environment's \<open>docker_registry_timeout\<close>.
\<close>

section \<open>Regular expressions\<close>

datatype rx =
    Rep "char \<Rightarrow> bool" nat "nat option"
  | Word_boundary
  | Seq rx rx
  | Alt rx rx
  | Empty

text \<open>\<open>\w\<close>: alphanumeric characters below 256 and the underscore.\<close>

definition is_word_char :: "char \<Rightarrow> bool" where
  "is_word_char c =
     (let n = (of_char c :: nat) in
      (48 \<le> n \<and> n \<le> 57) \<or> (65 \<le> n \<and> n \<le> 90) \<or> n = 95 \<or> (97 \<le> n \<and> n \<le> 122)
      \<or> n \<in> set [170, 178, 179, 181, 185, 186, 188, 189, 190]
      \<or> (192 \<le> n \<and> n \<noteq> 215 \<and> n \<noteq> 247))"

definition word_at :: "string \<Rightarrow> nat \<Rightarrow> bool" where
  "word_at s i = (i < length s \<and> is_word_char (s ! i))"

primrec rx_ends :: "rx \<Rightarrow> string \<Rightarrow> nat \<Rightarrow> nat list" where
  "rx_ends (Rep P lo hi) s i =
     (let n = length (takeWhile P (drop i s));
          top = (case hi of None \<Rightarrow> n | Some h \<Rightarrow> min n h) in
      [i + lo..<Suc (i + top)])"
| "rx_ends Word_boundary s i =
     (if (i > 0 \<and> word_at s (i - 1)) \<noteq> word_at s i then [i] else [])"
| "rx_ends (Seq a b) s i = concat (map (rx_ends b s) (rx_ends a s i))"
| "rx_ends (Alt a b) s i = rx_ends a s i @ rx_ends b s i"
| "rx_ends Empty s i = [i]"

definition rx_search :: "rx \<Rightarrow> string \<Rightarrow> bool" where
  "rx_search r s = list_ex (\<lambda>i. rx_ends r s i \<noteq> []) [0..<Suc (length s)]"

fun rx_seq :: "rx list \<Rightarrow> rx" where
  "rx_seq [] = Empty"
| "rx_seq (r # rs) = Seq r (rx_seq rs)"

text \<open>A literal under \<open>re.IGNORECASE\<close>.\<close>

definition rx_text :: "string \<Rightarrow> rx" where
  "rx_text s = rx_seq (map (\<lambda>c. Rep (\<lambda>d. py_lower_char d = py_lower_char c) 1 (Some 1)) s)"

fun rx_any :: "rx list \<Rightarrow> rx" where
  "rx_any [] = Rep (\<lambda>_. False) 1 None"
| "rx_any [r] = r"
| "rx_any (r # rs) = Alt r (rx_any rs)"

definition is_letter :: "char \<Rightarrow> bool" where
  "is_letter c = (let n = (of_char (py_lower_char c) :: nat) in 97 \<le> n \<and> n \<le> 122)"

definition RUFF_DIAGNOSTIC_RE :: rx where
  "RUFF_DIAGNOSTIC_RE = rx_seq
     [Rep (\<lambda>c. \<not> is_space c) 1 None, rx_text ''.py:'', Rep is_digit 1 None, rx_text '':'',
      Rep is_digit 1 None, rx_text '':'', Rep is_space 1 None, Rep is_letter 1 (Some 4),
      Rep is_digit 3 (Some 4), Word_boundary]"

definition LINT_TOOL_FAILURE_RE :: rx where
  "LINT_TOOL_FAILURE_RE = rx_seq
     [Word_boundary, rx_any [rx_text ''ruff'', rx_text ''mypy'', rx_text ''eslint''], Word_boundary,
      Rep (\<lambda>c. c \<noteq> CHR 0x0A) 0 None, Word_boundary,
      rx_any [rx_text ''failed'', rx_text ''found'', rx_text ''would reformat'',
              Seq (rx_text ''error'') (Rep (\<lambda>d. py_lower_char d = CHR ''s'') 0 (Some 1))],
      Word_boundary]"

section \<open>Lines\<close>

definition is_line_break :: "char \<Rightarrow> bool" where
  "is_line_break c = (of_char c \<in> set [10, 11, 12, 13, 28, 29, 30, 133::nat])"

lemma dropWhile_shrinks: "dropWhile P s = c # r \<Longrightarrow> length r < length s"
  using length_dropWhile_le [of P s] by simp

text \<open>\<open>str.splitlines()\<close>: a carriage return and a line feed in sequence are one break; no
  empty line after the last break.\<close>

function py_splitlines :: "string \<Rightarrow> string list" where
  "py_splitlines s =
     (if s = [] then []
      else let line = takeWhile (\<lambda>c. \<not> is_line_break c) s;
               rest = dropWhile (\<lambda>c. \<not> is_line_break c) s in
        line # (case rest of
                  [] \<Rightarrow> []
                | c # r \<Rightarrow> if c = CHR 0x0D \<and> r \<noteq> [] \<and> hd r = CHR 0x0A then py_splitlines (tl r)
                           else py_splitlines r))"
  by pat_completeness auto
termination
  by (relation "measure length") (auto dest!: dropWhile_shrinks sym [of _ "dropWhile _ _"])

declare py_splitlines.simps [simp del]

section \<open>Classification\<close>

definition CI_FAILED_JOB_RERUN_CONCLUSIONS :: "string list" where
  "CI_FAILED_JOB_RERUN_CONCLUSIONS = [''FAILURE'', ''TIMED_OUT'']"

definition CI_TRANSIENT_FAILURE_MARKERS :: "string list" where
  "CI_TRANSIENT_FAILURE_MARKERS =
     [''timed_out'', ''http status server error'', ''http 500'', ''http 502'', ''http 503'', ''http 504'',
      ''500 internal server'', ''502 bad gateway'', ''503 service unavailable'', ''504 gateway timeout'',
      ''bad gateway'', ''gateway timeout'', ''internal server error'', ''service unavailable'',
      ''temporarily unavailable'', ''try again'', ''timed out waiting for'', ''timeout awaiting'',
      ''connection reset'', ''connection refused'', ''connection aborted'', ''recv failure'',
      ''tls handshake timeout'', ''failed to download'', ''network is unreachable'',
      ''runner has received a shutdown signal'', ''lost communication with the server'']"

definition CI_CODE_FAILURE_MARKERS :: "string list" where
  "CI_CODE_FAILURE_MARKERS =
     [''would reformat:'', ''would be reformatted'', ''fail-under'', ''coverage failure'',
      ''required test coverage'', ''coverage below required threshold'',
      ''traceback (most recent call last):'', ''assertionerror'', ''assertionfailederror'',
      ''=== short test summary info ==='', ''found type errors'', ''found lint errors'', ''syntaxerror'',
      ''expect(received)'', ''test result: failed'', ''panicked at'', ''--- fail:'', ''panic:'']"

definition line_shows_code_failure :: "string \<Rightarrow> bool" where
  "line_shows_code_failure line =
     (let stripped = py_lstrip line in
      (startswith stripped ''failed '' \<and> contains stripped ''::'')
      \<or> (contains stripped ''.py:'' \<and> contains stripped '': error:'')
      \<or> rx_search RUFF_DIAGNOSTIC_RE stripped)"

definition log_shows_code_failure :: "string \<Rightarrow> bool" where
  "log_shows_code_failure log_text =
     (if list_ex (contains log_text) CI_CODE_FAILURE_MARKERS then True
      else if rx_search LINT_TOOL_FAILURE_RE log_text then True
      else list_ex line_shows_code_failure (py_splitlines log_text))"

definition failure_has_parsed_code_evidence :: "CheckFailure \<Rightarrow> bool" where
  "failure_has_parsed_code_evidence failure =
     (if test_node_ids failure \<noteq> [] \<or> assertion_snippets failure \<noteq> [] then True
      else if error_summaries failure \<noteq> []
        then log_shows_code_failure (py_lower (py_join [CHR 0x0A] (error_summaries failure)))
      else False)"

definition failure_has_actionable_ci_evidence :: "CheckFailure \<Rightarrow> bool" where
  "failure_has_actionable_ci_evidence failure =
     (if py_strip (log_excerpt failure) \<noteq> [] then True
      else if failure_has_parsed_code_evidence failure then True
      else evidence_warnings failure \<noteq> [])"

definition ci_failure_identity :: "CheckFailure \<Rightarrow> string \<times> string \<times> string" where
  "ci_failure_identity failure =
     (case run_id failure of
        Some r \<Rightarrow> if r \<noteq> [] then (r, [], []) else ([], check_name failure, conclusion failure)
      | None \<Rightarrow> ([], check_name failure, conclusion failure))"

definition looks_like_transient_ci_failure :: "monitor_env \<Rightarrow> CheckFailure \<Rightarrow> bool" where
  "looks_like_transient_ci_failure env failure =
     (if failure_has_parsed_code_evidence failure then False
      else let log_text = py_lower (log_excerpt failure) in
        if py_strip log_text = [] then truthy (run_id failure) \<and> py_upper (conclusion failure) = ''TIMED_OUT''
        else let shows_code_failure = log_shows_code_failure log_text in
          if \<not> shows_code_failure \<and> list_ex (contains log_text) CI_TRANSIENT_FAILURE_MARKERS then True
          else \<not> shows_code_failure \<and> docker_registry_timeout env log_text)"

definition ci_failure_is_rerun_candidate :: "CheckFailure \<Rightarrow> bool" where
  "ci_failure_is_rerun_candidate failure = truthy (run_id failure)"

definition ci_candidate_failures :: "PRStatus \<Rightarrow> CheckFailure list" where
  "ci_candidate_failures pr = filter ci_failure_is_rerun_candidate (ci_failures pr)"

definition ci_non_candidate_failures :: "PRStatus \<Rightarrow> CheckFailure list" where
  "ci_non_candidate_failures pr = filter (\<lambda>f. \<not> ci_failure_is_rerun_candidate f) (ci_failures pr)"

definition non_candidate_carries_fixable_code_evidence :: "PRStatus \<Rightarrow> bool" where
  "non_candidate_carries_fixable_code_evidence pr =
     list_ex (\<lambda>f. failure_has_parsed_code_evidence f \<or> log_shows_code_failure (py_lower (log_excerpt f)))
       (ci_non_candidate_failures pr)"

section \<open>A code failure is never classified as a flake\<close>

lemma transient_no_code_evidence:
  assumes "looks_like_transient_ci_failure env f"
  shows "\<not> failure_has_parsed_code_evidence f"
    "py_strip (py_lower (log_excerpt f)) \<noteq> [] \<Longrightarrow> \<not> log_shows_code_failure (py_lower (log_excerpt f))"
  using assms by (auto simp: looks_like_transient_ci_failure_def Let_def split: if_splits)

lemma candidate_mem:
  "f \<in> set (ci_candidate_failures pr) \<longleftrightarrow> f \<in> set (ci_failures pr) \<and> truthy (run_id f)"
  by (simp add: ci_candidate_failures_def ci_failure_is_rerun_candidate_def)

end
