(* ===== verification/Monitor_CI.thy ===== *)
theory Monitor_CI
  imports Monitor_State CI_Classification
begin

text \<open>
  Retry budgets of transient CI failures (\<open>runtime/pr_monitor.py\<close>, and the rerun counter of
  \<open>pr_monitor_runner/helpers.py\<close>).  Both the rerun counter and the infrastructure wait live under keys
  built from the PR head and the sorted identities of the failing runs.  The wall clock is the argument \<open>now\<close>,
  in seconds.
\<close>

section \<open>Keys\<close>

definition CI_TRANSIENT_RERUN_KEY_PREFIX :: string where
  "CI_TRANSIENT_RERUN_KEY_PREFIX = ''__awf_ci_rerun:''"

definition CI_TRANSIENT_INFRA_WAIT_KEY_PREFIX :: string where
  "CI_TRANSIENT_INFRA_WAIT_KEY_PREFIX = ''__awf_ci_infra_wait:''"

definition dumps_identity :: "string \<times> string \<times> string \<Rightarrow> string" where
  "dumps_identity = (\<lambda>(a, b, c). dumps_array [dumps_string a, dumps_string b, dumps_string c])"

definition ci_transient_rerun_state_key :: "monitor_env \<Rightarrow> string \<Rightarrow> CheckFailure list \<Rightarrow> string" where
  "ci_transient_rerun_state_key env sha failures =
     (let signature = dumps_array (map dumps_identity (sort (map ci_failure_identity failures)));
          digest = take 12 (sha256_hex env signature) in
      CI_TRANSIENT_RERUN_KEY_PREFIX @ sha @ '':'' @ digest)"

text \<open>\<open>s.replace(old, new, 1)\<close>.\<close>

fun py_replace_first :: "string \<Rightarrow> string \<Rightarrow> string \<Rightarrow> string" where
  "py_replace_first old new [] = (if old = [] then new else [])"
| "py_replace_first old new (c # s) =
     (if startswith (c # s) old then new @ drop (length old) (c # s) else c # py_replace_first old new s)"

definition ci_transient_infra_wait_state_key :: "monitor_env \<Rightarrow> string \<Rightarrow> CheckFailure list \<Rightarrow> string" where
  "ci_transient_infra_wait_state_key env sha failures =
     py_replace_first CI_TRANSIENT_RERUN_KEY_PREFIX CI_TRANSIENT_INFRA_WAIT_KEY_PREFIX
       (ci_transient_rerun_state_key env sha failures)"

definition ci_transient_infra_wait_started_key :: "monitor_env \<Rightarrow> string \<Rightarrow> CheckFailure list \<Rightarrow> string" where
  "ci_transient_infra_wait_started_key env sha failures =
     ci_transient_infra_wait_state_key env sha failures @ '':started''"

definition ci_transient_infra_wait_count_key :: "monitor_env \<Rightarrow> string \<Rightarrow> CheckFailure list \<Rightarrow> string" where
  "ci_transient_infra_wait_count_key env sha failures =
     ci_transient_infra_wait_state_key env sha failures @ '':count''"

section \<open>Counters\<close>

definition int_at :: "MonitorState \<Rightarrow> string \<Rightarrow> int" where
  "int_at st key =
     (case py_int (case threads_addressed_ids st key of None \<Rightarrow> ''0'' | Some raw \<Rightarrow> raw) of
        None \<Rightarrow> 0 | Some n \<Rightarrow> n)"

definition ci_transient_rerun_count_for_key :: "MonitorState \<Rightarrow> string \<Rightarrow> int" where
  "ci_transient_rerun_count_for_key st key = int_at st key"

definition ci_transient_rerun_count ::
  "monitor_env \<Rightarrow> MonitorState \<Rightarrow> string \<Rightarrow> CheckFailure list \<Rightarrow> CheckFailure list option \<Rightarrow> int" where
  "ci_transient_rerun_count env st sha failures legacy_failures =
     (let own = ci_transient_rerun_count_for_key st (ci_transient_rerun_state_key env sha failures) in
      case legacy_failures of
        None \<Rightarrow> own
      | Some legacy \<Rightarrow>
          if legacy \<noteq> failures
          then max own (ci_transient_rerun_count_for_key st (ci_transient_rerun_state_key env sha legacy))
          else own)"

definition ci_transient_rerun_attempt ::
  "monitor_env \<Rightarrow> string \<Rightarrow> CheckFailure list \<Rightarrow> CheckFailure list option \<Rightarrow> MonitorState \<Rightarrow> int \<times> MonitorState" where
  "ci_transient_rerun_attempt env sha failures legacy_failures st =
     (let key = ci_transient_rerun_state_key env sha failures;
          attempt = ci_transient_rerun_count env st sha failures legacy_failures + 1;
          st1 = set_key key (py_str_int attempt) st in
      (attempt,
       case legacy_failures of
         None \<Rightarrow> st1
       | Some legacy \<Rightarrow>
           if legacy \<noteq> failures then pop_key (ci_transient_rerun_state_key env sha legacy) st1 else st1))"

definition ci_transient_infra_wait_count ::
  "monitor_env \<Rightarrow> MonitorState \<Rightarrow> string \<Rightarrow> CheckFailure list \<Rightarrow> int" where
  "ci_transient_infra_wait_count env st sha failures =
     int_at st (ci_transient_infra_wait_count_key env sha failures)"

definition ci_transient_infra_wait_started_at ::
  "monitor_env \<Rightarrow> MonitorState \<Rightarrow> string \<Rightarrow> CheckFailure list \<Rightarrow> rat option" where
  "ci_transient_infra_wait_started_at env st sha failures =
     (case threads_addressed_ids st (ci_transient_infra_wait_started_key env sha failures) of
        None \<Rightarrow> None | Some raw \<Rightarrow> py_float raw)"

definition record_ci_transient_infra_wait ::
  "monitor_env \<Rightarrow> rat \<Rightarrow> string \<Rightarrow> CheckFailure list \<Rightarrow> MonitorState \<Rightarrow> (int \<times> rat) \<times> MonitorState" where
  "record_ci_transient_infra_wait env now sha failures st =
     (let (started, st1) =
            (case ci_transient_infra_wait_started_at env st sha failures of
               None \<Rightarrow> (now, set_key (ci_transient_infra_wait_started_key env sha failures) (py_fixed6 now) st)
             | Some t \<Rightarrow> (t, st));
          recorded_count = ci_transient_infra_wait_count env st1 sha failures + 1 in
      ((recorded_count, started),
       set_key (ci_transient_infra_wait_count_key env sha failures) (py_str_int recorded_count) st1))"

definition ci_transient_infra_wait_exhausted ::
  "monitor_env \<Rightarrow> rat \<Rightarrow> PRStatus \<Rightarrow> MonitorState \<Rightarrow> MonitorConfig \<Rightarrow> CheckFailure list \<Rightarrow> bool" where
  "ci_transient_infra_wait_exhausted env now pr st config failures =
     (let max_seconds = ci_transient_infra_wait_max_seconds config in
      if max_seconds \<le> 0 then True
      else (case ci_transient_infra_wait_started_at env st (head_sha pr) failures of
              None \<Rightarrow> False
            | Some started \<Rightarrow> now - started \<ge> max_seconds))"

definition ci_transient_infra_wait_seconds ::
  "monitor_env \<Rightarrow> PRStatus \<Rightarrow> MonitorState \<Rightarrow> MonitorConfig \<Rightarrow> CheckFailure list \<Rightarrow> rat" where
  "ci_transient_infra_wait_seconds env pr st config failures =
     (let wait_count = ci_transient_infra_wait_count env st (head_sha pr) failures;
          exponent = min (max wait_count 0) 30;
          wait_seconds = max (poll_interval_seconds config) 0 * 2 ^ nat exponent;
          cap = max (ci_transient_infra_wait_max_backoff_seconds config) 0 in
      if cap \<le> 0 then wait_seconds
      else if wait_seconds < cap then wait_seconds else cap)"

section \<open>The action on a failed check state\<close>

definition CI_MISSING_LOGS_HUMAN_MESSAGE :: string where
  "CI_MISSING_LOGS_HUMAN_MESSAGE =
     ''CI failed: AWF could not retrieve actionable logs; operator attention is required.''"

definition CI_TRANSIENT_HUMAN_MESSAGE :: string where
  "CI_TRANSIENT_HUMAN_MESSAGE =
     ''CI failure appears transient or infrastructure-related; AWF cannot safely rerun it again.''"

definition supports_failed_job_rerun :: "CheckFailure \<Rightarrow> bool" where
  "supports_failed_job_rerun failure =
     (py_upper (conclusion failure) \<in> set CI_FAILED_JOB_RERUN_CONCLUSIONS)"

definition should_rerun_transient_ci :: "monitor_env \<Rightarrow> PRStatus \<Rightarrow> MonitorState \<Rightarrow> MonitorConfig \<Rightarrow> bool" where
  "should_rerun_transient_ci env pr st config =
     (let candidates = ci_candidate_failures pr in
      if ci_transient_rerun_max_attempts config \<le> 0 then False
      else if ci_failures pr = [] then False
      else if candidates = [] then False
      else if list_ex (\<lambda>f. \<not> supports_failed_job_rerun f) candidates then False
      else if \<not> list_all (looks_like_transient_ci_failure env) candidates then False
      else ci_transient_rerun_count env st (head_sha pr) candidates (Some (ci_failures pr))
             < ci_transient_rerun_max_attempts config)"

definition ci_failure_action ::
  "monitor_env \<Rightarrow> rat \<Rightarrow> PRStatus \<Rightarrow> MonitorState \<Rightarrow> MonitorConfig \<Rightarrow> MonitorAction" where
  "ci_failure_action env now pr st config =
     (let candidates = ci_candidate_failures pr;
          transient = looks_like_transient_ci_failure env in
      if ci_failures pr = [] then NotifyHuman (Some CI_MISSING_LOGS_HUMAN_MESSAGE) None
      else if non_candidate_carries_fixable_code_evidence pr then ReportCiFailure (ci_failures pr)
      else if should_rerun_transient_ci env pr st config then RerunTransientCI candidates
      else if candidates \<noteq> [] \<and> list_all transient candidates then
        (if ci_transient_rerun_max_attempts config \<le> 0 then NotifyHuman (Some CI_TRANSIENT_HUMAN_MESSAGE) None
         else if list_ex (\<lambda>f. \<not> supports_failed_job_rerun f) candidates
           then NotifyHuman (Some CI_TRANSIENT_HUMAN_MESSAGE) None
         else if ci_transient_infra_wait_exhausted env now pr st config candidates
           then NotifyHuman (Some CI_TRANSIENT_HUMAN_MESSAGE) None
         else WaitForTransientCI candidates
                (ci_transient_infra_wait_seconds env pr st config candidates)
                (ci_transient_infra_wait_count env st (head_sha pr) candidates + 1))
      else if candidates = [] \<and> ci_failures pr \<noteq> [] \<and> list_all transient (ci_failures pr)
        then NotifyHuman (Some CI_TRANSIENT_HUMAN_MESSAGE) None
      else if ci_failures pr \<noteq> [] \<and> \<not> list_ex failure_has_actionable_ci_evidence (ci_failures pr)
        then NotifyHuman (Some CI_MISSING_LOGS_HUMAN_MESSAGE) None
      else ReportCiFailure (ci_failures pr))"

end
