(* ===== verification/Monitor_Decide.thy ===== *)
theory Monitor_Decide
  imports Monitor_CI
begin

text \<open>
  The decision function of the PR monitor (\<open>decide\<close> in \<open>runtime/pr_monitor.py\<close>), one definition per gate,
  in the order of the code.  A gate returns the action it takes, or \<open>None\<close> to fall through;
  \<open>decide\<close> is the first action of the sequence.
\<close>

definition human_wait :: MonitorAction where
  "human_wait = NotifyHuman None None"

definition base_ref_drift_human_message :: "string option \<Rightarrow> string" where
  "base_ref_drift_human_message base =
     ''PR base branch changed after provisioning; AWF resolved its merge policy against the original base''
       @ (case base of None \<Rightarrow> [] | Some b \<Rightarrow> if b = [] then [] else '' (now '' @ b @ '')'')
       @ ''. Retarget the PR back, or re-adopt it against the new base.''"

definition operator_hint_needs_human_notice :: "OperatorHint \<Rightarrow> MonitorAction" where
  "operator_hint_needs_human_notice hint =
     NotifyHuman
       (Some (''An '' @ control_label hint @ '' still requires human attention before this PR can merge.''
              @ (case hint_status_reason hint of None \<Rightarrow> []
                 | Some r \<Rightarrow> if r = [] then [] else '' Reason: '' @ r))) None"

section \<open>Feedback views\<close>

definition canonical_unresolved :: "monitor_env \<Rightarrow> PRStatus \<Rightarrow> MonitorState \<Rightarrow> ReviewThread list" where
  "canonical_unresolved env pr st =
     canonical_unresolved_inline_threads env (Some (threads_addressed_ids st))
       (unresolved_inline_threads pr) (outdated_unresolved_inline_threads pr)"

definition new_threads :: "monitor_env \<Rightarrow> PRStatus \<Rightarrow> MonitorState \<Rightarrow> ReviewThread list" where
  "new_threads env pr st =
     filter (thread_enters_address_comments env (threads_addressed_ids st)) (canonical_unresolved env pr st)"

definition new_reviews :: "PRStatus \<Rightarrow> MonitorState \<Rightarrow> ReviewComment list" where
  "new_reviews pr st =
     filter (\<lambda>c. agent_can_triage_review_comment c
                 \<and> needs_comment_attention (threads_addressed_ids st (comment_id c)))
       (unresolved_review_comments pr)"

section \<open>Gates\<close>

text \<open>Gate 0: terminal upstream states.\<close>

definition gate_terminal :: "PRStatus \<Rightarrow> MonitorAction option" where
  "gate_terminal pr =
     (if pr_merged pr then Some ShortCircuitCompleted
      else if pr_closed pr then Some (Abort pr_closed_externally) else None)"

text \<open>Gate 0b: the PR was retargeted after provisioning.\<close>

definition gate_base_drift :: "PRStatus \<Rightarrow> MonitorAction option" where
  "gate_base_drift pr =
     (if base_ref_drifted pr then Some (NotifyHuman (Some (base_ref_drift_human_message (base_ref pr))) None)
      else None)"

text \<open>Gate 0c: the forge accepted a push but the PR still reports an older head.\<close>

definition gate_head_sync :: "PRStatus \<Rightarrow> MonitorAction option" where
  "gate_head_sync pr =
     (if unsynchronized_remote_head_sha pr \<noteq> None
      then (if pr_head_sync_grace_active pr then Some (WaitForCI pr_head_not_synchronized)
            else Some (NotifyHuman (Some (pr_head_not_synchronized_message pr))
                         (Some PR_HEAD_NOT_SYNCHRONIZED_REASON)))
      else None)"

definition hint_action :: "OperatorHint \<Rightarrow> MonitorAction" where
  "hint_action hint =
     (if hint_status hint = Pending then AddressOperatorHint hint else operator_hint_needs_human_notice hint)"

text \<open>Gate 1.pre: a preserved protected commit outranks SyncBase.\<close>

definition gate_preserved_block :: "MonitorState \<Rightarrow> MonitorAction option" where
  "gate_preserved_block st =
     (case operator_hint st of
        None \<Rightarrow> None
      | Some hint \<Rightarrow> if has_preserved_protected_block st then Some (hint_action hint) else None)"

text \<open>Gate 1: base behind or DIRTY.\<close>

definition gate_sync_base :: "monitor_env \<Rightarrow> PRStatus \<Rightarrow> MonitorState \<Rightarrow> MonitorConfig \<Rightarrow> MonitorAction option" where
  "gate_sync_base env pr st config =
     (if base_behind_count pr > 0 \<or> merge_state_status pr \<in> set [BEHIND, DIRTY]
      then (if sync_base_no_progress_exhausted pr st config
            then (if merge_state_status pr = DIRTY \<and> (new_threads env pr st \<noteq> [] \<or> new_reviews pr st \<noteq> [])
                  then Some (AddressComments (new_threads env pr st) (new_reviews pr st))
                  else if merge_state_status pr = DIRTY then Some (Abort merge_conflict_not_reproduced)
                  else Some (Abort base_sync_no_progress))
            else Some SyncBase)
      else None)"

text \<open>Gate 2: operator hints.\<close>

definition gate_operator_hint :: "MonitorState \<Rightarrow> MonitorAction option" where
  "gate_operator_hint st = map_option hint_action (operator_hint st)"

text \<open>Gate 3: unresolved comments not handled yet.\<close>

definition gate_comments :: "monitor_env \<Rightarrow> PRStatus \<Rightarrow> MonitorState \<Rightarrow> MonitorAction option" where
  "gate_comments env pr st =
     (if new_threads env pr st \<noteq> [] \<or> new_reviews pr st \<noteq> []
      then Some (AddressComments (new_threads env pr st) (new_reviews pr st)) else None)"

text \<open>Gate 4: effective review-state blockers.\<close>

definition gate_blocking_reviews :: "PRStatus \<Rightarrow> MonitorAction option" where
  "gate_blocking_reviews pr = (if blocking_reviews pr \<noteq> [] then Some human_wait else None)"

text \<open>Gate 5: CI failures.\<close>

definition gate_ci_failure ::
  "monitor_env \<Rightarrow> rat \<Rightarrow> PRStatus \<Rightarrow> MonitorState \<Rightarrow> MonitorConfig \<Rightarrow> MonitorAction option" where
  "gate_ci_failure env now pr st config =
     (if check_state pr = FAILURE
      then (if ci_runs_in_progress pr \<and> ci_failures pr = [] then Some (WaitForCI ci_run_in_progress)
            else Some (ci_failure_action env now pr st config))
      else None)"

text \<open>Gate 6: checks pending, or the forge still computing the merge state.\<close>

definition gate_pending :: "PRStatus \<Rightarrow> MonitorConfig \<Rightarrow> MonitorAction option" where
  "gate_pending pr config =
     (if check_state pr = PENDING \<and> (require_ci config \<or> \<not> no_checks_observed pr)
         \<and> \<not> (require_ci config \<and> no_checks_observed pr \<and> merge_state_status pr \<in> set [BLOCKED, HAS_HOOKS])
      then Some (WaitForCI pending_checks)
      else if mergeable pr = UNKNOWN \<or> merge_state_status pr = UNKNOWN_STATUS
        then Some (WaitForCI unknown_mergeable_state)
      else None)"

text \<open>Gate 7: CONFLICTING without the richer merge state.\<close>

definition gate_conflicting :: "PRStatus \<Rightarrow> MonitorState \<Rightarrow> MonitorConfig \<Rightarrow> MonitorAction option" where
  "gate_conflicting pr st config =
     (if mergeable pr = CONFLICTING
      then (if sync_base_no_progress_exhausted pr st config then Some (Abort merge_conflict_not_reproduced)
            else Some SyncBase)
      else None)"

text \<open>Gate 8: triaged but uncleared feedback.\<close>

definition thread_blocks_merge :: "MonitorState \<Rightarrow> string \<Rightarrow> bool" where
  "thread_blocks_merge st tid = verdict_in [''defer'', ''needs_human''] (threads_addressed_ids st tid)"

definition review_comment_blocks_merge :: "MonitorState \<Rightarrow> ReviewComment \<Rightarrow> bool" where
  "review_comment_blocks_merge st comment =
     (let verdict = threads_addressed_ids st (comment_id comment) in
      if verdict = Some ''needs_human'' then True
      else verdict = Some ''defer'' \<and> \<not> is_bot_author (comment_author comment))"

definition outdated_thread_blocks_merge :: "monitor_env \<Rightarrow> PRStatus \<Rightarrow> MonitorState \<Rightarrow> ReviewThread \<Rightarrow> bool" where
  "outdated_thread_blocks_merge env pr st thread =
     (if truthy (threads_addressed_ids st (outdated_resolve_requeued_key (thread_id thread))) then True
      else if thread_id thread \<in> set (map thread_id (unresolved_inline_threads pr)) then False
      else outdated_thread_has_fresh_feedback env (threads_addressed_ids st) thread)"

text \<open>\<open>outdated_by_id\<close>: the copies of each outdated ID, in order.\<close>

definition outdated_copies :: "PRStatus \<Rightarrow> ReviewThread list list" where
  "outdated_copies pr =
     map (\<lambda>i. filter (\<lambda>t. thread_id t = i) (outdated_unresolved_inline_threads pr))
       (uniq (map thread_id (outdated_unresolved_inline_threads pr)))"

definition has_blocking_feedback :: "monitor_env \<Rightarrow> PRStatus \<Rightarrow> MonitorState \<Rightarrow> bool" where
  "has_blocking_feedback env pr st =
     (list_ex (\<lambda>t. thread_blocks_merge st (thread_id t)) (canonical_unresolved env pr st)
      \<or> list_ex (review_comment_blocks_merge st) (unresolved_review_comments pr)
      \<or> list_ex (\<lambda>copies.
            case preferred_duplicate_review_thread env (Some (threads_addressed_ids st)) copies of
              None \<Rightarrow> False
            | Some t \<Rightarrow> outdated_thread_blocks_merge env pr st t) (outdated_copies pr))"

definition gate_blocking_feedback :: "monitor_env \<Rightarrow> PRStatus \<Rightarrow> MonitorState \<Rightarrow> MonitorAction option" where
  "gate_blocking_feedback env pr st = (if has_blocking_feedback env pr st then Some human_wait else None)"

text \<open>Gates 8b and 9: absent required checks within the grace window, then protected merge states.\<close>

definition gate_protected_state :: "PRStatus \<Rightarrow> MonitorConfig \<Rightarrow> MonitorAction option" where
  "gate_protected_state pr config =
     (if require_ci config \<and> no_checks_observed pr \<and> merge_state_status pr \<in> set [BLOCKED, HAS_HOOKS]
         \<and> check_state pr \<noteq> FAILURE \<and> awaiting_required_checks_grace_active pr
      then Some (WaitForCI awaiting_required_checks)
      else if merge_state_status pr \<in> set [BLOCKED, HAS_HOOKS] then Some human_wait
      else None)"

definition gate_merge_method :: "PRStatus \<Rightarrow> MonitorState \<Rightarrow> MonitorAction option" where
  "gate_merge_method pr st =
     (let merge_method_blocker = threads_addressed_ids st (merge_method_blocked_key (number pr) (head_sha pr)) in
      if truthy merge_method_blocker then Some (NotifyHuman merge_method_blocker None) else None)"

section \<open>The decision\<close>

fun first_action :: "MonitorAction option list \<Rightarrow> MonitorAction \<Rightarrow> MonitorAction" where
  "first_action [] final = final"
| "first_action (g # gs) final = (case g of None \<Rightarrow> first_action gs final | Some a \<Rightarrow> a)"

definition decide ::
  "monitor_env \<Rightarrow> rat \<Rightarrow> PRStatus \<Rightarrow> MonitorState \<Rightarrow> MonitorConfig \<Rightarrow> MonitorAction" where
  "decide env now pr st config = first_action
     [gate_terminal pr,
      gate_base_drift pr,
      gate_head_sync pr,
      gate_preserved_block st,
      gate_sync_base env pr st config,
      gate_operator_hint st,
      gate_comments env pr st,
      gate_blocking_reviews pr,
      gate_ci_failure env now pr st config,
      gate_pending pr config,
      gate_conflicting pr st config,
      gate_blocking_feedback env pr st,
      gate_protected_state pr config,
      gate_merge_method pr st]
     (if cfg_auto_merge config then Merge else human_wait)"

end
