(* ===== verification/Monitor_Properties.thy ===== *)
theory Monitor_Properties
  imports Monitor_Decide
begin

text \<open>
  What the PR monitor guarantees: when it merges, which feedback a merge leaves behind, that a
  preserved protected commit outranks base syncing, that no-op base syncs, CI reruns and
  infrastructure waits are bounded, and how verdicts and attention markers age.
\<close>

section \<open>Reading a decision\<close>

lemmas gate_defs =
  gate_terminal_def gate_base_drift_def gate_head_sync_def gate_preserved_block_def gate_sync_base_def
  gate_operator_hint_def gate_comments_def gate_blocking_reviews_def gate_ci_failure_def gate_pending_def
  gate_conflicting_def gate_blocking_feedback_def gate_protected_state_def gate_merge_method_def

lemma first_action_final:
  "list_all (\<lambda>g. g \<noteq> Some a) gs \<Longrightarrow> first_action gs final = a \<longleftrightarrow> list_all (\<lambda>g. g = None) gs \<and> final = a"
  by (induction gs) (auto split: option.splits)

lemma first_action_app:
  "first_action (xs @ ys) final = first_action xs (first_action ys final)"
  by (induction xs) (auto split: option.splits)

abbreviation gates ::
  "monitor_env \<Rightarrow> rat \<Rightarrow> PRStatus \<Rightarrow> MonitorState \<Rightarrow> MonitorConfig \<Rightarrow> MonitorAction option list" where
  "gates env now pr st config \<equiv>
     [gate_terminal pr, gate_base_drift pr, gate_head_sync pr, gate_preserved_block st,
      gate_sync_base env pr st config, gate_operator_hint st, gate_comments env pr st,
      gate_blocking_reviews pr, gate_ci_failure env now pr st config, gate_pending pr config,
      gate_conflicting pr st config, gate_blocking_feedback env pr st,
      gate_protected_state pr config, gate_merge_method pr st]"

text \<open>Actions no gate but the named ones takes.\<close>

lemma hint_action_not [simp]:
  "hint_action h \<noteq> Merge" "hint_action h \<noteq> SyncBase" "hint_action h \<noteq> RerunTransientCI fs"
  "hint_action h \<noteq> WaitForTransientCI fs s n"
  by (simp_all add: hint_action_def operator_hint_needs_human_notice_def)

lemma ci_failure_action_not [simp]:
  "ci_failure_action env now pr st config \<noteq> Merge" "ci_failure_action env now pr st config \<noteq> SyncBase"
  by (simp_all add: ci_failure_action_def Let_def)

lemma human_wait_not [simp]:
  "human_wait \<noteq> Merge" "human_wait \<noteq> SyncBase" "human_wait \<noteq> RerunTransientCI fs"
  "human_wait \<noteq> WaitForTransientCI fs s n"
  by (simp_all add: human_wait_def)

lemma no_gate_merges: "list_all (\<lambda>g. g \<noteq> Some Merge) (gates env now pr st config)"
  by (simp add: gate_defs Let_def not_sym [OF human_wait_not(1)] split: option.splits)

lemma decide_merge_gates:
  "decide env now pr st config = Merge \<longleftrightarrow>
     cfg_auto_merge config \<and> list_all (\<lambda>g. g = None) (gates env now pr st config)"
  unfolding decide_def first_action_final [OF no_gate_merges] by auto

text \<open>
  Property C4: the monitor merges exactly when automatic merging is on, the PR is open, not retargeted and its
  head synchronised, no operator hint is pending or unresolved, the base is not ahead, the forge
  reports a mergeable PR in a clean or merely unstable state, no review blocks, checks passed (or
  are absent and the profile opted out of CI), nothing is left to address, no triaged feedback
  blocks, and no merge-method blocker is recorded for this head.
\<close>

theorem decide_merge_exact:
  "decide env now pr st config = Merge \<longleftrightarrow>
     cfg_auto_merge config \<and> \<not> pr_merged pr \<and> \<not> pr_closed pr \<and> \<not> base_ref_drifted pr
     \<and> unsynchronized_remote_head_sha pr = None \<and> operator_hint st = None
     \<and> base_behind_count pr \<le> 0 \<and> merge_state_status pr \<in> {CLEAN, UNSTABLE} \<and> mergeable pr = MERGEABLE
     \<and> blocking_reviews pr = []
     \<and> (check_state pr \<in> {SUCCESS, NEUTRAL}
        \<or> (check_state pr = PENDING \<and> \<not> require_ci config \<and> no_checks_observed pr))
     \<and> new_threads env pr st = [] \<and> new_reviews pr st = [] \<and> \<not> has_blocking_feedback env pr st
     \<and> \<not> truthy (threads_addressed_ids st (merge_method_blocked_key (number pr) (head_sha pr)))"
proof -
  have merge_state: "merge_state_status pr \<in> {CLEAN, UNSTABLE} \<longleftrightarrow>
      merge_state_status pr \<notin> {BEHIND, DIRTY, BLOCKED, HAS_HOOKS, UNKNOWN_STATUS}"
    by (cases "merge_state_status pr") auto
  have mergeable: "mergeable pr = MERGEABLE \<longleftrightarrow> mergeable pr \<notin> {CONFLICTING, UNKNOWN}"
    by (cases "mergeable pr") auto
  have check: "check_state pr \<in> {SUCCESS, NEUTRAL} \<longleftrightarrow> check_state pr \<notin> {FAILURE, PENDING}"
    by (cases "check_state pr") auto
  show ?thesis
    unfolding decide_merge_gates merge_state mergeable check
    by (auto simp: gate_defs Let_def split: option.splits if_splits)
qed

section \<open>Feedback at merge time\<close>

lemma merge_thread_settled:
  assumes "decide env now pr st config = Merge"
    and "t \<in> set (unresolved_inline_threads pr) \<union> set (outdated_unresolved_inline_threads pr)"
  shows "\<exists>v. threads_addressed_ids st (thread_id t) = Some v
           \<and> v \<notin> {''agent_failed'', ''defer'', ''needs_human''}"
proof -
  have none: "list_all (\<lambda>g. g = None) (gates env now pr st config)"
    using assms(1) by (simp only: decide_merge_gates)
  obtain c where c: "c \<in> set (canonical_unresolved env pr st)" "thread_id c = thread_id t"
    unfolding canonical_unresolved_def using canonical_covers [OF assms(2)] by metis
  have "\<not> thread_enters_address_comments env (threads_addressed_ids st) c"
    using none c(1) by (auto simp: gate_comments_def new_threads_def filter_empty_conv split: if_splits)
  then have "\<not> needs_comment_attention (threads_addressed_ids st (thread_id c))"
    by (auto simp: thread_enters_address_comments_def Let_def)
  moreover have "\<not> thread_blocks_merge st (thread_id c)"
    using none c(1)
    by (auto simp: gate_blocking_feedback_def has_blocking_feedback_def list_ex_iff split: if_splits)
  ultimately show ?thesis
    using c(2) by (auto simp: needs_comment_attention_def thread_blocks_merge_def verdict_in_def split: option.splits)
qed

lemma merge_no_requeue:
  assumes "decide env now pr st config = Merge" "t \<in> set (outdated_unresolved_inline_threads pr)"
  shows "\<not> truthy (threads_addressed_ids st (outdated_resolve_requeued_key (thread_id t)))"
proof -
  let ?copies = "filter (\<lambda>u. thread_id u = thread_id t) (outdated_unresolved_inline_threads pr)"
  have none: "list_all (\<lambda>g. g = None) (gates env now pr st config)"
    using assms(1) by (simp only: decide_merge_gates)
  have mem: "?copies \<in> set (outdated_copies pr)"
    using assms(2) by (auto simp: outdated_copies_def)
  have "?copies \<noteq> []"
    using assms(2) by (auto simp: filter_empty_conv)
  then obtain p where p: "preferred_duplicate_review_thread env (Some (threads_addressed_ids st)) ?copies = Some p"
    by (cases ?copies) auto
  then have "thread_id p = thread_id t"
    using preferred_mem by fastforce
  moreover have "\<not> outdated_thread_blocks_merge env pr st p"
    using none mem p
    by (auto simp: gate_blocking_feedback_def has_blocking_feedback_def list_ex_iff split: if_splits)
  ultimately show ?thesis
    by (auto simp: outdated_thread_blocks_merge_def split: if_splits)
qed

lemma merge_comment_settled:
  assumes "decide env now pr st config = Merge" "c \<in> set (unresolved_review_comments pr)"
  shows "\<not> review_comment_blocks_merge st c"
    "agent_can_triage_review_comment c \<Longrightarrow> \<not> needs_comment_attention (threads_addressed_ids st (comment_id c))"
proof -
  have none: "list_all (\<lambda>g. g = None) (gates env now pr st config)"
    using assms(1) by (simp only: decide_merge_gates)
  show "\<not> review_comment_blocks_merge st c"
    using none assms(2)
    by (auto simp: gate_blocking_feedback_def has_blocking_feedback_def list_ex_iff split: if_splits)
  show "\<not> needs_comment_attention (threads_addressed_ids st (comment_id c))"
    if "agent_can_triage_review_comment c"
    using none assms(2) that by (auto simp: gate_comments_def new_reviews_def filter_empty_conv split: if_splits)
qed

text \<open>
  Property C18: what feedback a merge may leave open.  Every unresolved inline thread, active or outdated and
  whoever wrote it, carries a verdict that is neither an agent failure nor a deferral nor an escalation, so that a deferred
  thread of a bot blocks merging too, as the tests of the gate require; no outdated thread awaits the retry of a failed
  resolve.  No review-level comment is escalated, one is deferred only if its author is a bot, and every one the agent
  may triage has a verdict other than an agent failure; a comment the agent may not triage can be left without a verdict.
\<close>

theorem merge_leaves_no_open_feedback:
  assumes "decide env now pr st config = Merge"
  shows "list_all (\<lambda>t. \<exists>v. threads_addressed_ids st (thread_id t) = Some v
            \<and> v \<notin> {''agent_failed'', ''defer'', ''needs_human''})
          (unresolved_inline_threads pr @ outdated_unresolved_inline_threads pr)
    \<and> list_all (\<lambda>t. \<not> truthy (threads_addressed_ids st (outdated_resolve_requeued_key (thread_id t))))
          (outdated_unresolved_inline_threads pr)
    \<and> list_all (\<lambda>c. threads_addressed_ids st (comment_id c) \<noteq> Some ''needs_human''
            \<and> (threads_addressed_ids st (comment_id c) = Some ''defer'' \<longrightarrow> is_bot_author (comment_author c))
            \<and> (agent_can_triage_review_comment c
                 \<longrightarrow> threads_addressed_ids st (comment_id c) \<notin> {None, Some ''agent_failed''}))
          (unresolved_review_comments pr)"
proof (intro conjI)
  show "list_all (\<lambda>t. \<exists>v. threads_addressed_ids st (thread_id t) = Some v
            \<and> v \<notin> {''agent_failed'', ''defer'', ''needs_human''})
          (unresolved_inline_threads pr @ outdated_unresolved_inline_threads pr)"
    unfolding list_all_iff using merge_thread_settled [OF assms] by simp
  show "list_all (\<lambda>t. \<not> truthy (threads_addressed_ids st (outdated_resolve_requeued_key (thread_id t))))
          (outdated_unresolved_inline_threads pr)"
    unfolding list_all_iff using merge_no_requeue [OF assms] by blast
  show "list_all (\<lambda>c. threads_addressed_ids st (comment_id c) \<noteq> Some ''needs_human''
            \<and> (threads_addressed_ids st (comment_id c) = Some ''defer'' \<longrightarrow> is_bot_author (comment_author c))
            \<and> (agent_can_triage_review_comment c
                 \<longrightarrow> threads_addressed_ids st (comment_id c) \<notin> {None, Some ''agent_failed''}))
          (unresolved_review_comments pr)"
    unfolding list_all_iff
    using merge_comment_settled [OF assms]
    by (fastforce simp: review_comment_blocks_merge_def needs_comment_attention_def Let_def split: if_splits)
qed

definition settled_pr :: PRStatus where
  "settled_pr = green_status\<lparr>unresolved_inline_threads := [plain_thread ''t1'' ''bob'' ''fix this'']\<rparr>"

definition settled_state :: MonitorState where
  "settled_state = mark_review_thread_addressed plain_env (plain_thread ''t1'' ''bob'' ''fix this'')
     ''fix_committed'' fresh_state"

theorem merge_leaves_no_open_feedback_witness:
  "decide plain_env 0 settled_pr settled_state (default_config\<lparr>cfg_auto_merge := True\<rparr>) = Merge
   \<and> (\<exists>v. threads_addressed_ids settled_state ''t1'' = Some v \<and> v \<notin> {''agent_failed'', ''defer'', ''needs_human''})"
proof -
  have merge: "decide plain_env 0 settled_pr settled_state (default_config\<lparr>cfg_auto_merge := True\<rparr>) = Merge"
    by code_simp
  show ?thesis
    using merge merge_leaves_no_open_feedback [OF merge]
    by (simp add: settled_pr_def plain_thread_def)
qed

text \<open>
  While a resumed protected-scope block still preserves its unpushed commit, the operator's hint outranks
  base syncing, comment repair, CI handling and merging: unless the PR is terminal, retargeted or its
  head unsynchronised, the decision is to run the pending hint, or to notify a human when the hint
  has already failed.
\<close>

theorem preserved_block_outranks_sync:
  assumes "operator_hint st = Some hint" "has_preserved_protected_block st"
  shows "decide env now pr st config =
           first_action [gate_terminal pr, gate_base_drift pr, gate_head_sync pr]
             (if hint_status hint = Pending then AddressOperatorHint hint
              else operator_hint_needs_human_notice hint)
    \<and> decide env now pr st config \<notin> {SyncBase, Merge}"
proof -
  have "decide env now pr st config =
      first_action [gate_terminal pr, gate_base_drift pr, gate_head_sync pr] (hint_action hint)"
    using assms by (simp add: decide_def gate_preserved_block_def split: option.split)
  moreover have "first_action [gate_terminal pr, gate_base_drift pr, gate_head_sync pr] (hint_action hint)
      \<notin> {SyncBase, Merge}"
    by (simp add: gate_terminal_def gate_base_drift_def gate_head_sync_def)
  ultimately show ?thesis
    by (simp add: hint_action_def)
qed

definition preserved_state :: MonitorState where
  "preserved_state = (set_key PROTECTED_BLOCK_PRESERVED_HEAD_STATE_KEY ''deadbeef'' fresh_state)
     \<lparr>operator_hint := Some \<lparr>hint_reason = ''go'', hint_directive = None, hint_operation_id = None,
        hint_requested_at = None, hint_reason_code = ''OPERATOR_GUIDE'', hint_status = Pending,
        hint_status_reason = None\<rparr>\<rparr>"

theorem preserved_block_outranks_sync_witness:
  "decide plain_env 0 (green_status\<lparr>merge_state_status := BEHIND\<rparr>) preserved_state default_config
     = AddressOperatorHint (the (operator_hint preserved_state))"
proof -
  have "operator_hint preserved_state = Some (the (operator_hint preserved_state))"
    "has_preserved_protected_block preserved_state"
    by (simp_all add: preserved_state_def has_preserved_protected_block_def set_key_def)
  from preserved_block_outranks_sync [OF this, of plain_env 0 "green_status\<lparr>merge_state_status := BEHIND\<rparr>"
      default_config]
  show ?thesis
    by (simp add: gate_terminal_def gate_base_drift_def gate_head_sync_def green_status_def preserved_state_def)
qed

section \<open>Fresh replies\<close>

text \<open>
  Once a thread is recorded with a fixed, rejected, deferred or escalated verdict, a later copy of it
  re-enters comment repair exactly when its conversation changed, whatever transport
  representation the forge returns; and a resolvable verdict is due for resolution exactly while
  the conversation stands.  (The digest is assumed collision-free.)
\<close>

theorem fresh_reply_requeues:
  assumes "inj (sha256_hex env)" "thread_id later = thread_id thread"
    "verdict \<in> set REQUEUE_ON_BODY_CHANGE_VERDICTS"
  shows "(thread_enters_address_comments env
            (threads_addressed_ids (mark_review_thread_addressed env thread verdict st)) later
            \<longleftrightarrow> conversation later \<noteq> conversation thread)
    \<and> (thread_resolution_pending env
            (threads_addressed_ids (mark_review_thread_addressed env thread verdict st)) later
            \<longleftrightarrow> verdict \<in> set RESOLVABLE_THREAD_VERDICTS \<and> conversation later = conversation thread)"
proof -
  let ?m = "threads_addressed_ids (mark_review_thread_addressed env thread verdict st)"
  have v: "?m (thread_id later) = Some verdict"
    and h: "?m (review_thread_body_state_key (thread_id later)) = Some (review_thread_body_hash env thread)"
    unfolding assms(2) by (rule mark_review_thread_addressed_map)+
  have "verdict \<noteq> ''agent_failed''"
    using assms(3) by (auto simp: REQUEUE_ON_BODY_CHANGE_VERDICTS_def CLOSED_OUTDATED_THREAD_VERDICTS_def)
  then show ?thesis
    using assms(3) hash_matches_iff [OF assms(1), of thread later]
    by (simp add: thread_enters_address_comments_def thread_resolution_pending_def v h
        needs_comment_attention_def verdict_in_def)
qed

theorem fresh_reply_requeues_witness:
  "thread_enters_address_comments plain_env
     (threads_addressed_ids (mark_review_thread_addressed plain_env (plain_thread ''t'' ''bob'' ''a'') ''defer'' fresh_state))
     (plain_thread ''t'' ''bob'' ''b'')"
proof -
  have "inj (sha256_hex plain_env)"
    by (simp add: plain_env_def inj_def)
  then show ?thesis
    using fresh_reply_requeues [of plain_env "plain_thread ''t'' ''bob'' ''b''" "plain_thread ''t'' ''bob'' ''a''"
        "''defer''" fresh_state]
    by (simp add: plain_thread_def conversation_def REQUEUE_ON_BODY_CHANGE_VERDICTS_def)
qed

end
