(* ===== verification/Monitor_Bounds.thy ===== *)
theory Monitor_Bounds
  imports Monitor_Properties "HOL-Library.Multiset"
begin

text \<open>
  Bounds on the monitor's retries: no-op base syncs, CI reruns, infrastructure waits, and the ageing of the
  merge-block attention marker.
\<close>

section \<open>Base syncing\<close>

lemma no_progress_frame:
  fixes st :: MonitorState and sig :: "string option" and n :: int
  defines "st' \<equiv> st\<lparr>no_progress_signature := sig, no_progress_count := n\<rparr>"
  shows "gate_preserved_block st' = gate_preserved_block st"
    "gate_operator_hint st' = gate_operator_hint st"
    "new_threads env pr st' = new_threads env pr st"
    "new_reviews pr st' = new_reviews pr st"
    "gate_comments env pr st' = gate_comments env pr st"
    "gate_ci_failure env now pr st' config = gate_ci_failure env now pr st config"
    "gate_blocking_feedback env pr st' = gate_blocking_feedback env pr st"
    "gate_merge_method pr st' = gate_merge_method pr st"
proof -
  show threads: "new_threads env pr st' = new_threads env pr st" "new_reviews pr st' = new_reviews pr st"
    by (simp_all add: st'_def new_threads_def new_reviews_def canonical_unresolved_def)
  show "gate_preserved_block st' = gate_preserved_block st" "gate_operator_hint st' = gate_operator_hint st"
    "gate_merge_method pr st' = gate_merge_method pr st"
    by (simp_all add: st'_def gate_preserved_block_def gate_operator_hint_def gate_merge_method_def
        has_preserved_protected_block_def split: option.split)
  show "gate_comments env pr st' = gate_comments env pr st"
    by (simp add: gate_comments_def threads)
  have ints: "int_at st' k = int_at st k" for k
    by (simp add: int_at_def st'_def)
  have started: "ci_transient_infra_wait_started_at env st' sha fs = ci_transient_infra_wait_started_at env st sha fs" for sha fs
    by (simp add: ci_transient_infra_wait_started_at_def st'_def)
  have rerun: "should_rerun_transient_ci env pr st' config = should_rerun_transient_ci env pr st config"
    unfolding should_rerun_transient_ci_def ci_transient_rerun_count_def ci_transient_rerun_count_for_key_def ints ..
  show "gate_ci_failure env now pr st' config = gate_ci_failure env now pr st config"
    unfolding gate_ci_failure_def ci_failure_action_def rerun ci_transient_infra_wait_exhausted_def
      ci_transient_infra_wait_seconds_def ci_transient_infra_wait_count_def started ints ..
  have blocks: "thread_blocks_merge st' = thread_blocks_merge st"
    "review_comment_blocks_merge st' = review_comment_blocks_merge st"
    "outdated_thread_blocks_merge env pr st' = outdated_thread_blocks_merge env pr st"
    and addressed: "threads_addressed_ids st' = threads_addressed_ids st"
    by (simp_all add: fun_eq_iff st'_def thread_blocks_merge_def review_comment_blocks_merge_def
        outdated_thread_blocks_merge_def)
  show "gate_blocking_feedback env pr st' = gate_blocking_feedback env pr st"
    unfolding gate_blocking_feedback_def has_blocking_feedback_def canonical_unresolved_def blocks addressed ..
qed

lemma only_sync_gates:
  "gate_terminal pr \<noteq> Some SyncBase" "gate_base_drift pr \<noteq> Some SyncBase" "gate_head_sync pr \<noteq> Some SyncBase"
  "gate_preserved_block st \<noteq> Some SyncBase" "gate_operator_hint st \<noteq> Some SyncBase"
  "gate_comments env pr st \<noteq> Some SyncBase" "gate_blocking_reviews pr \<noteq> Some SyncBase"
  "gate_ci_failure env now pr st config \<noteq> Some SyncBase" "gate_pending pr config \<noteq> Some SyncBase"
  "gate_blocking_feedback env pr st \<noteq> Some SyncBase" "gate_protected_state pr config \<noteq> Some SyncBase"
  "gate_merge_method pr st \<noteq> Some SyncBase"
  by (auto simp: gate_defs Let_def split: option.splits)

lemma gate_sync_cases:
  "gate_sync_base env pr st config = None \<longleftrightarrow> \<not> (base_behind_count pr > 0 \<or> merge_state_status pr \<in> {BEHIND, DIRTY})"
  "gate_sync_base env pr st config = Some SyncBase \<longleftrightarrow>
     (base_behind_count pr > 0 \<or> merge_state_status pr \<in> {BEHIND, DIRTY}) \<and> \<not> sync_base_no_progress_exhausted pr st config"
  "gate_conflicting pr st config = Some SyncBase \<longleftrightarrow>
     mergeable pr = CONFLICTING \<and> \<not> sync_base_no_progress_exhausted pr st config"
  "gate_conflicting pr st config = None \<longleftrightarrow> mergeable pr \<noteq> CONFLICTING"
  by (auto simp: gate_sync_base_def gate_conflicting_def)

lemma first_action_skip: "g \<noteq> Some a \<Longrightarrow> first_action (g # gs) final = a \<longleftrightarrow> g = None \<and> first_action gs final = a"
  by (cases g) auto

lemma decide_sync_iff:
  "decide env now pr st config = SyncBase \<longleftrightarrow>
     gate_terminal pr = None \<and> gate_base_drift pr = None \<and> gate_head_sync pr = None
     \<and> gate_preserved_block st = None \<and> \<not> sync_base_no_progress_exhausted pr st config
     \<and> (base_behind_count pr > 0 \<or> merge_state_status pr \<in> {BEHIND, DIRTY}
        \<or> (gate_operator_hint st = None \<and> gate_comments env pr st = None \<and> gate_blocking_reviews pr = None
           \<and> gate_ci_failure env now pr st config = None \<and> gate_pending pr config = None
           \<and> mergeable pr = CONFLICTING))"
  (is "?l = ?r")
proof -
  have final: "first_action [gate_blocking_feedback env pr st, gate_protected_state pr config, gate_merge_method pr st]
      (if cfg_auto_merge config then Merge else human_wait) \<noteq> SyncBase"
    by (simp add: first_action_skip only_sync_gates del: first_action.simps(2))
  have conflicting: "first_action [gate_conflicting pr st config, gate_blocking_feedback env pr st,
      gate_protected_state pr config, gate_merge_method pr st] (if cfg_auto_merge config then Merge else human_wait) = SyncBase
      \<longleftrightarrow> gate_conflicting pr st config = Some SyncBase"
    using final by (cases "gate_conflicting pr st config") simp_all
  have sync: "first_action (gate_sync_base env pr st config # gs) final = SyncBase \<longleftrightarrow>
      gate_sync_base env pr st config = Some SyncBase
      \<or> (gate_sync_base env pr st config = None \<and> first_action gs final = SyncBase)" for gs final
    by (cases "gate_sync_base env pr st config") simp_all
  show ?thesis
    unfolding decide_def
    by (simp only: first_action_skip only_sync_gates not_False_eq_True sync conflicting gate_sync_cases) blast
qed

lemma record_no_op_iterate:
  assumes "no_progress_signature st \<noteq> Some (sync_base_no_progress_signature pr)"
  shows "(record_sync_base_progress False False pr ^^ Suc k) st =
     st\<lparr>no_progress_signature := Some (sync_base_no_progress_signature pr), no_progress_count := int (Suc k)\<rparr>"
proof (induction k)
  case 0
  show ?case using assms by (simp add: record_sync_base_progress_def)
next
  case (Suc k)
  have "(record_sync_base_progress False False pr ^^ Suc (Suc k)) st
      = record_sync_base_progress False False pr ((record_sync_base_progress False False pr ^^ Suc k) st)"
    by (simp only: funpow.simps comp_def)
  also have "\<dots> = st\<lparr>no_progress_signature := Some (sync_base_no_progress_signature pr),
      no_progress_count := int (Suc (Suc k))\<rparr>"
    unfolding Suc.IH by (simp add: record_sync_base_progress_def)
  finally show ?case .
qed

text \<open>
  Property C35: a PR snapshot that asks for a base sync gets exactly the configured number of consecutive no-op attempts:
  after \<open>k\<close> attempts that pushed nothing the monitor still syncs if and only if \<open>k\<close> is below
  \<open>max_no_progress_sync_base_attempts\<close>.
\<close>

theorem no_op_syncs_bounded:
  assumes "0 < max_no_progress_sync_base_attempts config"
    and "no_progress_signature st \<noteq> Some (sync_base_no_progress_signature pr)"
    and "decide env now pr st config = SyncBase"
  shows "decide env now pr ((record_sync_base_progress False False pr ^^ k) st) config = SyncBase
    \<longleftrightarrow> int k < max_no_progress_sync_base_attempts config"
proof (cases k)
  case 0
  then show ?thesis using assms by simp
next
  case (Suc j)
  show ?thesis
    using assms(1,3)
    unfolding Suc record_no_op_iterate [OF assms(2)] decide_sync_iff no_progress_frame
    by (auto simp: sync_base_no_progress_exhausted_def)
qed

theorem no_op_syncs_bounded_witness:
  "decide plain_env 0 (green_status\<lparr>merge_state_status := BEHIND\<rparr>)
     ((record_sync_base_progress False False (green_status\<lparr>merge_state_status := BEHIND\<rparr>) ^^ 3) fresh_state)
     default_config \<noteq> SyncBase"
proof -
  have "decide plain_env 0 (green_status\<lparr>merge_state_status := BEHIND\<rparr>) fresh_state default_config = SyncBase"
    by code_simp
  then show ?thesis
    using no_op_syncs_bounded [of default_config fresh_state "green_status\<lparr>merge_state_status := BEHIND\<rparr>" plain_env 0 3]
    by (simp add: default_config_def post_init_def fresh_state_def)
qed

section \<open>CI reruns\<close>

text \<open>The snapshots of one failing run on one head: same head, same identities of the failing runs.\<close>

definition same_failing_run :: "PRStatus \<Rightarrow> PRStatus \<Rightarrow> bool" where
  "same_failing_run pr pr' \<longleftrightarrow> head_sha pr' = head_sha pr
     \<and> mset (map ci_failure_identity (ci_candidate_failures pr'))
       = mset (map ci_failure_identity (ci_candidate_failures pr))"

abbreviation run_key :: "monitor_env \<Rightarrow> PRStatus \<Rightarrow> string" where
  "run_key env pr \<equiv> ci_transient_rerun_state_key env (head_sha pr) (ci_candidate_failures pr)"

abbreviation rerun_step :: "monitor_env \<Rightarrow> PRStatus \<Rightarrow> MonitorState \<Rightarrow> MonitorState" where
  "rerun_step env pr st \<equiv>
     snd (ci_transient_rerun_attempt env (head_sha pr) (ci_candidate_failures pr) (Some (ci_failures pr)) st)"

lemma run_key_stable: "same_failing_run pr pr' \<Longrightarrow> run_key env pr' = run_key env pr"
proof -
  assume same: "same_failing_run pr pr'"
  then have "sort (map ci_failure_identity (ci_candidate_failures pr'))
      = sort (map ci_failure_identity (ci_candidate_failures pr))"
    unfolding same_failing_run_def by (intro properties_for_sort) simp_all
  then show ?thesis
    using same by (simp add: ci_transient_rerun_state_key_def same_failing_run_def)
qed

lemma rerun_count_ge: "int_at st (run_key env pr) \<le>
    ci_transient_rerun_count env st (head_sha pr) (ci_candidate_failures pr) (Some (ci_failures pr))"
  by (simp add: ci_transient_rerun_count_def ci_transient_rerun_count_for_key_def Let_def)

lemma int_at_set: "0 \<le> n \<Longrightarrow> int_at (set_key k (py_str_int n) st) k = n"
  by (simp add: int_at_def py_int_str_int)

lemma rerun_step_counts:
  assumes "0 \<le> int_at st (run_key env pr)"
    and "ci_failures pr = ci_candidate_failures pr
         \<or> ci_transient_rerun_state_key env (head_sha pr) (ci_failures pr) \<noteq> run_key env pr"
  shows "int_at (rerun_step env pr st) (run_key env pr) \<ge> int_at st (run_key env pr) + 1"
proof -
  let ?n = "ci_transient_rerun_count env st (head_sha pr) (ci_candidate_failures pr) (Some (ci_failures pr)) + 1"
  have "int_at (rerun_step env pr st) (run_key env pr) = int_at (set_key (run_key env pr) (py_str_int ?n) st) (run_key env pr)"
    using assms(2) by (auto simp: ci_transient_rerun_attempt_def Let_def int_at_def)
  also have "\<dots> = ?n"
    using assms(1) rerun_count_ge [of st env pr] by (intro int_at_set) linarith
  finally show ?thesis
    using rerun_count_ge [of st env pr] by linarith
qed

lemma fold_rerun_counts:
  assumes "0 \<le> int_at st (run_key env pr)"
    and "list_all (\<lambda>p. same_failing_run pr p
           \<and> (ci_failures p = ci_candidate_failures p
              \<or> ci_transient_rerun_state_key env (head_sha p) (ci_failures p) \<noteq> run_key env p)) prs"
  shows "int_at (fold (rerun_step env) prs st) (run_key env pr) \<ge> int_at st (run_key env pr) + int (length prs)"
  using assms
proof (induction prs arbitrary: st)
  case (Cons p prs)
  have key: "run_key env p = run_key env pr"
    using Cons.prems(2) run_key_stable by simp
  have "int_at (rerun_step env p st) (run_key env pr) \<ge> int_at st (run_key env pr) + 1"
    using rerun_step_counts [of st env p] Cons.prems by (simp add: key)
  moreover from this have "int_at (fold (rerun_step env) prs (rerun_step env p st)) (run_key env pr)
      \<ge> int_at (rerun_step env p st) (run_key env pr) + int (length prs)"
    using Cons.prems by (intro Cons.IH) auto
  ultimately show ?case by simp
qed simp

text \<open>Actions only the CI gate can take.\<close>

definition is_ci_action :: "MonitorAction \<Rightarrow> bool" where
  "is_ci_action a = (case a of RerunTransientCI _ \<Rightarrow> True | WaitForTransientCI _ _ _ \<Rightarrow> True | _ \<Rightarrow> False)"

lemma ci_action_simps [simp]:
  "\<not> is_ci_action (hint_action h)" "\<not> is_ci_action human_wait" "\<not> is_ci_action (AddressComments ts cs)"
  "\<not> is_ci_action SyncBase" "\<not> is_ci_action (WaitForCI r)" "\<not> is_ci_action Merge"
  "\<not> is_ci_action (NotifyHuman m c)" "\<not> is_ci_action ShortCircuitCompleted" "\<not> is_ci_action (Abort why)"
  "is_ci_action (RerunTransientCI fs)" "is_ci_action (WaitForTransientCI fs s n)"
  by (simp_all add: is_ci_action_def hint_action_def operator_hint_needs_human_notice_def human_wait_def)

definition no_ci_action :: "MonitorAction option \<Rightarrow> bool" where
  "no_ci_action g = (case g of None \<Rightarrow> True | Some a \<Rightarrow> \<not> is_ci_action a)"

lemma no_ci_action_simps [simp]:
  "no_ci_action None" "no_ci_action (Some a) \<longleftrightarrow> \<not> is_ci_action a"
  "no_ci_action (if b then g else h) \<longleftrightarrow> (if b then no_ci_action g else no_ci_action h)"
  "no_ci_action (map_option hint_action hint)"
  by (simp_all add: no_ci_action_def split: option.split)

lemma other_gates_no_ci [simp]:
  "no_ci_action (gate_terminal pr)" "no_ci_action (gate_base_drift pr)" "no_ci_action (gate_head_sync pr)"
  "no_ci_action (gate_preserved_block st)" "no_ci_action (gate_sync_base env pr st config)"
  "no_ci_action (gate_operator_hint st)" "no_ci_action (gate_comments env pr st)"
  "no_ci_action (gate_blocking_reviews pr)" "no_ci_action (gate_pending pr config)"
  "no_ci_action (gate_conflicting pr st config)" "no_ci_action (gate_blocking_feedback env pr st)"
  "no_ci_action (gate_protected_state pr config)" "no_ci_action (gate_merge_method pr st)"
  by (simp_all add: gate_defs Let_def split: option.split)

lemma first_action_no_ci:
  "no_ci_action g \<Longrightarrow> is_ci_action (first_action (g # gs) final) \<Longrightarrow>
     g = None \<and> first_action (g # gs) final = first_action gs final"
  by (cases g) simp_all

lemma final_no_ci:
  "list_all no_ci_action gs \<Longrightarrow> \<not> is_ci_action final \<Longrightarrow> \<not> is_ci_action (first_action gs final)"
proof (induction gs)
  case (Cons g gs)
  then show ?case by (cases g) auto
qed simp

lemma skip_no_ci:
  "list_all no_ci_action gs \<Longrightarrow> is_ci_action (first_action (gs @ hs) final) \<Longrightarrow>
     first_action (gs @ hs) final = first_action hs final"
proof (induction gs)
  case (Cons g gs)
  then show ?case by (cases g) auto
qed simp

lemma ci_decision:
  assumes "is_ci_action (decide env now pr st config)"
  shows "check_state pr = FAILURE" "decide env now pr st config = ci_failure_action env now pr st config"
proof -
  let ?before = "[gate_terminal pr, gate_base_drift pr, gate_head_sync pr, gate_preserved_block st,
      gate_sync_base env pr st config, gate_operator_hint st, gate_comments env pr st, gate_blocking_reviews pr]"
  let ?after = "[gate_pending pr config, gate_conflicting pr st config, gate_blocking_feedback env pr st,
      gate_protected_state pr config, gate_merge_method pr st]"
  let ?final = "if cfg_auto_merge config then Merge else human_wait"
  let ?ci = "gate_ci_failure env now pr st config"
  have split: "decide env now pr st config = first_action (?before @ ?ci # ?after) ?final"
    unfolding decide_def by (simp only: append.simps)
  have "decide env now pr st config = first_action (?ci # ?after) ?final"
    unfolding split by (rule skip_no_ci) (use assms split in simp_all)
  moreover have "\<not> is_ci_action (first_action ?after ?final)"
    by (rule final_no_ci) simp_all
  ultimately have "?ci = Some (decide env now pr st config)"
    using assms by (cases ?ci) simp_all
  then show "check_state pr = FAILURE" "decide env now pr st config = ci_failure_action env now pr st config"
    using assms unfolding gate_ci_failure_def
    by (metis ci_action_simps(5) option.distinct(1) option.inject)+
qed

lemma rerun_decision:
  assumes "decide env now pr st config = RerunTransientCI fs"
  shows "should_rerun_transient_ci env pr st config" "fs = ci_candidate_failures pr"
    "\<not> non_candidate_carries_fixable_code_evidence pr"
proof -
  have "ci_failure_action env now pr st config = RerunTransientCI fs"
    using ci_decision [of env now pr st config] assms by simp
  then show "should_rerun_transient_ci env pr st config" "fs = ci_candidate_failures pr"
    "\<not> non_candidate_carries_fixable_code_evidence pr"
    by (auto simp: ci_failure_action_def Let_def split: if_splits)
qed

lemma wait_decision:
  assumes "decide env now pr st config = WaitForTransientCI fs s n"
  shows "fs = ci_candidate_failures pr" "\<not> ci_transient_infra_wait_exhausted env now pr st config fs"
    "s = ci_transient_infra_wait_seconds env pr st config fs"
    "\<not> should_rerun_transient_ci env pr st config"
proof -
  have "ci_failure_action env now pr st config = WaitForTransientCI fs s n"
    using ci_decision [of env now pr st config] assms by simp
  then show "fs = ci_candidate_failures pr" "\<not> ci_transient_infra_wait_exhausted env now pr st config fs"
    "s = ci_transient_infra_wait_seconds env pr st config fs"
    "\<not> should_rerun_transient_ci env pr st config"
    by (auto simp: ci_failure_action_def Let_def split: if_splits)
qed

text \<open>
  Failing CI jobs are rerun automatically only when nothing on the head looks like a code
  failure: every rerun job belongs to a workflow run, concluded in failure or time-out, and shows
  no parsed test evidence and no code-failure marker in its log; and no other failing row carries repairable code
  evidence either.
\<close>

theorem rerun_only_transient:
  assumes "decide env now pr st config = RerunTransientCI fs"
  shows "fs = ci_candidate_failures pr \<and> fs \<noteq> []
    \<and> list_all (\<lambda>f. truthy (run_id f) \<and> py_upper (conclusion f) \<in> {''FAILURE'', ''TIMED_OUT''}
          \<and> \<not> failure_has_parsed_code_evidence f
          \<and> (py_strip (py_lower (log_excerpt f)) = [] \<or> \<not> log_shows_code_failure (py_lower (log_excerpt f)))) fs
    \<and> \<not> list_ex (\<lambda>f. failure_has_parsed_code_evidence f \<or> log_shows_code_failure (py_lower (log_excerpt f)))
          (ci_non_candidate_failures pr)"
proof -
  note d = rerun_decision [OF assms]
  have all: "list_all (\<lambda>f. looks_like_transient_ci_failure env f \<and> supports_failed_job_rerun f) fs"
    and ne: "fs \<noteq> []"
    using d(1,2) by (auto simp: should_rerun_transient_ci_def Let_def list_all_iff list_ex_iff split: if_splits)
  have "list_all (\<lambda>f. truthy (run_id f) \<and> py_upper (conclusion f) \<in> {''FAILURE'', ''TIMED_OUT''}
          \<and> \<not> failure_has_parsed_code_evidence f
          \<and> (py_strip (py_lower (log_excerpt f)) = [] \<or> \<not> log_shows_code_failure (py_lower (log_excerpt f)))) fs"
    unfolding list_all_iff
  proof
    fix f
    assume f: "f \<in> set fs"
    then have "looks_like_transient_ci_failure env f" "supports_failed_job_rerun f" "truthy (run_id f)"
      using all d(2) candidate_mem by (simp_all add: list_all_iff)
    then show "truthy (run_id f) \<and> py_upper (conclusion f) \<in> {''FAILURE'', ''TIMED_OUT''}
          \<and> \<not> failure_has_parsed_code_evidence f
          \<and> (py_strip (py_lower (log_excerpt f)) = [] \<or> \<not> log_shows_code_failure (py_lower (log_excerpt f)))"
      using transient_no_code_evidence [of env f]
      by (simp add: supports_failed_job_rerun_def CI_FAILED_JOB_RERUN_CONCLUSIONS_def) blast
  qed
  then show ?thesis
    using ne d(2,3) by (simp add: non_candidate_carries_fixable_code_evidence_def)
qed

definition flaky_pr :: PRStatus where
  "flaky_pr = green_status\<lparr>check_state := FAILURE, ci_failures := [plain_failure (Some ''9'') ''HTTP 502'']\<rparr>"

lemma flaky_pr_rerun:
  "decide plain_env 0 flaky_pr fresh_state default_config = RerunTransientCI [plain_failure (Some ''9'') ''HTTP 502'']"
  by code_simp

theorem rerun_only_transient_witness:
  "decide plain_env 0 flaky_pr fresh_state default_config = RerunTransientCI [plain_failure (Some ''9'') ''HTTP 502'']
   \<and> \<not> failure_has_parsed_code_evidence (plain_failure (Some ''9'') ''HTTP 502'')"
  using rerun_only_transient [OF flaky_pr_rerun] flaky_pr_rerun by simp

text \<open>
  Automatic CI reruns are bounded.  However many snapshots of the same failing run on the same
  head the monitor saw and reran, with check names, conclusions, logs and synthesised rows drifting between
  them, once as many attempts are recorded as \<open>ci_transient_rerun_max_attempts\<close> it does not rerun again.  (The
  truncated digest of a snapshot's full failure list is assumed not to collide with that of its
  runs.)
\<close>

theorem reruns_bounded:
  assumes "0 \<le> int_at st (ci_transient_rerun_state_key env (head_sha pr) (ci_candidate_failures pr))"
    and "list_all (\<lambda>p. same_failing_run pr p
           \<and> (ci_failures p = ci_candidate_failures p
              \<or> ci_transient_rerun_state_key env (head_sha p) (ci_failures p)
                \<noteq> ci_transient_rerun_state_key env (head_sha p) (ci_candidate_failures p))) prs"
    and "ci_transient_rerun_max_attempts config \<le> int (length prs)"
  shows "decide env now pr
      (fold (\<lambda>p s. snd (ci_transient_rerun_attempt env (head_sha p) (ci_candidate_failures p)
                          (Some (ci_failures p)) s)) prs st) config \<noteq> RerunTransientCI fs"
proof
  let ?st = "fold (rerun_step env) prs st"
  assume "decide env now pr ?st config = RerunTransientCI fs"
  then have "should_rerun_transient_ci env pr ?st config"
    by (rule rerun_decision)
  then have "ci_transient_rerun_count env ?st (head_sha pr) (ci_candidate_failures pr) (Some (ci_failures pr))
      < ci_transient_rerun_max_attempts config"
    by (simp add: should_rerun_transient_ci_def Let_def split: if_splits)
  moreover have "int (length prs) \<le> int_at ?st (run_key env pr)"
    using fold_rerun_counts [OF assms(1,2)] assms(1) by linarith
  ultimately show False
    using rerun_count_ge [of ?st env pr] assms(3) by linarith
qed

theorem reruns_bounded_witness:
  "decide plain_env 0 flaky_pr
      (fold (\<lambda>p s. snd (ci_transient_rerun_attempt plain_env (head_sha p) (ci_candidate_failures p)
                          (Some (ci_failures p)) s)) [flaky_pr, flaky_pr] fresh_state) default_config
     \<noteq> RerunTransientCI [plain_failure (Some ''9'') ''HTTP 502'']"
proof (rule reruns_bounded)
  have "py_int ''0'' = Some 0"
    by code_simp
  then show "0 \<le> int_at fresh_state (ci_transient_rerun_state_key plain_env (head_sha flaky_pr) (ci_candidate_failures flaky_pr))"
    by (simp add: int_at_def fresh_state_def)
  show "list_all (\<lambda>p. same_failing_run flaky_pr p
           \<and> (ci_failures p = ci_candidate_failures p
              \<or> ci_transient_rerun_state_key plain_env (head_sha p) (ci_failures p)
                \<noteq> ci_transient_rerun_state_key plain_env (head_sha p) (ci_candidate_failures p))) [flaky_pr, flaky_pr]"
    by (simp add: same_failing_run_def flaky_pr_def ci_candidate_failures_def ci_failure_is_rerun_candidate_def
        plain_failure_def)
qed (simp add: default_config_def post_init_def)

section \<open>Infrastructure waits\<close>

lemma infra_key: "ci_transient_infra_wait_state_key env sha fs =
    CI_TRANSIENT_INFRA_WAIT_KEY_PREFIX @ drop (length CI_TRANSIENT_RERUN_KEY_PREFIX) (ci_transient_rerun_state_key env sha fs)"
  by (simp add: ci_transient_infra_wait_state_key_def ci_transient_rerun_state_key_def Let_def
      CI_TRANSIENT_RERUN_KEY_PREFIX_def startswith_def)

lemma started_not_count:
  "ci_transient_infra_wait_started_key env sha fs \<noteq> ci_transient_infra_wait_count_key env sha fs"
  by (simp add: ci_transient_infra_wait_started_key_def ci_transient_infra_wait_count_key_def)

lemma record_wait_started:
  "ci_transient_infra_wait_started_at env (snd (record_ci_transient_infra_wait env t sha fs st)) sha fs =
     (case ci_transient_infra_wait_started_at env st sha fs of None \<Rightarrow> py_float (py_fixed6 t) | Some s \<Rightarrow> Some s)"
  by (simp add: record_ci_transient_infra_wait_def ci_transient_infra_wait_started_at_def Let_def started_not_count
      split: option.split prod.split)

lemma fold_record_wait_started:
  "ci_transient_infra_wait_started_at env st sha fs = Some s \<Longrightarrow>
   ci_transient_infra_wait_started_at env (fold (\<lambda>t st. snd (record_ci_transient_infra_wait env t sha fs st)) ts st) sha fs = Some s"
  by (induction ts arbitrary: st) (simp_all add: record_wait_started)

lemma record_wait_count:
  assumes "0 \<le> ci_transient_infra_wait_count env st sha fs"
  shows "ci_transient_infra_wait_count env (snd (record_ci_transient_infra_wait env t sha fs st)) sha fs = ci_transient_infra_wait_count env st sha fs + 1"
proof -
  have "int_at (set_key (ci_transient_infra_wait_started_key env sha fs) x st) (ci_transient_infra_wait_count_key env sha fs)
      = int_at st (ci_transient_infra_wait_count_key env sha fs)" for x
    using started_not_count [of env sha fs] by (simp add: int_at_def)
  then show ?thesis
    using assms by (simp add: record_ci_transient_infra_wait_def ci_transient_infra_wait_count_def Let_def int_at_set split: option.split)
qed

lemma fold_record_wait_count:
  "0 \<le> ci_transient_infra_wait_count env st sha fs \<Longrightarrow>
   ci_transient_infra_wait_count env (fold (\<lambda>t st. snd (record_ci_transient_infra_wait env t sha fs st)) ts st) sha fs
     = ci_transient_infra_wait_count env st sha fs + int (length ts)"
  by (induction ts arbitrary: st) (simp_all add: record_wait_count)

text \<open>
  Property C36: waiting on an exhausted transient CI failure is bounded.  After a first wait recorded at time \<open>t0\<close> and \<open>k\<close> more,
  whenever they were, the monitor starts another wait only before \<open>ci_transient_infra_wait_max_seconds\<close> have passed
  since \<open>t0\<close> (plus the microsecond the stored stamp may be off); that wait is the poll interval doubled \<open>k + 1\<close> times, at most
  thirty, and cut at a positive \<open>ci_transient_infra_wait_max_backoff_seconds\<close>.  The wait is not cut at the time that is
  left: with a positive cap, it ends at most that cap after the limit.
\<close>

theorem infra_wait_bounded:
  assumes "0 \<le> t0" "ci_transient_infra_wait_started_at env st (head_sha pr) (ci_candidate_failures pr) = None"
    and "ci_transient_infra_wait_count env st (head_sha pr) (ci_candidate_failures pr) = 0"
    and "decide env now pr
      (fold (\<lambda>t s. snd (record_ci_transient_infra_wait env t (head_sha pr) (ci_candidate_failures pr) s)) (t0 # ts) st)
      config = WaitForTransientCI fs seconds n"
  defines "cap \<equiv> ci_transient_infra_wait_max_backoff_seconds config"
    and "wait \<equiv> max (poll_interval_seconds config) 0 * 2 ^ min (length ts + 1) 30"
  shows "now < t0 + ci_transient_infra_wait_max_seconds config + 1 / 1000000
    \<and> seconds = (if 0 < cap then min wait cap else wait)
    \<and> (0 < cap \<longrightarrow> now + seconds < t0 + ci_transient_infra_wait_max_seconds config + cap + 1 / 1000000)"
proof -
  let ?rec = "\<lambda>t s. snd (record_ci_transient_infra_wait env t (head_sha pr) (ci_candidate_failures pr) s)"
  let ?st = "fold ?rec (t0 # ts) st"
  note d = wait_decision [OF assms(4)]
  define stamp where "stamp = (of_int (round_half_even (t0 * 1000000)) :: rat) / 1000000"
  have "ci_transient_infra_wait_started_at env ?st (head_sha pr) (ci_candidate_failures pr) = Some stamp"
    using record_wait_started [of env t0 "head_sha pr" "ci_candidate_failures pr" st] assms(2)
    by (simp add: fold_record_wait_started py_float_fixed6 [OF assms(1)] stamp_def)
  then have "now - stamp < ci_transient_infra_wait_max_seconds config"
    using d(1,2) by (simp add: ci_transient_infra_wait_exhausted_def Let_def split: if_splits)
  moreover have "stamp \<le> t0 + 1 / 2000000"
    using abs_le_D1 [OF round_half_even_near [of "t0 * 1000000"]] by (simp add: stamp_def)
  ultimately have start: "now < t0 + ci_transient_infra_wait_max_seconds config + 1 / 1000000"
    by linarith
  have count: "ci_transient_infra_wait_count env ?st (head_sha pr) (ci_candidate_failures pr) = int (length ts + 1)"
    using fold_record_wait_count [of env st "head_sha pr" "ci_candidate_failures pr" "t0 # ts"] assms(3) by simp
  have exponent: "nat (min (max (int (length ts + 1)) 0) 30) = min (length ts + 1) 30"
    by (simp add: min_def nat_eq_iff)
  have "seconds = (if max cap 0 \<le> 0 then wait else if wait < max cap 0 then wait else max cap 0)"
    unfolding d(3) d(1) ci_transient_infra_wait_seconds_def Let_def count exponent wait_def cap_def ..
  then have "seconds = (if 0 < cap then min wait cap else wait)"
    by (auto simp: min_def max_def)
  then show ?thesis
    using start by (simp add: min_def)
qed

text \<open>A wait recorded at time 0 after two recorded reruns.\<close>

definition rerun_spent_state :: MonitorState where
  "rerun_spent_state = set_key (ci_transient_rerun_state_key plain_env ''abc'' (ci_failures flaky_pr)) ''2'' fresh_state"

definition waiting_state :: MonitorState where
  "waiting_state =
     set_key (ci_transient_infra_wait_count_key plain_env ''abc'' (ci_candidate_failures flaky_pr)) ''1''
       (set_key (ci_transient_infra_wait_started_key plain_env ''abc'' (ci_candidate_failures flaky_pr)) ''0.000000''
          rerun_spent_state)"

lemma fixed6_zero: "py_fixed6 0 = ''0.000000''"
proof -
  have "nat_digits 0 = ''0''"
    by code_simp
  moreover have "pad_digits 6 0 = ''000000''"
    by code_simp
  ultimately show ?thesis
    by (simp add: py_fixed6_def round_half_even_def)
qed

lemma rerun_spent_no_wait:
  "ci_transient_infra_wait_started_at plain_env rerun_spent_state (head_sha flaky_pr) (ci_candidate_failures flaky_pr) = None"
  by code_simp

lemma waiting_state_recorded:
  "fold (\<lambda>t s. snd (record_ci_transient_infra_wait plain_env t (head_sha flaky_pr) (ci_candidate_failures flaky_pr) s))
     [0] rerun_spent_state = waiting_state"
proof -
  have sha: "head_sha flaky_pr = ''abc''"
    by (simp add: flaky_pr_def green_status_def)
  have "ci_transient_infra_wait_count plain_env
      (set_key (ci_transient_infra_wait_started_key plain_env ''abc'' (ci_candidate_failures flaky_pr)) ''0.000000'' rerun_spent_state)
      ''abc'' (ci_candidate_failures flaky_pr) = 0" "py_str_int 1 = ''1''"
    by code_simp+
  then show ?thesis
    using rerun_spent_no_wait
    by (simp add: record_ci_transient_infra_wait_def Let_def sha fixed6_zero waiting_state_def)
qed

lemma waiting_decision:
  "decide plain_env 200 flaky_pr waiting_state default_config
     = WaitForTransientCI [plain_failure (Some ''9'') ''HTTP 502''] 120 2"
  by code_simp

lemma rerun_spent_no_count:
  "ci_transient_infra_wait_count plain_env rerun_spent_state (head_sha flaky_pr) (ci_candidate_failures flaky_pr) = 0"
  by code_simp

theorem infra_wait_bounded_witness:
  "decide plain_env 200 flaky_pr waiting_state default_config = WaitForTransientCI [plain_failure (Some ''9'') ''HTTP 502''] 120 2
   \<and> (120 :: rat) = min (60 * 2 ^ 1) (ci_transient_infra_wait_max_backoff_seconds default_config)
   \<and> (200 :: rat) < ci_transient_infra_wait_max_seconds default_config + 1 / 1000000"
proof -
  have "poll_interval_seconds default_config = 60" "0 < ci_transient_infra_wait_max_backoff_seconds default_config"
    by (simp_all add: default_config_def post_init_def)
  then show ?thesis
    using infra_wait_bounded [OF order.refl rerun_spent_no_wait rerun_spent_no_count waiting_decision [folded waiting_state_recorded]] waiting_decision
    by simp
qed

text \<open>A wait that starts a second before the limit runs past it.\<close>

lemma infra_wait_overruns:
  "decide plain_env 1799 flaky_pr waiting_state default_config = WaitForTransientCI [plain_failure (Some ''9'') ''HTTP 502''] 120 2
   \<and> ci_transient_infra_wait_max_seconds default_config < 1799 + 120"
proof
  show "decide plain_env 1799 flaky_pr waiting_state default_config = WaitForTransientCI [plain_failure (Some ''9'') ''HTTP 502''] 120 2"
    by code_simp
qed (simp add: default_config_def post_init_def)

section \<open>The merge-block attention marker\<close>

text \<open>
  With the default configuration coupling, a merge-block marker stamped at time \<open>t\<close> is reported as
  active, and left in place, until two poll intervals have passed; from then on it is reported
  as resolved, and exactly the marker and its origin are dropped from the state.
\<close>

theorem merge_block_attention_ages_out:
  assumes "from_iso_format env (iso_format env (Aware t)) = Some (Aware t)"
    and "iso_format env (Aware t) \<noteq> []" "iso_format env (Aware t) \<noteq> ''1''"
    and "merge_block_attention_ttl_seconds config = None"
    and "marked = mark_merge_block_attention env t rejected st"
  shows "merge_block_attention_active env now (merge_block_attention_ttl_seconds (post_init config)) marked =
      (if of_int (now - t) \<le> 2 * poll_interval_seconds config * 1000000 then (True, marked)
       else (False, clear_merge_block_attention marked))
    \<and> threads_addressed_ids (clear_merge_block_attention marked) =
        threads_addressed_ids st |` (- {MERGE_BLOCK_ATTENTION_STATE_KEY, MERGE_BLOCK_ATTENTION_ORIGIN_STATE_KEY})"
proof
  have keys: "MERGE_BLOCK_ATTENTION_STATE_KEY \<noteq> MERGE_BLOCK_ATTENTION_ORIGIN_STATE_KEY"
    by (simp add: MERGE_BLOCK_ATTENTION_STATE_KEY_def MERGE_BLOCK_ATTENTION_ORIGIN_STATE_KEY_def)
  then have "threads_addressed_ids marked MERGE_BLOCK_ATTENTION_STATE_KEY = Some (iso_format env (Aware t))"
    by (simp add: assms(5) mark_merge_block_attention_def Let_def)
  then show "merge_block_attention_active env now (merge_block_attention_ttl_seconds (post_init config)) marked =
      (if of_int (now - t) \<le> 2 * poll_interval_seconds config * 1000000 then (True, marked)
       else (False, clear_merge_block_attention marked))"
    using assms(1-4) by (simp add: merge_block_attention_active_def post_init_def as_utc_def divide_le_eq)
  show "threads_addressed_ids (clear_merge_block_attention marked) =
      threads_addressed_ids st |` (- {MERGE_BLOCK_ATTENTION_STATE_KEY, MERGE_BLOCK_ATTENTION_ORIGIN_STATE_KEY})"
    by (auto simp: assms(5) mark_merge_block_attention_def clear_merge_block_attention_def Let_def restrict_map_def)
qed

theorem merge_block_attention_ages_out_witness:
  "merge_block_attention_active plain_env 500000000
     (merge_block_attention_ttl_seconds (post_init (default_config\<lparr>merge_block_attention_ttl_seconds := None\<rparr>)))
     (mark_merge_block_attention plain_env 7 True fresh_state)
   = (False, clear_merge_block_attention (mark_merge_block_attention plain_env 7 True fresh_state))"
proof -
  have "iso_format plain_env (Aware 7) = ''a7''" "from_iso_format plain_env ''a7'' = Some (Aware 7)"
    by code_simp+
  then show ?thesis
    using merge_block_attention_ages_out [of plain_env 7 "default_config\<lparr>merge_block_attention_ttl_seconds := None\<rparr>"
        "mark_merge_block_attention plain_env 7 True fresh_state" True fresh_state 500000000]
    by (simp add: default_config_def post_init_def)
qed

end
