(* ===== verification/Scheduler.thy ===== *)
theory Scheduler
  imports Rows "HOL-Library.AList" "HOL-Library.Product_Lexorder"
begin

text \<open>
  Scheduler scoring (\<open>service/scheduler.py\<close>): the priority tables, the bounded policy fields, the age boost,
  the score of a queued workspace with its explanation, and the order of the queue.  A Python dict that is
  built and then updated is an association list under \<open>AList.update\<close> (a new key goes to the end, an
  existing one keeps its place).  \<open>sched_env\<close> carries what the code takes from the Python run time:
  \<open>datetime.isoformat\<close> on UTC values, \<open>datetime.fromisoformat\<close>, \<open>sys.get_int_max_str_digits()\<close> (0: no
  limit); and from the databases: the text of the JSON column for floats, arrays and objects, the epoch
  seconds of SQLite's \<open>strftime('%s', t)\<close>, and the integer reading of a JSON value on any other dialect.  \<open>new_decision_id n\<close> is the identifier generated
  for the queue decision that is added when the table holds \<open>n\<close> rows.
\<close>

record sched_env =
  iso_utc :: "instant \<Rightarrow> string"
  from_iso :: "string \<Rightarrow> py_datetime option"
  max_str_digits :: nat
  json_column_text :: "json \<Rightarrow> string"
  sqlite_epoch :: "instant \<Rightarrow> int"
  json_as_integer :: "json option \<Rightarrow> int option"
  new_decision_id :: "nat \<Rightarrow> string"

section \<open>Constants\<close>

definition SCHEDULER_POLICY_KEY :: string where
  "SCHEDULER_POLICY_KEY = ''scheduler''"

definition AGE_BOOST_INTERVAL_SECONDS :: int where
  "AGE_BOOST_INTERVAL_SECONDS = 15 * 60"

definition AGE_BOOST_MAX :: int where
  "AGE_BOOST_MAX = 12"

definition RETRY_BONUS_INFRASTRUCTURE_FAILURE :: int where
  "RETRY_BONUS_INFRASTRUCTURE_FAILURE = 3"

definition HUMAN_BOOST_MAX :: int where
  "HUMAN_BOOST_MAX = 5"

definition TASK_CLASS_PRIORITIES :: "(string \<times> int) list" where
  "TASK_CLASS_PRIORITIES =
     [(''migration_task'', 5), (''dependency_task'', 4), (''build_config_task'', 3), (''refactor_task'', 2),
      (''test_task'', 1), (''docs_task'', 0)]"

definition TASK_CLASS_BIASES :: "(string \<times> int) list" where
  "TASK_CLASS_BIASES =
     [(''migration_task'', 15), (''dependency_task'', 12), (''build_config_task'', 10), (''refactor_task'', 4),
      (''test_task'', 2), (''docs_task'', 0)]"

section \<open>Scores\<close>

record SchedulerScoreInput =
  in_workspace_id :: string
  in_task_class :: "string option"
  in_base_priority :: int
  in_queued_at :: instant
  in_human_boost :: int
  in_parent_failure_reason :: "string option"
  in_retry_attempt_number :: "int option"
  in_provider_not_before :: "instant option"

record SchedulerScore =
  score_workspace_id :: string
  score_task_class :: "string option"
  class_priority :: int
  base_priority :: int
  class_bias :: int
  age_boost :: int
  retry_bonus :: int
  human_boost :: int
  effective_score :: int
  queued_at :: instant
  score_summary :: "(string \<times> json) list"

record SchedulerOrderCursor =
  cur_class_priority :: int
  cur_effective_score :: int
  cur_queued_at :: instant
  cur_workspace_id :: string
  cur_scoring_at :: instant

definition task_class_priority :: "string option \<Rightarrow> int" where
  "task_class_priority tc =
     (case map_of TASK_CLASS_PRIORITIES (case tc of None \<Rightarrow> [] | Some c \<Rightarrow> c) of None \<Rightarrow> 0 | Some v \<Rightarrow> v)"

definition task_class_bias :: "string option \<Rightarrow> int" where
  "task_class_bias tc =
     (case map_of TASK_CLASS_BIASES (case tc of None \<Rightarrow> [] | Some c \<Rightarrow> c) of None \<Rightarrow> 0 | Some v \<Rightarrow> v)"

definition bounded_int :: "int \<Rightarrow> int \<Rightarrow> int \<Rightarrow> int" where
  "bounded_int v lower upper = min (max v lower) upper"

text \<open>
  \<open>int((now - queued_at).total_seconds())\<close> drops the fraction towards zero; negative waits become 0.
\<close>

definition trunc_seconds :: "int \<Rightarrow> int" where
  "trunc_seconds us = (if 0 \<le> us then us div 1000000 else - ((- us) div 1000000))"

definition age_boost_of :: "instant \<Rightarrow> instant \<Rightarrow> int" where
  "age_boost_of queued now =
     (let wait_seconds = max 0 (trunc_seconds (now - queued)) in
      min \<lfloor>of_int wait_seconds / of_int AGE_BOOST_INTERVAL_SECONDS :: rat\<rfloor> AGE_BOOST_MAX)"

definition scheduler_policy_snapshot :: "int \<Rightarrow> int \<Rightarrow> (string \<times> int) list" where
  "scheduler_policy_snapshot base human =
     [(''base_priority'', bounded_int base 0 100), (''human_boost'', bounded_int human 0 HUMAN_BOOST_MAX)]"

definition entries :: "json option \<Rightarrow> (string \<times> json) list" where
  "entries j = (case j of Some (JObj kvs) \<Rightarrow> kvs | _ \<Rightarrow> [])"

definition scheduler_retry_policy_context :: "json option \<Rightarrow> string \<Rightarrow> string option \<Rightarrow> json" where
  "scheduler_retry_policy_context policy source_workspace_id parent_reason =
     (let updated = entries policy;
          sp = entries (json_get SCHEDULER_POLICY_KEY (JObj updated));
          sp1 = AList.update ''source_workspace_id'' (JStr source_workspace_id) sp;
          sp2 = (case parent_reason of None \<Rightarrow> sp1
                 | Some r \<Rightarrow> AList.update ''parent_failure_reason'' (JStr r) sp1) in
      JObj (AList.update SCHEDULER_POLICY_KEY (JObj sp2) updated))"

definition opt_str :: "string option \<Rightarrow> json" where
  "opt_str v = (case v of None \<Rightarrow> JNull | Some s \<Rightarrow> JStr s)"

definition retry_context :: "SchedulerScoreInput \<Rightarrow> (string \<times> json) list" where
  "retry_context i =
     (case in_parent_failure_reason i of None \<Rightarrow> [] | Some r \<Rightarrow> [(''parent_failure_reason'', JStr r)])
     @ (case in_retry_attempt_number i of None \<Rightarrow> [] | Some n \<Rightarrow> [(''retry_attempt_number'', JInt n)])"

text \<open>The constants \<open>FailureReason.infrastructure_failure.value\<close> and the suppression reason.\<close>

definition compute_scheduler_score :: "sched_env \<Rightarrow> SchedulerScoreInput \<Rightarrow> instant \<Rightarrow> SchedulerScore" where
  "compute_scheduler_score env i now =
     (let cp = task_class_priority (in_task_class i);
          cb = task_class_bias (in_task_class i);
          bp = bounded_int (in_base_priority i) 0 100;
          ab = age_boost_of (in_queued_at i) now;
          rb = (if in_parent_failure_reason i = Some ''infrastructure_failure''
                then RETRY_BONUS_INFRASTRUCTURE_FAILURE else 0);
          hb = bounded_int (in_human_boost i) 0 HUMAN_BOOST_MAX;
          eff = bp + cb + ab + rb + hb;
          ordering_tuple =
            JObj [(''class_priority'', JInt cp), (''effective_score'', JInt eff),
                  (''queued_at'', JStr (iso_utc env (in_queued_at i))), (''workspace_id'', JStr (in_workspace_id i))];
          summary =
            [(''workspace_id'', JStr (in_workspace_id i)), (''task_class'', opt_str (in_task_class i)),
             (''base_priority'', JInt bp), (''class_priority'', JInt cp), (''class_bias'', JInt cb),
             (''age_boost'', JInt ab), (''retry_bonus'', JInt rb), (''human_boost'', JInt hb),
             (''effective_score'', JInt eff), (''queued_at'', JStr (iso_utc env (in_queued_at i))),
             (''computed_at'', JStr (iso_utc env now)), (''ordering_tuple'', ordering_tuple),
             (''suppression'', JObj [(''suppressed'', JBool False)])];
          summary1 = (if retry_context i = [] then summary
                      else AList.update ''retry'' (JObj (retry_context i)) summary);
          summary2 = (case in_provider_not_before i of
                        None \<Rightarrow> summary1
                      | Some nb \<Rightarrow>
                          if now < nb
                          then AList.update ''suppression''
                                 (JObj [(''suppressed'', JBool True), (''reason_code'', JStr ''PROVIDER_RECOVERY_NOT_BEFORE''),
                                        (''not_before'', JStr (iso_utc env nb))]) summary1
                          else summary1) in
      \<lparr>score_workspace_id = in_workspace_id i, score_task_class = in_task_class i, class_priority = cp,
       base_priority = bp, class_bias = cb, age_boost = ab, retry_bonus = rb, human_boost = hb,
       effective_score = eff, queued_at = in_queued_at i, score_summary = summary2\<rparr>)"

text \<open>The Python sort key, a tuple compared lexicographically.\<close>

type_synonym order_key = "int \<times> int \<times> instant \<times> string"

definition scheduler_order_key :: "SchedulerScore \<Rightarrow> order_key" where
  "scheduler_order_key s = (- class_priority s, - effective_score s, queued_at s, score_workspace_id s)"

section \<open>Reading the task policy\<close>

text \<open>\<open>^-?[0-9]+(\.0+)?$\<close> against the whole text.\<close>

definition policy_int_text :: "string \<Rightarrow> bool" where
  "policy_int_text s =
     (case py_split CHR ''.'' (if startswith s ''-'' then tl s else s) of
        [w] \<Rightarrow> w \<noteq> [] \<and> list_all is_digit w
      | [w, f] \<Rightarrow> w \<noteq> [] \<and> list_all is_digit w \<and> f \<noteq> [] \<and> list_all (\<lambda>c. c = CHR ''0'') f
      | _ \<Rightarrow> False)"

text \<open>\<open>int(text)\<close> with the interpreter's limit on the number of digits.\<close>

definition int_within_limit :: "nat \<Rightarrow> string \<Rightarrow> int option" where
  "int_within_limit limit s =
     (if 0 < limit \<and> limit < length (filter is_digit s) then None else py_int s)"

definition policy_int :: "sched_env \<Rightarrow> json \<Rightarrow> string \<Rightarrow> int \<Rightarrow> int" where
  "policy_int env m key fallback =
     (case json_get key m of
        Some (JInt v) \<Rightarrow> v
      | Some (JFloat x) \<Rightarrow> if of_int \<lfloor>x\<rfloor> = x then \<lfloor>x\<rfloor> else fallback
      | Some (JStr value) \<Rightarrow>
          (let stripped = py_strip value in
           if \<not> policy_int_text stripped then fallback
           else (let whole = (if CHR ''.'' \<in> set stripped then hd (py_split CHR ''.'' stripped) else stripped) in
                 case int_within_limit (max_str_digits env) whole of None \<Rightarrow> fallback | Some v \<Rightarrow> v))
      | _ \<Rightarrow> fallback)"

definition optional_policy_int :: "sched_env \<Rightarrow> json \<Rightarrow> string \<Rightarrow> int option \<Rightarrow> int option" where
  "optional_policy_int env m key fallback =
     (if json_get key m = None then fallback
      else Some (policy_int env m key (case fallback of None \<Rightarrow> 0 | Some v \<Rightarrow> v)))"

definition policy_str :: "json \<Rightarrow> string \<Rightarrow> string option \<Rightarrow> string option" where
  "policy_str m key fallback =
     (case json_get key m of
        Some (JStr s) \<Rightarrow> if py_strip s \<noteq> [] then Some (py_strip s) else fallback
      | _ \<Rightarrow> fallback)"

definition parse_datetime :: "sched_env \<Rightarrow> string option \<Rightarrow> instant option" where
  "parse_datetime env v = (case v of None \<Rightarrow> None | Some s \<Rightarrow> map_option as_utc (from_iso env s))"

definition mapping_at :: "string \<Rightarrow> json \<Rightarrow> json" where
  "mapping_at k j = JObj (entries (json_get k j))"

definition scheduler_score_input_from_workspace :: "sched_env \<Rightarrow> Workspace \<Rightarrow> SchedulerScoreInput" where
  "scheduler_score_input_from_workspace env w =
     (let tp = JObj (entries (Some (task_policy w)));
          sp = mapping_at SCHEDULER_POLICY_KEY tp;
          rs = mapping_at ''provider_recovery_state'' tp in
      \<lparr>in_workspace_id = ws_id w, in_task_class = task_class w,
       in_base_priority = policy_int env sp ''base_priority'' (policy_int env tp ''priority'' 0),
       in_queued_at = created_at w,
       in_human_boost = policy_int env sp ''human_boost''
                          (policy_int env sp ''human_escalation_boost'' (policy_int env tp ''human_boost'' 0)),
       in_parent_failure_reason = policy_str sp ''parent_failure_reason'' (policy_str rs ''parent_failure_reason'' None),
       in_retry_attempt_number = optional_policy_int env sp ''retry_attempt_number''
                                   (optional_policy_int env rs ''retry_attempt_number'' None),
       in_provider_not_before = parse_datetime env (policy_str rs ''not_before'' None)\<rparr>)"

definition scheduler_score_from_workspace :: "sched_env \<Rightarrow> Workspace \<Rightarrow> instant \<Rightarrow> SchedulerScore" where
  "scheduler_score_from_workspace env w now =
     compute_scheduler_score env (scheduler_score_input_from_workspace env w) now"

definition score_summary_with_suppression ::
    "SchedulerScore \<Rightarrow> string \<Rightarrow> (string \<times> json) list \<Rightarrow> (string \<times> json) list" where
  "score_summary_with_suppression s reason_code detail =
     AList.update ''suppression''
       (JObj (foldl (\<lambda>m (k, v). AList.update k v m)
                [(''suppressed'', JBool True), (''reason_code'', JStr reason_code)] detail))
       (score_summary s)"

section \<open>Ordering workspaces\<close>

text \<open>The key of a workspace in the queue at a scoring time.\<close>

definition queue_key :: "sched_env \<Rightarrow> instant \<Rightarrow> Workspace \<Rightarrow> order_key" where
  "queue_key env now w = scheduler_order_key (scheduler_score_from_workspace env w now)"

definition order_scheduler_workspaces :: "sched_env \<Rightarrow> Workspace list \<Rightarrow> instant \<Rightarrow> Workspace list" where
  "order_scheduler_workspaces env ws now = sort_key (queue_key env now) ws"

definition scheduler_candidate_fetch_limit :: "int \<Rightarrow> int" where
  "scheduler_candidate_fetch_limit limit =
     (if limit \<le> 0 then 0 else max limit (min 250 (min (limit + 16) (limit * 4))))"

section \<open>An environment for the examples\<close>

definition plain_sched_env :: sched_env where
  "plain_sched_env =
     \<lparr>iso_utc = (\<lambda>t. CHR ''a'' # py_str_int t),
      from_iso = (\<lambda>s. case s of [] \<Rightarrow> None | c # r \<Rightarrow> if c = CHR ''a'' then map_option Aware (py_int r) else None),
      max_str_digits = 4300, json_column_text = (\<lambda>_. ''{}''), sqlite_epoch = (\<lambda>t. t div 1000000),
      json_as_integer = (\<lambda>_. None), new_decision_id = (\<lambda>n. py_str_int (int n))\<rparr>"

section \<open>Facts\<close>

lemma bounded_int_range: "l \<le> u \<Longrightarrow> l \<le> bounded_int v l u \<and> bounded_int v l u \<le> u"
  by (auto simp: bounded_int_def)

lemma bounded_int_mono: "v \<le> v' \<Longrightarrow> bounded_int v l u \<le> bounded_int v' l u"
  by (auto simp: bounded_int_def)

lemma floor_intervals: "\<lfloor>(of_int a :: rat) / 900\<rfloor> = a div 900"
  using floor_divide_of_int_eq [of a 900, where ?'a = rat] by simp

text \<open>The age boost in whole microseconds: one step per 15 minutes.\<close>

lemma age_boost_eq: "age_boost_of q now = min (max 0 (now - q) div 900000000) 12"
proof (cases "q \<le> now")
  case True
  then have "0 \<le> (now - q) div 1000000"
    by (simp add: pos_imp_zdiv_nonneg_iff)
  moreover have "(now - q) div 1000000 div 900 = (now - q) div 900000000"
    by (simp add: zdiv_zmult2_eq [symmetric])
  ultimately show ?thesis
    using True by (simp add: age_boost_of_def Let_def floor_intervals AGE_BOOST_INTERVAL_SECONDS_def
        AGE_BOOST_MAX_def trunc_seconds_def)
next
  case False
  then have "0 \<le> (q - now) div 1000000"
    by (simp add: pos_imp_zdiv_nonneg_iff)
  then show ?thesis
    using False by (simp add: age_boost_of_def Let_def floor_intervals AGE_BOOST_INTERVAL_SECONDS_def
        AGE_BOOST_MAX_def trunc_seconds_def)
qed

lemma age_boost_range: "0 \<le> age_boost_of q now \<and> age_boost_of q now \<le> 12"
  by (simp add: age_boost_eq pos_imp_zdiv_nonneg_iff)

lemma le_div_iff_mult_le:
  fixes x c b :: int
  assumes "0 < c"
  shows "b \<le> x div c \<longleftrightarrow> b * c \<le> x"
proof
  assume "b \<le> x div c"
  then have "b * c \<le> x div c * c"
    using assms by (simp add: mult_right_mono)
  then show "b * c \<le> x"
    using pos_mod_sign [OF assms, of x] div_mult_mod_eq [of x c] by linarith
next
  assume "b * c \<le> x"
  from zdiv_mono1 [OF this assms] show "b \<le> x div c"
    using assms by simp
qed

lemma age_boost_threshold:
  assumes "1 \<le> b" and "b \<le> 12"
  shows "b \<le> age_boost_of q now \<longleftrightarrow> q \<le> now - b * 900000000"
proof -
  have "b \<le> max 0 (now - q) div 900000000 \<longleftrightarrow> b * 900000000 \<le> max 0 (now - q)"
    by (rule le_div_iff_mult_le) simp
  then show ?thesis
    using assms by (auto simp: age_boost_eq)
qed

end
