(* ===== verification/Scheduler_SQL.thy ===== *)
theory Scheduler_SQL
  imports Scheduler Claims
begin

text \<open>
  The scheduler's queries: the SQL expressions that rank workspaces in the database
  (\<open>db/repositories/_scheduler.py\<close>), candidate selection with keyset pagination
  (\<open>db/repositories/workspace_repo_scheduler.py\<close>) and the page cursor
  (\<open>control/worker/scheduling.py\<close>).  A statement is a function of the table's rows; an expression over a
  nullable column is an \<open>option\<close>.  Strings compare by code point, as in Python and under the C collation.
  Rows locked by other transactions (\<open>SKIP LOCKED\<close>, PostgreSQL only) are the predicate \<open>locked\<close>.
\<close>

datatype dialect = PostgreSQL | SQLite | OtherDialect

datatype sched_error = ValueError string

section \<open>JSON fields in SQL\<close>

fun json_path :: "string list \<Rightarrow> json \<Rightarrow> json option" where
  "json_path [] j = Some j"
| "json_path (k # ks) j = (case json_get k j of None \<Rightarrow> None | Some v \<Rightarrow> json_path ks v)"

text \<open>\<open>as_string()\<close> on PostgreSQL: the operator \<open>->>\<close>.\<close>

definition json_text :: "sched_env \<Rightarrow> json \<Rightarrow> string option" where
  "json_text env j =
     (case j of
        JNull \<Rightarrow> None
      | JBool b \<Rightarrow> Some (if b then ''true'' else ''false'')
      | JInt i \<Rightarrow> Some (py_str_int i)
      | JStr s \<Rightarrow> Some s
      | _ \<Rightarrow> Some (json_column_text env j))"

definition scheduler_json_string_expr :: "sched_env \<Rightarrow> string list \<Rightarrow> Workspace \<Rightarrow> string option" where
  "scheduler_json_string_expr env path w =
     (case Option.bind (json_path path (task_policy w)) (json_text env) of
        None \<Rightarrow> None
      | Some t \<Rightarrow> if sql_trim t = [] then None else Some (sql_trim t))"

definition bounded_scheduler_int_expr :: "int \<Rightarrow> int \<Rightarrow> int \<Rightarrow> int" where
  "bounded_scheduler_int_expr v lower upper = (if v < lower then lower else if upper < v then upper else v)"

definition POSTGRES_INTEGER_MIN :: int where
  "POSTGRES_INTEGER_MIN = - (2 ^ 31)"

definition POSTGRES_INTEGER_MAX :: int where
  "POSTGRES_INTEGER_MAX = 2 ^ 31 - 1"

text \<open>The number written by a text that matches the integer pattern (\<open>CAST(... AS NUMERIC)\<close>).\<close>

definition numeric_text :: "string \<Rightarrow> int" where
  "numeric_text t = (case py_int (hd (py_split CHR ''.'' t)) of None \<Rightarrow> 0 | Some v \<Rightarrow> v)"

definition whole_digits :: "string \<Rightarrow> nat" where
  "whole_digits t = length (filter (\<lambda>c. c \<noteq> CHR ''-'') (hd (py_split CHR ''.'' t)))"

definition postgres_json_int :: "sched_env \<Rightarrow> string list \<Rightarrow> Workspace \<Rightarrow> int option" where
  "postgres_json_int env path w =
     (case scheduler_json_string_expr env path w of
        None \<Rightarrow> None
      | Some t \<Rightarrow>
          if policy_int_text t \<and> (0 < max_str_digits env \<longrightarrow> whole_digits t \<le> max_str_digits env)
          then Some (bounded_scheduler_int_expr (numeric_text t) POSTGRES_INTEGER_MIN POSTGRES_INTEGER_MAX)
          else None)"

text \<open>SQLite: \<open>CAST(... AS INTEGER)\<close> saturates at the 64-bit range and drops a fraction towards zero.\<close>

definition int64 :: "int \<Rightarrow> int" where
  "int64 v = bounded_scheduler_int_expr v (- (2 ^ 63)) (2 ^ 63 - 1)"

definition rat_trunc :: "rat \<Rightarrow> int" where
  "rat_trunc x = (if 0 \<le> x then \<lfloor>x\<rfloor> else \<lceil>x\<rceil>)"

definition sqlite_integer_valued_text :: "string \<Rightarrow> bool" where
  "sqlite_integer_valued_text t =
     (let whole = takeWhile (\<lambda>c. c \<noteq> CHR ''.'') t; has_point = (CHR ''.'' \<in> set t);
          fraction = tl (dropWhile (\<lambda>c. c \<noteq> CHR ''.'') t);
          unsigned = (whole \<noteq> [] \<and> is_digit (hd whole) \<and> list_all is_digit whole);
          signed = (startswith whole ''-'' \<and> tl whole \<noteq> [] \<and> is_digit (hd (tl whole)) \<and> list_all is_digit (tl whole)) in
      (unsigned \<or> signed)
      \<and> (\<not> has_point \<or> (fraction \<noteq> [] \<and> list_all (\<lambda>c. c = CHR ''0'') fraction)))"

definition sqlite_json_int :: "sched_env \<Rightarrow> string list \<Rightarrow> Workspace \<Rightarrow> int option" where
  "sqlite_json_int env path w =
     (case json_path path (task_policy w) of
        Some (JInt v) \<Rightarrow> Some (int64 v)
      | Some (JFloat x) \<Rightarrow> if of_int (int64 (rat_trunc x)) = x then Some (int64 (rat_trunc x)) else None
      | Some (JStr s) \<Rightarrow>
          (let t = sql_trim s in
           if sqlite_integer_valued_text t \<and> (0 < max_str_digits env \<longrightarrow> whole_digits t \<le> max_str_digits env)
           then Some (int64 (numeric_text t)) else None)
      | _ \<Rightarrow> None)"

definition scheduler_json_int_expr :: "sched_env \<Rightarrow> dialect \<Rightarrow> string list \<Rightarrow> Workspace \<Rightarrow> int option" where
  "scheduler_json_int_expr env d path w =
     (case d of PostgreSQL \<Rightarrow> postgres_json_int env path w
      | SQLite \<Rightarrow> sqlite_json_int env path w
      | OtherDialect \<Rightarrow> json_as_integer env (json_path path (task_policy w)))"

section \<open>Order expressions\<close>

definition postgresql_scheduler_age_boost_expr :: "instant \<Rightarrow> instant \<Rightarrow> int" where
  "postgresql_scheduler_age_boost_expr scoring created =
     (case find (\<lambda>boost. created \<le> scoring - boost * AGE_BOOST_INTERVAL_SECONDS * 1000000) (rev [1..AGE_BOOST_MAX]) of
        None \<Rightarrow> 0 | Some boost \<Rightarrow> boost)"

definition sqlite_scheduler_age_boost_expr :: "sched_env \<Rightarrow> instant \<Rightarrow> instant \<Rightarrow> int" where
  "sqlite_scheduler_age_boost_expr env scoring created =
     (let wait_seconds = sqlite_epoch env scoring - sqlite_epoch env created;
          intervals = rat_trunc (of_int wait_seconds / of_int AGE_BOOST_INTERVAL_SECONDS) in
      bounded_scheduler_int_expr intervals 0 AGE_BOOST_MAX)"

definition scheduler_age_boost_expr :: "sched_env \<Rightarrow> dialect \<Rightarrow> instant \<Rightarrow> Workspace \<Rightarrow> int" where
  "scheduler_age_boost_expr env d scoring w =
     (case d of PostgreSQL \<Rightarrow> postgresql_scheduler_age_boost_expr scoring (created_at w)
      | SQLite \<Rightarrow> sqlite_scheduler_age_boost_expr env scoring (created_at w)
      | OtherDialect \<Rightarrow> bounded_scheduler_int_expr 0 0 AGE_BOOST_MAX)"

definition task_class_case :: "(string \<times> int) list \<Rightarrow> Workspace \<Rightarrow> int" where
  "task_class_case values w =
     (case task_class w of None \<Rightarrow> 0 | Some c \<Rightarrow> (case map_of values c of None \<Rightarrow> 0 | Some v \<Rightarrow> v))"

fun coalesce :: "'a option list \<Rightarrow> 'a \<Rightarrow> 'a" where
  "coalesce [] z = z"
| "coalesce (None # xs) z = coalesce xs z"
| "coalesce (Some v # xs) z = v"

record SchedulerOrderExpressions =
  expr_class_priority :: int
  expr_effective_score :: int

definition scheduler_order_expressions :: "sched_env \<Rightarrow> dialect \<Rightarrow> instant \<Rightarrow> Workspace \<Rightarrow> SchedulerOrderExpressions" where
  "scheduler_order_expressions env d scoring w =
     (let base = bounded_scheduler_int_expr
                   (coalesce [scheduler_json_int_expr env d [SCHEDULER_POLICY_KEY, ''base_priority''] w,
                              scheduler_json_int_expr env d [''priority''] w] 0) 0 100;
          human = bounded_scheduler_int_expr
                    (coalesce [scheduler_json_int_expr env d [SCHEDULER_POLICY_KEY, ''human_boost''] w,
                               scheduler_json_int_expr env d [SCHEDULER_POLICY_KEY, ''human_escalation_boost''] w,
                               scheduler_json_int_expr env d [''human_boost''] w] 0) 0 HUMAN_BOOST_MAX;
          parent = (case scheduler_json_string_expr env [SCHEDULER_POLICY_KEY, ''parent_failure_reason''] w of
                      Some r \<Rightarrow> Some r
                    | None \<Rightarrow> scheduler_json_string_expr env [''provider_recovery_state'', ''parent_failure_reason''] w);
          retry = (if parent = Some ''infrastructure_failure'' then RETRY_BONUS_INFRASTRUCTURE_FAILURE else 0);
          age = scheduler_age_boost_expr env d scoring w in
      \<lparr>expr_class_priority = task_class_case TASK_CLASS_PRIORITIES w,
       expr_effective_score = base + task_class_case TASK_CLASS_BIASES w + age + retry + human\<rparr>)"

definition sql_order_key :: "sched_env \<Rightarrow> dialect \<Rightarrow> instant \<Rightarrow> Workspace \<Rightarrow> order_key" where
  "sql_order_key env d scoring w =
     (let e = scheduler_order_expressions env d scoring w in
      (- expr_class_priority e, - expr_effective_score e, created_at w, ws_id w))"

text \<open>The cursor's rank is read again from its row, if the row still exists.\<close>

definition scheduler_cursor_order_expressions ::
    "sched_env \<Rightarrow> dialect \<Rightarrow> database \<Rightarrow> SchedulerOrderCursor \<Rightarrow> SchedulerOrderExpressions" where
  "scheduler_cursor_order_expressions env d db after =
     (case workspaces db (cur_workspace_id after) of
        Some w \<Rightarrow> scheduler_order_expressions env d (cur_scoring_at after) w
      | None \<Rightarrow> \<lparr>expr_class_priority = cur_class_priority after, expr_effective_score = cur_effective_score after\<rparr>)"

definition scheduler_after_cursor_condition ::
    "sched_env \<Rightarrow> dialect \<Rightarrow> database \<Rightarrow> instant \<Rightarrow> SchedulerOrderCursor \<Rightarrow> Workspace \<Rightarrow> bool" where
  "scheduler_after_cursor_condition env d db scoring after w =
     (let e = scheduler_order_expressions env d scoring w; c = scheduler_cursor_order_expressions env d db after in
      expr_class_priority e < expr_class_priority c
      \<or> (expr_class_priority e = expr_class_priority c \<and> expr_effective_score e < expr_effective_score c)
      \<or> (expr_class_priority e = expr_class_priority c \<and> expr_effective_score e = expr_effective_score c
         \<and> cur_queued_at after < created_at w)
      \<or> (expr_class_priority e = expr_class_priority c \<and> expr_effective_score e = expr_effective_score c
         \<and> created_at w = cur_queued_at after \<and> cur_workspace_id after < ws_id w))"

section \<open>Scope of a query\<close>

definition unavailable_execution_claim_condition :: "instant \<Rightarrow> string list option \<Rightarrow> Workspace \<Rightarrow> bool" where
  "unavailable_execution_claim_condition cutoff fresh w =
     (stale_execution_claim cutoff w
      \<or> (case fresh of None \<Rightarrow> False
         | Some ids \<Rightarrow> (case execution_claimed_by w of None \<Rightarrow> False | Some o' \<Rightarrow> o' \<notin> set ids)))"

text \<open>\<open>ORDER BY reserved_at DESC, id DESC LIMIT 1\<close> over the active reservations of a workspace.\<close>

definition latest_active :: "string \<Rightarrow> database \<Rightarrow> ResourceReservation option" where
  "latest_active wid db =
     (case sort_key (\<lambda>r. (rr_reserved_at r, rr_id r))
             (filter (\<lambda>r. rr_workspace_id r = wid \<and> released_at r = None) (reservations db)) of
        [] \<Rightarrow> None | r # rs \<Rightarrow> Some (last (r # rs)))"

definition latest_active_resource_reservation_node_id_expr :: "string \<Rightarrow> database \<Rightarrow> string option" where
  "latest_active_resource_reservation_node_id_expr wid db = Option.bind (latest_active wid db) rr_node_id"

definition legacy_local_reservation_node_condition :: "string option \<Rightarrow> bool" where
  "legacy_local_reservation_node_condition n =
     (case n of None \<Rightarrow> False
      | Some s \<Rightarrow> startswith (py_lower s) ''container-'' \<or> startswith (py_lower s) ''legacy-container-'')"

definition DEFAULT_LOCAL_SERVICE_WORKER_NODE_ID :: string where
  "DEFAULT_LOCAL_SERVICE_WORKER_NODE_ID = ''local''"

definition scheduler_node_scope_condition :: "WorkspaceStatus \<Rightarrow> string \<Rightarrow> database \<Rightarrow> Workspace \<Rightarrow> bool" where
  "scheduler_node_scope_condition st node db w =
     (if st \<noteq> Requested then node_id w = Some node \<or> node_id w = None
      else
        (let latest = latest_active_resource_reservation_node_id_expr (ws_id w) db;
             planned = (case node_id w of Some n \<Rightarrow> Some n | None \<Rightarrow> latest) in
         planned = Some node \<or> planned = None
         \<or> (node = DEFAULT_LOCAL_SERVICE_WORKER_NODE_ID \<and> node_id w = None
            \<and> legacy_local_reservation_node_condition latest)))"

section \<open>Candidate selection\<close>

record scheduler_query =
  q_status :: WorkspaceStatus
  q_exclude_ids :: "string list"
  q_node_id :: "string option"
  q_owner_id :: "string option"

text \<open>\<open>cutoff\<close> is the clock reading of a \<open>monitoring_pr\<close> query, \<open>fresh\<close> the workers with a fresh heartbeat then.\<close>

definition schedulable :: "scheduler_query \<Rightarrow> instant \<Rightarrow> string list \<Rightarrow> database \<Rightarrow> Workspace \<Rightarrow> bool" where
  "schedulable q cutoff fresh db w =
     (status w = q_status q \<and> recovery_allows_work db w
      \<and> (case q_node_id q of None \<Rightarrow> True | Some n \<Rightarrow> scheduler_node_scope_condition (q_status q) n db w)
      \<and> (q_status q = Monitoring_pr \<longrightarrow>
           (monitor_claim_expires_at w = None \<or> sql_le (monitor_claim_expires_at w) cutoff)
           \<and> (unavailable_execution_claim_condition cutoff (Some fresh) w
              \<or> (case q_owner_id q of None \<Rightarrow> False | Some o' \<Rightarrow> execution_claimed_by w = Some o')))
      \<and> (q_exclude_ids q = [] \<or> ws_id w \<notin> set (q_exclude_ids q)))"

definition take_limit :: "int option \<Rightarrow> 'a list \<Rightarrow> 'a list" where
  "take_limit limit xs = (case limit of None \<Rightarrow> xs | Some n \<Rightarrow> take (nat n) xs)"

definition schedulable_workspace_ids_stmt ::
    "sched_env \<Rightarrow> dialect \<Rightarrow> (string \<Rightarrow> bool) \<Rightarrow> scheduler_query \<Rightarrow> int option \<Rightarrow> SchedulerOrderCursor option
     \<Rightarrow> instant \<Rightarrow> instant \<Rightarrow> string list \<Rightarrow> database \<Rightarrow> Workspace list \<Rightarrow> Workspace list" where
  "schedulable_workspace_ids_stmt env d locked q limit after scoring cutoff fresh db rows =
     take_limit limit
       (sort_key (sql_order_key env d scoring)
         (filter (\<lambda>w. schedulable q cutoff fresh db w
                    \<and> (case after of None \<Rightarrow> True | Some c \<Rightarrow> scheduler_after_cursor_condition env d db scoring c w)
                    \<and> (d = PostgreSQL \<longrightarrow> \<not> locked (ws_id w))) rows))"

definition monitoring_pr_deferred_active_execution_claim_stmt ::
    "sched_env \<Rightarrow> dialect \<Rightarrow> (string \<Rightarrow> bool) \<Rightarrow> int option \<Rightarrow> string list \<Rightarrow> string option
     \<Rightarrow> instant \<Rightarrow> instant \<Rightarrow> string option \<Rightarrow> string list option \<Rightarrow> database \<Rightarrow> Workspace list \<Rightarrow> Workspace list" where
  "monitoring_pr_deferred_active_execution_claim_stmt env d locked limit excl node scoring cutoff owner fresh db rows =
     take_limit limit
       (sort_key (sql_order_key env d scoring)
         (filter (\<lambda>w. recovery_allows_work db w \<and> status w = Monitoring_pr
                    \<and> (monitor_claim_expires_at w = None \<or> sql_le (monitor_claim_expires_at w) cutoff)
                    \<and> (case (execution_claimed_by w, execution_claim_expires_at w) of
                         (Some by, Some e) \<Rightarrow>
                           cutoff < e
                           \<and> (case owner of None \<Rightarrow> True | Some o' \<Rightarrow> by \<noteq> o')
                           \<and> (case fresh of None \<Rightarrow> True | Some ids \<Rightarrow> by \<in> set ids)
                       | _ \<Rightarrow> False)
                    \<and> (case node of None \<Rightarrow> True | Some n \<Rightarrow> scheduler_node_scope_condition Monitoring_pr n db w)
                    \<and> (excl = [] \<or> ws_id w \<notin> set excl)
                    \<and> (d = PostgreSQL \<longrightarrow> \<not> locked (ws_id w))) rows))"

definition scheduler_scoring_time ::
    "instant \<Rightarrow> SchedulerOrderCursor option \<Rightarrow> instant option \<Rightarrow> sched_error + instant" where
  "scheduler_scoring_time now after scoring =
     (case after of
        None \<Rightarrow> Inr (case scoring of None \<Rightarrow> now | Some t \<Rightarrow> t)
      | Some c \<Rightarrow>
          (case scoring of
             None \<Rightarrow> Inr (cur_scoring_at c)
           | Some t \<Rightarrow>
               if t \<noteq> cur_scoring_at c
               then Inl (ValueError ''scoring_at must match after.scoring_at for scheduler pagination'')
               else Inr (cur_scoring_at c)))"

definition sort_schedulable_workspaces :: "sched_env \<Rightarrow> Workspace list \<Rightarrow> int option \<Rightarrow> instant \<Rightarrow> Workspace list" where
  "sort_schedulable_workspaces env cands limit scoring =
     take_limit limit (sort_key (\<lambda>w. (let s = scheduler_score_from_workspace env w scoring in
        (- class_priority s, - effective_score s, created_at w, ws_id w))) cands)"

text \<open>The clock reading \<open>now\<close> serves as scoring time (when none is given) and as claim cut-off.\<close>

definition list_schedulable_workspaces ::
    "sched_env \<Rightarrow> dialect \<Rightarrow> (string \<Rightarrow> bool) \<Rightarrow> instant \<Rightarrow> string list \<Rightarrow> scheduler_query \<Rightarrow> int \<Rightarrow> SchedulerOrderCursor option
     \<Rightarrow> instant option \<Rightarrow> database \<Rightarrow> Workspace list \<Rightarrow> sched_error + Workspace list" where
  "list_schedulable_workspaces env d locked now fresh q limit after scoring db rows =
     (if limit \<le> 0 then Inr []
      else (case scheduler_scoring_time now after scoring of
              Inl e \<Rightarrow> Inl e
            | Inr t \<Rightarrow>
                Inr (sort_schedulable_workspaces env
                       (schedulable_workspace_ids_stmt env d locked q (Some limit) after t now fresh db rows)
                       (Some limit) t)))"

definition list_schedulable_ids ::
    "sched_env \<Rightarrow> dialect \<Rightarrow> (string \<Rightarrow> bool) \<Rightarrow> instant \<Rightarrow> string list \<Rightarrow> scheduler_query \<Rightarrow> int \<Rightarrow> SchedulerOrderCursor option
     \<Rightarrow> instant option \<Rightarrow> database \<Rightarrow> Workspace list \<Rightarrow> sched_error + string list" where
  "list_schedulable_ids env d locked now fresh q limit after scoring db rows =
     map_sum id (map ws_id) (list_schedulable_workspaces env d locked now fresh q limit after scoring db rows)"

definition list_monitoring_pr_deferred_active_execution_claim_workspaces ::
    "sched_env \<Rightarrow> dialect \<Rightarrow> (string \<Rightarrow> bool) \<Rightarrow> int \<Rightarrow> instant \<Rightarrow> string \<Rightarrow> string list \<Rightarrow> string list \<Rightarrow> string option
     \<Rightarrow> instant option \<Rightarrow> database \<Rightarrow> Workspace list \<Rightarrow> Workspace list" where
  "list_monitoring_pr_deferred_active_execution_claim_workspaces env d locked limit cutoff owner fresh excl node scoring db rows =
     (if limit \<le> 0 then []
      else (let t = (case scoring of None \<Rightarrow> cutoff | Some s \<Rightarrow> s) in
            sort_schedulable_workspaces env
              (monitoring_pr_deferred_active_execution_claim_stmt env d locked (Some limit) excl node t cutoff
                 (Some owner) (Some fresh) db rows)
              (Some limit) t))"

definition scheduler_candidate_cursor ::
    "sched_env \<Rightarrow> dialect \<Rightarrow> Workspace list \<Rightarrow> instant \<Rightarrow> SchedulerOrderCursor option" where
  "scheduler_candidate_cursor env d ws scoring =
     (if ws = [] then None
      else (let s = scheduler_score_from_workspace env (last ws) scoring in
            Some \<lparr>cur_class_priority = class_priority s,
                  cur_effective_score = (if d = OtherDialect then effective_score s - age_boost s else effective_score s),
                  cur_queued_at = queued_at s, cur_workspace_id = ws_id (last ws), cur_scoring_at = scoring\<rparr>))"

end
