(* ===== verification/Scheduler_Rank.thy ===== *)
theory Scheduler_Rank
  imports Scheduler_SQL Numeric_Text
begin

text \<open>
  The rank computed in SQL against the rank computed in Python.  Locale \<open>policy_reader\<close> states what an SQL
  integer reading of a policy field has to promise (agree with \<open>policy_int\<close> up to a clamp that is harmless for the
  bounds in use); both dialects interpret it, so the base priority and the human boost agree on each.
\<close>

section \<open>Reading a policy field\<close>

text \<open>\<open>policy_int\<close> as an optional value: \<open>None\<close> is "use the fallback".\<close>

definition policy_value :: "sched_env \<Rightarrow> json option \<Rightarrow> int option" where
  "policy_value env j =
     (case j of
        Some (JInt v) \<Rightarrow> Some v
      | Some (JFloat x) \<Rightarrow> if of_int \<lfloor>x\<rfloor> = x then Some \<lfloor>x\<rfloor> else None
      | Some (JStr s) \<Rightarrow>
          (let t = py_strip s in
           if policy_int_text t then int_within_limit (max_str_digits env) (hd (py_split CHR ''.'' t)) else None)
      | _ \<Rightarrow> None)"

lemma split_hd_no_sep: "d \<notin> set s \<Longrightarrow> hd (py_split d s) = s"
  by (simp add: py_split_plain)

lemma policy_int_value:
  "policy_int env m key fb = (case policy_value env (json_get key m) of None \<Rightarrow> fb | Some v \<Rightarrow> v)"
  by (auto simp: policy_int_def policy_value_def Let_def split_hd_no_sep split: option.splits json.splits)

lemma json_get_entries [simp]: "json_get k (JObj (entries (Some j))) = json_get k j"
  by (cases j) (simp_all add: json_get_def entries_def)

lemma json_get_mapping_at: "json_get k (mapping_at a j) = json_path [a, k] j"
  by (simp add: mapping_at_def json_get_def entries_def split: option.splits json.splits)

lemma json_path_one: "json_path [k] j = json_get k j"
  by (cases "json_get k j") simp_all

lemma policy_int_nested:
  "policy_int env (mapping_at a j) k fb = (case policy_value env (json_path [a, k] j) of None \<Rightarrow> fb | Some v \<Rightarrow> v)"
  unfolding policy_int_value json_get_mapping_at by (rule refl)

lemma policy_int_top:
  "policy_int env j f fb = (case policy_value env (json_path [f] j) of None \<Rightarrow> fb | Some v \<Rightarrow> v)"
  unfolding policy_int_value json_path_one by (rule refl)

section \<open>Text forms of integers\<close>

lemma list_all_digit_no: "list_all is_digit w \<Longrightarrow> CHR ''.'' \<notin> set w \<and> CHR ''-'' \<notin> set w"
  using digit_char_facts by (auto simp: list_all_iff)

lemma digits_ends: "ds \<noteq> [] \<Longrightarrow> list_all is_digit ds \<Longrightarrow> is_digit (hd ds) \<and> is_digit (last ds)"
  by (simp add: list_all_iff)

lemma minus_plain: "\<not> is_space CHR ''-''" "\<not> is_digit CHR ''-''"
  by (simp_all add: is_space_def is_digit_def)

lemma startswith_Cons: "startswith (c # s) [d] \<longleftrightarrow> c = d"
  by (simp add: startswith_def)

lemma startswith_Nil: "\<not> startswith [] [d]"
  by (simp add: startswith_def)

lemma policy_int_text_str_int: "policy_int_text (py_str_int i)"
proof -
  have d: "list_all is_digit (nat_digits n)" "nat_digits n \<noteq> []" for n
    by (simp_all add: nat_digits_digits)
  have p: "py_split CHR ''.'' (nat_digits n) = [nat_digits n]" for n
    using list_all_digit_no [OF d(1)] by (simp add: py_split_plain)
  have "\<not> startswith (nat_digits n) ''-''" for n
    using d [of n] digit_char_facts by (cases "nat_digits n") (auto simp: startswith_Cons)
  then show ?thesis
    using d p by (simp add: policy_int_text_def py_str_int_def startswith_Cons)
qed

lemma py_int_neg: "ds \<noteq> [] \<Longrightarrow> list_all is_digit ds \<Longrightarrow> py_int (CHR ''-'' # ds) = Some (- int (digits_val ds))"
proof -
  assume a: "ds \<noteq> []" "list_all is_digit ds"
  then have "is_digit (last ds)"
    using digits_ends by simp
  then have "py_strip (CHR ''-'' # ds) = CHR ''-'' # ds"
    using a(1) by (intro py_strip_id) (simp_all add: digit_char_facts minus_plain)
  then show ?thesis
    using a by (simp add: py_int_def digit_body_digits)
qed

lemma py_int_str_int_all: "py_int (py_str_int i) = Some i"
proof (cases "i < 0")
  case True
  have "py_int (CHR ''-'' # nat_digits (nat (- i))) = Some (- int (digits_val (nat_digits (nat (- i)))))"
    by (rule py_int_neg) (simp_all add: nat_digits_digits)
  then show ?thesis
    using True by (simp add: py_str_int_def nat_digits_val)
next
  case False
  then show ?thesis by (simp add: py_int_str_int)
qed

lemma str_int_no_point: "CHR ''.'' \<notin> set (py_str_int i)"
  using list_all_digit_no [OF nat_digits_digits] by (simp add: py_str_int_def)

lemma sql_trim_id: "s \<noteq> [] \<Longrightarrow> hd s \<noteq> CHR '' '' \<Longrightarrow> last s \<noteq> CHR '' '' \<Longrightarrow> sql_trim s = s"
  by (simp add: sql_trim_def dropWhile_id hd_rev)

lemma digit_not_blank: "is_digit c \<Longrightarrow> c \<noteq> CHR '' ''"
  by (auto simp: is_digit_def)

lemma sql_trim_str_int: "sql_trim (py_str_int i) = py_str_int i"
proof -
  have d: "list_all is_digit (nat_digits n)" "nat_digits n \<noteq> []" for n
    by (simp_all add: nat_digits_digits)
  then have h: "hd (nat_digits n) \<noteq> CHR '' ''" "last (nat_digits n) \<noteq> CHR '' ''" for n
    using digit_not_blank digits_ends by blast+
  show ?thesis
    by (rule sql_trim_id) (simp_all add: py_str_int_def d h)
qed

lemma str_int_nonempty [simp]: "py_str_int i \<noteq> []"
  by (simp add: py_str_int_def)

lemma whole_digits_str_int: "whole_digits (py_str_int i) = length (nat_digits (nat \<bar>i\<bar>))"
proof -
  have "filter (\<lambda>c. c \<noteq> CHR ''-'') (nat_digits n) = nat_digits n" for n
    using list_all_digit_no [OF nat_digits_digits [of n]] by (induction "nat_digits n") (auto simp: filter_id_conv)
  then show ?thesis
    by (simp add: whole_digits_def split_hd_no_sep [OF str_int_no_point]) (simp add: py_str_int_def)
qed

lemma numeric_text_str_int: "numeric_text (py_str_int i) = i"
  by (simp add: numeric_text_def split_hd_no_sep [OF str_int_no_point] py_int_str_int_all)

text \<open>A text of the integer pattern: a sign, digits, perhaps a zero fraction.\<close>

lemma policy_int_textD:
  assumes "policy_int_text t"
  obtains ds where "ds \<noteq> []" and "list_all is_digit ds"
    and "hd (py_split CHR ''.'' t) = ds \<or> hd (py_split CHR ''.'' t) = CHR ''-'' # ds"
proof (cases "startswith t ''-''")
  case True
  then obtain r where t: "t = CHR ''-'' # r"
    by (cases t) (auto simp: startswith_def)
  obtain w ws where w: "py_split CHR ''.'' r = w # ws"
    by (cases "py_split CHR ''.'' r") auto
  have "w \<noteq> [] \<and> list_all is_digit w"
    using assms w unfolding policy_int_text_def t by (simp add: startswith_def split: list.splits)
  moreover have "hd (py_split CHR ''.'' t) = CHR ''-'' # w"
    using w unfolding t by simp
  ultimately show ?thesis using that by blast
next
  case False
  obtain w ws where w: "py_split CHR ''.'' t = w # ws"
    by (cases "py_split CHR ''.'' t") auto
  have "w \<noteq> [] \<and> list_all is_digit w"
    using assms w False unfolding policy_int_text_def by (simp split: list.splits)
  then show ?thesis
    using w by (intro that [of w]) simp_all
qed

lemma digits_filter: "list_all is_digit ds \<Longrightarrow> filter is_digit ds = ds \<and> filter (\<lambda>c. c \<noteq> CHR ''-'') ds = ds"
  using list_all_digit_no [of ds] by (auto simp: list_all_iff filter_id_conv)

lemma py_int_digits: "ds \<noteq> [] \<Longrightarrow> list_all is_digit ds \<Longrightarrow> py_int ds = Some (int (digits_val ds))"
proof -
  assume a: "ds \<noteq> []" "list_all is_digit ds"
  then have h: "is_digit (hd ds)" "is_digit (last ds)"
    using digits_ends by simp_all
  then have "py_strip ds = ds"
    using a(1) by (simp add: py_strip_id digit_char_facts)
  then show ?thesis
    using a h by (cases ds) (auto simp: py_int_def digit_body_digits digit_char_facts)
qed

lemma int_within_limit_text:
  assumes "policy_int_text t"
  shows "int_within_limit limit (hd (py_split CHR ''.'' t))
         = (if 0 < limit \<longrightarrow> whole_digits t \<le> limit then Some (numeric_text t) else None)"
proof -
  obtain ds where ds: "ds \<noteq> []" "list_all is_digit ds"
    "hd (py_split CHR ''.'' t) = ds \<or> hd (py_split CHR ''.'' t) = CHR ''-'' # ds"
    using policy_int_textD [OF assms] .
  then show ?thesis
    using digits_filter [OF ds(2)] py_int_digits [OF ds(1,2)] py_int_neg [OF ds(1,2)] minus_plain(2)
    by (auto simp: int_within_limit_def whole_digits_def numeric_text_def)
qed

section \<open>The dialects\<close>

text \<open>
  Fields on which the SQL reading and the Python reading agree.  A string may have blanks around it but no
  other white space (SQL \<open>trim\<close> removes blanks only); an integer must be within the interpreter's digit limit
  (a longer one cannot be loaded from the column); a float is excluded on PostgreSQL, where the text of a whole
  float can be in exponent form, and must be within 64 bits on SQLite.
\<close>

definition plain_text :: "string \<Rightarrow> bool" where
  "plain_text s = (sql_trim s = py_strip s)"

definition plain_int_postgres :: "sched_env \<Rightarrow> json option \<Rightarrow> bool" where
  "plain_int_postgres env j =
     (case j of
        Some (JInt i) \<Rightarrow> 0 < max_str_digits env \<longrightarrow> length (nat_digits (nat \<bar>i\<bar>)) \<le> max_str_digits env
      | Some (JStr s) \<Rightarrow> plain_text s
      | Some (JFloat _) \<Rightarrow> False
      | Some (JArr _) \<Rightarrow> False
      | Some (JObj _) \<Rightarrow> False
      | _ \<Rightarrow> True)"

definition plain_int_sqlite :: "sched_env \<Rightarrow> json option \<Rightarrow> bool" where
  "plain_int_sqlite env j =
     (case j of
        Some (JStr s) \<Rightarrow> plain_text s
      | Some (JFloat x) \<Rightarrow> - (2 ^ 63) \<le> x \<and> x \<le> 2 ^ 63 - 1
      | _ \<Rightarrow> True)"

locale policy_reader =
  fixes read_int :: "sched_env \<Rightarrow> string list \<Rightarrow> Workspace \<Rightarrow> int option"
    and plain :: "sched_env \<Rightarrow> json option \<Rightarrow> bool"
    and clamp :: "int \<Rightarrow> int"
  assumes read_plain: "plain env (json_path path (task_policy w))
      \<Longrightarrow> read_int env path w = map_option clamp (policy_value env (json_path path (task_policy w)))"
    and clamp_harmless: "0 \<le> u \<Longrightarrow> u \<le> 100 \<Longrightarrow>
      bounded_scheduler_int_expr (clamp v) 0 u = bounded_int v 0 u"
begin

lemma clamp_zero: "0 \<le> u \<Longrightarrow> u \<le> 100 \<Longrightarrow> bounded_scheduler_int_expr 0 0 u = bounded_int 0 0 u"
  by (simp add: bounded_scheduler_int_expr_def bounded_int_def)

lemma base_priority_agrees:
  assumes "plain env (json_path [a, k] (task_policy w))" and "plain env (json_path [f] (task_policy w))"
    and "0 \<le> u" and "u \<le> 100"
  shows "bounded_scheduler_int_expr (coalesce [read_int env [a, k] w, read_int env [f] w] 0) 0 u
         = bounded_int (policy_int env (mapping_at a (task_policy w)) k (policy_int env (task_policy w) f 0)) 0 u"
  unfolding read_plain [OF assms(1)] read_plain [OF assms(2)] policy_int_nested policy_int_top [of env "task_policy w"]
  using clamp_harmless [OF assms(3,4)] clamp_zero [OF assms(3,4)] by (auto split: option.splits simp del: json_path.simps)

lemma human_boost_agrees:
  assumes "plain env (json_path [a, k] (task_policy w))" and "plain env (json_path [a, k'] (task_policy w))"
    and "plain env (json_path [f] (task_policy w))" and "0 \<le> u" and "u \<le> 100"
  shows "bounded_scheduler_int_expr (coalesce [read_int env [a, k] w, read_int env [a, k'] w, read_int env [f] w] 0) 0 u
         = bounded_int (policy_int env (mapping_at a (task_policy w)) k
             (policy_int env (mapping_at a (task_policy w)) k' (policy_int env (task_policy w) f 0))) 0 u"
  unfolding read_plain [OF assms(1)] read_plain [OF assms(2)] read_plain [OF assms(3)] policy_int_nested
    policy_int_top [of env "task_policy w"]
  using clamp_harmless [OF assms(4,5)] clamp_zero [OF assms(4,5)] by (auto split: option.splits simp del: json_path.simps)

end

lemma policy_int_text_nonempty: "\<not> policy_int_text []"
  by (simp add: policy_int_text_def startswith_def)

definition int32 :: "int \<Rightarrow> int" where
  "int32 v = bounded_scheduler_int_expr v POSTGRES_INTEGER_MIN POSTGRES_INTEGER_MAX"

lemma postgres_json_int_plain:
  assumes "plain_int_postgres env (json_path path (task_policy w))"
  shows "postgres_json_int env path w = map_option int32 (policy_value env (json_path path (task_policy w)))"
proof (cases "json_path path (task_policy w)")
  case None
  then show ?thesis
    by (simp add: postgres_json_int_def scheduler_json_string_expr_def policy_value_def)
next
  case (Some j)
  show ?thesis
  proof (cases j)
    case (JStr s)
    then have t: "sql_trim s = py_strip s"
      using assms Some by (simp add: plain_int_postgres_def plain_text_def)
    show ?thesis
      using policy_int_text_nonempty
      by (auto simp: postgres_json_int_def scheduler_json_string_expr_def policy_value_def Some JStr json_text_def t
          Let_def int_within_limit_text int32_def)
  next
    case (JInt i)
    then have "0 < max_str_digits env \<longrightarrow> whole_digits (py_str_int i) \<le> max_str_digits env"
      using assms Some by (simp add: plain_int_postgres_def whole_digits_str_int)
    then show ?thesis
      by (simp add: postgres_json_int_def scheduler_json_string_expr_def policy_value_def Some JInt json_text_def
          sql_trim_str_int policy_int_text_str_int numeric_text_str_int int32_def)
  next
    case (JBool b)
    have "sql_trim ''true'' = ''true''" "sql_trim ''false'' = ''false''"
      "\<not> policy_int_text ''true''" "\<not> policy_int_text ''false''"
      by code_simp+
    then show ?thesis
      by (simp add: postgres_json_int_def scheduler_json_string_expr_def policy_value_def Some JBool json_text_def)
  qed (use assms Some in \<open>simp_all add: plain_int_postgres_def postgres_json_int_def scheduler_json_string_expr_def
      policy_value_def json_text_def\<close>)
qed

interpretation postgres: policy_reader postgres_json_int plain_int_postgres int32
  by unfold_locales
    (simp_all add: postgres_json_int_plain int32_def bounded_scheduler_int_expr_def bounded_int_def
      POSTGRES_INTEGER_MIN_def POSTGRES_INTEGER_MAX_def)

text \<open>SQLite's test with \<open>instr\<close>, \<open>substr\<close> and \<open>GLOB\<close> accepts the same texts as the pattern.\<close>

lemma py_split_first:
  "py_split d s = takeWhile (\<lambda>c. c \<noteq> d) s # (if d \<in> set s then py_split d (tl (dropWhile (\<lambda>c. c \<noteq> d) s)) else [])"
  by (induction s) auto

lemma zeros_split: "(\<exists>f. py_split CHR ''.'' s = [f] \<and> f \<noteq> [] \<and> list_all (\<lambda>c. c = CHR ''0'') f)
    \<longleftrightarrow> s \<noteq> [] \<and> list_all (\<lambda>c. c = CHR ''0'') s"
proof
  assume "\<exists>f. py_split CHR ''.'' s = [f] \<and> f \<noteq> [] \<and> list_all (\<lambda>c. c = CHR ''0'') f"
  then obtain f where f: "py_split CHR ''.'' s = [f]" "f \<noteq> []" "list_all (\<lambda>c. c = CHR ''0'') f"
    by blast
  then have "s = f"
    using py_join_split [of "CHR ''.''" s] by simp
  then show "s \<noteq> [] \<and> list_all (\<lambda>c. c = CHR ''0'') s"
    using f by simp
next
  assume "s \<noteq> [] \<and> list_all (\<lambda>c. c = CHR ''0'') s"
  moreover have "CHR ''.'' \<notin> set s"
  proof
    assume "CHR ''.'' \<in> set s"
    moreover have "\<forall>c \<in> set s. c = CHR ''0''"
      using conjunct2 [OF \<open>s \<noteq> [] \<and> list_all (\<lambda>c. c = CHR ''0'') s\<close>] by (simp only: list_all_iff)
    ultimately have "CHR ''.'' = CHR ''0''"
      by (rule bspec [rotated])
    then show False by simp
  qed
  ultimately show "\<exists>f. py_split CHR ''.'' s = [f] \<and> f \<noteq> [] \<and> list_all (\<lambda>c. c = CHR ''0'') f"
    by (simp add: py_split_plain)
qed

definition unsigned_int_text :: "string \<Rightarrow> bool" where
  "unsigned_int_text s =
     (let whole = takeWhile (\<lambda>c. c \<noteq> CHR ''.'') s; fraction = tl (dropWhile (\<lambda>c. c \<noteq> CHR ''.'') s) in
      whole \<noteq> [] \<and> list_all is_digit whole
      \<and> (CHR ''.'' \<notin> set s \<or> fraction \<noteq> [] \<and> list_all (\<lambda>c. c = CHR ''0'') fraction))"

lemma unsigned_split:
  "(case py_split CHR ''.'' s of
      [w] \<Rightarrow> w \<noteq> [] \<and> list_all is_digit w
    | [w, f] \<Rightarrow> w \<noteq> [] \<and> list_all is_digit w \<and> f \<noteq> [] \<and> list_all (\<lambda>c. c = CHR ''0'') f
    | _ \<Rightarrow> False) \<longleftrightarrow> unsigned_int_text s"
proof (cases "CHR ''.'' \<in> set s")
  case True
  let ?f = "tl (dropWhile (\<lambda>c. c \<noteq> CHR ''.'') s)"
  obtain g gs where g: "py_split CHR ''.'' ?f = g # gs"
    by (cases "py_split CHR ''.'' ?f") simp_all
  have "py_split CHR ''.'' s = takeWhile (\<lambda>c. c \<noteq> CHR ''.'') s # g # gs"
    using True g by (subst py_split_first) simp
  then show ?thesis
    using True zeros_split [of ?f] g by (cases gs) (simp_all add: unsigned_int_text_def Let_def)
next
  case False
  then show ?thesis
    by (subst py_split_first) (simp add: unsigned_int_text_def Let_def)
qed

lemma policy_int_text_unsigned:
  "policy_int_text t \<longleftrightarrow> unsigned_int_text (if startswith t ''-'' then tl t else t)"
  unfolding policy_int_text_def by (rule unsigned_split)

lemma sqlite_text_pattern: "sqlite_integer_valued_text t \<longleftrightarrow> policy_int_text t"
proof (cases t)
  case Nil
  then show ?thesis
    by (simp add: policy_int_text_unsigned unsigned_int_text_def sqlite_integer_valued_text_def startswith_def Let_def)
next
  case (Cons c r)
  have hd: "list_all is_digit w \<Longrightarrow> w \<noteq> [] \<Longrightarrow> is_digit (hd w)" for w
    using digits_ends by blast
  show ?thesis
  proof (cases "c = CHR ''-''")
    case True
    then show ?thesis
      unfolding policy_int_text_unsigned Cons
      using hd [of "takeWhile (\<lambda>c. c \<noteq> CHR ''.'') r"] minus_plain(2)
      by (auto simp: unsigned_int_text_def sqlite_integer_valued_text_def startswith_def Let_def)
  next
    case False
    then show ?thesis
      unfolding policy_int_text_unsigned Cons
      using hd [of "takeWhile (\<lambda>c. c \<noteq> CHR ''.'') (c # r)"]
      by (auto simp: unsigned_int_text_def sqlite_integer_valued_text_def startswith_def Let_def)
  qed
qed

lemma int64_id: "- (2 ^ 63) \<le> v \<Longrightarrow> v \<le> 2 ^ 63 - 1 \<Longrightarrow> int64 v = v"
  by (simp add: int64_def bounded_scheduler_int_expr_def)

lemma rat_trunc_whole: "of_int \<lfloor>x\<rfloor> = x \<Longrightarrow> rat_trunc x = \<lfloor>x\<rfloor>"
  by (metis ceiling_of_int rat_trunc_def)

lemma sqlite_json_int_plain:
  assumes "plain_int_sqlite env (json_path path (task_policy w))"
  shows "sqlite_json_int env path w = map_option int64 (policy_value env (json_path path (task_policy w)))"
proof (cases "\<exists>x. json_path path (task_policy w) = Some (JFloat x)")
  case True
  then obtain x where x: "json_path path (task_policy w) = Some (JFloat x)" ..
  then have r: "- (2 ^ 63) \<le> x" "x \<le> 2 ^ 63 - 1"
    using assms by (simp_all add: plain_int_sqlite_def)
  show ?thesis
  proof (cases "of_int \<lfloor>x\<rfloor> = x")
    case True
    have "of_int (- (2 ^ 63)) \<le> (of_int \<lfloor>x\<rfloor> :: rat)" "(of_int \<lfloor>x\<rfloor> :: rat) \<le> of_int (2 ^ 63 - 1)"
      unfolding True using r by simp_all
    then have "int64 \<lfloor>x\<rfloor> = \<lfloor>x\<rfloor>"
      by (intro int64_id) (simp_all only: of_int_le_iff)
    then show ?thesis
      using True by (simp add: sqlite_json_int_def policy_value_def x rat_trunc_whole)
  next
    case False
    have "of_int (int64 (rat_trunc x)) \<noteq> x"
      using False by (metis floor_of_int)
    then show ?thesis
      using False by (simp add: sqlite_json_int_def policy_value_def x)
  qed
next
  case False
  then show ?thesis
    using assms
    by (auto simp: sqlite_json_int_def policy_value_def plain_int_sqlite_def plain_text_def Let_def
        int_within_limit_text sqlite_text_pattern split: option.splits json.splits)
qed

interpretation sqlite: policy_reader sqlite_json_int plain_int_sqlite int64
  by unfold_locales
    (simp_all add: sqlite_json_int_plain int64_def bounded_scheduler_int_expr_def bounded_int_def)

end
