(* ===== verification/Scheduler_Properties.thy ===== *)
theory Scheduler_Properties
  imports Scheduler_Rank
begin

text \<open>
  What the scheduler's ranking guarantees: the SQL rank is the Python rank on PostgreSQL and off by at most one age
  step on SQLite, scores stay within bounds and grow with the waiting time, a page cursor may be kept exactly
  while no age boost changes, and a mismatched scoring time is the only error of a candidate query.
\<close>

section \<open>Rank in SQL and in Python\<close>

definition plain_str_field :: "json option \<Rightarrow> bool" where
  "plain_str_field j =
     (case j of None \<Rightarrow> True | Some JNull \<Rightarrow> True | Some (JStr s) \<Rightarrow> plain_text s | _ \<Rightarrow> False)"

definition plain_policy :: "sched_env \<Rightarrow> dialect \<Rightarrow> Workspace \<Rightarrow> bool" where
  "plain_policy env d w =
     (list_all (\<lambda>p. case d of PostgreSQL \<Rightarrow> plain_int_postgres env (json_path p (task_policy w))
                    | SQLite \<Rightarrow> plain_int_sqlite env (json_path p (task_policy w))
                    | OtherDialect \<Rightarrow> False)
        [[SCHEDULER_POLICY_KEY, ''base_priority''], [''priority''], [SCHEDULER_POLICY_KEY, ''human_boost''],
         [SCHEDULER_POLICY_KEY, ''human_escalation_boost''], [''human_boost'']]
      \<and> plain_str_field (json_path [SCHEDULER_POLICY_KEY, ''parent_failure_reason''] (task_policy w))
      \<and> plain_str_field (json_path [''provider_recovery_state'', ''parent_failure_reason''] (task_policy w)))"

definition policy_text :: "json option \<Rightarrow> string option" where
  "policy_text j = (case j of Some (JStr s) \<Rightarrow> if py_strip s = [] then None else Some (py_strip s) | _ \<Rightarrow> None)"

lemma policy_str_nested:
  "policy_str (mapping_at a j) k fb = (case policy_text (json_path [a, k] j) of None \<Rightarrow> fb | Some r \<Rightarrow> Some r)"
  unfolding policy_str_def json_get_mapping_at policy_text_def by (auto split: option.splits json.splits)

lemma json_string_plain:
  "plain_str_field (json_path p (task_policy w))
     \<Longrightarrow> scheduler_json_string_expr env p w = policy_text (json_path p (task_policy w))"
  by (auto simp: plain_str_field_def scheduler_json_string_expr_def policy_text_def json_text_def plain_text_def
      split: option.splits json.splits)

text \<open>A \<open>CASE\<close> with descending thresholds finds the largest step reached.\<close>

lemma find_descending:
  assumes "\<And>b. 1 \<le> b \<Longrightarrow> b \<le> int n \<Longrightarrow> P b \<longleftrightarrow> b \<le> a" and "0 \<le> a"
  shows "(case find P (rev [1..int n]) of None \<Rightarrow> 0 | Some b \<Rightarrow> b) = min a (int n)"
  using assms
proof (induction n)
  case (Suc n)
  have "[1..int (Suc n)] = [1..int n] @ [int (Suc n)]"
    by (simp add: upto_rec2)
  moreover have "P (int (Suc n)) \<longleftrightarrow> int (Suc n) \<le> a"
    using Suc.prems(1) [of "int (Suc n)"] by simp
  ultimately show ?case
    using Suc by (cases "int (Suc n) \<le> a") simp_all
qed simp

lemma postgres_age_boost: "postgresql_scheduler_age_boost_expr now q = age_boost_of q now"
proof -
  have "q \<le> now - b * AGE_BOOST_INTERVAL_SECONDS * 1000000 \<longleftrightarrow> b \<le> age_boost_of q now"
    if "1 \<le> b" "b \<le> int 12" for b
    using age_boost_threshold [of b q now] that by (simp add: AGE_BOOST_INTERVAL_SECONDS_def mult.commute)
  then show ?thesis
    using find_descending [of 12 "\<lambda>b. q \<le> now - b * AGE_BOOST_INTERVAL_SECONDS * 1000000" "age_boost_of q now"]
      age_boost_range [of q now]
    by (simp add: postgresql_scheduler_age_boost_expr_def AGE_BOOST_MAX_def)
qed

lemma rat_trunc_div:
  "rat_trunc (of_int a / of_int AGE_BOOST_INTERVAL_SECONDS) = (if 0 \<le> a then a div 900 else - ((- a) div 900))"
proof -
  have "\<lceil>(of_int a :: rat) / 900\<rceil> = - ((- a) div 900)"
    using floor_intervals [of "- a"] by (simp add: ceiling_def)
  then show ?thesis
    using floor_intervals [of a] by (simp add: rat_trunc_def AGE_BOOST_INTERVAL_SECONDS_def zero_le_divide_iff)
qed

lemma div_mult_bounds:
  fixes a c :: int
  assumes "0 < c"
  shows "a div c * c \<le> a" and "a < (a div c + 1) * c"
  using pos_mod_sign [OF assms, of a] pos_mod_bound [OF assms, of a] div_mult_mod_eq [of a c]
  unfolding distrib_right by linarith+

lemma max_div_div: "0 \<le> d \<Longrightarrow> max 0 x div (1000000 * d) = max 0 (x div 1000000) div (d :: int)"
proof (cases "0 \<le> x")
  case True
  assume "0 \<le> d"
  with True show ?thesis
    by (simp add: zdiv_zmult2_eq pos_imp_zdiv_nonneg_iff max_absorb2)
next
  case False
  then have "x div 1000000 < 0"
    by (simp add: pos_imp_zdiv_neg_iff)
  then show ?thesis
    using False by simp
qed

lemma div_diff_bounds:
  fixes a b c :: int
  assumes "0 < c"
  shows "(a - b) div c \<le> a div c - b div c" and "a div c - b div c \<le> (a - b) div c + 1"
proof -
  note le = le_div_iff_mult_le [OF assms] and bd = div_mult_bounds [OF assms]
  have "((a - b) div c + b div c) * c \<le> a"
    unfolding distrib_right using bd(1) [of "a - b"] bd(1) [of b] by linarith
  then show "(a - b) div c \<le> a div c - b div c"
    unfolding le [symmetric] by linarith
  have "(a div c - b div c - 1) * c \<le> a - b"
    using bd(1) [of a] bd(2) [of b] unfolding left_diff_distrib distrib_right by linarith
  then show "a div c - b div c \<le> (a - b) div c + 1"
    unfolding le [symmetric] by linarith
qed

lemma div_step: "0 < c \<Longrightarrow> (x + 1) div c \<le> x div c + (1 :: int)"
  using zdiv_mono1 [of "x + 1" "x + c" c] by simp

lemma min_step:
  "(a :: int) \<le> b \<Longrightarrow> b \<le> c \<Longrightarrow> c \<le> a + 1 \<Longrightarrow> min a m \<le> min b m \<and> min b m \<le> min a m + 1"
  by auto

text \<open>SQLite truncates both times to seconds first, so a boost may come up to one second early.\<close>

lemma sqlite_age_boost:
  assumes "\<And>t. sqlite_epoch env t = t div 1000000"
  shows "age_boost_of q now \<le> sqlite_scheduler_age_boost_expr env now q
         \<and> sqlite_scheduler_age_boost_expr env now q \<le> age_boost_of q now + 1"
proof -
  let ?w = "now div 1000000 - q div 1000000" and ?p = "(now - q) div 1000000"
  have w: "?p \<le> ?w" "?w \<le> ?p + 1"
    by (rule div_diff_bounds, simp)+
  have p: "age_boost_of q now = min (max 0 ?p div 900) 12"
    using age_boost_eq [of q now] max_div_div [of 900 "now - q"] by simp
  have "0 \<le> x \<Longrightarrow> 0 \<le> x div 900" for x :: int
    by (simp add: pos_imp_zdiv_nonneg_iff)
  from this [of ?w] this [of "- ?w"]
  have s: "sqlite_scheduler_age_boost_expr env now q = min (max 0 ?w div 900) 12"
    unfolding sqlite_scheduler_age_boost_expr_def Let_def assms rat_trunc_div bounded_scheduler_int_expr_def
      AGE_BOOST_MAX_def by (cases "0 \<le> ?w") simp_all
  have "max 0 ?p div 900 \<le> max 0 ?w div 900"
    using w(1) by (intro zdiv_mono1) auto
  moreover have "max 0 ?w div 900 \<le> (max 0 ?p + 1) div 900"
    using w(2) by (intro zdiv_mono1) auto
  moreover have "(max 0 ?p + 1) div 900 \<le> max 0 ?p div 900 + 1"
    by (rule div_step) simp
  ultimately show ?thesis
    unfolding p s by (rule min_step)
qed

lemma class_cases_agree:
  "task_class_case TASK_CLASS_PRIORITIES w = task_class_priority (task_class w)"
  "task_class_case TASK_CLASS_BIASES w = task_class_bias (task_class w)"
  by (auto simp: task_class_case_def task_class_priority_def task_class_bias_def TASK_CLASS_PRIORITIES_def
      TASK_CLASS_BIASES_def split: option.splits)

text \<open>The score fields that decide the order, with the policy read directly.\<close>

lemma score_fields:
  fixes env w t
  defines "s \<equiv> scheduler_score_from_workspace env w t" and "i \<equiv> scheduler_score_input_from_workspace env w"
  shows "class_priority s = task_class_priority (task_class w)"
    and "effective_score s = bounded_int (in_base_priority i) 0 100 + task_class_bias (task_class w)
           + age_boost_of (created_at w) t
           + (if in_parent_failure_reason i = Some ''infrastructure_failure'' then RETRY_BONUS_INFRASTRUCTURE_FAILURE else 0)
           + bounded_int (in_human_boost i) 0 HUMAN_BOOST_MAX"
    and "queued_at s = created_at w" and "score_workspace_id s = ws_id w"
    and "age_boost s = age_boost_of (created_at w) t"
  unfolding s_def i_def scheduler_score_from_workspace_def compute_scheduler_score_def Let_def
  by (simp_all add: scheduler_score_input_from_workspace_def Let_def)

lemma mapping_at_entries [simp]: "mapping_at k (JObj (entries (Some j))) = mapping_at k j"
  by (simp add: mapping_at_def)

lemma policy_int_entries [simp]: "policy_int env (JObj (entries (Some j))) k fb = policy_int env j k fb"
  by (simp add: policy_int_value)

lemma input_fields:
  "in_base_priority (scheduler_score_input_from_workspace env w)
     = policy_int env (mapping_at SCHEDULER_POLICY_KEY (task_policy w)) ''base_priority''
         (policy_int env (task_policy w) ''priority'' 0)"
  "in_human_boost (scheduler_score_input_from_workspace env w)
     = policy_int env (mapping_at SCHEDULER_POLICY_KEY (task_policy w)) ''human_boost''
         (policy_int env (mapping_at SCHEDULER_POLICY_KEY (task_policy w)) ''human_escalation_boost''
           (policy_int env (task_policy w) ''human_boost'' 0))"
  "in_parent_failure_reason (scheduler_score_input_from_workspace env w)
     = (case policy_text (json_path [SCHEDULER_POLICY_KEY, ''parent_failure_reason''] (task_policy w)) of
          Some r \<Rightarrow> Some r
        | None \<Rightarrow> policy_text (json_path [''provider_recovery_state'', ''parent_failure_reason''] (task_policy w)))"
  unfolding scheduler_score_input_from_workspace_def Let_def
  by (simp_all add: policy_str_nested split: option.splits del: json_path.simps)

text \<open>With plain fields the expression is the Python score with the dialect's own age boost.\<close>

lemma plain_expressions:
  assumes p: "plain_policy env d w"
  shows "scheduler_order_expressions env d t w =
    \<lparr>expr_class_priority = class_priority (scheduler_score_from_workspace env w t),
     expr_effective_score = effective_score (scheduler_score_from_workspace env w t)
       - age_boost_of (created_at w) t + scheduler_age_boost_expr env d t w\<rparr>"
proof -
  let ?S = SCHEDULER_POLICY_KEY and ?read = "\<lambda>p. scheduler_json_int_expr env d p w"
  have str: "scheduler_json_string_expr env [?S, ''parent_failure_reason''] w
      = policy_text (json_path [?S, ''parent_failure_reason''] (task_policy w))"
    "scheduler_json_string_expr env [''provider_recovery_state'', ''parent_failure_reason''] w
      = policy_text (json_path [''provider_recovery_state'', ''parent_failure_reason''] (task_policy w))"
    using p by (simp_all only: plain_policy_def json_string_plain)
  have pg: "d = PostgreSQL \<or> d = SQLite"
    using p by (cases d) (simp_all add: plain_policy_def)
  have plain: "d = PostgreSQL \<Longrightarrow> plain_int_postgres env (json_path q (task_policy w))"
    "d = SQLite \<Longrightarrow> plain_int_sqlite env (json_path q (task_policy w))"
    if "q \<in> set [[?S, ''base_priority''], [''priority''], [?S, ''human_boost''], [?S, ''human_escalation_boost''],
               [''human_boost'']]" for q
    using p that by (auto simp: plain_policy_def simp del: json_path.simps)
  have hb: "0 \<le> HUMAN_BOOST_MAX" "HUMAN_BOOST_MAX \<le> 100"
    by (simp_all add: HUMAN_BOOST_MAX_def)
  have ints: "bounded_scheduler_int_expr (coalesce [?read [?S, ''base_priority''], ?read [''priority'']] 0) 0 100
      = bounded_int (in_base_priority (scheduler_score_input_from_workspace env w)) 0 100"
    "bounded_scheduler_int_expr (coalesce [?read [?S, ''human_boost''], ?read [?S, ''human_escalation_boost''],
        ?read [''human_boost'']] 0) 0 HUMAN_BOOST_MAX
      = bounded_int (in_human_boost (scheduler_score_input_from_workspace env w)) 0 HUMAN_BOOST_MAX"
    unfolding input_fields using pg plain hb
    by (elim disjE; simp add: scheduler_json_int_expr_def postgres.base_priority_agrees postgres.human_boost_agrees
        sqlite.base_priority_agrees sqlite.human_boost_agrees del: json_path.simps)+
  show ?thesis
    unfolding scheduler_order_expressions_def Let_def score_fields str ints class_cases_agree input_fields(3)
    by (simp del: json_path.simps)
qed

lemma sql_rank_plain:
  assumes "plain_policy env PostgreSQL w"
  shows "sql_order_key env PostgreSQL t w = queue_key env t w"
  unfolding sql_order_key_def plain_expressions [OF assms] queue_key_def scheduler_order_key_def
  by (simp add: Let_def score_fields scheduler_age_boost_expr_def postgres_age_boost)

text \<open>
  Property C38: on PostgreSQL, for a workspace whose scheduler policy fields are plain, the key the database orders
  by is the key Python sorts by: the ranking statement and \<open>scheduler_order_key\<close> agree on class priority, effective
  score (base priority, class bias, age boost, retry bonus, human boost), queue time and identifier.
\<close>

theorem postgres_rank_is_python_rank:
  assumes "plain_policy env PostgreSQL w"
  shows "sql_order_key env PostgreSQL scoring w = queue_key env scoring w"
  using assms by (rule sql_rank_plain)

definition ranked_workspace :: "instant \<Rightarrow> Workspace" where
  "ranked_workspace q = (sample_workspace ''w1'' Requested)\<lparr>created_at := q, task_class := Some ''refactor_task'',
     task_policy := JObj [(''priority'', JInt 250),
       (''scheduler'', JObj [(''human_boost'', JStr '' 7.0 ''), (''parent_failure_reason'', JStr ''infrastructure_failure'')])]\<rparr>"

lemma ranked_paths:
  "json_path [SCHEDULER_POLICY_KEY, ''base_priority''] (task_policy (ranked_workspace q)) = None"
  "json_path [''priority''] (task_policy (ranked_workspace q)) = Some (JInt 250)"
  "json_path [SCHEDULER_POLICY_KEY, ''human_boost''] (task_policy (ranked_workspace q)) = Some (JStr '' 7.0 '')"
  "json_path [SCHEDULER_POLICY_KEY, ''human_escalation_boost''] (task_policy (ranked_workspace q)) = None"
  "json_path [''human_boost''] (task_policy (ranked_workspace q)) = None"
  "json_path [SCHEDULER_POLICY_KEY, ''parent_failure_reason''] (task_policy (ranked_workspace q))
     = Some (JStr ''infrastructure_failure'')"
  "json_path [''provider_recovery_state'', ''parent_failure_reason''] (task_policy (ranked_workspace q)) = None"
  by (simp_all add: ranked_workspace_def SCHEDULER_POLICY_KEY_def json_get_def)

lemma ranked_texts:
  "plain_text '' 7.0 ''" "plain_text ''infrastructure_failure''"
  by code_simp+

lemma ranked_digits: "length (nat_digits 250) = 3"
  by (simp add: nat_digits.simps [of 250] nat_digits.simps [of 25] nat_digits.simps [of 2])

lemma ranked_plain: "plain_policy plain_sched_env PostgreSQL (ranked_workspace q)"
  unfolding plain_policy_def list.pred_inject ranked_paths
  by (simp add: plain_int_postgres_def plain_str_field_def ranked_texts ranked_digits plain_sched_env_def)

theorem postgres_rank_is_python_rank_witness:
  "plain_policy plain_sched_env PostgreSQL (ranked_workspace 0)
   \<and> sql_order_key plain_sched_env PostgreSQL 2700000000 (ranked_workspace 0)
       = queue_key plain_sched_env 2700000000 (ranked_workspace 0)"
  using ranked_plain [of 0] postgres_rank_is_python_rank [OF ranked_plain, of 2700000000 0] by (rule conjI)

text \<open>
  On SQLite the class priority is the Python one and the effective score is the Python one or one more
  (both times are truncated to seconds before they are subtracted, so an age step may be counted up to
  a second early); the other parts of the score agree exactly.
\<close>

theorem sqlite_rank_close:
  assumes "plain_policy env SQLite w" and "\<And>t. sqlite_epoch env t = t div 1000000"
  shows "expr_class_priority (scheduler_order_expressions env SQLite scoring w)
           = class_priority (scheduler_score_from_workspace env w scoring)
         \<and> expr_effective_score (scheduler_order_expressions env SQLite scoring w)
             - effective_score (scheduler_score_from_workspace env w scoring) \<in> {0, 1}"
  unfolding plain_expressions [OF assms(1)]
  using sqlite_age_boost [OF assms(2), of "created_at w" scoring]
  by (auto simp: scheduler_age_boost_expr_def)

theorem sqlite_rank_close_witness:
  "expr_effective_score (scheduler_order_expressions plain_sched_env SQLite 900100000 (ranked_workspace 900000))
     - effective_score (scheduler_score_from_workspace plain_sched_env (ranked_workspace 900000) 900100000) = 1"
proof -
  let ?w = "ranked_workspace 900000"
  have p: "plain_policy plain_sched_env SQLite ?w"
    unfolding plain_policy_def list.pred_inject ranked_paths
    by (simp add: plain_int_sqlite_def plain_str_field_def ranked_texts)
  have e: "sqlite_epoch plain_sched_env t = t div 1000000" for t
    by (simp add: plain_sched_env_def)
  have "expr_effective_score (scheduler_order_expressions plain_sched_env SQLite 900100000 ?w)
     - effective_score (scheduler_score_from_workspace plain_sched_env ?w 900100000) \<in> {0, 1}"
    using sqlite_rank_close [OF p e, of 900100000] by (rule conjunct2)
  moreover have "scheduler_age_boost_expr plain_sched_env SQLite 900100000 ?w \<noteq> age_boost_of (created_at ?w) 900100000"
    by (simp add: scheduler_age_boost_expr_def sqlite_scheduler_age_boost_expr_def Let_def e rat_trunc_div
        bounded_scheduler_int_expr_def AGE_BOOST_MAX_def age_boost_eq ranked_workspace_def)
  ultimately show ?thesis
    unfolding plain_expressions [OF p] by simp
qed

end
