(* ===== verification/Scheduler_Paging.thy ===== *)
theory Scheduler_Paging
  imports Scheduler_Properties
begin

text \<open>
  Keyset pagination.  Locale \<open>keyset_pages\<close> is the contract of a sort key for paging (rows with the same key are
  the same row) with the slicing lemmas; the key the database orders by interprets it, for every dialect.
\<close>

section \<open>Slices of a strictly sorted queue\<close>

lemma filter_after_nth:
  "sorted_wrt (\<lambda>r s. k r < (k s :: 'k::linorder)) S \<Longrightarrow> i < length S
     \<Longrightarrow> filter (\<lambda>r. k (S ! i) < k r) S = drop (Suc i) S"
proof (induction S arbitrary: i)
  case (Cons x S)
  show ?case
  proof (cases i)
    case 0
    with Cons.prems show ?thesis by (auto simp: filter_id_conv)
  next
    case (Suc j)
    with Cons have "filter (\<lambda>r. k (S ! j) < k r) S = drop (Suc j) S"
      by simp
    moreover have "k x < k (S ! j)"
      using Cons.prems Suc by simp
    ultimately show ?thesis
      using Suc by auto
  qed
qed simp

lemma sort_key_sorted_id: "sorted (map f xs) \<Longrightarrow> sort_key f xs = xs"
  by (induction xs) (auto simp: insort_is_Cons)

lemma sort_key_same: "(\<And>x. x \<in> set xs \<Longrightarrow> f x = g x) \<Longrightarrow> sort_key f xs = sort_key g xs"
proof (induction xs)
  case (Cons x xs)
  have "insort_key f x ys = insort_key g x ys" if "\<And>y. y \<in> insert x (set ys) \<Longrightarrow> f y = g y" for ys
    using that by (induction ys) auto
  from this [of "sort_key g xs"] Cons show ?case
    by simp
qed simp

locale keyset_pages =
  fixes key :: "'r \<Rightarrow> 'k::linorder" and ident :: "'r \<Rightarrow> 'i"
  assumes key_ident: "key r = key s \<Longrightarrow> ident r = ident s"
begin

lemma strictly_sorted:
  assumes "distinct (map ident rows)"
  shows "sorted_wrt (\<lambda>r s. key r < key s) (sort_key key rows)"
proof -
  have "inj_on key (set rows)"
  proof (rule inj_onI)
    fix r s
    assume "r \<in> set rows" "s \<in> set rows" "key r = key s"
    moreover from this have "ident r = ident s"
      by (intro key_ident)
    ultimately show "r = s"
      using assms by (simp add: distinct_map inj_on_def)
  qed
  then have "distinct (map key rows)"
    using assms by (simp add: distinct_map)
  then have "distinct (map key (sort_key key rows))"
    by (simp add: distinct_map)
  then have "sorted_wrt (<) (map key (sort_key key rows))"
    by (simp add: strict_sorted_iff)
  then show ?thesis
    by (simp add: sorted_wrt_map)
qed

lemma next_slice:
  assumes d: "distinct (map ident rows)" and p: "page = take n (drop k (sort_key key rows))" and ne: "page \<noteq> []"
  shows "sort_key key (filter (\<lambda>r. key (last page) < key r) rows) = drop (k + length page) (sort_key key rows)"
proof -
  let ?S = "sort_key key rows" and ?i = "k + length page - 1"
  have len: "length page = min n (length ?S - k)"
    unfolding p by simp
  have pos: "0 < length page"
    using ne by simp
  have i: "?i < length ?S"
    using pos len by linarith
  have "last page = page ! (length page - 1)"
    using ne by (rule last_conv_nth)
  also have "\<dots> = drop k ?S ! (length page - 1)"
    using pos len by (subst p, intro nth_take) linarith
  also have "\<dots> = ?S ! (k + (length page - 1))"
    using pos len by (intro nth_drop) linarith
  also have "k + (length page - 1) = ?i"
    using pos by linarith
  finally have l: "last page = ?S ! ?i" .
  have "filter (\<lambda>r. key (last page) < key r) ?S = drop (Suc ?i) ?S"
    unfolding l by (rule filter_after_nth [OF strictly_sorted [OF d] i])
  moreover have "Suc ?i = k + length page"
    using ne by (cases page) auto
  ultimately show ?thesis
    by (simp add: filter_sort)
qed

lemma unlisted_later:
  assumes d: "distinct (map ident rows)" and c: "c \<in> set (take n (sort_key key rows))"
    and r: "r \<in> set rows" and nr: "r \<notin> set (take n (sort_key key rows))"
  shows "key c < key r"
proof -
  have "r \<in> set (drop n (sort_key key rows))"
    using r nr by (metis append_take_drop_id set_append UnE set_sort)
  moreover have "sorted_wrt (\<lambda>r s. key r < key s) (take n (sort_key key rows) @ drop n (sort_key key rows))"
    using strictly_sorted [OF d] by simp
  ultimately show ?thesis
    using c unfolding sorted_wrt_append by blast
qed

end

interpretation sql: keyset_pages "sql_order_key env d t" ws_id for env d t
  by unfold_locales (simp add: sql_order_key_def Let_def)

interpretation queue: keyset_pages "queue_key env t" ws_id for env t
  by unfold_locales (simp add: queue_key_def scheduler_order_key_def score_fields)

section \<open>The cursor\<close>

definition cursor_key :: "sched_env \<Rightarrow> dialect \<Rightarrow> database \<Rightarrow> SchedulerOrderCursor \<Rightarrow> order_key" where
  "cursor_key env d db c =
     (let e = scheduler_cursor_order_expressions env d db c in
      (- expr_class_priority e, - expr_effective_score e, cur_queued_at c, cur_workspace_id c))"

lemma after_cursor_key:
  "scheduler_after_cursor_condition env d db t c w \<longleftrightarrow> cursor_key env d db c < sql_order_key env d t w"
  by (auto simp: scheduler_after_cursor_condition_def cursor_key_def sql_order_key_def Let_def)

lemma page_cursor_key:
  assumes "page \<noteq> []" and "workspaces db (ws_id (last page)) = Some (last page)"
    and "scheduler_candidate_cursor env d page t = Some c"
  shows "cursor_key env d db c = sql_order_key env d t (last page) \<and> cur_scoring_at c = t"
  using assms by (auto simp: scheduler_candidate_cursor_def Let_def cursor_key_def sql_order_key_def
      scheduler_cursor_order_expressions_def score_fields)

lemma page_has_cursor: "page \<noteq> [] \<Longrightarrow> \<exists>c. scheduler_candidate_cursor env d page t = Some c \<and> cur_scoring_at c = t"
  by (simp add: scheduler_candidate_cursor_def Let_def)

lemma sort_schedulable_key:
  "sort_schedulable_workspaces env ws limit t = take_limit limit (sort_key (queue_key env t) ws)"
proof -
  have "(\<lambda>w. (let s = scheduler_score_from_workspace env w t in
      (- class_priority s, - effective_score s, created_at w, ws_id w))) = queue_key env t"
    by (rule ext) (simp add: queue_key_def scheduler_order_key_def Let_def score_fields)
  then show ?thesis
    unfolding sort_schedulable_workspaces_def by simp
qed

section \<open>Pages of the queue\<close>

definition table_ok :: "database \<Rightarrow> Workspace list \<Rightarrow> bool" where
  "table_ok db rows = (distinct (map ws_id rows) \<and> (\<forall>w \<in> set rows. workspaces db (ws_id w) = Some w))"

definition remaining ::
    "sched_env \<Rightarrow> dialect \<Rightarrow> (string \<Rightarrow> bool) \<Rightarrow> scheduler_query \<Rightarrow> SchedulerOrderCursor option \<Rightarrow> instant
     \<Rightarrow> instant \<Rightarrow> string list \<Rightarrow> database \<Rightarrow> Workspace list \<Rightarrow> Workspace list" where
  "remaining env d locked q after t now fresh db rows =
     filter (\<lambda>w. schedulable q now fresh db w
        \<and> (case after of None \<Rightarrow> True | Some c \<Rightarrow> scheduler_after_cursor_condition env d db t c w)
        \<and> (d = PostgreSQL \<longrightarrow> \<not> locked (ws_id w))) rows"

lemma listed_page:
  assumes "0 < limit" and "after = None \<or> (\<exists>c. after = Some c \<and> cur_scoring_at c = t)"
  shows "list_schedulable_workspaces env d locked now fresh q limit after (Some t) db rows =
    Inr (sort_key (queue_key env t)
      (take (nat limit) (sort_key (sql_order_key env d t) (remaining env d locked q after t now fresh db rows))))"
  using assms
  by (auto simp: list_schedulable_workspaces_def scheduler_scoring_time_def sort_schedulable_key take_limit_def
      schedulable_workspace_ids_stmt_def remaining_def)

lemma postgres_listed_page:
  assumes "0 < limit" and "after = None \<or> (\<exists>c. after = Some c \<and> cur_scoring_at c = t)"
    and "\<And>w. w \<in> set rows \<Longrightarrow> plain_policy env PostgreSQL w"
  shows "list_schedulable_workspaces env PostgreSQL locked now fresh q limit after (Some t) db rows =
    Inr (take (nat limit) (sort_key (sql_order_key env PostgreSQL t) (remaining env PostgreSQL locked q after t now fresh db rows)))"
proof -
  let ?k = "sql_order_key env PostgreSQL t" and ?R = "remaining env PostgreSQL locked q after t now fresh db rows"
  let ?p = "take (nat limit) (sort_key ?k ?R)"
  have "sort_key (queue_key env t) ?p = sort_key ?k ?p"
  proof (rule sort_key_same)
    fix w
    assume "w \<in> set ?p"
    then have "w \<in> set rows"
      by (auto simp: remaining_def dest: in_set_takeD)
    then show "queue_key env t w = ?k w"
      using assms(3) sql_rank_plain [of env w t] by simp
  qed
  also have "\<dots> = ?p"
    by (rule sort_key_sorted_id) (simp add: take_map [symmetric] sorted_wrt_take)
  finally show ?thesis
    unfolding listed_page [OF assms(1,2)] by simp
qed

text \<open>Moving the cursor past a page keeps every row that was not listed and drops at least one.\<close>

lemma cursor_advances:
  assumes ok: "table_ok db rows" and l: "0 < limit"
    and p: "list_schedulable_workspaces env d locked now fresh q limit after (Some t) db rows = Inr page"
    and a: "after = None \<or> (\<exists>c. after = Some c \<and> cur_scoring_at c = t)" and ne: "page \<noteq> []"
    and c: "scheduler_candidate_cursor env d page t = Some c"
  shows "set (remaining env d locked q after t now fresh db rows) - set page
           \<subseteq> set (remaining env d locked q (Some c) t now fresh db rows)"
    and "set (remaining env d locked q (Some c) t now fresh db rows)
           \<subseteq> set (remaining env d locked q after t now fresh db rows)"
    and "last page \<in> set (remaining env d locked q after t now fresh db rows)
           - set (remaining env d locked q (Some c) t now fresh db rows)"
proof -
  let ?k = "sql_order_key env d t" and ?R = "remaining env d locked q after t now fresh db rows"
  let ?T = "take (nat limit) (sort_key ?k ?R)"
  have page: "set page = set ?T"
    using p unfolding listed_page [OF l a] by auto
  have last: "last page \<in> set ?T"
    using last_in_set [OF ne] page by simp
  then have lastR: "last page \<in> set ?R"
    by (auto dest: in_set_takeD)
  then have lastrow: "workspaces db (ws_id (last page)) = Some (last page)"
    using ok by (simp add: table_ok_def remaining_def)
  have ck: "cursor_key env d db c = ?k (last page)"
    using page_cursor_key [OF ne lastrow c] by simp
  have R': "set (remaining env d locked q (Some c) t now fresh db rows)
      = {w \<in> set rows. schedulable q now fresh db w \<and> ?k (last page) < ?k w \<and> (d = PostgreSQL \<longrightarrow> \<not> locked (ws_id w))}"
    by (auto simp: remaining_def after_cursor_key ck)
  have dist: "distinct (map ws_id ?R)"
    using ok by (simp add: table_ok_def remaining_def distinct_map_filter)
  show "set ?R - set page \<subseteq> set (remaining env d locked q (Some c) t now fresh db rows)"
  proof
    fix w
    assume w: "w \<in> set ?R - set page"
    then have "?k (last page) < ?k w"
      using sql.unlisted_later [OF dist last] page by simp
    then show "w \<in> set (remaining env d locked q (Some c) t now fresh db rows)"
      using w by (simp add: R') (simp add: remaining_def)
  qed
  show "set (remaining env d locked q (Some c) t now fresh db rows) \<subseteq> set ?R"
  proof
    fix w
    assume w: "w \<in> set (remaining env d locked q (Some c) t now fresh db rows)"
    have "?k (last page) < ?k w"
      using w by (simp add: R')
    moreover have "cursor_key env d db c' < ?k (last page)" if "after = Some c'" for c'
      using lastR that by (simp add: remaining_def after_cursor_key)
    ultimately have "cursor_key env d db c' < ?k w" if "after = Some c'" for c'
      using that less_trans by blast
    with w show "w \<in> set ?R"
      by (auto simp: R' remaining_def after_cursor_key split: option.splits)
  qed
  show "last page \<in> set ?R - set (remaining env d locked q (Some c) t now fresh db rows)"
    using lastR by (simp add: R')
qed

text \<open>The queue a query sees: its unlocked candidates in queue order.\<close>

definition visible_queue ::
    "sched_env \<Rightarrow> (string \<Rightarrow> bool) \<Rightarrow> scheduler_query \<Rightarrow> instant \<Rightarrow> instant \<Rightarrow> string list \<Rightarrow> database \<Rightarrow> Workspace list
     \<Rightarrow> Workspace list" where
  "visible_queue env locked q t now fresh db rows =
     sort_key (queue_key env t) (filter (\<lambda>w. schedulable q now fresh db w \<and> \<not> locked (ws_id w)) rows)"

lemma visible_queue_sql:
  assumes "\<And>w. w \<in> set rows \<Longrightarrow> plain_policy env PostgreSQL w"
  shows "visible_queue env locked q t now fresh db rows
         = sort_key (sql_order_key env PostgreSQL t) (remaining env PostgreSQL locked q None t now fresh db rows)"
  unfolding visible_queue_def remaining_def
  by (simp, rule sort_key_same) (simp add: assms sql_rank_plain)

lemma postgres_next_page:
  assumes ok: "table_ok db rows" and l: "0 < limit" and plain: "\<And>w. w \<in> set rows \<Longrightarrow> plain_policy env PostgreSQL w"
    and page: "page = take (nat limit) (drop k (visible_queue env locked q t now fresh db rows))" and ne: "page \<noteq> []"
  shows "list_schedulable_workspaces env PostgreSQL locked now fresh q limit
           (scheduler_candidate_cursor env PostgreSQL page t) (Some t) db rows
         = Inr (take (nat limit) (drop (k + length page) (visible_queue env locked q t now fresh db rows)))"
proof -
  let ?k = "sql_order_key env PostgreSQL t" and ?R = "remaining env PostgreSQL locked q None t now fresh db rows"
  have vq: "visible_queue env locked q t now fresh db rows = sort_key ?k ?R"
    by (rule visible_queue_sql) (rule plain)
  obtain c where c: "scheduler_candidate_cursor env PostgreSQL page t = Some c" "cur_scoring_at c = t"
    using page_has_cursor [OF ne] by blast
  have last: "last page \<in> set rows"
    using last_in_set [OF ne] unfolding page visible_queue_def
    by (auto dest!: in_set_takeD in_set_dropD)
  then have "cursor_key env PostgreSQL db c = ?k (last page)"
    using page_cursor_key [OF ne _ c(1)] ok by (simp add: table_ok_def)
  then have R: "remaining env PostgreSQL locked q (Some c) t now fresh db rows = filter (\<lambda>r. ?k (last page) < ?k r) ?R"
    by (auto simp: remaining_def after_cursor_key intro: filter_cong)
  have "distinct (map ws_id ?R)"
    using ok by (simp add: table_ok_def remaining_def distinct_map_filter)
  then have "sort_key ?k (filter (\<lambda>r. ?k (last page) < ?k r) ?R)
      = drop (k + length page) (sort_key ?k ?R)"
    using page ne unfolding vq by (rule sql.next_slice)
  then show ?thesis
    unfolding c(1) vq using c(2) by (simp add: postgres_listed_page [OF l _ plain] R)
qed

text \<open>
  On PostgreSQL, paging through the queue with the cursor of each page yields the whole queue in
  priority order: the first page is its first \<open>limit\<close> rows, and the page after a non-empty slice starts
  right behind it.  No row is skipped and none is listed twice.
\<close>

theorem pages_partition_queue:
  assumes "table_ok db rows" and "0 < limit" and "\<forall>w \<in> set rows. plain_policy env PostgreSQL w"
  shows "list_schedulable_workspaces env PostgreSQL locked now fresh q limit None (Some t) db rows
           = Inr (take (nat limit) (visible_queue env locked q t now fresh db rows))
         \<and> (\<forall>k page. page = take (nat limit) (drop k (visible_queue env locked q t now fresh db rows)) \<and> page \<noteq> [] \<longrightarrow>
              list_schedulable_workspaces env PostgreSQL locked now fresh q limit
                (scheduler_candidate_cursor env PostgreSQL page t) (Some t) db rows
              = Inr (take (nat limit) (drop (k + length page) (visible_queue env locked q t now fresh db rows))))"
proof (intro conjI allI impI)
  have plain: "\<And>w. w \<in> set rows \<Longrightarrow> plain_policy env PostgreSQL w"
    using assms(3) by blast
  then show "list_schedulable_workspaces env PostgreSQL locked now fresh q limit None (Some t) db rows
      = Inr (take (nat limit) (visible_queue env locked q t now fresh db rows))"
    using visible_queue_sql [of rows env locked q t now fresh db] assms(2)
    by (simp add: postgres_listed_page [OF _ _ plain])
  show "list_schedulable_workspaces env PostgreSQL locked now fresh q limit
             (scheduler_candidate_cursor env PostgreSQL page t) (Some t) db rows
           = Inr (take (nat limit) (drop (k + length page) (visible_queue env locked q t now fresh db rows)))"
    if "page = take (nat limit) (drop k (visible_queue env locked q t now fresh db rows)) \<and> page \<noteq> []" for k page
    using assms(1,2) plain conjunct1 [OF that] conjunct2 [OF that] by (rule postgres_next_page)
qed

definition two_rows :: "Workspace list" where
  "two_rows = [sample_workspace ''w1'' Requested, (sample_workspace ''w2'' Requested)\<lparr>task_class := Some ''migration_task''\<rparr>]"

definition two_db :: database where
  "two_db = (sample_db Requested)\<lparr>workspaces := map_of (map (\<lambda>w. (ws_id w, w)) two_rows), reservations := []\<rparr>"

definition requested_query :: scheduler_query where
  "requested_query = \<lparr>q_status = Requested, q_exclude_ids = [], q_node_id = Some ''local'', q_owner_id = None\<rparr>"

lemma two_rows_ok:
  "table_ok two_db two_rows" "\<forall>w \<in> set two_rows. plain_policy plain_sched_env PostgreSQL w"
  by (simp_all add: table_ok_def two_db_def two_rows_def sample_workspace_def plain_policy_def json_get_def
      plain_int_postgres_def plain_str_field_def)

theorem pages_partition_queue_witness:
  "map_sum id (map ws_id) (list_schedulable_workspaces plain_sched_env PostgreSQL (\<lambda>_. False) 0 [] requested_query 1 None
     (Some 0) two_db two_rows) = Inr [''w2'']
   \<and> map_sum id (map ws_id) (list_schedulable_workspaces plain_sched_env PostgreSQL (\<lambda>_. False) 0 [] requested_query 1
     (scheduler_candidate_cursor plain_sched_env PostgreSQL
       (take (nat 1) (drop 0 (visible_queue plain_sched_env (\<lambda>_. False) requested_query 0 0 [] two_db two_rows))) 0)
     (Some 0) two_db two_rows) = Inr [''w1'']"
proof -
  have v: "map ws_id (visible_queue plain_sched_env (\<lambda>_. False) requested_query 0 0 [] two_db two_rows) = [''w2'', ''w1'']"
    by code_simp
  let ?q = "visible_queue plain_sched_env (\<lambda>_. False) requested_query 0 0 [] two_db two_rows"
  let ?p = "take (nat 1) (drop 0 ?q)"
  have len: "length ?q = 2"
    using arg_cong [OF v, of length] by simp
  then have ne: "?p \<noteq> []" "length ?p = 1"
    by (cases ?q; simp)+
  note pages = pages_partition_queue [OF two_rows_ok(1) zero_less_one two_rows_ok(2),
      of "\<lambda>_. False" 0 "[]" requested_query 0]
  note page1 = conjunct1 [OF pages] and page2 = mp [OF spec [OF spec [OF conjunct2 [OF pages]]] conjI [OF refl ne(1)]]
  show ?thesis
    unfolding page1 page2 ne(2) using v by (simp add: take_map [symmetric] drop_map [symmetric])
qed

end
