(* ===== verification/Circuit_Breaker.thy ===== *)
theory Circuit_Breaker
  imports Rows
begin

text \<open>
  The provider/model circuit breakers (\<open>ProviderModelCircuitBreakerRepository\<close> in
  \<open>db/repositories/system_repo.py\<close>): recorded failures open a breaker, an open breaker suppresses its provider/model
  pair until the cool-down has elapsed, and the first query after that closes it.  The table is a list with at most
  one row per pair; every operation returns the new table.
\<close>

section \<open>Operations\<close>

definition circuit_breaker_expired :: "ProviderModelCircuitBreaker \<Rightarrow> instant \<Rightarrow> bool" where
  "circuit_breaker_expired b now =
     (br_state b = ''open'' \<and> (case cooldown_until b of None \<Rightarrow> False | Some t \<Rightarrow> t \<le> now))"

definition close_breaker :: "ProviderModelCircuitBreaker \<Rightarrow> ProviderModelCircuitBreaker" where
  "close_breaker b = b\<lparr>br_state := ''closed'', failure_count := 0, opened_at := None, cooldown_until := None\<rparr>"

definition br_pair :: "ProviderModelCircuitBreaker \<Rightarrow> string \<times> string" where
  "br_pair b = (br_provider b, br_model b)"

definition get_breaker :: "string \<times> string \<Rightarrow> ProviderModelCircuitBreaker list \<Rightarrow> ProviderModelCircuitBreaker option" where
  "get_breaker pr tab = find (\<lambda>b. br_pair b = pr) tab"

definition put_breaker :: "ProviderModelCircuitBreaker \<Rightarrow> ProviderModelCircuitBreaker list \<Rightarrow> ProviderModelCircuitBreaker list" where
  "put_breaker b tab = map (\<lambda>x. if br_pair x = br_pair b then b else x) tab"

definition new_breaker :: "string \<times> string \<Rightarrow> ProviderModelCircuitBreaker" where
  "new_breaker pr = \<lparr>br_provider = fst pr, br_model = snd pr, br_state = ''closed'', failure_count = 0, opened_at = None,
     cooldown_until = None, last_reason_code = None, last_failure_fingerprint = None, last_workspace_id = None,
     last_attempt_id = None\<rparr>"

definition create_or_get_missing ::
    "string \<times> string \<Rightarrow> ProviderModelCircuitBreaker list \<Rightarrow> ProviderModelCircuitBreaker \<times> ProviderModelCircuitBreaker list" where
  "create_or_get_missing pr tab =
     (case get_breaker pr tab of Some b \<Rightarrow> (b, tab) | None \<Rightarrow> (new_breaker pr, tab @ [new_breaker pr]))"

record breaker_failure =
  bf_provider :: string
  bf_model :: string
  bf_reason_code :: string
  bf_fingerprint :: string
  bf_workspace_id :: "string option"
  bf_attempt_id :: "string option"
  bf_now :: instant
  bf_threshold :: int
  bf_cooldown_seconds :: int

definition bf_pair :: "breaker_failure \<Rightarrow> string \<times> string" where
  "bf_pair f = (py_strip (bf_provider f), py_strip (bf_model f))"

definition count_failure :: "breaker_failure \<Rightarrow> ProviderModelCircuitBreaker \<Rightarrow> ProviderModelCircuitBreaker" where
  "count_failure f b =
     (let b0 = (if circuit_breaker_expired b (bf_now f) then close_breaker b else b);
          b1 = b0\<lparr>failure_count := failure_count b0 + 1, last_reason_code := Some (bf_reason_code f),
                  last_failure_fingerprint := Some (take 512 (bf_fingerprint f)),
                  last_workspace_id := bf_workspace_id f, last_attempt_id := bf_attempt_id f\<rparr> in
      if max 1 (bf_threshold f) \<le> failure_count b1
      then b1\<lparr>br_state := ''open'', opened_at := Some (bf_now f),
              cooldown_until := Some (bf_now f + max 0 (bf_cooldown_seconds f) * 1000000)\<rparr>
      else b1)"

definition record_failure :: "breaker_failure \<Rightarrow> ProviderModelCircuitBreaker list \<Rightarrow> ProviderModelCircuitBreaker list" where
  "record_failure f tab =
     (let (b, tab1) = create_or_get_missing (bf_pair f) tab in put_breaker (count_failure f b) tab1)"

definition is_suppressed ::
    "string \<times> string \<Rightarrow> instant \<Rightarrow> ProviderModelCircuitBreaker list \<Rightarrow> bool \<times> ProviderModelCircuitBreaker list" where
  "is_suppressed pr now tab =
     (case get_breaker pr tab of
        None \<Rightarrow> (False, tab)
      | Some b \<Rightarrow>
          if circuit_breaker_expired b now then (False, put_breaker (close_breaker b) tab)
          else (br_state b = ''open'', tab))"

definition open_breaker ::
    "string \<times> string \<Rightarrow> instant \<Rightarrow> ProviderModelCircuitBreaker list
     \<Rightarrow> ProviderModelCircuitBreaker option \<times> ProviderModelCircuitBreaker list" where
  "open_breaker pr now tab =
     (case get_breaker pr tab of
        None \<Rightarrow> (None, tab)
      | Some b \<Rightarrow>
          if circuit_breaker_expired b now then (None, put_breaker (close_breaker b) tab)
          else (if br_state b = ''open'' then Some b else None, tab))"

text \<open>The rows a listing keeps open, and the table with the expired ones closed.\<close>

definition list_open ::
    "instant \<Rightarrow> ProviderModelCircuitBreaker list \<Rightarrow> ProviderModelCircuitBreaker list \<times> ProviderModelCircuitBreaker list" where
  "list_open now tab =
     (filter (\<lambda>b. br_state b = ''open'' \<and> \<not> circuit_breaker_expired b now) tab,
      map (\<lambda>b. if br_state b = ''open'' \<and> circuit_breaker_expired b now then close_breaker b else b) tab)"

definition open_breakers_for_pairs ::
    "(string \<times> string) list \<Rightarrow> instant \<Rightarrow> ProviderModelCircuitBreaker list
     \<Rightarrow> (string \<times> string \<rightharpoonup> ProviderModelCircuitBreaker) \<times> ProviderModelCircuitBreaker list" where
  "open_breakers_for_pairs prs now tab =
     (let normalized = map (\<lambda>(p, m). (py_strip p, py_strip m))
                         (filter (\<lambda>(p, m). py_strip p \<noteq> [] \<and> py_strip m \<noteq> []) prs) in
      if normalized = [] then (Map.empty, tab)
      else
        (let hit = (\<lambda>b. br_state b = ''open'' \<and> br_pair b \<in> set normalized) in
         (map_of (map (\<lambda>b. (br_pair b, b)) (filter (\<lambda>b. hit b \<and> \<not> circuit_breaker_expired b now) tab)),
          map (\<lambda>b. if hit b \<and> circuit_breaker_expired b now then close_breaker b else b) tab)))"

section \<open>Facts\<close>

definition breakers_ok :: "ProviderModelCircuitBreaker list \<Rightarrow> bool" where
  "breakers_ok tab = distinct (map br_pair tab)"

lemma close_pair [simp]: "br_pair (close_breaker b) = br_pair b"
  by (simp add: close_breaker_def br_pair_def)

lemma count_pair [simp]: "br_pair (count_failure f b) = br_pair b"
  by (simp add: count_failure_def close_breaker_def br_pair_def Let_def)

lemma new_pair [simp]: "br_pair (new_breaker pr) = pr"
  by (simp add: new_breaker_def br_pair_def)

lemma get_breaker_pair: "get_breaker pr tab = Some b \<Longrightarrow> br_pair b = pr"
  by (auto simp: get_breaker_def find_Some_iff)

lemma get_put: "get_breaker pr (put_breaker b tab) =
    (if pr = br_pair b then (case get_breaker pr tab of None \<Rightarrow> None | Some _ \<Rightarrow> Some b) else get_breaker pr tab)"
  by (induction tab) (auto simp: get_breaker_def put_breaker_def)

lemma put_pairs [simp]: "map br_pair (put_breaker b tab) = map br_pair tab"
  by (induction tab) (auto simp: put_breaker_def)

lemma get_append_new: "get_breaker pr (tab @ [b]) =
    (case get_breaker pr tab of Some x \<Rightarrow> Some x | None \<Rightarrow> if br_pair b = pr then Some b else None)"
  by (induction tab) (auto simp: get_breaker_def)

lemma get_breaker_None: "get_breaker pr tab = None \<longleftrightarrow> pr \<notin> br_pair ` set tab"
  by (auto simp: get_breaker_def find_None_iff)

lemma record_failure_ok: "breakers_ok tab \<Longrightarrow> breakers_ok (record_failure f tab)"
  by (auto simp: breakers_ok_def record_failure_def create_or_get_missing_def get_breaker_None
      split: option.splits)

text \<open>The pair of a failure gets the counted row, every other pair keeps its own.\<close>

lemma get_record_failure:
  "get_breaker pr (record_failure f tab) =
     (if pr = bf_pair f
      then Some (count_failure f (case get_breaker pr tab of None \<Rightarrow> new_breaker pr | Some b \<Rightarrow> b))
      else get_breaker pr tab)"
  by (auto simp: record_failure_def create_or_get_missing_def get_put get_append_new dest: get_breaker_pair
      split: option.splits)

text \<open>A row is open with a cool-down end and a positive count, or closed without one.\<close>

definition breaker_wf :: "ProviderModelCircuitBreaker \<Rightarrow> bool" where
  "breaker_wf b =
     (0 \<le> failure_count b
      \<and> (br_state b = ''open'' \<and> cooldown_until b \<noteq> None \<and> opened_at b \<noteq> None \<and> 1 \<le> failure_count b
         \<or> br_state b = ''closed'' \<and> cooldown_until b = None \<and> opened_at b = None))"

lemma close_wf [simp]: "breaker_wf (close_breaker b)"
  by (simp add: breaker_wf_def close_breaker_def)

lemma new_wf [simp]: "breaker_wf (new_breaker pr)"
  by (simp add: breaker_wf_def new_breaker_def)

lemma count_failure_wf: "breaker_wf b \<Longrightarrow> breaker_wf (count_failure f b)"
  by (auto simp: count_failure_def Let_def breaker_wf_def close_breaker_def)

definition breakers_inv :: "ProviderModelCircuitBreaker list \<Rightarrow> bool" where
  "breakers_inv tab = (breakers_ok tab \<and> (\<forall>b \<in> set tab. breaker_wf b))"

lemma put_breaker_inv: "breakers_inv tab \<Longrightarrow> breaker_wf b \<Longrightarrow> breakers_inv (put_breaker b tab)"
  by (auto simp: breakers_inv_def breakers_ok_def) (auto simp: put_breaker_def)

lemma map_close_inv:
  "breakers_inv tab \<Longrightarrow> breakers_inv (map (\<lambda>b. if P b then close_breaker b else b) tab)"
  by (auto simp: breakers_inv_def breakers_ok_def comp_def if_distrib [of br_pair] cong: if_cong)

lemma get_breaker_wf: "breakers_inv tab \<Longrightarrow> get_breaker pr tab = Some b \<Longrightarrow> breaker_wf b"
  by (auto simp: breakers_inv_def get_breaker_def find_Some_iff)

lemma record_failure_inv:
  assumes "breakers_inv tab"
  shows "breakers_inv (record_failure f tab)"
proof (cases "get_breaker (bf_pair f) tab")
  case None
  then have "breakers_inv (tab @ [new_breaker (bf_pair f)])"
    using assms by (auto simp: breakers_inv_def breakers_ok_def get_breaker_None)
  then show ?thesis
    using None by (simp add: record_failure_def create_or_get_missing_def put_breaker_inv count_failure_wf)
next
  case (Some b)
  then show ?thesis
    using assms get_breaker_wf [OF assms Some]
    by (simp add: record_failure_def create_or_get_missing_def put_breaker_inv count_failure_wf)
qed

section \<open>Properties\<close>

text \<open>
  Every operation on the circuit breakers keeps the table well formed: one row per
  provider/model pair, each row open with a cool-down end and a positive failure count, or closed without.
\<close>

theorem breaker_operations_keep_table:
  assumes "breakers_inv tab"
  shows "breakers_inv (record_failure f tab) \<and> breakers_inv (snd (is_suppressed pr now tab))
         \<and> breakers_inv (snd (open_breaker pr now tab)) \<and> breakers_inv (snd (list_open now tab))
         \<and> breakers_inv (snd (open_breakers_for_pairs prs now tab))"
  using assms
  by (auto simp: record_failure_inv is_suppressed_def open_breaker_def list_open_def open_breakers_for_pairs_def Let_def
      put_breaker_inv map_close_inv split: option.splits)

definition sample_failure :: breaker_failure where
  "sample_failure = \<lparr>bf_provider = '' openai'', bf_model = ''gpt-5'', bf_reason_code = ''AGENT_PROVIDER_CAPACITY_EXHAUSTED'',
     bf_fingerprint = ''fp'', bf_workspace_id = Some ''w1'', bf_attempt_id = Some ''a1'', bf_now = 5000000,
     bf_threshold = 2, bf_cooldown_seconds = 60\<rparr>"

theorem breaker_operations_keep_table_witness:
  "breakers_inv (record_failure sample_failure [])"
proof -
  have "breakers_inv []"
    by (simp add: breakers_inv_def breakers_ok_def)
  from breaker_operations_keep_table [OF this, of sample_failure] show ?thesis
    by (rule conjunct1)
qed

text \<open>
  What a recorded failure does.  The pair's live count (0 if it had no row or its
  cool-down was over) goes up by one; if it reaches the threshold (at least 1), the pair is suppressed exactly until the
  cool-down after this failure is over; below the threshold it stays suppressed exactly as long as it already was.
  Other pairs are not affected.
\<close>

theorem failure_suppresses_exactly:
  assumes "breakers_inv tab" and "bf_now f \<le> t"
  shows "(let live = (case get_breaker (bf_pair f) tab of None \<Rightarrow> 0
                      | Some b \<Rightarrow> if circuit_breaker_expired b (bf_now f) then 0 else failure_count b) in
          (fst (is_suppressed (bf_pair f) t (record_failure f tab))
             \<longleftrightarrow> (if max 1 (bf_threshold f) \<le> live + 1
                  then t < bf_now f + max 0 (bf_cooldown_seconds f) * 1000000
                  else fst (is_suppressed (bf_pair f) t tab)))
          \<and> (\<forall>pr. pr \<noteq> bf_pair f \<longrightarrow>
                fst (is_suppressed pr t (record_failure f tab)) = fst (is_suppressed pr t tab)))"
proof (cases "get_breaker (bf_pair f) tab")
  case None
  then show ?thesis
    by (auto simp: Let_def is_suppressed_def get_record_failure count_failure_def circuit_breaker_expired_def new_breaker_def
        split: option.splits)
next
  case (Some b)
  have "breaker_wf b"
    using get_breaker_wf [OF assms(1) Some] .
  then show ?thesis
    using Some assms(2)
    by (auto simp: Let_def is_suppressed_def get_record_failure count_failure_def circuit_breaker_expired_def
        close_breaker_def breaker_wf_def split: option.splits)
qed

theorem failure_suppresses_exactly_witness:
  "fst (is_suppressed (''openai'', ''gpt-5'') 64000000 (record_failure sample_failure (record_failure sample_failure [])))
   \<and> \<not> fst (is_suppressed (''openai'', ''gpt-5'') 65000000 (record_failure sample_failure (record_failure sample_failure [])))"
proof -
  let ?t = "record_failure sample_failure []"
  have i: "breakers_inv ?t"
    by (rule record_failure_inv) (simp add: breakers_inv_def breakers_ok_def)
  have p: "bf_pair sample_failure = (''openai'', ''gpt-5'')"
    by code_simp
  have live: "(case get_breaker (bf_pair sample_failure) ?t of None \<Rightarrow> 0
      | Some b \<Rightarrow> if circuit_breaker_expired b (bf_now sample_failure) then 0 else failure_count b) = 1"
    by code_simp
  have n: "bf_now sample_failure \<le> 64000000" "bf_now sample_failure \<le> 65000000"
    by (simp_all add: sample_failure_def)
  have b: "bf_now sample_failure + max 0 (bf_cooldown_seconds sample_failure) * 1000000 = 65000000"
    "max 1 (bf_threshold sample_failure) \<le> 1 + 1"
    by (simp_all add: sample_failure_def)
  from failure_suppresses_exactly [OF i n(1), unfolded live Let_def b(1), THEN conjunct1]
    failure_suppresses_exactly [OF i n(2), unfolded live Let_def b(1), THEN conjunct1]
  show ?thesis
    using b(2) unfolding p by simp
qed

text \<open>
  Suppression ends: for every pair there is a time from which it is never reported as
  suppressed any more, and the query that finds the cool-down over resets the row.
\<close>

theorem suppression_ends:
  assumes "breakers_inv tab"
  shows "\<exists>T. \<forall>t \<ge> T. \<not> fst (is_suppressed pr t tab)
           \<and> (\<forall>b. get_breaker pr (snd (is_suppressed pr t tab)) = Some b \<longrightarrow> br_state b = ''closed'')"
proof (cases "get_breaker pr tab")
  case None
  then show ?thesis
    by (simp add: is_suppressed_def)
next
  case (Some b)
  then have b: "breaker_wf b" "br_pair b = pr"
    using get_breaker_wf [OF assms Some] get_breaker_pair by simp_all
  have "\<not> fst (is_suppressed pr t tab)
      \<and> (\<forall>b'. get_breaker pr (snd (is_suppressed pr t tab)) = Some b' \<longrightarrow> br_state b' = ''closed'')"
    if "(case cooldown_until b of None \<Rightarrow> 0 | Some c \<Rightarrow> c) \<le> t" for t
    using that b Some
    by (auto simp: is_suppressed_def circuit_breaker_expired_def breaker_wf_def get_put close_breaker_def br_pair_def
        split: option.splits)
  then show ?thesis
    by blast
qed

theorem suppression_ends_witness:
  "\<exists>T. \<forall>t \<ge> T. \<not> fst (is_suppressed (''openai'', ''gpt-5'') t (record_failure sample_failure (record_failure sample_failure [])))"
proof -
  have "breakers_inv (record_failure sample_failure (record_failure sample_failure []))"
    by (intro record_failure_inv) (simp add: breakers_inv_def breakers_ok_def)
  from suppression_ends [OF this, of "(''openai'', ''gpt-5'')"] show ?thesis
    by blast
qed

end
