(* ===== verification/Scheduler_Dispatch.thy ===== *)
theory Scheduler_Dispatch
  imports Scheduler_Paging Circuit_Breaker
begin

text \<open>
  Choosing what to dispatch (\<open>control/worker/scheduler_methods.py\<close>, \<open>control/worker/scheduling.py\<close>): provider
  identity of a workspace, the filter that drops workspaces whose provider is cooling down (recording a queue decision
  for each), and the loop that reads the queue page by page.  One clock reading \<open>now\<close> stands for the ones taken
  within a pass.  The loop takes fuel; more than one unit per row is always enough.
\<close>

section \<open>Provider identity\<close>

definition CURSOR_MARKERS :: "string list" where
  "CURSOR_MARKERS = [''cursor-agent'', ''sonnet-4-thinking'', ''cursor_api_key'', ''cursor api key'', ''cursor auth'',
     ''cursor authentication'']"

definition GOOGLE_MARKERS :: "string list" where
  "GOOGLE_MARKERS = [''gemini'', ''google_api_key'', ''gemini_api_key'', ''resource_exhausted'', ''retryablequotaerror'']"

definition ANTHROPIC_MARKERS :: "string list" where
  "ANTHROPIC_MARKERS = [''claude'', ''anthropic'', ''sonnet'', ''opus'', ''haiku'']"

definition OLLAMA_MARKERS :: "string list" where
  "OLLAMA_MARKERS = [''ollama'']"

definition XAI_MARKERS :: "string list" where
  "XAI_MARKERS = [''grok'', ''xai'', ''grok-build'']"

definition OPENAI_MARKERS :: "string list" where
  "OPENAI_MARKERS = [''codex'', ''openai'', ''gpt-'', ''o3'', ''o4'']"

definition infer_provider :: "string option \<Rightarrow> string option \<Rightarrow> string option" where
  "infer_provider model output =
     (let t = py_lower ((case model of None \<Rightarrow> [] | Some m \<Rightarrow> m) @ CHR 0x0A # (case output of None \<Rightarrow> [] | Some s \<Rightarrow> s)) in
      if list_ex (contains t) CURSOR_MARKERS then Some ''cursor''
      else if list_ex (contains t) GOOGLE_MARKERS then Some ''google''
      else if list_ex (contains t) ANTHROPIC_MARKERS then Some ''anthropic''
      else if list_ex (contains t) OLLAMA_MARKERS then Some ''ollama''
      else if list_ex (contains t) XAI_MARKERS then Some ''xai''
      else if list_ex (contains t) OPENAI_MARKERS then Some ''openai''
      else None)"

definition provider_for_agent_model :: "string \<Rightarrow> string option \<Rightarrow> string option" where
  "provider_for_agent_model agent model =
     (if agent = ''cursor'' \<or> agent = ''antigravity'' then Some agent
      else (case infer_provider model None of
              Some p \<Rightarrow> Some p
            | None \<Rightarrow> map_of [(''codex'', ''openai''), (''claude_code'', ''anthropic''), (''opencode'', ''opencode''),
                              (''grok'', ''xai'')] agent))"

datatype CursorAutoMode = Cost | Balance | Intelligence

definition cursor_auto_mode_from_task_policy :: "json \<Rightarrow> CursorAutoMode option" where
  "cursor_auto_mode_from_task_policy policy =
     (case json_get ''cursor_auto_mode'' policy of
        Some (JStr v) \<Rightarrow>
          map_of [(''cost'', Cost), (''balance'', Balance), (''intelligence'', Intelligence)] (py_strip v)
      | _ \<Rightarrow> None)"

fun cursor_auto_model_selector :: "CursorAutoMode \<Rightarrow> string" where
  "cursor_auto_model_selector Cost = ''auto-smart[optimize_for=cost]''"
| "cursor_auto_model_selector Balance = ''auto-smart[optimize_for=balanced]''"
| "cursor_auto_model_selector Intelligence = ''auto-smart[optimize_for=intelligence]''"

definition agent_model_from_task_policy :: "json \<Rightarrow> string option" where
  "agent_model_from_task_policy policy =
     (case cursor_auto_mode_from_task_policy policy of
        Some m \<Rightarrow> Some (cursor_auto_model_selector m)
      | None \<Rightarrow>
          (case json_get ''agent_model'' policy of
             Some (JStr v) \<Rightarrow> if py_strip v = [] then None else Some (py_strip v)
           | _ \<Rightarrow> None))"

definition provider_cooldown_not_before :: "sched_env \<Rightarrow> json \<Rightarrow> instant option" where
  "provider_cooldown_not_before env policy =
     (case json_path [''provider_recovery_state'', ''not_before''] policy of
        Some (JStr s) \<Rightarrow> map_option as_utc (from_iso env s)
      | _ \<Rightarrow> None)"

section \<open>Queue decisions\<close>

definition latest_decision :: "string \<Rightarrow> database \<Rightarrow> QueueDecision option" where
  "latest_decision wid db =
     (case sort_key (\<lambda>r. (qd_decided_at r, qd_id r)) (filter (\<lambda>r. qd_workspace_id r = wid) (queue_decisions db)) of
        [] \<Rightarrow> None | r # rs \<Rightarrow> Some (last (r # rs)))"

definition create_decision ::
    "sched_env \<Rightarrow> TaskAttempt \<Rightarrow> string \<Rightarrow> string \<Rightarrow> string \<Rightarrow> SchedulerScore \<Rightarrow> json \<Rightarrow> json \<Rightarrow> (string \<times> json) list \<Rightarrow> instant
     \<Rightarrow> database \<Rightarrow> database" where
  "create_decision env a wid decision reason s resource_summary overlap summary decided_at db =
     db\<lparr>queue_decisions := queue_decisions db @
        [\<lparr>qd_id = new_decision_id env (length (queue_decisions db)), qd_workspace_id = wid, qd_task_id = at_task_id a,
          qd_attempt_id = at_id a, qd_decision = decision, qd_reason_code = reason, qd_class_priority = class_priority s,
          qd_computed_priority = effective_score s, qd_age_boost = age_boost s, qd_retry_bonus = retry_bonus s,
          qd_resource_summary = resource_summary, qd_overlap_risk_summary = overlap, qd_score_summary = JObj summary,
          qd_decided_at = decided_at\<rparr>]\<rparr>"

definition record_scheduler_queue_decision ::
    "sched_env \<Rightarrow> Workspace \<Rightarrow> string \<Rightarrow> string \<Rightarrow> instant \<Rightarrow> (string \<times> json) list option \<Rightarrow> database \<Rightarrow> database" where
  "record_scheduler_queue_decision env w decision reason decided_at detail db =
     (case attempt_by_workspace db (ws_id w) of
        None \<Rightarrow> db
      | Some a \<Rightarrow>
          (let latest = latest_decision (ws_id w) db;
               s = scheduler_score_from_workspace env w decided_at;
               summary = (case detail of None \<Rightarrow> score_summary s
                          | Some dt \<Rightarrow> score_summary_with_suppression s reason dt) in
           create_decision env a (ws_id w) decision reason s
             (case latest of None \<Rightarrow> JObj [] | Some r \<Rightarrow> qd_resource_summary r)
             (case latest of None \<Rightarrow> JObj [] | Some r \<Rightarrow> qd_overlap_risk_summary r) summary decided_at db))"

section \<open>Filtering out suppressed providers\<close>

definition earliest_future_datetime :: "instant option \<Rightarrow> instant option \<Rightarrow> instant \<Rightarrow> instant option" where
  "earliest_future_datetime current candidate now =
     (case candidate of
        None \<Rightarrow> current
      | Some c \<Rightarrow>
          if c \<le> now then current
          else (case current of None \<Rightarrow> Some c | Some x \<Rightarrow> if c < x then Some c else current))"

record filter_state =
  fs_allowed :: "string list"
  fs_circuit :: "(string \<times> string \<times> string) list"
  fs_decide :: "string list"
  fs_resume :: "instant option"
  fs_db :: database

text \<open>First pass: cool-downs recorded on the workspace itself; the rest is looked up by provider and model.\<close>

definition route_workspace :: "bool \<Rightarrow> Workspace \<Rightarrow> filter_state \<Rightarrow> filter_state" where
  "route_workspace record_it w st =
     (let model = agent_model_from_task_policy (task_policy w) in
      case (provider_for_agent_model (ws_agent w) model, model) of
        (Some p, Some m) \<Rightarrow>
          st\<lparr>fs_circuit := AList.update (ws_id w) (p, m) (fs_circuit st),
             fs_decide := (if record_it then ws_id w # fs_decide st else fs_decide st)\<rparr>
      | _ \<Rightarrow> st\<lparr>fs_allowed := ws_id w # fs_allowed st\<rparr>)"

definition suppression_step :: "sched_env \<Rightarrow> instant \<Rightarrow> bool \<Rightarrow> Workspace \<Rightarrow> filter_state \<Rightarrow> filter_state" where
  "suppression_step env now record_it w st =
     (case provider_cooldown_not_before env (task_policy w) of
        None \<Rightarrow> route_workspace record_it w st
      | Some nb \<Rightarrow>
          if now < nb
          then st\<lparr>fs_resume := earliest_future_datetime (fs_resume st) (Some nb) now,
                  fs_db := (if record_it
                    then record_scheduler_queue_decision env w ''deferred'' ''PROVIDER_RECOVERY_NOT_BEFORE'' now
                           (Some [(''not_before'', JStr (iso_utc env nb))]) (fs_db st)
                    else fs_db st)\<rparr>
          else route_workspace record_it w st)"

fun suppression_pass ::
    "sched_env \<Rightarrow> instant \<Rightarrow> int option \<Rightarrow> int \<Rightarrow> Workspace list \<Rightarrow> filter_state \<Rightarrow> filter_state" where
  "suppression_pass env now limit index [] st = st"
| "suppression_pass env now limit index (w # ws) st =
     suppression_pass env now limit (index + 1) ws
       (suppression_step env now (case limit of None \<Rightarrow> True | Some n \<Rightarrow> index < n) w st)"

text \<open>Second pass: the pairs whose breaker is open.\<close>

definition circuit_step ::
    "sched_env \<Rightarrow> instant \<Rightarrow> (string \<rightharpoonup> Workspace) \<Rightarrow> (string \<times> string \<rightharpoonup> ProviderModelCircuitBreaker)
     \<Rightarrow> string \<Rightarrow> string \<times> string \<Rightarrow> filter_state \<Rightarrow> filter_state" where
  "circuit_step env now by_id opn wid pr st =
     (case opn pr of
        None \<Rightarrow> st\<lparr>fs_allowed := wid # fs_allowed st\<rparr>
      | Some b \<Rightarrow>
          (case by_id wid of
             None \<Rightarrow> st
           | Some w \<Rightarrow>
               st\<lparr>fs_db := (if wid \<in> set (fs_decide st)
                    then record_scheduler_queue_decision env w ''deferred'' ''PROVIDER_MODEL_CIRCUIT_OPEN'' now
                      (Some [(''provider'', JStr (br_provider b)), (''model'', JStr (br_model b)),
                             (''cooldown_until'', opt_str (map_option (iso_utc env) (cooldown_until b)))]) (fs_db st)
                    else fs_db st),
                  fs_resume := earliest_future_datetime (fs_resume st) (cooldown_until b) now\<rparr>))"

fun circuit_pass ::
    "sched_env \<Rightarrow> instant \<Rightarrow> (string \<rightharpoonup> Workspace) \<Rightarrow> (string \<times> string \<rightharpoonup> ProviderModelCircuitBreaker)
     \<Rightarrow> (string \<times> string \<times> string) list \<Rightarrow> filter_state \<Rightarrow> filter_state" where
  "circuit_pass env now by_id opn [] st = st"
| "circuit_pass env now by_id opn ((wid, pr) # rest) st =
     circuit_pass env now by_id opn rest (circuit_step env now by_id opn wid pr st)"

definition rows_by_id :: "Workspace list \<Rightarrow> string \<rightharpoonup> Workspace" where
  "rows_by_id ws = map_of (rev (map (\<lambda>w. (ws_id w, w)) ws))"

definition filter_provider_recovery_suppressed_with_result ::
    "sched_env \<Rightarrow> instant \<Rightarrow> int option \<Rightarrow> Workspace list \<Rightarrow> database \<Rightarrow> string list \<times> instant option \<times> database" where
  "filter_provider_recovery_suppressed_with_result env now limit ws db =
     (if ws = [] then ([], None, db)
      else
        (let st1 = suppression_pass env now limit 0 ws
                     \<lparr>fs_allowed = [], fs_circuit = [], fs_decide = [], fs_resume = None, fs_db = db\<rparr>;
             (opn, tab) = open_breakers_for_pairs (map snd (fs_circuit st1)) now (circuit_breakers (fs_db st1));
             st2 = circuit_pass env now (rows_by_id ws) opn (fs_circuit st1)
                     (st1\<lparr>fs_db := (fs_db st1)\<lparr>circuit_breakers := tab\<rparr>\<rparr>) in
         (filter (\<lambda>i. i \<in> set (fs_allowed st2)) (map ws_id ws), fs_resume st2, fs_db st2)))"

fun add_default :: "Workspace list \<Rightarrow> Workspace list \<Rightarrow> Workspace list" where
  "add_default acc [] = acc"
| "add_default acc (w # ws) = add_default (if ws_id w \<in> ws_id ` set acc then acc else acc @ [w]) ws"

definition lookup_rows :: "Workspace list \<Rightarrow> string list \<Rightarrow> Workspace list" where
  "lookup_rows ws ids = List.map_filter (rows_by_id ws) ids"

definition filter_scheduler_candidate_workspaces_with_result ::
    "sched_env \<Rightarrow> instant \<Rightarrow> int option \<Rightarrow> Workspace list \<Rightarrow> int \<Rightarrow> instant \<Rightarrow> database
     \<Rightarrow> string list \<times> instant option \<times> database" where
  "filter_scheduler_candidate_workspaces_with_result env now decision_limit ws limit scoring db =
     (if ws = [] then ([], None, db)
      else
        (let (ids, resume, db1) = filter_provider_recovery_suppressed_with_result env now decision_limit ws db;
             eligible = add_default [] (lookup_rows ws ids) in
         (map ws_id (take (nat limit) (order_scheduler_workspaces env eligible scoring)), resume, db1)))"

section \<open>The page loop\<close>

definition dispatch_query :: "WorkspaceStatus \<Rightarrow> string list \<Rightarrow> string option \<Rightarrow> string \<Rightarrow> scheduler_query" where
  "dispatch_query st excl node worker =
     \<lparr>q_status = st, q_exclude_ids = excl, q_node_id = node,
      q_owner_id = (if st = Monitoring_pr then Some worker else None)\<rparr>"

definition SCHEDULER_PRIORITY_REFILL_PAGES_AFTER_FILL :: int where
  "SCHEDULER_PRIORITY_REFILL_PAGES_AFTER_FILL = 1"

fun dispatch_loop ::
    "nat \<Rightarrow> sched_env \<Rightarrow> dialect \<Rightarrow> (string \<Rightarrow> bool) \<Rightarrow> instant \<Rightarrow> string list \<Rightarrow> scheduler_query \<Rightarrow> int
     \<Rightarrow> Workspace list \<Rightarrow> SchedulerOrderCursor option \<Rightarrow> int option \<Rightarrow> Workspace list \<Rightarrow> database \<Rightarrow> Workspace list
     \<Rightarrow> (sched_error + Workspace list \<times> database) option" where
  "dispatch_loop 0 env d locked now fresh q limit acc after refill ordered db rows = None"
| "dispatch_loop (Suc fuel) env d locked now fresh q limit acc after refill ordered db rows =
     (let candidate_limit = scheduler_candidate_fetch_limit limit in
      case list_schedulable_workspaces env d locked now fresh q candidate_limit after (Some now) db rows of
        Inl e \<Rightarrow> Some (Inl e)
      | Inr page \<Rightarrow>
          if page = [] then Some (Inr (ordered, db))
          else
            (let slots = limit - int (length acc);
                 (ids, _, db1) = filter_scheduler_candidate_workspaces_with_result env now None page
                                   (if 0 < slots then slots else limit) now db;
                 acc1 = add_default acc (lookup_rows page ids);
                 ordered1 = order_scheduler_workspaces env acc1 now;
                 next = scheduler_candidate_cursor env d page now in
             if int (length page) < candidate_limit then Some (Inr (ordered1, db1))
             else if limit \<le> int (length ordered1)
             then (let left = (case refill of None \<Rightarrow> SCHEDULER_PRIORITY_REFILL_PAGES_AFTER_FILL | Some n \<Rightarrow> n) in
                   if left \<le> 0 then Some (Inr (ordered1, db1))
                   else dispatch_loop fuel env d locked now fresh q limit acc1 next (Some (left - 1)) ordered1 db1 rows)
             else dispatch_loop fuel env d locked now fresh q limit acc1 next refill ordered1 db1 rows))"

definition list_scheduler_dispatchable_ids_from_pages ::
    "nat \<Rightarrow> sched_env \<Rightarrow> dialect \<Rightarrow> (string \<Rightarrow> bool) \<Rightarrow> instant \<Rightarrow> string list \<Rightarrow> scheduler_query \<Rightarrow> int \<Rightarrow> database
     \<Rightarrow> Workspace list \<Rightarrow> (sched_error + string list \<times> database) option" where
  "list_scheduler_dispatchable_ids_from_pages fuel env d locked now fresh q limit db rows =
     map_option (map_sum id (\<lambda>(ordered, db'). (map ws_id (take (nat limit) ordered), db')))
       (dispatch_loop fuel env d locked now fresh q limit [] None None [] db rows)"

end
