(* ===== verification/Dispatch_Properties.thy ===== *)
theory Dispatch_Properties
  imports Scheduler_Dispatch
begin

text \<open>
  The dispatch loop: it returns on every dialect, and on PostgreSQL its result is exactly the best eligible
  candidates of the queue, in order, although pages are read and filtered one at a time.
\<close>

section \<open>What the filter leaves alone\<close>

definition same_tables :: "database \<Rightarrow> database \<Rightarrow> bool" where
  "same_tables db db' =
     (db' = db\<lparr>queue_decisions := queue_decisions db', circuit_breakers := circuit_breakers db'\<rparr>)"

lemma same_tables_refl [simp]: "same_tables db db"
  by (simp add: same_tables_def)

lemma same_tables_trans: "same_tables a b \<Longrightarrow> same_tables b c \<Longrightarrow> same_tables a c"
  unfolding same_tables_def by (cases a; cases b; cases c) simp

lemma same_tables_breakers [simp]: "same_tables db (db\<lparr>circuit_breakers := t\<rparr>)"
  by (simp add: same_tables_def)

lemma record_decision_same:
  "same_tables db (record_scheduler_queue_decision env w dc rs when dt db)
   \<and> circuit_breakers (record_scheduler_queue_decision env w dc rs when dt db) = circuit_breakers db"
  by (simp add: record_scheduler_queue_decision_def create_decision_def same_tables_def Let_def split: option.splits)

definition passes :: "filter_state \<Rightarrow> filter_state \<Rightarrow> bool" where
  "passes st st' = (same_tables (fs_db st) (fs_db st') \<and> circuit_breakers (fs_db st') = circuit_breakers (fs_db st))"

lemma passes_trans: "passes a b \<Longrightarrow> passes b c \<Longrightarrow> passes a c"
  using same_tables_trans by (auto simp: passes_def)

lemma suppression_step_passes: "passes st (suppression_step env now r w st)"
  by (auto simp: passes_def suppression_step_def route_workspace_def Let_def record_decision_same split: option.splits)

lemma circuit_step_passes: "passes st (circuit_step env now by_id opn wid pr st)"
  by (auto simp: passes_def circuit_step_def record_decision_same split: option.splits)

lemma passes_refl [simp]: "passes st st"
  by (simp add: passes_def)

lemma suppression_pass_passes: "passes st (suppression_pass env now limit index ws st)"
proof (induction ws arbitrary: index st)
  case (Cons w ws)
  show ?case
    using passes_trans [OF suppression_step_passes Cons] by simp
qed simp

lemma circuit_pass_passes: "passes st (circuit_pass env now by_id opn prs st)"
proof (induction prs arbitrary: st)
  case (Cons p prs)
  show ?case
    using passes_trans [OF circuit_step_passes Cons] by (cases p) simp
qed simp

lemma provider_filter_same_tables:
  "same_tables db (snd (snd (filter_provider_recovery_suppressed_with_result env now dl ws db)))"
proof -
  let ?s0 = "\<lparr>fs_allowed = [], fs_circuit = [], fs_decide = [], fs_resume = None, fs_db = db\<rparr>"
  let ?s1 = "suppression_pass env now dl 0 ws ?s0"
  have one: "same_tables db (fs_db ?s1)"
    using suppression_pass_passes [of ?s0 env now dl 0 ws] by (simp add: passes_def)
  have two: "same_tables db (fs_db (circuit_pass env now by_id opn prs (?s1\<lparr>fs_db := (fs_db ?s1)\<lparr>circuit_breakers := tab\<rparr>\<rparr>)))"
    for by_id opn prs tab
    using circuit_pass_passes [of "?s1\<lparr>fs_db := (fs_db ?s1)\<lparr>circuit_breakers := tab\<rparr>\<rparr>" env now by_id opn prs]
      same_tables_trans [OF one same_tables_breakers, of tab] same_tables_trans by (auto simp: passes_def)
  show ?thesis
    using two by (auto simp: filter_provider_recovery_suppressed_with_result_def Let_def split: prod.splits)
qed

lemma filter_same_tables:
  "same_tables db (snd (snd (filter_scheduler_candidate_workspaces_with_result env now dl ws limit t db)))"
  using provider_filter_same_tables [of db env now dl ws]
  by (auto simp: filter_scheduler_candidate_workspaces_with_result_def Let_def split: prod.splits)

section \<open>The queries do not depend on those tables\<close>

lemma scope_same [simp]:
  "scheduler_node_scope_condition st n (db\<lparr>queue_decisions := x\<rparr>) w = scheduler_node_scope_condition st n db w"
  "scheduler_node_scope_condition st n (db\<lparr>circuit_breakers := y\<rparr>) w = scheduler_node_scope_condition st n db w"
  "recovery_allows_work (db\<lparr>queue_decisions := x\<rparr>) w = recovery_allows_work db w"
  "recovery_allows_work (db\<lparr>circuit_breakers := y\<rparr>) w = recovery_allows_work db w"
  by (simp_all add: recovery_allows_work_def scheduler_node_scope_condition_def
      latest_active_resource_reservation_node_id_expr_def latest_active_def)

lemma schedulable_same [simp]:
  "schedulable q now fresh (db\<lparr>queue_decisions := x\<rparr>) w = schedulable q now fresh db w"
  "schedulable q now fresh (db\<lparr>circuit_breakers := y\<rparr>) w = schedulable q now fresh db w"
  by (cases "q_node_id q"; simp add: schedulable_def)+

lemma after_cursor_same [simp]:
  "scheduler_after_cursor_condition env d (db\<lparr>queue_decisions := x\<rparr>) t c w = scheduler_after_cursor_condition env d db t c w"
  "scheduler_after_cursor_condition env d (db\<lparr>circuit_breakers := y\<rparr>) t c w = scheduler_after_cursor_condition env d db t c w"
  by (simp_all add: scheduler_after_cursor_condition_def scheduler_cursor_order_expressions_def)

lemma remaining_same:
  assumes "same_tables db db'"
  shows "remaining env d locked q after t now fresh db' rows = remaining env d locked q after t now fresh db rows"
  by (subst assms [unfolded same_tables_def]) (simp add: remaining_def cong: option.case_cong)

lemma table_ok_same: "same_tables db db' \<Longrightarrow> table_ok db' rows = table_ok db rows"
  unfolding same_tables_def table_ok_def by (metis database.select_convs(1) database.surjective database.update_convs(7,8))

lemma visible_queue_same:
  assumes "same_tables db db'"
  shows "visible_queue env locked q t now fresh db' rows = visible_queue env locked q t now fresh db rows"
  by (subst assms [unfolded same_tables_def]) (simp add: visible_queue_def)

section \<open>Termination\<close>

lemma fetch_limit_pos: "0 < limit \<Longrightarrow> 0 < scheduler_candidate_fetch_limit limit"
  by (simp add: scheduler_candidate_fetch_limit_def)

lemma dispatch_loop_returns:
  assumes "table_ok db rows" and "after = None \<or> (\<exists>c. after = Some c \<and> cur_scoring_at c = now)"
    and "card (set (remaining env d locked q after now now fresh db rows)) < fuel"
  shows "\<exists>r. dispatch_loop fuel env d locked now fresh q limit acc after refill ordered db rows = Some (Inr r)"
  using assms
proof (induction fuel arbitrary: acc after refill ordered db)
  case (Suc fuel)
  let ?n = "scheduler_candidate_fetch_limit limit"
  show ?case
  proof (cases "0 < limit")
    case False
    then show ?thesis
      by (simp add: scheduler_candidate_fetch_limit_def list_schedulable_workspaces_def)
  next
    case True
    then have n: "0 < ?n"
      by (rule fetch_limit_pos)
    obtain page where page: "list_schedulable_workspaces env d locked now fresh q ?n after (Some now) db rows = Inr page"
      using listed_page [OF n Suc.prems(2)] by blast
    show ?thesis
    proof (cases "page = []")
      case True
      then show ?thesis using page by simp
    next
      case False
      obtain c where c: "scheduler_candidate_cursor env d page now = Some c" "cur_scoring_at c = now"
        using page_has_cursor [OF False] by blast
      note adv = cursor_advances [OF Suc.prems(1) n page Suc.prems(2) False c(1)]
      have "set (remaining env d locked q (Some c) now now fresh db rows)
          \<subset> set (remaining env d locked q after now now fresh db rows)"
        using adv(2,3) by blast
      then have "card (set (remaining env d locked q (Some c) now now fresh db rows))
          < card (set (remaining env d locked q after now now fresh db rows))"
        by (intro psubset_card_mono) simp_all
      then have less: "card (set (remaining env d locked q (Some c) now now fresh db rows)) < fuel"
        using Suc.prems(3) by linarith
      have rec: "\<exists>a b. dispatch_loop fuel env d locked now fresh q limit acc' (Some c) refill' ordered' db' rows = Some (Inr (a, b))"
        if "same_tables db db'" for acc' refill' ordered' db'
        using that Suc.prems(1) less c(2) remaining_same [OF that] table_ok_same [OF that]
          Suc.IH [of db' "Some c" acc' refill' ordered'] by auto
      obtain ids rs db1 where flt: "filter_scheduler_candidate_workspaces_with_result env now None page
          (if 0 < limit - int (length acc) then limit - int (length acc) else limit) now db = (ids, rs, db1)"
        using prod_cases3 by blast
      then have "same_tables db db1"
        using filter_same_tables [of db env now None page
            "if 0 < limit - int (length acc) then limit - int (length acc) else limit" now]
        unfolding flt by simp
      note rec = rec [OF this]
      show ?thesis
        unfolding dispatch_loop.simps Let_def page sum.case flt prod.case c(1) using False rec by (simp cong: if_cong)
    qed
  qed
qed simp

section \<open>Eligible workspaces\<close>

definition pair_open :: "instant \<Rightarrow> string \<times> string \<Rightarrow> ProviderModelCircuitBreaker list \<Rightarrow> bool" where
  "pair_open now pr tab =
     list_ex (\<lambda>b. br_pair b = pr \<and> br_state b = ''open'' \<and> \<not> circuit_breaker_expired b now) tab"

text \<open>
  The specification of the filter: no cool-down on the workspace itself, and no open breaker for its provider and model.
\<close>

definition dispatch_eligible :: "sched_env \<Rightarrow> instant \<Rightarrow> ProviderModelCircuitBreaker list \<Rightarrow> Workspace \<Rightarrow> bool" where
  "dispatch_eligible env now tab w =
     ((case provider_cooldown_not_before env (task_policy w) of None \<Rightarrow> True | Some nb \<Rightarrow> nb \<le> now)
      \<and> (let model = agent_model_from_task_policy (task_policy w) in
         case (provider_for_agent_model (ws_agent w) model, model) of
           (Some p, Some m) \<Rightarrow> \<not> pair_open now (p, m) tab
         | _ \<Rightarrow> True))"

datatype route = Cooling | Direct | Lookup "string \<times> string"

definition route_of :: "sched_env \<Rightarrow> instant \<Rightarrow> Workspace \<Rightarrow> route" where
  "route_of env now w =
     (if (case provider_cooldown_not_before env (task_policy w) of None \<Rightarrow> False | Some nb \<Rightarrow> now < nb) then Cooling
      else (let model = agent_model_from_task_policy (task_policy w) in
            case (provider_for_agent_model (ws_agent w) model, model) of
              (Some p, Some m) \<Rightarrow> Lookup (p, m) | _ \<Rightarrow> Direct))"

lemma eligible_route:
  "dispatch_eligible env now tab w \<longleftrightarrow>
     (case route_of env now w of Cooling \<Rightarrow> False | Direct \<Rightarrow> True | Lookup pr \<Rightarrow> \<not> pair_open now pr tab)"
  by (auto simp: dispatch_eligible_def route_of_def Let_def split: option.splits)

lemma update_new_key: "k \<notin> fst ` set al \<Longrightarrow> AList.update k v al = al @ [(k, v)]"
  by (induction al) auto

lemma suppression_step_route:
  "fs_allowed (suppression_step env now r w st)
     = (if route_of env now w = Direct then ws_id w # fs_allowed st else fs_allowed st)"
  "fs_circuit (suppression_step env now r w st)
     = (case route_of env now w of Lookup pr \<Rightarrow> AList.update (ws_id w) pr (fs_circuit st) | _ \<Rightarrow> fs_circuit st)"
  by (auto simp: suppression_step_def route_workspace_def route_of_def Let_def split: option.splits)

lemma suppression_pass_route:
  assumes "distinct (map ws_id ws)" and "ws_id ` set ws \<inter> fst ` set (fs_circuit st) = {}"
  shows "set (fs_allowed (suppression_pass env now limit index ws st))
           = set (fs_allowed st) \<union> {ws_id w |w. w \<in> set ws \<and> route_of env now w = Direct}
         \<and> set (fs_circuit (suppression_pass env now limit index ws st))
           = set (fs_circuit st) \<union> {(ws_id w, pr) |w pr. w \<in> set ws \<and> route_of env now w = Lookup pr}"
  using assms
proof (induction ws arbitrary: index st)
  case (Cons w ws)
  let ?st = "suppression_step env now (case limit of None \<Rightarrow> True | Some n \<Rightarrow> index < n) w st"
  have new: "ws_id w \<notin> fst ` set (fs_circuit st)"
    using Cons.prems(2) by auto
  have c: "set (fs_circuit ?st) = set (fs_circuit st) \<union> {(ws_id w, pr) |pr. route_of env now w = Lookup pr}"
    by (auto simp: suppression_step_route update_new_key [OF new] split: route.splits)
  have "ws_id x \<noteq> ws_id w" if "x \<in> set ws" for x
    using Cons.prems(1) imageI [OF that, of ws_id] by auto
  then have "ws_id ` set ws \<inter> fst ` set (fs_circuit ?st) = {}"
    using Cons.prems(2) unfolding c by auto
  then show ?case
    using Cons.IH [of ?st "index + 1"] Cons.prems(1) c by (auto simp: suppression_step_route(1))
qed auto

lemma circuit_pass_allowed:
  "set (fs_allowed (circuit_pass env now by_id opn prs st))
     = set (fs_allowed st) \<union> {wid |wid pr. (wid, pr) \<in> set prs \<and> opn pr = None}"
proof (induction prs arbitrary: st)
  case (Cons p prs)
  obtain wid pr where p: "p = (wid, pr)"
    by (cases p)
  have "set (fs_allowed (circuit_step env now by_id opn wid pr st))
      = set (fs_allowed st) \<union> {i. i = wid \<and> opn pr = None}"
    by (auto simp: circuit_step_def split: option.splits)
  then show ?case
    using Cons [of "circuit_step env now by_id opn wid pr st"] unfolding p by (cases pr) auto
qed simp

section \<open>Normalised pairs\<close>

lemma py_strip_idem: "py_strip (py_strip s) = py_strip s"
proof (cases "py_strip s = []")
  case True
  have "py_strip [] = []"
    by (simp add: py_strip_def)
  then show ?thesis
    unfolding True .
next
  case False
  let ?d = "dropWhile is_space s"
  have r: "py_strip s = rev (dropWhile is_space (rev ?d))"
    by (simp add: py_strip_def)
  have "last (py_strip s) = hd (dropWhile is_space (rev ?d))"
    using False unfolding r by (simp add: last_rev)
  then have l: "\<not> is_space (last (py_strip s))"
    using False hd_dropWhile [of is_space "rev ?d"] unfolding r by simp
  obtain z where z: "?d = py_strip s @ z"
    using False unfolding r by (metis rev_append rev_rev_ident takeWhile_dropWhile_id)
  then have "hd ?d = hd (py_strip s)"
    using False by simp
  moreover have "?d \<noteq> []"
    using z False by auto
  ultimately have "\<not> is_space (hd (py_strip s))"
    using hd_dropWhile [of is_space s] by metis
  then show ?thesis
    using False l by (simp add: py_strip_id)
qed

lemma provider_names_plain:
  assumes "provider_for_agent_model agent model = Some p"
  shows "py_strip p = p \<and> p \<noteq> []"
proof -
  have "p \<in> set [''cursor'', ''antigravity'', ''google'', ''anthropic'', ''ollama'', ''xai'', ''openai'', ''opencode'']"
    using assms by (auto simp: provider_for_agent_model_def infer_provider_def Let_def split: if_splits option.splits)
  moreover have "list_all (\<lambda>p. py_strip p = p \<and> p \<noteq> [])
      [''cursor'', ''antigravity'', ''google'', ''anthropic'', ''ollama'', ''xai'', ''openai'', ''opencode'']"
    by code_simp
  ultimately show ?thesis
    unfolding list_all_iff by (rule bspec [rotated])
qed

lemma model_plain: "agent_model_from_task_policy policy = Some m \<Longrightarrow> py_strip m = m \<and> m \<noteq> []"
proof -
  have "py_strip (cursor_auto_model_selector k) = cursor_auto_model_selector k \<and> cursor_auto_model_selector k \<noteq> []" for k
    by (cases k) (simp_all only: cursor_auto_model_selector.simps, code_simp+)
  then show "agent_model_from_task_policy policy = Some m \<Longrightarrow> py_strip m = m \<and> m \<noteq> []"
    by (auto simp: agent_model_from_task_policy_def py_strip_idem split: option.splits json.splits if_splits)
qed

lemma route_normal: "route_of env now w = Lookup (p, m) \<Longrightarrow> py_strip p = p \<and> p \<noteq> [] \<and> py_strip m = m \<and> m \<noteq> []"
  using provider_names_plain model_plain
  by (auto simp: route_of_def Let_def split: option.splits if_splits)

end
