(* ===== verification/Dispatch_Exact.thy ===== *)
theory Dispatch_Exact
  imports Dispatch_Properties
begin

text \<open>
  The dispatch loop computes the best eligible candidates: specification of the filter, then an
  invariant of the page loop over the length of the queue prefix that has been read.
\<close>

section \<open>The filter\<close>

lemma map_of_filter_None:
  "k \<in> K \<Longrightarrow> map_of (map (\<lambda>b. (f b, b)) (filter (\<lambda>b. (P b \<and> f b \<in> K) \<and> \<not> X b) tab)) k = None
     \<longleftrightarrow> \<not> list_ex (\<lambda>b. f b = k \<and> P b \<and> \<not> X b) tab"
  by (induction tab) auto

lemma open_breakers_None:
  assumes "(p, m) \<in> set prs" and "py_strip p = p \<and> p \<noteq> [] \<and> py_strip m = m \<and> m \<noteq> []"
  shows "fst (open_breakers_for_pairs prs now tab) (p, m) = None \<longleftrightarrow> \<not> pair_open now (p, m) tab"
proof -
  define norm where "norm = map (\<lambda>(p, m). (py_strip p, py_strip m))
    (filter (\<lambda>(p, m). py_strip p \<noteq> [] \<and> py_strip m \<noteq> []) prs)"
  have mem: "(p, m) \<in> set norm"
    using assms unfolding norm_def by force
  have "fst (open_breakers_for_pairs prs now tab)
      = map_of (map (\<lambda>b. (br_pair b, b))
          (filter (\<lambda>b. (br_state b = ''open'' \<and> br_pair b \<in> set norm) \<and> \<not> circuit_breaker_expired b now) tab))"
    using mem unfolding open_breakers_for_pairs_def Let_def norm_def [symmetric] by auto
  then show ?thesis
    using map_of_filter_None [OF mem] by (simp only: pair_open_def)
qed

lemma open_breakers_keep_open: "pair_open now pr (snd (open_breakers_for_pairs prs now tab)) = pair_open now pr tab"
proof -
  have "pair_open now pr (map (\<lambda>b. if P b \<and> circuit_breaker_expired b now then close_breaker b else b) tab)
      = pair_open now pr tab" for P
    by (auto simp: pair_open_def list_ex_iff close_breaker_def)
  from this [of "\<lambda>b. br_state b = ''open'' \<and> br_pair b \<in> N" for N] show ?thesis
    by (auto simp: open_breakers_for_pairs_def Let_def)
qed

lemma eligible_cong:
  "(\<And>pr. pair_open now pr tab' = pair_open now pr tab) \<Longrightarrow> dispatch_eligible env now tab' w = dispatch_eligible env now tab w"
  by (cases "route_of env now w") (simp_all add: eligible_route)

lemma route_sets:
  assumes "\<And>w. w \<in> W \<Longrightarrow> E w \<longleftrightarrow> D w \<or> (\<exists>pr. L w pr \<and> N pr)"
  shows "{i w |w. w \<in> W \<and> D w} \<union> {k |k pr. (k, pr) \<in> {(i w, pr) |w pr. w \<in> W \<and> L w pr} \<and> N pr} = {i w |w. w \<in> W \<and> E w}"
proof (rule set_eqI)
  fix x
  have "x \<in> {i w |w. w \<in> W \<and> D w} \<union> {k |k pr. (k, pr) \<in> {(i w, pr) |w pr. w \<in> W \<and> L w pr} \<and> N pr}
      \<longleftrightarrow> (\<exists>w \<in> W. x = i w \<and> (D w \<or> (\<exists>pr. L w pr \<and> N pr)))"
    by auto
  also have "\<dots> \<longleftrightarrow> (\<exists>w \<in> W. x = i w \<and> E w)"
    by (rule bex_cong) (simp_all add: assms)
  finally show "x \<in> {i w |w. w \<in> W \<and> D w} \<union> {k |k pr. (k, pr) \<in> {(i w, pr) |w pr. w \<in> W \<and> L w pr} \<and> N pr}
      \<longleftrightarrow> x \<in> {i w |w. w \<in> W \<and> E w}"
    by auto
qed

lemma provider_filter_exact:
  assumes "distinct (map ws_id ws)"
  shows "fst (filter_provider_recovery_suppressed_with_result env now dl ws db)
           = map ws_id (filter (dispatch_eligible env now (circuit_breakers db)) ws)"
    and "pair_open now pr (circuit_breakers (snd (snd (filter_provider_recovery_suppressed_with_result env now dl ws db))))
           = pair_open now pr (circuit_breakers db)"
proof -
  let ?s0 = "\<lparr>fs_allowed = [], fs_circuit = [], fs_decide = [], fs_resume = None, fs_db = db\<rparr>"
  let ?s1 = "suppression_pass env now dl 0 ws ?s0"
  let ?ob = "open_breakers_for_pairs (map snd (fs_circuit ?s1)) now (circuit_breakers (fs_db ?s1))"
  let ?s2 = "circuit_pass env now (rows_by_id ws) (fst ?ob) (fs_circuit ?s1)
      (?s1\<lparr>fs_db := (fs_db ?s1)\<lparr>circuit_breakers := snd ?ob\<rparr>\<rparr>)"
  have tab: "circuit_breakers (fs_db ?s1) = circuit_breakers db"
    using suppression_pass_passes [of ?s0 env now dl 0 ws] by (simp add: passes_def)
  note route = suppression_pass_route [OF assms, of ?s0 env now dl 0]
  have allowed1: "set (fs_allowed ?s1) = {ws_id w |w. w \<in> set ws \<and> route_of env now w = Direct}"
    and circuit1: "set (fs_circuit ?s1) = {(ws_id w, pr) |w pr. w \<in> set ws \<and> route_of env now w = Lookup pr}"
    using route by simp_all
  have opn: "fst ?ob pr = None \<longleftrightarrow> \<not> pair_open now pr (circuit_breakers db)"
    if "w \<in> set ws" "route_of env now w = Lookup pr" for w pr
  proof -
    obtain p m where pm: "pr = (p, m)"
      by (cases pr)
    have "(ws_id w, pr) \<in> set (fs_circuit ?s1)"
      using that circuit1 by blast
    then have "(p, m) \<in> set (map snd (fs_circuit ?s1))"
      unfolding pm by force
    then show ?thesis
      using open_breakers_None [OF _ route_normal] that(2) unfolding pm tab by blast
  qed
  have elig: "dispatch_eligible env now (circuit_breakers db) w
      \<longleftrightarrow> route_of env now w = Direct \<or> (\<exists>pr. route_of env now w = Lookup pr \<and> fst ?ob pr = None)" if "w \<in> set ws" for w
    by (cases "route_of env now w") (simp_all add: eligible_route opn [OF that])
  have "set (fs_allowed ?s2) = set (fs_allowed ?s1) \<union> {wid |wid pr. (wid, pr) \<in> set (fs_circuit ?s1) \<and> fst ?ob pr = None}"
    using circuit_pass_allowed [of env now "rows_by_id ws" "fst ?ob" "fs_circuit ?s1"
        "?s1\<lparr>fs_db := (fs_db ?s1)\<lparr>circuit_breakers := snd ?ob\<rparr>\<rparr>"] by simp
  also have "\<dots> = {ws_id w |w. w \<in> set ws \<and> dispatch_eligible env now (circuit_breakers db) w}"
    unfolding allowed1 circuit1 by (rule route_sets) (rule elig)
  finally have al: "ws_id w \<in> set (fs_allowed ?s2) \<longleftrightarrow> dispatch_eligible env now (circuit_breakers db) w" if "w \<in> set ws" for w
    using that assms by (auto simp: distinct_map inj_on_def)
  have res: "filter_provider_recovery_suppressed_with_result env now dl ws db
      = (filter (\<lambda>i. i \<in> set (fs_allowed ?s2)) (map ws_id ws), fs_resume ?s2, fs_db ?s2)" if "ws \<noteq> []"
    using that by (simp add: filter_provider_recovery_suppressed_with_result_def Let_def split_beta)
  show "fst (filter_provider_recovery_suppressed_with_result env now dl ws db)
      = map ws_id (filter (dispatch_eligible env now (circuit_breakers db)) ws)"
  proof (cases "ws = []")
    case True
    then show ?thesis by (simp add: filter_provider_recovery_suppressed_with_result_def)
  next
    case False
    then show ?thesis
      unfolding res [OF False] using al by (simp add: filter_map comp_def cong: filter_cong)
  qed
  have "circuit_breakers (fs_db ?s2) = snd ?ob"
    using circuit_pass_passes [of "?s1\<lparr>fs_db := (fs_db ?s1)\<lparr>circuit_breakers := snd ?ob\<rparr>\<rparr>" env now "rows_by_id ws"
        "fst ?ob" "fs_circuit ?s1"] by (simp add: passes_def)
  then have s2: "pair_open now pr (circuit_breakers (fs_db ?s2)) = pair_open now pr (circuit_breakers db)"
    using open_breakers_keep_open [of now pr "map snd (fs_circuit ?s1)"] tab by simp
  show "pair_open now pr (circuit_breakers (snd (snd (filter_provider_recovery_suppressed_with_result env now dl ws db))))
      = pair_open now pr (circuit_breakers db)"
  proof (cases "ws = []")
    case True
    then show ?thesis by (simp add: filter_provider_recovery_suppressed_with_result_def)
  next
    case False
    show ?thesis unfolding res [OF False] by (simp add: s2)
  qed
qed

lemma rows_by_id_self: "distinct (map ws_id ws) \<Longrightarrow> w \<in> set ws \<Longrightarrow> rows_by_id ws (ws_id w) = Some w"
  unfolding rows_by_id_def by (rule map_of_is_SomeI) (auto simp: rev_map [symmetric] comp_def)

lemma lookup_rows_self:
  assumes "distinct (map ws_id ws)" and "set xs \<subseteq> set ws"
  shows "lookup_rows ws (map ws_id xs) = xs"
  using assms(2)
  by (induction xs) (simp_all add: lookup_rows_def List.map_filter_simps rows_by_id_self [OF assms(1)])

lemma add_default_append: "distinct (map ws_id (acc @ xs)) \<Longrightarrow> add_default acc xs = acc @ xs"
proof (induction xs arbitrary: acc)
  case (Cons w xs)
  then have "ws_id w \<notin> ws_id ` set acc"
    by auto
  moreover have "distinct (map ws_id ((acc @ [w]) @ xs))"
    using Cons.prems by simp
  ultimately show ?case
    using Cons.IH [of "acc @ [w]"] by simp
qed simp

lemma candidate_filter_exact:
  assumes "distinct (map ws_id ws)"
  shows "fst (filter_scheduler_candidate_workspaces_with_result env now dl ws limit t db)
           = map ws_id (take (nat limit) (sort_key (queue_key env t)
               (filter (dispatch_eligible env now (circuit_breakers db)) ws)))"
    and "pair_open now pr (circuit_breakers (snd (snd (filter_scheduler_candidate_workspaces_with_result env now dl ws limit t db))))
           = pair_open now pr (circuit_breakers db)"
proof -
  let ?F = "filter (dispatch_eligible env now (circuit_breakers db)) ws"
  have "add_default [] (lookup_rows ws (map ws_id ?F)) = ?F"
    using assms add_default_append [of "[]" ?F] by (simp add: lookup_rows_self distinct_map_filter)
  then show "fst (filter_scheduler_candidate_workspaces_with_result env now dl ws limit t db)
      = map ws_id (take (nat limit) (sort_key (queue_key env t) ?F))"
    using provider_filter_exact(1) [OF assms, of env now dl db]
    by (auto simp: filter_scheduler_candidate_workspaces_with_result_def order_scheduler_workspaces_def Let_def split_beta)
  show "pair_open now pr (circuit_breakers (snd (snd (filter_scheduler_candidate_workspaces_with_result env now dl ws limit t db))))
      = pair_open now pr (circuit_breakers db)"
    using provider_filter_exact(2) [OF assms, of now pr env dl db]
    by (auto simp: filter_scheduler_candidate_workspaces_with_result_def Let_def split_beta)
qed

section \<open>The loop\<close>

lemma take_merge:
  assumes "take L acc = take L A"
  shows "take L (acc @ take (if length acc < L then L - length acc else L) B) = take L (A @ B)"
proof (cases "length acc < L")
  case True
  then have "acc = take L A"
    using assms by simp
  moreover have "length A < L"
    using True calculation by (metis length_take min_def nat_neq_iff)
  ultimately show ?thesis
    using True by simp
next
  case False
  then have "length A \<ge> L"
    using arg_cong [OF assms, of length] by simp
  then show ?thesis
    using False assms by simp
qed

lemma take_prefix_enough: "take L xs = take L A \<Longrightarrow> L \<le> length xs \<Longrightarrow> take L (A @ B) = take L xs"
proof -
  assume a: "take L xs = take L A" "L \<le> length xs"
  then have "L = length (take L A)"
    by (metis length_take min.absorb2)
  then have "L \<le> length A"
    by (metis length_take min.cobounded1)
  with a show ?thesis by simp
qed

lemma stmt_same:
  "schedulable_workspace_ids_stmt env d locked q limit after t now fresh
     (db\<lparr>queue_decisions := x, circuit_breakers := y\<rparr>) rows
   = schedulable_workspace_ids_stmt env d locked q limit after t now fresh db rows"
  by (cases after) (simp_all add: schedulable_workspace_ids_stmt_def)

lemma list_same:
  assumes "same_tables db db'"
  shows "list_schedulable_workspaces env d locked now fresh q limit after t db' rows
         = list_schedulable_workspaces env d locked now fresh q limit after t db rows"
  by (subst assms [unfolded same_tables_def], cases "scheduler_scoring_time now after t")
    (simp_all add: list_schedulable_workspaces_def stmt_same)

lemma sorted_split:
  assumes "sorted_wrt (\<lambda>a b. k a < (k b :: 'k::linorder)) V" and "x \<in> set (take n V)" and "y \<in> set (drop n V)"
  shows "k x < k y"
proof -
  have "sorted_wrt (\<lambda>a b. k a < k b) (take n V @ drop n V)"
    using assms(1) by simp
  then show ?thesis
    using assms(2,3) unfolding sorted_wrt_append by blast
qed

text \<open>One page: the accumulated rows followed by the page's selection, still in queue order.\<close>

lemma page_step:
  fixes V :: "Workspace list" and env now
  defines "k \<equiv> queue_key env now"
  assumes V: "sorted_wrt (\<lambda>a b. k a < k b) V" "distinct (map ws_id V)"
    and acc: "set acc \<subseteq> set (take n V)" "sorted (map k acc)" "distinct (map ws_id acc)"
    and page: "page = take m (drop n V)"
    and flt: "filter_scheduler_candidate_workspaces_with_result env now None page l now db = (ids, rs, db1)"
    and sel: "sel = take (nat l) (filter (dispatch_eligible env now (circuit_breakers db)) page)"
  shows "add_default acc (lookup_rows page ids) = acc @ sel"
    and "order_scheduler_workspaces env (acc @ sel) now = acc @ sel"
    and "set (acc @ sel) \<subseteq> set (take (n + length page) V)"
    and "sorted (map k (acc @ sel))" and "distinct (map ws_id (acc @ sel))"
proof -
  have dp: "distinct (map ws_id page)"
    using V(2) unfolding page by (simp add: take_map [symmetric] drop_map [symmetric])
  have selp: "set sel \<subseteq> set page"
    unfolding sel by (auto dest: in_set_takeD)
  have pd: "set page \<subseteq> set (drop n V)"
    unfolding page by (rule set_take_subset)
  have sp: "sorted_wrt (\<lambda>a b. k a < k b) page"
    using V(1) unfolding page by (simp add: sorted_wrt_take sorted_wrt_drop)
  have sfl: "sorted (map k (filter (dispatch_eligible env now (circuit_breakers db)) page))"
    using sorted_wrt_filter [OF sp] unfolding sorted_map by (rule sorted_wrt_mono_rel [rotated]) auto
  from sfl have sf: "sort_key k (filter (dispatch_eligible env now (circuit_breakers db)) page)
      = filter (dispatch_eligible env now (circuit_breakers db)) page"
    by (rule sort_key_sorted_id)
  have "ids = map ws_id sel"
    using candidate_filter_exact(1) [OF dp, of env now None l now db] unfolding flt sel k_def [symmetric] sf by simp
  then have look: "lookup_rows page ids = sel"
    using lookup_rows_self [OF dp selp] by simp
  have less: "k a < k b" if "a \<in> set acc" "b \<in> set sel" for a b
    using sorted_split [OF V(1)] that acc(1) selp pd by blast
  have ids_apart: "ws_id a \<noteq> ws_id b" if "a \<in> set acc" "b \<in> set sel" for a b
  proof
    assume "ws_id a = ws_id b"
    moreover have "a \<in> set V" "b \<in> set V"
      using that acc(1) selp pd by (auto dest: in_set_takeD in_set_dropD)
    ultimately have "a = b"
      using V(2) by (simp add: distinct_map inj_on_def)
    then show False
      using less [OF that] by simp
  qed
  have ds: "distinct (map ws_id sel)"
    unfolding sel using dp by (simp add: take_map [symmetric] distinct_map_filter)
  show "distinct (map ws_id (acc @ sel))"
    using acc(3) ds ids_apart by auto
  then show "add_default acc (lookup_rows page ids) = acc @ sel"
    unfolding look by (rule add_default_append)
  have "sorted (map k sel)"
    using sorted_wrt_take [OF sfl] unfolding sel by (simp only: take_map)
  then show "sorted (map k (acc @ sel))"
    using acc(2) less by (auto simp: sorted_append intro: less_imp_le)
  then show "order_scheduler_workspaces env (acc @ sel) now = acc @ sel"
    unfolding order_scheduler_workspaces_def k_def [symmetric] by (rule sort_key_sorted_id)
  have "take (n + length page) V = take n V @ page"
    unfolding page by (simp add: take_add min_def)
  then show "set (acc @ sel) \<subseteq> set (take (n + length page) V)"
    using acc(1) selp by auto
qed

text \<open>
  Invariant: after reading the first \<open>n\<close> rows of the queue, the first \<open>limit\<close> accumulated rows are the first
  \<open>limit\<close> eligible ones among them.
\<close>

lemma dispatch_loop_exact:
  fixes env now
  defines "k \<equiv> queue_key env now"
  assumes lim: "0 < limit" and ok: "table_ok db0 rows" and plain: "\<And>w. w \<in> set rows \<Longrightarrow> plain_policy env PostgreSQL w"
    and V: "V = visible_queue env locked q now now fresh db0 rows"
    and Vs: "sorted_wrt (\<lambda>a b. k a < k b) V" "distinct (map ws_id V)"
  shows "dispatch_loop fuel env PostgreSQL locked now fresh q limit acc after refill acc db rows = Some (Inr (res, db'))
     \<Longrightarrow> same_tables db0 db
     \<Longrightarrow> (\<And>pr. pair_open now pr (circuit_breakers db) = pair_open now pr (circuit_breakers db0))
     \<Longrightarrow> list_schedulable_workspaces env PostgreSQL locked now fresh q (scheduler_candidate_fetch_limit limit) after (Some now) db0 rows
           = Inr (take (nat (scheduler_candidate_fetch_limit limit)) (drop n V))
     \<Longrightarrow> set acc \<subseteq> set (take n V) \<Longrightarrow> sorted (map k acc) \<Longrightarrow> distinct (map ws_id acc)
     \<Longrightarrow> take (nat limit) acc
           = take (nat limit) (filter (dispatch_eligible env now (circuit_breakers db0)) (take n V))
     \<Longrightarrow> take (nat limit) res = take (nat limit) (filter (dispatch_eligible env now (circuit_breakers db0)) V)"
proof (induction fuel arbitrary: acc after refill db n)
  case (Suc fuel)
  let ?c = "scheduler_candidate_fetch_limit limit" and ?E = "dispatch_eligible env now (circuit_breakers db0)"
  let ?L = "nat limit"
  define page where "page = take (nat ?c) (drop n V)"
  have c: "0 < ?c"
    using lim by (rule fetch_limit_pos)
  have pg: "list_schedulable_workspaces env PostgreSQL locked now fresh q ?c after (Some now) db rows = Inr page"
    using Suc.prems(4) list_same [OF Suc.prems(2)] by (simp add: page_def)
  have E: "dispatch_eligible env now (circuit_breakers db) = ?E"
    by (rule ext, rule eligible_cong) (rule Suc.prems(3))
  have whole: "filter ?E V = filter ?E (take (n + length page) V) @ filter ?E (drop (n + length page) V)"
    by (metis append_take_drop_id filter_append)
  show ?case
  proof (cases "page = []")
    case True
    then have "drop n V = []"
      using c unfolding page_def by simp
    then show ?thesis
      using Suc.prems(1,8) True by (simp add: pg)
  next
    case False
    define l where "l = (if 0 < limit - int (length acc) then limit - int (length acc) else limit)"
    obtain ids rs db1 where flt: "filter_scheduler_candidate_workspaces_with_result env now None page l now db = (ids, rs, db1)"
      using prod_cases3 by blast
    define sel where "sel = take (nat l) (filter ?E page)"
    have sel: "sel = take (nat l) (filter (dispatch_eligible env now (circuit_breakers db)) page)"
      unfolding sel_def E ..
    note st = page_step [OF Vs [unfolded k_def] Suc.prems(5) Suc.prems(6,7) [unfolded k_def] page_def flt sel]
    have tk: "take (n + length page) V = take n V @ page"
      unfolding page_def by (simp add: take_add min_def)
    have nl: "nat l = (if length acc < ?L then ?L - length acc else ?L)"
      using lim unfolding l_def by auto
    have inv: "take ?L (acc @ sel) = take ?L (filter ?E (take (n + length page) V))"
      using take_merge [OF Suc.prems(8), of "filter ?E page"] unfolding sel_def nl tk by simp
    have enough: "take ?L (acc @ sel) = take ?L (filter ?E V)" if "?L \<le> length (acc @ sel)"
      unfolding whole using take_prefix_enough [OF inv that] by simp
    have short: "take ?L (acc @ sel) = take ?L (filter ?E V)" if "int (length page) < ?c"
    proof -
      have "length V \<le> n + length page"
        using that c unfolding page_def by simp
      then show ?thesis
        using inv by simp
    qed
    have st1: "same_tables db0 db1"
      using same_tables_trans [OF Suc.prems(2)] filter_same_tables [of db env now None page l now] unfolding flt by simp
    have dp: "distinct (map ws_id page)"
      using Vs(2) unfolding page_def by (simp add: take_map [symmetric] drop_map [symmetric])
    have po: "pair_open now pr (circuit_breakers db1) = pair_open now pr (circuit_breakers db0)" for pr
      using candidate_filter_exact(2) [OF dp, of now pr env None l now db] Suc.prems(3) [of pr] unfolding flt by simp
    have nxt: "list_schedulable_workspaces env PostgreSQL locked now fresh q ?c (scheduler_candidate_cursor env PostgreSQL page now)
        (Some now) db0 rows = Inr (take (nat ?c) (drop (n + length page) V))"
      using postgres_next_page [OF ok c plain] page_def False unfolding V by blast
    have rec: "take ?L res = take ?L (filter ?E V)"
      if "dispatch_loop fuel env PostgreSQL locked now fresh q limit (acc @ sel)
            (scheduler_candidate_cursor env PostgreSQL page now) r (acc @ sel) db1 rows = Some (Inr (res, db'))" for r
      using Suc.IH [OF that st1 po nxt st(3) st(4) [folded k_def] st(5) inv] .
    have loop: "dispatch_loop (Suc fuel) env PostgreSQL locked now fresh q limit acc after refill acc db rows =
        (if int (length page) < ?c then Some (Inr (acc @ sel, db1))
         else if limit \<le> int (length (acc @ sel))
         then (let left = (case refill of None \<Rightarrow> SCHEDULER_PRIORITY_REFILL_PAGES_AFTER_FILL | Some m \<Rightarrow> m) in
               if left \<le> 0 then Some (Inr (acc @ sel, db1))
               else dispatch_loop fuel env PostgreSQL locked now fresh q limit (acc @ sel)
                      (scheduler_candidate_cursor env PostgreSQL page now) (Some (left - 1)) (acc @ sel) db1 rows)
         else dispatch_loop fuel env PostgreSQL locked now fresh q limit (acc @ sel)
                (scheduler_candidate_cursor env PostgreSQL page now) refill (acc @ sel) db1 rows)"
      unfolding dispatch_loop.simps Let_def pg sum.case l_def [symmetric] flt prod.case st(1) st(2) using False by simp
    show ?thesis
      using Suc.prems(1) rec enough short unfolding loop Let_def by (auto split: if_splits)
  qed
qed simp

section \<open>Properties\<close>

lemma remaining_card: "card (set (remaining env d locked q after t now fresh db rows)) \<le> length rows"
  unfolding remaining_def by (rule le_trans [OF card_length length_filter_le])

text \<open>
  The dispatch scan returns, on every dialect and for every table: with more fuel than there are
  workspace rows it gives a result and never the pagination error, and the result respects the limit.  (Every
  continued iteration moves the cursor strictly forward in the order of the database.)
\<close>

theorem dispatch_scan_returns:
  assumes "table_ok db rows" and "length rows < fuel"
  shows "\<exists>ids db'. list_scheduler_dispatchable_ids_from_pages fuel env d locked now fresh q limit db rows = Some (Inr (ids, db'))
           \<and> length ids \<le> nat limit"
proof -
  have "card (set (remaining env d locked q None now now fresh db rows)) < fuel"
    using remaining_card [of env d locked q None now now fresh db rows] assms(2) by linarith
  then obtain ordered db' where
    "dispatch_loop fuel env d locked now fresh q limit [] None None [] db rows = Some (Inr (ordered, db'))"
    using dispatch_loop_returns [OF assms(1), of None now env d locked q fresh fuel limit "[]" None "[]"] by auto
  then show ?thesis
    by (simp add: list_scheduler_dispatchable_ids_from_pages_def)
qed

theorem dispatch_scan_returns_witness:
  "\<exists>ids db'. list_scheduler_dispatchable_ids_from_pages 3 plain_sched_env SQLite (\<lambda>_. False) 0 [] requested_query 1 two_db
       two_rows = Some (Inr (ids, db')) \<and> length ids \<le> nat 1"
  by (rule dispatch_scan_returns [OF two_rows_ok(1)]) (simp add: two_rows_def)

text \<open>
  Property C7: on PostgreSQL the scan dispatches exactly the best eligible candidates.  Although it reads the
  queue in pages, filters each page, keeps only as many rows as there are free slots and stops one page after the slots
  are filled, its result is the first \<open>limit\<close> elements of the whole queue in priority order, restricted to the workspaces
  whose own cool-down is over and whose provider and model have no open circuit breaker.
\<close>

theorem dispatch_picks_best_eligible:
  assumes ok: "table_ok db rows" and plain: "\<forall>w \<in> set rows. plain_policy env PostgreSQL w" and fuel: "length rows < fuel"
  shows "\<exists>db'. list_scheduler_dispatchable_ids_from_pages fuel env PostgreSQL locked now fresh q limit db rows
           = Some (Inr (map ws_id (take (nat limit)
               (filter (dispatch_eligible env now (circuit_breakers db)) (visible_queue env locked q now now fresh db rows))), db'))"
proof -
  let ?V = "visible_queue env locked q now now fresh db rows"
  let ?E = "dispatch_eligible env now (circuit_breakers db)"
  have pl: "\<And>w. w \<in> set rows \<Longrightarrow> plain_policy env PostgreSQL w"
    using plain by blast
  have "card (set (remaining env PostgreSQL locked q None now now fresh db rows)) < fuel"
    using remaining_card [of env PostgreSQL locked q None now now fresh db rows] fuel by linarith
  then obtain res db' where loop:
    "dispatch_loop fuel env PostgreSQL locked now fresh q limit [] None None [] db rows = Some (Inr (res, db'))"
    using dispatch_loop_returns [OF ok, of None now env PostgreSQL locked q fresh fuel limit "[]" None "[]"] by auto
  have "take (nat limit) res = take (nat limit) (filter ?E ?V)"
  proof (cases "0 < limit")
    case True
    have d: "distinct (map ws_id (filter (\<lambda>w. schedulable q now fresh db w \<and> \<not> locked (ws_id w)) rows))"
      using ok by (simp add: table_ok_def distinct_map_filter)
    have s: "sorted_wrt (\<lambda>a b. queue_key env now a < queue_key env now b) ?V"
      unfolding visible_queue_def by (rule queue.strictly_sorted [OF d])
    have dv: "distinct (map ws_id ?V)"
      using d unfolding visible_queue_def by (simp add: distinct_map)
    have c: "0 < scheduler_candidate_fetch_limit limit"
      using True by (rule fetch_limit_pos)
    have p1: "list_schedulable_workspaces env PostgreSQL locked now fresh q (scheduler_candidate_fetch_limit limit) None (Some now) db rows
        = Inr (take (nat (scheduler_candidate_fetch_limit limit)) (drop 0 ?V))"
      using visible_queue_sql [of rows env locked q now now fresh db] pl c by (simp add: postgres_listed_page [OF _ _ pl])
    show ?thesis
      by (rule dispatch_loop_exact [OF True ok pl refl s dv loop same_tables_refl refl p1]) simp_all
  qed simp
  then show ?thesis
    using loop by (simp add: list_scheduler_dispatchable_ids_from_pages_def)
qed

theorem dispatch_picks_best_eligible_witness:
  "\<exists>db'. list_scheduler_dispatchable_ids_from_pages 3 plain_sched_env PostgreSQL (\<lambda>_. False) 0 [] requested_query 1
     (two_db\<lparr>circuit_breakers := []\<rparr>) two_rows = Some (Inr ([''w2''], db'))"
proof -
  let ?db = "two_db\<lparr>circuit_breakers := []\<rparr>"
  have ok: "table_ok ?db two_rows"
    using two_rows_ok(1) by (simp add: table_ok_def)
  have v: "map ws_id (take (nat 1) (filter (dispatch_eligible plain_sched_env 0 (circuit_breakers ?db))
      (visible_queue plain_sched_env (\<lambda>_. False) requested_query 0 0 [] ?db two_rows))) = [''w2'']"
    by code_simp
  have l: "length two_rows < 3"
    by (simp add: two_rows_def)
  show ?thesis
    using dispatch_picks_best_eligible [OF ok two_rows_ok(2) l, of "\<lambda>_. False" 0 "[]" requested_query 1] unfolding v .
qed

end
