(* ===== verification/Capacity.thy ===== *)
theory Capacity
  imports Scheduler_Dispatch
begin

text \<open>
  Local capacity (\<open>service/resource_capacity.py\<close>, \<open>control/worker/resource_broker.py\<close>,
  \<open>control/worker/admission.py\<close>) and the claim loop that respects it (\<open>control/worker/claims.py\<close>).  Numbers (int or float)
  are rationals, so that sums are exact; in a stored summary they compare by value.  The totals are read from
  the workspace rows and the reservations of the database.
\<close>

section \<open>Constraints\<close>

datatype capacity_error = CapacityValueError string | CapacityAttributeError string

record LocalCapacityConstraint =
  con_dimension :: string
  con_reason_code :: string
  con_limit_source :: string

record LocalCapacityBlocker =
  bl_dimension :: string
  bl_reason_code :: string
  bl_limit :: rat
  bl_allocated :: rat
  bl_requested :: rat
  bl_after :: rat
  bl_unsatisfiable :: bool

definition LOCAL_CAPACITY_CONSTRAINTS :: "LocalCapacityConstraint list" where
  "LOCAL_CAPACITY_CONSTRAINTS =
     [\<lparr>con_dimension = ''steady_cpu'', con_reason_code = ''STEADY_CPU_CAPACITY_SATURATED'', con_limit_source = ''cpu''\<rparr>,
      \<lparr>con_dimension = ''peak_cpu'', con_reason_code = ''PEAK_CPU_CAPACITY_SATURATED'', con_limit_source = ''cpu''\<rparr>,
      \<lparr>con_dimension = ''steady_memory_gb'', con_reason_code = ''STEADY_MEMORY_CAPACITY_SATURATED'', con_limit_source = ''memory''\<rparr>,
      \<lparr>con_dimension = ''peak_memory_gb'', con_reason_code = ''PEAK_MEMORY_CAPACITY_SATURATED'', con_limit_source = ''memory''\<rparr>,
      \<lparr>con_dimension = ''dind_slots'', con_reason_code = ''DIND_CAPACITY_SATURATED'', con_limit_source = ''dind_slots''\<rparr>]"

definition default_dind_slots_from_profile :: "json \<Rightarrow> int" where
  "default_dind_slots_from_profile profile =
     (if json_path [''docker'', ''mode''] profile = Some (JStr ''dind'') then 1 else 0)"

definition local_capacity_limit ::
    "LocalCapacityConstraint \<Rightarrow> rat option \<Rightarrow> rat option \<Rightarrow> rat option \<Rightarrow> capacity_error + rat option" where
  "local_capacity_limit con cpu_limit memory_limit dind =
     (if con_limit_source con = ''cpu'' then Inr cpu_limit
      else if con_limit_source con = ''memory'' then Inr memory_limit
      else if con_limit_source con = ''dind_slots'' then Inr dind
      else Inl (CapacityValueError (''unknown local capacity limit source: '' @ con_limit_source con)))"

definition local_capacity_blocker ::
    "LocalCapacityConstraint \<Rightarrow> rat option \<Rightarrow> rat \<Rightarrow> rat \<Rightarrow> LocalCapacityBlocker option" where
  "local_capacity_blocker con limit allocated requested =
     (case limit of
        None \<Rightarrow> None
      | Some l \<Rightarrow>
          (let after = allocated + requested;
               b = \<lparr>bl_dimension = con_dimension con, bl_reason_code = con_reason_code con, bl_limit = l,
                    bl_allocated = allocated, bl_requested = requested, bl_after = after, bl_unsatisfiable = True\<rparr> in
           if l < requested then Some b
           else if l < after then Some (b\<lparr>bl_unsatisfiable := False\<rparr>)
           else None))"

section \<open>The capacity summary\<close>

record WorkspaceResourceDefaults =
  def_steady_cpu :: rat
  def_steady_memory_gb :: rat
  def_peak_cpu :: rat
  def_peak_memory_gb :: rat

record ReservedResources =
  res_active_workspace_count :: int
  res_steady_cpu :: rat
  res_steady_memory_gb :: rat
  res_peak_cpu :: rat
  res_peak_memory_gb :: rat
  res_disk_mb :: int
  res_dind_slots :: int

record LocalCapacityLimits =
  det_cpu_cores :: "rat option"
  det_memory_gb :: "rat option"

record DiskCheck =
  disk_total_bytes :: int
  disk_free_bytes :: int
  disk_ok :: bool
  disk_reason :: string

record CapacityDimension =
  dim_limit :: "rat option"
  dim_reserved :: rat
  dim_available :: "rat option"
  dim_available_after_next_default :: "rat option"
  dim_reason_code :: "string option"

record ResourceCapacitySummary =
  sum_steady_cpu :: CapacityDimension
  sum_peak_cpu :: CapacityDimension
  sum_steady_memory_gb :: CapacityDimension
  sum_peak_memory_gb :: CapacityDimension
  sum_disk_mb :: CapacityDimension
  sum_dind_slots :: CapacityDimension
  pressure_reasons :: "string list"

definition clamp_available :: "rat \<Rightarrow> rat" where
  "clamp_available v = max 0 v"

definition bounded_dimension :: "rat option \<Rightarrow> rat \<Rightarrow> rat \<Rightarrow> string \<Rightarrow> string \<Rightarrow> CapacityDimension" where
  "bounded_dimension limit reserved next_default unknown_reason saturated_reason =
     (case limit of
        None \<Rightarrow> \<lparr>dim_limit = None, dim_reserved = reserved, dim_available = None,
                 dim_available_after_next_default = None, dim_reason_code = Some unknown_reason\<rparr>
      | Some l \<Rightarrow>
          (let raw = l - reserved in
           \<lparr>dim_limit = Some l, dim_reserved = reserved, dim_available = Some (clamp_available raw),
            dim_available_after_next_default = Some (clamp_available (raw - next_default)),
            dim_reason_code = (if raw \<le> 0 then Some saturated_reason else None)\<rparr>))"

definition MIB :: int where
  "MIB = 1024 * 1024"

definition disk_reason_code :: "DiskCheck \<Rightarrow> int \<Rightarrow> string option" where
  "disk_reason_code c raw =
     (if \<not> disk_ok c then Some (disk_reason c)
      else if raw \<le> 0 then Some ''DISK_RESERVATION_PRESSURE'' else None)"

definition disk_dimension :: "DiskCheck option \<Rightarrow> int \<Rightarrow> CapacityDimension" where
  "disk_dimension check reserved_mb =
     (case check of
        None \<Rightarrow> \<lparr>dim_limit = None, dim_reserved = of_int reserved_mb, dim_available = None,
                 dim_available_after_next_default = None, dim_reason_code = Some ''DISK_CAPACITY_UNKNOWN''\<rparr>
      | Some c \<Rightarrow>
          (let raw = disk_free_bytes c div MIB - reserved_mb in
           \<lparr>dim_limit = Some (of_int (disk_total_bytes c div MIB)), dim_reserved = of_int reserved_mb,
            dim_available = Some (of_int (max 0 raw)), dim_available_after_next_default = None,
            dim_reason_code = disk_reason_code c raw\<rparr>))"

definition first_some :: "'a option \<Rightarrow> 'a option \<Rightarrow> 'a option" where
  "first_some a b = (case a of Some x \<Rightarrow> Some x | None \<Rightarrow> b)"

record CapacitySettings =
  set_cpu_cores :: "rat option"
  set_memory_gb :: "rat option"
  set_dind_slots :: "int option"

definition resource_capacity_summary ::
    "CapacitySettings \<Rightarrow> ReservedResources \<Rightarrow> WorkspaceResourceDefaults \<Rightarrow> DiskCheck option \<Rightarrow> LocalCapacityLimits option
     \<Rightarrow> ResourceCapacitySummary" where
  "resource_capacity_summary settings reserved defaults check detected =
     (let cpu = (case detected of None \<Rightarrow> set_cpu_cores settings
                 | Some x \<Rightarrow> first_some (set_cpu_cores settings) (det_cpu_cores x));
          memory = (case detected of None \<Rightarrow> set_memory_gb settings
                    | Some x \<Rightarrow> first_some (set_memory_gb settings) (det_memory_gb x));
          sc = bounded_dimension cpu (res_steady_cpu reserved) (def_steady_cpu defaults)
                 ''STEADY_CPU_CAPACITY_UNKNOWN'' ''STEADY_CPU_CAPACITY_SATURATED'';
          pc = bounded_dimension cpu (res_peak_cpu reserved) (def_peak_cpu defaults)
                 ''PEAK_CPU_CAPACITY_UNKNOWN'' ''PEAK_CPU_CAPACITY_SATURATED'';
          sm = bounded_dimension memory (res_steady_memory_gb reserved) (def_steady_memory_gb defaults)
                 ''STEADY_MEMORY_CAPACITY_UNKNOWN'' ''STEADY_MEMORY_CAPACITY_SATURATED'';
          pm = bounded_dimension memory (res_peak_memory_gb reserved) (def_peak_memory_gb defaults)
                 ''PEAK_MEMORY_CAPACITY_UNKNOWN'' ''PEAK_MEMORY_CAPACITY_SATURATED'';
          dk = disk_dimension check (res_disk_mb reserved);
          dd = bounded_dimension (map_option of_int (set_dind_slots settings)) (of_int (res_dind_slots reserved)) 0
                 ''DIND_CAPACITY_UNKNOWN'' ''DIND_CAPACITY_SATURATED'' in
      \<lparr>sum_steady_cpu = sc, sum_peak_cpu = pc, sum_steady_memory_gb = sm, sum_peak_memory_gb = pm, sum_disk_mb = dk,
       sum_dind_slots = dd, pressure_reasons = List.map_filter dim_reason_code [sc, pc, sm, pm, dk, dd]\<rparr>)"

section \<open>Demands and totals\<close>

record WorkerConfig =
  cfg_max_concurrent_provisions :: int
  cfg_max_concurrent_executions :: int
  cfg_local_capacity_cpu_cores :: "rat option"
  cfg_local_capacity_memory_gb :: "rat option"
  cfg_local_capacity_dind_slots :: "int option"
  cfg_workspace_steady_cpu :: rat
  cfg_workspace_steady_memory_gb :: rat
  cfg_workspace_peak_cpu :: rat
  cfg_workspace_peak_memory_gb :: rat

record ReservationDemand =
  dm_workspace_id :: string
  dm_steady_cpu :: rat
  dm_steady_memory_gb :: rat
  dm_peak_cpu :: rat
  dm_peak_memory_gb :: rat
  dm_disk_mb :: int
  dm_dind_slots :: int
  dm_defaulted :: bool

record AllocatedReservationTotals =
  al_workspace_count :: int
  al_steady_cpu :: rat
  al_steady_memory_gb :: rat
  al_peak_cpu :: rat
  al_peak_memory_gb :: rat
  al_disk_mb :: int
  al_dind_slots :: int

definition empty_totals :: AllocatedReservationTotals where
  "empty_totals = \<lparr>al_workspace_count = 0, al_steady_cpu = 0, al_steady_memory_gb = 0, al_peak_cpu = 0,
     al_peak_memory_gb = 0, al_disk_mb = 0, al_dind_slots = 0\<rparr>"

definition add_demand :: "AllocatedReservationTotals \<Rightarrow> ReservationDemand \<Rightarrow> AllocatedReservationTotals" where
  "add_demand t d =
     \<lparr>al_workspace_count = al_workspace_count t + 1, al_steady_cpu = al_steady_cpu t + dm_steady_cpu d,
      al_steady_memory_gb = al_steady_memory_gb t + dm_steady_memory_gb d, al_peak_cpu = al_peak_cpu t + dm_peak_cpu d,
      al_peak_memory_gb = al_peak_memory_gb t + dm_peak_memory_gb d, al_disk_mb = al_disk_mb t + dm_disk_mb d,
      al_dind_slots = al_dind_slots t + dm_dind_slots d\<rparr>"

definition reservation_demand_from_reservation :: "ResourceReservation \<Rightarrow> ReservationDemand" where
  "reservation_demand_from_reservation r =
     \<lparr>dm_workspace_id = rr_workspace_id r, dm_steady_cpu = rr_steady_cpu r, dm_steady_memory_gb = rr_steady_memory_gb r,
      dm_peak_cpu = rr_peak_cpu r, dm_peak_memory_gb = rr_peak_memory_gb r,
      dm_disk_mb = (case rr_disk_mb r of None \<Rightarrow> 0 | Some m \<Rightarrow> m), dm_dind_slots = rr_dind_slots r, dm_defaulted = False\<rparr>"

definition default_reservation_demand_for_workspace :: "WorkerConfig \<Rightarrow> string \<Rightarrow> json \<Rightarrow> ReservationDemand" where
  "default_reservation_demand_for_workspace cfg wid profile =
     \<lparr>dm_workspace_id = wid, dm_steady_cpu = cfg_workspace_steady_cpu cfg,
      dm_steady_memory_gb = cfg_workspace_steady_memory_gb cfg, dm_peak_cpu = cfg_workspace_peak_cpu cfg,
      dm_peak_memory_gb = cfg_workspace_peak_memory_gb cfg, dm_disk_mb = 0,
      dm_dind_slots = default_dind_slots_from_profile profile, dm_defaulted = True\<rparr>"

definition reservation_demand_for_workspace ::
    "WorkerConfig \<Rightarrow> Workspace \<Rightarrow> ResourceReservation option \<Rightarrow> ReservationDemand" where
  "reservation_demand_for_workspace cfg w reservation =
     (case reservation of
        Some r \<Rightarrow> reservation_demand_from_reservation r
      | None \<Rightarrow> default_reservation_demand_for_workspace cfg (ws_id w) (resolved_profile w))"

text \<open>\<open>getattr(totals, dimension)\<close>; \<open>None\<close> where it raises.\<close>

definition totals_attr :: "string \<Rightarrow> AllocatedReservationTotals \<Rightarrow> rat option" where
  "totals_attr d t =
     map_of [(''workspace_count'', of_int (al_workspace_count t)), (''steady_cpu'', al_steady_cpu t),
             (''steady_memory_gb'', al_steady_memory_gb t), (''peak_cpu'', al_peak_cpu t),
             (''peak_memory_gb'', al_peak_memory_gb t), (''disk_mb'', of_int (al_disk_mb t)),
             (''dind_slots'', of_int (al_dind_slots t))] d"

definition demand_attr :: "string \<Rightarrow> ReservationDemand \<Rightarrow> rat option" where
  "demand_attr d x =
     map_of [(''steady_cpu'', dm_steady_cpu x), (''steady_memory_gb'', dm_steady_memory_gb x),
             (''peak_cpu'', dm_peak_cpu x), (''peak_memory_gb'', dm_peak_memory_gb x), (''disk_mb'', of_int (dm_disk_mb x)),
             (''dind_slots'', of_int (dm_dind_slots x))] d"

definition add_blocker :: "LocalCapacityBlocker option \<Rightarrow> LocalCapacityBlocker list \<Rightarrow> LocalCapacityBlocker list" where
  "add_blocker b bs = (case b of None \<Rightarrow> bs | Some x \<Rightarrow> x # bs)"

fun blockers_loop ::
    "WorkerConfig \<Rightarrow> AllocatedReservationTotals \<Rightarrow> ReservationDemand \<Rightarrow> LocalCapacityConstraint list
     \<Rightarrow> capacity_error + LocalCapacityBlocker list" where
  "blockers_loop cfg t d [] = Inr []"
| "blockers_loop cfg t d (con # cons) =
     (case local_capacity_limit con (cfg_local_capacity_cpu_cores cfg) (cfg_local_capacity_memory_gb cfg)
             (map_option of_int (cfg_local_capacity_dind_slots cfg)) of
        Inl e \<Rightarrow> Inl e
      | Inr limit \<Rightarrow>
          (case (totals_attr (con_dimension con) t, demand_attr (con_dimension con) d) of
             (Some a, Some r) \<Rightarrow>
               map_sum id (add_blocker (local_capacity_blocker con limit a r)) (blockers_loop cfg t d cons)
           | _ \<Rightarrow> Inl (CapacityAttributeError (con_dimension con))))"

definition local_capacity_blockers ::
    "WorkerConfig \<Rightarrow> AllocatedReservationTotals \<Rightarrow> ReservationDemand \<Rightarrow> capacity_error + LocalCapacityBlocker list" where
  "local_capacity_blockers cfg t d = blockers_loop cfg t d LOCAL_CAPACITY_CONSTRAINTS"

definition local_capacity_configured :: "WorkerConfig \<Rightarrow> bool" where
  "local_capacity_configured cfg =
     (cfg_local_capacity_cpu_cores cfg \<noteq> None \<or> cfg_local_capacity_memory_gb cfg \<noteq> None
      \<or> cfg_local_capacity_dind_slots cfg \<noteq> None)"

section \<open>Capacity queue decisions\<close>

definition capacity_blocker_payload :: "LocalCapacityBlocker \<Rightarrow> json" where
  "capacity_blocker_payload b =
     JObj [(''dimension'', JStr (bl_dimension b)), (''reason_code'', JStr (bl_reason_code b)), (''limit'', JFloat (bl_limit b)),
           (''allocated'', JFloat (bl_allocated b)), (''requested'', JFloat (bl_requested b)), (''after'', JFloat (bl_after b)),
           (''unsatisfiable'', JBool (bl_unsatisfiable b))]"

definition CAPACITY_BLOCKER_SIGNATURE_FIELDS :: "string list" where
  "CAPACITY_BLOCKER_SIGNATURE_FIELDS = [''dimension'', ''reason_code'', ''limit'', ''requested'', ''unsatisfiable'']"

text \<open>\<open>payload.get(field)\<close>: JSON null and a missing key are both \<open>None\<close>.\<close>

definition capacity_blocker_payload_signature :: "json \<Rightarrow> json list" where
  "capacity_blocker_payload_signature payload =
     map (\<lambda>f. case json_get f payload of None \<Rightarrow> JNull | Some v \<Rightarrow> v) CAPACITY_BLOCKER_SIGNATURE_FIELDS"

definition capacity_blocker_signatures :: "LocalCapacityBlocker list \<Rightarrow> json list list" where
  "capacity_blocker_signatures bs = map (\<lambda>b. capacity_blocker_payload_signature (capacity_blocker_payload b)) bs"

definition capacity_blocker_signatures_from_summary :: "json \<Rightarrow> json list list option" where
  "capacity_blocker_signatures_from_summary summary =
     (case json_get ''blockers'' summary of
        Some (JArr bs) \<Rightarrow> if list_all is_mapping bs then Some (map capacity_blocker_payload_signature bs) else None
      | _ \<Rightarrow> None)"

definition capacity_deferred_decision_matches ::
    "QueueDecision option \<Rightarrow> string \<Rightarrow> string \<Rightarrow> LocalCapacityBlocker list \<Rightarrow> bool" where
  "capacity_deferred_decision_matches decision attempt_id reason bs =
     (case decision of
        None \<Rightarrow> False
      | Some dc \<Rightarrow>
          qd_attempt_id dc = attempt_id \<and> qd_decision dc = ''deferred'' \<and> qd_reason_code dc = reason
          \<and> capacity_blocker_signatures_from_summary (qd_resource_summary dc) = Some (capacity_blocker_signatures bs))"

definition capacity_resource_summary ::
    "AllocatedReservationTotals \<Rightarrow> ReservationDemand \<Rightarrow> LocalCapacityBlocker list \<Rightarrow> (string \<times> json) list" where
  "capacity_resource_summary t d bs =
     [(''allocated'', JObj [(''workspace_count'', JInt (al_workspace_count t)), (''steady_cpu'', JFloat (al_steady_cpu t)),
         (''steady_memory_gb'', JFloat (al_steady_memory_gb t)), (''peak_cpu'', JFloat (al_peak_cpu t)),
         (''peak_memory_gb'', JFloat (al_peak_memory_gb t)), (''disk_mb'', JInt (al_disk_mb t)),
         (''dind_slots'', JInt (al_dind_slots t))]),
      (''requested'', JObj [(''workspace_id'', JStr (dm_workspace_id d)), (''steady_cpu'', JFloat (dm_steady_cpu d)),
         (''steady_memory_gb'', JFloat (dm_steady_memory_gb d)), (''peak_cpu'', JFloat (dm_peak_cpu d)),
         (''peak_memory_gb'', JFloat (dm_peak_memory_gb d)), (''disk_mb'', JInt (dm_disk_mb d)),
         (''dind_slots'', JInt (dm_dind_slots d)), (''defaulted'', JBool (dm_defaulted d))]),
      (''blockers'', JArr (map capacity_blocker_payload bs))]"

definition capacity_previous_resource_summary :: "json \<Rightarrow> json" where
  "capacity_previous_resource_summary summary = JObj (AList.delete ''previous'' (entries (Some summary)))"

text \<open>With a context: the attempt and the latest decision read before the claim loop.\<close>

definition record_capacity_queue_decision ::
    "sched_env \<Rightarrow> Workspace \<Rightarrow> string \<Rightarrow> string \<Rightarrow> instant \<Rightarrow> AllocatedReservationTotals \<Rightarrow> ReservationDemand
     \<Rightarrow> LocalCapacityBlocker list \<Rightarrow> TaskAttempt option \<Rightarrow> QueueDecision option \<Rightarrow> database \<Rightarrow> database" where
  "record_capacity_queue_decision env w decision reason decided_at t d bs attempt latest db =
     (case attempt of
        None \<Rightarrow> db
      | Some a \<Rightarrow>
          if decision = ''deferred'' \<and> capacity_deferred_decision_matches latest (at_id a) reason bs then db
          else
            (let s = scheduler_score_from_workspace env w decided_at;
                 summary = (if decision = ''deferred''
                            then score_summary_with_suppression s reason
                                   [(''blockers'', JArr (map capacity_blocker_payload bs))]
                            else score_summary s);
                 resources = (case latest of
                     None \<Rightarrow> capacity_resource_summary t d bs
                   | Some l \<Rightarrow> AList.update ''previous'' (capacity_previous_resource_summary (qd_resource_summary l))
                                (capacity_resource_summary t d bs)) in
             create_decision env a (ws_id w) decision reason s (JObj resources)
               (case latest of None \<Rightarrow> JObj [] | Some l \<Rightarrow> qd_overlap_risk_summary l) summary decided_at db))"

section \<open>Totals of the allocated workspaces\<close>

definition ALLOCATED_RESOURCE_RESERVATION_STATUSES :: "WorkspaceStatus list" where
  "ALLOCATED_RESOURCE_RESERVATION_STATUSES =
     [Provisioning, Ready, Running, Validating, Pushing, Monitoring_pr, Blocked, Recovering, Destroying]"

definition effective_worker_config_node_id :: "Worker \<Rightarrow> string" where
  "effective_worker_config_node_id wk =
     (case config_node_id wk of None \<Rightarrow> DEFAULT_LOCAL_SERVICE_WORKER_NODE_ID
      | Some n \<Rightarrow> if n = [] then DEFAULT_LOCAL_SERVICE_WORKER_NODE_ID else n)"

text \<open>The scope of the totals query, per workspace row with its latest active reservation.\<close>

definition in_allocation_scope :: "string \<Rightarrow> Workspace \<Rightarrow> ResourceReservation \<Rightarrow> bool" where
  "in_allocation_scope node w r =
     (rr_node_id r = Some node \<or> node_id w = Some node \<or> (rr_node_id r = None \<and> node_id w = None))"

definition allocated_demand :: "WorkerConfig \<Rightarrow> string \<Rightarrow> database \<Rightarrow> Workspace \<Rightarrow> ReservationDemand option" where
  "allocated_demand cfg node db w =
     (if status w \<notin> set ALLOCATED_RESOURCE_RESERVATION_STATUSES then None
      else (case latest_active (ws_id w) db of
              Some r \<Rightarrow> if in_allocation_scope node w r then Some (reservation_demand_from_reservation r) else None
            | None \<Rightarrow>
                if node_id w = Some node \<or> node_id w = None
                then Some (default_reservation_demand_for_workspace cfg (ws_id w) (resolved_profile w)) else None))"

definition allocated_totals_for_capacity_gate :: "WorkerConfig \<Rightarrow> string \<Rightarrow> database \<Rightarrow> Workspace list \<Rightarrow> AllocatedReservationTotals" where
  "allocated_totals_for_capacity_gate cfg node db rows =
     foldl add_demand empty_totals (List.map_filter (allocated_demand cfg node db) rows)"

section \<open>Admission slots\<close>

definition REQUESTED_ADMISSION_SLOT_STATUSES :: "WorkspaceStatus list" where
  "REQUESTED_ADMISSION_SLOT_STATUSES =
     [Provisioning, Ready, Running, Validating, Pushing, Monitoring_pr, Blocked, Recovering]"

definition requested_admission_lock_node_ids :: "string option \<Rightarrow> string list" where
  "requested_admission_lock_node_ids node =
     (case node of
        None \<Rightarrow> [DEFAULT_LOCAL_SERVICE_WORKER_NODE_ID]
      | Some n \<Rightarrow> if n = DEFAULT_LOCAL_SERVICE_WORKER_NODE_ID then [DEFAULT_LOCAL_SERVICE_WORKER_NODE_ID]
                  else [DEFAULT_LOCAL_SERVICE_WORKER_NODE_ID, n])"

definition requested_admission_row_slots :: "WorkerConfig \<Rightarrow> Worker \<Rightarrow> Workspace list \<Rightarrow> int" where
  "requested_admission_row_slots cfg wk rows =
     (let max_executions = max 0 (cfg_max_concurrent_executions cfg);
          node = effective_worker_config_node_id wk;
          occupied = length (filter (\<lambda>w. status w \<in> set REQUESTED_ADMISSION_SLOT_STATUSES
                                     \<and> (node_id w = Some node \<or> node_id w = None)) rows) in
      if max_executions \<le> 0 then 0 else max 0 (max_executions - int occupied))"

definition requested_claim_admission_slots :: "WorkerConfig \<Rightarrow> Worker \<Rightarrow> bool \<Rightarrow> int \<Rightarrow> Workspace list \<Rightarrow> int" where
  "requested_claim_admission_slots cfg wk has_executor claim_limit rows =
     (let limit = max 0 claim_limit in
      if \<not> has_executor then limit else min limit (requested_admission_row_slots cfg wk rows))"

text \<open>The advisory lock key: the first eight digest bytes, big endian, as a signed 64-bit number.\<close>

definition bytes_be :: "nat list \<Rightarrow> int" where
  "bytes_be bs = foldl (\<lambda>a b. 256 * a + int b) 0 bs"

definition postgres_advisory_lock_key :: "(string \<Rightarrow> nat list) \<Rightarrow> string \<Rightarrow> int" where
  "postgres_advisory_lock_key sha256_digest value =
     (let raw = bytes_be (take 8 (sha256_digest value)) in if raw < 2 ^ 63 then raw else raw - 2 ^ 64)"

section \<open>The claim loop\<close>

text \<open>
  \<open>db0\<close> is the database when the loop starts: attempts, latest decisions and reservations are read once, before it.  The
  step from \<open>requested\<close> to \<open>provisioning\<close> is a legal transition, so the only other outcome of \<open>transition_if_current\<close>
  is that the row has moved on.
\<close>

fun claim_candidates_loop ::
    "sched_env \<Rightarrow> bool \<Rightarrow> WorkerConfig \<Rightarrow> Worker \<Rightarrow> (nat \<Rightarrow> string) \<Rightarrow> instant \<Rightarrow> instant \<Rightarrow> database \<Rightarrow> int
     \<Rightarrow> Workspace list \<Rightarrow> AllocatedReservationTotals \<Rightarrow> string list \<Rightarrow> database
     \<Rightarrow> capacity_error + (string list \<times> AllocatedReservationTotals \<times> database)" where
  "claim_candidates_loop env pg cfg wk new_ids decided_at lease db0 slots [] t claimed db = Inr (claimed, t, db)"
| "claim_candidates_loop env pg cfg wk new_ids decided_at lease db0 slots (w # ws) t claimed db =
     (if slots \<le> int (length claimed) then Inr (claimed, t, db)
      else
        (let attempt = attempt_by_workspace db0 (ws_id w); latest = latest_decision (ws_id w) db0;
             demand = reservation_demand_for_workspace cfg w (latest_active (ws_id w) db0) in
         case local_capacity_blockers cfg t demand of
           Inl e \<Rightarrow> Inl e
         | Inr (b # bs) \<Rightarrow>
             (let reason = (if list_ex bl_unsatisfiable (b # bs) then ''LOCAL_CAPACITY_UNSATISFIABLE''
                            else ''LOCAL_CAPACITY_DEFERRED'') in
              claim_candidates_loop env pg cfg wk new_ids decided_at lease db0 slots ws t claimed
                (record_capacity_queue_decision env w ''deferred'' reason decided_at t demand (b # bs) attempt latest db))
         | Inr [] \<Rightarrow>
             (case transition_if_current pg (new_ids (length claimed)) decided_at (ws_id w) Requested Provisioning
                     ''WORKER_CLAIMED'' None [] db of
                Inr (Some (w1, db1)) \<Rightarrow>
                  (let w2 = apply_execution_claim wk lease w1;
                       db2 = put_workspace db1 w2;
                       db3 = (if dm_defaulted demand
                              then record_capacity_queue_decision env w2 ''ordered'' ''LOCAL_CAPACITY_RESERVATION_DEFAULTED''
                                     decided_at t demand [] attempt latest db2
                              else db2) in
                   claim_candidates_loop env pg cfg wk new_ids decided_at lease db0 slots ws (add_demand t demand)
                     (claimed @ [ws_id w]) db3)
              | _ \<Rightarrow> claim_candidates_loop env pg cfg wk new_ids decided_at lease db0 slots ws t claimed db)))"

definition claim_requested_capacity_candidates ::
    "sched_env \<Rightarrow> bool \<Rightarrow> WorkerConfig \<Rightarrow> Worker \<Rightarrow> (nat \<Rightarrow> string) \<Rightarrow> instant \<Rightarrow> instant \<Rightarrow> Workspace list
     \<Rightarrow> AllocatedReservationTotals \<Rightarrow> int \<Rightarrow> database \<Rightarrow> capacity_error + (string list \<times> AllocatedReservationTotals \<times> database)" where
  "claim_requested_capacity_candidates env pg cfg wk new_ids decided_at lease cands t slots db =
     (if cands = [] \<or> slots \<le> 0 then Inr ([], t, db)
      else claim_candidates_loop env pg cfg wk new_ids decided_at lease db slots cands t [] db)"

section \<open>Keeping a page cursor\<close>

definition requested_capacity_age_boost_changed :: "string \<Rightarrow> instant \<Rightarrow> instant \<Rightarrow> Workspace list \<Rightarrow> bool" where
  "requested_capacity_age_boost_changed node since now rows =
     (if now \<le> since then False
      else list_ex (\<lambda>w. status w = Requested \<and> (node_id w = Some node \<or> node_id w = None)
             \<and> list_ex (\<lambda>boost. since - boost * AGE_BOOST_INTERVAL_SECONDS * 1000000 < created_at w
                          \<and> created_at w \<le> now - boost * AGE_BOOST_INTERVAL_SECONDS * 1000000) [1..AGE_BOOST_MAX]) rows)"

definition capacity_signature_units :: "rat \<Rightarrow> int" where
  "capacity_signature_units v = round_half_even (v * 1000000000)"

definition allocated_reservation_signature :: "AllocatedReservationTotals \<Rightarrow> int list" where
  "allocated_reservation_signature t =
     [al_workspace_count t, capacity_signature_units (al_steady_cpu t), capacity_signature_units (al_steady_memory_gb t),
      capacity_signature_units (al_peak_cpu t), capacity_signature_units (al_peak_memory_gb t), al_disk_mb t, al_dind_slots t]"

end
