(* ===== verification/Capacity_Properties.thy ===== *)
theory Capacity_Properties
  imports Capacity
begin

text \<open>
  What the capacity gate guarantees: the check is total and exact, claiming never takes the totals over a configured limit
  nor more workspaces than there are slots, the totals kept while claiming are the totals the database would give,
  and a page cursor may be kept exactly while no age boost of a queued workspace changes.
\<close>

section \<open>The check\<close>

text \<open>A bound that is not configured does not constrain.\<close>

definition below :: "rat \<Rightarrow> rat option \<Rightarrow> bool" where
  "below x limit = (case limit of None \<Rightarrow> True | Some l \<Rightarrow> x \<le> l)"

lemma below_simps [simp]: "below x None" "below x (Some l) \<longleftrightarrow> x \<le> l"
  by (simp_all add: below_def)

text \<open>The specification: every constrained total is within its limit.\<close>

definition within_capacity :: "WorkerConfig \<Rightarrow> AllocatedReservationTotals \<Rightarrow> bool" where
  "within_capacity cfg t =
     (below (al_steady_cpu t) (cfg_local_capacity_cpu_cores cfg)
      \<and> below (al_peak_cpu t) (cfg_local_capacity_cpu_cores cfg)
      \<and> below (al_steady_memory_gb t) (cfg_local_capacity_memory_gb cfg)
      \<and> below (al_peak_memory_gb t) (cfg_local_capacity_memory_gb cfg)
      \<and> below (of_int (al_dind_slots t)) (map_option of_int (cfg_local_capacity_dind_slots cfg)))"

lemma blocker_None: "local_capacity_blocker con limit a r = None \<longleftrightarrow> below r limit \<and> below (a + r) limit"
  by (auto simp: local_capacity_blocker_def Let_def split: option.splits)

lemma blocker_unsatisfiable:
  "local_capacity_blocker con limit a r = Some b \<Longrightarrow> bl_unsatisfiable b \<longleftrightarrow> \<not> below r limit"
  by (auto simp: local_capacity_blocker_def Let_def split: option.splits if_splits)

text \<open>The demand alone, as totals: what an empty node would hold.\<close>

definition alone :: "ReservationDemand \<Rightarrow> AllocatedReservationTotals" where
  "alone d = add_demand empty_totals d"

text \<open>
  The five constraints written out: dimension, reason code, limit, what is allocated and what is requested.
\<close>

definition capacity_table :: "WorkerConfig \<Rightarrow> AllocatedReservationTotals \<Rightarrow> ReservationDemand \<Rightarrow> (string \<times> string \<times> rat option \<times> rat \<times> rat) list" where
  "capacity_table cfg t d =
     [(''steady_cpu'', ''STEADY_CPU_CAPACITY_SATURATED'', cfg_local_capacity_cpu_cores cfg, al_steady_cpu t, dm_steady_cpu d),
      (''peak_cpu'', ''PEAK_CPU_CAPACITY_SATURATED'', cfg_local_capacity_cpu_cores cfg, al_peak_cpu t, dm_peak_cpu d),
      (''steady_memory_gb'', ''STEADY_MEMORY_CAPACITY_SATURATED'', cfg_local_capacity_memory_gb cfg, al_steady_memory_gb t, dm_steady_memory_gb d),
      (''peak_memory_gb'', ''PEAK_MEMORY_CAPACITY_SATURATED'', cfg_local_capacity_memory_gb cfg, al_peak_memory_gb t, dm_peak_memory_gb d),
      (''dind_slots'', ''DIND_CAPACITY_SATURATED'', map_option of_int (cfg_local_capacity_dind_slots cfg), of_int (al_dind_slots t), of_int (dm_dind_slots d))]"

definition violated :: "string \<times> string \<times> rat option \<times> rat \<times> rat \<Rightarrow> bool" where
  "violated x = (case x of (dimension, reason, limit, allocated, requested) \<Rightarrow> \<not> below requested limit \<or> \<not> below (allocated + requested) limit)"

definition blocker_row :: "LocalCapacityBlocker \<Rightarrow> string \<times> string \<times> rat option \<times> rat \<times> rat" where
  "blocker_row b = (bl_dimension b, bl_reason_code b, Some (bl_limit b), bl_allocated b, bl_requested b)"

definition blocker_wf :: "LocalCapacityBlocker \<Rightarrow> bool" where
  "blocker_wf b = (bl_after b = bl_allocated b + bl_requested b \<and> (bl_unsatisfiable b \<longleftrightarrow> bl_limit b < bl_requested b))"

lemma add_blocker_row:
  fixes con limit a r
  defines "x \<equiv> (con_dimension con, con_reason_code con, limit, a, r)"
  shows "map blocker_row (add_blocker (local_capacity_blocker con limit a r) bs) = filter violated [x] @ map blocker_row bs"
    and "list_all blocker_wf (add_blocker (local_capacity_blocker con limit a r) bs) \<longleftrightarrow> list_all blocker_wf bs"
  by (auto simp: x_def add_blocker_def local_capacity_blocker_def Let_def violated_def blocker_row_def blocker_wf_def split: option.splits)

lemma blockers_eq:
  obtains bs where "local_capacity_blockers cfg t d = Inr bs" "map blocker_row bs = filter violated (capacity_table cfg t d)" "list_all blocker_wf bs"
proof -
  define step where "step con limit a r bs = add_blocker (local_capacity_blocker con limit a r) bs" for con limit a r bs
  let ?cpu = "cfg_local_capacity_cpu_cores cfg" and ?mem = "cfg_local_capacity_memory_gb cfg"
  let ?dind = "map_option of_int (cfg_local_capacity_dind_slots cfg) :: rat option" and ?cs = LOCAL_CAPACITY_CONSTRAINTS
  have loop: "local_capacity_blockers cfg t d =
      Inr (step (?cs ! 0) ?cpu (al_steady_cpu t) (dm_steady_cpu d)
          (step (?cs ! 1) ?cpu (al_peak_cpu t) (dm_peak_cpu d)
            (step (?cs ! 2) ?mem (al_steady_memory_gb t) (dm_steady_memory_gb d)
              (step (?cs ! 3) ?mem (al_peak_memory_gb t) (dm_peak_memory_gb d)
                (step (?cs ! 4) ?dind (of_int (al_dind_slots t)) (of_int (dm_dind_slots d)) [])))))"
    unfolding local_capacity_blockers_def step_def
    by (simp add: LOCAL_CAPACITY_CONSTRAINTS_def local_capacity_limit_def totals_attr_def demand_attr_def)
  show thesis
    by (rule that [OF loop]) (simp_all add: step_def add_blocker_row capacity_table_def LOCAL_CAPACITY_CONSTRAINTS_def)
qed

lemma blockers_exact:
  obtains bs where "local_capacity_blockers cfg t d = Inr bs"
    and "map blocker_row bs = filter violated (capacity_table cfg t d)" and "list_all blocker_wf bs"
    and "bs = [] \<longleftrightarrow> within_capacity cfg (alone d) \<and> within_capacity cfg (add_demand t d)"
    and "list_ex bl_unsatisfiable bs \<longleftrightarrow> \<not> within_capacity cfg (alone d)"
proof -
  obtain bs where bs: "local_capacity_blockers cfg t d = Inr bs" "map blocker_row bs = filter violated (capacity_table cfg t d)" "list_all blocker_wf bs"
    by (rule blockers_eq)
  have "bs = [] \<longleftrightarrow> filter violated (capacity_table cfg t d) = []"
    unfolding bs(2) [symmetric] by simp
  also have "\<dots> \<longleftrightarrow> within_capacity cfg (alone d) \<and> within_capacity cfg (add_demand t d)"
    by (auto simp: capacity_table_def violated_def within_capacity_def alone_def add_demand_def empty_totals_def)
  finally have empty: "bs = [] \<longleftrightarrow> within_capacity cfg (alone d) \<and> within_capacity cfg (add_demand t d)" .
  have "list_ex bl_unsatisfiable bs \<longleftrightarrow> list_ex (\<lambda>(dimension, reason, limit, a, r). \<not> below r limit) (map blocker_row bs)"
    using bs(3) by (auto simp: list_ex_iff list_all_iff blocker_wf_def blocker_row_def not_le)
  also have "\<dots> \<longleftrightarrow> \<not> within_capacity cfg (alone d)"
    unfolding bs(2) by (auto simp: capacity_table_def violated_def within_capacity_def alone_def add_demand_def empty_totals_def)
  finally show thesis
    using that bs empty by blast
qed

lemma blockers_total:
  obtains bs where "local_capacity_blockers cfg t d = Inr bs"
    and "bs = [] \<longleftrightarrow> within_capacity cfg (alone d) \<and> within_capacity cfg (add_demand t d)"
    and "list_ex bl_unsatisfiable bs \<longleftrightarrow> \<not> within_capacity cfg (alone d)"
  using blockers_exact [of cfg t d] by blast

text \<open>
  Property C37: the capacity check never raises for the configured constraints and reports exactly the violated limits: one blocker for
  each of the five constraints whose limit the demand alone or the totals with the demand exceed, in order, with the dimension, the reason code,
  the limit and the numbers of that constraint, and marked unsatisfiable exactly when the demand alone exceeds the limit.  So there is none
  exactly when the demand fits an empty node and the totals with the demand stay within capacity.  A constraint with any other limit
  source raises.
\<close>

theorem capacity_check_exact:
  "(\<exists>bs. local_capacity_blockers cfg t d = Inr bs
      \<and> map blocker_row bs = filter violated (capacity_table cfg t d) \<and> list_all blocker_wf bs
      \<and> (bs = [] \<longleftrightarrow> within_capacity cfg (alone d) \<and> within_capacity cfg (add_demand t d))
      \<and> (list_ex bl_unsatisfiable bs \<longleftrightarrow> \<not> within_capacity cfg (alone d)))
   \<and> ((\<exists>e. local_capacity_limit con cpu mem dind = Inl e)
      \<longleftrightarrow> con_limit_source con \<notin> {''cpu'', ''memory'', ''dind_slots''})"
proof
  show "\<exists>bs. local_capacity_blockers cfg t d = Inr bs
      \<and> map blocker_row bs = filter violated (capacity_table cfg t d) \<and> list_all blocker_wf bs
      \<and> (bs = [] \<longleftrightarrow> within_capacity cfg (alone d) \<and> within_capacity cfg (add_demand t d))
      \<and> (list_ex bl_unsatisfiable bs \<longleftrightarrow> \<not> within_capacity cfg (alone d))"
    by (rule blockers_exact [of cfg t d]) blast
  show "(\<exists>e. local_capacity_limit con cpu mem dind = Inl e)
      \<longleftrightarrow> con_limit_source con \<notin> {''cpu'', ''memory'', ''dind_slots''}"
    by (simp add: local_capacity_limit_def)
qed

section \<open>One claim\<close>

lemma claim_transition:
  assumes k: "db_keys_ok db"
    and tr: "transition_if_current pg i now wid Requested Provisioning rs None [] db = Inr (Some (w1, db1))"
  obtains w0 where "workspaces db wid = Some w0" and "status w0 = Requested" and "ws_id w1 = wid" and "status w1 = Provisioning"
    and "resolved_profile w1 = resolved_profile w0" and "workspaces db1 = (workspaces db)(wid \<mapsto> w1)"
    and "reservations db1 = reservations db"
proof -
  have "transition_if_current_locked i now wid Requested Provisioning rs None [recovery_allows_work db] db = Some (w1, db1)"
    using tr unfolding transition_if_current_eq [OF k] by (simp split: if_splits)
  from locked_SomeD [OF k this] obtain w0 where w0: "workspaces db wid = Some w0" "ws_id w0 = wid" "status w0 = Requested"
    and f: "(w1, db1) = finish_transition i now Requested Provisioning rs None (event_sequence w0 + 1)
        (apply_status now Requested Provisioning (snd (reserve_workspace_event_orders 1 True w0))) db" .
  let ?a = "apply_status now Requested Provisioning (snd (reserve_workspace_event_orders 1 True w0))"
  have w1: "w1 = ?a\<lparr>events := events w0 @ [state_changed_event Requested Provisioning rs None (event_sequence w0 + 1)]\<rparr>"
    using arg_cong [OF f, of fst] by (simp add: finish_transition_row started_row_def)
  have rp: "resolved_profile ?a = resolved_profile w0"
    by (simp add: apply_status_def reserve_workspace_event_orders_def Let_def)
  have ws: "workspaces db1 = (workspaces db)(wid \<mapsto> w1)"
  proof -
    have "ws_id w1 = wid"
      using w1 w0(2) by simp
    with finish_transition_workspaces [of i now Requested Provisioning rs None "event_sequence w0 + 1" ?a db]
    show ?thesis
      unfolding f [symmetric] using w0(2) by simp
  qed
  have "reservations db1 = reservations (snd (finish_transition i now Requested Provisioning rs None (event_sequence w0 + 1) ?a db))"
    using arg_cong [OF f, of snd] by simp
  also have "\<dots> = reservations db"
    by (auto simp: finish_transition_def Let_def sync_merge_candidate_lifecycle_def releases_resource_reservation_def
        split: option.splits)
  finally have rs: "reservations db1 = reservations db" .
  show ?thesis
    by (rule that [OF w0(1,3) _ _ _ ws rs]) (simp_all add: w1 w0(2) rp)
qed

lemma record_capacity_frame [simp]:
  "workspaces (record_capacity_queue_decision env w dc rs when t d bs at' l db) = workspaces db"
  "reservations (record_capacity_queue_decision env w dc rs when t d bs at' l db) = reservations db"
  "db_keys_ok (record_capacity_queue_decision env w dc rs when t d bs at' l db) = db_keys_ok db"
  by (simp_all add: record_capacity_queue_decision_def create_decision_def Let_def db_keys_ok_def split: option.splits)

lemma apply_claim_fields [simp]:
  "ws_id (apply_execution_claim wk lease w) = ws_id w" "status (apply_execution_claim wk lease w) = status w"
  "resolved_profile (apply_execution_claim wk lease w) = resolved_profile w"
  "execution_claimed_by (apply_execution_claim wk lease w) = Some (worker_id wk)"
  "node_id (apply_execution_claim wk lease w) = (case config_node_id wk of None \<Rightarrow> node_id w | Some n \<Rightarrow> Some n)"
  by (simp_all add: apply_execution_claim_def Let_def split: option.splits)

text \<open>
  One successful claim, as the loop composes it: the row is the worker's and provisioning, everything else the
  totals depend on is as before.
\<close>

definition claims_row :: "Worker \<Rightarrow> string \<Rightarrow> database \<Rightarrow> database \<Rightarrow> bool" where
  "claims_row wk wid db db' =
     (\<exists>w0 w2. workspaces db wid = Some w0 \<and> status w0 = Requested \<and> workspaces db' = (workspaces db)(wid \<mapsto> w2)
        \<and> reservations db' = reservations db \<and> ws_id w2 = wid \<and> status w2 = Provisioning
        \<and> resolved_profile w2 = resolved_profile w0 \<and> execution_claimed_by w2 = Some (worker_id wk)
        \<and> (\<forall>n. config_node_id wk = Some n \<longrightarrow> node_id w2 = Some n))"

lemma claims_row_keys: "claims_row wk wid db db' \<Longrightarrow> db_keys_ok db \<Longrightarrow> db_keys_ok db'"
  unfolding claims_row_def db_keys_ok_def by (auto split: if_splits)

lemma claims_row_same:
  assumes "claims_row wk wid db db'"
  shows "dom (workspaces db') = dom (workspaces db)" and "reservations db' = reservations db"
    and "map_option resolved_profile (workspaces db' i) = map_option resolved_profile (workspaces db i)"
proof -
  obtain w0 w2 where c: "workspaces db wid = Some w0" "workspaces db' = (workspaces db)(wid \<mapsto> w2)"
    "reservations db' = reservations db" "resolved_profile w2 = resolved_profile w0"
    using assms unfolding claims_row_def by blast
  from c(1,2) show "dom (workspaces db') = dom (workspaces db)"
    by auto
  from c show "map_option resolved_profile (workspaces db' i) = map_option resolved_profile (workspaces db i)"
    by simp
qed (use assms in \<open>auto simp: claims_row_def\<close>)

lemma claim_step:
  assumes k: "db_keys_ok db"
    and tr: "transition_if_current pg i now wid Requested Provisioning rs None [] db = Inr (Some (w1, db1))"
    and db3: "workspaces db3 = workspaces (put_workspace db1 (apply_execution_claim wk lease w1))"
      "reservations db3 = reservations (put_workspace db1 (apply_execution_claim wk lease w1))"
  shows "claims_row wk wid db db3"
proof -
  obtain w0 where w0: "workspaces db wid = Some w0" "status w0 = Requested" "ws_id w1 = wid" "status w1 = Provisioning"
    "resolved_profile w1 = resolved_profile w0" "workspaces db1 = (workspaces db)(wid \<mapsto> w1)" "reservations db1 = reservations db"
    using claim_transition [OF k tr] .
  show ?thesis
    unfolding claims_row_def
    by (rule exI [of _ w0], rule exI [of _ "apply_execution_claim wk lease w1"]) (use w0 db3 in \<open>simp add: put_workspace_def\<close>)
qed

section \<open>Invariants of the claim loop\<close>

text \<open>
  What holds at the start, survives a recorded decision and survives a claim that fits the limits holds when
  the loop ends.
\<close>

lemma claim_loop_invariant:
  assumes "claim_candidates_loop env pg cfg wk ids when lease db0 slots ws t claimed db = Inr (claimed', t', db')"
    and "db_keys_ok db" and "P t claimed db"
    and logged: "\<And>t c db w dc rs d bs a l. P t c db \<Longrightarrow> P t c (record_capacity_queue_decision env w dc rs when t d bs a l db)"
    and claim: "\<And>w d t c db db'. w \<in> set ws \<Longrightarrow> P t c db \<Longrightarrow> int (length c) < slots
      \<Longrightarrow> d = reservation_demand_for_workspace cfg w (latest_active (ws_id w) db0)
      \<Longrightarrow> within_capacity cfg (add_demand t d) \<Longrightarrow> claims_row wk (ws_id w) db db'
      \<Longrightarrow> P (add_demand t d) (c @ [ws_id w]) db'"
  shows "P t' claimed' db'"
  using assms(1-3) claim
proof (induction ws arbitrary: t claimed db)
  case (Cons w ws)
  let ?d = "reservation_demand_for_workspace cfg w (latest_active (ws_id w) db0)"
  note next_ws = Cons.prems(4) [OF list.set_intros(2)]
  show ?case
  proof (cases "slots \<le> int (length claimed)")
    case True
    then show ?thesis using Cons.prems by auto
  next
    case False
    obtain bs where bs: "local_capacity_blockers cfg t ?d = Inr bs"
      "bs = [] \<longleftrightarrow> within_capacity cfg (alone ?d) \<and> within_capacity cfg (add_demand t ?d)"
      by (rule blockers_total [of cfg t ?d])
    let ?tr = "transition_if_current pg (ids (length claimed)) when (ws_id w) Requested Provisioning
          ''WORKER_CLAIMED'' None [] db"
    consider (blocked) b bs' where "bs = b # bs'" | (moved) "bs = []" "\<not> (\<exists>w1 db1. ?tr = Inr (Some (w1, db1)))"
      | (claimed) w1 db1 where "bs = []" "?tr = Inr (Some (w1, db1))"
      by (cases bs) blast+
    then show ?thesis
    proof cases
      case blocked
      with Cons.prems(1) False bs(1) obtain rs where
        "claim_candidates_loop env pg cfg wk ids when lease db0 slots ws t claimed
          (record_capacity_queue_decision env w ''deferred'' rs when t ?d bs (attempt_by_workspace db0 (ws_id w))
            (latest_decision (ws_id w) db0) db) = Inr (claimed', t', db')"
        by (simp add: Let_def)
      then show ?thesis
        by (rule Cons.IH) (use Cons.prems(2,3) logged next_ws in simp_all)
    next
      case moved
      with Cons.prems(1) False bs(1)
      have "claim_candidates_loop env pg cfg wk ids when lease db0 slots ws t claimed db = Inr (claimed', t', db')"
        by (auto simp: Let_def split: sum.splits option.splits)
      then show ?thesis
        by (rule Cons.IH) (use Cons.prems(2,3) next_ws in simp_all)
    next
      case claimed
      define db3 where "db3 = (if dm_defaulted ?d
          then record_capacity_queue_decision env (apply_execution_claim wk lease w1) ''ordered''
            ''LOCAL_CAPACITY_RESERVATION_DEFAULTED'' when t ?d [] (attempt_by_workspace db0 (ws_id w))
            (latest_decision (ws_id w) db0) (put_workspace db1 (apply_execution_claim wk lease w1))
          else put_workspace db1 (apply_execution_claim wk lease w1))"
      have row: "claims_row wk (ws_id w) db db3"
        by (rule claim_step [OF Cons.prems(2) claimed(2)]) (simp_all add: db3_def)
      have "claim_candidates_loop env pg cfg wk ids when lease db0 slots ws (add_demand t ?d) (claimed @ [ws_id w]) db3
          = Inr (claimed', t', db')"
        using Cons.prems(1) False bs(1) claimed unfolding db3_def by (simp add: Let_def)
      then show ?thesis
      proof (rule Cons.IH [OF _ claims_row_keys [OF row Cons.prems(2)]])
        show "P (add_demand t ?d) (claimed @ [ws_id w]) db3"
          by (rule Cons.prems(4) [OF _ Cons.prems(3) _ _ _ row]) (use False bs(2) claimed(1) in simp_all)
      qed (rule next_ws)
    qed
  qed
qed simp

section \<open>Claims stay within the limits\<close>

definition owned_claim :: "Worker \<Rightarrow> database \<Rightarrow> string \<Rightarrow> bool" where
  "owned_claim wk db i =
     (\<exists>w. workspaces db i = Some w \<and> status w = Provisioning \<and> execution_claimed_by w = Some (worker_id wk))"

lemma claims_row_owned: "claims_row wk wid db db' \<Longrightarrow> owned_claim wk db' i \<longleftrightarrow> i = wid \<or> owned_claim wk db i"
  unfolding claims_row_def owned_claim_def by auto

lemma claim_bounds:
  assumes "claim_requested_capacity_candidates env pg cfg wk ids when lease cands t slots db = Inr (claimed, t', db')"
    and "db_keys_ok db"
  shows "int (length claimed) \<le> max 0 slots \<and> (if claimed = [] then t' = t else within_capacity cfg t')
    \<and> list_all (owned_claim wk db') claimed"
proof (cases "cands = [] \<or> slots \<le> 0")
  case True
  then show ?thesis using assms(1) by (auto simp: claim_requested_capacity_candidates_def)
next
  case False
  then have "claim_candidates_loop env pg cfg wk ids when lease db slots cands t [] db = Inr (claimed, t', db')"
    using assms(1) by (simp add: claim_requested_capacity_candidates_def)
  then show ?thesis
    by (rule claim_loop_invariant [where P = "\<lambda>t'' c d. int (length c) \<le> max 0 slots
          \<and> (if c = [] then t'' = t else within_capacity cfg t'') \<and> list_all (owned_claim wk d) c"])
      (use assms(2) in \<open>auto simp: list_all_iff claims_row_owned owned_claim_def [of _ "record_capacity_queue_decision _ _ _ _ _ _ _ _ _ _ _"]
          owned_claim_def [symmetric] split: if_splits\<close>)
qed

section \<open>The totals kept while claiming\<close>

lemma add_demand_commute: "add_demand (add_demand t d) e = add_demand (add_demand t e) d"
  by (simp add: add_demand_def algebra_simps)

lemma foldl_add_demand: "foldl add_demand (add_demand t d) ds = add_demand (foldl add_demand t ds) d"
  by (induction ds arbitrary: t) (simp_all add: add_demand_commute [of _ d])

definition table_totals :: "WorkerConfig \<Rightarrow> string \<Rightarrow> string list \<Rightarrow> database \<Rightarrow> AllocatedReservationTotals" where
  "table_totals cfg node ids db = allocated_totals_for_capacity_gate cfg node db (List.map_filter (workspaces db) ids)"

lemma allocated_demand_cong: "reservations db = reservations db' \<Longrightarrow> allocated_demand cfg node db = allocated_demand cfg node db'"
  by (simp add: fun_eq_iff allocated_demand_def latest_active_def)

lemma map_filter_upd_other: "i \<notin> set ids \<Longrightarrow> List.map_filter (m(i \<mapsto> w)) ids = List.map_filter m ids"
  by (induction ids) (auto simp: List.map_filter_simps split: option.splits)

lemma map_filter_append: "List.map_filter f (xs @ ys) = List.map_filter f xs @ List.map_filter f ys"
  by (simp add: List.map_filter_def)

lemma table_totals_claim:
  assumes row: "claims_row wk wid db db'" and ids: "distinct ids" "wid \<in> set ids" and node: "config_node_id wk = Some node"
    and w: "workspaces db wid = Some w0" "resolved_profile w0 = resolved_profile w" "ws_id w = wid"
  shows "table_totals cfg node ids db' =
    add_demand (table_totals cfg node ids db) (reservation_demand_for_workspace cfg w (latest_active wid db))"
proof -
  obtain w2 where c: "status w0 = Requested" "workspaces db' = (workspaces db)(wid \<mapsto> w2)" "reservations db' = reservations db"
    "ws_id w2 = wid" "status w2 = Provisioning" "resolved_profile w2 = resolved_profile w0" "node_id w2 = Some node"
    using row w(1) node unfolding claims_row_def by auto
  have free: "allocated_demand cfg node db w0 = None"
    using c(1) by (simp add: allocated_demand_def ALLOCATED_RESOURCE_RESERVATION_STATUSES_def)
  have taken: "allocated_demand cfg node db w2 = Some (reservation_demand_for_workspace cfg w (latest_active wid db))"
    using c w by (simp add: allocated_demand_def ALLOCATED_RESOURCE_RESERVATION_STATUSES_def in_allocation_scope_def
        reservation_demand_for_workspace_def split: option.splits)
  obtain xs ys where split: "ids = xs @ wid # ys" "wid \<notin> set xs" "wid \<notin> set ys"
    using ids by (metis distinct.simps(2) distinct_append not_distinct_conv_prefix split_list_first)
  show ?thesis
    unfolding table_totals_def allocated_totals_for_capacity_gate_def allocated_demand_cong [OF c(3)] split(1) c(2)
    using split(2,3) by (simp add: map_filter_append map_filter_upd_other List.map_filter_simps w(1) free taken foldl_add_demand)
qed

lemma claim_totals:
  assumes "claim_requested_capacity_candidates env pg cfg wk new_ids when lease cands t slots db = Inr (claimed, t', db')"
    and "db_keys_ok db" "distinct ids" "set ids = dom (workspaces db)" "config_node_id wk = Some node"
    and rows: "\<And>w. w \<in> set cands \<Longrightarrow> workspaces db (ws_id w) = Some w" and t: "t = table_totals cfg node ids db"
  shows "t' = table_totals cfg node ids db'"
proof (cases "cands = [] \<or> slots \<le> 0")
  case True
  then show ?thesis using assms(1) t by (auto simp: claim_requested_capacity_candidates_def)
next
  case False
  let ?same = "\<lambda>d. dom (workspaces d) = dom (workspaces db) \<and> reservations d = reservations db
      \<and> (\<forall>w \<in> set cands. map_option resolved_profile (workspaces d (ws_id w)) = Some (resolved_profile w))"
  from False have "claim_candidates_loop env pg cfg wk new_ids when lease db slots cands t [] db = Inr (claimed, t', db')"
    using assms(1) by (simp add: claim_requested_capacity_candidates_def)
  then have "t' = table_totals cfg node ids db' \<and> ?same db'"
  proof (rule claim_loop_invariant [where P = "\<lambda>t c d. t = table_totals cfg node ids d \<and> ?same d"])
    fix w d t c da da'
    assume w: "w \<in> set cands" and P: "t = table_totals cfg node ids da \<and> ?same da" and row: "claims_row wk (ws_id w) da da'"
      and d: "d = reservation_demand_for_workspace cfg w (latest_active (ws_id w) db)"
    obtain w0 where w0: "workspaces da (ws_id w) = Some w0" "resolved_profile w0 = resolved_profile w"
      using P w by auto
    have la: "latest_active (ws_id w) da = latest_active (ws_id w) db"
      using P by (simp add: latest_active_def)
    have "ws_id w \<in> set ids"
      using P assms(4) w0(1) by blast
    then have "table_totals cfg node ids da' = add_demand t d"
      using table_totals_claim [OF row assms(3) _ assms(5) w0 refl, of cfg] P unfolding d la by simp
    moreover have "?same da'"
      using P unfolding claims_row_same [OF row] by blast
    ultimately show "add_demand t d = table_totals cfg node ids da' \<and> ?same da'"
      by simp
  qed (use assms(2) rows t in \<open>auto simp: table_totals_def allocated_totals_for_capacity_gate_def intro!: arg_cong [where f = "foldl add_demand empty_totals"]
        arg_cong2 [where f = List.map_filter] allocated_demand_cong\<close>)
  then show ?thesis ..
qed

section \<open>Two requested workspaces on a node with room for one\<close>

definition small_config :: WorkerConfig where
  "small_config = \<lparr>cfg_max_concurrent_provisions = 2, cfg_max_concurrent_executions = 2, cfg_local_capacity_cpu_cores = Some 2,
     cfg_local_capacity_memory_gb = None, cfg_local_capacity_dind_slots = None, cfg_workspace_steady_cpu = 1,
     cfg_workspace_steady_memory_gb = 1, cfg_workspace_peak_cpu = 2, cfg_workspace_peak_memory_gb = 2\<rparr>"

definition small_worker :: Worker where
  "small_worker = \<lparr>worker_id = ''wk'', config_node_id = Some ''local'', execution_claim_epochs = Map.empty\<rparr>"

abbreviation small_claim :: "capacity_error + (string list \<times> AllocatedReservationTotals \<times> database)" where
  "small_claim \<equiv> claim_requested_capacity_candidates plain_sched_env True small_config small_worker (\<lambda>_. ''e'') 5 99
     two_rows empty_totals 2 two_db"

lemma two_db_keys: "db_keys_ok two_db"
  by (simp add: db_keys_ok_def two_db_def two_rows_def sample_workspace_def)

lemma small_claim_ids: "map_sum id fst small_claim = Inr [''w1'']"
  by code_simp

lemma small_claim_result: obtains t' db' where "small_claim = Inr ([''w1''], t', db')"
proof (cases small_claim)
  case (Inr r)
  then show ?thesis using small_claim_ids that [of "fst (snd r)" "snd (snd r)"] by (cases r) simp
qed (use small_claim_ids in simp)

text \<open>
  Property C6: the claim loop takes at most the given number of slots, leaves the totals unchanged when it claims nothing,
  and otherwise ends with totals within every configured limit; every claimed row is provisioning and owned by
  the claiming worker.
\<close>

theorem claims_respect_capacity:
  assumes "claim_requested_capacity_candidates env pg cfg wk new_ids when lease cands t slots db = Inr (claimed, t', db')"
    and "db_keys_ok db"
  shows "int (length claimed) \<le> max 0 slots \<and> (if claimed = [] then t' = t else within_capacity cfg t')
    \<and> list_all (owned_claim wk db') claimed"
  using assms by (rule claim_bounds)

theorem claims_respect_capacity_witness:
  "\<exists>t' db'. small_claim = Inr ([''w1''], t', db') \<and> within_capacity small_config t' \<and> owned_claim small_worker db' ''w1''"
proof -
  obtain t' db' where r: "small_claim = Inr ([''w1''], t', db')"
    by (rule small_claim_result)
  show ?thesis
    using claims_respect_capacity [OF r two_db_keys] r by auto
qed

text \<open>
  On a worker with a configured node, the totals the claim loop carries from claim to claim are the totals the
  capacity query would compute from the database it leaves: nothing is counted twice or missed.
\<close>

theorem claim_totals_match_query:
  assumes "claim_requested_capacity_candidates env pg cfg wk new_ids when lease cands t slots db = Inr (claimed, t', db')"
    and "db_keys_ok db" and "distinct ids" and "set ids = dom (workspaces db)" and "config_node_id wk = Some node"
    and "\<And>w. w \<in> set cands \<Longrightarrow> workspaces db (ws_id w) = Some w"
    and "t = allocated_totals_for_capacity_gate cfg node db (List.map_filter (workspaces db) ids)"
  shows "t' = allocated_totals_for_capacity_gate cfg node db' (List.map_filter (workspaces db') ids)"
  using claim_totals [OF assms(1-6)] assms(7) unfolding table_totals_def by blast

theorem claim_totals_match_query_witness:
  "\<exists>t' db'. small_claim = Inr ([''w1''], t', db')
     \<and> t' = allocated_totals_for_capacity_gate small_config ''local'' db' (List.map_filter (workspaces db') [''w1'', ''w2''])"
proof -
  obtain t' db' where r: "small_claim = Inr ([''w1''], t', db')"
    by (rule small_claim_result)
  have "t' = allocated_totals_for_capacity_gate small_config ''local'' db' (List.map_filter (workspaces db') [''w1'', ''w2''])"
  proof (rule claim_totals_match_query [OF r two_db_keys])
    show "empty_totals = allocated_totals_for_capacity_gate small_config ''local'' two_db
        (List.map_filter (workspaces two_db) [''w1'', ''w2''])"
      by code_simp
    show "set [''w1'', ''w2''] = dom (workspaces two_db)"
      by (auto simp: two_db_def two_rows_def sample_workspace_def split: if_splits)
    show "\<And>w. w \<in> set two_rows \<Longrightarrow> workspaces two_db (ws_id w) = Some w"
      by (auto simp: two_db_def two_rows_def sample_workspace_def)
  qed (simp_all add: small_worker_def)
  with r show ?thesis by blast
qed

end
