(* ===== verification/Scheduler_Bounds.thy ===== *)
theory Scheduler_Bounds
  imports Capacity "HOL-Library.Word"
begin

text \<open>
  Numeric facts of the scheduler: the range of a score, when a page cursor may be kept although the clock has moved on,
  which calls of the listing raise, and the advisory lock key as a signed 64-bit number.
\<close>

section \<open>Scores\<close>

lemma class_bias_range: "0 \<le> task_class_bias c \<and> task_class_bias c \<le> 15"
  by (simp add: task_class_bias_def TASK_CLASS_BIASES_def)

lemma age_boost_mono: "s \<le> t \<Longrightarrow> age_boost_of q s \<le> age_boost_of q t"
  unfolding age_boost_eq by (intro min.mono zdiv_mono1 max.mono) simp_all

text \<open>
  The effective score of any workspace, whatever its task policy holds, lies between 0 and 135, and waiting
  longer never lowers it.
\<close>

theorem effective_score_bounds:
  "0 \<le> effective_score (scheduler_score_from_workspace env w now)
   \<and> effective_score (scheduler_score_from_workspace env w now) \<le> 135
   \<and> effective_score (scheduler_score_from_workspace env w now)
       \<le> effective_score (scheduler_score_from_workspace env w (max now later))"
proof -
  let ?i = "scheduler_score_input_from_workspace env w"
  have eff: "effective_score (scheduler_score_from_workspace env w t) =
      bounded_int (in_base_priority ?i) 0 100 + task_class_bias (in_task_class ?i) + age_boost_of (in_queued_at ?i) t
      + (if in_parent_failure_reason ?i = Some ''infrastructure_failure'' then 3 else 0) + bounded_int (in_human_boost ?i) 0 5" for t
    by (simp add: scheduler_score_from_workspace_def compute_scheduler_score_def Let_def
        RETRY_BONUS_INFRASTRUCTURE_FAILURE_def HUMAN_BOOST_MAX_def)
  show ?thesis
    unfolding eff
    using bounded_int_range [of 0 100 "in_base_priority ?i"] bounded_int_range [of 0 5 "in_human_boost ?i"]
      class_bias_range [of "in_task_class ?i"] age_boost_range [of "in_queued_at ?i" now]
      age_boost_mono [of now "max now later" "in_queued_at ?i"] by simp
qed

section \<open>Keeping a page cursor\<close>

lemma queue_key_eq_iff:
  "queue_key env s w = queue_key env t w \<longleftrightarrow> age_boost_of (created_at w) s = age_boost_of (created_at w) t"
  by (simp add: queue_key_def scheduler_order_key_def scheduler_score_from_workspace_def compute_scheduler_score_def
      scheduler_score_input_from_workspace_def Let_def)

lemma age_boost_changed_iff:
  assumes "s \<le> t"
  shows "age_boost_of q s \<noteq> age_boost_of q t \<longleftrightarrow>
    (\<exists>b \<in> set [1..12]. s - b * 900000000 < q \<and> q \<le> t - b * 900000000)"
proof
  assume ne: "age_boost_of q s \<noteq> age_boost_of q t"
  let ?b = "age_boost_of q t"
  have b: "1 \<le> ?b" "?b \<le> 12" "\<not> ?b \<le> age_boost_of q s"
    using ne age_boost_mono [OF assms, of q] age_boost_range [of q s] age_boost_range [of q t] by auto
  then have "s - ?b * 900000000 < q \<and> q \<le> t - ?b * 900000000"
    using age_boost_threshold [of ?b q s] age_boost_threshold [of ?b q t] by auto
  with b(1,2) show "\<exists>b \<in> set [1..12]. s - b * 900000000 < q \<and> q \<le> t - b * 900000000"
    by (intro bexI [of _ ?b]) auto
next
  assume "\<exists>b \<in> set [1..12]. s - b * 900000000 < q \<and> q \<le> t - b * 900000000"
  then obtain b where "1 \<le> b" "b \<le> 12" "s - b * 900000000 < q" "q \<le> t - b * 900000000"
    by auto
  then show "age_boost_of q s \<noteq> age_boost_of q t"
    using age_boost_threshold [of b q s] age_boost_threshold [of b q t] by auto
qed

text \<open>
  The test that decides whether the claim loop restarts its pages answers yes exactly when, between the two clock
  readings, the place in the queue of some requested workspace of the node changed: a cursor is kept only
  while it still means the same.
\<close>

theorem cursor_restart_exact:
  "requested_capacity_age_boost_changed node since now rows \<longleftrightarrow>
     since < now \<and> list_ex (\<lambda>w. status w = Requested \<and> (node_id w = Some node \<or> node_id w = None)
       \<and> queue_key env since w \<noteq> queue_key env now w) rows"
proof (cases "since < now")
  case True
  then have *: "queue_key env since w \<noteq> queue_key env now w \<longleftrightarrow>
      list_ex (\<lambda>b. since - b * AGE_BOOST_INTERVAL_SECONDS * 1000000 < created_at w
        \<and> created_at w \<le> now - b * AGE_BOOST_INTERVAL_SECONDS * 1000000) [1..AGE_BOOST_MAX]" for w
    unfolding queue_key_eq_iff list_ex_iff AGE_BOOST_MAX_def AGE_BOOST_INTERVAL_SECONDS_def
    using age_boost_changed_iff [of since now "created_at w"] by (simp add: mult.commute)
  show ?thesis
    unfolding requested_capacity_age_boost_changed_def * using True by simp
qed (simp add: requested_capacity_age_boost_changed_def)

section \<open>Listing errors\<close>

text \<open>
  Listing a page raises exactly when a positive number of rows is asked for after a cursor at a scoring time other
  than the cursor's, and an empty page is asked for without looking at the cursor.
\<close>

theorem listing_raises_exactly:
  "((\<exists>e. list_schedulable_workspaces env d locked now fresh q limit after scoring db rows = Inl e)
     \<longleftrightarrow> 0 < limit \<and> (\<exists>c s. after = Some c \<and> scoring = Some s \<and> s \<noteq> cur_scoring_at c))
   \<and> list_schedulable_workspaces env d locked now fresh q 0 after scoring db rows = Inr []"
  by (auto simp: list_schedulable_workspaces_def scheduler_scoring_time_def split: option.splits if_splits)

section \<open>The advisory lock key\<close>

lemma foldl_bytes_be: "foldl (\<lambda>a b. 256 * a + int b) x bs = x * 256 ^ length bs + bytes_be bs"
proof (induction bs arbitrary: x)
  case (Cons b bs)
  show ?case
    using Cons.IH [of "256 * x + int b"] Cons.IH [of "int b"] by (simp add: bytes_be_def algebra_simps)
qed (simp add: bytes_be_def)

lemma bytes_be_range: "list_all (\<lambda>b. b < 256) bs \<Longrightarrow> 0 \<le> bytes_be bs \<and> bytes_be bs < 256 ^ length bs"
proof (induction bs)
  case (Cons b bs)
  have "bytes_be (b # bs) = int b * 256 ^ length bs + bytes_be bs"
    using foldl_bytes_be [of "int b" bs] by (simp add: bytes_be_def)
  moreover have "int b * 256 ^ length bs \<le> 255 * 256 ^ length bs"
    using Cons.prems by (intro mult_right_mono) auto
  moreover have "0 \<le> int b * 256 ^ length bs" "0 \<le> bytes_be bs" "bytes_be bs < 256 ^ length bs"
    using Cons by auto
  moreover have "(256 :: int) ^ length (b # bs) = 255 * 256 ^ length bs + 256 ^ length bs"
    by simp
  ultimately show ?case
    by (intro conjI) linarith+
qed (simp add: bytes_be_def)

lemma sint_of_unsigned:
  assumes "0 \<le> (x :: int)" and "x < 2 ^ 64"
  shows "sint (word_of_int x :: 64 word) = (if x < 2 ^ 63 then x else x - 2 ^ 64)"
proof -
  have s: "sint (word_of_int x :: 64 word) = (x + 2 ^ 63) mod 2 ^ 64 - 2 ^ 63"
    by (simp add: int_word_sint)
  show ?thesis
  proof (cases "x < 2 ^ 63")
    case True
    then have "(x + 2 ^ 63) mod 2 ^ 64 = x + 2 ^ 63"
      using assms by (intro mod_pos_pos_trivial) simp_all
    with True s show ?thesis by simp
  next
    case False
    have "(x + 2 ^ 63) mod 2 ^ 64 = (x - 2 ^ 63 + 2 ^ 64) mod 2 ^ 64"
      by (simp add: algebra_simps)
    also have "\<dots> = x - 2 ^ 63"
      unfolding mod_add_self2 using False assms by (intro mod_pos_pos_trivial) simp_all
    finally show ?thesis using False s by simp
  qed
qed

text \<open>
  Property C39: the advisory lock key of a lock name is a signed 64-bit number whatever the digest, namely its first eight bytes
  read as a two's complement word.
\<close>

theorem advisory_key_is_signed_word:
  assumes "list_all (\<lambda>b. b < 256) (digest name)"
  shows "postgres_advisory_lock_key digest name = sint (word_of_int (bytes_be (take 8 (digest name))) :: 64 word)
    \<and> - (2 ^ 63) \<le> postgres_advisory_lock_key digest name \<and> postgres_advisory_lock_key digest name < 2 ^ 63"
proof -
  let ?b = "take 8 (digest name)"
  have "list_all (\<lambda>b. b < 256) ?b"
    using assms by (auto simp: list_all_iff dest: in_set_takeD)
  moreover have "(256 :: int) ^ length ?b \<le> 256 ^ 8"
    by (intro power_increasing) simp_all
  ultimately have b: "0 \<le> bytes_be ?b" "bytes_be ?b < 2 ^ 64"
    using bytes_be_range [of ?b] by auto
  show ?thesis
    unfolding sint_of_unsigned [OF b] using b by (simp add: postgres_advisory_lock_key_def Let_def)
qed

theorem advisory_key_is_signed_word_witness:
  "postgres_advisory_lock_key (\<lambda>_. replicate 32 255) ''awf'' = - 1
   \<and> postgres_advisory_lock_key (\<lambda>_. replicate 32 255) ''awf'' = sint (word_of_int (2 ^ 64 - 1) :: 64 word)"
proof -
  have "list_all (\<lambda>b. b < 256) (replicate 32 (255 :: nat))"
    by (simp add: list_all_iff)
  moreover have "bytes_be (take 8 (replicate 32 255)) = 2 ^ 64 - 1"
    by code_simp
  ultimately show ?thesis
    using advisory_key_is_signed_word [of "\<lambda>_. replicate 32 255" "''awf''"]
    by (simp add: postgres_advisory_lock_key_def)
qed

end
