(* ===== verification/Provider_Failures.thy ===== *)
theory Provider_Failures
  imports Scheduler_Dispatch CI_Classification
begin

text \<open>
  Classification of provider failures (\<open>adapters/provider_failures.py\<close>): reason code, kind of failure, provider, model,
  cool-down and the fingerprint of one failure.  The redaction of secrets is a parameter.  The regular expression
  for \<open>retry after\<close> is written as a scanner: its alternatives differ in their first character, so no
  match depends on backtracking.
\<close>

section \<open>Markers\<close>

definition AUTH_FAILURE_MARKERS :: "string list" where
  "AUTH_FAILURE_MARKERS =
     [''not logged in'', ''please run /login'', ''please set an auth method'', ''manual authorization is required'',
      ''could not authenticate'', ''error authenticating'', ''invalid_grant'', ''anthropic_api_key'', ''cursor_api_key'',
      ''cursor api key'', ''cursor auth'', ''cursor authentication'',
      ''authentication required. run '' @ [CHR 0x27] @ ''agy'' @ [CHR 0x27] @ '' to log in'',
      ''authentication required. please visit the url to log in'', ''gemini_api_key environment variable is not set'',
      ''gemini_api_key'', ''google_api_key'', ''ollama api key'', ''ollama cloud authentication'', ''opencode auth'',
      ''xai_api_key'', ''xai api key'', ''grok auth'', ''unauthorized'']"

definition QUOTA_FAILURE_MARKERS :: "string list" where
  "QUOTA_FAILURE_MARKERS =
     [''resource_exhausted'', ''retryablequotaerror'', ''http 429'', ''429 too many requests'', '' 429 '', ''rate limit'',
      ''rate_limit'', ''quota exceeded'', ''quota exhausted'']"

definition CAPACITY_FAILURE_MARKERS :: "string list" where
  "CAPACITY_FAILURE_MARKERS =
     [''model_capacity_exhausted'', ''capacity exhausted'', ''model capacity'', ''server overloaded'', ''temporarily overloaded'']"

definition USAGE_LIMIT_MARKERS :: "string list" where
  "USAGE_LIMIT_MARKERS =
     [''usage limit'', ''hit your usage limit'', ''you'' @ [CHR 0x27] @ ''ve hit your usage limit'', ''switch to another model'']"

section \<open>Kinds of failure\<close>

datatype ProviderFailureType =
  Auth | Quota | Capacity_exhausted | Usage_limit | Timeout | Idle_timeout | Runtime_unhealthy | Unsupported_runtime

fun failure_type_value :: "ProviderFailureType \<Rightarrow> string" where
  "failure_type_value Auth = ''auth''"
| "failure_type_value Quota = ''quota''"
| "failure_type_value Capacity_exhausted = ''capacity''"
| "failure_type_value Usage_limit = ''usage_limit''"
| "failure_type_value Timeout = ''timeout''"
| "failure_type_value Idle_timeout = ''idle_timeout''"
| "failure_type_value Runtime_unhealthy = ''runtime_unhealthy''"
| "failure_type_value Unsupported_runtime = ''unsupported_runtime''"

definition AGENT_AUTH_FAILED :: string where
  "AGENT_AUTH_FAILED = ''AGENT_AUTH_FAILED''"

definition AGENT_PROVIDER_CAPACITY_EXHAUSTED :: string where
  "AGENT_PROVIDER_CAPACITY_EXHAUSTED = ''AGENT_PROVIDER_CAPACITY_EXHAUSTED''"

definition AGENT_TIMEOUT :: string where
  "AGENT_TIMEOUT = ''AGENT_TIMEOUT''"

definition AGENT_IDLE_TIMEOUT :: string where
  "AGENT_IDLE_TIMEOUT = ''AGENT_IDLE_TIMEOUT''"

definition AGENT_SERVICE_UNHEALTHY :: string where
  "AGENT_SERVICE_UNHEALTHY = ''AGENT_SERVICE_UNHEALTHY''"

definition UNSUPPORTED_AGENT_RUNTIME :: string where
  "UNSUPPORTED_AGENT_RUNTIME = ''UNSUPPORTED_AGENT_RUNTIME''"

lemmas agent_reason_defs = AGENT_AUTH_FAILED_def AGENT_PROVIDER_CAPACITY_EXHAUSTED_def AGENT_TIMEOUT_def
  AGENT_IDLE_TIMEOUT_def AGENT_SERVICE_UNHEALTHY_def UNSUPPORTED_AGENT_RUNTIME_def

definition capacity_failure_type :: "string \<Rightarrow> ProviderFailureType" where
  "capacity_failure_type out =
     (if list_ex (contains out) USAGE_LIMIT_MARKERS then Usage_limit
      else if list_ex (contains out) CAPACITY_FAILURE_MARKERS then Capacity_exhausted
      else Quota)"

definition reason_code_for_type :: "ProviderFailureType \<Rightarrow> string" where
  "reason_code_for_type t =
     (if t = Auth then AGENT_AUTH_FAILED
      else if t = Timeout then AGENT_TIMEOUT
      else if t = Idle_timeout then AGENT_IDLE_TIMEOUT
      else if t = Unsupported_runtime then UNSUPPORTED_AGENT_RUNTIME
      else AGENT_PROVIDER_CAPACITY_EXHAUSTED)"

definition default_cooldown_seconds :: "ProviderFailureType \<Rightarrow> int" where
  "default_cooldown_seconds t =
     (if t = Auth then 900 else if t = Timeout \<or> t = Idle_timeout then 120 else if t = Unsupported_runtime then 0 else 300)"

definition recommended_action_text :: "ProviderFailureType \<Rightarrow> string" where
  "recommended_action_text t =
     (if t = Auth then ''Refresh provider credentials or dispatch an approved fallback provider.''
      else if t = Unsupported_runtime then ''Dispatch an approved fallback agent runtime.''
      else ''Retry after provider cooldown or dispatch an approved fallback model.'')"

definition normalize_optional :: "string option \<Rightarrow> string option" where
  "normalize_optional v =
     (case v of None \<Rightarrow> None | Some s \<Rightarrow> if py_strip s = [] then None else Some (py_strip s))"

section \<open>Retry-after\<close>

definition word_end :: "string \<Rightarrow> bool" where
  "word_end s = (case s of [] \<Rightarrow> True | c # _ \<Rightarrow> \<not> is_word_char c)"

definition strip_prefix :: "string \<Rightarrow> string \<Rightarrow> string option" where
  "strip_prefix p s = (if startswith (py_lower s) p then Some (drop (length p) s) else None)"

text \<open>A match of the pattern at the start of \<open>s\<close>, which follows a word boundary: the digits.\<close>

definition retry_after_at :: "string \<Rightarrow> string option" where
  "retry_after_at s =
     (case strip_prefix ''retry'' s of
        None \<Rightarrow> None
      | Some s1 \<Rightarrow>
          (case strip_prefix ''after'' (case s1 of c # r \<Rightarrow> if c = CHR ''-'' then r else py_lstrip s1 | [] \<Rightarrow> []) of
             None \<Rightarrow> None
           | Some s2 \<Rightarrow>
               if \<not> word_end s2 then None
               else
                 (let s3 = py_lstrip s2;
                      s4 = (case s3 of
                              [] \<Rightarrow> []
                            | c # r \<Rightarrow>
                                if c = CHR '':'' \<or> c = CHR ''='' then r
                                else (case strip_prefix ''in'' s3 of
                                        Some r' \<Rightarrow> if word_end r' then r' else s3
                                      | None \<Rightarrow> s3));
                      ds = take 6 (takeWhile is_digit (py_lstrip s4)) in
                  if ds = [] then None else Some ds)))"

fun retry_after_search :: "bool \<Rightarrow> string \<Rightarrow> string option" where
  "retry_after_search after_word [] = None"
| "retry_after_search after_word (c # s) =
     (case (if after_word then None else retry_after_at (c # s)) of
        Some ds \<Rightarrow> Some ds
      | None \<Rightarrow> retry_after_search (is_word_char c) s)"

definition retry_after_seconds :: "string \<Rightarrow> int option" where
  "retry_after_seconds out = Option.bind (retry_after_search False out) py_int"

section \<open>Fingerprints\<close>

text \<open>\<open>re.sub(r"\s+", " ", s)\<close>.\<close>

fun collapse_space :: "string \<Rightarrow> string" where
  "collapse_space [] = []"
| "collapse_space [c] = [if is_space c then CHR '' '' else c]"
| "collapse_space (c # d # s) =
     (if is_space c then (if is_space d then collapse_space (d # s) else CHR '' '' # collapse_space (d # s))
      else c # collapse_space (d # s))"

definition py_rstrip :: "string \<Rightarrow> string" where
  "py_rstrip s = rev (dropWhile is_space (rev s))"

definition or_text :: "string option \<Rightarrow> string \<Rightarrow> string" where
  "or_text v d = (case v of None \<Rightarrow> d | Some s \<Rightarrow> if s = [] then d else s)"

definition failure_fingerprint ::
    "(string \<Rightarrow> string) \<Rightarrow> string \<Rightarrow> string \<Rightarrow> string option \<Rightarrow> string option \<Rightarrow> string \<Rightarrow> nat \<Rightarrow> string" where
  "failure_fingerprint redact reason ty provider model out limit =
     (let compact = py_lower (py_strip (collapse_space (redact out)));
          compact1 = (if limit < length compact then py_rstrip (take limit compact) else compact) in
      py_join ''|'' [reason, ty, or_text provider ''unknown-provider'', or_text model ''unknown-model'', compact1])"

section \<open>Classification\<close>

record ProviderFailureClassification =
  cl_reason_code :: string
  cl_failure_type :: ProviderFailureType
  cl_provider :: "string option"
  cl_model :: "string option"
  cl_retryable :: bool
  cl_retry_after_seconds :: "int option"
  cl_cooldown_seconds :: "int option"
  cl_failure_fingerprint :: string
  cl_recommended_action :: string
  cl_fallback_allowed :: bool
  cl_failure_scope :: string

definition failure_type_from :: "string option \<Rightarrow> string \<Rightarrow> ProviderFailureType option" where
  "failure_type_from reason normalized =
     (if reason = Some AGENT_AUTH_FAILED then Some Auth
      else if reason = Some AGENT_PROVIDER_CAPACITY_EXHAUSTED then Some (capacity_failure_type normalized)
      else if reason = Some AGENT_TIMEOUT then Some Timeout
      else if reason = Some AGENT_IDLE_TIMEOUT then Some Idle_timeout
      else if reason = Some UNSUPPORTED_AGENT_RUNTIME then Some Unsupported_runtime
      else if list_ex (contains normalized) AUTH_FAILURE_MARKERS then Some Auth
      else if list_ex (contains normalized) USAGE_LIMIT_MARKERS then Some Usage_limit
      else if list_ex (contains normalized) CAPACITY_FAILURE_MARKERS then Some Capacity_exhausted
      else if list_ex (contains normalized) QUOTA_FAILURE_MARKERS then Some Quota
      else None)"

definition classify_provider_failure ::
    "(string \<Rightarrow> string) \<Rightarrow> string option \<Rightarrow> string option \<Rightarrow> string option \<Rightarrow> string option \<Rightarrow> string option \<Rightarrow> bool option
     \<Rightarrow> ProviderFailureClassification option" where
  "classify_provider_failure redact reason_code stdout stderr provider model service_healthy =
     (let out = or_text stderr [] @ CHR 0x0A # or_text stdout [];
          inferred = (case normalize_optional provider of Some p \<Rightarrow> Some p | None \<Rightarrow> infer_provider model (Some out));
          normalized_model = normalize_optional model in
      case failure_type_from (normalize_optional reason_code) (py_lower out) of
        None \<Rightarrow> None
      | Some t \<Rightarrow>
          if service_healthy = Some False \<and> (t = Timeout \<or> t = Idle_timeout)
          then Some \<lparr>cl_reason_code = AGENT_SERVICE_UNHEALTHY, cl_failure_type = Runtime_unhealthy, cl_provider = inferred,
                     cl_model = normalized_model, cl_retryable = True, cl_retry_after_seconds = None,
                     cl_cooldown_seconds = None, cl_failure_fingerprint = [],
                     cl_recommended_action = ''Restart the workspace agent runtime service before retrying this workspace.'',
                     cl_fallback_allowed = False, cl_failure_scope = ''infra''\<rparr>
          else if (t = Timeout \<or> t = Idle_timeout) \<and> inferred = None \<and> normalized_model = None then None
          else
            (let final_reason = reason_code_for_type t;
                 retry_after = retry_after_seconds out;
                 cooldown = (case retry_after of
                               Some n \<Rightarrow> if n = 0 then default_cooldown_seconds t else n
                             | None \<Rightarrow> default_cooldown_seconds t) in
             Some \<lparr>cl_reason_code = final_reason, cl_failure_type = t, cl_provider = inferred, cl_model = normalized_model,
                   cl_retryable = True, cl_retry_after_seconds = retry_after, cl_cooldown_seconds = Some cooldown,
                   cl_failure_fingerprint =
                     failure_fingerprint redact final_reason (failure_type_value t) inferred normalized_model out 360,
                   cl_recommended_action = recommended_action_text t, cl_fallback_allowed = True,
                   cl_failure_scope = ''provider''\<rparr>))"

definition opt_int :: "int option \<Rightarrow> json" where
  "opt_int v = (case v of None \<Rightarrow> JNull | Some n \<Rightarrow> JInt n)"

definition without_nulls :: "(string \<times> json) list \<Rightarrow> (string \<times> json) list" where
  "without_nulls kvs = filter (\<lambda>(k, v). v \<noteq> JNull) kvs"

definition to_metadata :: "ProviderFailureClassification \<Rightarrow> (string \<times> json) list" where
  "to_metadata c =
     without_nulls
       [(''reason_code'', JStr (cl_reason_code c)), (''failure_type'', JStr (failure_type_value (cl_failure_type c))),
        (''failure_scope'', JStr (cl_failure_scope c)), (''provider'', opt_str (cl_provider c)), (''model'', opt_str (cl_model c)),
        (''retryable'', JBool (cl_retryable c)), (''retry_after_seconds'', opt_int (cl_retry_after_seconds c)),
        (''cooldown_seconds'', opt_int (cl_cooldown_seconds c)),
        (''failure_fingerprint'', JStr (cl_failure_fingerprint c)),
        (''recommended_action'', JStr (cl_recommended_action c)), (''fallback_allowed'', JBool (cl_fallback_allowed c))]"

end
