(* ===== verification/Provider_Recovery.thy ===== *)
theory Provider_Recovery
  imports Provider_Failures
begin

text \<open>
  Recovery from provider failures (\<open>service/provider_recovery.py\<close>): reading the recovery policy and the recovery
  state out of the task policy, deciding between a delayed retry, a fallback model and giving up, and writing the
  new recovery state back.  A JSON object is a list of bindings; \<open>dict_set\<close> is item assignment.
\<close>

section \<open>Dictionaries\<close>

definition dict_set :: "string \<Rightarrow> json \<Rightarrow> (string \<times> json) list \<Rightarrow> (string \<times> json) list" where
  "dict_set k v kvs =
     (if k \<in> fst ` set kvs then map (\<lambda>(k', v'). (k', if k' = k then v else v')) kvs else kvs @ [(k, v)])"

definition dict_pop :: "string \<Rightarrow> (string \<times> json) list \<Rightarrow> (string \<times> json) list" where
  "dict_pop k kvs = filter (\<lambda>(k', v). k' \<noteq> k) kvs"

definition dict_get :: "string \<Rightarrow> (string \<times> json) list \<Rightarrow> json option" where
  "dict_get k kvs = json_get k (JObj kvs)"

definition json_truthy :: "json option \<Rightarrow> bool" where
  "json_truthy j =
     (case j of None \<Rightarrow> False | Some JNull \<Rightarrow> False | Some (JBool b) \<Rightarrow> b | Some (JInt n) \<Rightarrow> n \<noteq> 0
      | Some (JFloat x) \<Rightarrow> x \<noteq> 0 | Some (JStr s) \<Rightarrow> s \<noteq> [] | Some (JArr xs) \<Rightarrow> xs \<noteq> [] | Some (JObj kvs) \<Rightarrow> kvs \<noteq> [])"

definition mapping_str :: "(string \<times> json) list \<Rightarrow> string \<Rightarrow> string option" where
  "mapping_str kvs key =
     (case dict_get key kvs of
        Some (JStr s) \<Rightarrow> if py_strip s = [] then None else Some (py_strip s)
      | _ \<Rightarrow> None)"

definition nonnegative_int :: "json option \<Rightarrow> int \<Rightarrow> int" where
  "nonnegative_int v dflt =
     (case v of
        Some (JInt n) \<Rightarrow> max 0 n
      | Some (JFloat x) \<Rightarrow> if of_int \<lfloor>x\<rfloor> = x then max 0 \<lfloor>x\<rfloor> else dflt
      | _ \<Rightarrow> dflt)"

definition positive_int :: "json option \<Rightarrow> int \<Rightarrow> int" where
  "positive_int v dflt = (let p = nonnegative_int v dflt in if 0 < p then p else dflt)"

definition optional_positive_int :: "json option \<Rightarrow> int option" where
  "optional_positive_int v = (let p = nonnegative_int v 0 in if 0 < p then Some p else None)"

definition nested_value :: "(string \<times> json) list \<Rightarrow> string \<Rightarrow> string \<Rightarrow> json option" where
  "nested_value kvs key nested = (case dict_get key kvs of Some (JObj m) \<Rightarrow> dict_get nested m | _ \<Rightarrow> None)"

section \<open>Policy and state\<close>

definition PROVIDER_RECOVERY_POLICY_KEY :: string where
  "PROVIDER_RECOVERY_POLICY_KEY = ''provider_recovery''"

definition PROVIDER_RECOVERY_STATE_KEY :: string where
  "PROVIDER_RECOVERY_STATE_KEY = ''provider_recovery_state''"

definition LAUNCHABLE_AGENTS :: "string list" where
  "LAUNCHABLE_AGENTS = [''codex'', ''claude_code'', ''cursor'', ''antigravity'', ''opencode'', ''grok'']"

definition is_launchable_agent :: "string \<Rightarrow> bool" where
  "is_launchable_agent agent = (agent \<in> set LAUNCHABLE_AGENTS)"

record FallbackTarget =
  ft_agent :: string
  ft_provider :: "string option"
  ft_model :: string

record ProviderRecoveryPolicy =
  fallbacks :: "FallbackTarget option list"
  has_explicit_fallbacks :: bool
  max_fallback_attempts :: int
  max_same_provider_retries :: int
  cooldown_seconds :: int
  backoff_seconds :: "int option"
  retry_after_cap_seconds :: int
  circuit_breaker_failure_threshold :: int
  circuit_breaker_cooldown_seconds :: int

record ProviderRecoveryState =
  failure_fingerprints :: "string list"
  fallback_attempt_number :: int
  retry_attempt_number :: int
  launched_fallback_attempts :: int

definition fallback_target_of :: "json \<Rightarrow> FallbackTarget option" where
  "fallback_target_of item =
     (case item of
        JObj m \<Rightarrow>
          (case (mapping_str m ''agent'', mapping_str m ''model'') of
             (Some a, Some md) \<Rightarrow>
               if is_launchable_agent a
               then Some \<lparr>ft_agent = a,
                          ft_provider = (case mapping_str m ''provider'' of Some p \<Rightarrow> Some p
                                         | None \<Rightarrow> provider_for_agent_model a (Some md)),
                          ft_model = md\<rparr>
               else None
           | _ \<Rightarrow> None)
      | _ \<Rightarrow> None)"

definition fallback_targets :: "json option \<Rightarrow> FallbackTarget option list" where
  "fallback_targets raw = (case raw of Some (JArr items) \<Rightarrow> map fallback_target_of items | _ \<Rightarrow> [])"

text \<open>The dataclass marks non-empty fallbacks as explicit.\<close>

definition recovery_policy_post_init :: "ProviderRecoveryPolicy \<Rightarrow> ProviderRecoveryPolicy" where
  "recovery_policy_post_init p =
     (if fallbacks p \<noteq> [] \<and> \<not> has_explicit_fallbacks p then p\<lparr>has_explicit_fallbacks := True\<rparr> else p)"

definition parse_provider_recovery_policy :: "json \<Rightarrow> ProviderRecoveryPolicy" where
  "parse_provider_recovery_policy tp =
     (let policy = entries (json_get PROVIDER_RECOVERY_POLICY_KEY tp);
          raw = dict_get ''fallbacks'' policy;
          targets = fallback_targets raw in
      recovery_policy_post_init
        \<lparr>fallbacks = targets,
         has_explicit_fallbacks = (case raw of Some (JArr _) \<Rightarrow> True | _ \<Rightarrow> False),
         max_fallback_attempts = nonnegative_int (dict_get ''max_fallback_attempts'' policy) (int (length targets)),
         max_same_provider_retries = nonnegative_int (dict_get ''max_same_provider_retries'' policy) 1,
         cooldown_seconds = positive_int (dict_get ''cooldown_seconds'' policy) 300,
         backoff_seconds = optional_positive_int (dict_get ''backoff_seconds'' policy),
         retry_after_cap_seconds = positive_int (dict_get ''retry_after_cap_seconds'' policy) 3600,
         circuit_breaker_failure_threshold =
           positive_int (nested_value policy ''circuit_breaker'' ''failure_threshold'') 2,
         circuit_breaker_cooldown_seconds =
           positive_int (nested_value policy ''circuit_breaker'' ''cooldown_seconds'') 900\<rparr>)"

definition strings_of :: "json option \<Rightarrow> string list" where
  "strings_of j =
     (case j of Some (JArr xs) \<Rightarrow> List.map_filter (\<lambda>x. case x of JStr s \<Rightarrow> Some s | _ \<Rightarrow> None) xs | _ \<Rightarrow> [])"

definition parse_provider_recovery_state :: "json \<Rightarrow> ProviderRecoveryState" where
  "parse_provider_recovery_state tp =
     (let state = entries (json_get PROVIDER_RECOVERY_STATE_KEY tp);
          fallback = nonnegative_int (dict_get ''fallback_attempt_number'' state) 0 in
      \<lparr>failure_fingerprints = strings_of (dict_get ''failure_fingerprints'' state),
       fallback_attempt_number = fallback,
       retry_attempt_number = nonnegative_int (dict_get ''retry_attempt_number'' state) 0,
       launched_fallback_attempts =
         (case dict_get ''launched_fallback_attempts'' state of
            None \<Rightarrow> fallback
          | Some JNull \<Rightarrow> fallback
          | Some v \<Rightarrow> nonnegative_int (Some v) 0)\<rparr>)"

section \<open>Decisions\<close>

datatype RecoveryAction = Retry | Fallback | Terminal

fun action_value :: "RecoveryAction \<Rightarrow> string" where
  "action_value Retry = ''retry''"
| "action_value Fallback = ''fallback''"
| "action_value Terminal = ''terminal''"

record ProviderRecoveryDecision =
  rd_action :: RecoveryAction
  rd_retryable :: bool
  rd_not_before :: "instant option"
  rd_target_agent :: "string option"
  rd_target_provider :: "string option"
  rd_target_model :: "string option"
  rd_reason_code :: string
  rd_terminal_reason :: "string option"
  rd_fallback_attempt_number :: int
  rd_retry_attempt_number :: int
  rd_launched_fallback_attempts :: int

definition is_auth_failure_metadata :: "(string \<times> json) list \<Rightarrow> bool" where
  "is_auth_failure_metadata md =
     (mapping_str md ''failure_type'' = Some ''auth'' \<or> mapping_str md ''reason_code'' = Some AGENT_AUTH_FAILED)"

definition is_infra_failure_metadata :: "(string \<times> json) list \<Rightarrow> bool" where
  "is_infra_failure_metadata md =
     (mapping_str md ''failure_scope'' = Some ''infra'' \<or> mapping_str md ''reason_code'' = Some AGENT_SERVICE_UNHEALTHY)"

definition is_capacity_failure_metadata :: "(string \<times> json) list \<Rightarrow> bool" where
  "is_capacity_failure_metadata md =
     (mapping_str md ''reason_code'' = Some AGENT_PROVIDER_CAPACITY_EXHAUSTED
      \<or> mapping_str md ''failure_type'' \<in> {Some ''capacity'', Some ''quota'', Some ''usage_limit''})"

definition policy_model :: "json \<Rightarrow> string option" where
  "policy_model tp = mapping_str (entries (Some tp)) ''agent_model''"

definition CODEX_DEFAULT_MODEL :: string where
  "CODEX_DEFAULT_MODEL = ''gpt-6.1-sol''"

definition capacity_default_model :: "string option \<Rightarrow> string option \<Rightarrow> string option" where
  "capacity_default_model pmodel effective =
     (case normalize_optional effective of
        Some m \<Rightarrow> Some m
      | None \<Rightarrow> (case pmodel of None \<Rightarrow> None | Some _ \<Rightarrow> Some CODEX_DEFAULT_MODEL))"

definition default_capacity_fallback_target ::
    "(string \<times> json) list \<Rightarrow> ProviderRecoveryPolicy \<Rightarrow> ProviderRecoveryState \<Rightarrow> string \<Rightarrow> string option \<Rightarrow> string option
     \<Rightarrow> FallbackTarget option" where
  "default_capacity_fallback_target md p st agent current dflt =
     (if has_explicit_fallbacks p \<or> 0 < launched_fallback_attempts st \<or> agent \<noteq> ''codex''
         \<or> \<not> is_capacity_failure_metadata md then None
      else (case (dflt, current) of
              (Some d, Some c) \<Rightarrow>
                if c = d then None
                else Some \<lparr>ft_agent = ''codex'', ft_provider = provider_for_agent_model ''codex'' (Some d), ft_model = d\<rparr>
            | _ \<Rightarrow> None))"

text \<open>The scan for the next usable fallback: the first one at or after \<open>i\<close>, with its index.\<close>

fun next_fallback :: "FallbackTarget option list \<Rightarrow> int \<Rightarrow> (FallbackTarget \<times> int) option" where
  "next_fallback [] i = None"
| "next_fallback (t # ts) i = (case t of Some x \<Rightarrow> Some (x, i) | None \<Rightarrow> next_fallback ts (i + 1))"

definition select_fallback_target_with_index ::
    "ProviderRecoveryPolicy \<Rightarrow> ProviderRecoveryState \<Rightarrow> FallbackTarget option \<times> int" where
  "select_fallback_target_with_index p st =
     (if max_fallback_attempts p \<le> launched_fallback_attempts st then (None, int (length (fallbacks p)))
      else (case next_fallback (drop (nat (fallback_attempt_number st)) (fallbacks p)) (fallback_attempt_number st) of
              Some (t, i) \<Rightarrow> (Some t, i)
            | None \<Rightarrow> (None, int (length (fallbacks p)))))"

definition select_fallback_target :: "ProviderRecoveryPolicy \<Rightarrow> ProviderRecoveryState \<Rightarrow> FallbackTarget option" where
  "select_fallback_target p st = fst (select_fallback_target_with_index p st)"

definition has_approved_launchable_fallback :: "json \<Rightarrow> bool" where
  "has_approved_launchable_fallback tp =
     (case select_fallback_target (parse_provider_recovery_policy tp) (parse_provider_recovery_state tp) of
        None \<Rightarrow> False
      | Some t \<Rightarrow> ft_agent t \<noteq> [] \<and> is_launchable_agent (ft_agent t))"

definition retry_delay_seconds :: "(string \<times> json) list \<Rightarrow> ProviderRecoveryPolicy \<Rightarrow> ProviderRecoveryState \<Rightarrow> int" where
  "retry_delay_seconds md p st =
     (let retry_after = min (nonnegative_int (dict_get ''retry_after_seconds'' md) 0) (retry_after_cap_seconds p);
          base = (case backoff_seconds p of None \<Rightarrow> cooldown_seconds p
                  | Some b \<Rightarrow> if b = 0 then cooldown_seconds p else b);
          backoff = base * 2 ^ nat (retry_attempt_number st) in
      min (max (cooldown_seconds p) (max retry_after backoff)) (retry_after_cap_seconds p))"

definition terminal_decision :: "string \<Rightarrow> ProviderRecoveryState \<Rightarrow> ProviderRecoveryDecision" where
  "terminal_decision reason st =
     \<lparr>rd_action = Terminal, rd_retryable = False, rd_not_before = None, rd_target_agent = None, rd_target_provider = None,
      rd_target_model = None, rd_reason_code = reason, rd_terminal_reason = Some reason,
      rd_fallback_attempt_number = fallback_attempt_number st, rd_retry_attempt_number = retry_attempt_number st,
      rd_launched_fallback_attempts = launched_fallback_attempts st\<rparr>"

definition fallback_decision :: "FallbackTarget \<Rightarrow> int \<Rightarrow> ProviderRecoveryState \<Rightarrow> ProviderRecoveryDecision" where
  "fallback_decision t fallback_number st =
     \<lparr>rd_action = Fallback, rd_retryable = True, rd_not_before = None, rd_target_agent = Some (ft_agent t),
      rd_target_provider = ft_provider t, rd_target_model = Some (ft_model t), rd_reason_code = ''PROVIDER_FALLBACK_SELECTED'',
      rd_terminal_reason = None, rd_fallback_attempt_number = fallback_number, rd_retry_attempt_number = 0,
      rd_launched_fallback_attempts = launched_fallback_attempts st + 1\<rparr>"

definition decide_provider_recovery ::
    "(string \<times> json) list \<Rightarrow> json \<Rightarrow> string \<Rightarrow> string option \<Rightarrow> instant \<Rightarrow> string option \<Rightarrow> ProviderRecoveryDecision" where
  "decide_provider_recovery md tp current_agent current_model now effective =
     (let p = parse_provider_recovery_policy tp;
          st = parse_provider_recovery_state tp;
          provider = (case mapping_str md ''provider'' of Some x \<Rightarrow> Some x
                      | None \<Rightarrow> provider_for_agent_model current_agent current_model);
          model = (case mapping_str md ''model'' of Some x \<Rightarrow> Some x | None \<Rightarrow> current_model);
          launchable = is_launchable_agent current_agent;
          stop = (\<lambda>reason. terminal_decision (if launchable then reason else UNSUPPORTED_AGENT_RUNTIME) st) in
      if is_auth_failure_metadata md then stop ''PROVIDER_AUTH_FAILED''
      else if \<not> json_truthy (dict_get ''retryable'' md) then stop ''NON_RETRYABLE_PROVIDER_FAILURE''
      else if (case mapping_str md ''failure_fingerprint'' of None \<Rightarrow> False | Some f \<Rightarrow> f \<in> set (failure_fingerprints st))
      then stop ''REPEATED_PROVIDER_FAILURE_FINGERPRINT''
      else (case default_capacity_fallback_target md p st current_agent model
                   (capacity_default_model (policy_model tp) effective) of
              Some t \<Rightarrow> fallback_decision t (fallback_attempt_number st + 1) st
            | None \<Rightarrow>
                if launchable \<and> retry_attempt_number st < max_same_provider_retries p
                then \<lparr>rd_action = Retry, rd_retryable = True,
                      rd_not_before = Some (now + retry_delay_seconds md p st * 1000000),
                      rd_target_agent = Some current_agent, rd_target_provider = provider, rd_target_model = model,
                      rd_reason_code = ''PROVIDER_RETRY_DELAYED'', rd_terminal_reason = None,
                      rd_fallback_attempt_number = fallback_attempt_number st,
                      rd_retry_attempt_number = retry_attempt_number st + 1,
                      rd_launched_fallback_attempts = launched_fallback_attempts st\<rparr>
                else (case select_fallback_target_with_index p st of
                        (Some t, i) \<Rightarrow> fallback_decision t (i + 1) st
                      | (None, _) \<Rightarrow> stop ''PROVIDER_RECOVERY_ATTEMPTS_EXHAUSTED'')))"

definition source_suppression_not_before ::
    "(string \<times> json) list \<Rightarrow> ProviderRecoveryPolicy \<Rightarrow> ProviderRecoveryState \<Rightarrow> ProviderRecoveryDecision \<Rightarrow> instant \<Rightarrow> instant option" where
  "source_suppression_not_before md p st d now =
     (case rd_not_before d of
        Some t \<Rightarrow> Some t
      | None \<Rightarrow> if rd_action d = Terminal then None else Some (now + retry_delay_seconds md p st * 1000000))"

section \<open>Metadata of a failure\<close>

definition classification_metadata ::
    "(string \<Rightarrow> string) \<Rightarrow> string option \<Rightarrow> string option \<Rightarrow> (string \<times> json) list \<Rightarrow> (string \<times> json) list option" where
  "classification_metadata redact reason_code msg details =
     (case classify_provider_failure redact reason_code None msg (mapping_str details ''provider'')
             (mapping_str details ''model'') None of
        None \<Rightarrow> None
      | Some c \<Rightarrow>
          Some (case mapping_str details ''recommended_action'' of
                  None \<Rightarrow> to_metadata c
                | Some a \<Rightarrow> dict_set ''recommended_action'' (JStr a) (to_metadata c)))"

definition metadata_recommended_action :: "(string \<times> json) list \<Rightarrow> string" where
  "metadata_recommended_action md =
     (if is_auth_failure_metadata md then ''Refresh provider credentials before retrying this workspace.''
      else (case mapping_str md ''recommended_action'' of
              Some a \<Rightarrow> a
            | None \<Rightarrow> ''Retry after provider cooldown or dispatch an approved fallback model.''))"

definition provider_recovery_metadata_from_failure ::
    "(string \<Rightarrow> string) \<Rightarrow> string option \<Rightarrow> string option \<Rightarrow> json option \<Rightarrow> json \<Rightarrow> (string \<times> json) list option" where
  "provider_recovery_metadata_from_failure redact reason_code msg details tp =
     (let dm = entries details;
          found = (case dict_get ''provider_recovery'' dm of
                     Some (JObj m) \<Rightarrow> Some m
                   | _ \<Rightarrow> classification_metadata redact reason_code msg dm) in
      case found of
        None \<Rightarrow> None
      | Some md \<Rightarrow>
          if is_infra_failure_metadata md then None
          else
            (let p = parse_provider_recovery_policy tp;
                 st = parse_provider_recovery_state tp;
                 auth = is_auth_failure_metadata md;
                 md1 = (if auth then dict_set ''retryable'' (JBool False) md else md);
                 allowed = (\<not> auth \<and> select_fallback_target p st \<noteq> None \<and> json_truthy (dict_get ''retryable'' md1));
                 md2 = dict_set ''fallback_allowed'' (JBool allowed) md1;
                 md3 = dict_set ''recommended_action'' (JStr (metadata_recommended_action md2)) md2 in
             Some (case msg of
                     Some m \<Rightarrow>
                       if m \<noteq> [] \<and> dict_get ''evidence'' md3 = None
                       then dict_set ''evidence'' (JStr (redact (take 1000 m))) md3 else md3
                   | None \<Rightarrow> md3)))"

section \<open>Recovery in place\<close>

record ProviderInPlaceRecoveryDecision =
  ip_not_before :: instant
  ip_reason_code :: string
  ip_retry_attempt_number :: int
  ip_metadata :: "(string \<times> json) list"

definition should_recover_in_place ::
    "(string \<Rightarrow> string) \<Rightarrow> string option \<Rightarrow> string option \<Rightarrow> json option \<Rightarrow> json \<Rightarrow> string \<Rightarrow> string option \<Rightarrow> instant \<Rightarrow> string option
     \<Rightarrow> ProviderInPlaceRecoveryDecision option" where
  "should_recover_in_place redact reason_code msg details tp agent current_model now effective =
     (case provider_recovery_metadata_from_failure redact reason_code msg details tp of
        None \<Rightarrow> None
      | Some md \<Rightarrow>
          (let resolved = (case current_model of
                             Some m \<Rightarrow> if m = [] then mapping_str md ''model'' else Some m
                           | None \<Rightarrow> mapping_str md ''model'');
               d = decide_provider_recovery md tp agent resolved now effective in
           case (rd_action d, rd_not_before d) of
             (Retry, Some nb) \<Rightarrow>
               Some \<lparr>ip_not_before = nb, ip_reason_code = rd_reason_code d,
                     ip_retry_attempt_number = rd_retry_attempt_number d, ip_metadata = md\<rparr>
           | _ \<Rightarrow> None))"

definition add_fingerprint :: "(string \<times> json) list \<Rightarrow> string list \<Rightarrow> string list" where
  "add_fingerprint md fs =
     (case mapping_str md ''failure_fingerprint'' of
        None \<Rightarrow> fs | Some f \<Rightarrow> if f \<in> set fs then fs else fs @ [f])"

definition in_place_state_fields ::
    "sched_env \<Rightarrow> ProviderRecoveryState \<Rightarrow> ProviderInPlaceRecoveryDecision \<Rightarrow> (string \<times> json) list" where
  "in_place_state_fields env st d =
     (let md = ip_metadata d in
      [(''action'', JStr ''retry''), (''recovery_scope'', JStr ''agent_run_in_place''),
       (''decision_reason_code'', JStr (ip_reason_code d)),
       (''source_reason_code'', opt_str (mapping_str md ''reason_code'')),
       (''source_provider'', opt_str (mapping_str md ''provider'')), (''source_model'', opt_str (mapping_str md ''model'')),
       (''failure_fingerprints'', JArr (map JStr (add_fingerprint md (failure_fingerprints st)))),
       (''fallback_attempt_number'', JInt (fallback_attempt_number st)),
       (''retry_attempt_number'', JInt (ip_retry_attempt_number d)),
       (''launched_fallback_attempts'', JInt (launched_fallback_attempts st)),
       (''not_before'', JStr (iso_utc env (ip_not_before d))),
       (''recommended_action'', opt_str (mapping_str md ''recommended_action''))])"

definition in_place_recovery_task_policy :: "sched_env \<Rightarrow> json \<Rightarrow> ProviderInPlaceRecoveryDecision \<Rightarrow> json" where
  "in_place_recovery_task_policy env tp d =
     JObj (dict_set PROVIDER_RECOVERY_STATE_KEY
       (JObj (without_nulls (in_place_state_fields env (parse_provider_recovery_state tp) d))) (entries (Some tp)))"

definition rearm_recovering_cooldown_task_policy :: "sched_env \<Rightarrow> json \<Rightarrow> instant \<Rightarrow> json option" where
  "rearm_recovering_cooldown_task_policy env tp now =
     (case json_get PROVIDER_RECOVERY_STATE_KEY tp of
        Some (JObj raw) \<Rightarrow>
          (let next = now + cooldown_seconds (parse_provider_recovery_policy tp) * 1000000 in
           Some (JObj (dict_set PROVIDER_RECOVERY_STATE_KEY
                         (JObj (dict_set ''not_before'' (JStr (iso_utc env next)) raw)) (entries (Some tp)))))
      | _ \<Rightarrow> None)"

section \<open>Recovery by a new attempt\<close>

definition install_fixed_recovery_model :: "json \<Rightarrow> string \<Rightarrow> json" where
  "install_fixed_recovery_model tp model =
     JObj (dict_pop ''cursor_auto_mode'' (dict_set ''agent_model'' (JStr model) (entries (Some tp))))"

definition recovery_state_fields ::
    "sched_env \<Rightarrow> ProviderRecoveryState \<Rightarrow> string \<Rightarrow> TaskAttempt option \<Rightarrow> TaskAttempt option \<Rightarrow> (string \<times> json) list
     \<Rightarrow> ProviderRecoveryDecision \<Rightarrow> instant option \<Rightarrow> (string \<times> json) list" where
  "recovery_state_fields env st source_id attempt canonical md d not_before =
     [(''source_workspace_id'', JStr source_id), (''source_attempt_id'', opt_str (map_option at_id attempt)),
      (''source_task_id'', opt_str (map_option at_task_id attempt)),
      (''source_canonical_attempt_id'', opt_str (map_option at_id canonical)),
      (''source_reason_code'', opt_str (mapping_str md ''reason_code'')),
      (''decision_reason_code'', JStr (rd_reason_code d)),
      (''source_provider'', opt_str (mapping_str md ''provider'')), (''source_model'', opt_str (mapping_str md ''model'')),
      (''failure_fingerprints'', JArr (map JStr (add_fingerprint md (failure_fingerprints st)))),
      (''fallback_attempt_number'', JInt (rd_fallback_attempt_number d)),
      (''retry_attempt_number'', JInt (rd_retry_attempt_number d)),
      (''launched_fallback_attempts'', JInt (rd_launched_fallback_attempts d)),
      (''action'', JStr (action_value (rd_action d))), (''target_agent'', opt_str (rd_target_agent d)),
      (''target_provider'', opt_str (rd_target_provider d)), (''target_model'', opt_str (rd_target_model d)),
      (''recommended_action'',
        if rd_reason_code d = UNSUPPORTED_AGENT_RUNTIME then JNull else opt_str (mapping_str md ''recommended_action''))]
     @ (case (case not_before of Some t \<Rightarrow> Some t | None \<Rightarrow> rd_not_before d) of
          None \<Rightarrow> [] | Some t \<Rightarrow> [(''not_before'', JStr (iso_utc env t))])"

definition recovery_task_policy ::
    "sched_env \<Rightarrow> json \<Rightarrow> string \<Rightarrow> TaskAttempt option \<Rightarrow> TaskAttempt option \<Rightarrow> (string \<times> json) list \<Rightarrow> ProviderRecoveryDecision
     \<Rightarrow> instant option \<Rightarrow> json" where
  "recovery_task_policy env tp source_id attempt canonical md d not_before =
     JObj (dict_set PROVIDER_RECOVERY_STATE_KEY
       (JObj (without_nulls (recovery_state_fields env (parse_provider_recovery_state tp) source_id attempt canonical md d not_before)))
       (entries (Some tp)))"

definition decision_payload ::
    "sched_env \<Rightarrow> ProviderRecoveryDecision \<Rightarrow> (string \<times> json) list \<Rightarrow> instant option \<Rightarrow> (string \<times> json) list" where
  "decision_payload env d md not_before =
     (let added = [(''action'', JStr (action_value (rd_action d))), (''decision_reason_code'', JStr (rd_reason_code d)),
            (''target_agent'', opt_str (rd_target_agent d)), (''target_provider'', opt_str (rd_target_provider d)),
            (''target_model'', opt_str (rd_target_model d)),
            (''fallback_attempt_number'', JInt (rd_fallback_attempt_number d)),
            (''retry_attempt_number'', JInt (rd_retry_attempt_number d)),
            (''launched_fallback_attempts'', JInt (rd_launched_fallback_attempts d)),
            (''terminal_reason'', opt_str (rd_terminal_reason d))];
          p1 = foldl (\<lambda>m (k, v). dict_set k v m) md added;
          p2 = (if rd_reason_code d = UNSUPPORTED_AGENT_RUNTIME then dict_pop ''recommended_action'' p1 else p1);
          nb = (case not_before of Some t \<Rightarrow> Some t | None \<Rightarrow> rd_not_before d);
          p3 = (case nb of None \<Rightarrow> p2 | Some t \<Rightarrow> dict_set ''not_before'' (JStr (iso_utc env t)) p2) in
      without_nulls p3)"

definition record_provider_circuit_breaker ::
    "Workspace \<Rightarrow> (string \<times> json) list \<Rightarrow> instant \<Rightarrow> database \<Rightarrow> database" where
  "record_provider_circuit_breaker source md now db =
     (let model = (case mapping_str md ''model'' of Some m \<Rightarrow> Some m | None \<Rightarrow> policy_model (task_policy source)) in
      case (mapping_str md ''provider'', model, mapping_str md ''failure_fingerprint'', mapping_str md ''reason_code'') of
        (Some provider, Some m, Some fingerprint, Some reason) \<Rightarrow>
          if reason \<noteq> AGENT_PROVIDER_CAPACITY_EXHAUSTED then db
          else
            (let p = parse_provider_recovery_policy (task_policy source) in
             db\<lparr>circuit_breakers := record_failure
                  \<lparr>bf_provider = provider, bf_model = m, bf_reason_code = reason, bf_fingerprint = fingerprint,
                   bf_workspace_id = Some (ws_id source),
                   bf_attempt_id = map_option at_id (attempt_by_workspace db (ws_id source)), bf_now = now,
                   bf_threshold = circuit_breaker_failure_threshold p,
                   bf_cooldown_seconds = circuit_breaker_cooldown_seconds p\<rparr> (circuit_breakers db)\<rparr>)
      | _ \<Rightarrow> db)"

definition latest_failed_state_event :: "Workspace \<Rightarrow> WorkspaceEvent option" where
  "latest_failed_state_event w =
     find (\<lambda>e. event_type e = ''workspace.state_changed'' \<and> new_state e = Failed) (rev (events w))"

definition has_existing_provider_recovery_event :: "Workspace \<Rightarrow> (string \<times> json) list \<Rightarrow> bool" where
  "has_existing_provider_recovery_event source md =
     (case mapping_str md ''failure_fingerprint'' of
        None \<Rightarrow> False
      | Some f \<Rightarrow>
          list_ex (\<lambda>e. event_type e = ''workspace.provider_recovery_requested''
            \<and> (case dict_get ''provider_recovery'' (entries (event_payload e)) of
                 Some (JObj r) \<Rightarrow> dict_get ''failure_fingerprint'' r = Some (JStr f) | _ \<Rightarrow> False)) (events source))"

end
