(* ===== verification/Recovery_Properties.thy ===== *)
theory Recovery_Properties
  imports Provider_Recovery Dispatch_Properties
begin

text \<open>
  What provider recovery guarantees: the state it writes is the state it reads back, a failure that has been seen is not retried,
  the number of recoveries of a task is bounded by its policy, delays are within the configured bounds, a fallback goes only
  to an approved launchable target, and a cooling workspace is not dispatched.
\<close>

section \<open>Dictionaries\<close>

lemma json_get_JObj: "json_get k (JObj kvs) = dict_get k kvs"
  by (simp add: dict_get_def)

lemma map_of_map_value:
  "map_of (map (\<lambda>(k', v'). (k', if k' = k then v else v')) kvs) k''
     = (if k'' = k \<and> k \<in> fst ` set kvs then Some v else map_of kvs k'')"
proof (induction kvs)
  case (Cons x kvs)
  obtain a b where "x = (a, b)"
    by (cases x)
  with Cons.IH show ?case
    by (cases "a = k''") auto
qed simp

lemma dict_get_set [simp]: "dict_get k' (dict_set k v kvs) = (if k' = k then Some v else dict_get k' kvs)"
proof (cases "k \<in> fst ` set kvs")
  case True
  then show ?thesis
    using map_of_map_value [of k v "rev kvs" k'] by (simp add: dict_set_def dict_get_def json_get_def rev_map)
qed (simp add: dict_set_def dict_get_def json_get_def)

lemma map_of_filter_key: "map_of (filter (\<lambda>(k', v). k' \<noteq> k) kvs) k' = (if k' = k then None else map_of kvs k')"
  by (induction kvs) auto

lemma dict_get_pop [simp]: "dict_get k' (dict_pop k kvs) = (if k' = k then None else dict_get k' kvs)"
  using map_of_filter_key [of k "rev kvs" k'] by (simp add: dict_pop_def dict_get_def json_get_def rev_filter)

lemma entries_simps [simp]: "entries (Some (JObj kvs)) = kvs" "entries None = []"
  by (simp_all add: entries_def)

lemma dict_get_entries [simp]: "dict_get k (entries (Some j)) = json_get k j"
  by (simp add: dict_get_def)

text \<open>Reading a literal dictionary whose nulls were dropped.\<close>

lemma without_nulls_Cons [simp]:
  "without_nulls [] = []" "without_nulls ((k, v) # kvs) = (if v = JNull then without_nulls kvs else (k, v) # without_nulls kvs)"
  by (simp_all add: without_nulls_def)

lemma without_nulls_append [simp]: "without_nulls (xs @ ys) = without_nulls xs @ without_nulls ys"
  by (simp add: without_nulls_def)

lemma opt_str_null [simp]: "opt_str v = JNull \<longleftrightarrow> v = None"
  by (simp add: opt_str_def split: option.splits)

lemma dict_get_append: "dict_get k (xs @ ys) = (case dict_get k ys of Some v \<Rightarrow> Some v | None \<Rightarrow> dict_get k xs)"
  by (simp add: dict_get_def json_get_def map_add_def split: option.splits)

lemma dict_get_Nil [simp]: "dict_get k [] = None"
  by (simp add: dict_get_def json_get_def)

lemma dict_get_Cons: "dict_get k ((k', v) # kvs) = (case dict_get k kvs of Some u \<Rightarrow> Some u | None \<Rightarrow> if k = k' then Some v else None)"
  by (simp add: dict_get_def json_get_def map_add_def split: option.splits)

lemma dict_get_distinct: "distinct (map fst kvs) \<Longrightarrow> (k, v) \<in> set kvs \<Longrightarrow> dict_get k kvs = Some v"
  by (simp add: dict_get_def json_get_def rev_map [symmetric] map_of_eq_Some_iff)

lemma dict_get_without_nulls:
  assumes "distinct (map fst kvs)" and "(k, v) \<in> set kvs" and "v \<noteq> JNull"
  shows "dict_get k (without_nulls kvs) = Some v"
  by (rule dict_get_distinct) (use assms in \<open>auto simp: without_nulls_def distinct_map_filter\<close>)

section \<open>What is written is read back\<close>

definition recorded_state :: "(string \<times> json) list \<Rightarrow> ProviderRecoveryDecision \<Rightarrow> ProviderRecoveryState \<Rightarrow> ProviderRecoveryState" where
  "recorded_state md d st =
     \<lparr>failure_fingerprints = add_fingerprint md (failure_fingerprints st), fallback_attempt_number = rd_fallback_attempt_number d,
      retry_attempt_number = rd_retry_attempt_number d, launched_fallback_attempts = rd_launched_fallback_attempts d\<rparr>"

lemma strings_of_JStr [simp]: "strings_of (Some (JArr (map JStr xs))) = xs"
  by (induction xs) (simp_all add: strings_of_def List.map_filter_simps)

lemma state_of_entries:
  assumes "dict_get ''failure_fingerprints'' kvs = Some (JArr (map JStr fs))"
    and "dict_get ''fallback_attempt_number'' kvs = Some (JInt f)" and "dict_get ''retry_attempt_number'' kvs = Some (JInt r)"
    and "dict_get ''launched_fallback_attempts'' kvs = Some (JInt l)" and "0 \<le> f" "0 \<le> r" "0 \<le> l"
  shows "parse_provider_recovery_state (JObj (dict_set PROVIDER_RECOVERY_STATE_KEY (JObj kvs) base)) =
    \<lparr>failure_fingerprints = fs, fallback_attempt_number = f, retry_attempt_number = r, launched_fallback_attempts = l\<rparr>"
  using assms by (simp add: parse_provider_recovery_state_def json_get_JObj nonnegative_int_def)

lemma policy_of_state_set:
  "parse_provider_recovery_policy (JObj (dict_set PROVIDER_RECOVERY_STATE_KEY v (entries (Some tp)))) = parse_provider_recovery_policy tp"
  by (simp add: parse_provider_recovery_policy_def json_get_JObj PROVIDER_RECOVERY_STATE_KEY_def PROVIDER_RECOVERY_POLICY_KEY_def)

lemma nonnegative_int_nonneg: "0 \<le> dflt \<Longrightarrow> 0 \<le> nonnegative_int v dflt"
  by (auto simp: nonnegative_int_def split: option.splits json.splits)

lemma state_nonneg:
  "0 \<le> fallback_attempt_number (parse_provider_recovery_state tp)" "0 \<le> retry_attempt_number (parse_provider_recovery_state tp)"
  "0 \<le> launched_fallback_attempts (parse_provider_recovery_state tp)"
  by (auto simp: parse_provider_recovery_state_def Let_def nonnegative_int_nonneg split: option.splits json.splits)

lemma recovery_fields_distinct: "distinct (map fst (recovery_state_fields env st sid a c md d nb))"
  by (simp add: recovery_state_fields_def split: option.splits)

lemma in_place_fields_distinct: "distinct (map fst (in_place_state_fields env st d))"
  by (simp add: in_place_state_fields_def Let_def)

lemma parse_recovery_task_policy:
  assumes "0 \<le> rd_fallback_attempt_number d" "0 \<le> rd_retry_attempt_number d" "0 \<le> rd_launched_fallback_attempts d"
  shows "parse_provider_recovery_state (recovery_task_policy env tp sid a c md d nb)
    = recorded_state md d (parse_provider_recovery_state tp)"
  unfolding recovery_task_policy_def recorded_state_def
  by (rule state_of_entries; (rule dict_get_without_nulls [OF recovery_fields_distinct])?)
    (simp_all add: assms recovery_state_fields_def)

lemma policy_recovery_task_policy [simp]:
  "parse_provider_recovery_policy (recovery_task_policy env tp sid a c md d nb) = parse_provider_recovery_policy tp"
  unfolding recovery_task_policy_def by (rule policy_of_state_set)

lemma install_model_keeps [simp]:
  "parse_provider_recovery_policy (install_fixed_recovery_model tp m) = parse_provider_recovery_policy tp"
  "parse_provider_recovery_state (install_fixed_recovery_model tp m) = parse_provider_recovery_state tp"
  by (simp_all add: install_fixed_recovery_model_def parse_provider_recovery_policy_def parse_provider_recovery_state_def
      json_get_JObj PROVIDER_RECOVERY_STATE_KEY_def PROVIDER_RECOVERY_POLICY_KEY_def)

section \<open>The cases of a decision\<close>

lemma next_fallback_SomeD:
  "next_fallback ts i = Some (t, j) \<Longrightarrow> i \<le> j \<and> j < i + int (length ts) \<and> ts ! nat (j - i) = Some t"
proof (induction ts arbitrary: i)
  case (Cons x ts)
  show ?case
  proof (cases x)
    case None
    then have j: "i + 1 \<le> j" "j < i + 1 + int (length ts)" "ts ! nat (j - (i + 1)) = Some t"
      using Cons.IH [of "i + 1"] Cons.prems by auto
    then have "nat (j - i) = Suc (nat (j - (i + 1)))"
      by linarith
    with j show ?thesis by simp
  qed (use Cons.prems in auto)
qed simp

lemma select_SomeD:
  assumes "select_fallback_target_with_index p st = (Some t, i)" and "0 \<le> fallback_attempt_number st"
  shows "launched_fallback_attempts st < max_fallback_attempts p" and "fallback_attempt_number st \<le> i"
    and "Some t \<in> set (fallbacks p)"
proof -
  have n: "next_fallback (drop (nat (fallback_attempt_number st)) (fallbacks p)) (fallback_attempt_number st) = Some (t, i)"
    and l: "launched_fallback_attempts st < max_fallback_attempts p"
    using assms(1) by (auto simp: select_fallback_target_with_index_def split: if_splits option.splits)
  show "launched_fallback_attempts st < max_fallback_attempts p" by (rule l)
  note d = next_fallback_SomeD [OF n]
  then show "fallback_attempt_number st \<le> i" by blast
  have "nat (i - fallback_attempt_number st) < length (drop (nat (fallback_attempt_number st)) (fallbacks p))"
    using d by (auto simp: zless_nat_eq_int_zless)
  then show "Some t \<in> set (fallbacks p)"
    using d nth_mem in_set_dropD by metis
qed

text \<open>
  A decision is terminal with the counters as they were, a retry that uses one of the retries left, or a fallback that
  uses one of the fallbacks left (the automatic one only as the very first).
\<close>

lemma decision_cases:
  fixes md tp agent model now eff
  defines "p \<equiv> parse_provider_recovery_policy tp" and "st \<equiv> parse_provider_recovery_state tp"
    and "d \<equiv> decide_provider_recovery md tp agent model now eff"
  obtains (terminal) reason where "d = terminal_decision reason st"
  | (retry) "rd_action d = Retry" "is_launchable_agent agent" "retry_attempt_number st < max_same_provider_retries p"
      "rd_not_before d = Some (now + retry_delay_seconds md p st * 1000000)" "rd_target_agent d = Some agent"
      "rd_fallback_attempt_number d = fallback_attempt_number st" "rd_retry_attempt_number d = retry_attempt_number st + 1"
      "rd_launched_fallback_attempts d = launched_fallback_attempts st"
      "\<not> is_auth_failure_metadata md" "json_truthy (dict_get ''retryable'' md)"
      "\<And>f. mapping_str md ''failure_fingerprint'' = Some f \<Longrightarrow> f \<notin> set (failure_fingerprints st)"
  | (fallback) t i where "d = fallback_decision t i st" "fallback_attempt_number st < i"
      "launched_fallback_attempts st < max 1 (max_fallback_attempts p)"
      "Some t \<in> set (fallbacks p) \<or> (\<not> has_explicit_fallbacks p \<and> ft_agent t = ''codex''
         \<and> Some (ft_model t) = capacity_default_model (policy_model tp) eff)"
      "\<not> is_auth_failure_metadata md" "json_truthy (dict_get ''retryable'' md)"
      "\<And>f. mapping_str md ''failure_fingerprint'' = Some f \<Longrightarrow> f \<notin> set (failure_fingerprints st)"
proof -
  have nn: "0 \<le> fallback_attempt_number st" "0 \<le> launched_fallback_attempts st"
    unfolding st_def by (rule state_nonneg)+
  let ?seen = "\<exists>f. mapping_str md ''failure_fingerprint'' = Some f \<and> f \<in> set (failure_fingerprints st)"
  show ?thesis
  proof (cases "is_auth_failure_metadata md \<or> \<not> json_truthy (dict_get ''retryable'' md) \<or> ?seen")
    case True
    then show ?thesis
      unfolding d_def decide_provider_recovery_def Let_def p_def [symmetric] st_def [symmetric]
      by (intro terminal [of "rd_reason_code d"])
        (auto simp: d_def decide_provider_recovery_def Let_def st_def terminal_decision_def split: option.splits)
  next
    case False
    then have ok: "\<not> is_auth_failure_metadata md" "json_truthy (dict_get ''retryable'' md)"
      "\<And>f. mapping_str md ''failure_fingerprint'' = Some f \<Longrightarrow> f \<notin> set (failure_fingerprints st)"
      by blast+
    let ?model = "case mapping_str md ''model'' of Some x \<Rightarrow> Some x | None \<Rightarrow> model"
    let ?default = "default_capacity_fallback_target md p st agent ?model (capacity_default_model (policy_model tp) eff)"
    have d: "d = (case ?default of
              Some t \<Rightarrow> fallback_decision t (fallback_attempt_number st + 1) st
            | None \<Rightarrow>
                if is_launchable_agent agent \<and> retry_attempt_number st < max_same_provider_retries p
                then \<lparr>rd_action = Retry, rd_retryable = True,
                      rd_not_before = Some (now + retry_delay_seconds md p st * 1000000),
                      rd_target_agent = Some agent,
                      rd_target_provider = (case mapping_str md ''provider'' of Some x \<Rightarrow> Some x
                        | None \<Rightarrow> provider_for_agent_model agent model), rd_target_model = ?model,
                      rd_reason_code = ''PROVIDER_RETRY_DELAYED'', rd_terminal_reason = None,
                      rd_fallback_attempt_number = fallback_attempt_number st,
                      rd_retry_attempt_number = retry_attempt_number st + 1,
                      rd_launched_fallback_attempts = launched_fallback_attempts st\<rparr>
                else (case select_fallback_target_with_index p st of
                        (Some t, i) \<Rightarrow> fallback_decision t (i + 1) st
                      | (None, _) \<Rightarrow> terminal_decision
                          (if is_launchable_agent agent then ''PROVIDER_RECOVERY_ATTEMPTS_EXHAUSTED''
                           else UNSUPPORTED_AGENT_RUNTIME) st))"
      using ok unfolding d_def decide_provider_recovery_def Let_def p_def st_def by (auto split: option.splits)
    show ?thesis
    proof (cases ?default)
      case (Some t)
      then have "\<not> has_explicit_fallbacks p" "launched_fallback_attempts st \<le> 0" "ft_agent t = ''codex''"
        "Some (ft_model t) = capacity_default_model (policy_model tp) eff"
        by (auto simp: default_capacity_fallback_target_def split: if_splits option.splits)
      then show ?thesis
        using Some d ok nn by (intro fallback [of t "fallback_attempt_number st + 1"]) auto
    next
      case None
      show ?thesis
      proof (cases "is_launchable_agent agent \<and> retry_attempt_number st < max_same_provider_retries p")
        case True
        then show ?thesis
          using None d ok by (intro retry) auto
      next
        case False
        obtain t i where sel: "select_fallback_target_with_index p st = (t, i)"
          by fastforce
        show ?thesis
        proof (cases t)
          case (Some t')
          then show ?thesis
            using None False d ok sel select_SomeD [OF sel [unfolded Some] nn(1)] by (intro fallback [of t' "i + 1"]) auto
        next
          case t: None
          then show ?thesis
            using None False d sel terminal by auto
        qed
      qed
    qed
  qed
qed

section \<open>The task policy along a series of failures\<close>

record recovery_failure =
  rf_metadata :: "(string \<times> json) list"
  rf_agent :: string
  rf_model :: "string option"
  rf_now :: instant
  rf_effective :: "string option"
  rf_source :: string
  rf_attempt :: "TaskAttempt option"
  rf_canonical :: "TaskAttempt option"
  rf_not_before :: "instant option"

definition rf_decision :: "json \<Rightarrow> recovery_failure \<Rightarrow> ProviderRecoveryDecision" where
  "rf_decision tp f = decide_provider_recovery (rf_metadata f) tp (rf_agent f) (rf_model f) (rf_now f) (rf_effective f)"

text \<open>The policy of the attempt that follows a failure, as \<open>create_provider_recovery_attempt_row\<close> builds it.\<close>

definition next_policy :: "sched_env \<Rightarrow> json \<Rightarrow> recovery_failure \<Rightarrow> json" where
  "next_policy env tp f =
     (let d = rf_decision tp f;
          tp1 = recovery_task_policy env tp (rf_source f) (rf_attempt f) (rf_canonical f) (rf_metadata f) d (rf_not_before f) in
      case rd_target_model d of
        Some m \<Rightarrow> if rd_action d = Fallback then install_fixed_recovery_model tp1 m else tp1
      | None \<Rightarrow> tp1)"

fun recovery_run :: "sched_env \<Rightarrow> json \<Rightarrow> recovery_failure list \<Rightarrow> RecoveryAction list" where
  "recovery_run env tp [] = []"
| "recovery_run env tp (f # fs) = rd_action (rf_decision tp f) # recovery_run env (next_policy env tp f) fs"

lemma terminal_decision_sel [simp]:
  "rd_action (terminal_decision r st) = Terminal" "rd_not_before (terminal_decision r st) = None"
  "rd_fallback_attempt_number (terminal_decision r st) = fallback_attempt_number st"
  "rd_retry_attempt_number (terminal_decision r st) = retry_attempt_number st"
  "rd_launched_fallback_attempts (terminal_decision r st) = launched_fallback_attempts st"
  by (simp_all add: terminal_decision_def)

lemma fallback_decision_sel [simp]:
  "rd_action (fallback_decision t i st) = Fallback" "rd_not_before (fallback_decision t i st) = None"
  "rd_target_agent (fallback_decision t i st) = Some (ft_agent t)" "rd_target_model (fallback_decision t i st) = Some (ft_model t)"
  "rd_fallback_attempt_number (fallback_decision t i st) = i" "rd_retry_attempt_number (fallback_decision t i st) = 0"
  "rd_launched_fallback_attempts (fallback_decision t i st) = launched_fallback_attempts st + 1"
  by (simp_all add: fallback_decision_def)

lemma decision_nonneg:
  fixes md tp agent model now eff
  defines "d \<equiv> decide_provider_recovery md tp agent model now eff"
  shows "0 \<le> rd_fallback_attempt_number d" and "0 \<le> rd_retry_attempt_number d" and "0 \<le> rd_launched_fallback_attempts d"
  unfolding d_def
  by (cases rule: decision_cases [of md tp agent model now eff]; use state_nonneg [of tp] in simp)+

lemma next_policy_parse:
  "parse_provider_recovery_policy (next_policy env tp f) = parse_provider_recovery_policy tp"
  "parse_provider_recovery_state (next_policy env tp f) =
     recorded_state (rf_metadata f) (rf_decision tp f) (parse_provider_recovery_state tp)"
  by (simp_all add: next_policy_def Let_def parse_recovery_task_policy rf_decision_def decision_nonneg split: option.splits)

section \<open>Recoveries are bounded\<close>

text \<open>What is left of the budget: fallbacks, each with its retries, and the retries of the current model.\<close>

definition budget :: "ProviderRecoveryPolicy \<Rightarrow> ProviderRecoveryState \<Rightarrow> nat" where
  "budget p st =
     nat (max 1 (max_fallback_attempts p) - launched_fallback_attempts st) * (nat (max_same_provider_retries p) + 1)
     + nat (max_same_provider_retries p - retry_attempt_number st)"

lemma budget_decreases:
  fixes tp f
  defines "p \<equiv> parse_provider_recovery_policy tp" and "st \<equiv> parse_provider_recovery_state tp" and "d \<equiv> rf_decision tp f"
  shows "budget p (recorded_state md d st) + (if rd_action d = Terminal then 0 else 1) \<le> budget p st"
proof -
  have nn: "0 \<le> retry_attempt_number st" "0 \<le> launched_fallback_attempts st"
    unfolding st_def by (rule state_nonneg)+
  note defs = d_def rf_decision_def p_def st_def budget_def recorded_state_def
  show ?thesis
  proof (cases rule: decision_cases [of "rf_metadata f" tp "rf_agent f" "rf_model f" "rf_now f" "rf_effective f"])
    case (terminal reason)
    then show ?thesis by (simp add: defs)
  next
    case retry
    then show ?thesis by (simp add: defs)
  next
    case (fallback t i)
    let ?L = "max 1 (max_fallback_attempts p)" and ?l = "launched_fallback_attempts st" and ?R = "nat (max_same_provider_retries p)"
    have l: "nat (?L - ?l) = Suc (nat (?L - (?l + 1)))"
      using fallback(3) by (simp add: p_def st_def)
    have "nat (?L - (?l + 1)) * (?R + 1) + ?R + 1 \<le> nat (?L - ?l) * (?R + 1)"
      unfolding l by simp
    then show ?thesis
      using fallback(1) by (simp add: defs)
  qed
qed

lemma recoveries_within_budget:
  "length (filter (\<lambda>a. a \<noteq> Terminal) (recovery_run env tp fs))
     \<le> budget (parse_provider_recovery_policy tp) (parse_provider_recovery_state tp)"
proof (induction fs arbitrary: tp)
  case (Cons f fs)
  show ?case
    using Cons.IH [of "next_policy env tp f"] budget_decreases [of tp "rf_metadata f" f]
    by (auto simp: next_policy_parse split: if_splits)
qed simp

text \<open>
  Property C15: the recoveries of a task are bounded by its policy: however many failures follow each other, with whatever metadata
  and on whatever agents, the number of retries and fallbacks together is at most the number of
  fallbacks allowed (one where none is configured), each with its retries, plus the retries of the first
  model; every further failure is terminal.
\<close>

theorem recovery_attempts_bounded:
  "int (length (filter (\<lambda>a. a \<noteq> Terminal) (recovery_run env tp fs)))
     \<le> max 1 (max_fallback_attempts (parse_provider_recovery_policy tp))
         * (max_same_provider_retries (parse_provider_recovery_policy tp) + 1)
       + max_same_provider_retries (parse_provider_recovery_policy tp)"
proof -
  let ?p = "parse_provider_recovery_policy tp" and ?st = "parse_provider_recovery_state tp"
  let ?L = "max 1 (max_fallback_attempts ?p)" and ?R = "max_same_provider_retries ?p"
  have R: "0 \<le> ?R"
    by (simp add: parse_provider_recovery_policy_def recovery_policy_post_init_def Let_def nonnegative_int_nonneg)
  have nn: "0 \<le> retry_attempt_number ?st" "0 \<le> launched_fallback_attempts ?st"
    by (rule state_nonneg)+
  have "int (budget ?p ?st) = int (nat (?L - launched_fallback_attempts ?st)) * (?R + 1) + int (nat (?R - retry_attempt_number ?st))"
    using R by (simp add: budget_def algebra_simps)
  also have "\<dots> \<le> ?L * (?R + 1) + ?R"
    using R nn by (intro add_mono mult_right_mono) linarith+
  finally show ?thesis
    using recoveries_within_budget [of env tp fs] by linarith
qed

section \<open>Delays\<close>

lemma policy_positive:
  "0 < cooldown_seconds (parse_provider_recovery_policy tp)" "0 < retry_after_cap_seconds (parse_provider_recovery_policy tp)"
  by (simp_all add: parse_provider_recovery_policy_def recovery_policy_post_init_def Let_def positive_int_def)

text \<open>
  A same-provider retry waits at least the configured cool-down and at most the configured cap (the cap
  wins when it is shorter), so it is always in the future; and a retry stays on its agent, which is launchable.
\<close>

theorem retry_delay_bounds:
  fixes md tp agent model now eff
  assumes "rd_action (decide_provider_recovery md tp agent model now eff) = Retry"
  shows "\<exists>t. rd_not_before (decide_provider_recovery md tp agent model now eff) = Some t
    \<and> now + min (cooldown_seconds (parse_provider_recovery_policy tp)) (retry_after_cap_seconds (parse_provider_recovery_policy tp)) * 1000000 \<le> t
    \<and> t \<le> now + retry_after_cap_seconds (parse_provider_recovery_policy tp) * 1000000 \<and> now < t
    \<and> rd_target_agent (decide_provider_recovery md tp agent model now eff) = Some agent \<and> is_launchable_agent agent"
proof (cases rule: decision_cases [of md tp agent model now eff])
  case retry
  let ?p = "parse_provider_recovery_policy tp"
  have "min (cooldown_seconds ?p) (retry_after_cap_seconds ?p) \<le> retry_delay_seconds md ?p (parse_provider_recovery_state tp)"
    "retry_delay_seconds md ?p (parse_provider_recovery_state tp) \<le> retry_after_cap_seconds ?p"
    by (auto simp: retry_delay_seconds_def Let_def)
  then show ?thesis
    using retry policy_positive [of tp] by auto
qed (use assms in auto)

definition plain_metadata :: "(string \<times> json) list" where
  "plain_metadata = [(''retryable'', JBool True), (''failure_fingerprint'', JStr ''fp''), (''reason_code'', JStr ''AGENT_TIMEOUT'')]"

theorem retry_delay_bounds_witness:
  "rd_not_before (decide_provider_recovery plain_metadata (JObj []) ''codex'' None 7 None) = Some 300000007
   \<and> (\<exists>t. rd_not_before (decide_provider_recovery plain_metadata (JObj []) ''codex'' None 7 None) = Some t \<and> 7 < t)"
proof
  show "rd_not_before (decide_provider_recovery plain_metadata (JObj []) ''codex'' None 7 None) = Some 300000007"
    by code_simp
  have "rd_action (decide_provider_recovery plain_metadata (JObj []) ''codex'' None 7 None) = Retry"
    by code_simp
  from retry_delay_bounds [OF this]
  show "\<exists>t. rd_not_before (decide_provider_recovery plain_metadata (JObj []) ''codex'' None 7 None) = Some t \<and> 7 < t"
    by blast
qed

section \<open>Fallbacks\<close>

lemma fallback_target_launchable: "Some t \<in> set (fallbacks (parse_provider_recovery_policy tp)) \<Longrightarrow> is_launchable_agent (ft_agent t)"
  by (auto simp: parse_provider_recovery_policy_def recovery_policy_post_init_def Let_def fallback_targets_def
      fallback_target_of_def split: option.splits json.splits if_splits)

text \<open>
  A fallback goes to a launchable agent that the task policy lists among its fallbacks or, when the policy lists
  none, to the default model of the codex runtime; authentication failures and non-retryable failures never lead to
  a retry or a fallback.
\<close>

theorem fallback_only_approved:
  fixes md tp agent model now eff
  assumes "rd_action (decide_provider_recovery md tp agent model now eff) \<noteq> Terminal"
  shows "\<not> is_auth_failure_metadata md \<and> json_truthy (dict_get ''retryable'' md)
    \<and> (rd_action (decide_provider_recovery md tp agent model now eff) = Fallback \<longrightarrow>
        (\<exists>t. rd_target_agent (decide_provider_recovery md tp agent model now eff) = Some (ft_agent t)
           \<and> rd_target_model (decide_provider_recovery md tp agent model now eff) = Some (ft_model t) \<and> is_launchable_agent (ft_agent t)
           \<and> (Some t \<in> set (fallbacks (parse_provider_recovery_policy tp))
              \<or> \<not> has_explicit_fallbacks (parse_provider_recovery_policy tp) \<and> ft_agent t = ''codex''
                \<and> Some (ft_model t) = capacity_default_model (policy_model tp) eff)))"
proof (cases rule: decision_cases [of md tp agent model now eff])
  case (fallback t i)
  have "is_launchable_agent (ft_agent t)"
    using fallback(4) fallback_target_launchable [of t tp] by (auto simp: is_launchable_agent_def LAUNCHABLE_AGENTS_def)
  with fallback show ?thesis by auto
qed (use assms in auto)

definition fallback_policy :: json where
  "fallback_policy = JObj [(''provider_recovery'', JObj [(''max_same_provider_retries'', JInt 0),
     (''fallbacks'', JArr [JNull, JObj [(''agent'', JStr ''claude_code''), (''model'', JStr ''opus'')]])])]"

theorem fallback_only_approved_witness:
  "\<exists>t :: FallbackTarget. rd_target_agent (decide_provider_recovery plain_metadata fallback_policy ''codex'' None 7 None) = Some (ft_agent t)
     \<and> is_launchable_agent (ft_agent t) \<and> ft_agent t = ''claude_code''"
proof -
  have a: "rd_action (decide_provider_recovery plain_metadata fallback_policy ''codex'' None 7 None) = Fallback"
    and t: "rd_target_agent (decide_provider_recovery plain_metadata fallback_policy ''codex'' None 7 None) = Some ''claude_code''"
    by code_simp+
  have "rd_action (decide_provider_recovery plain_metadata fallback_policy ''codex'' None 7 None) \<noteq> Terminal"
    using a by simp
  from fallback_only_approved [OF this] a obtain x :: FallbackTarget where
    "rd_target_agent (decide_provider_recovery plain_metadata fallback_policy ''codex'' None 7 None) = Some (ft_agent x)"
    "is_launchable_agent (ft_agent x)"
    by blast
  with t show ?thesis
    by (intro exI [of _ x]) simp
qed

section \<open>Repeated failures\<close>

text \<open>
  Property C40: the recovery state written for a failure is read back exactly (counters and fingerprints, with the configured
  policy untouched), and an identical failure, by fingerprint, is terminal from then on: it is neither retried nor
  sent to another model.
\<close>

theorem repeated_failure_stops:
  assumes "mapping_str (rf_metadata f) ''failure_fingerprint'' = Some fp"
    and "mapping_str (rf_metadata g) ''failure_fingerprint'' = Some fp"
  shows "parse_provider_recovery_state (next_policy env tp f) =
      recorded_state (rf_metadata f) (rf_decision tp f) (parse_provider_recovery_state tp)
    \<and> parse_provider_recovery_policy (next_policy env tp f) = parse_provider_recovery_policy tp
    \<and> rd_action (rf_decision (next_policy env tp f) g) = Terminal"
proof -
  have "fp \<in> set (failure_fingerprints (parse_provider_recovery_state (next_policy env tp f)))"
    using assms(1) by (simp add: next_policy_parse recorded_state_def add_fingerprint_def)
  then have "rd_action (rf_decision (next_policy env tp f) g) = Terminal"
    unfolding rf_decision_def [of "next_policy env tp f"] using assms(2)
    by (cases rule: decision_cases [of "rf_metadata g" "next_policy env tp f" "rf_agent g" "rf_model g" "rf_now g" "rf_effective g"]) auto
  then show ?thesis
    by (simp add: next_policy_parse)
qed

definition plain_recovery_failure :: recovery_failure where
  "plain_recovery_failure = \<lparr>rf_metadata = plain_metadata, rf_agent = ''codex'', rf_model = None, rf_now = 7, rf_effective = None,
     rf_source = ''w1'', rf_attempt = None, rf_canonical = None, rf_not_before = None\<rparr>"

theorem repeated_failure_stops_witness:
  "recovery_run plain_sched_env (JObj []) [plain_recovery_failure, plain_recovery_failure] = [Retry, Terminal]"
proof -
  have fp: "mapping_str (rf_metadata plain_recovery_failure) ''failure_fingerprint'' = Some ''fp''"
    by code_simp
  have "rd_action (rf_decision (JObj []) plain_recovery_failure) = Retry"
    by code_simp
  with repeated_failure_stops [OF fp fp, of plain_sched_env "JObj []"] show ?thesis
    by simp
qed

section \<open>Cooling down\<close>

lemma in_place_cooldown:
  assumes "\<And>t. from_iso env (iso_utc env t) = Some (Aware t)"
  shows "provider_cooldown_not_before env (in_place_recovery_task_policy env tp d) = Some (ip_not_before d)"
proof -
  have "dict_get ''not_before'' (without_nulls (in_place_state_fields env (parse_provider_recovery_state tp) d))
      = Some (JStr (iso_utc env (ip_not_before d)))"
    by (rule dict_get_without_nulls [OF in_place_fields_distinct]) (simp_all add: in_place_state_fields_def Let_def)
  then show ?thesis
    using assms by (simp add: provider_cooldown_not_before_def in_place_recovery_task_policy_def json_get_JObj
        PROVIDER_RECOVERY_STATE_KEY_def as_utc_def)
qed

lemma rearm_cooldown:
  assumes "\<And>t. from_iso env (iso_utc env t) = Some (Aware t)" and "rearm_recovering_cooldown_task_policy env tp now = Some tp'"
  shows "provider_cooldown_not_before env tp' = Some (now + cooldown_seconds (parse_provider_recovery_policy tp) * 1000000)"
  using assms by (auto simp: rearm_recovering_cooldown_task_policy_def provider_cooldown_not_before_def json_get_JObj
      PROVIDER_RECOVERY_STATE_KEY_def as_utc_def Let_def split: option.splits json.splits)

text \<open>
  Recovery in place and the scheduler fit together: a workspace that was put into recovery is not eligible for dispatch
  before its cool-down is over (which is after the failure), re-arming the cool-down moves that point a full
  cool-down ahead, and the counters the next failure sees are those of the retry.
\<close>

theorem recovery_gates_dispatch:
  assumes iso: "\<And>t. from_iso env (iso_utc env t) = Some (Aware t)"
    and d: "should_recover_in_place redact reason msg details tp agent model now eff = Some d"
    and w: "task_policy w = in_place_recovery_task_policy env tp d"
  shows "now < ip_not_before d \<and> (\<forall>t < ip_not_before d. \<not> dispatch_eligible env t tab w)
    \<and> (\<exists>tp'. rearm_recovering_cooldown_task_policy env (task_policy w) later = Some tp'
         \<and> provider_cooldown_not_before env tp' = Some (later + cooldown_seconds (parse_provider_recovery_policy (task_policy w)) * 1000000))
    \<and> retry_attempt_number (parse_provider_recovery_state (task_policy w)) =
        retry_attempt_number (parse_provider_recovery_state tp) + 1
    \<and> launched_fallback_attempts (parse_provider_recovery_state (task_policy w)) =
        launched_fallback_attempts (parse_provider_recovery_state tp)"
proof -
  obtain md m where md: "rd_action (decide_provider_recovery md tp agent m now eff) = Retry"
    "rd_not_before (decide_provider_recovery md tp agent m now eff) = Some (ip_not_before d)"
    "ip_retry_attempt_number d = rd_retry_attempt_number (decide_provider_recovery md tp agent m now eff)"
    using d by (auto simp: should_recover_in_place_def Let_def split: option.splits RecoveryAction.splits)
  have r: "now < ip_not_before d \<and> ip_retry_attempt_number d = retry_attempt_number (parse_provider_recovery_state tp) + 1"
  proof (cases rule: decision_cases [of md tp agent m now eff])
    case retry
    have "0 < retry_delay_seconds md (parse_provider_recovery_policy tp) (parse_provider_recovery_state tp)"
      using policy_positive [of tp] by (auto simp: retry_delay_seconds_def Let_def)
    with retry md show ?thesis
      by auto
  qed (use md in auto)
  have gate: "\<not> dispatch_eligible env t tab w" if "t < ip_not_before d" for t
    using in_place_cooldown [OF iso, of tp d] that by (simp add: dispatch_eligible_def w)
  have arm: "rearm_recovering_cooldown_task_policy env (task_policy w) later \<noteq> None"
    by (simp add: w rearm_recovering_cooldown_task_policy_def in_place_recovery_task_policy_def json_get_JObj Let_def)
  have st: "parse_provider_recovery_state (task_policy w) =
      \<lparr>failure_fingerprints = add_fingerprint (ip_metadata d) (failure_fingerprints (parse_provider_recovery_state tp)),
       fallback_attempt_number = fallback_attempt_number (parse_provider_recovery_state tp),
       retry_attempt_number = ip_retry_attempt_number d,
       launched_fallback_attempts = launched_fallback_attempts (parse_provider_recovery_state tp)\<rparr>"
    unfolding w in_place_recovery_task_policy_def
    by (rule state_of_entries; (rule dict_get_without_nulls [OF in_place_fields_distinct])?)
      (simp_all add: in_place_state_fields_def Let_def state_nonneg r add_nonneg_nonneg)
  show ?thesis
    using r gate arm rearm_cooldown [OF iso] st by auto
qed

lemma plain_env_iso: "from_iso plain_sched_env (iso_utc plain_sched_env t) = Some (Aware t)"
  by (simp add: plain_sched_env_def py_int_str_int_all)

definition timed_out :: "ProviderInPlaceRecoveryDecision option" where
  "timed_out = should_recover_in_place (\<lambda>s. s) (Some ''AGENT_TIMEOUT'') (Some ''no answer'')
     (Some (JObj [(''model'', JStr ''gpt-5'')])) (JObj []) ''codex'' (Some ''gpt-5'') 7 None"

theorem recovery_gates_dispatch_witness:
  "\<exists>d. timed_out = Some d \<and> ip_not_before d = 300000007
     \<and> \<not> dispatch_eligible plain_sched_env 300000006 []
          ((sample_workspace ''w1'' Requested)\<lparr>task_policy := in_place_recovery_task_policy plain_sched_env (JObj []) d\<rparr>)"
proof -
  have "map_option ip_not_before timed_out = Some 300000007"
    by code_simp
  then obtain d where d: "timed_out = Some d" "ip_not_before d = 300000007"
    by auto
  have w: "task_policy ((sample_workspace ''w1'' Requested)\<lparr>task_policy := in_place_recovery_task_policy plain_sched_env (JObj []) d\<rparr>)
      = in_place_recovery_task_policy plain_sched_env (JObj []) d"
    by simp
  show ?thesis
    using recovery_gates_dispatch [OF plain_env_iso d(1) [unfolded timed_out_def] w, of "[]"] d by auto
qed

end
