(* ===== verification/Findings.thy ===== *)
theory Findings
  imports Merge_Eligibility Owned_Paths Json_Text "HOL-Library.Product_Lexorder"
begin

text \<open>
  The durable findings of \<open>db/repositories/quality_repo.py\<close>: stale reasons of a merge candidate and policy findings of
  a workspace.  Both repositories replace the active findings of a subject by a new list and keep the history.  Locale
  \<open>findings_table\<close> is that contract with its consequences; both repositories interpret it.
\<close>

section \<open>Rows\<close>

record StaleReason =
  sr_id :: string
  sr_workspace_id :: string
  sr_candidate_id :: "string option"
  sr_attempt_id :: "string option"
  sr_task_id :: "string option"
  sr_trigger_type :: string
  sr_trigger_ref :: "string option"
  sr_reason_code :: string
  sr_explanation :: string
  sr_status :: string
  sr_detected_at :: instant
  sr_resolved_at :: "instant option"

definition blocks_merge :: "StaleReason \<Rightarrow> bool" where
  "blocks_merge r = stale_reason_blocks_merge (Some (sr_reason_code r))"

record StaleReasonCreate =
  sc_reason_code :: string
  sc_trigger_type :: string
  sc_trigger_ref :: "string option"
  sc_explanation :: string

record PolicyFinding =
  pf_id :: string
  pf_workspace_id :: string
  pf_candidate_id :: "string option"
  pf_attempt_id :: "string option"
  pf_task_id :: "string option"
  pf_reason_code :: string
  pf_severity :: string
  pf_subject_path :: "string option"
  pf_explanation :: string
  pf_details :: json
  pf_status :: string
  pf_detected_at :: instant
  pf_resolved_at :: "instant option"

record PolicyFindingCreate =
  pc_reason_code :: string
  pc_severity :: string
  pc_subject_path :: "string option"
  pc_explanation :: string
  pc_details :: json

section \<open>Canonical JSON\<close>

text \<open>
  \<open>json.dumps(value, sort_keys=True, separators=(",", ":"))\<close> on a dictionary with distinct keys; \<open>fr\<close> prints a float.
\<close>

function json_dumps :: "(rat \<Rightarrow> string) \<Rightarrow> json \<Rightarrow> string" where
  "json_dumps fr JNull = ''null''"
| "json_dumps fr (JBool b) = (if b then ''true'' else ''false'')"
| "json_dumps fr (JInt n) = py_str_int n"
| "json_dumps fr (JFloat x) = fr x"
| "json_dumps fr (JStr s) = dumps_string s"
| "json_dumps fr (JArr xs) = dumps_array (map (json_dumps fr) xs)"
| "json_dumps fr (JObj kvs) = dumps_object (sort_key fst (map (\<lambda>kv. (fst kv, json_dumps fr (snd kv))) kvs))"
  by pat_completeness auto
termination
proof (relation "measure (\<lambda>(fr, j). size j)")
  fix kvs :: "(string \<times> json) list" and kv :: "string \<times> json" and fr :: "rat \<Rightarrow> string"
  assume "kv \<in> set kvs"
  then have "size (snd kv) < size (JObj kvs)"
    by (induction kvs) (auto simp: size_prod_simp)
  then show "((fr, snd kv), (fr, JObj kvs)) \<in> measure (\<lambda>(fr, j). size j)"
    by simp
qed (auto simp: less_Suc_eq_le size_list_estimation')

section \<open>Stale reasons\<close>

definition stale_order :: "StaleReason \<Rightarrow> instant \<times> string" where
  "stale_order r = (sr_detected_at r, sr_id r)"

definition stale_list_for_candidate :: "string \<Rightarrow> string option \<Rightarrow> StaleReason list \<Rightarrow> StaleReason list" where
  "stale_list_for_candidate cid st tab =
     sort_key stale_order (filter (\<lambda>r. sr_candidate_id r = Some cid \<and> (case st of None \<Rightarrow> True | Some s \<Rightarrow> sr_status r = s)) tab)"

definition stale_list_active_for_candidate :: "string \<Rightarrow> StaleReason list \<Rightarrow> StaleReason list" where
  "stale_list_active_for_candidate cid tab = stale_list_for_candidate cid (Some ''active'') tab"

text \<open>One statement for a batch of candidates; a candidate without rows has an empty list.\<close>

definition stale_list_active_for_candidates :: "string list \<Rightarrow> StaleReason list \<Rightarrow> (string \<times> StaleReason list) list" where
  "stale_list_active_for_candidates cids tab =
     (let unique = dedupe cids;
          rows = sort_key stale_order (filter (\<lambda>r. (\<exists>c \<in> set unique. sr_candidate_id r = Some c) \<and> sr_status r = ''active'') tab) in
      map (\<lambda>c. (c, filter (\<lambda>r. sr_candidate_id r = Some c) rows)) unique)"

definition stale_list_for_workspace ::
    "string \<Rightarrow> string option \<Rightarrow> nat option \<Rightarrow> nat option \<Rightarrow> StaleReason list \<Rightarrow> StaleReason list" where
  "stale_list_for_workspace wid st limit offset tab =
     (let rows = sort_key stale_order (filter (\<lambda>r. sr_workspace_id r = wid \<and> (case st of None \<Rightarrow> True | Some s \<Rightarrow> sr_status r = s)) tab);
          rest = (case offset of None \<Rightarrow> rows | Some n \<Rightarrow> drop n rows) in
      case limit of None \<Rightarrow> rest | Some n \<Rightarrow> take n rest)"

definition stale_key :: "StaleReason \<Rightarrow> string \<times> string \<times> string option" where
  "stale_key r = (sr_reason_code r, sr_trigger_type r, sr_trigger_ref r)"

definition stale_create_key :: "StaleReasonCreate \<Rightarrow> string \<times> string \<times> string option" where
  "stale_create_key f = (sc_reason_code f, sc_trigger_type f, sc_trigger_ref f)"

definition stale_resolve :: "instant \<Rightarrow> StaleReason \<Rightarrow> StaleReason" where
  "stale_resolve now r = r\<lparr>sr_status := ''resolved'', sr_resolved_at := Some now\<rparr>"

definition new_stale_reason ::
    "string \<Rightarrow> string \<Rightarrow> string option \<Rightarrow> string option \<Rightarrow> instant \<Rightarrow> string \<Rightarrow> StaleReasonCreate \<Rightarrow> StaleReason" where
  "new_stale_reason wid cid aid tid now i f =
     \<lparr>sr_id = i, sr_workspace_id = wid, sr_candidate_id = Some cid, sr_attempt_id = aid, sr_task_id = tid,
      sr_trigger_type = sc_trigger_type f, sr_trigger_ref = sc_trigger_ref f, sr_reason_code = sc_reason_code f,
      sr_explanation = sc_explanation f, sr_status = ''active'', sr_detected_at = now, sr_resolved_at = None\<rparr>"

text \<open>
  The result is the new table, the added and the resolved rows.  \<open>ids k\<close> is the \<open>k\<close>-th identifier generated.
\<close>

definition stale_replace_active_findings ::
    "(nat \<Rightarrow> string) \<Rightarrow> instant \<Rightarrow> string \<Rightarrow> string \<Rightarrow> string option \<Rightarrow> string option \<Rightarrow> StaleReasonCreate list \<Rightarrow> StaleReason list
     \<Rightarrow> StaleReason list \<times> StaleReason list \<times> StaleReason list" where
  "stale_replace_active_findings ids now wid cid aid tid fs tab =
     (let existing = stale_list_for_candidate cid (Some ''active'') tab;
          finding_keys = map stale_create_key fs;
          gone = filter (\<lambda>r. stale_key r \<notin> set finding_keys) existing;
          kept_keys = map stale_key (filter (\<lambda>r. stale_key r \<in> set finding_keys) existing);
          new = filter (\<lambda>f. stale_create_key f \<notin> set kept_keys) fs;
          added = map (\<lambda>(k, f). new_stale_reason wid cid aid tid now (ids k) f) (List.enumerate 0 new) in
      (map (\<lambda>r. if r \<in> set gone then stale_resolve now r else r) tab @ added, added, map (stale_resolve now) gone))"

section \<open>Policy findings\<close>

definition policy_order :: "PolicyFinding \<Rightarrow> instant \<times> string" where
  "policy_order r = (pf_detected_at r, pf_id r)"

definition policy_list_for_candidate :: "string \<Rightarrow> string option \<Rightarrow> PolicyFinding list \<Rightarrow> PolicyFinding list" where
  "policy_list_for_candidate cid st tab =
     sort_key policy_order (filter (\<lambda>r. pf_candidate_id r = Some cid \<and> (case st of None \<Rightarrow> True | Some s \<Rightarrow> pf_status r = s)) tab)"

definition policy_list_for_workspace :: "string \<Rightarrow> string option \<Rightarrow> PolicyFinding list \<Rightarrow> PolicyFinding list" where
  "policy_list_for_workspace wid st tab =
     sort_key policy_order (filter (\<lambda>r. pf_workspace_id r = wid \<and> (case st of None \<Rightarrow> True | Some s \<Rightarrow> pf_status r = s)) tab)"

definition policy_list_active_for_candidates :: "string list \<Rightarrow> PolicyFinding list \<Rightarrow> (string \<times> PolicyFinding list) list" where
  "policy_list_active_for_candidates cids tab =
     (let unique = dedupe cids;
          rows = sort_key policy_order (filter (\<lambda>r. (\<exists>c \<in> set unique. pf_candidate_id r = Some c) \<and> pf_status r = ''active'') tab) in
      map (\<lambda>c. (c, filter (\<lambda>r. pf_candidate_id r = Some c) rows)) unique)"

text \<open>SQL compares a nullable candidate with \<open>IS NULL\<close>, so option equality is the condition.\<close>

definition policy_list_for_subject ::
    "string \<Rightarrow> string option \<Rightarrow> string \<Rightarrow> string option \<Rightarrow> PolicyFinding list \<Rightarrow> PolicyFinding list" where
  "policy_list_for_subject wid cid reason st tab =
     sort_key policy_order (filter (\<lambda>r. pf_workspace_id r = wid \<and> pf_reason_code r = reason \<and> pf_candidate_id r = cid
       \<and> (case st of None \<Rightarrow> True | Some s \<Rightarrow> pf_status r = s)) tab)"

definition policy_key :: "(rat \<Rightarrow> string) \<Rightarrow> PolicyFinding \<Rightarrow> string \<times> string \<times> string option \<times> string" where
  "policy_key fr r = (pf_reason_code r, pf_severity r, pf_subject_path r, json_dumps fr (pf_details r))"

definition policy_create_key :: "(rat \<Rightarrow> string) \<Rightarrow> PolicyFindingCreate \<Rightarrow> string \<times> string \<times> string option \<times> string" where
  "policy_create_key fr f = (pc_reason_code f, pc_severity f, pc_subject_path f, json_dumps fr (pc_details f))"

definition policy_resolve :: "instant \<Rightarrow> PolicyFinding \<Rightarrow> PolicyFinding" where
  "policy_resolve now r = r\<lparr>pf_status := ''resolved'', pf_resolved_at := Some now\<rparr>"

definition new_policy_finding ::
    "string \<Rightarrow> string option \<Rightarrow> string option \<Rightarrow> string option \<Rightarrow> instant \<Rightarrow> string \<Rightarrow> PolicyFindingCreate \<Rightarrow> PolicyFinding" where
  "new_policy_finding wid cid aid tid now i f =
     \<lparr>pf_id = i, pf_workspace_id = wid, pf_candidate_id = cid, pf_attempt_id = aid, pf_task_id = tid,
      pf_reason_code = pc_reason_code f, pf_severity = pc_severity f, pf_subject_path = pc_subject_path f,
      pf_explanation = pc_explanation f, pf_details = pc_details f, pf_status = ''active'', pf_detected_at = now,
      pf_resolved_at = None\<rparr>"

definition policy_replace_active_findings ::
    "(rat \<Rightarrow> string) \<Rightarrow> (nat \<Rightarrow> string) \<Rightarrow> instant \<Rightarrow> string \<Rightarrow> string option \<Rightarrow> string option \<Rightarrow> string option \<Rightarrow> string
     \<Rightarrow> PolicyFindingCreate list \<Rightarrow> PolicyFinding list \<Rightarrow> PolicyFinding list \<times> PolicyFinding list \<times> PolicyFinding list" where
  "policy_replace_active_findings fr ids now wid cid aid tid reason fs tab =
     (let existing = policy_list_for_subject wid cid reason (Some ''active'') tab;
          finding_keys = map (policy_create_key fr) fs;
          gone = filter (\<lambda>r. policy_key fr r \<notin> set finding_keys) existing;
          kept_keys = map (policy_key fr) (filter (\<lambda>r. policy_key fr r \<in> set finding_keys) existing);
          new = filter (\<lambda>f. policy_create_key fr f \<notin> set kept_keys) fs;
          added = map (\<lambda>(k, f). new_policy_finding wid cid aid tid now (ids k) f) (List.enumerate 0 new) in
      (map (\<lambda>r. if r \<in> set gone then policy_resolve now r else r) tab @ added, added, map (policy_resolve now) gone))"

definition has_blocking_policy_finding :: "PolicyFinding list \<Rightarrow> bool" where
  "has_blocking_policy_finding fs = list_ex (\<lambda>f. pf_severity f = ''blocking'') fs"

section \<open>The contract of a findings table\<close>

lemma map_snd_enumerate: "map (\<lambda>x. g (snd x)) (List.enumerate n xs) = map g xs"
  by (induction xs arbitrary: n) simp_all

lemma image_eqD_mem: "key ` A = B \<Longrightarrow> b \<in> B \<Longrightarrow> \<exists>r \<in> A. key r = b"
  by auto

text \<open>
  \<open>mine\<close> are the active rows of the subject a call is about.  \<open>replace ids fs\<close> resolves those whose key is not among the
  findings and adds a row for every finding whose key none of the others has.
\<close>

locale findings_table =
  fixes mine :: "'r \<Rightarrow> bool" and key :: "'r \<Rightarrow> 'k" and fkey :: "'f \<Rightarrow> 'k"
    and resolve :: "'r \<Rightarrow> 'r" and make :: "string \<Rightarrow> 'f \<Rightarrow> 'r"
    and replace :: "(nat \<Rightarrow> string) \<Rightarrow> 'f list \<Rightarrow> 'r list \<Rightarrow> 'r list \<times> 'r list \<times> 'r list"
    and fits :: "'f \<Rightarrow> bool"
  assumes resolved: "\<not> mine (resolve r)"
    and made: "fits f \<Longrightarrow> mine (make i f)" "key (make i f) = fkey f"
    and replaced_table: "fst (replace ids fs tab) =
      map (\<lambda>r. if mine r \<and> key r \<notin> fkey ` set fs then resolve r else r) tab @ fst (snd (replace ids fs tab))"
    and replaced_added: "fst (snd (replace ids fs tab)) =
      map (\<lambda>(k, f). make (ids k) f) (List.enumerate 0 (filter (\<lambda>f. \<not> (\<exists>r \<in> set tab. mine r \<and> key r = fkey f)) fs))"
    and replaced_gone: "set (snd (snd (replace ids fs tab))) = resolve ` {r \<in> set tab. mine r \<and> key r \<notin> fkey ` set fs}"
begin

lemma added_keys: "key ` set (fst (snd (replace ids fs tab))) = {fkey f |f. f \<in> set fs \<and> \<not> (\<exists>r \<in> set tab. mine r \<and> key r = fkey f)}"
proof -
  have "map key (fst (snd (replace ids fs tab))) = map fkey (filter (\<lambda>f. \<not> (\<exists>r \<in> set tab. mine r \<and> key r = fkey f)) fs)"
    by (simp add: replaced_added made o_def case_prod_beta map_snd_enumerate)
  from arg_cong [OF this, of set] show ?thesis
    by auto
qed

lemma active_keys_exact:
  assumes "\<And>f. f \<in> set fs \<Longrightarrow> fits f"
  shows "key ` {r \<in> set (fst (replace ids fs tab)). mine r} = fkey ` set fs"
proof -
  have mine_added: "mine r" if "r \<in> set (fst (snd (replace ids fs tab)))" for r
    using that assms by (auto simp: replaced_added in_set_enumerate_eq made dest!: nth_mem)
  let ?old = "{r \<in> set tab. mine r \<and> key r \<in> fkey ` set fs}"
  have "{r \<in> set (fst (replace ids fs tab)). mine r} = ?old \<union> set (fst (snd (replace ids fs tab)))"
    using mine_added by (subst replaced_table) (auto simp: resolved)
  then have "key ` {r \<in> set (fst (replace ids fs tab)). mine r} = key ` ?old \<union> key ` set (fst (snd (replace ids fs tab)))"
    by (simp add: image_Un)
  also have "\<dots> = fkey ` set fs"
  proof (rule set_eqI, rule iffI)
    fix k
    assume "k \<in> fkey ` set fs"
    then obtain f where f: "k = fkey f" "f \<in> set fs"
      by blast
    show "k \<in> key ` ?old \<union> key ` set (fst (snd (replace ids fs tab)))"
    proof (cases "\<exists>r \<in> set tab. mine r \<and> key r = fkey f")
      case True
      then obtain r where r: "r \<in> set tab" "mine r" "key r = fkey f"
        by blast
      with f have "r \<in> ?old" "k = key r"
        by simp_all
      then show ?thesis by blast
    next
      case False
      then show ?thesis
        using f unfolding added_keys by blast
    qed
  qed (auto simp: added_keys)
  finally show ?thesis .
qed

lemma replace_again:
  assumes "\<And>f. f \<in> set fs \<Longrightarrow> fits f"
  shows "replace ids' fs (fst (replace ids fs tab)) = (fst (replace ids fs tab), [], [])"
proof -
  let ?tab = "fst (replace ids fs tab)"
  have keys: "key ` {r \<in> set ?tab. mine r} = fkey ` set fs"
    by (rule active_keys_exact [OF assms])
  have no_new: "filter (\<lambda>f. \<not> (\<exists>r \<in> set ?tab. mine r \<and> key r = fkey f)) fs = []"
    using image_eqD_mem [OF keys] by (fastforce simp: filter_empty_conv)
  then have a: "fst (snd (replace ids' fs ?tab)) = []"
    by (simp add: replaced_added [of ids' fs ?tab])
  have kept: "\<not> (mine r \<and> key r \<notin> fkey ` set fs)" if "r \<in> set ?tab" for r
    using that keys by blast
  then have "map (\<lambda>r. if mine r \<and> key r \<notin> fkey ` set fs then resolve r else r) ?tab = ?tab"
    by (intro map_idI) (simp only: if_False refl)
  then have "fst (replace ids' fs ?tab) = ?tab"
    using a replaced_table [of ids' fs ?tab] by simp
  moreover have "{r \<in> set ?tab. mine r \<and> key r \<notin> fkey ` set fs} = {}"
    using kept by blast
  then have "snd (snd (replace ids' fs ?tab)) = []"
    using replaced_gone [of ids' fs ?tab] by (simp only: image_empty set_empty)
  ultimately show ?thesis
    using a by (simp add: prod_eq_iff)
qed

lemma others_kept: "\<not> mine r \<Longrightarrow> r \<in> set tab \<Longrightarrow> r \<in> set (fst (replace ids fs tab))"
  by (subst replaced_table) force

end

section \<open>Both repositories keep the contract\<close>

definition my_stale :: "string \<Rightarrow> StaleReason \<Rightarrow> bool" where
  "my_stale cid r = (sr_candidate_id r = Some cid \<and> sr_status r = ''active'')"

definition my_policy :: "string \<Rightarrow> string option \<Rightarrow> string \<Rightarrow> PolicyFinding \<Rightarrow> bool" where
  "my_policy wid cid reason r =
     (pf_workspace_id r = wid \<and> pf_reason_code r = reason \<and> pf_candidate_id r = cid \<and> pf_status r = ''active'')"

interpretation stale_table: findings_table "my_stale cid" stale_key stale_create_key "stale_resolve now"
  "new_stale_reason wid cid aid tid now" "\<lambda>ids. stale_replace_active_findings ids now wid cid aid tid" "\<lambda>_. True"
  for wid cid aid tid now
proof unfold_locales
  fix ids fs tab
  let ?r = "stale_replace_active_findings ids now wid cid aid tid fs tab"
  show "fst (snd ?r) = map (\<lambda>(k, f). new_stale_reason wid cid aid tid now (ids k) f)
      (List.enumerate 0 (filter (\<lambda>f. \<not> (\<exists>r \<in> set tab. my_stale cid r \<and> stale_key r = stale_create_key f)) fs))"
    unfolding stale_replace_active_findings_def Let_def fst_conv snd_conv
    by (intro arg_cong2 [where f = map] refl arg_cong2 [where f = List.enumerate] filter_cong)
      (auto simp: stale_list_for_candidate_def my_stale_def image_iff)
qed (auto simp: my_stale_def stale_resolve_def new_stale_reason_def stale_key_def stale_create_key_def
      stale_replace_active_findings_def stale_list_for_candidate_def Let_def)

interpretation policy_table: findings_table "my_policy wid cid reason" "policy_key fr" "policy_create_key fr" "policy_resolve now"
  "new_policy_finding wid cid aid tid now" "\<lambda>ids. policy_replace_active_findings fr ids now wid cid aid tid reason"
  "\<lambda>f. pc_reason_code f = reason"
  for fr wid cid reason aid tid now
proof unfold_locales
  fix ids fs tab
  let ?r = "policy_replace_active_findings fr ids now wid cid aid tid reason fs tab"
  show "fst (snd ?r) = map (\<lambda>(k, f). new_policy_finding wid cid aid tid now (ids k) f)
      (List.enumerate 0 (filter (\<lambda>f. \<not> (\<exists>r \<in> set tab. my_policy wid cid reason r \<and> policy_key fr r = policy_create_key fr f)) fs))"
    unfolding policy_replace_active_findings_def Let_def fst_conv snd_conv
    by (intro arg_cong2 [where f = map] refl arg_cong2 [where f = List.enumerate] filter_cong)
      (auto simp: policy_list_for_subject_def my_policy_def image_iff)
qed (auto simp: my_policy_def policy_resolve_def new_policy_finding_def policy_key_def policy_create_key_def
      policy_replace_active_findings_def policy_list_for_subject_def Let_def)

lemma stale_resolve_id [simp]: "sr_id (stale_resolve now r) = sr_id r"
  by (simp add: stale_resolve_def)

lemma stale_replace_ids:
  "map sr_id (fst (stale_replace_active_findings ids now wid cid aid tid fs tab)) = map sr_id tab
     @ map ids [0..<length (fst (snd (stale_replace_active_findings ids now wid cid aid tid fs tab)))]"
proof -
  have "map (\<lambda>x. ids (fst x)) (List.enumerate 0 xs) = map ids [0..<length xs]" for xs :: "StaleReasonCreate list"
    using map_map [of ids fst "List.enumerate 0 xs"] by (simp add: o_def case_prod_beta)
  then show ?thesis
    by (simp add: stale_replace_active_findings_def Let_def new_stale_reason_def case_prod_beta o_def)
qed

text \<open>
  Replacing the stale reasons of a candidate makes the keys of its active rows exactly the keys of the given findings;
  repeating the call changes nothing and reports nothing; rows of other candidates and resolved rows stay as they are;
  and no row is ever deleted: the table keeps its rows in order and only grows by the added ones.
\<close>

theorem stale_findings_exact:
  fixes ids now wid cid aid tid fs tab
  defines "out \<equiv> stale_replace_active_findings ids now wid cid aid tid fs tab"
  shows "stale_key ` {r \<in> set (fst out). my_stale cid r} = stale_create_key ` set fs
    \<and> stale_replace_active_findings ids' now wid cid aid tid fs (fst out) = (fst out, [], [])
    \<and> {r \<in> set tab. \<not> my_stale cid r} \<subseteq> set (fst out)
    \<and> map sr_id (fst out) = map sr_id tab @ map ids [0..<length (fst (snd out))]"
  unfolding out_def
  by (intro conjI subsetI stale_table.active_keys_exact stale_table.replace_again stale_replace_ids)
    (auto intro: stale_table.others_kept)

text \<open>
  The same holds for the policy findings of one reason code on a workspace or candidate, provided the given findings carry that
  reason code: afterwards the active rows have exactly the keys of the findings (details compared by their canonical JSON text),
  the call is idempotent, and every row of another subject, another reason or already resolved is untouched.
\<close>

theorem policy_findings_exact:
  fixes fr ids now wid cid aid tid reason fs tab
  assumes "\<And>f. f \<in> set fs \<Longrightarrow> pc_reason_code f = reason"
  defines "out \<equiv> policy_replace_active_findings fr ids now wid cid aid tid reason fs tab"
  shows "policy_key fr ` {r \<in> set (fst out). my_policy wid cid reason r} = policy_create_key fr ` set fs
    \<and> policy_replace_active_findings fr ids' now wid cid aid tid reason fs (fst out) = (fst out, [], [])
    \<and> {r \<in> set tab. \<not> my_policy wid cid reason r} \<subseteq> set (fst out)"
  unfolding out_def using assms(1)
  by (intro conjI subsetI policy_table.active_keys_exact policy_table.replace_again)
    (auto intro: policy_table.others_kept)

definition sample_finding :: PolicyFindingCreate where
  "sample_finding = \<lparr>pc_reason_code = ''LICENSE'', pc_severity = ''blocking'', pc_subject_path = Some ''go.mod'', pc_explanation = ''why'',
     pc_details = JObj [(''b'', JInt 2), (''a'', JArr [JNull, JBool True])]\<rparr>"

theorem policy_findings_exact_witness:
  "policy_key (\<lambda>_. []) ` {r \<in> set (fst (policy_replace_active_findings (\<lambda>_. []) (\<lambda>k. ''f1'') 5 ''w1'' None None None ''LICENSE'' [sample_finding] [])).
      my_policy ''w1'' None ''LICENSE'' r} = {(''LICENSE'', ''blocking'', Some ''go.mod'', json_dumps (\<lambda>_. []) (pc_details sample_finding))}
   \<and> json_dumps (\<lambda>_. []) (pc_details sample_finding) = CHR 0x7B # CHR 0x22 # CHR ''a'' # CHR 0x22 # '':[null,true],'' @ CHR 0x22 # CHR ''b'' # CHR 0x22 # '':2'' @ [CHR 0x7D]"
proof
  have f: "\<And>f. f \<in> set [sample_finding] \<Longrightarrow> pc_reason_code f = ''LICENSE''"
    by (simp add: sample_finding_def)
  have "policy_create_key (\<lambda>_. []) sample_finding = (''LICENSE'', ''blocking'', Some ''go.mod'', json_dumps (\<lambda>_. []) (pc_details sample_finding))"
    by (simp add: policy_create_key_def sample_finding_def)
  with policy_findings_exact [OF f, where fr = "\<lambda>_. []" and ids = "\<lambda>k. ''f1''" and now = 5 and fs = "[sample_finding]" and wid = "''w1''" and cid = None
      and aid = None and tid = None and tab = "[]"]
  show "policy_key (\<lambda>_. []) ` {r \<in> set (fst (policy_replace_active_findings (\<lambda>_. []) (\<lambda>k. ''f1'') 5 ''w1'' None None None ''LICENSE'' [sample_finding] [])).
      my_policy ''w1'' None ''LICENSE'' r} = {(''LICENSE'', ''blocking'', Some ''go.mod'', json_dumps (\<lambda>_. []) (pc_details sample_finding))}"
    by simp
qed code_simp

end
