(* ===== verification/Merge_Queue.thy ===== *)
theory Merge_Queue
  imports Candidates Findings Owned_Path_Properties
begin

text \<open>
  The merge queue of \<open>service/merge_queue.py\<close>: which older candidates block a candidate (singly and for a batch), the reason
  shown for a candidate that cannot merge, and the pages of the operator's queue, which interleave merge candidates with
  legacy workspaces.  A candidate comes with its attempt and workspace, as the queries load it.
\<close>

section \<open>Loaded candidates\<close>

record LoadedCandidate =
  lc_row :: MergeCandidate
  lc_attempt :: TaskAttempt
  lc_workspace :: Workspace

definition load_rows :: "database \<Rightarrow> LoadedCandidate list" where
  "load_rows db =
     List.map_filter (\<lambda>c.
       case (find (\<lambda>a. at_id a = mc_attempt_id c) (attempts db), workspaces db (mc_workspace_id c)) of
         (Some a, Some w) \<Rightarrow> Some \<lparr>lc_row = c, lc_attempt = a, lc_workspace = w\<rparr>
       | _ \<Rightarrow> None) (candidates db)"

definition lc_id :: "LoadedCandidate \<Rightarrow> string" where
  "lc_id r = mc_id (lc_row r)"

definition lane :: "LoadedCandidate \<Rightarrow> string \<times> string" where
  "lane r = (mc_repo_url (lc_row r), mc_base_branch (lc_row r))"

definition load_candidate :: "database \<Rightarrow> string \<Rightarrow> LoadedCandidate option" where
  "load_candidate db cid = find (\<lambda>r. lc_id r = cid) (load_rows db)"

definition load_candidates :: "database \<Rightarrow> string list \<Rightarrow> LoadedCandidate list" where
  "load_candidates db cids = filter (\<lambda>r. lc_id r \<in> set cids) (load_rows db)"

definition candidate_age :: "LoadedCandidate \<Rightarrow> instant \<times> string" where
  "candidate_age r = (mc_created_at (lc_row r), lc_id r)"

text \<open>\<open>ORDER BY created_at DESC, id DESC LIMIT 1\<close>.\<close>

definition load_open_candidate_for_workspace :: "database \<Rightarrow> string \<Rightarrow> LoadedCandidate option" where
  "load_open_candidate_for_workspace db wid =
     (case sort_key candidate_age (filter (\<lambda>r. mc_workspace_id (lc_row r) = wid \<and> mc_status (lc_row r) = Open) (load_rows db)) of
        [] \<Rightarrow> None | rs \<Rightarrow> Some (last rs))"

section \<open>Which candidates block\<close>

definition MERGE_QUEUE_WAIT_REASON_CODE :: string where
  "MERGE_QUEUE_WAIT_REASON_CODE = ''MERGE_QUEUE_WAITING_FOR_OLDER_CANDIDATE''"

definition RECOVERY_OPERATION_TYPES :: "string list" where
  "RECOVERY_OPERATION_TYPES = [''validate'', ''rebase'']"

definition ACTIVE_OPERATION_STATUSES :: "string list" where
  "ACTIVE_OPERATION_STATUSES = [''pending'', ''running'']"

definition MONITOR_RECOVERY_STATUSES :: "WorkspaceStatus list" where
  "MONITOR_RECOVERY_STATUSES = [Ready, Running, Validating, Pushing]"

definition is_older_candidate :: "LoadedCandidate \<Rightarrow> LoadedCandidate \<Rightarrow> bool" where
  "is_older_candidate c t =
     (mc_created_at (lc_row c) < mc_created_at (lc_row t)
      \<or> mc_created_at (lc_row c) = mc_created_at (lc_row t) \<and> lc_id c < lc_id t)"

definition is_merge_ready_candidate :: "LoadedCandidate \<Rightarrow> bool" where
  "is_merge_ready_candidate c =
     (mc_status (lc_row c) = Open \<and> is_canonical_for_merge (lc_attempt c) \<and> auto_merge (lc_workspace c)
      \<and> status (lc_workspace c) = Monitoring_pr \<and> \<not> stale (lc_row c))"

definition is_monitor_recovery_operation :: "Operation \<Rightarrow> bool" where
  "is_monitor_recovery_operation op =
     (op_type op \<in> set RECOVERY_OPERATION_TYPES \<and> op_status op \<in> set ACTIVE_OPERATION_STATUSES
      \<and> (case op_payload op of
           Some (JObj kvs) \<Rightarrow> json_get ''source'' (JObj kvs) = Some (JStr ''pr_monitor'')
         | _ \<Rightarrow> False))"

text \<open>The queries load the operations of a candidate's workspace.\<close>

definition is_monitor_owned_recovery :: "LoadedCandidate \<Rightarrow> bool" where
  "is_monitor_owned_recovery c =
     (mc_status (lc_row c) = Open \<and> is_canonical_for_merge (lc_attempt c) \<and> auto_merge (lc_workspace c)
      \<and> status (lc_workspace c) \<in> set MONITOR_RECOVERY_STATUSES
      \<and> list_ex is_monitor_recovery_operation (case ws_operations (lc_workspace c) of None \<Rightarrow> [] | Some ops \<Rightarrow> ops))"

definition blocking_state :: "LoadedCandidate \<Rightarrow> string option" where
  "blocking_state c =
     (if is_merge_ready_candidate c then Some ''merge_eligible''
      else if is_monitor_owned_recovery c then Some ''monitor_owned_recovery'' else None)"

definition candidate_owned_paths :: "LoadedCandidate \<Rightarrow> string list" where
  "candidate_owned_paths c =
     (let w = lc_workspace c;
          internal = internal_plan_artifact_owned_paths_from_profile (Some (resolved_profile w)) (Some (ws_id w));
          own = interworkspace_owned_paths internal (filter (\<lambda>p. p \<noteq> []) (owned_paths w)) in
      if own \<noteq> [] then own
      else interworkspace_owned_paths internal (filter (\<lambda>p. p \<noteq> []) (at_owned_paths (lc_attempt c))))"

definition candidate_blocks_target :: "LoadedCandidate \<Rightarrow> LoadedCandidate \<Rightarrow> bool" where
  "candidate_blocks_target c t =
     (let ps = candidate_owned_paths c; qs = candidate_owned_paths t in
      if ps = [] \<or> qs = [] then False else list_ex (\<lambda>p. list_ex (owned_paths_overlap p) qs) ps)"

record MergeQueueBlocker =
  bl_candidate_id :: string
  bl_workspace_id :: string
  bl_attempt_id :: string
  bl_task_id :: string
  bl_title :: string
  bl_pr_url :: string
  bl_pr_number :: "int option"
  bl_status :: WorkspaceStatus
  bl_state :: string
  bl_reason_code :: string

definition blocker_from_candidate :: "LoadedCandidate \<Rightarrow> string \<Rightarrow> MergeQueueBlocker" where
  "blocker_from_candidate c st =
     \<lparr>bl_candidate_id = lc_id c, bl_workspace_id = mc_workspace_id (lc_row c), bl_attempt_id = mc_attempt_id (lc_row c),
      bl_task_id = mc_task_id (lc_row c), bl_title = task_title (lc_workspace c), bl_pr_url = mc_pr_url (lc_row c),
      bl_pr_number = mc_pr_number (lc_row c), bl_status = status (lc_workspace c), bl_state = st,
      bl_reason_code = MERGE_QUEUE_WAIT_REASON_CODE\<rparr>"

definition blocker_event_payload :: "MergeQueueBlocker \<Rightarrow> string \<Rightarrow> string \<Rightarrow> (string \<times> json) list" where
  "blocker_event_payload b repo base =
     [(''reason_code'', JStr (bl_reason_code b)), (''repo_url'', JStr repo), (''base_branch'', JStr base),
      (''blocker_candidate_id'', JStr (bl_candidate_id b)), (''blocker_workspace_id'', JStr (bl_workspace_id b)),
      (''blocker_pr_url'', JStr (bl_pr_url b)),
      (''blocker_pr_number'', case bl_pr_number b of None \<Rightarrow> JNull | Some n \<Rightarrow> JInt n),
      (''blocker_title'', JStr (bl_title b)), (''blocker_status'', JStr (status_value (bl_status b))),
      (''blocker_state'', JStr (bl_state b))]"

definition open_canonical :: "LoadedCandidate \<Rightarrow> bool" where
  "open_canonical r = (mc_status (lc_row r) = Open \<and> is_canonical_for_merge (lc_attempt r))"

definition load_older_open_candidates :: "database \<Rightarrow> LoadedCandidate \<Rightarrow> LoadedCandidate list" where
  "load_older_open_candidates db c =
     sort_key candidate_age
       (filter (\<lambda>r. open_canonical r \<and> lane r = lane c \<and> lc_id r \<noteq> lc_id c \<and> is_older_candidate r c) (load_rows db))"

definition queue_blocker :: "LoadedCandidate \<Rightarrow> LoadedCandidate \<Rightarrow> MergeQueueBlocker list" where
  "queue_blocker t r =
     (if \<not> candidate_blocks_target r t then []
      else (case blocking_state r of None \<Rightarrow> [] | Some st \<Rightarrow> [blocker_from_candidate r st]))"

definition list_merge_queue_blockers_for_candidate :: "database \<Rightarrow> string \<Rightarrow> MergeQueueBlocker list" where
  "list_merge_queue_blockers_for_candidate db cid =
     (case load_candidate db cid of
        None \<Rightarrow> []
      | Some c \<Rightarrow>
          if \<not> is_merge_ready_candidate c then []
          else concat (map (queue_blocker c) (load_older_open_candidates db c)))"

definition list_merge_queue_blockers_for_workspace :: "database \<Rightarrow> string \<Rightarrow> MergeQueueBlocker list" where
  "list_merge_queue_blockers_for_workspace db wid =
     (case load_open_candidate_for_workspace db wid of
        None \<Rightarrow> []
      | Some c \<Rightarrow> list_merge_queue_blockers_for_candidate db (lc_id c))"

section \<open>A batch of candidates\<close>

text \<open>The latest requested candidate of every lane bounds the pool of possible blockers.\<close>

definition latest_step ::
    "LoadedCandidate \<Rightarrow> (string \<times> string \<rightharpoonup> LoadedCandidate) \<Rightarrow> (string \<times> string \<rightharpoonup> LoadedCandidate)" where
  "latest_step c m =
     (case m (lane c) of
        None \<Rightarrow> m(lane c \<mapsto> c)
      | Some l \<Rightarrow> if is_older_candidate l c then m(lane c \<mapsto> c) else m)"

definition load_older_open_candidate_pool :: "database \<Rightarrow> LoadedCandidate list \<Rightarrow> LoadedCandidate list" where
  "load_older_open_candidate_pool db cs =
     (let latest = fold latest_step cs Map.empty in
      sort_key (\<lambda>r. (lane r, candidate_age r))
        (filter (\<lambda>r. open_canonical r
                   \<and> (case latest (lane r) of None \<Rightarrow> False | Some c \<Rightarrow> is_older_candidate r c)) (load_rows db)))"

definition list_merge_queue_blockers_for_candidates :: "database \<Rightarrow> string list \<Rightarrow> (string \<rightharpoonup> MergeQueueBlocker list)" where
  "list_merge_queue_blockers_for_candidates db cids =
     (let ids = dedupe cids;
          ready = filter is_merge_ready_candidate (load_candidates db ids);
          pool = load_older_open_candidate_pool db ready;
          blockers = (\<lambda>c. concat (map (\<lambda>r. if lc_id r = lc_id c \<or> \<not> is_older_candidate r c then [] else queue_blocker c r)
                       (filter (\<lambda>r. lane r = lane c) pool))) in
      fold (\<lambda>c m. m(lc_id c := map_option (\<lambda>bs. bs @ blockers c) (m (lc_id c)))) ready
        (\<lambda>i. if i \<in> set ids then Some [] else None))"

section \<open>The reason shown\<close>

definition stale_reason_for_action :: "MergeCandidate \<Rightarrow> StaleReason list \<Rightarrow> string" where
  "stale_reason_for_action c rs =
     (let legacy = (case stale_reason c of None \<Rightarrow> [] | Some s \<Rightarrow> s) in
      if legacy \<in> {VALIDATION_INSUFFICIENT_TIER_STALE_REASON, VALIDATION_MISSING_FOR_CURRENT_HEAD_STALE_REASON,
                    DOCS_TASK_SCOPE_VIOLATION_STALE_REASON} then legacy
      else (case rs of r # _ \<Rightarrow> sr_reason_code r | [] \<Rightarrow> if legacy \<noteq> [] then legacy else ''stale''))"

definition required_stale_action :: "string \<Rightarrow> string" where
  "required_stale_action reason = (case stale_reason_required_action (Some reason) of Some a \<Rightarrow> if a \<noteq> [] then a else ''rebase'' | None \<Rightarrow> ''rebase'')"

definition merge_blocker_reason ::
    "MergeCandidate \<Rightarrow> StaleReason list \<Rightarrow> PolicyFinding list \<Rightarrow> MergeQueueBlocker list \<Rightarrow> string \<times> string option" where
  "merge_blocker_reason c rs fs qs =
     (let blocking = filter blocks_merge rs;
          reason = stale_reason_for_action c blocking in
      if completed c then (''completed'', None)
      else if failed_or_cancelled c then (''failed_or_cancelled'', None)
      else if not_canonical c then (''not_canonical'', None)
      else if policy_blocked c \<or> has_blocking_policy_finding fs then (''policy_blocked'', Some ''resolve_policy_findings'')
      else if (stale c \<or> blocking \<noteq> []) \<and> stale_reason_blocks_merge (Some reason)
      then (''stale'', Some (required_stale_action reason))
      else if manual_merge_required c then (''manual_merge_required'', None)
      else if waiting_for_monitor c then (''waiting_for_monitor'', None)
      else if qs \<noteq> [] then (''waiting_for_older_candidate'', Some ''wait_for_queue'')
      else if ready c then (''ready_to_merge_or_waiting_for_github'', None)
      else (''workspace_not_terminal'', None))"

definition merge_blocker_reason_from_workspace :: "Workspace \<Rightarrow> string \<times> string option" where
  "merge_blocker_reason_from_workspace w =
     (if status w = Monitoring_pr
      then (if auto_merge w then (''ready_to_merge_or_waiting_for_github'', None) else (''manual_merge_required'', None))
      else if status w = Pushing then (''waiting_for_monitor'', None)
      else if status w \<in> set MERGE_QUEUE_EXCLUDED_STATUSES then (''failed_or_cancelled'', None)
      else (''workspace_not_terminal'', None))"

record MergeCandidateReadiness =
  rd_ready :: bool
  rd_manual_merge_required :: bool
  rd_waiting_for_monitor :: bool
  rd_failed_or_cancelled :: bool
  rd_completed :: bool
  rd_not_canonical :: bool
  rd_stale :: bool
  rd_stale_reason :: "string option"

definition readiness_from_candidate :: "MergeCandidate \<Rightarrow> PolicyFinding list \<Rightarrow> MergeCandidateReadiness" where
  "readiness_from_candidate c fs =
     \<lparr>rd_ready = (ready c \<and> \<not> (policy_blocked c \<or> has_blocking_policy_finding fs)),
      rd_manual_merge_required = manual_merge_required c, rd_waiting_for_monitor = waiting_for_monitor c,
      rd_failed_or_cancelled = failed_or_cancelled c, rd_completed = completed c, rd_not_canonical = not_canonical c,
      rd_stale = stale c, rd_stale_reason = stale_reason c\<rparr>"

section \<open>Pages of the queue\<close>

datatype QueueRow = QCandidate LoadedCandidate | QLegacy Workspace

fun row_workspace :: "QueueRow \<Rightarrow> Workspace" where
  "row_workspace (QCandidate c) = lc_workspace c"
| "row_workspace (QLegacy w) = w"

definition recency :: "Workspace \<Rightarrow> instant \<times> string" where
  "recency w = (updated_at w, ws_id w)"

text \<open>A stable descending sort.\<close>

definition sort_desc :: "('a \<Rightarrow> 'k::linorder) \<Rightarrow> 'a list \<Rightarrow> 'a list" where
  "sort_desc k xs = rev (sort_key k (rev xs))"

record queue_filter =
  qf_repo_url :: "string option"
  qf_base_branch :: "string option"
  qf_status :: "WorkspaceStatus option"

definition opt_eq :: "'a option \<Rightarrow> 'a \<Rightarrow> bool" where
  "opt_eq want x = (case want of None \<Rightarrow> True | Some y \<Rightarrow> x = y)"

definition before_cursor :: "instant option \<Rightarrow> string option \<Rightarrow> Workspace \<Rightarrow> bool" where
  "before_cursor t i w =
     (case (t, i) of
        (Some t', Some i') \<Rightarrow> updated_at w < t' \<or> updated_at w = t' \<and> ws_id w < i'
      | _ \<Rightarrow> True)"

definition queue_candidate :: "queue_filter \<Rightarrow> LoadedCandidate \<Rightarrow> bool" where
  "queue_candidate f c =
     (mc_status (lc_row c) = Open \<and> status (lc_workspace c) \<notin> set WORKSPACE_TEARDOWN_STATUSES
      \<and> opt_eq (qf_repo_url f) (mc_repo_url (lc_row c)) \<and> opt_eq (qf_base_branch f) (mc_base_branch (lc_row c))
      \<and> opt_eq (qf_status f) (status (lc_workspace c)))"

definition list_queue :: "database \<Rightarrow> queue_filter \<Rightarrow> instant option \<Rightarrow> string option \<Rightarrow> int \<Rightarrow> LoadedCandidate list" where
  "list_queue db f t i limit =
     take (nat limit) (sort_desc (\<lambda>c. recency (lc_workspace c))
       (filter (\<lambda>c. queue_candidate f c \<and> before_cursor t i (lc_workspace c)) (load_rows db)))"

definition queue_legacy :: "database \<Rightarrow> queue_filter \<Rightarrow> Workspace \<Rightarrow> bool" where
  "queue_legacy db f w =
     (\<not> list_ex (\<lambda>c. mc_workspace_id c = ws_id w) (candidates db) \<and> pr_url w \<noteq> None \<and> pr_url w \<noteq> Some []
      \<and> status w \<notin> set MERGE_QUEUE_EXCLUDED_STATUSES
      \<and> opt_eq (qf_repo_url f) (repo_url w) \<and> opt_eq (qf_base_branch f) (branch_base w) \<and> opt_eq (qf_status f) (status w))"

text \<open>\<open>rows\<close> is the workspace table.\<close>

definition list_merge_queue_without_candidates ::
    "database \<Rightarrow> queue_filter \<Rightarrow> instant option \<Rightarrow> string option \<Rightarrow> int \<Rightarrow> Workspace list \<Rightarrow> Workspace list" where
  "list_merge_queue_without_candidates db f t i limit rows =
     take (nat limit) (sort_desc recency (filter (\<lambda>w. queue_legacy db f w \<and> before_cursor t i w) rows))"

record DecodedCursor =
  dc_updated_at :: instant
  dc_workspace_id :: string

record queue_page =
  page_rows :: "QueueRow list"
  next_cursor :: "DecodedCursor option"
  has_more :: bool

text \<open>The rows of one page; the cursor is taken in its decoded form.\<close>

definition merge_queue_page :: "database \<Rightarrow> Workspace list \<Rightarrow> queue_filter \<Rightarrow> int \<Rightarrow> DecodedCursor option \<Rightarrow> queue_page" where
  "merge_queue_page db table f limit cursor =
     (let t = map_option dc_updated_at cursor; i = map_option dc_workspace_id cursor;
          rows = sort_desc (\<lambda>r. recency (row_workspace r))
                   (map QCandidate (list_queue db f t i (limit + 1))
                    @ map QLegacy (list_merge_queue_without_candidates db f t i (limit + 1) table));
          page = take (nat limit) rows;
          more = limit < int (length rows) in
      \<lparr>page_rows = page,
       next_cursor = (if more \<and> page \<noteq> []
                      then Some \<lparr>dc_updated_at = updated_at (row_workspace (last page)), dc_workspace_id = ws_id (row_workspace (last page))\<rparr>
                      else None),
       has_more = more\<rparr>)"

end
