(* ===== verification/Merge_Queue_Properties.thy ===== *)
theory Merge_Queue_Properties
  imports Merge_Queue
begin

text \<open>
  Correctness of the merge queue: the batch query answers as the single one, of two overlapping candidates exactly the older one
  blocks, the queue always has a head that only recoveries hold up, the reason shown is exact, and the pages over two
  tables are the slices of one queue.
\<close>

section \<open>Age is a strict linear order\<close>

lemma is_older_iff: "is_older_candidate c t \<longleftrightarrow> candidate_age c < candidate_age t"
  by (auto simp: is_older_candidate_def candidate_age_def)

lemma age_ident: "candidate_age c = candidate_age t \<Longrightarrow> lc_id c = lc_id t"
  by (simp add: candidate_age_def)

lemma map_filter_keys:
  assumes "\<And>x y. g x = Some y \<Longrightarrow> k y = h x"
  shows "map k (List.map_filter g xs) = map h (filter (\<lambda>x. g x \<noteq> None) xs)"
  using assms by (induction xs) (auto simp: List.map_filter_simps split: option.splits)

lemma load_rows_ids: "distinct (map mc_id (candidates db)) \<Longrightarrow> distinct (map lc_id (load_rows db))"
  unfolding load_rows_def by (subst map_filter_keys [where h = mc_id]) (auto simp: lc_id_def distinct_map_filter split: option.splits)

lemma find_unique:
  assumes "distinct (map g xs)" and "x \<in> set xs"
  shows "find (\<lambda>y. g y = g x) xs = Some x"
  using assms by (induction xs) (auto simp: image_iff)

lemma set_map_filter: "set (List.map_filter g xs) = {y. \<exists>x \<in> set xs. g x = Some y}"
  by (induction xs) (auto simp: List.map_filter_simps split: option.splits)

lemma load_candidate_member:
  "distinct (map mc_id (candidates db)) \<Longrightarrow> c \<in> set (load_rows db) \<Longrightarrow> load_candidate db (lc_id c) = Some c"
  by (simp add: load_candidate_def find_unique load_rows_ids)

section \<open>Blockers\<close>

definition blocks :: "LoadedCandidate \<Rightarrow> LoadedCandidate \<Rightarrow> bool" where
  "blocks r t = (open_canonical r \<and> lane r = lane t \<and> lc_id r \<noteq> lc_id t \<and> is_older_candidate r t \<and> candidate_blocks_target r t \<and> blocking_state r \<noteq> None)"

lemma queue_blocker_filter:
  "concat (map (queue_blocker t) rs) =
   map (\<lambda>r. blocker_from_candidate r (the (blocking_state r))) (filter (\<lambda>r. candidate_blocks_target r t \<and> blocking_state r \<noteq> None) rs)"
  by (induction rs) (auto simp: queue_blocker_def)

lemma single_blockers:
  assumes "load_candidate db i = Some c" and "is_merge_ready_candidate c"
  shows "list_merge_queue_blockers_for_candidate db i =
    map (\<lambda>r. blocker_from_candidate r (the (blocking_state r))) (sort_key candidate_age (filter (\<lambda>r. blocks r c) (load_rows db)))"
proof -
  have "filter (\<lambda>r. open_canonical r \<and> lane r = lane c \<and> lc_id r \<noteq> lc_id c \<and> is_older_candidate r c
          \<and> candidate_blocks_target r c \<and> blocking_state r \<noteq> None) (load_rows db) = filter (\<lambda>r. blocks r c) (load_rows db)"
    by (intro filter_cong) (auto simp: blocks_def)
  then show ?thesis
    using assms
    by (simp add: list_merge_queue_blockers_for_candidate_def queue_blocker_filter load_older_open_candidates_def filter_sort
        filter_filter conj_assoc conj_commute conj_left_commute)
qed

lemma blocker_ids:
  assumes "load_candidate db i = Some c" and "is_merge_ready_candidate c"
  shows "bl_candidate_id ` set (list_merge_queue_blockers_for_candidate db i) = lc_id ` {r \<in> set (load_rows db). blocks r c}"
  by (auto simp: single_blockers [OF assms] blocker_from_candidate_def image_image)

section \<open>The batch agrees with the single query\<close>

lemma sort_key_equiv:
  assumes "\<And>x y. x \<in> set xs \<Longrightarrow> y \<in> set xs \<Longrightarrow> (f x \<le> f y) = (g x \<le> g y)"
  shows "sort_key f xs = sort_key g xs"
  using assms
proof (induction xs)
  case (Cons x xs)
  have "insort_key f x ys = insort_key g x ys" if "\<And>y. y \<in> set ys \<Longrightarrow> (f x \<le> f y) = (g x \<le> g y)" for ys
    using that by (induction ys) auto
  from this [of "sort_key g xs"] Cons show ?case
    by simp
qed simp

definition upto_latest :: "(string \<times> string \<rightharpoonup> LoadedCandidate) \<Rightarrow> LoadedCandidate \<Rightarrow> bool" where
  "upto_latest m c = (\<exists>l. m (lane c) = Some l \<and> \<not> is_older_candidate l c)"

lemma latest_step_keeps:
  "upto_latest m c \<Longrightarrow> upto_latest (latest_step x m) c" "upto_latest (latest_step x m) x"
  by (auto simp: latest_step_def upto_latest_def is_older_iff split: option.splits)

lemma fold_latest: "c \<in> set cs \<or> upto_latest m c \<Longrightarrow> upto_latest (fold latest_step cs m) c"
  by (induction cs arbitrary: m) (auto simp: latest_step_keeps)

lemma pool_blockers:
  assumes "c \<in> set cs"
  shows "concat (map (\<lambda>r. if lc_id r = lc_id c \<or> \<not> is_older_candidate r c then [] else queue_blocker c r)
           (filter (\<lambda>r. lane r = lane c) (load_older_open_candidate_pool db cs)))
     = map (\<lambda>r. blocker_from_candidate r (the (blocking_state r))) (sort_key candidate_age (filter (\<lambda>r. blocks r c) (load_rows db)))"
    (is "?lhs = _")
proof -
  let ?latest = "fold latest_step cs Map.empty"
  obtain l where l: "?latest (lane c) = Some l" "\<not> is_older_candidate l c"
    using fold_latest [of c cs] assms unfolding upto_latest_def by blast
  have reach: "is_older_candidate r c \<Longrightarrow> is_older_candidate r l" for r
    using l(2) by (simp add: is_older_iff)
  have "concat (map (\<lambda>r. if lc_id r = lc_id c \<or> \<not> is_older_candidate r c then [] else queue_blocker c r) rs)
      = concat (map (queue_blocker c) (filter (\<lambda>r. lc_id r \<noteq> lc_id c \<and> is_older_candidate r c) rs))" for rs
    by (induction rs) auto
  then have "?lhs = map (\<lambda>r. blocker_from_candidate r (the (blocking_state r)))
      (filter (\<lambda>r. candidate_blocks_target r c \<and> blocking_state r \<noteq> None) (filter (\<lambda>r. lc_id r \<noteq> lc_id c \<and> is_older_candidate r c)
        (filter (\<lambda>r. lane r = lane c) (load_older_open_candidate_pool db cs))))"
    by (simp add: queue_blocker_filter)
  also have "(filter (\<lambda>r. candidate_blocks_target r c \<and> blocking_state r \<noteq> None) (filter (\<lambda>r. lc_id r \<noteq> lc_id c \<and> is_older_candidate r c)
        (filter (\<lambda>r. lane r = lane c) (load_older_open_candidate_pool db cs))))
      = sort_key (\<lambda>r. (lane r, candidate_age r)) (filter (\<lambda>r. blocks r c) (load_rows db))"
    unfolding load_older_open_candidate_pool_def Let_def filter_sort filter_filter
    by (intro arg_cong2 [where f = sort_key] refl filter_cong) (auto simp: blocks_def l(1) reach)
  also have "\<dots> = sort_key candidate_age (filter (\<lambda>r. blocks r c) (load_rows db))"
    by (rule sort_key_equiv) (auto simp: blocks_def)
  finally show ?thesis .
qed

lemma set_dedupe [simp]: "set (dedupe xs) = set xs"
  by (induction xs) auto

lemma fold_append_at:
  assumes "distinct (map g cs)"
  shows "fold (\<lambda>c m. m(g c := map_option (\<lambda>bs. bs @ h c) (m (g c)))) cs m i =
    (case find (\<lambda>c. g c = i) cs of None \<Rightarrow> m i | Some c \<Rightarrow> map_option (\<lambda>bs. bs @ h c) (m i))"
  using assms
proof (induction cs arbitrary: m)
  case (Cons c cs)
  have "find (\<lambda>c'. g c' = g c) cs = None"
    using Cons.prems by (auto simp: find_None_iff image_iff)
  with Cons show ?case
    by (auto split: option.splits)
qed simp

lemma find_filter: "distinct (map g xs) \<Longrightarrow> find (\<lambda>c. g c = i) (filter P xs) = (case find (\<lambda>c. g c = i) xs of Some c \<Rightarrow> if P c then Some c else None | None \<Rightarrow> None)"
proof (induction xs)
  case (Cons x xs)
  show ?case
  proof (cases "g x = i")
    case True
    then have "find (\<lambda>c. g c = i) (filter P xs) = None"
      using Cons.prems by (auto simp: find_None_iff image_iff)
    with True show ?thesis by simp
  qed (use Cons in auto)
qed simp

text \<open>
  Property C20: asking for the blockers of a batch of candidates, which reads one pool bounded by the latest candidate of every lane, gives for every
  candidate exactly the list that asking for it alone gives, in the same order.
\<close>

theorem batch_blockers_agree:
  assumes "distinct (map mc_id (candidates db))" and "i \<in> set ids"
  shows "list_merge_queue_blockers_for_candidates db ids i = Some (list_merge_queue_blockers_for_candidate db i)"
proof -
  let ?P = "\<lambda>r. is_merge_ready_candidate r \<and> lc_id r \<in> set ids"
  let ?ready = "filter ?P (load_rows db)"
  have d: "distinct (map lc_id (load_rows db))"
    by (rule load_rows_ids [OF assms(1)])
  then have "distinct (map lc_id ?ready)"
    by (simp add: distinct_map_filter)
  note f = fold_append_at [OF this]
  have ready: "filter is_merge_ready_candidate (load_candidates db (dedupe ids)) = ?ready"
    by (simp add: load_candidates_def conj_commute)
  note batch = list_merge_queue_blockers_for_candidates_def Let_def ready f find_filter [OF d]
  show ?thesis
  proof (cases "load_candidate db i")
    case None
    then show ?thesis
      using assms(2) unfolding batch by (simp add: list_merge_queue_blockers_for_candidate_def load_candidate_def)
  next
    case (Some c)
    then have c: "c \<in> set (load_rows db)" "lc_id c = i"
      by (auto simp: load_candidate_def find_Some_iff)
    show ?thesis
    proof (cases "is_merge_ready_candidate c")
      case True
      with c assms(2) have "c \<in> set ?ready"
        by simp
      from pool_blockers [OF this, of db] show ?thesis
        using True Some c assms(2) single_blockers [OF Some True] unfolding batch by (simp add: load_candidate_def)
    next
      case False
      then show ?thesis
        using Some c assms(2) unfolding batch by (simp add: list_merge_queue_blockers_for_candidate_def load_candidate_def)
    qed
  qed
qed

section \<open>Who blocks whom\<close>

lemma candidate_blocks_sym: "candidate_blocks_target c t \<longleftrightarrow> candidate_blocks_target t c"
proof -
  have "owned_paths_overlap p q = owned_paths_overlap q p" for p q
    by (rule owned_paths_overlap_symmetric [THEN conjunct1])
  then show ?thesis
    unfolding candidate_blocks_target_def Let_def list_ex_iff by (auto simp: Bex_def)
qed

lemma ready_blocking: "is_merge_ready_candidate c \<Longrightarrow> open_canonical c \<and> blocking_state c = Some ''merge_eligible''"
  by (simp add: is_merge_ready_candidate_def open_canonical_def blocking_state_def)

text \<open>
  Property C2: merges of overlapping work are serialised by age.  Of two merge-ready candidates of one repository and base branch whose owned
  paths overlap, the older one blocks the younger one and not the other way round, so they are never both free to merge
  and never wait for each other.
\<close>

theorem overlapping_merges_serialized:
  assumes ids: "distinct (map mc_id (candidates db))"
    and rows: "a \<in> set (load_rows db)" "b \<in> set (load_rows db)" "lc_id a \<noteq> lc_id b"
    and cand: "is_merge_ready_candidate a" "is_merge_ready_candidate b"
    and over: "lane a = lane b" "candidate_blocks_target a b"
  shows "(lc_id a \<in> bl_candidate_id ` set (list_merge_queue_blockers_for_candidate db (lc_id b)) \<longleftrightarrow> is_older_candidate a b)
    \<and> (lc_id b \<in> bl_candidate_id ` set (list_merge_queue_blockers_for_candidate db (lc_id a)) \<longleftrightarrow> \<not> is_older_candidate a b)"
proof -
  have uniq: "r = s" if "r \<in> set (load_rows db)" "s \<in> set (load_rows db)" "lc_id r = lc_id s" for r s
    using load_rows_ids [OF ids] that by (simp add: distinct_map inj_on_def)
  have iff: "lc_id x \<in> bl_candidate_id ` set (list_merge_queue_blockers_for_candidate db (lc_id y)) \<longleftrightarrow> blocks x y"
    if "x \<in> set (load_rows db)" "y \<in> set (load_rows db)" "is_merge_ready_candidate y" for x y
    using that uniq by (auto simp: blocker_ids [OF load_candidate_member [OF ids that(2)] that(3)])
  have "blocks x y \<longleftrightarrow> is_older_candidate x y"
    if "is_merge_ready_candidate x" "lane x = lane y" "candidate_blocks_target x y" "lc_id x \<noteq> lc_id y" for x y
    using that ready_blocking [OF that(1)] by (simp add: blocks_def)
  then have ab: "blocks a b \<longleftrightarrow> is_older_candidate a b" "blocks b a \<longleftrightarrow> is_older_candidate b a"
    using cand over rows(3) candidate_blocks_sym [of a b] by auto
  have "is_older_candidate b a \<longleftrightarrow> \<not> is_older_candidate a b"
    using rows(3) age_ident [of a b] unfolding is_older_iff by (metis less_asym neqE)
  then show ?thesis
    using iff [OF rows(1) rows(2) cand(2)] iff [OF rows(2) rows(1) cand(1)] ab by simp
qed

text \<open>
  Property C22: the queue never stands still on its own account.  In the lane of any merge-ready candidate there is a merge-ready candidate, no younger
  than it, that waits for nothing but workspaces the PR monitor is just recovering.
\<close>

theorem merge_queue_progress:
  assumes ids: "distinct (map mc_id (candidates db))"
    and c: "c \<in> set (load_rows db)" "is_merge_ready_candidate c"
  shows "\<exists>h \<in> set (load_rows db). is_merge_ready_candidate h \<and> lane h = lane c \<and> \<not> is_older_candidate c h
    \<and> list_all (\<lambda>b. bl_state b = ''monitor_owned_recovery'') (list_merge_queue_blockers_for_candidate db (lc_id h))"
proof -
  let ?S = "{h \<in> set (load_rows db). is_merge_ready_candidate h \<and> lane h = lane c}"
  have "finite ?S" "?S \<noteq> {}"
    using c by auto
  then obtain h where h: "h \<in> ?S" "\<And>x. x \<in> ?S \<Longrightarrow> candidate_age h \<le> candidate_age x"
    using ex_min_if_finite [of "candidate_age ` ?S"] by (auto simp: not_less)
  have "bl_state b = ''monitor_owned_recovery''" if b: "b \<in> set (list_merge_queue_blockers_for_candidate db (lc_id h))" for b
  proof -
    obtain r where r: "r \<in> set (load_rows db)" "blocks r h" "b = blocker_from_candidate r (the (blocking_state r))"
      using b h(1) by (auto simp: single_blockers [OF load_candidate_member [OF ids]])
    then have "\<not> is_merge_ready_candidate r"
      using h(1) h(2) [of r] by (auto simp: blocks_def is_older_iff)
    with r show ?thesis
      by (auto simp: blocks_def blocking_state_def blocker_from_candidate_def split: if_splits)
  qed
  moreover have "\<not> is_older_candidate c h"
    using h(2) [of c] c by (simp add: is_older_iff not_less)
  ultimately show ?thesis
    using h(1) by (auto simp: list_all_iff)
qed

section \<open>The reason shown\<close>

lemma first_blocking_reason: "filter blocks_merge rs \<noteq> [] \<Longrightarrow> stale_reason_blocks_merge (Some (stale_reason_for_action c (filter blocks_merge rs)))"
proof -
  assume "filter blocks_merge rs \<noteq> []"
  then obtain r qs where r: "filter blocks_merge rs = r # qs"
    by (cases "filter blocks_merge rs") auto
  then have "blocks_merge r"
    by (metis filter_eq_Cons_iff)
  then show ?thesis
    using r by (auto simp: stale_reason_for_action_def Let_def blocks_merge_def stale_reason_blocks_merge_def ADVISORY_PLAN_ARTIFACT_OVERLAP_REASON_def
        VALIDATION_INSUFFICIENT_TIER_STALE_REASON_def VALIDATION_MISSING_FOR_CURRENT_HEAD_STALE_REASON_def DOCS_TASK_SCOPE_VIOLATION_STALE_REASON_def)
qed

text \<open>
  The queue view announces a candidate as ready exactly when its re-derived flags say ready, no active policy finding and no active
  stale reason blocks it, and no older candidate is in its way; it asks the operator to wait for the queue exactly in
  the same situation with older candidates in the way.
\<close>

theorem shown_ready_exact:
  "(fst (merge_blocker_reason (sync_readiness w a c) rs fs qs) = ''ready_to_merge_or_waiting_for_github''
      \<longleftrightarrow> ready (sync_readiness w a c) \<and> \<not> has_blocking_policy_finding fs \<and> \<not> list_ex blocks_merge rs \<and> qs = [])
   \<and> (merge_blocker_reason (sync_readiness w a c) rs fs qs = (''waiting_for_older_candidate'', Some ''wait_for_queue'') \<and> ready (sync_readiness w a c)
      \<longleftrightarrow> ready (sync_readiness w a c) \<and> \<not> has_blocking_policy_finding fs \<and> \<not> list_ex blocks_merge rs \<and> qs \<noteq> [])"
proof -
  let ?c = "sync_readiness w a c"
  have facts: "ready ?c \<Longrightarrow> \<not> completed ?c \<and> \<not> failed_or_cancelled ?c \<and> \<not> not_canonical ?c \<and> \<not> policy_blocked ?c
      \<and> \<not> stale ?c \<and> \<not> manual_merge_required ?c \<and> \<not> waiting_for_monitor ?c"
    by (auto simp: sync_readiness_flags flags_def Let_def)
  have ex: "list_ex blocks_merge rs \<longleftrightarrow> filter blocks_merge rs \<noteq> []"
    by (auto simp: list_ex_iff filter_empty_conv)
  note b = first_blocking_reason [of rs ?c]
  show ?thesis
  proof (cases "ready ?c")
    case True
    with facts b show ?thesis
      unfolding ex by (auto simp: merge_blocker_reason_def Let_def)
  next
    case False
    then show ?thesis
      by (simp add: merge_blocker_reason_def Let_def)
  qed
qed

section \<open>An example queue\<close>

definition queue_workspace :: "string \<Rightarrow> string list \<Rightarrow> Workspace" where
  "queue_workspace i ps = (sample_workspace i Monitoring_pr)\<lparr>owned_paths := ps, ws_operations := Some []\<rparr>"

definition queue_candidate_row :: "string \<Rightarrow> string \<Rightarrow> string \<Rightarrow> instant \<Rightarrow> MergeCandidate" where
  "queue_candidate_row i a w t =
     \<lparr>mc_id = i, mc_task_id = ''t1'', mc_attempt_id = a, mc_workspace_id = w, mc_pr_url = ''pr'', mc_pr_number = Some 1,
      mc_repo_url = ''git@host:r'', mc_base_branch = ''main'', mc_branch_name = None, mc_head_sha = None, mc_base_sha = None,
      mc_status = Open, close_reason = None, ready = True, manual_merge_required = False, waiting_for_monitor = False,
      failed_or_cancelled = False, completed = False, not_canonical = False, policy_blocked = False, stale = False,
      stale_reason = None, mc_created_at = t, mc_updated_at = t, closed_at = None, merged_at = None\<rparr>"

definition queue_attempt :: "string \<Rightarrow> string \<Rightarrow> TaskAttempt" where
  "queue_attempt i w = sample_attempt\<lparr>at_id := i, at_workspace_id := w, is_canonical_for_merge := True\<rparr>"

definition queue_db :: database where
  "queue_db = (sample_db Monitoring_pr)
     \<lparr>workspaces := [''w1'' \<mapsto> queue_workspace ''w1'' [''src/*''], ''w2'' \<mapsto> queue_workspace ''w2'' [''src/a'']],
      attempts := [queue_attempt ''a1'' ''w1'', queue_attempt ''a2'' ''w2''],
      candidates := [queue_candidate_row ''k1'' ''a1'' ''w1'' 1, queue_candidate_row ''k2'' ''a2'' ''w2'' 2]\<rparr>"

definition older_row :: LoadedCandidate where
  "older_row = \<lparr>lc_row = queue_candidate_row ''k1'' ''a1'' ''w1'' 1, lc_attempt = queue_attempt ''a1'' ''w1'',
     lc_workspace = queue_workspace ''w1'' [''src/*'']\<rparr>"

definition younger_row :: LoadedCandidate where
  "younger_row = \<lparr>lc_row = queue_candidate_row ''k2'' ''a2'' ''w2'' 2, lc_attempt = queue_attempt ''a2'' ''w2'',
     lc_workspace = queue_workspace ''w2'' [''src/a'']\<rparr>"

lemma queue_db_facts:
  "distinct (map mc_id (candidates queue_db))" "load_rows queue_db = [older_row, younger_row]"
  "is_merge_ready_candidate older_row" "is_merge_ready_candidate younger_row" "lane older_row = lane younger_row"
  "lc_id older_row = ''k1''" "lc_id younger_row = ''k2''" "is_older_candidate older_row younger_row"
  by (simp_all add: queue_db_def load_rows_def List.map_filter_simps older_row_def younger_row_def queue_candidate_row_def
      queue_attempt_def queue_workspace_def is_merge_ready_candidate_def lane_def lc_id_def sample_workspace_def is_older_candidate_def)

lemma queue_db_overlap: "candidate_blocks_target older_row younger_row"
  by code_simp

theorem batch_blockers_agree_witness:
  "list_merge_queue_blockers_for_candidates queue_db [''k2''] ''k2'' = Some (list_merge_queue_blockers_for_candidate queue_db ''k2'')"
  by (rule batch_blockers_agree [OF queue_db_facts(1)]) simp

theorem overlapping_merges_serialized_witness:
  "''k1'' \<in> bl_candidate_id ` set (list_merge_queue_blockers_for_candidate queue_db ''k2'')
   \<and> ''k2'' \<notin> bl_candidate_id ` set (list_merge_queue_blockers_for_candidate queue_db ''k1'')"
  using overlapping_merges_serialized [OF queue_db_facts(1) _ _ _ queue_db_facts(3-5) queue_db_overlap]
  by (simp add: queue_db_facts)

theorem merge_queue_progress_witness:
  "\<exists>h \<in> set (load_rows queue_db). \<not> is_older_candidate younger_row h
     \<and> list_all (\<lambda>b. bl_state b = ''monitor_owned_recovery'') (list_merge_queue_blockers_for_candidate queue_db (lc_id h))"
  using merge_queue_progress [OF queue_db_facts(1) _ queue_db_facts(4)] by (auto simp: queue_db_facts(2))

end
