(* ===== verification/Merge_Queue_Paging.thy ===== *)
theory Merge_Queue_Paging
  imports Merge_Queue_Properties
begin

text \<open>
  Pages over two tables.  Each table contributes its newest rows, one more than a page holds; the lemmas show that the newest
  rows of the union are among them, so that successive pages are the slices of one queue.
\<close>

section \<open>Newest rows\<close>

lemma insort_split: "insort_key k x S = takeWhile (\<lambda>y. k y < k x) S @ x # dropWhile (\<lambda>y. k y < k x) S"
  by (induction S) auto

lemma take_rev_insort:
  assumes "n \<le> length (dropWhile (\<lambda>y. k y < k x) S)"
  shows "take n (rev (insort_key k x S)) = take n (rev S)"
proof -
  have "rev S = rev (dropWhile (\<lambda>y. k y < k x) S) @ rev (takeWhile (\<lambda>y. k y < k x) S)"
    by (metis rev_append takeWhile_dropWhile_id)
  then show ?thesis
    using assms by (simp add: insort_split)
qed

lemma length_dropWhile_sorted:
  assumes "sorted (map k S)"
  shows "length (dropWhile (\<lambda>y. k y < k x) S) = length (filter (\<lambda>y. k x \<le> k y) S)"
  using assms
proof (induction S)
  case (Cons y S)
  show ?case
  proof (cases "k y < k x")
    case True
    with Cons show ?thesis by (simp add: not_le [symmetric])
  next
    case False
    then have "filter (\<lambda>y. k x \<le> k y) (y # S) = y # S"
      using Cons.prems by (auto simp: filter_id_conv intro: order_trans)
    with False show ?thesis by simp
  qed
qed simp

definition newest :: "('a \<Rightarrow> 'k::linorder) \<Rightarrow> nat \<Rightarrow> 'a list \<Rightarrow> 'a list" where
  "newest k n xs = take n (rev (sort_key k xs))"

lemma newest_Cons:
  assumes "n \<le> length (filter (\<lambda>y. k x \<le> k y) xs)"
  shows "newest k n (x # xs) = newest k n xs"
proof -
  have "length (filter (\<lambda>y. k x \<le> k y) (sort_key k xs)) = length (filter (\<lambda>y. k x \<le> k y) xs)"
    by (simp add: filter_sort)
  then have "n \<le> length (dropWhile (\<lambda>y. k y < k x) (sort_key k xs))"
    using assms by (simp add: length_dropWhile_sorted)
  then show ?thesis
    by (simp add: newest_def take_rev_insort)
qed

lemma newest_drop_old:
  assumes "\<And>o' r. o' \<in> set old \<Longrightarrow> r \<in> set recent \<Longrightarrow> k o' \<le> k r" and "old = [] \<or> n \<le> length recent"
  shows "newest k n (old @ recent @ ys) = newest k n (recent @ ys)"
  using assms
proof (induction old)
  case (Cons x old)
  have "filter (\<lambda>y. k x \<le> k y) recent = recent"
    using Cons.prems(1) by (simp add: filter_id_conv)
  then have "n \<le> length (filter (\<lambda>y. k x \<le> k y) (old @ recent @ ys))"
    using Cons.prems(2) by simp
  from newest_Cons [OF this] have "newest k n ((x # old) @ recent @ ys) = newest k n (old @ recent @ ys)"
    by simp
  also have "\<dots> = newest k n (recent @ ys)"
    using Cons by (intro Cons.IH) auto
  finally show ?case .
qed simp

lemma sort_key_perm:
  assumes "set xs = set ys" "distinct xs" "distinct ys" "inj_on k (set xs)"
  shows "sort_key k xs = sort_key k ys"
proof -
  have "map k (sort_key k xs) = map k (sort_key k ys)"
    using assms by (intro sorted_distinct_set_unique) (simp_all add: distinct_map)
  then show ?thesis
    using assms by (metis map_inj_on set_sort sup.idem)
qed

lemma sort_desc_newest: "inj_on k (set xs) \<Longrightarrow> distinct xs \<Longrightarrow> sort_desc k xs = rev (sort_key k xs)"
  using sort_key_perm [of "rev xs" xs k] by (simp add: sort_desc_def)

lemma newest_perm:
  "set xs = set ys \<Longrightarrow> distinct xs \<Longrightarrow> distinct ys \<Longrightarrow> inj_on k (set xs) \<Longrightarrow> newest k n xs = newest k n ys"
  unfolding newest_def by (rule arg_cong [OF sort_key_perm])

lemma newest_half:
  assumes "inj_on k (set (A @ B))" and "distinct (A @ B)" and "n \<le> m"
  shows "newest k n (A @ B) = newest k n (newest k m A @ B)"
proof -
  let ?R = "rev (sort_key k A)"
  have r: "newest k m A = take m ?R" by (simp add: newest_def)
  have s: "sorted_wrt (\<lambda>x y. k y \<le> k x) (take m ?R @ drop m ?R)"
    using sorted_sort_key [of k A] by (simp add: sorted_wrt_rev sorted_map)
  then have "k o' \<le> k r" if "o' \<in> set (drop m ?R)" "r \<in> set (newest k m A)" for o' r
    using that unfolding r sorted_wrt_append by blast
  moreover have "drop m ?R = [] \<or> n \<le> length (newest k m A)"
    using assms(3) by (auto simp: r)
  ultimately have "newest k n (newest k m A @ B) = newest k n (drop m ?R @ newest k m A @ B)"
    by (simp add: newest_drop_old)
  also have "\<dots> = newest k n (A @ B)"
  proof (rule newest_perm)
    have sr: "set (drop m ?R) \<union> set (take m ?R) = set A"
      using set_append [of "take m ?R" "drop m ?R"] by (simp add: Un_commute)
    show st: "set (drop m ?R @ newest k m A @ B) = set (A @ B)"
      using sr by (auto simp: r)
    have "distinct (take m ?R @ drop m ?R)"
      using assms(2) by simp
    then show "distinct (drop m ?R @ newest k m A @ B)"
      using assms(2) sr unfolding r distinct_append by auto
    show "inj_on k (set (drop m ?R @ newest k m A @ B))"
      unfolding st by (rule assms(1))
  qed (rule assms(2))
  finally show ?thesis by simp
qed

lemma newest_subset: "set (newest k n xs) \<subseteq> set xs" and newest_distinct: "distinct xs \<Longrightarrow> distinct (newest k n xs)"
  and newest_length: "length (newest k n xs) = min n (length xs)"
  using set_take_subset [of n "rev (sort_key k xs)"] by (auto simp: newest_def)

lemma newest_merge:
  assumes "inj_on k (set (A @ B))" and "distinct (A @ B)" and "n \<le> m"
  shows "newest k n (newest k m A @ newest k m B) = newest k n (A @ B)"
proof -
  have sub: "set (newest k m A) \<subseteq> set A" "set (newest k m B) \<subseteq> set B"
    by (rule newest_subset)+
  have d: "distinct (newest k m A @ B)" "distinct (B @ newest k m A)" "distinct (newest k m B @ newest k m A)" "distinct (newest k m A @ newest k m B)"
    using assms(2) sub by (auto simp: newest_distinct)
  have i: "inj_on k (set (newest k m A @ B))" "inj_on k (set (B @ newest k m A))" "inj_on k (set (newest k m B @ newest k m A))"
    by (rule inj_on_subset [OF assms(1)], use sub in auto)+
  have "newest k n (A @ B) = newest k n (newest k m A @ B)"
    by (rule newest_half [OF assms])
  also have "\<dots> = newest k n (B @ newest k m A)"
    by (rule newest_perm) (use d i in auto)
  also have "\<dots> = newest k n (newest k m B @ newest k m A)"
    by (rule newest_half [OF i(2) d(2) assms(3)])
  also have "\<dots> = newest k n (newest k m A @ newest k m B)"
    by (rule newest_perm) (use d i in auto)
  finally show ?thesis by simp
qed

section \<open>The queue and its slices\<close>

abbreviation row_key :: "QueueRow \<Rightarrow> instant \<times> string" where
  "row_key r \<equiv> recency (row_workspace r)"

definition queue_rows :: "database \<Rightarrow> Workspace list \<Rightarrow> queue_filter \<Rightarrow> QueueRow list" where
  "queue_rows db table f = map QCandidate (filter (queue_candidate f) (load_rows db)) @ map QLegacy (filter (queue_legacy db f) table)"

definition merge_queue :: "database \<Rightarrow> Workspace list \<Rightarrow> queue_filter \<Rightarrow> QueueRow list" where
  "merge_queue db table f = sort_desc row_key (queue_rows db table f)"

definition cursor_at :: "QueueRow list \<Rightarrow> nat \<Rightarrow> DecodedCursor option" where
  "cursor_at Q i =
     (if i = 0 then None
      else Some \<lparr>dc_updated_at = updated_at (row_workspace (Q ! (i - 1))), dc_workspace_id = ws_id (row_workspace (Q ! (i - 1)))\<rparr>)"

lemma row_key_ident: "row_key r = row_key s \<Longrightarrow> ws_id (row_workspace r) = ws_id (row_workspace s)"
  by (simp add: recency_def)

lemma queue_rows_distinct:
  assumes "db_keys_ok db" and "distinct (map mc_workspace_id (candidates db))" and "distinct (map ws_id table)"
  shows "distinct (map (\<lambda>r. ws_id (row_workspace r)) (queue_rows db table f))"
proof -
  let ?cs = "filter (queue_candidate f) (load_rows db)"
  have row: "mc_workspace_id (lc_row c) = ws_id (lc_workspace c) \<and> lc_row c \<in> set (candidates db)" if "c \<in> set (load_rows db)" for c
    using that assms(1) by (auto simp: load_rows_def map_filter_def db_keys_ok_def split: option.splits)
  have "distinct (map (\<lambda>c. mc_workspace_id (lc_row c)) (load_rows db))"
    unfolding load_rows_def by (subst map_filter_keys [where h = mc_workspace_id]) (use assms(2) in \<open>auto simp: distinct_map_filter split: option.splits\<close>)
  then have "distinct (map (\<lambda>c. ws_id (lc_workspace c)) (load_rows db))"
    using row by (simp cong: map_cong)
  then have 1: "distinct (map (\<lambda>c. ws_id (lc_workspace c)) ?cs)"
    by (simp add: distinct_map_filter)
  have 2: "distinct (map ws_id (filter (queue_legacy db f) table))"
    using assms(3) by (simp add: distinct_map_filter)
  have "ws_id w \<noteq> ws_id (lc_workspace c)" if "c \<in> set (load_rows db)" "queue_legacy db f w" for c w
    using that row [OF that(1)] by (auto simp: queue_legacy_def list_ex_iff)
  with 1 2 show ?thesis
    by (fastforce simp: queue_rows_def o_def)
qed

lemma map_sort_key: "map g (sort_key (\<lambda>x. k (g x)) xs) = sort_key k (map g xs)"
proof -
  have "map g (insort_key (\<lambda>x. k (g x)) x ys) = insort_key k (g x) (map g ys)" for x ys
    by (induction ys) auto
  then show ?thesis
    by (induction xs) auto
qed

lemma map_sort_desc: "map g (sort_desc (\<lambda>x. k (g x)) xs) = sort_desc k (map g xs)"
  by (simp add: sort_desc_def map_sort_key rev_map [symmetric])

lemma sorted_wrt_after_nth:
  assumes "sorted_wrt R S" and "\<And>x y. R x y \<Longrightarrow> \<not> R y x" and "i < length S"
  shows "filter (R (S ! i)) S = drop (Suc i) S"
  using assms(1,3)
proof (induction S arbitrary: i)
  case (Cons x S)
  have irr: "\<not> R x x"
    using assms(2) by blast
  show ?case
  proof (cases i)
    case 0
    with Cons.prems irr show ?thesis by (auto simp: filter_id_conv)
  next
    case (Suc j)
    then have "R x (S ! j)"
      using Cons.prems by simp
    with Suc Cons assms(2) show ?thesis by auto
  qed
qed simp

lemma inj_row_key:
  assumes "distinct (map (\<lambda>r. ws_id (row_workspace r)) rs)"
  shows "inj_on row_key (set rs)" "distinct rs"
proof -
  have "inj_on (\<lambda>r. ws_id (row_workspace r)) (set rs)"
    using assms by (simp add: distinct_map)
  then show "inj_on row_key (set rs)"
    by (auto intro!: inj_onI dest!: row_key_ident dest: inj_onD)
  show "distinct rs"
    using assms by (simp add: distinct_map)
qed

lemma queue_strict:
  assumes "distinct (map (\<lambda>r. ws_id (row_workspace r)) rs)"
  shows "sorted_wrt (\<lambda>x y. row_key y < row_key x) (sort_desc row_key rs)"
proof -
  note i = inj_row_key [OF assms]
  have "distinct (map row_key (sort_key row_key rs))"
    using i by (simp add: distinct_map)
  then have "sorted_wrt (<) (map row_key (sort_key row_key rs))"
    by (simp add: strict_sorted_iff)
  then show ?thesis
    unfolding sort_desc_newest [OF i] by (simp add: sorted_wrt_map sorted_wrt_rev)
qed

lemma before_cursor_key: "before_cursor (Some t) (Some i) w \<longleftrightarrow> recency w < (t, i)"
  by (auto simp: before_cursor_def recency_def)

text \<open>The rows behind a cursor, in order, are a suffix of the queue.\<close>

lemma rows_behind_cursor:
  assumes d: "distinct (map (\<lambda>r. ws_id (row_workspace r)) (queue_rows db table f))" and i: "i \<le> length (merge_queue db table f)"
    and c: "cursor = cursor_at (merge_queue db table f) i"
  shows "sort_desc row_key (filter (\<lambda>r. before_cursor (map_option dc_updated_at cursor) (map_option dc_workspace_id cursor) (row_workspace r))
     (queue_rows db table f)) = drop i (merge_queue db table f)"
proof (cases i)
  case 0
  then show ?thesis
    by (simp add: c cursor_at_def before_cursor_def merge_queue_def)
next
  case (Suc j)
  let ?Q = "merge_queue db table f"
  have "drop (Suc j) ?Q = filter (\<lambda>r. row_key r < row_key (?Q ! j)) ?Q"
    using sorted_wrt_after_nth [OF queue_strict [OF d], of j] i Suc unfolding merge_queue_def by simp
  also have "\<dots> = sort_desc row_key (filter (\<lambda>r. row_key r < row_key (?Q ! j)) (queue_rows db table f))"
    unfolding merge_queue_def sort_desc_def by (simp add: rev_filter [symmetric] filter_sort)
  also have "(\<lambda>r. row_key r < row_key (?Q ! j))
      = (\<lambda>r. before_cursor (map_option dc_updated_at cursor) (map_option dc_workspace_id cursor) (row_workspace r))"
    by (rule ext) (simp add: c cursor_at_def Suc before_cursor_key recency_def)
  finally show ?thesis
    using Suc by simp
qed

text \<open>
  Property C30: the pages of the merge queue, each built from two limited queries, are the consecutive slices of one queue of candidates
  and legacy workspaces ordered by recency: the page behind the cursor of position \<open>i\<close> holds the next \<open>limit\<close> rows, says
  exactly whether there are more, and hands out the cursor of the next position.
\<close>

theorem merge_queue_pages:
  assumes "db_keys_ok db" "distinct (map mc_workspace_id (candidates db))" "distinct (map ws_id table)"
    and l: "0 < limit" and i: "i \<le> length (merge_queue db table f)"
  defines "Q \<equiv> merge_queue db table f" and "page \<equiv> merge_queue_page db table f limit (cursor_at (merge_queue db table f) i)"
  shows "page_rows page = take (nat limit) (drop i Q) \<and> has_more page = (i + nat limit < length Q)
    \<and> next_cursor page = (if i + nat limit < length Q then cursor_at Q (i + nat limit) else None)"
proof -
  define cur where "cur = cursor_at Q i"
  define P where "P = (\<lambda>r. before_cursor (map_option dc_updated_at cur) (map_option dc_workspace_id cur) (row_workspace r))"
  define A where "A = map QCandidate (filter (\<lambda>c. queue_candidate f c \<and> P (QCandidate c)) (load_rows db))"
  define B where "B = map QLegacy (filter (\<lambda>w. queue_legacy db f w \<and> P (QLegacy w)) table)"
  let ?n = "nat limit" and ?m = "nat (limit + 1)"
  have AB: "A @ B = filter P (queue_rows db table f)"
    by (simp add: A_def B_def queue_rows_def filter_map o_def conj_commute)
  have d: "distinct (map (\<lambda>r. ws_id (row_workspace r)) (queue_rows db table f))"
    using assms(1-3) by (rule queue_rows_distinct)
  then have dAB: "distinct (map (\<lambda>r. ws_id (row_workspace r)) (A @ B))"
    unfolding AB by (rule distinct_map_filter)
  note inj = inj_row_key [OF dAB]
  have top: "map g (take ?m (sort_desc (\<lambda>x. recency (row_workspace (g x))) xs)) = newest row_key ?m (map g xs)"
    if "set (map g xs) \<subseteq> set (A @ B)" "distinct (map g xs)" for g and xs :: "'x list"
    using map_sort_desc [of g row_key xs] sort_desc_newest [OF inj_on_subset [OF inj(1) that(1)] that(2)]
    by (simp add: take_map [symmetric] newest_def)
  let ?rows = "newest row_key ?m A @ newest row_key ?m B"
  have sub: "set ?rows \<subseteq> set (A @ B)" "distinct ?rows"
    using newest_subset [of row_key ?m A] newest_subset [of row_key ?m B] inj(2) by (auto simp: newest_distinct)
  have rows: "sort_desc row_key (map QCandidate (list_queue db f (map_option dc_updated_at cur) (map_option dc_workspace_id cur) (limit + 1))
      @ map QLegacy (list_merge_queue_without_candidates db f (map_option dc_updated_at cur) (map_option dc_workspace_id cur) (limit + 1) table))
      = rev (sort_key row_key ?rows)"
    using top [of QCandidate "filter (\<lambda>c. queue_candidate f c \<and> P (QCandidate c)) (load_rows db)"]
      top [of QLegacy "filter (\<lambda>w. queue_legacy db f w \<and> P (QLegacy w)) table"] inj(2)
      sort_desc_newest [OF inj_on_subset [OF inj(1) sub(1)] sub(2)]
    by (simp add: list_queue_def list_merge_queue_without_candidates_def A_def B_def P_def)
  have Q: "drop i Q = rev (sort_key row_key (A @ B))"
    using rows_behind_cursor [OF d i, of cur] sort_desc_newest [OF inj] unfolding AB P_def cur_def Q_def by simp
  have "take ?n (rev (sort_key row_key ?rows)) = take ?n (drop i Q)"
    using newest_merge [OF inj, of ?n ?m] unfolding newest_def [of _ ?n] Q by simp
  moreover have "limit < int (length ?rows) \<longleftrightarrow> i + ?n < length Q"
    using arg_cong [OF Q, of length] l i by (auto simp: newest_length Q_def)
  ultimately have p: "page_rows page = take ?n (drop i Q)" "has_more page = (i + ?n < length Q)"
    "next_cursor page = (if i + ?n < length Q \<and> take ?n (drop i Q) \<noteq> [] then
       Some \<lparr>dc_updated_at = updated_at (row_workspace (last (take ?n (drop i Q)))), dc_workspace_id = ws_id (row_workspace (last (take ?n (drop i Q))))\<rparr> else None)"
    unfolding page_def merge_queue_page_def Let_def Q_def [symmetric] cur_def [symmetric] rows by simp_all
  have "last (take ?n (drop i Q)) = Q ! (i + ?n - 1)" if "i + ?n < length Q"
    using that l by (subst last_conv_nth) auto
  then show ?thesis
    using p l by (auto simp: cursor_at_def)
qed

theorem merge_queue_pages_witness:
  "map (\<lambda>r. ws_id (row_workspace r)) (page_rows (merge_queue_page queue_db []
      \<lparr>qf_repo_url = None, qf_base_branch = Some ''main'', qf_status = None\<rparr> 1 None)) = [''w2'']
   \<and> has_more (merge_queue_page queue_db [] \<lparr>qf_repo_url = None, qf_base_branch = Some ''main'', qf_status = None\<rparr> 1 None)"
proof -
  let ?f = "\<lparr>qf_repo_url = None, qf_base_branch = Some ''main'', qf_status = None\<rparr>"
  have Q: "map (\<lambda>r. ws_id (row_workspace r)) (merge_queue queue_db [] ?f) = [''w2'', ''w1'']"
    by code_simp
  have k: "db_keys_ok queue_db" "distinct (map mc_workspace_id (candidates queue_db))"
    by (simp_all add: db_keys_ok_def queue_db_def queue_workspace_def queue_candidate_row_def)
  have "length (merge_queue queue_db [] ?f) = 2"
    using arg_cong [OF Q, of length] by simp
  then show ?thesis
    using merge_queue_pages [OF k, of "[]" 1 0 ?f] Q by (simp add: cursor_at_def take_map [symmetric])
qed

end
