(* ===== verification/Merge_Coordinator.thy ===== *)
theory Merge_Coordinator
  imports Prelude
begin

text \<open>
  Serialised merges (\<open>runtime/merge_coordinator.py\<close>).  The state is one event loop: the coordinator's table of lock entries, the
  entries themselves by identity, and the tasks inside \<open>serialized_merge\<close>.  An event is what happens between two suspension
  points, so an execution is a sequence of events in any order: a task enters, a waiting task is cancelled, a task whose
  future is done resumes, a task leaves the critical section.  \<open>asyncio.Lock\<close> is modelled with its waiter queue, since the
  source relies on its fairness and on its behaviour under cancellation.
\<close>

section \<open>State\<close>

record MergeCoordinationKey =
  key_repo_url :: string
  key_base_branch :: string

definition from_values :: "string \<Rightarrow> string \<Rightarrow> MergeCoordinationKey" where
  "from_values repo base = \<lparr>key_repo_url = py_strip repo, key_base_branch = py_strip base\<rparr>"

text \<open>
  The future a task waits on: pending, done with a result, cancelled, or done with a result while the cancellation of
  the task is still to be delivered.
\<close>

datatype future = Pending | Woken | FutureCancelled | WokenCancelled

record MergeLockEntry =
  is_locked :: bool
  lock_waiters :: "(string \<times> future) list"
  ref_count :: int

datatype phase = Waiting | Holding

record coordinator =
  locks :: "MergeCoordinationKey \<rightharpoonup> nat"
  heap :: "nat \<rightharpoonup> MergeLockEntry"
  next_addr :: nat
  co_tasks :: "string \<rightharpoonup> MergeCoordinationKey \<times> nat \<times> phase"

definition init_coordinator :: coordinator where
  "init_coordinator = \<lparr>locks = Map.empty, heap = Map.empty, next_addr = 0, co_tasks = Map.empty\<rparr>"

section \<open>The lock\<close>

definition wake_up_first :: "MergeLockEntry \<Rightarrow> MergeLockEntry" where
  "wake_up_first e =
     (case lock_waiters e of
        (t, Pending) # ws \<Rightarrow> e\<lparr>lock_waiters := (t, Woken) # ws\<rparr>
      | _ \<Rightarrow> e)"

text \<open>The fast path needs the lock free and every waiter's future cancelled; otherwise the task queues up.\<close>

definition lock_free :: "MergeLockEntry \<Rightarrow> bool" where
  "lock_free e = (\<not> is_locked e \<and> list_all (\<lambda>(t, f). f = FutureCancelled) (lock_waiters e))"

definition lock_enter :: "string \<Rightarrow> MergeLockEntry \<Rightarrow> MergeLockEntry \<times> phase" where
  "lock_enter t e =
     (if lock_free e then (e\<lparr>is_locked := True\<rparr>, Holding)
      else (e\<lparr>lock_waiters := lock_waiters e @ [(t, Pending)]\<rparr>, Waiting))"

definition remove_waiter :: "string \<Rightarrow> MergeLockEntry \<Rightarrow> MergeLockEntry" where
  "remove_waiter t e = e\<lparr>lock_waiters := filter (\<lambda>(u, f). u \<noteq> t) (lock_waiters e)\<rparr>"

definition cancel_future :: "future \<Rightarrow> future" where
  "cancel_future f = (case f of Pending \<Rightarrow> FutureCancelled | Woken \<Rightarrow> WokenCancelled | _ \<Rightarrow> f)"

definition cancel_waiter :: "string \<Rightarrow> MergeLockEntry \<Rightarrow> MergeLockEntry" where
  "cancel_waiter t e = e\<lparr>lock_waiters := map (\<lambda>(u, f). (u, if u = t then cancel_future f else f)) (lock_waiters e)\<rparr>"

definition lock_release :: "MergeLockEntry \<Rightarrow> MergeLockEntry" where
  "lock_release e = (if is_locked e then wake_up_first (e\<lparr>is_locked := False\<rparr>) else e)"

section \<open>The coordinator\<close>

definition claim_entry :: "MergeCoordinationKey \<Rightarrow> coordinator \<Rightarrow> nat \<times> coordinator" where
  "claim_entry k s =
     (case locks s k of
        Some a \<Rightarrow> (a, s\<lparr>heap := (heap s)(a := map_option (\<lambda>e. e\<lparr>ref_count := ref_count e + 1\<rparr>) (heap s a))\<rparr>)
      | None \<Rightarrow>
          (next_addr s,
           s\<lparr>locks := (locks s)(k \<mapsto> next_addr s), next_addr := next_addr s + 1,
             heap := (heap s)(next_addr s \<mapsto> \<lparr>is_locked = False, lock_waiters = [], ref_count = 1\<rparr>)\<rparr>))"

definition release_entry :: "MergeCoordinationKey \<Rightarrow> nat \<Rightarrow> coordinator \<Rightarrow> coordinator" where
  "release_entry k a s =
     (case heap s a of
        None \<Rightarrow> s
      | Some e \<Rightarrow>
          let e' = e\<lparr>ref_count := ref_count e - 1\<rparr>; s' = s\<lparr>heap := (heap s)(a \<mapsto> e')\<rparr> in
          if ref_count e' = 0 \<and> \<not> is_locked e' \<and> locks s' k = Some a then s'\<lparr>locks := (locks s')(k := None)\<rparr> else s')"

definition enter_merge :: "string \<Rightarrow> string \<Rightarrow> string \<Rightarrow> coordinator \<Rightarrow> coordinator option" where
  "enter_merge t repo base s =
     (case co_tasks s t of
        Some _ \<Rightarrow> None
      | None \<Rightarrow>
          let k = from_values repo base; (a, s1) = claim_entry k s in
          case heap s1 a of
            None \<Rightarrow> None
          | Some e \<Rightarrow> let (e', p) = lock_enter t e in
              Some (s1\<lparr>heap := (heap s1)(a \<mapsto> e'), co_tasks := (co_tasks s1)(t \<mapsto> (k, a, p))\<rparr>))"

definition cancel_task :: "string \<Rightarrow> coordinator \<Rightarrow> coordinator option" where
  "cancel_task t s =
     (case co_tasks s t of
        Some (k, a, Waiting) \<Rightarrow> map_option (\<lambda>e. s\<lparr>heap := (heap s)(a \<mapsto> cancel_waiter t e)\<rparr>) (heap s a)
      | _ \<Rightarrow> None)"

text \<open>The end of the \<open>async with\<close> on the way out: the lock entry is given up and the task is gone.\<close>

definition leave :: "string \<Rightarrow> MergeCoordinationKey \<Rightarrow> nat \<Rightarrow> MergeLockEntry \<Rightarrow> coordinator \<Rightarrow> coordinator" where
  "leave t k a e s = release_entry k a (s\<lparr>heap := (heap s)(a \<mapsto> e), co_tasks := (co_tasks s)(t := None)\<rparr>)"

definition resume_task :: "string \<Rightarrow> coordinator \<Rightarrow> coordinator option" where
  "resume_task t s =
     (case co_tasks s t of
        Some (k, a, Waiting) \<Rightarrow>
          (case heap s a of
             None \<Rightarrow> None
           | Some e \<Rightarrow>
               (case map_of (lock_waiters e) t of
                  Some Woken \<Rightarrow>
                    Some (s\<lparr>heap := (heap s)(a \<mapsto> (remove_waiter t e)\<lparr>is_locked := True\<rparr>), co_tasks := (co_tasks s)(t \<mapsto> (k, a, Holding))\<rparr>)
                | Some Pending \<Rightarrow> None
                | Some _ \<Rightarrow>
                    (let e1 = remove_waiter t e in Some (leave t k a (if is_locked e1 then e1 else wake_up_first e1) s))
                | None \<Rightarrow> None))
      | _ \<Rightarrow> None)"

definition finish_merge :: "string \<Rightarrow> coordinator \<Rightarrow> coordinator option" where
  "finish_merge t s =
     (case co_tasks s t of
        Some (k, a, Holding) \<Rightarrow> map_option (\<lambda>e. leave t k a (lock_release e) s) (heap s a)
      | _ \<Rightarrow> None)"

datatype event = Enter string string string | Cancel string | Resume string | Finish string

fun happen :: "event \<Rightarrow> coordinator \<Rightarrow> coordinator option" where
  "happen (Enter t repo base) s = enter_merge t repo base s"
| "happen (Cancel t) s = cancel_task t s"
| "happen (Resume t) s = resume_task t s"
| "happen (Finish t) s = finish_merge t s"

fun execution :: "event list \<Rightarrow> coordinator \<Rightarrow> coordinator option" where
  "execution [] s = Some s"
| "execution (ev # evs) s = Option.bind (happen ev s) (execution evs)"

inductive reachable :: "coordinator \<Rightarrow> bool" where
  initial: "reachable init_coordinator"
| happens: "reachable s \<Longrightarrow> happen ev s = Some s' \<Longrightarrow> reachable s'"

section \<open>Connection parameters of the advisory locks\<close>

datatype query_value = QStr string | QTuple "string list"

definition AWF_ENGINE_ONLY_QUERY_KEYS :: "string list" where
  "AWF_ENGINE_ONLY_QUERY_KEYS =
     [''awf_search_path'', ''awf_null_pool'', ''awf_connect_timeout'', ''awf_connect_attempts'', ''awf_connect_retries'']"

fun single_query_value :: "query_value \<Rightarrow> string option" where
  "single_query_value (QTuple []) = None"
| "single_query_value (QTuple (x # _)) = Some x"
| "single_query_value (QStr x) = Some x"

definition ssl_query_value_to_sslmode :: "string option \<Rightarrow> string option" where
  "ssl_query_value_to_sslmode v =
     (case v of
        None \<Rightarrow> None
      | Some raw \<Rightarrow>
          let n = py_lower (py_strip raw) in
          if n \<in> {''0'', ''false'', ''no'', ''off'', ''disable'', ''disabled''} then Some ''disable''
          else if n \<in> {''1'', ''true'', ''yes'', ''on'', ''require'', ''required''} then Some ''require''
          else if n \<in> {''allow'', ''prefer'', ''verify-ca'', ''verify-full''} then Some n
          else None)"

text \<open>
  The query is a dictionary, so its keys are distinct; entries keep their order.  The logged warning about a dropped value is
  left out.
\<close>

definition advisory_entry :: "bool \<Rightarrow> string \<times> query_value \<Rightarrow> (string \<times> query_value) list" where
  "advisory_entry has_sslmode kv =
     (if fst kv \<in> set AWF_ENGINE_ONLY_QUERY_KEYS then []
      else if fst kv = ''ssl''
      then (if has_sslmode then []
            else (case ssl_query_value_to_sslmode (single_query_value (snd kv)) of None \<Rightarrow> [] | Some m \<Rightarrow> [(''sslmode'', QStr m)]))
      else [kv])"

definition advisory_asyncpg_query :: "(string \<times> query_value) list \<Rightarrow> (string \<times> query_value) list" where
  "advisory_asyncpg_query query = concat (map (advisory_entry (''sslmode'' \<in> fst ` set query)) query)"

text \<open>
  What reaches the connection string has no key of the engine's own and no \<open>ssl\<close>; its keys stay distinct, an explicit \<open>sslmode\<close> is
  passed on unchanged, and every other entry survives.
\<close>

lemma advisory_entry_key:
  "x \<in> set (advisory_entry q y) \<Longrightarrow> fst x = fst y \<and> fst y \<noteq> ''ssl'' \<or> \<not> q \<and> fst y = ''ssl'' \<and> fst x = ''sslmode''"
  by (auto simp: advisory_entry_def split: if_splits option.splits)

lemma advisory_entries_distinct:
  "distinct (map fst xs) \<Longrightarrow> q \<or> ''sslmode'' \<notin> fst ` set xs \<Longrightarrow> distinct (map fst (concat (map (advisory_entry q) xs)))"
proof (induction xs)
  case (Cons x xs)
  have "distinct (map fst (advisory_entry q x))"
    by (simp add: advisory_entry_def split: option.splits)
  moreover have "fst y \<noteq> fst z" if "y \<in> set (advisory_entry q x)" "w \<in> set xs" "z \<in> set (advisory_entry q w)" for y z w
  proof -
    have m: "fst w \<noteq> fst x" "fst w \<in> fst ` set (x # xs)" "fst x \<in> fst ` set (x # xs)"
      using that(2) Cons.prems(1) by (auto simp: image_iff)
    have "q \<or> fst w \<noteq> n \<and> fst x \<noteq> n" if "q \<or> n \<notin> fst ` set (x # xs)" for n
      using that m(2,3) by blast
    note this [OF Cons.prems(2)]
    then show ?thesis
      using advisory_entry_key [OF that(1)] advisory_entry_key [OF that(3)] m(1) by (elim disjE conjE) simp_all
  qed
  then have "fst ` set (advisory_entry q x) \<inter> fst ` set (concat (map (advisory_entry q) xs)) = {}"
    by (intro equals0I) (elim IntE imageE, simp, elim bexE, simp)
  moreover have "distinct (map fst (concat (map (advisory_entry q) xs)))"
    using Cons.prems by (intro Cons.IH) auto
  ultimately show ?case
    by simp
qed simp

lemma advisory_query_keys:
  assumes "distinct (map fst query)"
  shows "distinct (map fst (advisory_asyncpg_query query))"
    and "fst ` set (advisory_asyncpg_query query) \<inter> insert ''ssl'' (set AWF_ENGINE_ONLY_QUERY_KEYS) = {}"
    and "k \<noteq> ''ssl'' \<Longrightarrow> k \<notin> set AWF_ENGINE_ONLY_QUERY_KEYS \<Longrightarrow> (k, v) \<in> set query \<Longrightarrow> (k, v) \<in> set (advisory_asyncpg_query query)"
proof -
  show "distinct (map fst (advisory_asyncpg_query query))"
    unfolding advisory_asyncpg_query_def using assms by (intro advisory_entries_distinct) auto
  have "fst x \<noteq> ''ssl'' \<and> fst x \<notin> set AWF_ENGINE_ONLY_QUERY_KEYS" if "x \<in> set (advisory_entry q y)" for x y q
    using that by (auto simp: advisory_entry_def AWF_ENGINE_ONLY_QUERY_KEYS_def split: if_splits option.splits)
  then show "fst ` set (advisory_asyncpg_query query) \<inter> insert ''ssl'' (set AWF_ENGINE_ONLY_QUERY_KEYS) = {}"
    by (fastforce simp: advisory_asyncpg_query_def)
  show "k \<noteq> ''ssl'' \<Longrightarrow> k \<notin> set AWF_ENGINE_ONLY_QUERY_KEYS \<Longrightarrow> (k, v) \<in> set query \<Longrightarrow> (k, v) \<in> set (advisory_asyncpg_query query)"
    by (force simp: advisory_asyncpg_query_def advisory_entry_def)
qed

section \<open>The waiter queue\<close>

text \<open>
  Only the first waiter can have been woken, and only while the lock is free; while the lock is free the first waiter is
  always about to run, so a wake-up is never lost.
\<close>

definition quiet :: "string \<times> future \<Rightarrow> bool" where
  "quiet w = (snd w = Pending \<or> snd w = FutureCancelled)"

definition queue_ok :: "bool \<Rightarrow> (string \<times> future) list \<Rightarrow> bool" where
  "queue_ok l ws = (distinct (map fst ws)
     \<and> (case ws of [] \<Rightarrow> True | w # r \<Rightarrow> list_all quiet r \<and> (if l then quiet w else snd w \<noteq> Pending)))"

lemma wake_up_first_sel [simp]: "is_locked (wake_up_first e) = is_locked e" "ref_count (wake_up_first e) = ref_count e"
  by (auto simp: wake_up_first_def split: list.splits future.splits)

lemma wake_up_first_waiters: "lock_waiters (wake_up_first e) = (case lock_waiters e of (t, Pending) # ws \<Rightarrow> (t, Woken) # ws | ws \<Rightarrow> ws)"
  by (auto simp: wake_up_first_def split: list.splits future.splits)

lemma wake_names [simp]: "map fst (lock_waiters (wake_up_first e)) = map fst (lock_waiters e)"
  by (auto simp: wake_up_first_waiters split: list.splits future.splits)

lemma wake_name_set [simp]: "fst ` set (lock_waiters (wake_up_first e)) = fst ` set (lock_waiters e)"
  by (metis list.set_map wake_names)

lemma queue_ok_all_quiet: "distinct (map fst ws) \<Longrightarrow> list_all quiet ws \<Longrightarrow> queue_ok True ws"
  by (cases ws) (auto simp: queue_ok_def)

lemma queue_ok_locked: "queue_ok True ws \<Longrightarrow> list_all quiet ws"
  by (cases ws) (auto simp: queue_ok_def)

lemma queue_ok_free: "distinct (map fst ws) \<Longrightarrow> list_all (\<lambda>(t, f). f = FutureCancelled) ws \<Longrightarrow> queue_ok True ws"
  by (rule queue_ok_all_quiet) (auto simp: list_all_iff quiet_def)

lemma queue_ok_append: "queue_ok l ws \<Longrightarrow> t \<notin> fst ` set ws \<Longrightarrow> l \<or> ws \<noteq> [] \<Longrightarrow> queue_ok l (ws @ [(t, Pending)])"
  by (cases ws) (auto simp: queue_ok_def quiet_def)

lemma cancel_future_simps [simp]: "cancel_future f \<noteq> Pending" "snd w = f \<Longrightarrow> quiet w \<Longrightarrow> cancel_future f = FutureCancelled"
  by (cases f; simp add: cancel_future_def quiet_def)+

lemma queue_ok_cancel: "queue_ok l ws \<Longrightarrow> queue_ok l (map (\<lambda>(u, f). (u, if u = t then cancel_future f else f)) ws)"
proof -
  have q: "quiet w \<Longrightarrow> quiet (fst w, if fst w = t then cancel_future (snd w) else snd w)" for w
    by (auto simp: quiet_def cancel_future_def)
  assume "queue_ok l ws"
  then show ?thesis
    using q by (cases ws) (auto simp: queue_ok_def list_all_iff case_prod_beta o_def)
qed

lemma queue_ok_wake: "list_all quiet (lock_waiters e) \<Longrightarrow> distinct (map fst (lock_waiters e)) \<Longrightarrow> queue_ok False (lock_waiters (wake_up_first e))"
  by (cases "lock_waiters e"; cases "snd (hd (lock_waiters e))") (auto simp: wake_up_first_waiters queue_ok_def quiet_def image_iff)

lemma filter_names: "t \<notin> fst ` set r \<Longrightarrow> filter (\<lambda>(u, f). u \<noteq> t) r = r"
  by (force simp: filter_id_conv)

lemma queue_ok_woken:
  assumes "queue_ok l ws" and "map_of ws t = Some Woken"
  shows "\<not> l \<and> queue_ok True (filter (\<lambda>(u, f). u \<noteq> t) ws)"
proof -
  obtain w r where ws: "ws = w # r"
    using assms(2) by (cases ws) auto
  have "map_of r t \<noteq> Some Woken"
    using assms(1) by (auto simp: ws queue_ok_def list_all_iff quiet_def dest!: map_of_SomeD)
  then have w: "w = (t, Woken)"
    using assms(2) by (cases w) (auto simp: ws split: if_splits)
  then have "t \<notin> fst ` set r" "\<not> l"
    using assms(1) by (auto simp: ws queue_ok_def quiet_def split: if_splits)
  then show ?thesis
    using assms(1) w by (simp add: ws queue_ok_def filter_names queue_ok_all_quiet) (cases r; simp)
qed

lemma queue_ok_remove:
  assumes "queue_ok l (lock_waiters e)" and "l = is_locked e"
  shows "queue_ok l (lock_waiters (if l then remove_waiter t e else wake_up_first (remove_waiter t e)))"
proof -
  let ?ws = "filter (\<lambda>(u, f). u \<noteq> t) (lock_waiters e)"
  have d: "distinct (map fst ?ws)"
    using assms(1) by (simp add: queue_ok_def distinct_map_filter)
  show ?thesis
  proof (cases l)
    case True
    then show ?thesis
      using queue_ok_locked [of "lock_waiters e"] assms(1) queue_ok_all_quiet [OF d] by (auto simp: remove_waiter_def list_all_iff)
  next
    case False
    show ?thesis
    proof (cases "lock_waiters e")
      case Nil
      with False show ?thesis
        by (simp add: remove_waiter_def wake_up_first_waiters queue_ok_def)
    next
      case (Cons w r)
      then have r: "list_all quiet r" "snd w \<noteq> Pending"
        using assms(1) False by (auto simp: queue_ok_def)
      show ?thesis
      proof (cases "fst w = t")
        case True
        then have "list_all quiet ?ws"
          using Cons r by (auto simp: list_all_iff)
        then show ?thesis
          using False d queue_ok_wake [of "remove_waiter t e"] by (simp add: remove_waiter_def)
      next
        case neq: False
        then have "lock_waiters (remove_waiter t e) = w # filter (\<lambda>(u, f). u \<noteq> t) r"
          using Cons by (auto simp: remove_waiter_def)
        then show ?thesis
          using False r d Cons neq by (cases w, cases "snd w")
            (auto simp: wake_up_first_waiters queue_ok_def list_all_iff case_prod_beta remove_waiter_def)
      qed
    qed
  qed
qed

section \<open>A lane: one lock entry with its tasks\<close>

definition lane_ok :: "string set \<Rightarrow> string set \<Rightarrow> MergeLockEntry \<Rightarrow> bool" where
  "lane_ok W H e \<longleftrightarrow> W \<inter> H = {} \<and> (H = {} \<or> (\<exists>t. H = {t})) \<and> is_locked e = (H \<noteq> {})
     \<and> fst ` set (lock_waiters e) = W \<and> queue_ok (is_locked e) (lock_waiters e)"

lemma lane_finite: "lane_ok W H e \<Longrightarrow> finite W \<and> finite H"
  by (auto simp: lane_ok_def)

lemma lane_ref [simp]: "lane_ok W H (e\<lparr>ref_count := n\<rparr>) = lane_ok W H e"
  by (simp add: lane_ok_def)

lemma lock_enter_ref: "ref_count (fst (lock_enter t e)) = ref_count e"
  by (simp add: lock_enter_def)

lemma lane_enter:
  assumes "lane_ok W H e" and "t \<notin> W \<union> H"
  shows "snd (lock_enter t e) = Holding \<Longrightarrow> H = {} \<and> lane_ok W {t} (fst (lock_enter t e))"
    and "snd (lock_enter t e) = Waiting \<Longrightarrow> lane_ok (insert t W) H (fst (lock_enter t e))"
proof -
  assume "snd (lock_enter t e) = Holding"
  then have "lock_free e"
    by (simp add: lock_enter_def split: if_splits)
  then show "H = {} \<and> lane_ok W {t} (fst (lock_enter t e))"
    using assms by (auto simp: lane_ok_def lock_enter_def lock_free_def queue_ok_def [of False] intro!: queue_ok_free)
next
  assume "snd (lock_enter t e) = Waiting"
  then have "\<not> lock_free e"
    by (simp add: lock_enter_def split: if_splits)
  moreover from this have "is_locked e \<or> lock_waiters e \<noteq> []"
    by (auto simp: lock_free_def)
  ultimately show "lane_ok (insert t W) H (fst (lock_enter t e))"
    using assms queue_ok_append [of "is_locked e" "lock_waiters e" t] by (auto simp: lane_ok_def lock_enter_def)
qed

lemma lane_cancel: "lane_ok W H e \<Longrightarrow> lane_ok W H (cancel_waiter t e)"
  using queue_ok_cancel [of "is_locked e" "lock_waiters e" t]
  by (auto simp: lane_ok_def cancel_waiter_def image_image case_prod_beta)

lemma remove_waiter_names: "fst ` set (lock_waiters (remove_waiter t e)) = fst ` set (lock_waiters e) - {t}"
  by (auto simp: remove_waiter_def image_iff)

lemma lane_resume:
  assumes "lane_ok W H e" and "map_of (lock_waiters e) t = Some Woken"
  shows "H = {} \<and> t \<in> W \<and> lane_ok (W - {t}) {t} ((remove_waiter t e)\<lparr>is_locked := True\<rparr>)"
proof -
  have "queue_ok (is_locked e) (lock_waiters e)"
    using assms(1) unfolding lane_ok_def by blast
  from queue_ok_woken [OF this assms(2)] have q: "\<not> is_locked e" "queue_ok True (lock_waiters (remove_waiter t e))"
    by (simp_all add: remove_waiter_def)
  moreover have "t \<in> fst ` set (lock_waiters e)"
    using map_of_SomeD [OF assms(2)] by force
  then have "t \<in> W"
    using assms(1) unfolding lane_ok_def by blast
  moreover have "H = {}" "fst ` set (lock_waiters (remove_waiter t e)) = W - {t}"
    using assms(1) q(1) unfolding remove_waiter_names lane_ok_def by simp_all
  ultimately show ?thesis
    by (simp add: lane_ok_def)
qed

lemma remove_waiter_sel [simp]: "is_locked (remove_waiter t e) = is_locked e" "ref_count (remove_waiter t e) = ref_count e"
  by (simp_all add: remove_waiter_def)

lemma lane_abandon:
  assumes "lane_ok W H e" and "t \<notin> H"
  shows "lane_ok (W - {t}) (H - {t}) (if is_locked (remove_waiter t e) then remove_waiter t e else wake_up_first (remove_waiter t e))"
proof -
  show ?thesis
    using assms queue_ok_remove [of "is_locked e" e t] by (auto simp: lane_ok_def remove_waiter_names split: if_splits)
qed

lemma lane_finish:
  assumes "lane_ok W H e" and "t \<in> H"
  shows "lane_ok (W - {t}) (H - {t}) (lock_release e)"
proof -
  have H: "H = {t}" "is_locked e" "t \<notin> W"
    using assms by (auto simp: lane_ok_def)
  have "queue_ok False (lock_waiters (wake_up_first (e\<lparr>is_locked := False\<rparr>)))"
    using assms(1) H(2) queue_ok_locked [of "lock_waiters e"] by (intro queue_ok_wake) (auto simp: lane_ok_def queue_ok_def)
  then show ?thesis
    using assms(1) H by (auto simp: lane_ok_def lock_release_def)
qed

lemma lock_release_ref [simp]: "ref_count (lock_release e) = ref_count e"
  by (simp add: lock_release_def)

section \<open>The invariant\<close>

definition on :: "(string \<rightharpoonup> MergeCoordinationKey \<times> nat \<times> phase) \<Rightarrow> nat \<Rightarrow> phase \<Rightarrow> string set" where
  "on T a p = {t. \<exists>k. T t = Some (k, a, p)}"

definition entry_ok :: "(string \<rightharpoonup> MergeCoordinationKey \<times> nat \<times> phase) \<Rightarrow> nat \<Rightarrow> MergeLockEntry \<Rightarrow> bool" where
  "entry_ok T a e \<longleftrightarrow> lane_ok (on T a Waiting) (on T a Holding) e
     \<and> ref_count e = int (card (on T a Waiting)) + int (card (on T a Holding)) \<and> 0 < ref_count e"

definition coord_inv :: "coordinator \<Rightarrow> bool" where
  "coord_inv s \<longleftrightarrow>
     (\<forall>t k a p. co_tasks s t = Some (k, a, p) \<longrightarrow> locks s k = Some a)
     \<and> (\<forall>k a. locks s k = Some a \<longrightarrow> a < next_addr s \<and> (\<exists>e. heap s a = Some e \<and> entry_ok (co_tasks s) a e))
     \<and> inj_on (locks s) (dom (locks s))"

lemma inv_task: "coord_inv s \<Longrightarrow> co_tasks s t = Some (k, a, p) \<Longrightarrow> locks s k = Some a"
  by (simp add: coord_inv_def) blast

lemma inv_entry: "coord_inv s \<Longrightarrow> locks s k = Some a \<Longrightarrow> \<exists>e. heap s a = Some e \<and> entry_ok (co_tasks s) a e"
  by (simp add: coord_inv_def)

lemma on_upd: "on (T(t \<mapsto> (k, a, p))) a q = (if p = q then insert t (on T a q) else on T a q - {t})"
  by (auto simp: on_def)

lemma on_del: "on (T(t := None)) a q = on T a q - {t}"
  by (auto simp: on_def)

lemma on_phase: "on T a Waiting \<inter> on T a Holding = {}"
  by (auto simp: on_def)

text \<open>A step that changes one entry and one task of its lane.\<close>

lemma inv_same_table:
  assumes "coord_inv s" and "locks s k = Some a" and "\<And>x. co_tasks s t = Some x \<Longrightarrow> fst (snd x) = a"
    and "\<And>x. y = Some x \<Longrightarrow> fst x = k \<and> fst (snd x) = a" and "entry_ok ((co_tasks s)(t := y)) a e"
  shows "coord_inv (s\<lparr>heap := (heap s)(a \<mapsto> e), co_tasks := (co_tasks s)(t := y)\<rparr>)"
proof -
  have "on ((co_tasks s)(t := y)) b q = on (co_tasks s) b q" if "b \<noteq> a" for b q
    using assms(3,4) that by (auto simp: on_def)
  then have "entry_ok ((co_tasks s)(t := y)) b e' = entry_ok (co_tasks s) b e'" if "b \<noteq> a" for b e'
    using that by (simp add: entry_ok_def)
  then show ?thesis
    using assms unfolding coord_inv_def by auto
qed

lemma heap_tasks_commute: "s\<lparr>heap := h, co_tasks := T\<rparr> = s\<lparr>co_tasks := T, heap := h\<rparr>"
  by simp

lemma inv_drop_key:
  assumes "coord_inv s" and "locks s k = Some a" and "\<And>x. co_tasks s t = Some x \<Longrightarrow> fst (snd x) = a"
    and "on ((co_tasks s)(t := None)) a Waiting = {}" "on ((co_tasks s)(t := None)) a Holding = {}"
  shows "coord_inv (s\<lparr>co_tasks := (co_tasks s)(t := None), heap := (heap s)(a \<mapsto> e), locks := (locks s)(k := None)\<rparr>)"
proof -
  have other: "b \<noteq> a" if "locks s k' = Some b" "k' \<noteq> k" for b k'
    using assms(1,2) that by (auto simp: coord_inv_def inj_on_def dom_def)
  have idle: "k' \<noteq> k" if "((co_tasks s)(t := None)) u = Some (k', b, p)" for u k' b p
  proof
    assume "k' = k"
    then have "b = a"
      using that inv_task [OF assms(1), of u k b p] assms(2) by (simp split: if_splits)
    then have "u \<in> on ((co_tasks s)(t := None)) a p"
      using that by (auto simp: on_def)
    then show False
      using assms(4,5) by (cases p) auto
  qed
  have "on ((co_tasks s)(t := None)) b q = on (co_tasks s) b q" if "b \<noteq> a" for b q
    using assms(3) that by (auto simp: on_def)
  then have "entry_ok ((co_tasks s)(t := None)) b e' = entry_ok (co_tasks s) b e'" if "b \<noteq> a" for b e'
    using that by (simp add: entry_ok_def)
  then show ?thesis
    using assms(1) other idle unfolding coord_inv_def
    by (auto simp: inj_on_def dom_def split: if_splits)
qed

lemma card_less_one: "finite S \<Longrightarrow> t \<in> S \<Longrightarrow> int (card (S - {t})) = int (card S) - 1"
  using card_Suc_Diff1 [of S t] by linarith

lemma inv_leave:
  assumes inv: "coord_inv s" and t: "co_tasks s t = Some (k, a, p)" and e: "heap s a = Some e0" "ref_count e = ref_count e0"
    and lane: "lane_ok (on (co_tasks s) a Waiting - {t}) (on (co_tasks s) a Holding - {t}) e"
  shows "coord_inv (leave t k a e s)"
proof -
  let ?T = "(co_tasks s)(t := None)" and ?W = "on (co_tasks s) a Waiting" and ?H = "on (co_tasks s) a Holding"
  have l: "locks s k = Some a"
    using inv t by (rule inv_task)
  then have e0: "entry_ok (co_tasks s) a e0"
    using inv_entry [OF inv] e by fastforce
  then have fin: "finite ?W" "finite ?H"
    using lane_finite by (auto simp: entry_ok_def)
  have "int (card (?W - {t})) + int (card (?H - {t})) = int (card ?W) + int (card ?H) - 1"
  proof -
    have "t \<in> on (co_tasks s) a p" "\<And>q. q \<noteq> p \<Longrightarrow> t \<notin> on (co_tasks s) a q"
      using t by (auto simp: on_def)
    then show ?thesis
      using fin card_less_one [of "on (co_tasks s) a p" t] by (cases p) (auto simp del: card_Diff_insert)
  qed
  then have r: "ref_count e - 1 = int (card (on ?T a Waiting)) + int (card (on ?T a Holding))"
    using e0 e(2) by (simp add: entry_ok_def on_del)
  have fin': "finite (on ?T a Waiting)" "finite (on ?T a Holding)"
    using fin by (simp_all add: on_del)
  show ?thesis
  proof (cases "ref_count e - 1 = 0")
    case True
    then have "card (on ?T a Waiting) = 0" "card (on ?T a Holding) = 0"
      using r by linarith+
    then have "on ?T a Waiting = {}" "on ?T a Holding = {}"
      using fin' by simp_all
    moreover from this have "\<not> is_locked e"
      using lane by (simp add: lane_ok_def on_del)
    ultimately show ?thesis
      using inv_drop_key [OF inv l, of t "e\<lparr>ref_count := 0\<rparr>"] t l True by (simp add: leave_def release_entry_def Let_def)
  next
    case False
    then have "entry_ok ?T a (e\<lparr>ref_count := ref_count e - 1\<rparr>)"
      using r lane by (simp add: entry_ok_def on_del)
    then show ?thesis
      using inv_same_table [OF inv l, of t None "e\<lparr>ref_count := ref_count e - 1\<rparr>"] t False
      by (simp add: leave_def release_entry_def Let_def heap_tasks_commute)
  qed
qed

lemma entry_enter:
  assumes "entry_ok T a e" and "T t = None" and "lock_enter t (e\<lparr>ref_count := ref_count e + 1\<rparr>) = (e', p)"
  shows "entry_ok (T(t \<mapsto> (k, a, p))) a e'"
proof -
  let ?W = "on T a Waiting" and ?H = "on T a Holding"
  have lane: "lane_ok ?W ?H (e\<lparr>ref_count := ref_count e + 1\<rparr>)" and fresh: "t \<notin> ?W \<union> ?H"
    using assms(1,2) by (auto simp: entry_ok_def on_def)
  have fin: "finite ?W" "finite ?H"
    using lane_finite [OF lane] by auto
  have r: "ref_count e' = ref_count e + 1"
    using lock_enter_ref [of t "e\<lparr>ref_count := ref_count e + 1\<rparr>"] assms(3) by simp
  show ?thesis
  proof (cases p)
    case Holding
    then have "?H = {}" "lane_ok ?W {t} e'"
      using lane_enter(1) [OF lane fresh] assms(3) by auto
    with assms(1) fresh r Holding show ?thesis
      by (simp add: entry_ok_def on_upd)
  next
    case Waiting
    then have "lane_ok (insert t ?W) ?H e'"
      using lane_enter(2) [OF lane fresh] assms(3) by auto
    with assms(1) fresh r Waiting fin show ?thesis
      by (simp add: entry_ok_def on_upd)
  qed
qed

lemma inv_enter:
  assumes inv: "coord_inv s" and s': "enter_merge t repo base s = Some s'"
  shows "coord_inv s'"
proof -
  let ?k = "from_values repo base"
  have t: "co_tasks s t = None"
    using s' by (simp add: enter_merge_def split: option.splits)
  show ?thesis
  proof (cases "locks s ?k")
    case (Some a)
    then obtain e where e: "heap s a = Some e" "entry_ok (co_tasks s) a e"
      using inv_entry [OF inv] by blast
    obtain e' p where l: "lock_enter t (e\<lparr>ref_count := ref_count e + 1\<rparr>) = (e', p)"
      by fastforce
    have "s' = s\<lparr>heap := (heap s)(a \<mapsto> e'), co_tasks := (co_tasks s)(t \<mapsto> (?k, a, p))\<rparr>"
      using s' t Some e(1) l by (simp add: enter_merge_def claim_entry_def Let_def)
    then show ?thesis
      using inv_same_table [OF inv Some, of t "Some (?k, a, p)" e'] entry_enter [OF e(2) t l] t by simp
  next
    case None
    let ?n = "next_addr s" and ?e = "\<lparr>is_locked = True, lock_waiters = [], ref_count = 1\<rparr>"
    let ?T = "(co_tasks s)(t \<mapsto> (?k, ?n, Holding))"
    have s'': "s' = s\<lparr>locks := (locks s)(?k \<mapsto> ?n), next_addr := ?n + 1, heap := (heap s)(?n \<mapsto> ?e), co_tasks := ?T\<rparr>"
      using s' t None by (simp add: enter_merge_def claim_entry_def lock_enter_def lock_free_def Let_def)
    have below: "a < ?n" if "locks s k = Some a" for k a
      using inv that by (simp add: coord_inv_def)
    have none: "on (co_tasks s) ?n q = {}" for q
      using inv_task [OF inv] below by (fastforce simp: on_def)
    have new: "entry_ok ?T ?n ?e"
      by (simp add: entry_ok_def on_upd none lane_ok_def queue_ok_def)
    have "on ?T b q = on (co_tasks s) b q" if "b \<noteq> ?n" for b q
      using that t by (auto simp: on_def)
    then have old: "entry_ok ?T b e = entry_ok (co_tasks s) b e" if "b \<noteq> ?n" for b e
      using that by (simp add: entry_ok_def)
    have tk: "locks s' k = Some a" if "co_tasks s' u = Some (k, a, p)" for u k a p
      using that inv_task [OF inv, of u k a p] None by (auto simp: s'' split: if_splits)
    have "a < next_addr s' \<and> (\<exists>e. heap s' a = Some e \<and> entry_ok (co_tasks s') a e)" if "locks s' k = Some a" for k a
    proof (cases "k = ?k")
      case True
      with that new show ?thesis by (simp add: s'')
    next
      case False
      with that have l: "locks s k = Some a" by (simp add: s'')
      then show ?thesis
        using below [OF l] inv_entry [OF inv l] old by (auto simp: s'')
    qed
    moreover have "inj_on (locks s') (dom (locks s'))"
      using inv below by (fastforce simp: s'' coord_inv_def inj_on_def dom_def split: if_splits)
    ultimately show ?thesis
      using tk unfolding coord_inv_def by blast
  qed
qed

lemma inv_waiting:
  assumes "coord_inv s" and "co_tasks s t = Some (k, a, p)"
  obtains e where "locks s k = Some a" "heap s a = Some e" "entry_ok (co_tasks s) a e"
  using inv_task [OF assms] inv_entry [OF assms(1)] by blast

lemma inv_cancel:
  assumes inv: "coord_inv s" and s': "cancel_task t s = Some s'"
  shows "coord_inv s'"
proof -
  obtain k a where t: "co_tasks s t = Some (k, a, Waiting)"
    using s' by (auto simp: cancel_task_def split: option.splits prod.splits phase.splits)
  obtain e where e: "locks s k = Some a" "heap s a = Some e" "entry_ok (co_tasks s) a e"
    by (rule inv_waiting [OF inv t])
  have same: "(co_tasks s)(t \<mapsto> (k, a, Waiting)) = co_tasks s"
    using t by (simp add: fun_upd_idem)
  have "entry_ok (co_tasks s) a (cancel_waiter t e)"
    using e(3) by (simp add: entry_ok_def lane_cancel) (simp add: cancel_waiter_def)
  then have "coord_inv (s\<lparr>heap := (heap s)(a \<mapsto> cancel_waiter t e), co_tasks := co_tasks s\<rparr>)"
    using inv_same_table [OF inv e(1), of t "Some (k, a, Waiting)" "cancel_waiter t e"] t same by simp
  then show ?thesis
    using s' t e(2) by (simp add: cancel_task_def)
qed

lemma inv_resume:
  assumes inv: "coord_inv s" and s': "resume_task t s = Some s'"
  shows "coord_inv s'"
proof -
  obtain k a where t: "co_tasks s t = Some (k, a, Waiting)"
    using s' by (auto simp: resume_task_def split: option.splits prod.splits phase.splits)
  obtain e where e: "locks s k = Some a" "heap s a = Some e" "entry_ok (co_tasks s) a e"
    by (rule inv_waiting [OF inv t])
  let ?W = "on (co_tasks s) a Waiting" and ?H = "on (co_tasks s) a Holding"
  have lane: "lane_ok ?W ?H e" and ref: "ref_count e = int (card ?W) + int (card ?H)" "0 < ref_count e"
    using e(3) by (auto simp: entry_ok_def)
  obtain f where f: "map_of (lock_waiters e) t = Some f" "f \<noteq> Pending"
    using s' t e(2) by (auto simp: resume_task_def split: option.splits future.splits)
  show ?thesis
  proof (cases "f = Woken")
    case True
    note w = lane_resume [OF lane f(1) [unfolded True]]
    let ?e = "(remove_waiter t e)\<lparr>is_locked := True\<rparr>"
    have "entry_ok ((co_tasks s)(t \<mapsto> (k, a, Holding))) a ?e"
      using w ref lane_finite [OF lane] card_less_one [of ?W t] by (simp add: entry_ok_def on_upd del: card_Diff_insert)
    then show ?thesis
      using inv_same_table [OF inv e(1), of t "Some (k, a, Holding)" ?e] s' t e(2) f(1) True by (simp add: resume_task_def)
  next
    case False
    let ?e = "if is_locked (remove_waiter t e) then remove_waiter t e else wake_up_first (remove_waiter t e)"
    have "t \<notin> ?H"
      using t by (simp add: on_def)
    from lane_abandon [OF lane this] have "coord_inv (leave t k a ?e s)"
      by (intro inv_leave [OF inv t e(2)]) simp_all
    moreover have "s' = leave t k a ?e s"
      using s' t e(2) f False by (cases f) (simp_all add: resume_task_def Let_def)
    ultimately show ?thesis by simp
  qed
qed

lemma inv_finish:
  assumes inv: "coord_inv s" and s': "finish_merge t s = Some s'"
  shows "coord_inv s'"
proof -
  obtain k a where t: "co_tasks s t = Some (k, a, Holding)"
    using s' by (auto simp: finish_merge_def split: option.splits prod.splits phase.splits)
  obtain e where e: "locks s k = Some a" "heap s a = Some e" "entry_ok (co_tasks s) a e"
    by (rule inv_waiting [OF inv t])
  have "t \<in> on (co_tasks s) a Holding"
    using t by (auto simp: on_def)
  then have "coord_inv (leave t k a (lock_release e) s)"
    using e(3) by (intro inv_leave [OF inv t e(2)] lane_finish) (simp_all add: entry_ok_def)
  then show ?thesis
    using s' t e(2) by (simp add: finish_merge_def)
qed

lemma reachable_inv: "reachable s \<Longrightarrow> coord_inv s"
proof (induction rule: reachable.induct)
  case initial
  show ?case
    by (simp add: coord_inv_def init_coordinator_def)
next
  case (happens s ev s')
  then show ?case
    by (cases ev) (auto intro: inv_enter inv_cancel inv_resume inv_finish)
qed

section \<open>Progress\<close>

definition coord_weight :: "(string \<rightharpoonup> MergeCoordinationKey \<times> nat \<times> phase) \<Rightarrow> nat" where
  "coord_weight T = card (dom T) + card {t. \<exists>k a. T t = Some (k, a, Waiting)}"

definition internal_event :: "event \<Rightarrow> bool" where
  "internal_event ev = (case ev of Resume _ \<Rightarrow> True | Finish _ \<Rightarrow> True | _ \<Rightarrow> False)"

lemma leave_tasks [simp]: "co_tasks (leave t k a e s) = (co_tasks s)(t := None)"
  by (simp add: leave_def release_entry_def Let_def split: option.splits)

lemma weight_gone:
  assumes "finite (dom T)" and "T t \<noteq> None"
  shows "coord_weight (T(t := None)) < coord_weight T"
proof -
  have "{u. \<exists>k a. (T(t := None)) u = Some (k, a, Waiting)} \<subseteq> {u. \<exists>k a. T u = Some (k, a, Waiting)}"
    by auto
  moreover have "finite {u. \<exists>k a. T u = Some (k, a, Waiting)}"
    by (rule finite_subset [OF _ assms(1)]) auto
  ultimately have "card {u. \<exists>k a. (T(t := None)) u = Some (k, a, Waiting)} \<le> card {u. \<exists>k a. T u = Some (k, a, Waiting)}"
    by (rule card_mono [rotated])
  moreover have "card (dom (T(t := None))) < card (dom T)"
    using assms by (intro psubset_card_mono) auto
  ultimately show ?thesis
    by (simp add: coord_weight_def)
qed

lemma weight_held:
  assumes "finite (dom T)" and "T t = Some (k, a, Waiting)"
  shows "coord_weight (T(t \<mapsto> (k, a, Holding))) < coord_weight T"
proof -
  have "{u. \<exists>k' a'. (T(t \<mapsto> (k, a, Holding))) u = Some (k', a', Waiting)} \<subset> {u. \<exists>k a. T u = Some (k, a, Waiting)}"
    using assms(2) by auto
  moreover have "finite {u. \<exists>k a. T u = Some (k, a, Waiting)}"
    by (rule finite_subset [OF _ assms(1)]) auto
  ultimately have "card {u. \<exists>k' a'. (T(t \<mapsto> (k, a, Holding))) u = Some (k', a', Waiting)} < card {u. \<exists>k a. T u = Some (k, a, Waiting)}"
    by (rule psubset_card_mono [rotated])
  moreover have "dom (T(t \<mapsto> (k, a, Holding))) = dom T"
    using assms(2) by auto
  ultimately show ?thesis
    by (simp add: coord_weight_def)
qed

lemma resume_weight:
  assumes "finite (dom (co_tasks s))" and "resume_task t s = Some s'"
  shows "coord_weight (co_tasks s') < coord_weight (co_tasks s)"
proof -
  obtain k a where t: "co_tasks s t = Some (k, a, Waiting)"
    using assms(2) by (auto simp: resume_task_def split: option.splits prod.splits phase.splits)
  then have "co_tasks s' = (co_tasks s)(t \<mapsto> (k, a, Holding)) \<or> co_tasks s' = (co_tasks s)(t := None)"
    using assms(2) by (auto simp: resume_task_def Let_def split: option.splits future.splits)
  then show ?thesis
    using weight_held [OF assms(1) t] weight_gone [OF assms(1), of t] t by auto
qed

lemma finish_weight: "finite (dom (co_tasks s)) \<Longrightarrow> finish_merge t s = Some s' \<Longrightarrow> coord_weight (co_tasks s') < coord_weight (co_tasks s)"
  by (auto simp: finish_merge_def intro!: weight_gone split: option.splits prod.splits phase.splits)

lemma happen_finite: "finite (dom (co_tasks s)) \<Longrightarrow> happen ev s = Some s' \<Longrightarrow> finite (dom (co_tasks s'))"
  by (cases ev) (auto simp: enter_merge_def claim_entry_def cancel_task_def resume_task_def finish_merge_def Let_def
      split: option.splits prod.splits phase.splits future.splits)

lemma reachable_finite: "reachable s \<Longrightarrow> finite (dom (co_tasks s))"
  by (induction rule: reachable.induct) (auto simp: init_coordinator_def intro: happen_finite)

text \<open>Whenever a task is inside, a task of the same lane can go on: the holder can finish or the first waiter resumes.\<close>

lemma not_stuck:
  assumes inv: "coord_inv s" and t: "co_tasks s t = Some (k, a, p)"
  shows "\<exists>ev s'. internal_event ev \<and> happen ev s = Some s'"
proof -
  obtain e where e: "locks s k = Some a" "heap s a = Some e" "entry_ok (co_tasks s) a e"
    by (rule inv_waiting [OF inv t])
  let ?W = "on (co_tasks s) a Waiting" and ?H = "on (co_tasks s) a Holding"
  have lane: "is_locked e = (?H \<noteq> {})" "fst ` set (lock_waiters e) = ?W" "queue_ok (is_locked e) (lock_waiters e)"
    using e(3) by (auto simp: entry_ok_def lane_ok_def)
  show ?thesis
  proof (cases "is_locked e")
    case True
    then obtain u k' where "co_tasks s u = Some (k', a, Holding)"
      using lane by (auto simp: on_def)
    then have "happen (Finish u) s \<noteq> None"
      using e(2) by (simp add: finish_merge_def)
    then show ?thesis
      by (intro exI [of _ "Finish u"]) (auto simp: internal_event_def)
  next
    case False
    then have "p = Waiting"
      using t lane by (cases p) (auto simp: on_def)
    then have "?W \<noteq> {}"
      using t by (auto simp: on_def)
    then obtain u f ws where ws: "lock_waiters e = (u, f) # ws"
      using lane(2) by (cases "lock_waiters e") auto
    then have f: "f \<noteq> Pending"
      using lane(3) False by (simp add: queue_ok_def)
    have "u \<in> ?W"
      using lane(2) ws by (auto simp flip: lane(2))
    then obtain k' where "co_tasks s u = Some (k', a, Waiting)"
      by (auto simp: on_def)
    then have "happen (Resume u) s \<noteq> None"
      using e(2) ws f by (cases f) (simp_all add: resume_task_def Let_def)
    then show ?thesis
      by (intro exI [of _ "Resume u"]) (auto simp: internal_event_def)
  qed
qed

lemma internal_weight:
  "finite (dom (co_tasks s)) \<Longrightarrow> internal_event ev \<Longrightarrow> happen ev s = Some s' \<Longrightarrow> coord_weight (co_tasks s') < coord_weight (co_tasks s)"
  by (cases ev) (auto simp: internal_event_def intro: resume_weight finish_weight)

lemma inv_idle: "coord_inv s \<Longrightarrow> co_tasks s = Map.empty \<Longrightarrow> locks s = Map.empty"
proof (rule ext)
  fix k
  assume inv: "coord_inv s" and idle: "co_tasks s = Map.empty"
  show "locks s k = None"
  proof (cases "locks s k")
    case (Some a)
    then show ?thesis
      using inv_entry [OF inv Some] by (auto simp: entry_ok_def on_def idle)
  qed
qed

lemma drains:
  assumes "reachable s"
  shows "\<exists>evs s'. list_all internal_event evs \<and> length evs \<le> coord_weight (co_tasks s) \<and> execution evs s = Some s'
    \<and> co_tasks s' = Map.empty \<and> locks s' = Map.empty"
  using assms
proof (induction "coord_weight (co_tasks s)" arbitrary: s rule: less_induct)
  case less
  show ?case
  proof (cases "co_tasks s = Map.empty")
    case True
    then show ?thesis
      using inv_idle [OF reachable_inv [OF less.prems]] by (intro exI [of _ "[]"] exI [of _ s]) simp
  next
    case False
    then obtain t x where "co_tasks s t = Some x"
      by (meson not_Some_eq ext)
    then obtain ev s1 where ev: "internal_event ev" "happen ev s = Some s1"
      using not_stuck [OF reachable_inv [OF less.prems]] by (metis prod_cases3)
    have w: "coord_weight (co_tasks s1) < coord_weight (co_tasks s)"
      using internal_weight [OF reachable_finite [OF less.prems] ev] .
    obtain evs s' where "list_all internal_event evs" "length evs \<le> coord_weight (co_tasks s1)" "execution evs s1 = Some s'"
      "co_tasks s' = Map.empty" "locks s' = Map.empty"
      using less.hyps [OF w reachable.happens [OF less.prems ev(2)]] by blast
    then show ?thesis
      using ev w by (intro exI [of _ "ev # evs"] exI [of _ s']) simp
  qed
qed

section \<open>Properties\<close>

text \<open>
  Property C3: merges of one repository and base branch exclude each other.  Whatever tasks enter, wait, are cancelled, resume and leave in
  whatever order, at most one task of a lane is in its critical section, all tasks of a lane share one lock entry whose reference
  count is their number, and the table has an entry for exactly the lanes some task is in.
\<close>

theorem merge_lane_exclusive:
  assumes "reachable s"
  shows "(co_tasks s t = Some (k, a, Holding) \<and> co_tasks s u = Some (k, b, Holding) \<longrightarrow> t = u)
    \<and> (locks s k = None \<longleftrightarrow> (\<forall>t a p. co_tasks s t \<noteq> Some (k, a, p)))
    \<and> (\<forall>a. locks s k = Some a \<longrightarrow> map_option ref_count (heap s a) = Some (int (card {t. \<exists>p. co_tasks s t = Some (k, a, p)})))"
proof (intro conjI impI allI)
  note inv = reachable_inv [OF assms]
  have lanes: "{t. \<exists>p. co_tasks s t = Some (k, a, p)} = on (co_tasks s) a Waiting \<union> on (co_tasks s) a Holding"
    if "locks s k = Some a" for a
  proof -
    have "k' = k" if "co_tasks s t = Some (k', a, p)" for t k' p
      using inv_task [OF inv that] \<open>locks s k = Some a\<close> inv by (auto simp: coord_inv_def inj_on_def dom_def)
    moreover have "p = Waiting \<or> p = Holding" for p
      by (cases p) auto
    ultimately show ?thesis
      by (fastforce simp: on_def)
  qed
  {
    assume tu: "co_tasks s t = Some (k, a, Holding) \<and> co_tasks s u = Some (k, b, Holding)"
    then obtain e where e: "locks s k = Some a" "entry_ok (co_tasks s) a e"
      using inv_waiting [OF inv, of t k a Holding] by blast
    then have "b = a"
      using inv_task [OF inv, of u k b Holding] tu by simp
    then have "t \<in> on (co_tasks s) a Holding" "u \<in> on (co_tasks s) a Holding"
      using tu by (auto simp: on_def)
    then show "t = u"
      using e(2) by (auto simp: entry_ok_def lane_ok_def)
  }
  show "locks s k = None \<longleftrightarrow> (\<forall>t a p. co_tasks s t \<noteq> Some (k, a, p))"
  proof (cases "locks s k")
    case None
    then show ?thesis
      using inv_task [OF inv] by fastforce
  next
    case (Some a)
    then obtain e where "entry_ok (co_tasks s) a e"
      using inv_entry [OF inv] by blast
    then have "on (co_tasks s) a Waiting \<union> on (co_tasks s) a Holding \<noteq> {}"
      by (auto simp: entry_ok_def)
    then obtain t p where "co_tasks s t = Some (k, a, p)"
      using lanes [OF Some] by blast
    then show ?thesis
      using Some by auto
  qed
  fix a
  assume l: "locks s k = Some a"
  then obtain e where e: "heap s a = Some e" "entry_ok (co_tasks s) a e"
    using inv_entry [OF inv] by blast
  then have "finite (on (co_tasks s) a Waiting)" "finite (on (co_tasks s) a Holding)"
    using lane_finite by (auto simp: entry_ok_def)
  then show "map_option ref_count (heap s a) = Some (int (card {t. \<exists>p. co_tasks s t = Some (k, a, p)}))"
    using e on_phase [of "co_tasks s" a] by (simp add: lanes [OF l] card_Un_disjoint entry_ok_def)
qed

text \<open>
  Property C23: no wake-up is lost.  From every reachable state, whatever was cancelled, the tasks inside can go on until all have left and the table of
  locks is empty, in at most twice as many steps as there are tasks.
\<close>

theorem merge_lanes_drain:
  assumes "reachable s"
  shows "\<exists>evs s'. list_all internal_event evs \<and> length evs \<le> 2 * card (dom (co_tasks s)) \<and> execution evs s = Some s'
    \<and> co_tasks s' = Map.empty \<and> locks s' = Map.empty"
proof -
  have "card {t. \<exists>k a. co_tasks s t = Some (k, a, Waiting)} \<le> card (dom (co_tasks s))"
    by (rule card_mono [OF reachable_finite [OF assms]]) auto
  then have "coord_weight (co_tasks s) \<le> 2 * card (dom (co_tasks s))"
    by (simp add: coord_weight_def)
  then show ?thesis
    using drains [OF assms] by fastforce
qed

lemma execution_reachable: "reachable s \<Longrightarrow> execution evs s = Some s' \<Longrightarrow> reachable s'"
proof (induction evs arbitrary: s)
  case (Cons ev evs)
  obtain s1 where "happen ev s = Some s1" "execution evs s1 = Some s'"
    using Cons.prems(2) by (cases "happen ev s") auto
  then show ?case
    using Cons.IH [of s1] Cons.prems(1) happens by blast
qed simp

text \<open>Three tasks want one lane; the first waiter is cancelled just as it is woken.\<close>

definition busy_events :: "event list" where
  "busy_events = [Enter ''a'' ''r'' ''main'', Enter ''b'' ''r '' ''main'', Enter ''c'' '' r'' ''main'', Finish ''a'', Cancel ''b'', Resume ''b'', Resume ''c'']"

definition busy :: coordinator where
  "busy = the (execution busy_events init_coordinator)"

lemma busy_execution: "execution busy_events init_coordinator = Some busy"
proof -
  have "execution busy_events init_coordinator \<noteq> None"
    by code_simp
  then show ?thesis
    by (simp add: busy_def)
qed

lemma busy_tasks:
  "co_tasks busy ''c'' = Some (from_values ''r'' ''main'', 0, Holding)" "co_tasks busy ''a'' = None" "co_tasks busy ''b'' = None"
  by code_simp+

theorem merge_lane_exclusive_witness:
  "{u. \<exists>b. co_tasks busy u = Some (from_values ''r'' ''main'', b, Holding)} = {''c''}"
proof -
  have "u = ''c''" if "co_tasks busy u = Some (from_values ''r'' ''main'', b, Holding)" for u b
    using merge_lane_exclusive [OF execution_reachable [OF initial busy_execution], of "''c''" "from_values ''r'' ''main''" 0 u b]
      busy_tasks(1) that by blast
  with busy_tasks(1) show ?thesis by blast
qed

theorem merge_lanes_drain_witness:
  "\<exists>evs s'. execution evs busy = Some s' \<and> evs \<noteq> [] \<and> co_tasks s' = Map.empty \<and> locks s' = Map.empty"
proof -
  obtain evs s' where "execution evs busy = Some s'" "co_tasks s' = Map.empty" "locks s' = Map.empty"
    using merge_lanes_drain [OF execution_reachable [OF initial busy_execution]] by blast
  moreover from this have "evs \<noteq> []"
    using busy_tasks(1) by auto
  ultimately show ?thesis by blast
qed

end
