(* ===== verification/Tasks.thy ===== *)
theory Tasks
  imports Candidates Owned_Paths
begin

text \<open>
  Task identity and attempts (\<open>db/repositories/task_repo.py\<close>).  A table is a list of rows; flushing a table that breaks a unique
  constraint raises \<open>IntegrityError\<close>.  \<open>create_or_get\<close> takes two tables: the one its lookup reads and the one its
  insert meets, since other transactions may commit in between.
\<close>

section \<open>Tasks\<close>

datatype task_error = TaskExternalIdConflictError string | IntegrityError

definition non_null :: "('a \<Rightarrow> 'b option) \<Rightarrow> 'a list \<Rightarrow> 'b list" where
  "non_null g xs = List.map_filter g xs"

definition tasks_unique :: "Task list \<Rightarrow> bool" where
  "tasks_unique tab = (distinct (map tk_id tab) \<and> distinct (non_null tk_external_id tab) \<and> distinct (non_null tk_idempotency_key tab))"

definition flush_tasks :: "'a \<Rightarrow> Task list \<Rightarrow> task_error + 'a \<times> Task list" where
  "flush_tasks r tab = (if tasks_unique tab then Inr (r, tab) else Inl IntegrityError)"

record task_request =
  tq_repo_url :: string
  tq_base_branch :: string
  tq_title :: string
  tq_prompt :: string
  tq_external_id :: "string option"
  tq_idempotency_key :: "string option"
  tq_task_class :: "string option"
  tq_owned_paths :: "string list"

definition find_reusable :: "string option \<Rightarrow> string option \<Rightarrow> Task list \<Rightarrow> Task option" where
  "find_reusable ext key tab =
     (case (case ext of None \<Rightarrow> None | Some x \<Rightarrow> find (\<lambda>t. tk_external_id t = Some x) tab) of
        Some t \<Rightarrow> Some t
      | None \<Rightarrow> (case key of None \<Rightarrow> None | Some k \<Rightarrow> find (\<lambda>t. tk_idempotency_key t = Some k) tab))"

definition task_scope_matches :: "Task \<Rightarrow> task_request \<Rightarrow> bool" where
  "task_scope_matches t q =
     (tk_repo_url t = tq_repo_url q \<and> tk_base_branch t = tq_base_branch q \<and> tk_task_class t = tq_task_class q
      \<and> tk_owned_paths t = tq_owned_paths q \<and> tk_title t = tq_title q)"

definition put_task :: "Task list \<Rightarrow> Task \<Rightarrow> Task list" where
  "put_task tab t = map (\<lambda>u. if tk_id u = tk_id t then t else u) tab"

definition reuse_or_conflict :: "Task \<Rightarrow> task_request \<Rightarrow> Task list \<Rightarrow> task_error + Task \<times> Task list" where
  "reuse_or_conflict t q tab =
     (let stamped = t\<lparr>tk_external_id := (case tk_external_id t of None \<Rightarrow> tq_external_id q | Some x \<Rightarrow> Some x),
                      tk_idempotency_key := (case tk_idempotency_key t of None \<Rightarrow> tq_idempotency_key q | Some k \<Rightarrow> Some k)\<rparr> in
      case (tq_external_id q, tk_external_id t) of
        (Some x, Some y) \<Rightarrow>
          if y \<noteq> x \<or> \<not> task_scope_matches t q then Inl (TaskExternalIdConflictError x) else flush_tasks stamped (put_task tab stamped)
      | _ \<Rightarrow> flush_tasks stamped (put_task tab stamped))"

definition new_task :: "string \<Rightarrow> task_request \<Rightarrow> Task" where
  "new_task i q =
     \<lparr>tk_id = i, tk_external_id = tq_external_id q, tk_idempotency_key = tq_idempotency_key q, tk_repo_url = tq_repo_url q,
      tk_base_branch = tq_base_branch q, tk_title = tq_title q, tk_prompt = tq_prompt q, tk_task_class = tq_task_class q,
      tk_owned_paths = tq_owned_paths q\<rparr>"

text \<open>\<open>i\<close> is the identifier drawn for a new task; \<open>seen\<close> is the table at the lookup, \<open>tab\<close> the table at the insert.\<close>

definition create_or_get :: "string \<Rightarrow> task_request \<Rightarrow> Task list \<Rightarrow> Task list \<Rightarrow> task_error + Task \<times> Task list" where
  "create_or_get i q seen tab =
     (case find_reusable (tq_external_id q) (tq_idempotency_key q) seen of
        Some t \<Rightarrow> reuse_or_conflict t q tab
      | None \<Rightarrow>
          (case flush_tasks (new_task i q) (tab @ [new_task i q]) of
             Inr r \<Rightarrow> Inr r
           | Inl e \<Rightarrow>
               (case find_reusable (tq_external_id q) (tq_idempotency_key q) tab of
                  None \<Rightarrow> Inl e
                | Some t \<Rightarrow> reuse_or_conflict t q tab)))"

definition get_task :: "string \<Rightarrow> Task list \<Rightarrow> Task option" where
  "get_task i tab = find (\<lambda>t. tk_id t = i) tab"

definition get_by_ref :: "string \<Rightarrow> Task list \<Rightarrow> Task option" where
  "get_by_ref r tab = (case get_task r tab of Some t \<Rightarrow> Some t | None \<Rightarrow> find (\<lambda>t. tk_external_id t = Some r) tab)"

section \<open>Attempts\<close>

definition attempts_unique :: "TaskAttempt list \<Rightarrow> bool" where
  "attempts_unique tab =
     (distinct (map at_id tab) \<and> distinct (map at_workspace_id tab) \<and> distinct (map (\<lambda>a. (at_task_id a, attempt_number a)) tab))"

definition numbers_of :: "string \<Rightarrow> TaskAttempt list \<Rightarrow> int list" where
  "numbers_of tid tab = map attempt_number (filter (\<lambda>a. at_task_id a = tid) tab)"

text \<open>\<open>(max or 0) + 1\<close>, where the maximum of no rows is null.\<close>

definition next_attempt_number :: "string \<Rightarrow> TaskAttempt list \<Rightarrow> int" where
  "next_attempt_number tid tab = (case numbers_of tid tab of [] \<Rightarrow> 0 | n # ns \<Rightarrow> fold max ns n) + 1"

definition new_attempt :: "string \<Rightarrow> Task \<Rightarrow> Workspace \<Rightarrow> string option \<Rightarrow> string option \<Rightarrow> int \<Rightarrow> TaskAttempt" where
  "new_attempt i t w parent redispatch n =
     \<lparr>at_id = i, at_task_id = tk_id t, at_workspace_id = ws_id w, attempt_number = n, parent_attempt_id = parent,
      redispatch_from_attempt_id = redispatch, superseded_by_attempt_id = None, is_canonical_for_merge = False,
      at_agent = ws_agent w, at_status = status w, at_repo_url = repo_url w, at_base_branch = branch_base w,
      at_title = task_title w, at_task_class = task_class w, at_owned_paths = owned_paths w\<rparr>"

definition create_for_workspace ::
    "string \<Rightarrow> Task \<Rightarrow> Workspace \<Rightarrow> string option \<Rightarrow> string option \<Rightarrow> TaskAttempt list \<Rightarrow> task_error + TaskAttempt \<times> TaskAttempt list" where
  "create_for_workspace i t w parent redispatch tab =
     (let a = new_attempt i t w parent redispatch (next_attempt_number (tk_id t) tab); tab' = tab @ [a] in
      if attempts_unique tab' then Inr (a, tab') else Inl IntegrityError)"

definition get_by_workspace_ids :: "string list \<Rightarrow> TaskAttempt list \<Rightarrow> (string \<rightharpoonup> TaskAttempt)" where
  "get_by_workspace_ids wids tab =
     fold (\<lambda>a m. m(at_workspace_id a \<mapsto> a)) (filter (\<lambda>a. at_workspace_id a \<in> set (dedupe wids)) tab) Map.empty"

definition list_canonical_ids_for_tasks :: "string list \<Rightarrow> TaskAttempt list \<Rightarrow> (string \<rightharpoonup> string)" where
  "list_canonical_ids_for_tasks tids tab =
     fold (\<lambda>a m. m(at_task_id a \<mapsto> at_id a)) (filter (\<lambda>a. at_task_id a \<in> set (dedupe tids) \<and> is_canonical_for_merge a) tab) Map.empty"

section \<open>Unique columns\<close>

lemma non_null_append [simp]: "non_null g (xs @ ys) = non_null g xs @ non_null g ys"
  by (induction xs) (simp_all add: non_null_def List.map_filter_simps split: option.splits)

lemma non_null_simps [simp]: "non_null g [] = []" "non_null g (x # xs) = (case g x of None \<Rightarrow> non_null g xs | Some y \<Rightarrow> y # non_null g xs)"
  by (simp_all add: non_null_def List.map_filter_simps split: option.splits)

lemma set_non_null: "set (non_null g xs) = {y. \<exists>x \<in> set xs. g x = Some y}"
  by (induction xs) (auto split: option.splits)

lemma find_None_column: "find (\<lambda>t. g t = Some y) xs = None \<longleftrightarrow> y \<notin> set (non_null g xs)"
  by (auto simp: find_None_iff set_non_null)

lemma find_Some_column: "find (\<lambda>t. g t = Some y) xs = Some t \<Longrightarrow> t \<in> set xs \<and> g t = Some y \<and> y \<in> set (non_null g xs)"
  by (auto simp: find_Some_iff set_non_null)

lemma find_reusable_None:
  "find_reusable ext key tab = None \<longleftrightarrow>
     (\<forall>x. ext = Some x \<longrightarrow> x \<notin> set (non_null tk_external_id tab)) \<and> (\<forall>k. key = Some k \<longrightarrow> k \<notin> set (non_null tk_idempotency_key tab))"
  by (auto simp: find_reusable_def find_None_column dest: find_Some_column split: option.splits)

lemma insert_unique:
  assumes "tasks_unique tab" and "i \<notin> tk_id ` set tab"
  shows "tasks_unique (tab @ [new_task i q]) \<longleftrightarrow> find_reusable (tq_external_id q) (tq_idempotency_key q) tab = None"
  using assms by (auto simp: tasks_unique_def find_reusable_None new_task_def split: option.splits)

text \<open>
  Property C28: losing a race is harmless: a caller whose lookup saw no matching task, but who meets an arbitrary later state of the table when it inserts,
  gets exactly the outcome of a caller that comes after that state (the same task, or the same conflict), and a new task
  is inserted only if none with its external id or key is there.
\<close>

theorem create_or_get_race:
  assumes "find_reusable (tq_external_id q) (tq_idempotency_key q) seen = None"
    and "tasks_unique tab" and "i \<notin> tk_id ` set tab"
  shows "create_or_get i q seen tab = create_or_get i q tab tab"
proof (cases "find_reusable (tq_external_id q) (tq_idempotency_key q) tab")
  case None
  then show ?thesis
    using assms by (simp add: create_or_get_def)
next
  case (Some t)
  then have "flush_tasks (new_task i q) (tab @ [new_task i q]) = Inl IntegrityError"
    using insert_unique [OF assms(2,3), of q] by (simp add: flush_tasks_def)
  then show ?thesis
    using assms(1) Some by (simp add: create_or_get_def)
qed

definition some_request :: task_request where
  "some_request = \<lparr>tq_repo_url = ''r'', tq_base_branch = ''main'', tq_title = ''t'', tq_prompt = ''p'', tq_external_id = Some ''E'',
     tq_idempotency_key = Some ''K'', tq_task_class = None, tq_owned_paths = [''src'']\<rparr>"

theorem create_or_get_race_witness:
  "create_or_get ''t2'' some_request [] [new_task ''t1'' some_request] = Inr (new_task ''t1'' some_request, [new_task ''t1'' some_request])"
proof -
  have "create_or_get ''t2'' some_request [] [new_task ''t1'' some_request]
      = create_or_get ''t2'' some_request [new_task ''t1'' some_request] [new_task ''t1'' some_request]"
    by (rule create_or_get_race) (simp_all add: find_reusable_def tasks_unique_def new_task_def some_request_def)
  also have "\<dots> = Inr (new_task ''t1'' some_request, [new_task ''t1'' some_request])"
    by (simp add: create_or_get_def find_reusable_def reuse_or_conflict_def flush_tasks_def tasks_unique_def put_task_def
        task_scope_matches_def new_task_def some_request_def Let_def)
  finally show ?thesis .
qed

section \<open>Outcomes\<close>

lemma find_reusable_Some:
  assumes "find_reusable ext key tab = Some t"
  shows "t \<in> set tab" and "(\<exists>x. ext = Some x \<and> tk_external_id t = Some x)
    \<or> (\<exists>k. key = Some k \<and> tk_idempotency_key t = Some k \<and> (\<forall>x. ext = Some x \<longrightarrow> x \<notin> set (non_null tk_external_id tab)))"
  using assms by (auto simp: find_reusable_def find_None_column dest!: find_Some_column split: option.splits)

lemma put_task_row: "distinct (map tk_id tab) \<Longrightarrow> t \<in> set tab \<Longrightarrow> tk_id t' = tk_id t \<Longrightarrow> t' \<in> set (put_task tab t')"
  by (force simp: put_task_def)

lemma put_task_ids [simp]: "tk_id ` set (put_task tab t) = tk_id ` set tab" "map tk_id (put_task tab t) = map tk_id tab"
  by (induction tab) (auto simp: put_task_def)

lemma flush_SomeD: "flush_tasks r tab = Inr (r', tab') \<Longrightarrow> r' = r \<and> tab' = tab \<and> tasks_unique tab"
  by (simp add: flush_tasks_def split: if_splits)

lemma reuse_outcome:
  assumes "reuse_or_conflict t q tab = Inr (r, tab')"
  shows "tk_id r = tk_id t" "tab' = put_task tab r" "tasks_unique tab'"
    and "tq_external_id q \<noteq> None \<Longrightarrow> tk_external_id r = tq_external_id q"
    and "tq_external_id q \<noteq> None \<Longrightarrow> tk_external_id t \<noteq> None \<Longrightarrow> task_scope_matches t q"
    and "tk_external_id t \<noteq> None \<Longrightarrow> tk_external_id r = tk_external_id t"
    and "tk_idempotency_key t \<noteq> None \<Longrightarrow> tk_idempotency_key r = tk_idempotency_key t"
    and "task_scope_matches r q = task_scope_matches t q"
  using assms
  by (auto simp: reuse_or_conflict_def Let_def task_scope_matches_def dest!: flush_SomeD split: option.splits if_splits)

text \<open>
  What a caller gets back.  The returned task is a row of the resulting table, which keeps ids, external ids and keys unique; it carries
  the caller's external id; a task that already had that external id has the caller's scope; no row disappears, no row other
  than the returned one changes, and no identity already stamped on a row is ever replaced.
\<close>

theorem create_or_get_outcome:
  assumes "tasks_unique tab" and "i \<notin> tk_id ` set tab" and "create_or_get i q tab tab = Inr (r, tab')"
  shows "r \<in> set tab' \<and> tasks_unique tab' \<and> (tq_external_id q \<noteq> None \<longrightarrow> tk_external_id r = tq_external_id q)
    \<and> (tq_external_id q \<noteq> None \<and> tq_external_id q \<in> tk_external_id ` set tab \<longrightarrow> task_scope_matches r q)
    \<and> (\<forall>t \<in> set tab. if tk_id t = tk_id r then (tk_external_id t \<noteq> None \<longrightarrow> tk_external_id r = tk_external_id t)
          \<and> (tk_idempotency_key t \<noteq> None \<longrightarrow> tk_idempotency_key r = tk_idempotency_key t) else t \<in> set tab')"
proof (cases "find_reusable (tq_external_id q) (tq_idempotency_key q) tab")
  case None
  then have "r = new_task i q" "tab' = tab @ [r]" "tasks_unique tab'"
    using assms(3) insert_unique [OF assms(1,2), of q] by (auto simp: create_or_get_def flush_tasks_def)
  moreover have "tq_external_id q \<noteq> None \<Longrightarrow> tq_external_id q \<notin> tk_external_id ` set tab"
    using None by (fastforce simp: find_reusable_None set_non_null)
  ultimately show ?thesis
    using assms(2) by (auto simp: new_task_def)
next
  case (Some t)
  note f = find_reusable_Some [OF Some]
  have reuse: "reuse_or_conflict t q tab = Inr (r, tab')"
    using assms(3) Some by (simp add: create_or_get_def)
  note o = reuse_outcome [OF reuse]
  have same: "u = t" if "u \<in> set tab" "tk_id u = tk_id r" for u
    using assms(1) f(1) that o(1) by (auto simp: tasks_unique_def distinct_map inj_on_def)
  have "tk_external_id t \<noteq> None" if "tq_external_id q \<noteq> None" "tq_external_id q \<in> tk_external_id ` set tab"
    using f(2) that by (fastforce simp: set_non_null)
  then have sc: "task_scope_matches r q" if "tq_external_id q \<noteq> None" "tq_external_id q \<in> tk_external_id ` set tab"
    using o(5,8) that by blast
  have "u \<in> set tab'" if "u \<in> set tab" "tk_id u \<noteq> tk_id r" for u
    using that unfolding o(2) by (force simp: put_task_def)
  moreover have "r \<in> set tab'"
    using o(1,2) put_task_row [of tab t r] f(1) assms(1) by (simp add: tasks_unique_def)
  ultimately show ?thesis
    using o(3,4) sc same o(6,7) by (intro conjI ballI impI) (auto split: if_splits)
qed

theorem create_or_get_outcome_witness:
  "find_reusable (Some ''E'') None [new_task ''t1'' some_request] = Some (new_task ''t1'' some_request)
   \<and> (\<exists>r tab'. create_or_get ''t1'' some_request [] [] = Inr (r, tab') \<and> r \<in> set tab' \<and> tk_external_id r = Some ''E'')"
proof
  show "find_reusable (Some ''E'') None [new_task ''t1'' some_request] = Some (new_task ''t1'' some_request)"
    by (simp add: find_reusable_def new_task_def some_request_def)
  have "tasks_unique []" and c: "create_or_get ''t1'' some_request [] [] = Inr (new_task ''t1'' some_request, [new_task ''t1'' some_request])"
    by (simp_all add: create_or_get_def find_reusable_def flush_tasks_def tasks_unique_def new_task_def some_request_def)
  then have "new_task ''t1'' some_request \<in> set [new_task ''t1'' some_request] \<and> tk_external_id (new_task ''t1'' some_request) = Some ''E''"
    using create_or_get_outcome [of "[]" "''t1''" some_request] by (simp add: some_request_def)
  with c show "\<exists>r tab'. create_or_get ''t1'' some_request [] [] = Inr (r, tab') \<and> r \<in> set tab' \<and> tk_external_id r = Some ''E''"
    by blast
qed

definition column_ok :: "(Task \<Rightarrow> 'a option) \<Rightarrow> Task set \<Rightarrow> bool" where
  "column_ok g T = (\<forall>u \<in> T. \<forall>v \<in> T. \<forall>y. g u = Some y \<longrightarrow> g v = Some y \<longrightarrow> tk_id u = tk_id v)"

lemma column_okD: "column_ok g T \<Longrightarrow> u \<in> T \<Longrightarrow> v \<in> T \<Longrightarrow> g u = Some y \<Longrightarrow> g v = Some y \<Longrightarrow> tk_id u = tk_id v"
  unfolding column_ok_def by blast

lemma column_ok_insert:
  "column_ok g (insert t T) \<longleftrightarrow> column_ok g T \<and> (\<forall>v \<in> T. \<forall>y. g t = Some y \<longrightarrow> g v = Some y \<longrightarrow> tk_id v = tk_id t)"
proof (intro iffI conjI ballI allI impI)
  assume L: "column_ok g (insert t T)"
  show "column_ok g T"
    using L unfolding column_ok_def by blast
  show "tk_id v = tk_id t" if "v \<in> T" "g t = Some y" "g v = Some y" for v y
    using column_okD [OF L, of v t y] that by simp
next
  assume R: "column_ok g T \<and> (\<forall>v \<in> T. \<forall>y. g t = Some y \<longrightarrow> g v = Some y \<longrightarrow> tk_id v = tk_id t)"
  show "column_ok g (insert t T)"
    unfolding column_ok_def
  proof (intro ballI allI impI)
    fix u v y
    assume m: "u \<in> insert t T" "v \<in> insert t T" "g u = Some y" "g v = Some y"
    show "tk_id u = tk_id v"
    proof (cases "u \<in> T \<and> v \<in> T")
      case True
      then show ?thesis
        using column_okD [OF R [THEN conjunct1]] m by blast
    next
      case False
      then show ?thesis
        using R m by auto
    qed
  qed
qed

lemma column_distinct: "distinct (map tk_id tab) \<Longrightarrow> distinct (non_null g tab) \<longleftrightarrow> column_ok g (set tab)"
proof (induction tab)
  case Nil
  show ?case by (simp add: column_ok_def)
next
  case (Cons t tab)
  have idn: "tk_id v \<noteq> tk_id t" if "v \<in> set tab" for v
    using Cons.prems that by (auto simp: image_iff)
  have IH: "distinct (non_null g tab) \<longleftrightarrow> column_ok g (set tab)"
    using Cons by simp
  show ?case
  proof (cases "g t")
    case None
    then show ?thesis
      using IH by (simp add: column_ok_insert)
  next
    case (Some y)
    then have "(\<forall>v \<in> set tab. \<forall>z. g t = Some z \<longrightarrow> g v = Some z \<longrightarrow> tk_id v = tk_id t) \<longleftrightarrow> y \<notin> set (non_null g tab)"
      using idn by (auto simp: set_non_null)
    then show ?thesis
      using IH Some by (simp add: column_ok_insert conj_commute)
  qed
qed

lemma put_task_column:
  assumes "distinct (map tk_id tab)" and "t \<in> set tab" and "tk_id t' = tk_id t" and "distinct (non_null g tab)"
  shows "distinct (non_null g (put_task tab t')) \<longleftrightarrow> (\<forall>y. g t' = Some y \<longrightarrow> (\<forall>u \<in> set tab. g u = Some y \<longrightarrow> tk_id u = tk_id t))"
proof -
  have s: "set (put_task tab t') = insert t' {u \<in> set tab. tk_id u \<noteq> tk_id t}"
    using assms(2,3) by (auto simp: put_task_def)
  have "column_ok g {u \<in> set tab. tk_id u \<noteq> tk_id t}"
    using column_distinct [OF assms(1), of g] assms(4) unfolding column_ok_def by blast
  then have "column_ok g (set (put_task tab t')) \<longleftrightarrow> (\<forall>y. g t' = Some y \<longrightarrow> (\<forall>u \<in> set tab. g u = Some y \<longrightarrow> tk_id u = tk_id t))"
    unfolding s column_ok_insert assms(3) by blast
  then show ?thesis
    using column_distinct [of "put_task tab t'" g] assms(1) by simp
qed

text \<open>
  Property C29: one way to an unhandled database error remains.  A caller gets an integrity error exactly when its external id belongs to a task of the
  same scope that has no idempotency key yet while the caller's key is already on another task: the key is then stamped
  on the first task and the flush breaks the unique constraint.  Every other clash of identities is reported as a conflict or resolved.
\<close>

theorem create_or_get_integrity_error:
  assumes "tasks_unique tab" and "i \<notin> tk_id ` set tab"
  shows "create_or_get i q tab tab = Inl IntegrityError \<longleftrightarrow>
    (\<exists>t x k. t \<in> set tab \<and> tq_external_id q = Some x \<and> tk_external_id t = Some x \<and> task_scope_matches t q
       \<and> tk_idempotency_key t = None \<and> tq_idempotency_key q = Some k \<and> k \<in> set (non_null tk_idempotency_key tab))"
proof (cases "find_reusable (tq_external_id q) (tq_idempotency_key q) tab")
  case None
  then show ?thesis
    using insert_unique [OF assms, of q] by (simp add: create_or_get_def flush_tasks_def) (auto simp: find_reusable_None set_non_null)
next
  case (Some t)
  have u: "distinct (map tk_id tab)" "distinct (non_null tk_external_id tab)" "distinct (non_null tk_idempotency_key tab)"
    using assms(1) by (auto simp: tasks_unique_def)
  note f = find_reusable_Some [OF Some]
  have ce: "column_ok tk_external_id (set tab)" and ck: "column_ok tk_idempotency_key (set tab)"
    using column_distinct [OF u(1)] u(2,3) by blast+
  let ?s = "t\<lparr>tk_external_id := (case tk_external_id t of None \<Rightarrow> tq_external_id q | Some x \<Rightarrow> Some x),
              tk_idempotency_key := (case tk_idempotency_key t of None \<Rightarrow> tq_idempotency_key q | Some k \<Rightarrow> Some k)\<rparr>"
  have same: "v = t" if "v \<in> set tab" "tk_id v = tk_id t" for v
    using u(1) f(1) that by (auto simp: distinct_map inj_on_def)
  have ext: "distinct (non_null tk_external_id (put_task tab ?s))"
  proof -
    have "tk_id v = tk_id t" if y: "tk_external_id ?s = Some y" and v: "v \<in> set tab" "tk_external_id v = Some y" for y v
    proof (cases "tk_external_id t")
      case None
      then have "tq_external_id q = Some y" "y \<notin> set (non_null tk_external_id tab)"
        using y f(2) by auto
      then show ?thesis
        using v by (auto simp: set_non_null)
    next
      case t: (Some z)
      then show ?thesis
        using column_okD [OF ce v(1) f(1) v(2)] y by simp
    qed
    then show ?thesis
      by (subst put_task_column [OF u(1) f(1) _ u(2)]) auto
  qed
  have key: "distinct (non_null tk_idempotency_key (put_task tab ?s)) \<longleftrightarrow>
      \<not> (tk_idempotency_key t = None \<and> (\<exists>k. tq_idempotency_key q = Some k \<and> k \<in> set (non_null tk_idempotency_key tab)))"
  proof (cases "tk_idempotency_key t")
    case None
    have "tk_id v \<noteq> tk_id t" if "v \<in> set tab" "tk_idempotency_key v = Some k" for v k
      using same [of v] that None by auto
    then show ?thesis
      using None by (subst put_task_column [OF u(1) f(1) _ u(3)]) (auto simp: set_non_null)
  next
    case t: (Some k)
    then show ?thesis
      using column_okD [OF ck _ f(1)] by (subst put_task_column [OF u(1) f(1) _ u(3)]) auto
  qed
  have flush: "flush_tasks ?s (put_task tab ?s) = Inl IntegrityError \<longleftrightarrow>
      tk_idempotency_key t = None \<and> (\<exists>k. tq_idempotency_key q = Some k \<and> k \<in> set (non_null tk_idempotency_key tab))"
    using ext key u(1) by (simp add: flush_tasks_def tasks_unique_def)
  have uniq: "v = t" if "v \<in> set tab" "tk_external_id v = Some x" "tk_external_id t = Some x" for v x
    using same [OF that(1) column_okD [OF ce that(1) f(1) that(2,3)]] .
  show ?thesis
  proof (cases "\<exists>x. tq_external_id q = Some x \<and> tk_external_id t = Some x")
    case True
    then obtain x where x: "tq_external_id q = Some x" "tk_external_id t = Some x"
      by blast
    then have "create_or_get i q tab tab = Inl IntegrityError \<longleftrightarrow> task_scope_matches t q \<and> flush_tasks ?s (put_task tab ?s) = Inl IntegrityError"
      using Some by (simp add: create_or_get_def reuse_or_conflict_def Let_def)
    then have eq: "create_or_get i q tab tab = Inl IntegrityError \<longleftrightarrow> task_scope_matches t q \<and> tk_idempotency_key t = None
        \<and> (\<exists>k. tq_idempotency_key q = Some k \<and> k \<in> set (non_null tk_idempotency_key tab))"
      unfolding flush .
    show ?thesis
    proof
      assume "create_or_get i q tab tab = Inl IntegrityError"
      then show "\<exists>t x k. t \<in> set tab \<and> tq_external_id q = Some x \<and> tk_external_id t = Some x \<and> task_scope_matches t q
          \<and> tk_idempotency_key t = None \<and> tq_idempotency_key q = Some k \<and> k \<in> set (non_null tk_idempotency_key tab)"
        unfolding eq using x f(1) by blast
    next
      assume "\<exists>t x k. t \<in> set tab \<and> tq_external_id q = Some x \<and> tk_external_id t = Some x \<and> task_scope_matches t q
          \<and> tk_idempotency_key t = None \<and> tq_idempotency_key q = Some k \<and> k \<in> set (non_null tk_idempotency_key tab)"
      then obtain v where "v \<in> set tab" "tk_external_id v = Some x" "task_scope_matches v q" "tk_idempotency_key v = None"
        "\<exists>k. tq_idempotency_key q = Some k \<and> k \<in> set (non_null tk_idempotency_key tab)"
        using x(1) by auto
      then show "create_or_get i q tab tab = Inl IntegrityError"
        unfolding eq using uniq [of v x] x(2) by simp
    qed
  next
    case False
    then have k: "\<exists>k. tk_idempotency_key t = Some k" "\<And>x v. tq_external_id q = Some x \<Longrightarrow> v \<in> set tab \<Longrightarrow> tk_external_id v \<noteq> Some x"
      using f(2) by (auto simp: set_non_null)
    then have "create_or_get i q tab tab \<noteq> Inl IntegrityError"
      using Some flush False by (auto simp: create_or_get_def reuse_or_conflict_def Let_def split: option.splits)
    then show ?thesis
      using k(2) by blast
  qed
qed

definition keyless_and_keyed :: "Task list" where
  "keyless_and_keyed = [(new_task ''t1'' some_request)\<lparr>tk_idempotency_key := None\<rparr>,
     (new_task ''t2'' some_request)\<lparr>tk_external_id := None\<rparr>]"

theorem create_or_get_integrity_error_witness:
  "create_or_get ''t3'' some_request keyless_and_keyed keyless_and_keyed = Inl IntegrityError"
proof -
  have u: "tasks_unique keyless_and_keyed" "''t3'' \<notin> tk_id ` set keyless_and_keyed"
    by (simp_all add: keyless_and_keyed_def tasks_unique_def new_task_def some_request_def)
  show ?thesis
    unfolding create_or_get_integrity_error [OF u]
    by (rule exI [of _ "hd keyless_and_keyed"]) (simp add: keyless_and_keyed_def new_task_def some_request_def task_scope_matches_def)
qed

section \<open>Attempt numbers\<close>

definition attempts_numbered :: "TaskAttempt list \<Rightarrow> bool" where
  "attempts_numbered tab \<longleftrightarrow> (\<forall>tid. numbers_of tid tab = map int [1..<Suc (length (numbers_of tid tab))])"

lemma fold_max_upto: "fold max (map int [2..<Suc (Suc n)]) 1 = int (Suc n)"
  by (induction n) auto

lemma next_number:
  assumes "attempts_numbered tab"
  shows "next_attempt_number tid tab = int (length (numbers_of tid tab)) + 1"
proof (cases "length (numbers_of tid tab)")
  case 0
  then show ?thesis by (simp add: next_attempt_number_def)
next
  case (Suc n)
  then have "numbers_of tid tab = map int [1..<Suc (Suc n)]"
    using assms unfolding attempts_numbered_def by metis
  then have "numbers_of tid tab = 1 # map int [2..<Suc (Suc n)]"
    by (simp add: upt_conv_Cons numeral_2_eq_2 del: upt_Suc)
  then show ?thesis
    using Suc fold_max_upto [of n] by (simp add: next_attempt_number_def)
qed

lemma numbers_of_append: "numbers_of tid (tab @ [a]) = numbers_of tid tab @ (if at_task_id a = tid then [attempt_number a] else [])"
  by (simp add: numbers_of_def)

text \<open>
  Attempts of a task are numbered 1, 2, 3, ... in the order they are created.  A new attempt takes the next number, so the numbering constraint never
  fails; creating one raises exactly when the workspace already has an attempt, and otherwise keeps every constraint.
\<close>

theorem attempt_numbers_consecutive:
  fixes i t w parent redispatch tab
  assumes "attempts_numbered tab" and "attempts_unique tab" and "i \<notin> at_id ` set tab"
  defines "a \<equiv> new_attempt i t w parent redispatch (int (length (numbers_of (tk_id t) tab)) + 1)"
  shows "create_for_workspace i t w parent redispatch tab
      = (if ws_id w \<in> at_workspace_id ` set tab then Inl IntegrityError else Inr (a, tab @ [a]))
    \<and> attempts_numbered (tab @ [a])"
proof -
  let ?n = "length (numbers_of (tk_id t) tab)"
  have nums: "numbers_of (tk_id t) tab = map int [1..<Suc ?n]"
    using assms(1) unfolding attempts_numbered_def by blast
  have fresh: "(tk_id t, int ?n + 1) \<notin> (\<lambda>a. (at_task_id a, attempt_number a)) ` set tab"
  proof
    assume "(tk_id t, int ?n + 1) \<in> (\<lambda>a. (at_task_id a, attempt_number a)) ` set tab"
    then have "int ?n + 1 \<in> set (numbers_of (tk_id t) tab)"
      by (auto simp: numbers_of_def)
    then show False
      by (subst (asm) nums) auto
  qed
  have "attempts_unique (tab @ [a]) \<longleftrightarrow> ws_id w \<notin> at_workspace_id ` set tab"
    using assms(2,3) fresh by (auto simp: attempts_unique_def a_def new_attempt_def)
  moreover have "attempts_numbered (tab @ [a])"
    unfolding attempts_numbered_def
  proof
    fix tid
    have n: "numbers_of tid tab = map int [1..<Suc (length (numbers_of tid tab))]"
      using assms(1) unfolding attempts_numbered_def by blast
    show "numbers_of tid (tab @ [a]) = map int [1..<Suc (length (numbers_of tid (tab @ [a])))]"
    proof (cases "tk_id t = tid")
      case True
      then show ?thesis
        using n by (simp add: numbers_of_append a_def new_attempt_def)
    next
      case False
      then have "numbers_of tid (tab @ [a]) = numbers_of tid tab"
        by (simp add: numbers_of_append a_def new_attempt_def)
      then show ?thesis
        using n by (simp only:)
    qed
  qed
  ultimately show ?thesis
    by (simp add: create_for_workspace_def Let_def next_number [OF assms(1)] a_def)
qed

theorem attempt_numbers_consecutive_witness:
  "\<exists>a. create_for_workspace ''a2'' sample_task (sample_workspace ''w2'' Requested) (Some ''a1'') None [sample_attempt] = Inr (a, [sample_attempt, a])
     \<and> attempt_number a = 2"
proof -
  have "numbers_of tid [sample_attempt] = (if tid = ''t1'' then [1] else [])" for tid
    by (simp add: numbers_of_def sample_attempt_def)
  then have n: "attempts_numbered [sample_attempt]" "numbers_of ''t1'' [sample_attempt] = [1]"
    by (simp_all add: attempts_numbered_def)
  have u: "attempts_unique [sample_attempt]" "''a2'' \<notin> at_id ` set [sample_attempt]"
    by (simp_all add: attempts_unique_def sample_attempt_def)
  show ?thesis
    using attempt_numbers_consecutive [OF n(1) u, of sample_task "sample_workspace ''w2'' Requested" "Some ''a1''" None]
    by (simp add: sample_attempt_def sample_task_def n(2) [unfolded sample_attempt_def] new_attempt_def)
qed

section \<open>Looking tasks up\<close>

text \<open>
  A task is found again by its references: by its id always, and by its external id unless that text is the id of another task, in which case
  the other task is returned.
\<close>

theorem get_by_ref_roundtrip:
  assumes "tasks_unique tab" and "t \<in> set tab"
  shows "get_by_ref (tk_id t) tab = Some t
    \<and> (tk_external_id t = Some x \<longrightarrow> get_by_ref x tab = (case get_task x tab of Some u \<Rightarrow> Some u | None \<Rightarrow> Some t))"
proof -
  have found: "find (\<lambda>u. g u = g t) xs = Some t" if "\<And>u. u \<in> set xs \<Longrightarrow> g u = g t \<Longrightarrow> u = t" "t \<in> set xs" for g :: "Task \<Rightarrow> 'a" and xs
    using that by (induction xs) auto
  have d: "distinct (map tk_id tab)" "column_ok tk_external_id (set tab)"
    using assms(1) column_distinct [of tab tk_external_id] by (auto simp: tasks_unique_def)
  then have same: "u = t" if "u \<in> set tab" "tk_id u = tk_id t" for u
    using that assms(2) by (auto simp: distinct_map inj_on_def)
  have "find (\<lambda>u. tk_external_id u = Some x) tab = Some t" if x: "tk_external_id t = Some x"
  proof -
    have "u = t" if "u \<in> set tab" "tk_external_id u = tk_external_id t" for u
      using same [OF that(1) column_okD [OF d(2) that(1) assms(2)]] that(2) x by simp
    from found [of tab tk_external_id, OF this assms(2)] show ?thesis
      using x by simp
  qed
  then show ?thesis
    using found [of tab tk_id, OF same assms(2)] by (auto simp: get_by_ref_def get_task_def split: option.splits)
qed

theorem get_by_ref_roundtrip_witness: "get_by_ref ''E'' [new_task ''t1'' some_request] = Some (new_task ''t1'' some_request)"
proof -
  have u: "tasks_unique [new_task ''t1'' some_request]" and t: "new_task ''t1'' some_request \<in> set [new_task ''t1'' some_request]"
    by (simp_all add: tasks_unique_def new_task_def some_request_def)
  have "get_task ''E'' [new_task ''t1'' some_request] = None" "tk_external_id (new_task ''t1'' some_request) = Some ''E''"
    by (simp_all add: get_task_def new_task_def some_request_def)
  then show ?thesis
    using get_by_ref_roundtrip [OF u t, of "''E''"] by simp
qed

end
