(* ===== verification/Overlap_Graph.thy ===== *)
theory Overlap_Graph
  imports Merge_Queue_Properties
begin

text \<open>
  The advisory overlap graph (\<open>service/overlap_graph.py\<close>): the active workspaces as nodes, an edge between two of one repository
  and base branch whose owned paths overlap, and the counts over both.
\<close>

section \<open>Nodes\<close>

definition OVERLAP_GRAPH_REASON_CODE :: string where
  "OVERLAP_GRAPH_REASON_CODE = ''OWNED_PATH_OVERLAP_RISK''"

definition OVERLAP_GRAPH_SEVERITY :: string where
  "OVERLAP_GRAPH_SEVERITY = ''advisory''"

definition OVERLAP_GRAPH_PATH_MATCH_LIMIT :: nat where
  "OVERLAP_GRAPH_PATH_MATCH_LIMIT = 8"

definition QUEUED_WORKSPACE_STATUSES :: "WorkspaceStatus list" where
  "QUEUED_WORKSPACE_STATUSES = [Requested, Ready]"

definition RUNNING_WORKSPACE_STATUSES :: "WorkspaceStatus list" where
  "RUNNING_WORKSPACE_STATUSES = [Provisioning, Running, Validating, Pushing, Monitoring_pr, Blocked, Recovering]"

definition ACTIVE_OVERLAP_GRAPH_STATUSES :: "WorkspaceStatus list" where
  "ACTIVE_OVERLAP_GRAPH_STATUSES = QUEUED_WORKSPACE_STATUSES @ RUNNING_WORKSPACE_STATUSES"

datatype graph_error = GraphValueError WorkspaceStatus

definition status_values_for_queue_state :: "string \<Rightarrow> WorkspaceStatus list" where
  "status_values_for_queue_state qs =
     (if qs = ''queued'' then QUEUED_WORKSPACE_STATUSES else if qs = ''running'' then RUNNING_WORKSPACE_STATUSES
      else ACTIVE_OVERLAP_GRAPH_STATUSES)"

definition queue_state_for_status :: "WorkspaceStatus \<Rightarrow> graph_error + string" where
  "queue_state_for_status st =
     (if st \<in> set QUEUED_WORKSPACE_STATUSES then Inr ''queued''
      else if st \<in> set RUNNING_WORKSPACE_STATUSES then Inr ''running'' else Inl (GraphValueError st))"

record GraphWorkspace =
  gw_id :: string
  gw_title :: string
  gw_status :: WorkspaceStatus
  gw_queue_state :: string
  gw_repo_url :: string
  gw_branch_base :: string
  gw_task_class :: "string option"
  gw_owned_paths :: "string list"
  gw_internal_paths :: "string list"
  gw_created_at :: instant
  gw_updated_at :: instant

definition graph_workspace :: "Workspace \<Rightarrow> graph_error + GraphWorkspace" where
  "graph_workspace w =
     map_sum id (\<lambda>qs. \<lparr>gw_id = ws_id w, gw_title = task_title w, gw_status = status w, gw_queue_state = qs, gw_repo_url = repo_url w,
        gw_branch_base = branch_base w, gw_task_class = task_class w, gw_owned_paths = owned_paths w,
        gw_internal_paths = internal_plan_artifact_owned_paths_from_profile (Some (resolved_profile w)) (Some (ws_id w)),
        gw_created_at = created_at w, gw_updated_at = updated_at w\<rparr>) (queue_state_for_status (status w))"

record WorkspaceOverlapNode =
  nd_workspace_id :: string
  nd_title :: string
  nd_status :: WorkspaceStatus
  nd_queue_state :: string
  nd_repo_url :: string
  nd_branch_base :: string
  nd_task_class :: "string option"
  nd_owned_paths :: "string list"
  nd_created_at :: instant
  nd_updated_at :: instant

definition node_from_workspace :: "GraphWorkspace \<Rightarrow> WorkspaceOverlapNode" where
  "node_from_workspace g =
     \<lparr>nd_workspace_id = gw_id g, nd_title = gw_title g, nd_status = gw_status g, nd_queue_state = gw_queue_state g,
      nd_repo_url = gw_repo_url g, nd_branch_base = gw_branch_base g, nd_task_class = gw_task_class g,
      nd_owned_paths = gw_owned_paths g, nd_created_at = gw_created_at g, nd_updated_at = gw_updated_at g\<rparr>"

section \<open>Edges\<close>

record WorkspaceOverlapPathMatch =
  pm_left_workspace_id :: string
  pm_left_owned_path :: string
  pm_right_workspace_id :: string
  pm_right_owned_path :: string
  pm_reason_code :: string
  pm_explanation :: string

definition interworkspace_paths :: "GraphWorkspace \<Rightarrow> string list" where
  "interworkspace_paths g = sort (interworkspace_owned_paths (gw_internal_paths g) (gw_owned_paths g))"

definition path_match :: "GraphWorkspace \<Rightarrow> GraphWorkspace \<Rightarrow> string \<Rightarrow> string \<Rightarrow> WorkspaceOverlapPathMatch option" where
  "path_match l r p q =
     map_option (\<lambda>m. \<lparr>pm_left_workspace_id = gw_id l, pm_left_owned_path = p, pm_right_workspace_id = gw_id r, pm_right_owned_path = q,
        pm_reason_code = match_reason_code m, pm_explanation = explanation m\<rparr>) (owned_path_overlap_match p q)"

text \<open>The loop over the pairs of paths, with the matches kept so far and the total.\<close>

fun match_loop :: "GraphWorkspace \<Rightarrow> GraphWorkspace \<Rightarrow> (string \<times> string) list \<Rightarrow> WorkspaceOverlapPathMatch list \<Rightarrow> nat
    \<Rightarrow> WorkspaceOverlapPathMatch list \<times> nat" where
  "match_loop l r [] ms n = (ms, n)"
| "match_loop l r ((p, q) # ps) ms n =
     (case path_match l r p q of
        None \<Rightarrow> match_loop l r ps ms n
      | Some m \<Rightarrow> match_loop l r ps (if length ms < OVERLAP_GRAPH_PATH_MATCH_LIMIT then ms @ [m] else ms) (n + 1))"

definition match_key :: "WorkspaceOverlapPathMatch \<Rightarrow> string \<times> string \<times> string" where
  "match_key m = (pm_left_owned_path m, pm_right_owned_path m, pm_reason_code m)"

record WorkspaceOverlapPathMatches =
  wm_matches :: "WorkspaceOverlapPathMatch list"
  wm_total_count :: nat

definition truncated :: "WorkspaceOverlapPathMatches \<Rightarrow> bool" where
  "truncated m = (length (wm_matches m) < wm_total_count m)"

definition workspace_overlap_path_matches :: "GraphWorkspace \<Rightarrow> GraphWorkspace \<Rightarrow> WorkspaceOverlapPathMatches" where
  "workspace_overlap_path_matches l r =
     (let (ms, n) = match_loop l r (List.product (interworkspace_paths l) (interworkspace_paths r)) [] 0 in
      \<lparr>wm_matches = sort_key match_key ms, wm_total_count = n\<rparr>)"

record WorkspaceOverlapEdge =
  ed_left :: string
  ed_right :: string
  ed_repo_url :: string
  ed_branch_base :: string
  ed_reason_code :: string
  ed_severity :: string
  ed_blocks_launch :: bool
  ed_affected_workspace_ids :: "string \<times> string"
  ed_path_match_count :: nat
  ed_path_matches_truncated :: bool
  ed_path_matches :: "WorkspaceOverlapPathMatch list"

definition workspace_overlap_edge :: "GraphWorkspace \<Rightarrow> GraphWorkspace \<Rightarrow> WorkspaceOverlapEdge option" where
  "workspace_overlap_edge l r =
     (let m = workspace_overlap_path_matches l r in
      if wm_total_count m = 0 then None
      else Some \<lparr>ed_left = gw_id l, ed_right = gw_id r, ed_repo_url = gw_repo_url l, ed_branch_base = gw_branch_base l,
                 ed_reason_code = OVERLAP_GRAPH_REASON_CODE, ed_severity = OVERLAP_GRAPH_SEVERITY, ed_blocks_launch = False,
                 ed_affected_workspace_ids = (gw_id l, gw_id r), ed_path_match_count = wm_total_count m,
                 ed_path_matches_truncated = truncated m, ed_path_matches = wm_matches m\<rparr>)"

definition graph_lane :: "GraphWorkspace \<Rightarrow> string \<times> string" where
  "graph_lane g = (gw_repo_url g, gw_branch_base g)"

fun pair_edges :: "GraphWorkspace list \<Rightarrow> WorkspaceOverlapEdge list" where
  "pair_edges [] = []"
| "pair_edges (l # rs) = List.map_filter (workspace_overlap_edge l) rs @ pair_edges rs"

definition edge_order :: "WorkspaceOverlapEdge \<Rightarrow> string \<times> string \<times> string \<times> string" where
  "edge_order e = (ed_repo_url e, ed_branch_base e, fst (ed_affected_workspace_ids e), snd (ed_affected_workspace_ids e))"

definition workspace_overlap_edges :: "GraphWorkspace list \<Rightarrow> WorkspaceOverlapEdge list" where
  "workspace_overlap_edges gs =
     (if length gs < 2 then []
      else sort_key edge_order (concat (map (\<lambda>k. pair_edges (sort_key gw_id (filter (\<lambda>g. graph_lane g = k) gs)))
             (sort (remdups (map graph_lane gs))))))"

section \<open>The graph\<close>

record WorkspaceOverlapGraphSummary =
  sm_node_count :: nat
  sm_queued_count :: nat
  sm_running_count :: nat
  sm_edge_count :: nat
  sm_affected_workspace_count :: nat
  sm_has_more :: bool

definition graph_summary :: "WorkspaceOverlapNode list \<Rightarrow> WorkspaceOverlapEdge list \<Rightarrow> bool \<Rightarrow> WorkspaceOverlapGraphSummary" where
  "graph_summary ns es hm =
     \<lparr>sm_node_count = length ns, sm_queued_count = length (filter (\<lambda>n. nd_queue_state n = ''queued'') ns),
      sm_running_count = length (filter (\<lambda>n. nd_queue_state n = ''running'') ns), sm_edge_count = length es,
      sm_affected_workspace_count = length (remdups (concat (map (\<lambda>e. [fst (ed_affected_workspace_ids e), snd (ed_affected_workspace_ids e)]) es))),
      sm_has_more = hm\<rparr>"

record WorkspaceOverlapGraph =
  gr_nodes :: "WorkspaceOverlapNode list"
  gr_edges :: "WorkspaceOverlapEdge list"
  gr_summary :: WorkspaceOverlapGraphSummary

fun sum_list_results :: "('e + 'a) list \<Rightarrow> 'e + 'a list" where
  "sum_list_results [] = Inr []"
| "sum_list_results (Inl e # xs) = Inl e"
| "sum_list_results (Inr x # xs) = map_sum id (Cons x) (sum_list_results xs)"

text \<open>\<open>rows\<close> is the workspace table; the order is newest first.\<close>

definition build_workspace_overlap_graph ::
    "Workspace list \<Rightarrow> string option \<Rightarrow> string option \<Rightarrow> string option \<Rightarrow> string \<Rightarrow> int \<Rightarrow> graph_error + WorkspaceOverlapGraph" where
  "build_workspace_overlap_graph table repo base cls qs limit =
     (let rows = take (nat (limit + 1)) (sort_desc (\<lambda>w. (created_at w, ws_id w))
            (filter (\<lambda>w. status w \<in> set (status_values_for_queue_state qs) \<and> opt_eq repo (repo_url w) \<and> opt_eq base (branch_base w)
               \<and> (case cls of None \<Rightarrow> True | Some c \<Rightarrow> task_class w = Some c)) table)) in
      map_sum id (\<lambda>gs.
        let ns = map node_from_workspace gs; es = workspace_overlap_edges gs in
        \<lparr>gr_nodes = ns, gr_edges = es, gr_summary = graph_summary ns es (limit < int (length rows))\<rparr>)
        (sum_list_results (map graph_workspace (take (nat limit) rows))))"

section \<open>Path matches\<close>

lemma match_loop_spec:
  "length ms \<le> OVERLAP_GRAPH_PATH_MATCH_LIMIT \<Longrightarrow> match_loop l r ps ms n =
     (take OVERLAP_GRAPH_PATH_MATCH_LIMIT (ms @ List.map_filter (\<lambda>(p, q). path_match l r p q) ps), n + length (List.map_filter (\<lambda>(p, q). path_match l r p q) ps))"
proof (induction l r ps ms n rule: match_loop.induct)
  case (2 l r p q ps ms n)
  then show ?case
    by (cases "path_match l r p q") (auto simp: List.map_filter_simps take_Cons')
qed (simp add: List.map_filter_simps)

definition overlapping :: "GraphWorkspace \<Rightarrow> GraphWorkspace \<Rightarrow> (string \<times> string) list" where
  "overlapping l r = filter (\<lambda>(p, q). owned_paths_overlap p q) (List.product (interworkspace_paths l) (interworkspace_paths r))"

lemma matches_spec:
  "wm_total_count (workspace_overlap_path_matches l r) = length (overlapping l r)"
  "length (wm_matches (workspace_overlap_path_matches l r)) = min OVERLAP_GRAPH_PATH_MATCH_LIMIT (length (overlapping l r))"
proof -
  have "length (List.map_filter (\<lambda>(p, q). path_match l r p q) ps) = length (filter (\<lambda>(p, q). owned_paths_overlap p q) ps)" for ps
    by (induction ps) (auto simp: List.map_filter_simps path_match_def owned_paths_overlap_def split: option.splits)
  then show "wm_total_count (workspace_overlap_path_matches l r) = length (overlapping l r)"
    "length (wm_matches (workspace_overlap_path_matches l r)) = min OVERLAP_GRAPH_PATH_MATCH_LIMIT (length (overlapping l r))"
    by (simp_all add: workspace_overlap_path_matches_def match_loop_spec overlapping_def min.commute)
qed

lemma edge_spec: "workspace_overlap_edge l r = None \<longleftrightarrow> overlapping l r = []"
  by (simp add: workspace_overlap_edge_def Let_def matches_spec)

lemma edge_fields:
  assumes "workspace_overlap_edge l r = Some e"
  shows "ed_left e = gw_id l" "ed_right e = gw_id r" "ed_repo_url e = gw_repo_url l" "ed_branch_base e = gw_branch_base l"
    "ed_path_match_count e = length (overlapping l r)" "ed_path_matches_truncated e = (OVERLAP_GRAPH_PATH_MATCH_LIMIT < length (overlapping l r))"
    "length (ed_path_matches e) = min OVERLAP_GRAPH_PATH_MATCH_LIMIT (length (overlapping l r))" "ed_affected_workspace_ids e = (gw_id l, gw_id r)"
    "\<not> ed_blocks_launch e"
  using assms by (auto simp: workspace_overlap_edge_def Let_def matches_spec truncated_def split: if_splits)

section \<open>The edges are the overlapping pairs\<close>

lemma pair_edges_set:
  "sorted_wrt (\<lambda>l r. gw_id l < gw_id r) gs \<Longrightarrow>
   set (pair_edges gs) = {e. \<exists>l \<in> set gs. \<exists>r \<in> set gs. gw_id l < gw_id r \<and> workspace_overlap_edge l r = Some e}"
  by (induction gs) (auto simp: set_map_filter dest: order.asym)

lemma pair_edges_distinct:
  "sorted_wrt (\<lambda>l r. gw_id l < gw_id r) gs \<Longrightarrow> distinct (map (\<lambda>e. (ed_left e, ed_right e)) (pair_edges gs))"
proof (induction gs)
  case (Cons l gs)
  have "distinct (map (\<lambda>e. (ed_left e, ed_right e)) (List.map_filter (workspace_overlap_edge l) rs))"
    if "sorted_wrt (\<lambda>l r. gw_id l < gw_id r) rs" for rs
    using that by (induction rs) (auto simp: List.map_filter_simps set_map_filter edge_fields split: option.splits)
  then have "distinct (map (\<lambda>e. (ed_left e, ed_right e)) (List.map_filter (workspace_overlap_edge l) gs))"
    using Cons.prems by simp
  moreover have "ed_left e = gw_id l" if "e \<in> set (List.map_filter (workspace_overlap_edge l) gs)" for e
    using that by (auto simp: set_map_filter edge_fields)
  moreover have "ed_left e \<noteq> gw_id l" if "e \<in> set (pair_edges gs)" for e
    using that Cons.prems pair_edges_set [of gs] by (auto simp: edge_fields)
  ultimately show ?case
    using Cons by fastforce
qed simp

lemma group_sorted:
  assumes "distinct (map gw_id gs)"
  shows "sorted_wrt (\<lambda>l r. gw_id l < gw_id r) (sort_key gw_id (filter P gs))"
proof -
  have "distinct (map gw_id (sort_key gw_id (filter P gs)))"
    using assms by (simp add: distinct_map inj_on_def)
  then have "sorted_wrt (<) (map gw_id (sort_key gw_id (filter P gs)))"
    by (simp add: strict_sorted_iff)
  then show ?thesis
    by (simp add: sorted_wrt_map)
qed

lemma edges_set:
  assumes "distinct (map gw_id gs)"
  shows "set (workspace_overlap_edges gs) = {e. \<exists>l \<in> set gs. \<exists>r \<in> set gs. graph_lane l = graph_lane r \<and> gw_id l < gw_id r \<and> workspace_overlap_edge l r = Some e}"
proof (cases "length gs < 2")
  case True
  then have "gs = [] \<or> (\<exists>g. gs = [g])"
    by (cases gs) auto
  then show ?thesis
    by (auto simp: workspace_overlap_edges_def)
next
  case False
  then show ?thesis
    by (auto simp: workspace_overlap_edges_def pair_edges_set [OF group_sorted [OF assms]]) metis
qed

lemma distinct_map_sort_key: "distinct (map p (sort_key k xs)) = distinct (map p xs)"
  by (simp add: distinct_map)

lemma edges_distinct:
  assumes "distinct (map gw_id gs)"
  shows "distinct (map (\<lambda>e. (ed_left e, ed_right e)) (workspace_overlap_edges gs))"
proof -
  let ?p = "\<lambda>e. (ed_left e, ed_right e)" and ?E = "\<lambda>k. pair_edges (sort_key gw_id (filter (\<lambda>g. graph_lane g = k) gs))"
  have lane: "(ed_repo_url e, ed_branch_base e) = k \<and> (\<exists>l \<in> set gs. graph_lane l = k \<and> ed_left e = gw_id l)" if "e \<in> set (?E k)" for e k
    using that by (auto simp: pair_edges_set [OF group_sorted [OF assms]] edge_fields graph_lane_def)
  have inj: "graph_lane l = graph_lane r" if "l \<in> set gs" "r \<in> set gs" "gw_id l = gw_id r" for l r
    using assms that by (auto simp: distinct_map inj_on_def)
  have "distinct (map ?p (concat (map ?E ks)))" if "distinct ks" for ks
    using that
  proof (induction ks)
    case (Cons k ks)
    have "?p e \<noteq> ?p e'" if m: "e \<in> set (?E k)" "k' \<in> set ks" "e' \<in> set (?E k')" for e e' k'
    proof
      assume "?p e = ?p e'"
      moreover obtain l where "l \<in> set gs" "graph_lane l = k" "ed_left e = gw_id l"
        using lane [OF m(1)] by blast
      moreover obtain l' where "l' \<in> set gs" "graph_lane l' = k'" "ed_left e' = gw_id l'"
        using lane [OF m(3)] by blast
      ultimately have "k = k'"
        using inj [of l l'] by simp
      then show False
        using Cons.prems m(2) by simp
    qed
    then have "?p ` set (?E k) \<inter> ?p ` set (concat (map ?E ks)) = {}"
      by (intro equals0I) (elim IntE imageE, simp only: set_concat set_map, blast)
    moreover have "distinct (map ?p (concat (map ?E ks)))"
      using Cons by simp
    ultimately show ?case
      using pair_edges_distinct [OF group_sorted [OF assms], of "\<lambda>g. graph_lane g = k"] by (simp only: list.map concat.simps map_append distinct_append set_map)
  qed simp
  from this [of "sort (remdups (map graph_lane gs))"]
  have "distinct (map ?p (concat (map ?E (sort (remdups (map graph_lane gs))))))"
    by simp
  then show ?thesis
    by (simp add: workspace_overlap_edges_def distinct_map_sort_key del: map_concat)
qed

section \<open>Properties\<close>

definition node_of :: "Workspace \<Rightarrow> GraphWorkspace" where
  "node_of w =
     \<lparr>gw_id = ws_id w, gw_title = task_title w, gw_status = status w,
      gw_queue_state = (if status w \<in> set QUEUED_WORKSPACE_STATUSES then ''queued'' else ''running''), gw_repo_url = repo_url w,
      gw_branch_base = branch_base w, gw_task_class = task_class w, gw_owned_paths = owned_paths w,
      gw_internal_paths = internal_plan_artifact_owned_paths_from_profile (Some (resolved_profile w)) (Some (ws_id w)),
      gw_created_at = created_at w, gw_updated_at = updated_at w\<rparr>"

lemma graph_workspace_active: "status w \<in> set ACTIVE_OVERLAP_GRAPH_STATUSES \<Longrightarrow> graph_workspace w = Inr (node_of w)"
  by (auto simp: graph_workspace_def queue_state_for_status_def node_of_def ACTIVE_OVERLAP_GRAPH_STATUSES_def)

lemma graph_workspaces_active:
  "list_all (\<lambda>w. status w \<in> set ACTIVE_OVERLAP_GRAPH_STATUSES) ws \<Longrightarrow> sum_list_results (map graph_workspace ws) = Inr (map node_of ws)"
  by (induction ws) (simp_all add: graph_workspace_active)

lemma queue_state_active: "set (status_values_for_queue_state qs) \<subseteq> set ACTIVE_OVERLAP_GRAPH_STATUSES"
  by (auto simp: status_values_for_queue_state_def ACTIVE_OVERLAP_GRAPH_STATUSES_def)

text \<open>The newest matching workspaces, one page of them.\<close>

definition graph_rows :: "Workspace list \<Rightarrow> string option \<Rightarrow> string option \<Rightarrow> string option \<Rightarrow> string \<Rightarrow> Workspace list" where
  "graph_rows table repo base cls qs = sort_desc (\<lambda>w. (created_at w, ws_id w))
     (filter (\<lambda>w. status w \<in> set (status_values_for_queue_state qs) \<and> opt_eq repo (repo_url w) \<and> opt_eq base (branch_base w)
        \<and> (case cls of None \<Rightarrow> True | Some c \<Rightarrow> task_class w = Some c)) table)"

text \<open>
  Property C31: building the overlap graph never raises, for any table and any filter, since every status it selects has a queue state; its nodes are the newest matching
  workspaces.  There is exactly one edge for every pair of nodes of one repository and base branch whose inter-workspace owned
  paths overlap, oriented by id, none of which blocks a launch, with the number of overlapping path pairs, at most eight of them
  listed, and a truncation mark exactly when there are more.
\<close>

theorem overlap_graph_exact:
  fixes table repo base cls qs limit
  assumes "distinct (map ws_id table)" and "0 \<le> limit"
  defines "nodes \<equiv> map node_of (take (nat limit) (graph_rows table repo base cls qs))"
  shows "\<exists>g. build_workspace_overlap_graph table repo base cls qs limit = Inr g
    \<and> gr_nodes g = map node_from_workspace nodes \<and> sm_has_more (gr_summary g) = (nat limit < length (graph_rows table repo base cls qs))
    \<and> (\<lambda>e. (ed_left e, ed_right e)) ` set (gr_edges g) = {(gw_id l, gw_id r) |l r. l \<in> set nodes \<and> r \<in> set nodes \<and> graph_lane l = graph_lane r
          \<and> gw_id l < gw_id r \<and> overlapping l r \<noteq> []}
    \<and> distinct (map (\<lambda>e. (ed_left e, ed_right e)) (gr_edges g))
    \<and> list_all (\<lambda>e. \<not> ed_blocks_launch e \<and> length (ed_path_matches e) = min 8 (ed_path_match_count e)
          \<and> ed_path_matches_truncated e = (8 < ed_path_match_count e)) (gr_edges g)"
proof -
  let ?R = "graph_rows table repo base cls qs"
  let ?es = "workspace_overlap_edges nodes"
  have act: "list_all (\<lambda>w. status w \<in> set ACTIVE_OVERLAP_GRAPH_STATUSES) (take n ?R)" for n
    using queue_state_active [of qs] by (auto simp: list_all_iff graph_rows_def sort_desc_def dest!: in_set_takeD)
  have rows: "sort_desc (\<lambda>w. (created_at w, ws_id w)) (filter (\<lambda>w. status w \<in> set (status_values_for_queue_state qs) \<and> opt_eq repo (repo_url w) \<and> opt_eq base (branch_base w)
        \<and> (case cls of None \<Rightarrow> True | Some c \<Rightarrow> task_class w = Some c)) table) = ?R"
    by (simp add: graph_rows_def)
  have t: "take (nat limit) (take (nat (limit + 1)) ?R) = take (nat limit) ?R" "limit < int (length (take (nat (limit + 1)) ?R)) \<longleftrightarrow> nat limit < length ?R"
    using assms(2) by (auto simp: min_def nat_le_iff)
  have g: "build_workspace_overlap_graph table repo base cls qs limit
      = Inr \<lparr>gr_nodes = map node_from_workspace nodes, gr_edges = ?es, gr_summary = graph_summary (map node_from_workspace nodes) ?es (nat limit < length ?R)\<rparr>"
    unfolding build_workspace_overlap_graph_def rows Let_def t graph_workspaces_active [OF act] nodes_def by simp
  have "distinct (map ws_id ?R)"
    using assms(1) by (simp add: graph_rows_def sort_desc_def rev_map [symmetric] distinct_map) (elim conjE, erule inj_on_subset, blast)
  then have d: "distinct (map gw_id nodes)"
    by (simp add: nodes_def node_of_def o_def take_map [symmetric] distinct_take)
  have e: "\<exists>l r. l \<in> set nodes \<and> r \<in> set nodes \<and> graph_lane l = graph_lane r \<and> gw_id l < gw_id r \<and> workspace_overlap_edge l r = Some x" if "x \<in> set ?es" for x
    using that by (auto simp: edges_set [OF d])
  have "(\<lambda>e. (ed_left e, ed_right e)) ` set ?es = {(gw_id l, gw_id r) |l r. l \<in> set nodes \<and> r \<in> set nodes \<and> graph_lane l = graph_lane r
          \<and> gw_id l < gw_id r \<and> overlapping l r \<noteq> []}" (is "?A = ?B")
  proof (intro equalityI subsetI)
    fix x
    assume "x \<in> ?A"
    then obtain a where "a \<in> set ?es" and x: "x = (ed_left a, ed_right a)"
      by blast
    then obtain l r where lr: "l \<in> set nodes" "r \<in> set nodes" "graph_lane l = graph_lane r" "gw_id l < gw_id r" "workspace_overlap_edge l r = Some a"
      using e by blast
    then have "overlapping l r \<noteq> []"
      using edge_spec [of l r] by simp
    then show "x \<in> ?B"
      using lr edge_fields(1,2) [OF lr(5)] x by blast
  next
    fix x
    assume "x \<in> ?B"
    then obtain l r where x: "x = (gw_id l, gw_id r)" and lr: "l \<in> set nodes" "r \<in> set nodes" "graph_lane l = graph_lane r" "gw_id l < gw_id r" "overlapping l r \<noteq> []"
      by blast
    then obtain a where a: "workspace_overlap_edge l r = Some a"
      using edge_spec [of l r] by blast
    then have "a \<in> set ?es"
      using lr unfolding edges_set [OF d] by blast
    then show "x \<in> ?A"
      using edge_fields(1,2) [OF a] x by force
  qed
  moreover have "list_all (\<lambda>e. \<not> ed_blocks_launch e \<and> length (ed_path_matches e) = min 8 (ed_path_match_count e)
          \<and> ed_path_matches_truncated e = (8 < ed_path_match_count e)) ?es"
    using e edge_fields(5-7,9) by (fastforce simp: list_all_iff OVERLAP_GRAPH_PATH_MATCH_LIMIT_def)
  ultimately show ?thesis
    using edges_distinct [OF d] unfolding g
    by (intro exI [of _ "\<lparr>gr_nodes = map node_from_workspace nodes, gr_edges = ?es, gr_summary = graph_summary (map node_from_workspace nodes) ?es (nat limit < length ?R)\<rparr>"] conjI)
      (simp_all only: WorkspaceOverlapGraph.select_convs graph_summary_def WorkspaceOverlapGraphSummary.select_convs)
qed

theorem overlap_graph_exact_witness:
  "\<exists>g. build_workspace_overlap_graph [queue_workspace ''w1'' [''src/*''], queue_workspace ''w2'' [''src/a'']] None None None ''all'' 5 = Inr g
     \<and> (''w1'', ''w2'') \<in> (\<lambda>e. (ed_left e, ed_right e)) ` set (gr_edges g)"
proof -
  let ?a = "queue_workspace ''w1'' [''src/*'']" and ?b = "queue_workspace ''w2'' [''src/a'']"
  have rows: "graph_rows [?a, ?b] None None None ''all'' = [?b, ?a]"
    by (simp add: graph_rows_def sort_desc_def queue_workspace_def sample_workspace_def status_values_for_queue_state_def opt_eq_def
        ACTIVE_OVERLAP_GRAPH_STATUSES_def RUNNING_WORKSPACE_STATUSES_def)
  have lr: "node_of ?a \<in> set (map node_of (take (nat 5) [?b, ?a]))" "node_of ?b \<in> set (map node_of (take (nat 5) [?b, ?a]))"
    by simp_all
  have o: "graph_lane (node_of ?a) = graph_lane (node_of ?b)" "gw_id (node_of ?a) < gw_id (node_of ?b)" "overlapping (node_of ?a) (node_of ?b) \<noteq> []"
    by code_simp+
  have ids: "gw_id (node_of ?a) = ''w1''" "gw_id (node_of ?b) = ''w2''"
    by code_simp+
  have d: "distinct (map ws_id [?a, ?b])"
    by (simp add: queue_workspace_def)
  obtain g where g: "build_workspace_overlap_graph [?a, ?b] None None None ''all'' 5 = Inr g"
      "(\<lambda>e. (ed_left e, ed_right e)) ` set (gr_edges g) = {(gw_id l, gw_id r) |l r. l \<in> set (map node_of (take (nat 5) [?b, ?a])) \<and>
         r \<in> set (map node_of (take (nat 5) [?b, ?a])) \<and> graph_lane l = graph_lane r \<and> gw_id l < gw_id r \<and> overlapping l r \<noteq> []}"
    using overlap_graph_exact [OF d, of 5 None None None "''all''", OF zero_le_numeral] unfolding rows by blast
  have "(gw_id (node_of ?a), gw_id (node_of ?b)) \<in> (\<lambda>e. (ed_left e, ed_right e)) ` set (gr_edges g)"
    unfolding g(2) using lr o by blast
  then show ?thesis
    using g(1) unfolding ids by blast
qed

end
