(* ===== verification/Staleness.thy ===== *)
theory Staleness
  imports Merge_Queue_Properties Transitions
begin

text \<open>
  The stale detection engine of \<open>service/staleness.py\<close>: which findings a moved target branch gives a merge candidate, and the
  refresh that stores them, marks the candidate and logs them.  The provider of the target branch state and the printing of time
  stamps are parameters.
\<close>

section \<open>Inputs and findings\<close>

record CandidateSnapshot =
  cs_owned_paths :: "string list"
  cs_task_class :: "string option"
  cs_base_sha :: "string option"
  cs_internal_plan_artifact_paths :: "string list"

record TargetBranchState =
  tb_branch :: string
  tb_head_sha :: string
  tb_changed_paths :: "string list"
  tb_advanced_commits :: int

record StalenessFinding =
  sf_reason_code :: string
  sf_trigger_type :: string
  sf_trigger_ref :: "string option"
  sf_explanation :: string
  sf_blocks_merge :: bool
  sf_severity :: string

record StalePolicy =
  schema_paths :: "string list"
  dependency_paths :: "string list"
  build_config_paths :: "string list"
  lenient_task_classes :: "string list"
  schema_sensitive_task_classes :: "string list"
  dependency_sensitive_task_classes :: "string list"
  build_config_sensitive_task_classes :: "string list"

definition REASON_TARGET_ADVANCED :: string where
  "REASON_TARGET_ADVANCED = ''STALE_TARGET_ADVANCED''"

definition REASON_OVERLAP :: string where
  "REASON_OVERLAP = ''STALE_OVERLAP''"

definition REASON_SCHEMA :: string where
  "REASON_SCHEMA = ''STALE_SCHEMA''"

definition REASON_DEPENDENCY :: string where
  "REASON_DEPENDENCY = ''STALE_DEPENDENCY''"

definition REASON_BUILD_CONFIG :: string where
  "REASON_BUILD_CONFIG = ''STALE_BUILD_CONFIG''"

definition REASON_PLAN_ARTIFACT_OVERLAP :: string where
  "REASON_PLAN_ARTIFACT_OVERLAP = ADVISORY_PLAN_ARTIFACT_OVERLAP_REASON"

definition BLOCKING_REASON_PRIORITY :: "(string \<times> nat) list" where
  "BLOCKING_REASON_PRIORITY =
     [(REASON_OVERLAP, 0), (REASON_SCHEMA, 1), (REASON_DEPENDENCY, 2), (REASON_BUILD_CONFIG, 3), (REASON_TARGET_ADVANCED, 4)]"

definition VALIDATION_STALE_REASONS_TO_PRESERVE :: "string list" where
  "VALIDATION_STALE_REASONS_TO_PRESERVE = [VALIDATION_INSUFFICIENT_TIER_STALE_REASON, VALIDATION_MISSING_FOR_CURRENT_HEAD_STALE_REASON]"

definition DEFAULT_STALE_POLICY :: StalePolicy where
  "DEFAULT_STALE_POLICY =
     \<lparr>schema_paths = [''migrations/'', ''migration/'', ''schema/'', ''schemas/'', ''models/'', ''model/'', ''*/migrations/**'', ''*/migration/**'', ''*/schema/**'', ''*/schemas/**'', ''*/models/**'', ''*/model/**'', ''*/models.py'', ''*/model.py'', ''db/schema.rb'', ''prisma/schema.prisma'', ''alembic.ini''],
      dependency_paths = [''pyproject.toml'', ''uv.lock'', ''requirements.txt'', ''requirements-dev.txt'', ''poetry.lock'', ''Pipfile'', ''Pipfile.lock'', ''package.json'', ''package-lock.json'', ''pnpm-lock.yaml'', ''yarn.lock''],
      build_config_paths = [''Dockerfile'', ''Dockerfile.*'', ''*/Dockerfile'', ''*/Dockerfile.*'', ''docker/'', ''docker-compose.yml'', ''docker-compose.yaml'', ''compose.yml'', ''compose.yaml'', ''.github/workflows/'', ''Makefile'', ''Taskfile.yml'', ''taskfile.yml''],
      lenient_task_classes = [''docs_task'', ''test_task''],
      schema_sensitive_task_classes = [''migration_task''],
      dependency_sensitive_task_classes = [''dependency_task'', ''migration_task''],
      build_config_sensitive_task_classes = [''build_config_task'', ''migration_task'']\<rparr>"

section \<open>Matching\<close>

definition path_matches :: "string \<Rightarrow> string \<Rightarrow> bool" where
  "path_matches p pattern =
     (if pattern = [] then False
      else if p = pattern then True
      else if endswith pattern ''/**'' \<and> \<not> has_wildcard (take (length pattern - 3) pattern)
      then (let pre = take (length pattern - 2) pattern in startswith p pre \<or> p = rstrip_slash pre)
      else if endswith pattern ''/*'' \<and> \<not> has_wildcard (take (length pattern - 2) pattern)
      then (let pre = take (length pattern - 1) pattern in startswith p pre \<and> CHR ''/'' \<notin> set (drop (length pre) p))
      else if endswith pattern ''/'' then startswith p pattern
      else if has_wildcard pattern then fnmatchcase p pattern
      else startswith p (pattern @ ''/''))"

definition matched :: "string list \<Rightarrow> string list \<Rightarrow> string list" where
  "matched changed patterns = filter (\<lambda>p. list_ex (path_matches p) patterns) changed"

definition is_plan_artifact_path :: "string list \<Rightarrow> string \<Rightarrow> bool" where
  "is_plan_artifact_path internal p = is_internal_plan_artifact_owned_path internal p"

definition target_changes_are_only_plan_artifacts :: "string list \<Rightarrow> string list \<Rightarrow> bool" where
  "target_changes_are_only_plan_artifacts internal changed = (changed \<noteq> [] \<and> list_all (is_plan_artifact_path internal) changed)"

definition is_sensitive_task_class :: "string option \<Rightarrow> string list \<Rightarrow> bool" where
  "is_sensitive_task_class cls classes = (case cls of None \<Rightarrow> False | Some c \<Rightarrow> c \<in> set classes)"

section \<open>Evaluation\<close>

definition quoted :: "string \<Rightarrow> string" where
  "quoted s = [CHR 0x27] @ s @ [CHR 0x27]"

text \<open>A finding for the first of the matching paths.\<close>

definition path_finding :: "string \<Rightarrow> string \<Rightarrow> (string \<Rightarrow> string) \<Rightarrow> bool \<Rightarrow> string list \<Rightarrow> StalenessFinding list" where
  "path_finding reason trigger expl blocking ps =
     map (\<lambda>p. \<lparr>sf_reason_code = reason, sf_trigger_type = trigger, sf_trigger_ref = Some p, sf_explanation = expl p,
              sf_blocks_merge = blocking, sf_severity = (if blocking then ''blocking'' else ''advisory'')\<rparr>) (take 1 ps)"

definition schema_findings :: "StalePolicy \<Rightarrow> CandidateSnapshot \<Rightarrow> TargetBranchState \<Rightarrow> StalenessFinding list" where
  "schema_findings policy c t =
     (if is_sensitive_task_class (cs_task_class c) (schema_sensitive_task_classes policy)
      then path_finding REASON_SCHEMA ''schema_changed''
        (\<lambda>p. ''Schema/migration path '' @ quoted p @ '' changed on target branch '' @ quoted (tb_branch t) @ ''.'') True
        (matched (tb_changed_paths t) (schema_paths policy))
      else [])"

definition dependency_findings :: "StalePolicy \<Rightarrow> CandidateSnapshot \<Rightarrow> TargetBranchState \<Rightarrow> StalenessFinding list" where
  "dependency_findings policy c t =
     (if is_sensitive_task_class (cs_task_class c) (dependency_sensitive_task_classes policy)
      then path_finding REASON_DEPENDENCY ''dependency_changed''
        (\<lambda>p. ''Dependency manifest '' @ quoted p @ '' changed on target branch '' @ quoted (tb_branch t) @ ''.'') True
        (matched (tb_changed_paths t) (dependency_paths policy))
      else [])"

definition build_findings :: "StalePolicy \<Rightarrow> CandidateSnapshot \<Rightarrow> TargetBranchState \<Rightarrow> StalenessFinding list" where
  "build_findings policy c t =
     (if is_sensitive_task_class (cs_task_class c) (build_config_sensitive_task_classes policy)
      then path_finding REASON_BUILD_CONFIG ''build_config_changed''
        (\<lambda>p. ''Build config '' @ quoted p @ '' changed on target branch '' @ quoted (tb_branch t) @ ''.'') True
        (matched (tb_changed_paths t) (build_config_paths policy))
      else [])"

definition overlap_findings :: "CandidateSnapshot \<Rightarrow> TargetBranchState \<Rightarrow> StalenessFinding list" where
  "overlap_findings c t =
     (let overlap = matched (tb_changed_paths t) (cs_owned_paths c);
          plan_artifact = is_plan_artifact_path (cs_internal_plan_artifact_paths c) in
      path_finding REASON_PLAN_ARTIFACT_OVERLAP ''plan_artifact_overlap''
        (\<lambda>p. ''AWF plan/conformance artifact '' @ quoted p @ '' changed on target branch '' @ quoted (tb_branch t) @ ''.'') False
        (filter plan_artifact overlap)
      @ path_finding REASON_OVERLAP ''path_overlap''
        (\<lambda>p. ''Owned path '' @ quoted p @ '' was changed on target branch '' @ quoted (tb_branch t) @ ''.'') True
        (filter (\<lambda>p. \<not> plan_artifact p) overlap))"

definition target_advanced_finding :: "TargetBranchState \<Rightarrow> StalenessFinding" where
  "target_advanced_finding t =
     \<lparr>sf_reason_code = REASON_TARGET_ADVANCED, sf_trigger_type = ''target_advanced'', sf_trigger_ref = Some (tb_head_sha t),
      sf_explanation = ''Target branch '' @ quoted (tb_branch t) @ '' advanced '' @ py_str_int (tb_advanced_commits t)
        @ '' commit(s) past validation base.'',
      sf_blocks_merge = True, sf_severity = ''blocking''\<rparr>"

definition evaluate_staleness :: "StalePolicy \<Rightarrow> CandidateSnapshot \<Rightarrow> TargetBranchState \<Rightarrow> StalenessFinding list" where
  "evaluate_staleness policy c t =
     (if cs_base_sha c = None then []
      else if cs_base_sha c = Some (tb_head_sha t) \<and> tb_advanced_commits t = 0 then []
      else
        (let findings = schema_findings policy c t @ dependency_findings policy c t @ build_findings policy c t @ overlap_findings c t in
         if \<not> list_ex sf_blocks_merge findings \<and> tb_advanced_commits t > 0
            \<and> \<not> is_sensitive_task_class (cs_task_class c) (lenient_task_classes policy)
            \<and> \<not> target_changes_are_only_plan_artifacts (cs_internal_plan_artifact_paths c) (tb_changed_paths t)
         then findings @ [target_advanced_finding t] else findings))"

section \<open>The refresh\<close>

text \<open>\<open>min\<close> by priority and then by position.\<close>

definition reason_priority :: "StalenessFinding \<Rightarrow> nat" where
  "reason_priority f = (case map_of BLOCKING_REASON_PRIORITY (sf_reason_code f) of None \<Rightarrow> length BLOCKING_REASON_PRIORITY | Some n \<Rightarrow> n)"

definition primary_blocking_reason :: "StalenessFinding list \<Rightarrow> string option" where
  "primary_blocking_reason fs =
     (case sort_key reason_priority (filter sf_blocks_merge fs) of [] \<Rightarrow> None | f # _ \<Rightarrow> Some (sf_reason_code f))"

definition snapshot_owned_paths :: "string list \<Rightarrow> Workspace \<Rightarrow> TaskAttempt \<Rightarrow> string list" where
  "snapshot_owned_paths internal w a =
     (let own = filter (\<lambda>p. p \<noteq> []) (owned_paths w); att = filter (\<lambda>p. p \<noteq> []) (at_owned_paths a) in
      if own = [] then att
      else if interworkspace_owned_paths internal own \<noteq> [] then own
      else if att = [] then own
      else if interworkspace_owned_paths internal att \<noteq> [] then interworkspace_owned_paths internal att
      else own)"

definition snapshot_for :: "LoadedCandidate \<Rightarrow> CandidateSnapshot" where
  "snapshot_for r =
     (let w = lc_workspace r; a = lc_attempt r;
          internal = dedupe (internal_plan_artifact_owned_paths_from_profile (Some (resolved_profile w)) (Some (ws_id w))
                             @ internal_plan_artifact_owned_paths_from_profile (Some (resolved_profile w)) None) in
      \<lparr>cs_owned_paths = snapshot_owned_paths internal w a,
       cs_task_class = (if task_class w \<noteq> None \<and> task_class w \<noteq> Some [] then task_class w else at_task_class a),
       cs_base_sha = mc_base_sha (lc_row r), cs_internal_plan_artifact_paths = internal\<rparr>)"

datatype StalenessRefreshError = CandidateNotFound string | NoTargetAndNoProvider | NoValidationBase string | ProviderError string

type_synonym target_provider = "string \<Rightarrow> string \<Rightarrow> string \<Rightarrow> string + TargetBranchState"

definition fetch_target :: "target_provider option \<Rightarrow> MergeCandidate \<Rightarrow> StalenessRefreshError + TargetBranchState" where
  "fetch_target provider c =
     (case provider of
        None \<Rightarrow> Inl NoTargetAndNoProvider
      | Some fetch \<Rightarrow>
          (case mc_base_sha c of
             None \<Rightarrow> Inl (NoValidationBase (mc_id c))
           | Some base \<Rightarrow> map_sum ProviderError id (fetch (mc_repo_url c) (mc_base_branch c) base)))"

text \<open>\<open>x or y\<close> on optional strings.\<close>

definition py_or :: "string option \<Rightarrow> string option \<Rightarrow> string option" where
  "py_or x y = (if x = None \<or> x = Some [] then y else x)"

definition mark_candidate_stale :: "Workspace \<Rightarrow> TaskAttempt \<Rightarrow> string option \<Rightarrow> MergeCandidate \<Rightarrow> MergeCandidate" where
  "mark_candidate_stale w a reason c =
     (let is_stale = (reason \<noteq> None);
          validation = fst (compute_stale_reason w);
          kept = (case stale_reason c of Some r \<Rightarrow> if r \<in> set VALIDATION_STALE_REASONS_TO_PRESERVE then Some r else None | None \<Rightarrow> None);
          reason' = py_or validation (py_or (if is_stale then reason else None)
                      (py_or (if is_stale then kept else None) (if is_stale then Some ''stale'' else None))) in
      sync_candidate_readiness False None w a (c\<lparr>stale := (is_stale \<or> validation \<noteq> None), stale_reason := reason'\<rparr>))"

definition opt_text :: "string option \<Rightarrow> json" where
  "opt_text s = (case s of None \<Rightarrow> JNull | Some x \<Rightarrow> JStr x)"

definition stale_event :: "(instant \<Rightarrow> string) \<Rightarrow> MergeCandidate \<Rightarrow> TargetBranchState \<Rightarrow> StaleReason \<Rightarrow> WorkspaceEventCreate" where
  "stale_event fmt c t r =
     \<lparr>ec_type = ''merge_candidate.stale_detected'', ec_reason_code = Some (sr_reason_code r),
      ec_payload = Some (JObj
        [(''candidate_id'', JStr (mc_id c)), (''attempt_id'', JStr (mc_attempt_id c)), (''task_id'', JStr (mc_task_id c)),
         (''trigger_type'', JStr (sr_trigger_type r)), (''trigger_ref'', opt_text (sr_trigger_ref r)),
         (''explanation'', JStr (sr_explanation r)), (''severity'', JStr (stale_reason_severity (Some (sr_reason_code r)))),
         (''blocks_merge'', JBool (blocks_merge r)), (''target_branch'', JStr (tb_branch t)),
         (''target_head_sha'', JStr (tb_head_sha t)), (''advanced_commits'', JInt (tb_advanced_commits t)),
         (''detected_at'', JStr (fmt (sr_detected_at r)))])\<rparr>"

record StalenessRefreshResult =
  rr_candidate_id :: string
  rr_target :: TargetBranchState
  rr_findings :: "StalenessFinding list"
  rr_newly_added :: "StaleReason list"
  rr_newly_resolved :: "StaleReason list"
  rr_stale :: bool

definition finding_row :: "StalenessFinding \<Rightarrow> StaleReasonCreate" where
  "finding_row f =
     \<lparr>sc_reason_code = sf_reason_code f, sc_trigger_type = sf_trigger_type f, sc_trigger_ref = sf_trigger_ref f, sc_explanation = sf_explanation f\<rparr>"

definition emit_events :: "(instant \<Rightarrow> string) \<Rightarrow> LoadedCandidate \<Rightarrow> TargetBranchState \<Rightarrow> StaleReason list \<Rightarrow> database \<Rightarrow> database" where
  "emit_events fmt r t added db =
     (if added = [] then db else put_workspace db (add_events (map (stale_event fmt (lc_row r) t) added) (lc_workspace r)))"

text \<open>
  \<open>ids\<close> gives the identifiers of new rows, \<open>fmt\<close> prints a time stamp, \<open>tab\<close> is the table of stale reasons.  A target given by the
  caller is used as it is; otherwise the provider is asked.
\<close>

definition refresh_candidate ::
    "(nat \<Rightarrow> string) \<Rightarrow> (instant \<Rightarrow> string) \<Rightarrow> instant \<Rightarrow> StalePolicy \<Rightarrow> target_provider option \<Rightarrow> string \<Rightarrow> TargetBranchState option
     \<Rightarrow> database \<Rightarrow> StaleReason list \<Rightarrow> StalenessRefreshError + StalenessRefreshResult \<times> database \<times> StaleReason list" where
  "refresh_candidate ids fmt now policy provider cid target db tab =
     (case load_candidate db cid of
        None \<Rightarrow> Inl (CandidateNotFound cid)
      | Some r \<Rightarrow>
          (case (case target of Some t \<Rightarrow> Inr t | None \<Rightarrow> fetch_target provider (lc_row r)) of
             Inl e \<Rightarrow> Inl e
           | Inr t \<Rightarrow>
               (let c = lc_row r;
                    findings = evaluate_staleness policy (snapshot_for r) t;
                    (tab', added, resolved) = stale_replace_active_findings ids now (mc_workspace_id c) (mc_id c) (Some (mc_attempt_id c))
                        (Some (mc_task_id c)) (map finding_row findings) tab;
                    reason = primary_blocking_reason findings;
                    c' = touch now c (mark_candidate_stale (lc_workspace r) (lc_attempt r) reason c) in
                Inr (\<lparr>rr_candidate_id = mc_id c, rr_target = t, rr_findings = findings, rr_newly_added = added,
                      rr_newly_resolved = resolved, rr_stale = (reason \<noteq> None)\<rparr>,
                     emit_events fmt r t added (put_candidate db c'), tab'))))"

end
