(* ===== verification/Staleness_Properties.thy ===== *)
theory Staleness_Properties
  imports Staleness
begin

text \<open>
  Properties of the stale detection engine: what the evaluation finds, that the stored rows, the candidate's flag and the queue view
  agree after a refresh, how its path matching compares with the admission test, and a staleness reason that a refresh loses.
\<close>

section \<open>Evaluation\<close>

lemma path_finding_simps:
  "list_ex sf_blocks_merge (path_finding reason trigger expl blocking ps) \<longleftrightarrow> blocking \<and> ps \<noteq> []"
  "map sf_reason_code (path_finding reason trigger expl blocking ps) = (if ps = [] then [] else [reason])"
  "f \<in> set (path_finding reason trigger expl blocking ps) \<Longrightarrow>
     sf_reason_code f = reason \<and> sf_blocks_merge f = blocking \<and> (\<exists>p \<in> set ps. sf_trigger_ref f = Some p)"
  by (cases ps; simp add: path_finding_def)+

lemmas reason_defs = REASON_TARGET_ADVANCED_def REASON_OVERLAP_def REASON_SCHEMA_def REASON_DEPENDENCY_def REASON_BUILD_CONFIG_def
  REASON_PLAN_ARTIFACT_OVERLAP_def ADVISORY_PLAN_ARTIFACT_OVERLAP_REASON_def

text \<open>Some changed path of the target matches one of the patterns.\<close>

definition touches :: "TargetBranchState \<Rightarrow> string list \<Rightarrow> bool" where
  "touches t patterns = list_ex (\<lambda>p. list_ex (path_matches p) patterns) (tb_changed_paths t)"

lemma matched_nonempty: "matched (tb_changed_paths t) patterns \<noteq> [] \<longleftrightarrow> touches t patterns"
  by (auto simp: matched_def touches_def filter_empty_conv list_ex_iff)

definition moved :: "CandidateSnapshot \<Rightarrow> TargetBranchState \<Rightarrow> bool" where
  "moved c t = (cs_base_sha c \<noteq> None \<and> \<not> (cs_base_sha c = Some (tb_head_sha t) \<and> tb_advanced_commits t = 0))"

text \<open>The reasons why the moved target makes the candidate stale.\<close>

definition must_revalidate :: "StalePolicy \<Rightarrow> CandidateSnapshot \<Rightarrow> TargetBranchState \<Rightarrow> bool" where
  "must_revalidate policy c t =
     (is_sensitive_task_class (cs_task_class c) (schema_sensitive_task_classes policy) \<and> touches t (schema_paths policy)
      \<or> is_sensitive_task_class (cs_task_class c) (dependency_sensitive_task_classes policy) \<and> touches t (dependency_paths policy)
      \<or> is_sensitive_task_class (cs_task_class c) (build_config_sensitive_task_classes policy) \<and> touches t (build_config_paths policy)
      \<or> list_ex (\<lambda>p. list_ex (path_matches p) (cs_owned_paths c) \<and> \<not> is_plan_artifact_path (cs_internal_plan_artifact_paths c) p) (tb_changed_paths t)
      \<or> tb_advanced_commits t > 0 \<and> \<not> is_sensitive_task_class (cs_task_class c) (lenient_task_classes policy)
         \<and> (tb_changed_paths t = [] \<or> list_ex (\<lambda>p. \<not> is_plan_artifact_path (cs_internal_plan_artifact_paths c) p) (tb_changed_paths t)))"

definition path_findings :: "StalePolicy \<Rightarrow> CandidateSnapshot \<Rightarrow> TargetBranchState \<Rightarrow> StalenessFinding list" where
  "path_findings policy c t = schema_findings policy c t @ dependency_findings policy c t @ build_findings policy c t @ overlap_findings c t"

definition generally_stale :: "StalePolicy \<Rightarrow> CandidateSnapshot \<Rightarrow> TargetBranchState \<Rightarrow> bool" where
  "generally_stale policy c t =
     (tb_advanced_commits t > 0 \<and> \<not> is_sensitive_task_class (cs_task_class c) (lenient_task_classes policy)
      \<and> \<not> target_changes_are_only_plan_artifacts (cs_internal_plan_artifact_paths c) (tb_changed_paths t))"

lemma evaluate_eq:
  "evaluate_staleness policy c t =
     (if \<not> moved c t then []
      else path_findings policy c t
        @ (if \<not> list_ex sf_blocks_merge (path_findings policy c t) \<and> generally_stale policy c t then [target_advanced_finding t] else []))"
  unfolding evaluate_staleness_def moved_def path_findings_def [symmetric] generally_stale_def Let_def by simp

lemma path_findings_blocking:
  "list_ex sf_blocks_merge (path_findings policy c t) \<longleftrightarrow>
      is_sensitive_task_class (cs_task_class c) (schema_sensitive_task_classes policy) \<and> touches t (schema_paths policy)
      \<or> is_sensitive_task_class (cs_task_class c) (dependency_sensitive_task_classes policy) \<and> touches t (dependency_paths policy)
      \<or> is_sensitive_task_class (cs_task_class c) (build_config_sensitive_task_classes policy) \<and> touches t (build_config_paths policy)
      \<or> list_ex (\<lambda>p. list_ex (path_matches p) (cs_owned_paths c) \<and> \<not> is_plan_artifact_path (cs_internal_plan_artifact_paths c) p) (tb_changed_paths t)"
proof -
  have own: "filter (\<lambda>p. \<not> q p) (matched (tb_changed_paths t) ps) \<noteq> [] \<longleftrightarrow> list_ex (\<lambda>p. list_ex (path_matches p) ps \<and> \<not> q p) (tb_changed_paths t)" for q ps
    by (auto simp: matched_def filter_empty_conv list_ex_iff)
  have "list_ex sf_blocks_merge (overlap_findings c t) \<longleftrightarrow>
      list_ex (\<lambda>p. list_ex (path_matches p) (cs_owned_paths c) \<and> \<not> is_plan_artifact_path (cs_internal_plan_artifact_paths c) p) (tb_changed_paths t)"
    unfolding overlap_findings_def Let_def list_ex_append path_finding_simps(1) own by simp
  then show ?thesis
    by (simp add: path_findings_def schema_findings_def dependency_findings_def build_findings_def path_finding_simps(1) matched_nonempty)
qed

lemma generally_stale_iff:
  "generally_stale policy c t \<longleftrightarrow> tb_advanced_commits t > 0 \<and> \<not> is_sensitive_task_class (cs_task_class c) (lenient_task_classes policy)
     \<and> (tb_changed_paths t = [] \<or> list_ex (\<lambda>p. \<not> is_plan_artifact_path (cs_internal_plan_artifact_paths c) p) (tb_changed_paths t))"
  by (auto simp: generally_stale_def target_changes_are_only_plan_artifacts_def list_all_iff list_ex_iff)

lemma evaluate_blocking: "list_ex sf_blocks_merge (evaluate_staleness policy c t) \<longleftrightarrow> moved c t \<and> must_revalidate policy c t"
proof -
  have "list_ex sf_blocks_merge (evaluate_staleness policy c t)
      \<longleftrightarrow> moved c t \<and> (list_ex sf_blocks_merge (path_findings policy c t) \<or> generally_stale policy c t)"
    by (auto simp: evaluate_eq target_advanced_finding_def)
  then show ?thesis
    unfolding path_findings_blocking generally_stale_iff must_revalidate_def by blast
qed

lemma path_findings_member:
  assumes "f \<in> set (path_findings policy c t)"
  shows "sf_blocks_merge f = stale_reason_blocks_merge (Some (sf_reason_code f))" and "\<exists>p \<in> set (tb_changed_paths t). sf_trigger_ref f = Some p"
proof -
  have sub: "set (matched ps qs) \<subseteq> set ps" for ps qs
    by (auto simp: matched_def)
  consider "f \<in> set (schema_findings policy c t)" | "f \<in> set (dependency_findings policy c t)" | "f \<in> set (build_findings policy c t)"
    | "f \<in> set (overlap_findings c t)"
    using assms by (auto simp: path_findings_def)
  then have "sf_blocks_merge f = stale_reason_blocks_merge (Some (sf_reason_code f)) \<and> (\<exists>p \<in> set (tb_changed_paths t). sf_trigger_ref f = Some p)"
  proof cases
    case 1
    then show ?thesis
      using sub by (auto simp: schema_findings_def stale_reason_blocks_merge_def reason_defs split: if_splits dest!: path_finding_simps(3))
  next
    case 2
    then show ?thesis
      using sub by (auto simp: dependency_findings_def stale_reason_blocks_merge_def reason_defs split: if_splits dest!: path_finding_simps(3))
  next
    case 3
    then show ?thesis
      using sub by (auto simp: build_findings_def stale_reason_blocks_merge_def reason_defs split: if_splits dest!: path_finding_simps(3))
  next
    case 4
    then show ?thesis
      by (auto simp: matched_def overlap_findings_def Let_def stale_reason_blocks_merge_def reason_defs dest!: path_finding_simps(3))
  qed
  then show "sf_blocks_merge f = stale_reason_blocks_merge (Some (sf_reason_code f))" "\<exists>p \<in> set (tb_changed_paths t). sf_trigger_ref f = Some p"
    by blast+
qed

lemma reasons_distinct:
  "distinct [REASON_SCHEMA, REASON_DEPENDENCY, REASON_BUILD_CONFIG, REASON_PLAN_ARTIFACT_OVERLAP, REASON_OVERLAP, REASON_TARGET_ADVANCED]"
  by (simp add: reason_defs)

text \<open>The findings appear in a fixed order of their reasons.\<close>

lemma path_findings_order:
  "subseq (map sf_reason_code (path_findings policy c t) @ [REASON_TARGET_ADVANCED])
     [REASON_SCHEMA, REASON_DEPENDENCY, REASON_BUILD_CONFIG, REASON_PLAN_ARTIFACT_OVERLAP, REASON_OVERLAP, REASON_TARGET_ADVANCED]"
proof -
  have one: "subseq (map sf_reason_code (path_finding reason trigger expl blocking ps)) [reason]" for reason trigger expl blocking ps
    by (simp add: path_finding_simps(2))
  have "subseq (map sf_reason_code (path_findings policy c t) @ [REASON_TARGET_ADVANCED])
      (([REASON_SCHEMA] @ [REASON_DEPENDENCY] @ [REASON_BUILD_CONFIG] @ [REASON_PLAN_ARTIFACT_OVERLAP] @ [REASON_OVERLAP]) @ [REASON_TARGET_ADVANCED])"
    unfolding path_findings_def map_append overlap_findings_def Let_def
    by (intro list_emb_append_mono subseq_order.refl one) (simp_all add: schema_findings_def dependency_findings_def build_findings_def one)
  then show ?thesis
    by simp
qed

lemma subseq_distinct: "subseq xs ys \<Longrightarrow> distinct ys \<Longrightarrow> distinct xs"
  by (induction rule: list_emb.induct) (auto dest: list_emb_set)

lemma path_findings_reasons: "distinct (map sf_reason_code (path_findings policy c t) @ [REASON_TARGET_ADVANCED])"
  by (rule subseq_distinct [OF path_findings_order reasons_distinct])

lemma evaluate_shape:
  "distinct (map sf_reason_code (evaluate_staleness policy c t))"
  "f \<in> set (evaluate_staleness policy c t) \<Longrightarrow> sf_blocks_merge f = stale_reason_blocks_merge (Some (sf_reason_code f))
     \<and> sf_trigger_ref f \<in> Some ` (insert (tb_head_sha t) (set (tb_changed_paths t)))"
proof -
  show "distinct (map sf_reason_code (evaluate_staleness policy c t))"
    using path_findings_reasons [of policy c t] by (auto simp: evaluate_eq target_advanced_finding_def)
  assume "f \<in> set (evaluate_staleness policy c t)"
  then consider "f \<in> set (path_findings policy c t)" | "f = target_advanced_finding t"
    by (auto simp: evaluate_eq split: if_splits)
  then show "sf_blocks_merge f = stale_reason_blocks_merge (Some (sf_reason_code f))
     \<and> sf_trigger_ref f \<in> Some ` (insert (tb_head_sha t) (set (tb_changed_paths t)))"
  proof cases
    case 1
    then show ?thesis
      using path_findings_member by fastforce
  next
    case 2
    then show ?thesis
      by (simp add: target_advanced_finding_def stale_reason_blocks_merge_def reason_defs)
  qed
qed

text \<open>
  The evaluation raises a blocking finding exactly when the target moved past the candidate's validation base and a sensitive path group
  of the task class, an owned path that is no plan artifact, or (unless the class is lenient) anything but plan artifacts changed.  There is at
  most one finding per reason, each refers to a changed path or to the new head, and its blocking flag is the one that readers of the stored row
  derive from the reason code.
\<close>

theorem evaluate_staleness_exact:
  "(list_ex sf_blocks_merge (evaluate_staleness policy c t) \<longleftrightarrow> moved c t \<and> must_revalidate policy c t)
   \<and> distinct (map sf_reason_code (evaluate_staleness policy c t))
   \<and> list_all (\<lambda>f. sf_blocks_merge f = stale_reason_blocks_merge (Some (sf_reason_code f))
        \<and> sf_trigger_ref f \<in> Some ` (insert (tb_head_sha t) (set (tb_changed_paths t)))) (evaluate_staleness policy c t)"
  using evaluate_blocking evaluate_shape by (simp add: list_all_iff)

section \<open>The refresh keeps rows, flag and queue in step\<close>

lemma primary_reason_None: "primary_blocking_reason fs = None \<longleftrightarrow> \<not> list_ex sf_blocks_merge fs"
proof -
  have "sort_key reason_priority (filter sf_blocks_merge fs) = [] \<longleftrightarrow> filter sf_blocks_merge fs = []"
    by (metis length_0_conv length_sort)
  then show ?thesis
    by (auto simp: primary_blocking_reason_def filter_empty_conv list_ex_iff split: list.splits)
qed

lemma stale_create_key_row: "stale_create_key (finding_row f) = (sf_reason_code f, sf_trigger_type f, sf_trigger_ref f)"
  by (simp add: stale_create_key_def finding_row_def)

text \<open>Reading the stored rows gives the same verdict as the findings.\<close>

lemma stored_rows_agree:
  assumes keys: "stale_key ` {r \<in> set tab. my_stale cid r} = stale_create_key ` set (map finding_row fs)"
    and flags: "\<And>f. f \<in> set fs \<Longrightarrow> sf_blocks_merge f = stale_reason_blocks_merge (Some (sf_reason_code f))"
  shows "(\<exists>r \<in> set tab. my_stale cid r \<and> blocks_merge r) \<longleftrightarrow> list_ex sf_blocks_merge fs"
proof -
  have "sr_reason_code ` {r \<in> set tab. my_stale cid r} = fst ` stale_key ` {r \<in> set tab. my_stale cid r}"
    by (simp add: image_image stale_key_def)
  also have "\<dots> = sf_reason_code ` set fs"
    unfolding keys by (simp add: image_image stale_create_key_row)
  finally have codes: "sr_reason_code ` {r \<in> set tab. my_stale cid r} = sf_reason_code ` set fs" .
  have "(\<exists>r \<in> set tab. my_stale cid r \<and> blocks_merge r) \<longleftrightarrow> (\<exists>k \<in> sr_reason_code ` {r \<in> set tab. my_stale cid r}. stale_reason_blocks_merge (Some k))"
    by (auto simp: blocks_merge_def)
  also have "\<dots> \<longleftrightarrow> list_ex sf_blocks_merge fs"
    unfolding codes using flags by (auto simp: list_ex_iff)
  finally show ?thesis .
qed

lemma marked_flags:
  assumes "mc_status c \<noteq> Merged" "status w \<noteq> Completed"
  shows "stale (mark_candidate_stale w a reason c) \<longleftrightarrow> reason \<noteq> None \<or> fst (compute_stale_reason w) \<noteq> None"
    and "ready (mark_candidate_stale w a reason c) \<longleftrightarrow> mc_status c = Open \<and> status w = Monitoring_pr \<and> is_canonical_for_merge a
      \<and> \<not> policy_blocked c \<and> auto_merge w \<and> reason = None \<and> fst (compute_stale_reason w) = None"
  using assms by (auto simp: mark_candidate_stale_def sync_candidate_readiness_def Let_def)

lemma mark_key: "mc_key (touch now c (mark_candidate_stale w a reason c)) = mc_key c"
  by (simp add: mark_candidate_stale_def Let_def) (simp add: mc_key_def)

lemma load_rows_member: "r \<in> set (load_rows db) \<Longrightarrow> lc_row r \<in> set (candidates db)"
proof -
  assume "r \<in> set (load_rows db)"
  then obtain c where c: "c \<in> set (candidates db)"
      "(case (find (\<lambda>a. at_id a = mc_attempt_id c) (attempts db), workspaces db (mc_workspace_id c)) of
         (Some a, Some w) \<Rightarrow> Some \<lparr>lc_row = c, lc_attempt = a, lc_workspace = w\<rparr> | _ \<Rightarrow> None) = Some r"
    unfolding load_rows_def set_map_filter by blast
  then have "lc_row r = c"
    by (cases "find (\<lambda>a. at_id a = mc_attempt_id c) (attempts db)"; cases "workspaces db (mc_workspace_id c)") auto
  with c show ?thesis
    by simp
qed

lemma load_candidate_id:
  assumes "load_candidate db cid = Some r"
  shows "mc_id (lc_row r) = cid" "lc_row r \<in> set (candidates db)"
  using assms load_rows_member by (auto simp: load_candidate_def find_Some_iff lc_id_def)

lemma touch_frame: "stale (touch now c x) = stale x" "ready (touch now c x) = ready x" "mc_id (touch now c x) = mc_id x"
  by (simp_all add: touch_def)

lemma put_candidate_members:
  "c \<in> set (candidates db) \<Longrightarrow> mc_id c' = mc_id c \<Longrightarrow> x \<in> set (candidates (put_candidate db c')) \<Longrightarrow> mc_id x = mc_id c \<Longrightarrow> x = c'"
  by (auto simp: put_candidate_def split: if_splits)

text \<open>
  Property C9: a refresh leaves the table of stale reasons, the candidate's flag and the result in agreement.  For a candidate that is neither merged nor of a
  completed workspace, the refresh with a given target never raises; the active stale reasons of the candidate are exactly the findings; the
  result is stale exactly when the target moved and the policy asks for a new validation, which is the same as having an active stale
  reason that blocks merging; the stored candidate row is stale if and only if that is so or the validation evidence is insufficient; and a
  row marked ready has no active blocking stale reason.
\<close>

theorem refresh_keeps_queue_in_step:
  assumes loaded: "load_candidate db cid = Some r" and live: "mc_status (lc_row r) \<noteq> Merged" "status (lc_workspace r) \<noteq> Completed"
  shows "\<exists>res db' tab'. refresh_candidate ids fmt now policy provider cid (Some t) db tab = Inr (res, db', tab')
    \<and> rr_findings res = evaluate_staleness policy (snapshot_for r) t
    \<and> stale_key ` {x \<in> set tab'. my_stale cid x} = stale_create_key ` set (map finding_row (rr_findings res))
    \<and> (rr_stale res \<longleftrightarrow> moved (snapshot_for r) t \<and> must_revalidate policy (snapshot_for r) t)
    \<and> (rr_stale res \<longleftrightarrow> (\<exists>x \<in> set tab'. my_stale cid x \<and> blocks_merge x))
    \<and> list_all (\<lambda>c. if mc_id c = cid
          then (stale c \<longleftrightarrow> rr_stale res \<or> fst (compute_stale_reason (lc_workspace r)) \<noteq> None)
             \<and> \<not> (ready c \<and> (\<exists>x \<in> set tab'. my_stale cid x \<and> blocks_merge x))
          else c \<in> set (candidates db)) (candidates db')"
proof -
  let ?c = "lc_row r" and ?fs = "evaluate_staleness policy (snapshot_for r) t"
  let ?reason = "primary_blocking_reason ?fs"
  let ?c' = "touch now ?c (mark_candidate_stale (lc_workspace r) (lc_attempt r) ?reason ?c)"
  have id: "mc_id ?c = cid" "?c \<in> set (candidates db)"
    by (rule load_candidate_id [OF loaded])+
  let ?out = "stale_replace_active_findings ids now (mc_workspace_id ?c) (mc_id ?c) (Some (mc_attempt_id ?c)) (Some (mc_task_id ?c)) (map finding_row ?fs) tab"
  let ?res = "\<lparr>rr_candidate_id = mc_id ?c, rr_target = t, rr_findings = ?fs, rr_newly_added = fst (snd ?out), rr_newly_resolved = snd (snd ?out),
      rr_stale = (?reason \<noteq> None)\<rparr>"
  let ?db = "emit_events fmt r t (fst (snd ?out)) (put_candidate db ?c')"
  have run: "refresh_candidate ids fmt now policy provider cid (Some t) db tab = Inr (?res, ?db, fst ?out)"
    by (simp add: refresh_candidate_def loaded Let_def case_prod_beta)
  have cands: "candidates ?db = candidates (put_candidate db ?c')"
    by (simp add: emit_events_def)
  have keys: "stale_key ` {x \<in> set (fst ?out). my_stale cid x} = stale_create_key ` set (map finding_row ?fs)"
    using stale_table.active_keys_exact [where cid = "mc_id ?c" and fs = "map finding_row ?fs"] id(1) by simp
  have verdict: "?reason \<noteq> None \<longleftrightarrow> list_ex sf_blocks_merge ?fs"
    by (simp add: primary_reason_None)
  have rows: "(\<exists>x \<in> set (fst ?out). my_stale cid x \<and> blocks_merge x) \<longleftrightarrow> ?reason \<noteq> None"
    unfolding verdict by (rule stored_rows_agree [OF keys]) (use evaluate_shape(2) in blast)
  have new: "stale ?c' \<longleftrightarrow> ?reason \<noteq> None \<or> fst (compute_stale_reason (lc_workspace r)) \<noteq> None" "ready ?c' \<Longrightarrow> ?reason = None" "mc_id ?c' = cid"
    unfolding touch_frame using marked_flags [OF live] mark_key [of now ?c] id(1) by (simp_all add: mc_key_def touch_frame)
  have "if mc_id c = cid then (stale c \<longleftrightarrow> ?reason \<noteq> None \<or> fst (compute_stale_reason (lc_workspace r)) \<noteq> None) \<and> \<not> (ready c \<and> ?reason \<noteq> None)
      else c \<in> set (candidates db)" if m: "c \<in> set (candidates ?db)" for c
  proof (cases "mc_id c = cid")
    case True
    then have "c = ?c'"
      using put_candidate_members [OF id(2), of ?c' c] m new(3) id(1) unfolding cands by simp
    then show ?thesis
      using new True by auto
  next
    case False
    then show ?thesis
      using m new(3) unfolding cands by (auto simp: put_candidate_def split: if_splits)
  qed
  then have "list_all (\<lambda>c. if mc_id c = cid then (stale c \<longleftrightarrow> ?reason \<noteq> None \<or> fst (compute_stale_reason (lc_workspace r)) \<noteq> None) \<and> \<not> (ready c \<and> ?reason \<noteq> None)
      else c \<in> set (candidates db)) (candidates ?db)"
    by (simp only: list_all_iff) blast
  then show ?thesis
    using run keys rows verdict evaluate_blocking [of policy "snapshot_for r" t]
    by (intro exI [of _ ?res] exI [of _ ?db] exI [of _ "fst ?out"])
      (simp only: StalenessRefreshResult.select_convs simp_thms)
qed

definition stale_row :: MergeCandidate where
  "stale_row = (queue_candidate_row ''k1'' ''a1'' ''w1'' 1)\<lparr>mc_base_sha := Some ''b0''\<rparr>"

definition stale_db :: database where
  "stale_db = queue_db\<lparr>candidates := [stale_row]\<rparr>"

definition stale_loaded :: LoadedCandidate where
  "stale_loaded = older_row\<lparr>lc_row := stale_row\<rparr>"

definition moved_target :: TargetBranchState where
  "moved_target = \<lparr>tb_branch = ''main'', tb_head_sha = ''b1'', tb_changed_paths = [''README.md'', ''src/x''], tb_advanced_commits = 1\<rparr>"

theorem refresh_keeps_queue_in_step_witness:
  "\<exists>res db' tab'. refresh_candidate (\<lambda>k. ''s'') (\<lambda>i. ''now'') 5 DEFAULT_STALE_POLICY None ''k1'' (Some moved_target) stale_db [] = Inr (res, db', tab')
     \<and> rr_stale res \<and> (\<exists>x \<in> set tab'. my_stale ''k1'' x \<and> blocks_merge x)"
proof -
  have l: "load_candidate stale_db ''k1'' = Some stale_loaded" "mc_status (lc_row stale_loaded) \<noteq> Merged" "status (lc_workspace stale_loaded) \<noteq> Completed"
    by (simp_all add: load_candidate_def load_rows_def List.map_filter_simps stale_db_def stale_row_def stale_loaded_def queue_db_def older_row_def queue_candidate_row_def
        queue_attempt_def queue_workspace_def sample_workspace_def lc_id_def)
  have m: "moved (snapshot_for stale_loaded) moved_target" "must_revalidate DEFAULT_STALE_POLICY (snapshot_for stale_loaded) moved_target"
    by code_simp+
  show ?thesis
    using refresh_keeps_queue_in_step [OF l, of "\<lambda>k. ''s''" "\<lambda>i. ''now''" 5 DEFAULT_STALE_POLICY None moved_target "[]"] m by blast
qed

section \<open>A reason the refresh loses\<close>

text \<open>
  Property C27: a refresh forgets that a documentation task claims other files.  When the flags of a candidate are derived, that scope violation makes the
  candidate stale and keeps it from being ready; but a refresh without a blocking finding, which documentation tasks get whenever no owned
  path changed, clears the staleness and marks the same candidate ready to merge, although the workspace still violates its scope.
\<close>

theorem refresh_forgets_docs_scope:
  assumes "initial_scope_stale_reason w = Some x" "fst (compute_stale_reason w) = None" "mc_status c = Open" "status w = Monitoring_pr"
    "is_canonical_for_merge a" "auto_merge w" "\<not> policy_blocked c"
  defines "c1 \<equiv> sync_readiness w a c"
  defines "c2 \<equiv> mark_candidate_stale w a None c1"
  shows "stale c1 \<and> \<not> ready c1 \<and> \<not> stale c2 \<and> ready c2 \<and> stale_reason c2 = None
    \<and> is_merge_ready_candidate \<lparr>lc_row = c2, lc_attempt = a, lc_workspace = w\<rparr>"
  unfolding c2_def c1_def using assms(1-7)
  by (simp add: mark_candidate_stale_def readiness_defs py_or_def is_merge_ready_candidate_def)

theorem refresh_forgets_docs_scope_witness:
  "ready (mark_candidate_stale ((queue_workspace ''w1'' [''src/*''])\<lparr>task_class := Some ''docs_task''\<rparr>) (queue_attempt ''a1'' ''w1'') None
     (sync_readiness ((queue_workspace ''w1'' [''src/*''])\<lparr>task_class := Some ''docs_task''\<rparr>) (queue_attempt ''a1'' ''w1'') stale_row))"
proof -
  let ?w = "(queue_workspace ''w1'' [''src/*''])\<lparr>task_class := Some ''docs_task''\<rparr>" and ?a = "queue_attempt ''a1'' ''w1''"
  have h: "initial_scope_stale_reason ?w = Some DOCS_TASK_SCOPE_VIOLATION_STALE_REASON" "fst (compute_stale_reason ?w) = None" "mc_status stale_row = Open"
    "status ?w = Monitoring_pr" "is_canonical_for_merge ?a" "auto_merge ?w" "\<not> policy_blocked stale_row"
    by code_simp+
  show ?thesis
    using refresh_forgets_docs_scope [OF h] by simp
qed

section \<open>Matching against admission\<close>

text \<open>
  The matcher of the staleness policy is narrower than the overlap test of admission.  For an owned path \<open>d/*\<close>, a changed file more than one level
  below \<open>d\<close> overlaps the owned path for admission and for the merge queue, but does not make the candidate's overlap finding.
\<close>

theorem staleness_matches_less_than_admission:
  assumes "normalize_owned_path (d @ ''/*'') = d @ ''/*''" "\<not> has_wildcard d" and f: "normalize_owned_path f = f" "\<not> has_wildcard f"
    and below: "prefix (d @ ''/'') f" "CHR ''/'' \<in> set (drop (length d + 1) f)"
  shows "owned_paths_overlap f (d @ ''/*'') \<and> \<not> path_matches f (d @ ''/*'')"
proof -
  have wf: "wildcard_prefix f = None" and wd: "wildcard_prefix (d @ ''/*'') = Some (d @ ''/'')"
    using assms(2) f(2) by (auto simp: wildcard_prefix_def has_wildcard_def list_ex_iff takeWhile_append2 is_wild_def)
  have "wildcard_prefix_overlaps (d @ ''/'') f"
    using wild_plain [OF below(1), of f] f(1) normal_no_trailing_slash [of f] by simp
  moreover have "f \<noteq> []"
    using below(2) by auto
  ultimately have "owned_paths_overlap f (d @ ''/*'')"
    using wf wd assms(1) f(1) by (simp add: owned_paths_overlap_iff Let_def)
  moreover have "\<not> path_matches f (d @ ''/*'')"
  proof -
    have "f \<noteq> d @ ''/*''"
      using f(2) by (auto simp: has_wildcard_def is_wild_def)
    moreover have "\<not> endswith (d @ ''/*'') ''/**''"
      by (simp add: endswith_def startswith_def)
    ultimately show ?thesis
      using below(2) assms(2) by (simp add: path_matches_def endswith_def startswith_def Let_def)
  qed
  ultimately show ?thesis
    by blast
qed

theorem staleness_matches_less_than_admission_witness:
  "owned_paths_overlap ''src/a/b.py'' ''src/*'' \<and> \<not> path_matches ''src/a/b.py'' ''src/*''"
proof -
  have h: "normalize_owned_path (''src'' @ ''/*'') = ''src'' @ ''/*''" "\<not> has_wildcard ''src''" "normalize_owned_path ''src/a/b.py'' = ''src/a/b.py''"
    "\<not> has_wildcard ''src/a/b.py''" "prefix (''src'' @ ''/'') ''src/a/b.py''" "CHR ''/'' \<in> set (drop (length ''src'' + 1) ''src/a/b.py'')"
    by code_simp+
  show ?thesis
    using staleness_matches_less_than_admission [OF h] by simp
qed

end
