(* ===== verification/Keyed_Rows.thy ===== *)
theory Keyed_Rows
  imports Main
begin

text \<open>
  Tables whose rows are found by a primary key and written back by it.  Locale \<open>keyed_rows\<close> is what the repositories rely on when they write rows
  they have read; the tables of garbage-collection requests and of secret leases interpret it.
\<close>

locale keyed_rows =
  fixes key :: "'r \<Rightarrow> 'k" and put :: "'r \<Rightarrow> 'r list \<Rightarrow> 'r list"
  assumes put_eq: "put r tab = map (\<lambda>p. if key p = key r then r else p) tab"
begin

lemma put_keys [simp]: "map key (put r tab) = map key tab"
  by (simp add: put_eq)

lemma put_length [simp]: "length (put r tab) = length tab"
  by (simp add: put_eq)

lemma put_member: "x \<in> set (put r tab) \<Longrightarrow> x = r \<or> x \<in> set tab \<and> key x \<noteq> key r"
  by (auto simp: put_eq)

lemma put_in: "r' \<in> set tab \<Longrightarrow> key r' = key r \<Longrightarrow> r \<in> set (put r tab)"
  by (auto simp: put_eq image_iff)

lemma put_all: "list_all P tab \<Longrightarrow> P r \<Longrightarrow> list_all P (put r tab)"
  by (auto simp: put_eq list_all_iff)

lemma put_all2:
  assumes "distinct (map key tab)" "r \<in> set tab" "key r' = key r" "R r r'" "\<And>x. x \<in> set tab \<Longrightarrow> key x \<noteq> key r \<Longrightarrow> R x x"
  shows "list_all2 R tab (put r' tab)"
proof -
  have "R x (if key x = key r' then r' else x)" if "x \<in> set tab" for x
    using assms that by (cases "key x = key r") (auto simp: distinct_map inj_on_def)
  then show ?thesis
    by (simp add: put_eq list_all2_map2 list_all2_same)
qed

text \<open>Writing back changed copies of some rows, one after the other, changes exactly those.\<close>

lemma fold_put:
  assumes "distinct (map key tab)" and "set rows \<subseteq> set tab" and "\<And>r. key (g r) = key r" and "distinct (map key rows)"
  shows "fold (\<lambda>r. put (g r)) rows tab = map (\<lambda>p. if p \<in> set rows then g p else p) tab"
  using assms(2,4)
proof (induction rows rule: rev_induct)
  case (snoc r rows)
  have "put (g r) (map (\<lambda>p. if p \<in> set rows then g p else p) tab) = map (\<lambda>p. if p \<in> set (rows @ [r]) then g p else p) tab"
    unfolding put_eq using snoc.prems assms(1,3) by (auto simp: distinct_map inj_on_def image_iff)
  then show ?case
    using snoc by simp
qed simp

end

end
