(* ===== verification/Service_GC.thy ===== *)
theory Service_GC
  imports Rows Keyed_Rows "HOL-Library.Product_Lexorder"
begin

text \<open>
  On-demand garbage collection requests (\<open>db/repositories/service_gc_request_repo.py\<close>).  The API inserts a pending row, a worker claims
  the oldest one that is not past its deadline, and finishes it; a sweep expires what is too late.  Every operation is one transaction; \<open>locked\<close>
  are the rows that concurrent transactions hold, which \<open>SKIP LOCKED\<close> passes over.
\<close>

section \<open>Rows\<close>

datatype gc_status = GcPending | GcRunning | GcCompleted | GcFailed | GcExpired

record ServiceGCRequest =
  gc_id :: string
  gc_status :: gc_status
  gc_node_id :: "string option"
  gc_requested_at :: instant
  gc_deadline_at :: "instant option"
  gc_claimed_at :: "instant option"
  gc_finished_at :: "instant option"
  gc_params :: "(string \<times> json) list"
  gc_result :: "(string \<times> json) list option"
  gc_error_code :: "string option"
  gc_error_message :: "string option"

type_synonym gc_table = "ServiceGCRequest list"

definition restore_row_allows_work :: "database \<Rightarrow> string \<Rightarrow> string \<Rightarrow> bool" where
  "restore_row_allows_work db family row =
     (\<not> restore_quarantine db \<and> \<not> list_ex (\<lambda>h. hold_family h = family \<and> hold_row_id h = row \<and> hold_state h = ''held'') (restore_holds db))"

definition gc_order :: "ServiceGCRequest \<Rightarrow> instant \<times> string" where
  "gc_order q = (gc_requested_at q, gc_id q)"

definition put_request :: "ServiceGCRequest \<Rightarrow> gc_table \<Rightarrow> gc_table" where
  "put_request q tab = map (\<lambda>p. if gc_id p = gc_id q then q else p) tab"

section \<open>Operations\<close>

definition create_pending :: "string \<Rightarrow> string option \<Rightarrow> instant \<Rightarrow> instant option \<Rightarrow> (string \<times> json) list option \<Rightarrow> gc_table \<Rightarrow> ServiceGCRequest \<times> gc_table" where
  "create_pending i node requested deadline params tab =
     (let q = \<lparr>gc_id = i, gc_status = GcPending, gc_node_id = node, gc_requested_at = requested, gc_deadline_at = deadline, gc_claimed_at = None,
               gc_finished_at = None, gc_params = (case params of None \<Rightarrow> [] | Some ps \<Rightarrow> ps), gc_result = None, gc_error_code = None, gc_error_message = None\<rparr>
      in (q, tab @ [q]))"

definition get_request :: "string \<Rightarrow> gc_table \<Rightarrow> ServiceGCRequest option" where
  "get_request i tab = find (\<lambda>q. gc_id q = i) tab"

definition for_node :: "string \<Rightarrow> ServiceGCRequest \<Rightarrow> bool" where
  "for_node node q = (gc_node_id q = Some node \<or> gc_node_id q = None)"

definition claimable :: "database \<Rightarrow> string \<Rightarrow> instant \<Rightarrow> ServiceGCRequest \<Rightarrow> bool" where
  "claimable db node now q =
     (gc_status q = GcPending \<and> restore_row_allows_work db ''service_gc_requests'' (gc_id q)
      \<and> (case gc_deadline_at q of None \<Rightarrow> True | Some d \<Rightarrow> now \<le> d) \<and> for_node node q)"

definition claim_oldest_pending ::
    "database \<Rightarrow> string list \<Rightarrow> string \<Rightarrow> instant \<Rightarrow> gc_table \<Rightarrow> ServiceGCRequest option \<times> gc_table" where
  "claim_oldest_pending db locked node now tab =
     (case sort_key gc_order (filter (\<lambda>q. claimable db node now q \<and> gc_id q \<notin> set locked) tab) of
        [] \<Rightarrow> (None, tab)
      | q # _ \<Rightarrow>
          (let q' = q\<lparr>gc_status := GcRunning, gc_claimed_at := Some now, gc_node_id := Some node\<rparr> in (Some q', put_request q' tab)))"

definition overdue :: "database \<Rightarrow> string \<Rightarrow> instant \<Rightarrow> ServiceGCRequest \<Rightarrow> bool" where
  "overdue db node now q =
     (gc_status q \<in> {GcPending, GcRunning} \<and> restore_row_allows_work db ''service_gc_requests'' (gc_id q)
      \<and> (case gc_deadline_at q of None \<Rightarrow> False | Some d \<Rightarrow> d < now) \<and> for_node node q)"

definition expire_row :: "instant \<Rightarrow> ServiceGCRequest \<Rightarrow> ServiceGCRequest" where
  "expire_row now q = q\<lparr>gc_status := GcExpired, gc_finished_at := Some now\<rparr>"

definition expire_stale_requests :: "database \<Rightarrow> string list \<Rightarrow> string \<Rightarrow> instant \<Rightarrow> gc_table \<Rightarrow> string list \<times> gc_table" where
  "expire_stale_requests db locked node now tab =
     (let rows = sort_key gc_order (filter (\<lambda>q. overdue db node now q \<and> gc_id q \<notin> set locked) tab) in
      (map gc_id rows, fold (\<lambda>q. put_request (expire_row now q)) rows tab))"

definition mark_completed :: "string \<Rightarrow> (string \<times> json) list \<Rightarrow> instant \<Rightarrow> gc_table \<Rightarrow> ServiceGCRequest option \<times> gc_table" where
  "mark_completed i result now tab =
     (case get_request i tab of
        None \<Rightarrow> (None, tab)
      | Some q \<Rightarrow>
          if gc_status q = GcExpired then (Some q, tab)
          else (let q' = q\<lparr>gc_status := GcCompleted, gc_finished_at := Some now, gc_result := Some result, gc_error_code := None, gc_error_message := None\<rparr>
                in (Some q', put_request q' tab)))"

definition mark_failed :: "string \<Rightarrow> string \<Rightarrow> string \<Rightarrow> instant \<Rightarrow> gc_table \<Rightarrow> ServiceGCRequest option \<times> gc_table" where
  "mark_failed i code msg now tab =
     (case get_request i tab of
        None \<Rightarrow> (None, tab)
      | Some q \<Rightarrow>
          if gc_status q = GcExpired then (Some q, tab)
          else (let q' = q\<lparr>gc_status := GcFailed, gc_finished_at := Some now, gc_error_code := Some code, gc_error_message := Some (take 2048 msg)\<rparr>
                in (Some q', put_request q' tab)))"

section \<open>Histories\<close>

text \<open>
  The transactions of the API and of the workers, in the order they commit.  A worker finishes only what it claimed.  A history records for every step the
  request it claimed, if any.
\<close>

inductive gc_step :: "database \<Rightarrow> gc_table \<Rightarrow> (string \<times> instant) option \<Rightarrow> gc_table \<Rightarrow> bool" for db where
  create: "i \<notin> gc_id ` set tab \<Longrightarrow> gc_step db tab None (snd (create_pending i node requested deadline params tab))"
| claim: "claim_oldest_pending db locked node now tab = (r, tab') \<Longrightarrow> gc_step db tab (map_option (\<lambda>q. (gc_id q, now)) r) tab'"
| expire: "gc_step db tab None (snd (expire_stale_requests db locked node now tab))"
| complete: "get_request i tab = Some q \<Longrightarrow> gc_claimed_at q \<noteq> None \<Longrightarrow> gc_step db tab None (snd (mark_completed i result now tab))"
| fail: "get_request i tab = Some q \<Longrightarrow> gc_claimed_at q \<noteq> None \<Longrightarrow> gc_step db tab None (snd (mark_failed i code msg now tab))"

inductive_cases gc_stepE: "gc_step db tab a tab'"

inductive gc_history :: "(string \<times> instant) list \<Rightarrow> gc_table \<Rightarrow> bool" where
  start: "gc_history [] []"
| step: "gc_history cl tab \<Longrightarrow> gc_step db tab a tab' \<Longrightarrow> gc_history (cl @ (case a of None \<Rightarrow> [] | Some x \<Rightarrow> [x])) tab'"

section \<open>The life of a row\<close>

definition row_ok :: "ServiceGCRequest \<Rightarrow> bool" where
  "row_ok q =
     ((case gc_status q of
         GcPending \<Rightarrow> gc_claimed_at q = None \<and> gc_finished_at q = None
       | GcRunning \<Rightarrow> gc_claimed_at q \<noteq> None \<and> gc_finished_at q = None
       | GcExpired \<Rightarrow> gc_finished_at q \<noteq> None
       | _ \<Rightarrow> gc_claimed_at q \<noteq> None \<and> gc_finished_at q \<noteq> None)
      \<and> (case (gc_claimed_at q, gc_deadline_at q) of (Some t, Some d) \<Rightarrow> t \<le> d | _ \<Rightarrow> True))"

text \<open>What one step may do to a row: nothing, a claim, an expiry or a finish.\<close>

definition row_next :: "(string \<times> instant) option \<Rightarrow> ServiceGCRequest \<Rightarrow> ServiceGCRequest \<Rightarrow> bool" where
  "row_next a q q' =
     (gc_id q' = gc_id q \<and> (row_ok q \<longrightarrow> row_ok q') \<and> (gc_status q = GcExpired \<longrightarrow> q' = q)
      \<and> (case a of
           Some (i, t) \<Rightarrow> if i = gc_id q then gc_status q = GcPending \<and> gc_claimed_at q' = Some t else q' = q
         | None \<Rightarrow> gc_claimed_at q' = gc_claimed_at q))"

lemma row_next_refl: "a = None \<or> a = Some (i, t) \<and> i \<noteq> gc_id q \<Longrightarrow> row_next a q q"
  by (auto simp: row_next_def)

interpretation gc_rows: keyed_rows gc_id put_request
  by unfold_locales (simp add: put_request_def)

lemma sorted_filter_member:
  assumes "sort_key k (filter P xs) = q # qs"
  shows "q \<in> set xs \<and> P q"
proof -
  have "q \<in> set (sort_key k (filter P xs))"
    by (simp add: assms)
  then show ?thesis
    by simp
qed

lemma gc_step_rows:
  assumes "gc_step db tab a tab'" and d: "distinct (map gc_id tab)"
  shows "\<exists>old new. tab' = old @ new \<and> list_all2 (row_next a) tab old \<and> (\<forall>q \<in> set new. row_ok q \<and> gc_claimed_at q = None \<and> gc_id q \<notin> gc_id ` set tab)
    \<and> distinct (map gc_id new) \<and> (\<forall>i t. a = Some (i, t) \<longrightarrow> i \<in> gc_id ` set tab)"
proof -
  have same: "list_all2 (row_next None) tab tab"
    by (simp add: list_all2_same row_next_refl)
  have finish: "list_all2 (row_next None) tab (put_request q' tab)"
    if "get_request i tab = Some q" "gc_claimed_at q \<noteq> None" "gc_status q \<noteq> GcExpired" "gc_id q' = gc_id q" "gc_claimed_at q' = gc_claimed_at q" "row_ok q \<Longrightarrow> row_ok q'" for i q q'
  proof -
    have q: "q \<in> set tab"
      using that(1) by (auto simp: get_request_def find_Some_iff)
    show ?thesis
      using that by (intro gc_rows.put_all2 [OF d q]) (auto simp: row_next_def)
  qed
  show ?thesis
    using assms(1)
  proof (cases rule: gc_step.cases)
    case (create i node requested deadline params)
    then show ?thesis
      using same by (intro exI [of _ tab] exI [of _ "[fst (create_pending i node requested deadline params tab)]"])
        (simp add: create_pending_def row_ok_def Let_def)
  next
    case (claim locked node now r)
    show ?thesis
    proof (cases r)
      case None
      then have "tab' = tab"
        using claim by (auto simp: claim_oldest_pending_def Let_def split: list.splits)
      then show ?thesis
        using None claim same by (intro exI [of _ tab] exI [of _ "[]"]) simp
    next
      case (Some q')
      then obtain q qs where q: "sort_key gc_order (filter (\<lambda>q. claimable db node now q \<and> gc_id q \<notin> set locked) tab) = q # qs"
          and q': "q' = q\<lparr>gc_status := GcRunning, gc_claimed_at := Some now, gc_node_id := Some node\<rparr>" "tab' = put_request q' tab"
        using claim by (auto simp: claim_oldest_pending_def Let_def split: list.splits)
      have m: "q \<in> set tab" "claimable db node now q"
        using sorted_filter_member [OF q] by simp_all
      have "list_all2 (row_next a) tab (put_request q' tab)"
        using m claim Some q'(1) by (intro gc_rows.put_all2 [OF d m(1)]) (auto simp: row_next_def row_ok_def claimable_def split: option.splits)
      then show ?thesis
        using m q' claim Some by (intro exI [of _ tab'] exI [of _ "[]"]) auto
    qed
  next
    case (expire locked node now)
    let ?rows = "sort_key gc_order (filter (\<lambda>q. overdue db node now q \<and> gc_id q \<notin> set locked) tab)"
    have "fold (\<lambda>q. put_request (expire_row now q)) ?rows tab = map (\<lambda>q. if q \<in> set ?rows then expire_row now q else q) tab"
      using d by (intro gc_rows.fold_put) (auto simp: distinct_map inj_on_def expire_row_def)
    then have "tab' = map (\<lambda>q. if q \<in> set ?rows then expire_row now q else q) tab"
      using expire(2) by (simp only: expire_stale_requests_def Let_def snd_conv)
    moreover have "row_next None q (expire_row now q)" if "q \<in> set ?rows" for q
      using that by (auto simp: row_next_def row_ok_def expire_row_def overdue_def split: option.splits)
    ultimately have "list_all2 (row_next a) tab tab'"
      using expire by (simp add: list_all2_map2 list_all2_same row_next_refl)
    then show ?thesis
      using expire by (intro exI [of _ tab'] exI [of _ "[]"]) simp
  next
    case (complete i q result now)
    have "list_all2 (row_next None) tab tab'"
      using complete same by (auto simp: mark_completed_def Let_def row_ok_def intro!: finish split: option.splits gc_status.splits)
    then show ?thesis
      using complete by (intro exI [of _ tab'] exI [of _ "[]"]) simp
  next
    case (fail i q code msg now)
    have "list_all2 (row_next None) tab tab'"
      using fail same by (auto simp: mark_failed_def Let_def row_ok_def intro!: finish split: option.splits gc_status.splits)
    then show ?thesis
      using fail by (intro exI [of _ tab'] exI [of _ "[]"]) simp
  qed
qed

section \<open>Every history keeps the table in order\<close>

definition gc_inv :: "(string \<times> instant) list \<Rightarrow> gc_table \<Rightarrow> bool" where
  "gc_inv cl tab =
     (distinct (map gc_id tab) \<and> list_all row_ok tab \<and> distinct (map fst cl)
      \<and> set cl = {(gc_id q, t) |q t. q \<in> set tab \<and> gc_claimed_at q = Some t})"

lemma next_claims:
  assumes "list_all2 (row_next a) tab old" and "list_all row_ok tab" and "distinct (map gc_id tab)" and "\<forall>i t. a = Some (i, t) \<longrightarrow> i \<in> gc_id ` set tab"
  shows "{(gc_id q, t) |q t. q \<in> set old \<and> gc_claimed_at q = Some t}
      = {(gc_id q, t) |q t. q \<in> set tab \<and> gc_claimed_at q = Some t} \<union> set_option a"
    and "\<And>i t. a = Some (i, t) \<Longrightarrow> i \<notin> fst ` {(gc_id q, t) |q t. q \<in> set tab \<and> gc_claimed_at q = Some t}"
    and "list_all row_ok old" and "map gc_id old = map gc_id tab"
proof -
  have nx: "row_next a (tab ! n) (old ! n)" if "n < length tab" for n
    using assms(1) that by (rule list_all2_nthD)
  have len: "length old = length tab"
    using assms(1) by (simp add: list_all2_lengthD)
  show ids: "map gc_id old = map gc_id tab"
    using nx len by (intro nth_equalityI) (auto simp: row_next_def)
  show "list_all row_ok old"
    using nx len assms(2) by (auto simp: list_all_length row_next_def)
  have pend: "gc_claimed_at q = None" if m: "q \<in> set tab" "a = Some (gc_id q, t)" for q t
  proof -
    obtain n where n: "n < length tab" "tab ! n = q"
      using m(1) by (auto simp: in_set_conv_nth)
    then show ?thesis
      using nx [OF n(1)] m assms(2) by (auto simp: row_next_def row_ok_def list_all_iff)
  qed
  show "i \<notin> fst ` {(gc_id q, t) |q t. q \<in> set tab \<and> gc_claimed_at q = Some t}" if "a = Some (i, t)" for i t
    using pend that by auto
  have fwd: "(gc_id q, t) \<in> {(gc_id q, t) |q t. q \<in> set tab \<and> gc_claimed_at q = Some t} \<union> set_option a"
    if m: "q \<in> set old" "gc_claimed_at q = Some t" for q t
  proof -
    obtain n where n: "n < length tab" "old ! n = q"
      using m(1) len by (auto simp: in_set_conv_nth)
    have "row_next a (tab ! n) q" "tab ! n \<in> set tab"
      using nx [OF n(1)] n by simp_all
    then show ?thesis
      using m(2) by (cases a) (auto simp: row_next_def split: if_splits prod.splits)
  qed
  have bwd: "(gc_id q, t) \<in> {(gc_id q, t) |q t. q \<in> set old \<and> gc_claimed_at q = Some t}"
    if m: "q \<in> set tab" "gc_claimed_at q = Some t \<or> a = Some (gc_id q, t)" for q t
  proof -
    obtain n where n: "n < length tab" "tab ! n = q"
      using m(1) by (auto simp: in_set_conv_nth)
    then have "row_next a q (old ! n)" "old ! n \<in> set old"
      using nx [OF n(1)] len by simp_all
    then have "gc_id (old ! n) = gc_id q" "gc_claimed_at (old ! n) = Some t"
      using m pend [OF m(1)] by (auto simp: row_next_def split: option.splits if_splits)
    then show ?thesis
      using \<open>old ! n \<in> set old\<close> by (intro CollectI exI [of _ "old ! n"] exI [of _ t]) simp
  qed
  show "{(gc_id q, t) |q t. q \<in> set old \<and> gc_claimed_at q = Some t}
      = {(gc_id q, t) |q t. q \<in> set tab \<and> gc_claimed_at q = Some t} \<union> set_option a" (is "?L = ?R")
  proof
    show "?L \<subseteq> ?R"
      using fwd by blast
    show "?R \<subseteq> ?L"
      using bwd assms(4) by (cases a) auto
  qed
qed

lemma gc_history_inv: "gc_history cl tab \<Longrightarrow> gc_inv cl tab"
proof (induction rule: gc_history.induct)
  case (step cl tab db a tab')
  then have d: "distinct (map gc_id tab)" "list_all row_ok tab"
    by (simp_all add: gc_inv_def)
  obtain old new where t: "tab' = old @ new" and n: "list_all2 (row_next a) tab old" "\<forall>i t. a = Some (i, t) \<longrightarrow> i \<in> gc_id ` set tab"
      and new: "\<forall>q \<in> set new. row_ok q \<and> gc_claimed_at q = None \<and> gc_id q \<notin> gc_id ` set tab" "distinct (map gc_id new)"
    using gc_step_rows [OF step.hyps(2) d(1)] by blast
  note c = next_claims [OF n(1) d(2,1) n(2)]
  have "{(gc_id q, t) |q t. q \<in> set tab' \<and> gc_claimed_at q = Some t} = {(gc_id q, t) |q t. q \<in> set old \<and> gc_claimed_at q = Some t}"
    using new(1) by (fastforce simp: t)
  moreover have "distinct (map gc_id tab')"
  proof -
    have "gc_id ` set old = gc_id ` set tab"
      using arg_cong [OF c(4), of set] by simp
    moreover have "gc_id ` set tab \<inter> gc_id ` set new = {}"
      using new(1) by (intro equals0I) (elim IntE imageE, simp only:, blast)
    ultimately show ?thesis
      using d(1) new(2) by (simp only: t map_append distinct_append c(4) set_map)
  qed
  moreover have "list_all row_ok tab'"
    using c(3) new(1) by (auto simp: t list_all_iff)
  moreover have "fst x \<notin> fst ` set cl" if "a = Some x" for x
    using c(2) [of "fst x" "snd x"] that step.IH by (simp add: gc_inv_def)
  then have "distinct (map fst (cl @ (case a of None \<Rightarrow> [] | Some x \<Rightarrow> [x])))"
    using step.IH by (cases a) (simp_all add: gc_inv_def)
  moreover have "set (cl @ (case a of None \<Rightarrow> [] | Some x \<Rightarrow> [x])) = set cl \<union> set_option a"
    by (cases a) simp_all
  ultimately show ?case
    unfolding gc_inv_def using c(1) step.IH [unfolded gc_inv_def] by (simp only: simp_thms)
qed (simp add: gc_inv_def)

section \<open>Properties\<close>

text \<open>
  Property C10: a request is reaped at most once and never behind the operator's back.  In every history of the API, the workers and the sweeps, in whatever order
  their transactions commit, no request is claimed twice, every claim happened before the request's deadline, and the status of every row agrees with
  its time stamps: what was never claimed is pending or expired, and what is finished has a finishing time.
\<close>

theorem gc_requests_claimed_once:
  assumes "gc_history cl tab"
  shows "distinct (map fst cl) \<and> distinct (map gc_id tab) \<and> list_all row_ok tab
    \<and> list_all (\<lambda>(i, t). list_ex (\<lambda>q. gc_id q = i \<and> gc_claimed_at q = Some t \<and> (case gc_deadline_at q of None \<Rightarrow> True | Some d \<Rightarrow> t \<le> d)) tab) cl"
proof -
  have inv: "gc_inv cl tab"
    by (rule gc_history_inv [OF assms])
  have "list_ex (\<lambda>q. gc_id q = i \<and> gc_claimed_at q = Some t \<and> (case gc_deadline_at q of None \<Rightarrow> True | Some d \<Rightarrow> t \<le> d)) tab" if m: "(i, t) \<in> set cl" for i t
  proof -
    obtain q where "q \<in> set tab" "gc_claimed_at q = Some t" "i = gc_id q"
      using m inv by (auto simp: gc_inv_def)
    moreover have "row_ok q"
      using inv \<open>q \<in> set tab\<close> by (simp add: gc_inv_def list_all_iff)
    ultimately show ?thesis
      by (auto simp: list_ex_iff row_ok_def split: option.splits intro!: bexI [of _ q])
  qed
  then show ?thesis
    using inv by (auto simp: gc_inv_def list_all_iff)
qed

text \<open>
  Expiry is final: whatever commits later, an expired row stays as it is, so a late finish of an abandoned reap cannot turn the reported time-out into
  success or failure; and after a sweep that no other transaction disturbs, nothing overdue is left for the node.
\<close>

theorem gc_expiry_final:
  assumes "gc_history cl tab" "gc_step db tab a tab'" "q \<in> set tab" "gc_status q = GcExpired"
  shows "q \<in> set tab' \<and> \<not> list_ex (overdue db node now) (snd (expire_stale_requests db [] node now tab))"
proof -
  have d: "distinct (map gc_id tab)"
    using gc_history_inv [OF assms(1)] by (simp add: gc_inv_def)
  obtain old new where t: "tab' = old @ new" "list_all2 (row_next a) tab old"
    using gc_step_rows [OF assms(2) d] by blast
  obtain n where n: "n < length tab" "tab ! n = q"
    using assms(3) by (auto simp: in_set_conv_nth)
  have "old ! n = q" "n < length old"
    using list_all2_nthD [OF t(2) n(1)] n(2) assms(4) list_all2_lengthD [OF t(2)] n(1) by (simp_all add: row_next_def)
  then have "q \<in> set tab'"
    using t(1) nth_mem [of n old] by auto
  moreover have "fold (\<lambda>q. put_request (expire_row now q)) (sort_key gc_order (filter (overdue db node now) tab)) tab
      = map (\<lambda>q. if q \<in> set (sort_key gc_order (filter (overdue db node now) tab)) then expire_row now q else q) tab"
    using d by (intro gc_rows.fold_put) (auto simp: distinct_map inj_on_def expire_row_def)
  then have "\<not> list_ex (overdue db node now) (snd (expire_stale_requests db [] node now tab))"
    by (auto simp: expire_stale_requests_def Let_def list_ex_iff) (auto simp: overdue_def expire_row_def split: if_splits)
  ultimately show ?thesis
    by blast
qed

text \<open>A request is created, claimed in time and, abandoned by its worker, expired.\<close>

definition gc_row :: ServiceGCRequest where
  "gc_row = fst (create_pending ''g1'' None 0 (Some 10) None [])"

definition gc_claimed :: ServiceGCRequest where
  "gc_claimed = gc_row\<lparr>gc_status := GcRunning, gc_claimed_at := Some 3, gc_node_id := Some ''n1''\<rparr>"

lemma gc_example: "gc_history [(''g1'', 3)] [gc_claimed]" "gc_history [(''g1'', 3)] [expire_row 11 gc_claimed]"
proof -
  have one: "gc_history [] [gc_row]"
    using gc_history.step [OF gc_history.start gc_step.create [of "''g1''" "[]" "sample_db Ready" None 0 "Some 10" None]]
    by (simp add: gc_row_def create_pending_def Let_def)
  have "claim_oldest_pending (sample_db Ready) [] ''n1'' 3 [gc_row] = (Some gc_claimed, [gc_claimed])"
    by code_simp
  from gc_history.step [OF one gc_step.claim [OF this]] show c: "gc_history [(''g1'', 3)] [gc_claimed]"
    by (simp add: gc_claimed_def gc_row_def create_pending_def Let_def)
  have "snd (expire_stale_requests (sample_db Ready) [] ''n1'' 11 [gc_claimed]) = [expire_row 11 gc_claimed]"
    by code_simp
  with gc_history.step [OF c gc_step.expire [of "sample_db Ready" _ "[]" "''n1''" 11]] show "gc_history [(''g1'', 3)] [expire_row 11 gc_claimed]"
    by simp
qed

theorem gc_requests_claimed_once_witness: "list_all row_ok [expire_row 11 gc_claimed] \<and> gc_claimed_at (expire_row 11 gc_claimed) = Some 3"
  using gc_requests_claimed_once [OF gc_example(2)] by (simp add: expire_row_def gc_claimed_def)

theorem gc_expiry_final_witness: "expire_row 11 gc_claimed \<in> set (snd (mark_completed ''g1'' [] 12 [expire_row 11 gc_claimed]))"
proof -
  have e: "get_request ''g1'' [expire_row 11 gc_claimed] = Some (expire_row 11 gc_claimed)" "gc_claimed_at (expire_row 11 gc_claimed) \<noteq> None"
    "gc_status (expire_row 11 gc_claimed) = GcExpired"
    by code_simp+
  show ?thesis
    using gc_expiry_final [OF gc_example(2) gc_step.complete [OF e(1,2), where db = "sample_db Ready"] _ e(3)] by simp
qed

end
