(* ===== verification/Secret_Leases.thy ===== *)
theory Secret_Leases
  imports Transitions Keyed_Rows "HOL-Library.Product_Lexorder"
begin

text \<open>
  Leases of the secrets a workspace's profile declares (\<open>db/repositories/workspace_repo_secrets.py\<close> and the lease helpers of \<open>base.py\<close>): issuing
  one lease per declaration, mounting, expiry and revocation, each with its audit events.  The redaction of metadata (\<open>sanitize\<close>) and the
  printing of time stamps (\<open>fmt\<close>) are parameters.
\<close>

section \<open>Rows\<close>

datatype lease_status = Issued | Mounted | Expired | Revoked

fun lease_status_value :: "lease_status \<Rightarrow> string" where
  "lease_status_value Issued = ''issued''"
| "lease_status_value Mounted = ''mounted''"
| "lease_status_value Expired = ''expired''"
| "lease_status_value Revoked = ''revoked''"

definition SECRET_LEASE_ACTIVE_STATUSES :: "lease_status list" where
  "SECRET_LEASE_ACTIVE_STATUSES = [Issued, Mounted]"

definition SECRET_LEASE_REVOCABLE_STATUSES :: "lease_status list" where
  "SECRET_LEASE_REVOCABLE_STATUSES = [Issued, Mounted, Expired]"

record WorkspaceSecretLease =
  sl_id :: string
  sl_workspace_id :: string
  sl_attempt_id :: "string option"
  sl_secret_name :: string
  sl_kind :: string
  sl_target :: string
  sl_mode :: string
  sl_required :: bool
  sl_provider :: "string option"
  sl_ref_digest :: "string option"
  sl_status :: lease_status
  sl_issued_at :: instant
  sl_mounted_at :: "instant option"
  sl_expires_at :: "instant option"
  sl_revoked_at :: "instant option"
  sl_issue_metadata :: "(string \<times> json) list"
  sl_mount_metadata :: "(string \<times> json) list"
  sl_revoke_reason_code :: "string option"

record SecretLeaseIssue =
  si_secret_name :: string
  si_kind :: string
  si_target :: string
  si_mode :: string
  si_required :: bool
  si_provider :: "string option"
  si_ref_digest :: "string option"
  si_expires_at :: "instant option"
  si_issue_metadata :: "(string \<times> json) list"
  si_attempt_id :: "string option"

type_synonym metadata = "(string \<times> json) list"
type_synonym secret_declaration = "string \<times> string \<times> string"

definition secret_lease_declaration_key :: "string \<Rightarrow> string \<Rightarrow> string \<Rightarrow> secret_declaration" where
  "secret_lease_declaration_key name kind target = (name, kind, target)"

definition lease_declaration :: "WorkspaceSecretLease \<Rightarrow> secret_declaration" where
  "lease_declaration l = secret_lease_declaration_key (sl_secret_name l) (sl_kind l) (sl_target l)"

definition issue_declaration :: "SecretLeaseIssue \<Rightarrow> secret_declaration" where
  "issue_declaration i = secret_lease_declaration_key (si_secret_name i) (si_kind i) (si_target i)"

text \<open>The unique constraint on workspace and declaration.\<close>

definition leases_unique :: "WorkspaceSecretLease list \<Rightarrow> bool" where
  "leases_unique tab = (distinct (map sl_id tab) \<and> distinct (map (\<lambda>l. (sl_workspace_id l, lease_declaration l)) tab))"

definition put_lease :: "WorkspaceSecretLease \<Rightarrow> WorkspaceSecretLease list \<Rightarrow> WorkspaceSecretLease list" where
  "put_lease l tab = map (\<lambda>m. if sl_id m = sl_id l then l else m) tab"

text \<open>
  The session writes back the columns an object changed since it was loaded; a column that another transaction changed meanwhile stays as it is
  stored unless the object changed it too.
\<close>

definition written :: "'a \<Rightarrow> 'a \<Rightarrow> 'a \<Rightarrow> 'a" where
  "written before after stored = (if after = before then stored else after)"

definition flush_row :: "WorkspaceSecretLease \<Rightarrow> WorkspaceSecretLease \<Rightarrow> WorkspaceSecretLease \<Rightarrow> WorkspaceSecretLease" where
  "flush_row before after m =
     m\<lparr>sl_attempt_id := written (sl_attempt_id before) (sl_attempt_id after) (sl_attempt_id m), sl_mode := written (sl_mode before) (sl_mode after) (sl_mode m),
        sl_required := written (sl_required before) (sl_required after) (sl_required m), sl_provider := written (sl_provider before) (sl_provider after) (sl_provider m),
        sl_ref_digest := written (sl_ref_digest before) (sl_ref_digest after) (sl_ref_digest m), sl_status := written (sl_status before) (sl_status after) (sl_status m),
        sl_issued_at := written (sl_issued_at before) (sl_issued_at after) (sl_issued_at m), sl_mounted_at := written (sl_mounted_at before) (sl_mounted_at after) (sl_mounted_at m),
        sl_expires_at := written (sl_expires_at before) (sl_expires_at after) (sl_expires_at m), sl_revoked_at := written (sl_revoked_at before) (sl_revoked_at after) (sl_revoked_at m),
        sl_issue_metadata := written (sl_issue_metadata before) (sl_issue_metadata after) (sl_issue_metadata m), sl_mount_metadata := written (sl_mount_metadata before) (sl_mount_metadata after) (sl_mount_metadata m),
        sl_revoke_reason_code := written (sl_revoke_reason_code before) (sl_revoke_reason_code after) (sl_revoke_reason_code m)\<rparr>"

definition flush_lease :: "WorkspaceSecretLease \<Rightarrow> WorkspaceSecretLease \<Rightarrow> WorkspaceSecretLease list \<Rightarrow> WorkspaceSecretLease list" where
  "flush_lease before after tab = map (\<lambda>m. if sl_id m = sl_id after then flush_row before after m else m) tab"

section \<open>Issuing\<close>

definition declared_lease_requires_reissue :: "(metadata \<Rightarrow> metadata) \<Rightarrow> WorkspaceSecretLease \<Rightarrow> SecretLeaseIssue \<Rightarrow> bool" where
  "declared_lease_requires_reissue sanitize l i =
     (if sl_status l \<notin> set SECRET_LEASE_ACTIVE_STATUSES then True
      else sl_attempt_id l \<noteq> si_attempt_id i \<or> sl_mode l \<noteq> si_mode i \<or> sl_required l \<noteq> si_required i \<or> sl_provider l \<noteq> si_provider i
           \<or> sl_ref_digest l \<noteq> si_ref_digest i \<or> sl_issue_metadata l \<noteq> sanitize (si_issue_metadata i))"

definition reissue_declared_lease :: "(metadata \<Rightarrow> metadata) \<Rightarrow> SecretLeaseIssue \<Rightarrow> instant \<Rightarrow> WorkspaceSecretLease \<Rightarrow> WorkspaceSecretLease" where
  "reissue_declared_lease sanitize i now l =
     l\<lparr>sl_attempt_id := si_attempt_id i, sl_mode := si_mode i, sl_required := si_required i, sl_provider := si_provider i,
       sl_ref_digest := si_ref_digest i, sl_status := Issued, sl_issued_at := now, sl_expires_at := si_expires_at i, sl_mounted_at := None,
       sl_revoked_at := None, sl_revoke_reason_code := None, sl_issue_metadata := sanitize (si_issue_metadata i), sl_mount_metadata := []\<rparr>"

definition new_lease :: "(metadata \<Rightarrow> metadata) \<Rightarrow> string \<Rightarrow> string \<Rightarrow> SecretLeaseIssue \<Rightarrow> instant \<Rightarrow> WorkspaceSecretLease" where
  "new_lease sanitize i wid q now =
     \<lparr>sl_id = i, sl_workspace_id = wid, sl_attempt_id = si_attempt_id q, sl_secret_name = si_secret_name q, sl_kind = si_kind q,
      sl_target = si_target q, sl_mode = si_mode q, sl_required = si_required q, sl_provider = si_provider q, sl_ref_digest = si_ref_digest q,
      sl_status = Issued, sl_issued_at = now, sl_mounted_at = None, sl_expires_at = si_expires_at q, sl_revoked_at = None,
      sl_issue_metadata = sanitize (si_issue_metadata q), sl_mount_metadata = [], sl_revoke_reason_code = None\<rparr>"

definition get_for_declaration :: "string \<Rightarrow> secret_declaration \<Rightarrow> WorkspaceSecretLease list \<Rightarrow> WorkspaceSecretLease option" where
  "get_for_declaration wid d tab = find (\<lambda>l. sl_workspace_id l = wid \<and> lease_declaration l = d) tab"

text \<open>
  The insertion that does nothing on a conflict exists on PostgreSQL only: whether the statement was guarded, and the table after it
  with the inserted row.
\<close>

definition insert_declared_lease_if_absent ::
    "bool \<Rightarrow> WorkspaceSecretLease \<Rightarrow> WorkspaceSecretLease list \<Rightarrow> bool \<times> (WorkspaceSecretLease \<times> WorkspaceSecretLease list) option" where
  "insert_declared_lease_if_absent postgres l tab =
     (if \<not> postgres then (False, None)
      else (True, case get_for_declaration (sl_workspace_id l) (lease_declaration l) tab of None \<Rightarrow> Some (l, tab @ [l]) | Some _ \<Rightarrow> None))"

datatype lease_error = ConflictWithoutVisibleRow

text \<open>The lease, whether an issue event is due, and the table.\<close>

definition refresh_lease ::
    "(metadata \<Rightarrow> metadata) \<Rightarrow> instant \<Rightarrow> SecretLeaseIssue \<Rightarrow> WorkspaceSecretLease \<Rightarrow> WorkspaceSecretLease list
     \<Rightarrow> WorkspaceSecretLease \<times> bool \<times> WorkspaceSecretLease list" where
  "refresh_lease sanitize now q l tab =
     (if declared_lease_requires_reissue sanitize l q
      then (let l' = reissue_declared_lease sanitize q now l in (l', True, flush_lease l l' tab))
      else (l, False, tab))"

definition issue_declared_lease_if_absent ::
    "(metadata \<Rightarrow> metadata) \<Rightarrow> bool \<Rightarrow> string \<Rightarrow> string \<Rightarrow> SecretLeaseIssue \<Rightarrow> instant \<Rightarrow> WorkspaceSecretLease list
     \<Rightarrow> lease_error + WorkspaceSecretLease \<times> bool \<times> WorkspaceSecretLease list" where
  "issue_declared_lease_if_absent sanitize postgres i wid q now tab =
     (let l = new_lease sanitize i wid q now in
      case insert_declared_lease_if_absent postgres l tab of
        (_, Some (l', tab')) \<Rightarrow> Inr (l', True, tab')
      | (guarded, None) \<Rightarrow>
          (case get_for_declaration wid (issue_declaration q) tab of
             Some e \<Rightarrow> Inr (refresh_lease sanitize now q e tab)
           | None \<Rightarrow> if guarded then Inl ConflictWithoutVisibleRow else Inr (l, True, tab @ [l])))"

text \<open>
  The loop over the declarations.  \<open>known\<close> are the lease objects by declaration: those the first query loaded, with the attributes they had
  then, and those the loop has added.  A declaration that another transaction inserted meanwhile is missing from it and is met by the
  insertion.  Results are the leases returned, those that need an event, the objects and the table.
\<close>

fun issue_loop ::
    "(metadata \<Rightarrow> metadata) \<Rightarrow> bool \<Rightarrow> string \<Rightarrow> instant \<Rightarrow> (SecretLeaseIssue \<times> string) list \<Rightarrow> (secret_declaration \<rightharpoonup> WorkspaceSecretLease) \<Rightarrow> WorkspaceSecretLease list
     \<Rightarrow> lease_error + WorkspaceSecretLease list \<times> WorkspaceSecretLease list \<times> (secret_declaration \<rightharpoonup> WorkspaceSecretLease) \<times> WorkspaceSecretLease list" where
  "issue_loop sanitize postgres wid now [] known tab = Inr ([], [], known, tab)"
| "issue_loop sanitize postgres wid now ((q, i) # qs) known tab =
     (case (case known (issue_declaration q) of
              Some e \<Rightarrow> Inr (refresh_lease sanitize now q e tab)
            | None \<Rightarrow> issue_declared_lease_if_absent sanitize postgres i wid q now tab) of
        Inl e \<Rightarrow> Inl e
      | Inr (l, due, tab') \<Rightarrow>
          map_sum id (\<lambda>(ls, es, known', t). (l # ls, if due then l # es else es, known', t))
            (issue_loop sanitize postgres wid now qs (known(issue_declaration q \<mapsto> l)) tab'))"

definition leases_by_declaration_for_workspace :: "string \<Rightarrow> WorkspaceSecretLease list \<Rightarrow> (secret_declaration \<rightharpoonup> WorkspaceSecretLease)" where
  "leases_by_declaration_for_workspace wid tab =
     map_of (rev (map (\<lambda>l. (lease_declaration l, l)) (filter (\<lambda>l. sl_workspace_id l = wid) tab)))"

section \<open>Audit events\<close>

definition opt_time :: "(instant \<Rightarrow> string) \<Rightarrow> instant option \<Rightarrow> json" where
  "opt_time fmt t = (case t of None \<Rightarrow> JNull | Some x \<Rightarrow> JStr (fmt x))"

definition opt_json_str :: "string option \<Rightarrow> json" where
  "opt_json_str s = (case s of None \<Rightarrow> JNull | Some x \<Rightarrow> JStr x)"

definition lease_audit_payload ::
    "(metadata \<Rightarrow> metadata) \<Rightarrow> (instant \<Rightarrow> string) \<Rightarrow> WorkspaceSecretLease \<Rightarrow> string \<Rightarrow> string \<Rightarrow> instant \<Rightarrow> metadata" where
  "lease_audit_payload sanitize fmt l action reason occurred =
     filter (\<lambda>(k, v). v \<noteq> JNull)
       ([(''schema'', JStr ''secret_lease_audit.v1''), (''lease_id'', JStr (sl_id l)), (''action'', JStr action), (''reason_code'', JStr reason),
         (''workspace_id'', JStr (sl_workspace_id l)), (''attempt_id'', opt_json_str (sl_attempt_id l)), (''secret_name'', JStr (sl_secret_name l)),
         (''kind'', JStr (sl_kind l)), (''target'', JStr (sl_target l)), (''mode'', JStr (sl_mode l)), (''required'', JBool (sl_required l)),
         (''provider'', opt_json_str (sl_provider l)), (''ref_digest'', opt_json_str (sl_ref_digest l)),
         (''status'', JStr (lease_status_value (sl_status l))), (''issued_at'', JStr (fmt (sl_issued_at l))),
         (''mounted_at'', opt_time fmt (sl_mounted_at l)), (''expires_at'', opt_time fmt (sl_expires_at l)),
         (''revoked_at'', opt_time fmt (sl_revoked_at l)), (''revoke_reason_code'', opt_json_str (sl_revoke_reason_code l)),
         (''occurred_at'', JStr (fmt occurred))]
        @ (if sl_issue_metadata l \<noteq> [] then [(''issue_metadata'', JObj (sanitize (sl_issue_metadata l)))] else [])
        @ (if sl_mount_metadata l \<noteq> [] then [(''mount_metadata'', JObj (sanitize (sl_mount_metadata l)))] else []))"

definition lease_events ::
    "(metadata \<Rightarrow> metadata) \<Rightarrow> (instant \<Rightarrow> string) \<Rightarrow> WorkspaceSecretLease list \<Rightarrow> string \<Rightarrow> string \<Rightarrow> instant \<Rightarrow> WorkspaceEventCreate list" where
  "lease_events sanitize fmt ls reason action now =
     map (\<lambda>l. \<lparr>ec_type = ''workspace.secret_lease'', ec_reason_code = Some reason,
               ec_payload = Some (JObj (lease_audit_payload sanitize fmt l action reason now))\<rparr>) ls"

definition add_lease_events ::
    "(metadata \<Rightarrow> metadata) \<Rightarrow> (instant \<Rightarrow> string) \<Rightarrow> string \<Rightarrow> WorkspaceSecretLease list \<Rightarrow> string \<Rightarrow> string \<Rightarrow> instant \<Rightarrow> database \<Rightarrow> database" where
  "add_lease_events sanitize fmt wid ls reason action now db =
     (case workspaces db wid of
        None \<Rightarrow> db
      | Some w \<Rightarrow> put_workspace db (add_events (lease_events sanitize fmt ls reason action now) w))"

section \<open>Operations\<close>

text \<open>
  The loop collects objects, not copies: what is returned and logged after the loop is the state the objects have then.
\<close>

definition current_lease :: "(secret_declaration \<rightharpoonup> WorkspaceSecretLease) \<Rightarrow> WorkspaceSecretLease \<Rightarrow> WorkspaceSecretLease" where
  "current_lease known l = (case known (lease_declaration l) of None \<Rightarrow> l | Some m \<Rightarrow> m)"

text \<open>\<open>seen\<close> is the table as the first query found it, \<open>snd s\<close> the table the statements of the loop work on.\<close>

definition issue_declared_leases ::
    "(metadata \<Rightarrow> metadata) \<Rightarrow> (instant \<Rightarrow> string) \<Rightarrow> bool \<Rightarrow> string \<Rightarrow> (SecretLeaseIssue \<times> string) list \<Rightarrow> instant \<Rightarrow> WorkspaceSecretLease list
     \<Rightarrow> database \<times> WorkspaceSecretLease list \<Rightarrow> lease_error + WorkspaceSecretLease list \<times> database \<times> WorkspaceSecretLease list" where
  "issue_declared_leases sanitize fmt postgres wid issues now seen s =
     (if issues = [] then Inr ([], s)
      else map_sum id (\<lambda>(ls, es, known, tab').
             (map (current_lease known) ls,
              if es = [] then fst s else add_lease_events sanitize fmt wid (map (current_lease known) es) ''SECRET_LEASE_ISSUED'' ''issue'' now (fst s), tab'))
           (issue_loop sanitize postgres wid now issues (leases_by_declaration_for_workspace wid seen) (snd s)))"

definition lease_order :: "WorkspaceSecretLease \<Rightarrow> instant \<times> string" where
  "lease_order l = (sl_issued_at l, sl_id l)"

definition list_for_workspace_statuses :: "string \<Rightarrow> lease_status list \<Rightarrow> WorkspaceSecretLease list \<Rightarrow> WorkspaceSecretLease list" where
  "list_for_workspace_statuses wid sts tab = sort_key lease_order (filter (\<lambda>l. sl_workspace_id l = wid \<and> sl_status l \<in> set sts) tab)"

definition lease_list_for_workspace :: "string \<Rightarrow> WorkspaceSecretLease list \<Rightarrow> WorkspaceSecretLease list" where
  "lease_list_for_workspace wid tab = sort_key lease_order (filter (\<lambda>l. sl_workspace_id l = wid) tab)"

definition mount_lease :: "(metadata \<Rightarrow> metadata) \<Rightarrow> instant \<Rightarrow> metadata option \<Rightarrow> WorkspaceSecretLease \<Rightarrow> WorkspaceSecretLease" where
  "mount_lease sanitize now md l =
     l\<lparr>sl_status := Mounted, sl_mounted_at := Some now, sl_mount_metadata := sanitize (case md of None \<Rightarrow> [] | Some m \<Rightarrow> m)\<rparr>"

definition revoke_lease :: "instant \<Rightarrow> string \<Rightarrow> WorkspaceSecretLease \<Rightarrow> WorkspaceSecretLease" where
  "revoke_lease now reason l = l\<lparr>sl_status := Revoked, sl_revoked_at := Some now, sl_revoke_reason_code := Some reason\<rparr>"

text \<open>Change the listed rows, then log one event per row.\<close>

definition mark_issued_mounted ::
    "(metadata \<Rightarrow> metadata) \<Rightarrow> (instant \<Rightarrow> string) \<Rightarrow> string \<Rightarrow> instant \<Rightarrow> metadata option \<Rightarrow> database \<times> WorkspaceSecretLease list
     \<Rightarrow> WorkspaceSecretLease list \<times> database \<times> WorkspaceSecretLease list" where
  "mark_issued_mounted sanitize fmt wid now md s =
     (let rows = list_for_workspace_statuses wid [Issued] (snd s);
          rows' = map (mount_lease sanitize now md) rows;
          tab' = fold (\<lambda>l. put_lease (mount_lease sanitize now md l)) rows (snd s) in
      (rows', if rows = [] then fst s else add_lease_events sanitize fmt wid rows' ''SECRET_LEASE_MOUNTED'' ''mount'' now (fst s), tab'))"

definition revoke_workspace_leases ::
    "(metadata \<Rightarrow> metadata) \<Rightarrow> (instant \<Rightarrow> string) \<Rightarrow> string \<Rightarrow> instant \<Rightarrow> string \<Rightarrow> database \<times> WorkspaceSecretLease list
     \<Rightarrow> WorkspaceSecretLease list \<times> database \<times> WorkspaceSecretLease list" where
  "revoke_workspace_leases sanitize fmt wid now reason s =
     (let rows = list_for_workspace_statuses wid SECRET_LEASE_REVOCABLE_STATUSES (snd s);
          rows' = map (revoke_lease now reason) rows;
          tab' = fold (\<lambda>l. put_lease (revoke_lease now reason l)) rows (snd s) in
      (rows', if rows = [] then fst s else add_lease_events sanitize fmt wid rows' ''SECRET_LEASE_REVOKED'' ''revoke'' now (fst s), tab'))"

definition lease_due :: "instant \<Rightarrow> WorkspaceSecretLease \<Rightarrow> bool" where
  "lease_due now l = (sl_status l \<in> set SECRET_LEASE_ACTIVE_STATUSES \<and> (case sl_expires_at l of None \<Rightarrow> False | Some t \<Rightarrow> t \<le> now))"

definition expire_lease :: "WorkspaceSecretLease \<Rightarrow> WorkspaceSecretLease" where
  "expire_lease l = l\<lparr>sl_status := Expired\<rparr>"

definition group_leases_by_workspace :: "WorkspaceSecretLease list \<Rightarrow> (string \<times> WorkspaceSecretLease list) list" where
  "group_leases_by_workspace ls = map (\<lambda>wid. (wid, filter (\<lambda>l. sl_workspace_id l = wid) ls)) (rev (remdups (rev (map sl_workspace_id ls))))"

definition expire_due_leases ::
    "(metadata \<Rightarrow> metadata) \<Rightarrow> (instant \<Rightarrow> string) \<Rightarrow> instant \<Rightarrow> database \<times> WorkspaceSecretLease list
     \<Rightarrow> WorkspaceSecretLease list \<times> database \<times> WorkspaceSecretLease list" where
  "expire_due_leases sanitize fmt now s =
     (let rows = sort_key (\<lambda>l. (sl_workspace_id l, sl_issued_at l)) (filter (lease_due now) (snd s)) in
      if rows = [] then ([], s)
      else (map expire_lease rows,
            fold (\<lambda>(wid, ls). add_lease_events sanitize fmt wid ls ''SECRET_LEASE_EXPIRED'' ''expire'' now) (group_leases_by_workspace (map expire_lease rows)) (fst s),
            fold (\<lambda>l. put_lease (expire_lease l)) rows (snd s)))"

end
