(* ===== verification/Secret_Lease_Properties.thy ===== *)
theory Secret_Lease_Properties
  imports Secret_Leases
begin

text \<open>
  Correctness of the secret leases: one well-formed lease per declaration whatever the order of operations, issuing gives exactly the declared leases even when
  another transaction inserts first, and a revoked lease comes back only by being issued again.
\<close>

interpretation lease_rows: keyed_rows sl_id put_lease
  by unfold_locales (simp add: put_lease_def)

section \<open>Well-formed tables\<close>

definition lease_ok :: "WorkspaceSecretLease \<Rightarrow> bool" where
  "lease_ok l =
     (case sl_status l of
        Issued \<Rightarrow> sl_mounted_at l = None \<and> sl_revoked_at l = None \<and> sl_revoke_reason_code l = None \<and> sl_mount_metadata l = []
      | Mounted \<Rightarrow> sl_mounted_at l \<noteq> None \<and> sl_revoked_at l = None \<and> sl_revoke_reason_code l = None
      | Expired \<Rightarrow> sl_revoked_at l = None \<and> sl_revoke_reason_code l = None
      | Revoked \<Rightarrow> sl_revoked_at l \<noteq> None \<and> sl_revoke_reason_code l \<noteq> None)"

definition leases_ok :: "WorkspaceSecretLease list \<Rightarrow> bool" where
  "leases_ok tab = (leases_unique tab \<and> list_all lease_ok tab)"

definition lease_ident :: "WorkspaceSecretLease \<Rightarrow> string \<times> string \<times> secret_declaration" where
  "lease_ident l = (sl_id l, sl_workspace_id l, lease_declaration l)"

lemma leases_unique_ident: "leases_unique tab \<longleftrightarrow> distinct (map fst (map lease_ident tab)) \<and> distinct (map snd (map lease_ident tab))"
  by (simp add: leases_unique_def lease_ident_def o_def)

lemma ident_changes [simp]:
  "lease_ident (reissue_declared_lease sanitize q now l) = lease_ident l"
  "lease_ident (mount_lease sanitize now md l) = lease_ident l"
  "lease_ident (revoke_lease now reason l) = lease_ident l"
  "lease_ident (expire_lease l) = lease_ident l"
  by (simp_all add: lease_ident_def lease_declaration_def reissue_declared_lease_def mount_lease_def revoke_lease_def expire_lease_def)

lemma ok_changes:
  "lease_ok (reissue_declared_lease sanitize q now l)" "lease_ok (new_lease sanitize i wid q now)"
  "lease_ok l \<Longrightarrow> sl_status l = Issued \<Longrightarrow> lease_ok (mount_lease sanitize now md l)"
  "lease_ok (revoke_lease now reason l)"
  "lease_ok l \<Longrightarrow> lease_due now l \<Longrightarrow> lease_ok (expire_lease l)"
  by (auto simp: lease_ok_def reissue_declared_lease_def new_lease_def mount_lease_def revoke_lease_def expire_lease_def lease_due_def
      SECRET_LEASE_ACTIVE_STATUSES_def split: lease_status.splits)

text \<open>Writing back changed copies of selected rows.\<close>

lemma change_rows:
  assumes "leases_unique tab" and "\<And>l. lease_ident (g l) = lease_ident l"
  shows "fold (\<lambda>l. put_lease (g l)) (sort_key k (filter P tab)) tab = map (\<lambda>l. if P l then g l else l) tab"
proof -
  have d: "distinct (map sl_id tab)" and g: "sl_id (g l) = sl_id l" for l
    using assms by (auto simp: leases_unique_def lease_ident_def)
  have "distinct (map sl_id (sort_key k (filter P tab)))"
    using d by (simp add: distinct_map inj_on_def)
  then have "fold (\<lambda>l. put_lease (g l)) (sort_key k (filter P tab)) tab = map (\<lambda>l. if l \<in> set (sort_key k (filter P tab)) then g l else l) tab"
    using d g by (intro lease_rows.fold_put) auto
  also have "\<dots> = map (\<lambda>l. if P l then g l else l) tab"
    by simp
  finally show ?thesis .
qed

lemma changed_ok:
  assumes "leases_ok tab" and "\<And>l. lease_ident (g l) = lease_ident l" and "\<And>l. l \<in> set tab \<Longrightarrow> P l \<Longrightarrow> lease_ok (g l)"
  shows "leases_ok (map (\<lambda>l. if P l then g l else l) tab)"
proof -
  have "map lease_ident (map (\<lambda>l. if P l then g l else l) tab) = map lease_ident tab"
    using assms(2) by simp
  then show ?thesis
    using assms by (auto simp: leases_ok_def leases_unique_ident list_all_iff simp del: map_map)
qed

lemma mounted_table: "leases_unique (snd s) \<Longrightarrow> snd (snd (mark_issued_mounted sanitize fmt wid now md s))
    = map (\<lambda>l. if sl_workspace_id l = wid \<and> sl_status l \<in> set [Issued] then mount_lease sanitize now md l else l) (snd s)"
  unfolding mark_issued_mounted_def Let_def snd_conv list_for_workspace_statuses_def by (rule change_rows) simp_all

lemma revoked_table: "leases_unique (snd s) \<Longrightarrow> snd (snd (revoke_workspace_leases sanitize fmt wid now reason s))
    = map (\<lambda>l. if sl_workspace_id l = wid \<and> sl_status l \<in> set SECRET_LEASE_REVOCABLE_STATUSES then revoke_lease now reason l else l) (snd s)"
  unfolding revoke_workspace_leases_def Let_def snd_conv list_for_workspace_statuses_def by (rule change_rows) simp_all

lemma revoked_rows:
  assumes "leases_unique tab"
  shows "list_all (\<lambda>l. if sl_workspace_id l = wid then sl_status l = Revoked else l \<in> set tab)
    (snd (snd (revoke_workspace_leases sanitize fmt wid now reason (db, tab))))"
  unfolding revoked_table [where s = "(db, tab)", simplified, OF assms] list_all_iff
  by (auto simp: revoke_lease_def SECRET_LEASE_REVOCABLE_STATUSES_def) (metis lease_status.exhaust)+

lemma expired_table: "leases_unique (snd s) \<Longrightarrow> snd (snd (expire_due_leases sanitize fmt now s))
    = map (\<lambda>l. if lease_due now l then expire_lease l else l) (snd s)"
proof -
  assume "leases_unique (snd s)"
  note c = change_rows [OF this, of expire_lease "\<lambda>l. (sl_workspace_id l, sl_issued_at l)" "lease_due now"]
  show ?thesis
  proof (cases "filter (lease_due now) (snd s) = []")
    case True
    then have "map (\<lambda>l. if lease_due now l then expire_lease l else l) (snd s) = snd s"
      by (intro map_idI) (auto simp: filter_empty_conv)
    then show ?thesis
      using True by (simp add: expire_due_leases_def)
  next
    case False
    then have "sort_key (\<lambda>l. (sl_workspace_id l, sl_issued_at l)) (filter (lease_due now) (snd s)) \<noteq> []"
      by (metis set_empty set_sort)
    then show ?thesis
      using c by (simp add: expire_due_leases_def Let_def)
  qed
qed

section \<open>Issuing\<close>

text \<open>
  The objects of a session are rows of the table: none of them was changed by another transaction since it was loaded.
\<close>

definition knows :: "string \<Rightarrow> (secret_declaration \<rightharpoonup> WorkspaceSecretLease) \<Rightarrow> WorkspaceSecretLease list \<Rightarrow> bool" where
  "knows wid known tab = (\<forall>d l. known d = Some l \<longrightarrow> l \<in> set tab \<and> snd (lease_ident l) = (wid, d))"

lemma written_unchanged: "written x y x = y"
  by (simp add: written_def)

lemma flush_unchanged:
  assumes "distinct (map sl_id tab)" "e \<in> set tab"
  shows "flush_lease e (reissue_declared_lease sanitize q now e) tab = put_lease (reissue_declared_lease sanitize q now e) tab"
proof -
  have "flush_row e (reissue_declared_lease sanitize q now e) e = reissue_declared_lease sanitize q now e"
    unfolding flush_row_def written_unchanged by (simp add: reissue_declared_lease_def)
  moreover have "sl_id m = sl_id (reissue_declared_lease sanitize q now e) \<Longrightarrow> m = e" if "m \<in> set tab" for m
    using assms that by (auto simp: distinct_map inj_on_def reissue_declared_lease_def)
  ultimately show ?thesis
    unfolding flush_lease_def put_lease_def by (intro map_cong) auto
qed

definition lease_matches :: "(metadata \<Rightarrow> metadata) \<Rightarrow> WorkspaceSecretLease \<Rightarrow> SecretLeaseIssue \<Rightarrow> bool" where
  "lease_matches sanitize l q =
     (sl_status l \<in> {Issued, Mounted}
      \<and> (sl_attempt_id l, sl_mode l, sl_required l, sl_provider l, sl_ref_digest l, sl_issue_metadata l)
        = (si_attempt_id q, si_mode q, si_required q, si_provider q, si_ref_digest q, sanitize (si_issue_metadata q)))"

lemma requires_reissue_iff: "declared_lease_requires_reissue sanitize l q \<longleftrightarrow> \<not> lease_matches sanitize l q"
  by (auto simp: declared_lease_requires_reissue_def lease_matches_def SECRET_LEASE_ACTIVE_STATUSES_def)

lemma new_matches: "lease_matches sanitize (reissue_declared_lease sanitize q now l) q" "lease_matches sanitize (new_lease sanitize i wid q now) q"
  by (simp_all add: lease_matches_def reissue_declared_lease_def new_lease_def)

text \<open>What one pass of the loop does.\<close>

definition issued :: "(metadata \<Rightarrow> metadata) \<Rightarrow> string \<Rightarrow> SecretLeaseIssue \<Rightarrow> string \<Rightarrow> WorkspaceSecretLease list
    \<Rightarrow> WorkspaceSecretLease \<times> bool \<times> WorkspaceSecretLease list \<Rightarrow> bool" where
  "issued sanitize wid q i tab r =
     (case r of (l, due, tab') \<Rightarrow>
        leases_ok tab' \<and> l \<in> set tab' \<and> snd (lease_ident l) = (wid, issue_declaration q) \<and> lease_matches sanitize l q
        \<and> (\<forall>m. snd (lease_ident m) \<noteq> (wid, issue_declaration q) \<longrightarrow> m \<in> set tab' \<longleftrightarrow> m \<in> set tab)
        \<and> lease_ident ` set tab \<subseteq> lease_ident ` set tab' \<and> lease_ident ` set tab' \<subseteq> insert (i, wid, issue_declaration q) (lease_ident ` set tab)
        \<and> (\<not> due \<longrightarrow> tab' = tab))"

lemma refresh_issued:
  assumes "leases_ok tab" and e: "e \<in> set tab" "snd (lease_ident e) = (wid, issue_declaration q)"
  shows "issued sanitize wid q i tab (refresh_lease sanitize now q e tab)"
proof (cases "declared_lease_requires_reissue sanitize e q")
  case True
  let ?e = "reissue_declared_lease sanitize q now e"
  have d: "distinct (map sl_id tab)"
    using assms(1) by (simp add: leases_ok_def leases_unique_def)
  have "sl_id ?e = sl_id e"
    by (simp add: reissue_declared_lease_def)
  then have put: "put_lease ?e tab = map (\<lambda>m. if m = e then ?e else m) tab"
    unfolding put_lease_def using d e(1) by (intro map_cong refl) (auto simp: distinct_map inj_on_def)
  have ident: "map lease_ident (put_lease ?e tab) = map lease_ident tab"
    unfolding put by simp
  then have i: "lease_ident ` set (put_lease ?e tab) = lease_ident ` set tab"
    by (metis list.set_map)
  have "leases_ok (put_lease ?e tab)"
    using assms(1) lease_rows.put_all [where P = lease_ok and r = ?e] ok_changes(1) unfolding leases_ok_def leases_unique_ident ident by blast
  then show ?thesis
    using True e i new_matches(1) [of sanitize q now e] by (auto simp: issued_def refresh_lease_def Let_def flush_unchanged [OF d e(1)] put)
next
  case False
  then show ?thesis
    using assms by (auto simp: issued_def refresh_lease_def requires_reissue_iff)
qed

lemma get_for_declaration_Some: "get_for_declaration wid d tab = Some e \<Longrightarrow> e \<in> set tab \<and> snd (lease_ident e) = (wid, d)"
  by (auto simp: get_for_declaration_def find_Some_iff lease_ident_def)

lemma get_for_declaration_None: "get_for_declaration wid d tab = None \<Longrightarrow> (wid, d) \<notin> snd ` lease_ident ` set tab"
  by (auto simp: get_for_declaration_def find_None_iff lease_ident_def)

lemma inserted_issued:
  assumes "leases_ok tab" and "i \<notin> sl_id ` set tab" and "(wid, issue_declaration q) \<notin> snd ` lease_ident ` set tab"
  shows "issued sanitize wid q i tab (new_lease sanitize i wid q now, True, tab @ [new_lease sanitize i wid q now])"
proof -
  let ?l = "new_lease sanitize i wid q now"
  have id: "lease_ident ?l = (i, wid, issue_declaration q)"
    by (simp add: lease_ident_def new_lease_def lease_declaration_def issue_declaration_def)
  have "i \<notin> fst ` lease_ident ` set tab"
    using assms(2) by (auto simp: lease_ident_def)
  then have "leases_ok (tab @ [?l])"
    using assms(1,3) id ok_changes(2) by (simp add: leases_ok_def leases_unique_ident image_image)
  moreover have "m = ?l \<Longrightarrow> snd (lease_ident m) = (wid, issue_declaration q)" for m
    by (simp add: id)
  ultimately show ?thesis
    using id new_matches(2) by (auto simp: issued_def)
qed

lemma issue_if_absent_issued:
  assumes "leases_ok tab" and "i \<notin> sl_id ` set tab"
  shows "\<exists>r. issue_declared_lease_if_absent sanitize postgres i wid q now tab = Inr r \<and> issued sanitize wid q i tab r"
proof -
  have k: "sl_workspace_id (new_lease sanitize i wid q now) = wid" "lease_declaration (new_lease sanitize i wid q now) = issue_declaration q"
    by (simp_all add: new_lease_def lease_declaration_def issue_declaration_def)
  show ?thesis
  proof (cases "get_for_declaration wid (issue_declaration q) tab")
    case None
    then show ?thesis
      using inserted_issued [OF assms get_for_declaration_None [OF None]]
      by (cases postgres) (simp_all add: issue_declared_lease_if_absent_def insert_declared_lease_if_absent_def Let_def k)
  next
    case (Some e)
    then show ?thesis
      using refresh_issued [OF assms(1)] get_for_declaration_Some [OF Some]
      by (cases postgres) (simp_all add: issue_declared_lease_if_absent_def insert_declared_lease_if_absent_def Let_def k)
  qed
qed

lemma pass_issued:
  assumes "leases_ok tab" and "i \<notin> sl_id ` set tab" and "knows wid known tab"
  shows "\<exists>r. (case known (issue_declaration q) of
              Some e \<Rightarrow> Inr (refresh_lease sanitize now q e tab)
            | None \<Rightarrow> issue_declared_lease_if_absent sanitize postgres i wid q now tab) = Inr r \<and> issued sanitize wid q i tab r"
proof (cases "known (issue_declaration q)")
  case None
  then show ?thesis
    using issue_if_absent_issued [OF assms(1,2)] by simp
next
  case (Some e)
  then have "e \<in> set tab" "snd (lease_ident e) = (wid, issue_declaration q)"
    using assms(3) unfolding knows_def by blast+
  then show ?thesis
    using refresh_issued [OF assms(1)] Some by simp
qed

lemma knows_after:
  assumes "knows wid known tab" "issued sanitize wid q i tab (l, due, tab')"
  shows "knows wid (known(issue_declaration q \<mapsto> l)) tab'"
  using assms by (auto simp: knows_def issued_def)

lemma issue_loop_issued:
  assumes "leases_ok tab" "knows wid known tab" "distinct (map snd qs)" "snd ` set qs \<inter> sl_id ` set tab = {}" "distinct (map (\<lambda>x. issue_declaration (fst x)) qs)"
  shows "\<exists>ls es known' tab'. issue_loop sanitize postgres wid now qs known tab = Inr (ls, es, known', tab') \<and> leases_ok tab' \<and> knows wid known' tab'
    \<and> list_all2 (\<lambda>l (q, i). l \<in> set tab' \<and> snd (lease_ident l) = (wid, issue_declaration q) \<and> lease_matches sanitize l q) ls qs
    \<and> (\<forall>m. (\<forall>q \<in> fst ` set qs. snd (lease_ident m) \<noteq> (wid, issue_declaration q)) \<longrightarrow> m \<in> set tab' \<longleftrightarrow> m \<in> set tab)
    \<and> (es = [] \<longrightarrow> tab' = tab)"
  using assms
proof (induction qs arbitrary: known tab)
  case (Cons qi qs)
  obtain q i where qi: "qi = (q, i)"
    by fastforce
  obtain l due tab1 where r: "(case known (issue_declaration q) of
              Some e \<Rightarrow> Inr (refresh_lease sanitize now q e tab)
            | None \<Rightarrow> issue_declared_lease_if_absent sanitize postgres i wid q now tab) = Inr (l, due, tab1)" "issued sanitize wid q i tab (l, due, tab1)"
    using pass_issued [OF Cons.prems(1) _ Cons.prems(2), where i = i and q = q and sanitize = sanitize and now = now and postgres = postgres] Cons.prems(4) qi by auto
  have one: "leases_ok tab1" "l \<in> set tab1" "snd (lease_ident l) = (wid, issue_declaration q)" "lease_matches sanitize l q"
    "\<And>m. snd (lease_ident m) \<noteq> (wid, issue_declaration q) \<Longrightarrow> m \<in> set tab1 \<longleftrightarrow> m \<in> set tab" "\<not> due \<Longrightarrow> tab1 = tab"
    and ids: "lease_ident ` set tab1 \<subseteq> insert (i, wid, issue_declaration q) (lease_ident ` set tab)"
    using r(2) by (simp_all add: issued_def)
  have "sl_id ` set tab1 \<subseteq> insert i (sl_id ` set tab)"
  proof
    fix x
    assume "x \<in> sl_id ` set tab1"
    then obtain m where "m \<in> set tab1" "x = fst (lease_ident m)"
      by (auto simp: lease_ident_def)
    then have "lease_ident m = (i, wid, issue_declaration q) \<or> lease_ident m \<in> lease_ident ` set tab" "x = fst (lease_ident m)"
      using ids by blast+
    then show "x \<in> insert i (sl_id ` set tab)"
      by (auto simp: lease_ident_def)
  qed
  moreover have "i \<notin> snd ` set qs" "snd ` set qs \<inter> sl_id ` set tab = {}"
    using Cons.prems(3,4) qi by auto
  ultimately have fresh: "snd ` set qs \<inter> sl_id ` set tab1 = {}"
    by blast
  have ds: "distinct (map snd qs)" "distinct (map (\<lambda>x. issue_declaration (fst x)) qs)"
    using Cons.prems(3,5) by simp_all
  obtain ls es known' tab' where rest: "issue_loop sanitize postgres wid now qs (known(issue_declaration q \<mapsto> l)) tab1 = Inr (ls, es, known', tab')" "leases_ok tab'"
      "knows wid known' tab'"
      "list_all2 (\<lambda>l (q, i). l \<in> set tab' \<and> snd (lease_ident l) = (wid, issue_declaration q) \<and> lease_matches sanitize l q) ls qs"
      "\<forall>m. (\<forall>q \<in> fst ` set qs. snd (lease_ident m) \<noteq> (wid, issue_declaration q)) \<longrightarrow> m \<in> set tab' \<longleftrightarrow> m \<in> set tab1" "es = [] \<longrightarrow> tab' = tab1"
    using Cons.IH [OF one(1) knows_after [OF Cons.prems(2) r(2)] ds(1) fresh ds(2)] by blast
  have run: "issue_loop sanitize postgres wid now (qi # qs) known tab = Inr (l # ls, if due then l # es else es, known', tab')"
    unfolding qi issue_loop.simps r(1) by (simp add: rest(1))
  have "l \<in> set tab'"
    using rest(5) one(2,3) Cons.prems(5) qi by (auto simp: image_iff)
  then show ?case
    using run rest one qi by (intro exI [of _ "l # ls"] exI [of _ "if due then l # es else es"] exI [of _ known'] exI [of _ tab']) auto
qed simp

lemma known_is_row:
  assumes "leases_ok tab" "knows wid known tab" "l \<in> set tab" "snd (lease_ident l) = (wid, d)" "known d = Some m"
  shows "m = l"
proof -
  have inj: "inj_on (\<lambda>l. snd (lease_ident l)) (set tab)"
    using assms(1) by (simp add: leases_ok_def leases_unique_ident distinct_map comp_def)
  have "m \<in> set tab" "snd (lease_ident m) = (wid, d)"
    using assms(2,5) unfolding knows_def by blast+
  then show ?thesis
    using assms(3,4) by (intro inj_onD [OF inj]) simp_all
qed

lemma issue_again:
  assumes "leases_ok tab" "knows wid known tab"
    and "list_all2 (\<lambda>l (q, i). l \<in> set tab \<and> snd (lease_ident l) = (wid, issue_declaration q) \<and> lease_matches sanitize l q) ls qs"
    and "\<And>q. q \<in> fst ` set qs \<Longrightarrow> known (issue_declaration q) \<noteq> None"
  shows "issue_loop sanitize postgres wid now qs known tab = Inr (ls, [], known, tab)"
  using assms(3,4)
proof (induction ls qs rule: list_all2_induct)
  case (Cons l ls qi qs)
  obtain q i where qi: "qi = (q, i)"
    by fastforce
  have l: "l \<in> set tab" "snd (lease_ident l) = (wid, issue_declaration q)" "lease_matches sanitize l q"
    using Cons.hyps(1) qi by simp_all
  have "known (issue_declaration q) \<noteq> None"
    using Cons.prems qi by simp
  then have "known (issue_declaration q) = Some l"
    using known_is_row [OF assms(1,2) l(1,2)] by auto
  moreover from this have "known(issue_declaration q \<mapsto> l) = known"
    by auto
  moreover have "refresh_lease sanitize now q l tab = (l, False, tab)"
    using l(3) by (simp add: refresh_lease_def requires_reissue_iff)
  ultimately show ?case
    using Cons.IH Cons.prems qi by simp
qed simp

lemma known_row:
  assumes "l \<in> set tab" "snd (lease_ident l) = (wid, d)"
  shows "leases_by_declaration_for_workspace wid tab d \<noteq> None"
proof -
  have "d \<in> fst ` set (map (\<lambda>l. (lease_declaration l, l)) (filter (\<lambda>l. sl_workspace_id l = wid) tab))"
    using assms by (auto simp: image_iff lease_ident_def)
  then show ?thesis
    by (simp add: leases_by_declaration_for_workspace_def map_of_eq_None_iff)
qed

lemma first_query:
  assumes "leases_by_declaration_for_workspace wid seen d = Some l"
  shows "l \<in> set seen \<and> snd (lease_ident l) = (wid, d)"
  using assms by (auto simp: leases_by_declaration_for_workspace_def lease_ident_def dest!: map_of_SomeD)

text \<open>A view whose rows of the workspace are still in the table.\<close>

lemma knows_view:
  assumes "\<forall>l \<in> set seen. sl_workspace_id l = wid \<longrightarrow> l \<in> set tab"
  shows "knows wid (leases_by_declaration_for_workspace wid seen) tab"
  unfolding knows_def
proof (intro allI impI)
  fix d l
  assume "leases_by_declaration_for_workspace wid seen d = Some l"
  then show "l \<in> set tab \<and> snd (lease_ident l) = (wid, d)"
    using first_query [of wid seen d l] assms by (simp add: lease_ident_def)
qed

lemma current_rows:
  assumes "leases_ok tab" "knows wid known tab" "\<And>l. l \<in> set ls \<Longrightarrow> l \<in> set tab \<and> sl_workspace_id l = wid"
  shows "map (current_lease known) ls = ls"
  using known_is_row [OF assms(1,2)] assms(3) by (intro map_idI) (auto simp: current_lease_def lease_ident_def split: option.split)

lemma rows_of_all2:
  "list_all2 (\<lambda>l (q, i). l \<in> set tab \<and> snd (lease_ident l) = (wid, issue_declaration q) \<and> R l q) ls qs \<Longrightarrow> l \<in> set ls \<Longrightarrow> l \<in> set tab \<and> sl_workspace_id l = wid"
  by (auto simp: list_all2_conv_all_nth in_set_conv_nth case_prod_beta lease_ident_def)

section \<open>Properties\<close>

text \<open>
  Property C12: issuing gives exactly the declared leases.  Given declarations with distinct names and an earlier view of the table, which may miss leases that other
  transactions have inserted meanwhile but whose rows of the workspace have not been changed since, and on either database, the call never raises; it
  returns one lease per declaration, in order, each stored, active and as declared; leases of other workspaces and declarations are untouched
  and the table keeps one well-formed lease per declaration.  Issuing the same declarations again returns the same leases and changes
  nothing, not even the event log.
\<close>

theorem declared_leases_issued:
  assumes "leases_ok tab" and view: "\<forall>l \<in> set seen. sl_workspace_id l = wid \<longrightarrow> l \<in> set tab" and "issues \<noteq> []"
    and "distinct (map snd issues)" "snd ` set issues \<inter> sl_id ` set tab = {}" "distinct (map (\<lambda>x. issue_declaration (fst x)) issues)"
  shows "\<exists>ls db' tab'. issue_declared_leases sanitize fmt postgres wid issues now seen (db, tab) = Inr (ls, db', tab') \<and> leases_ok tab'
    \<and> list_all2 (\<lambda>l (q, i). l \<in> set tab' \<and> snd (lease_ident l) = (wid, issue_declaration q) \<and> lease_matches sanitize l q) ls issues
    \<and> (\<forall>m. (\<forall>q \<in> fst ` set issues. snd (lease_ident m) \<noteq> (wid, issue_declaration q)) \<longrightarrow> m \<in> set tab' \<longleftrightarrow> m \<in> set tab)
    \<and> issue_declared_leases sanitize fmt postgres' wid issues now' tab' (db', tab') = Inr (ls, db', tab')"
proof -
  obtain ls es known' tab' where r: "issue_loop sanitize postgres wid now issues (leases_by_declaration_for_workspace wid seen) tab = Inr (ls, es, known', tab')" "leases_ok tab'"
      "knows wid known' tab'"
      "list_all2 (\<lambda>l (q, i). l \<in> set tab' \<and> snd (lease_ident l) = (wid, issue_declaration q) \<and> lease_matches sanitize l q) ls issues"
      "\<forall>m. (\<forall>q \<in> fst ` set issues. snd (lease_ident m) \<noteq> (wid, issue_declaration q)) \<longrightarrow> m \<in> set tab' \<longleftrightarrow> m \<in> set tab"
    using issue_loop_issued [OF assms(1) knows_view [OF view] assms(4-6), of sanitize postgres now] by blast
  have all: "leases_by_declaration_for_workspace wid tab' (issue_declaration q) \<noteq> None" if m: "q \<in> fst ` set issues" for q
  proof -
    obtain n where n: "n < length issues" "fst (issues ! n) = q"
      using m by (auto simp: in_set_conv_nth)
    have "ls ! n \<in> set tab' \<and> snd (lease_ident (ls ! n)) = (wid, issue_declaration q)"
      using list_all2_nthD2 [OF r(4) n(1)] n(2) by (auto simp: case_prod_beta)
    then show ?thesis
      using known_row by blast
  qed
  have now: "knows wid (leases_by_declaration_for_workspace wid tab') tab'"
    by (rule knows_view) simp
  have again: "issue_loop sanitize postgres' wid now' issues (leases_by_declaration_for_workspace wid tab') tab'
      = Inr (ls, [], leases_by_declaration_for_workspace wid tab', tab')"
    by (rule issue_again [OF r(2) now r(4) all])
  have "map (current_lease known') ls = ls" "map (current_lease (leases_by_declaration_for_workspace wid tab')) ls = ls"
    using current_rows [OF r(2) r(3)] current_rows [OF r(2) now] rows_of_all2 [OF r(4)] by simp_all
  then show ?thesis
    using r assms(3) again by (auto simp: issue_declared_leases_def)
qed

text \<open>
  The hypothesis on the view is needed: the rows are read without a lock.  A lease that is revoked between the first query and its use is
  handed out as active, no event is logged, and the stored row stays revoked.
\<close>

lemma revoked_meanwhile_handed_out:
  fixes fmt now reason db
  assumes "leases_ok seen" "l \<in> set seen" "snd (lease_ident l) = (wid, issue_declaration q)" "lease_matches sanitize l q"
  defines "tab \<equiv> snd (snd (revoke_workspace_leases sanitize fmt wid now reason (db, seen)))"
  shows "issue_declared_leases sanitize fmt postgres wid [(q, i)] now' seen (db', tab) = Inr ([l], db', tab)
    \<and> sl_status l \<in> {Issued, Mounted} \<and> list_all (\<lambda>m. sl_workspace_id m = wid \<longrightarrow> sl_status m = Revoked) tab"
proof -
  have now: "knows wid (leases_by_declaration_for_workspace wid seen) seen"
    by (rule knows_view) simp
  have "leases_by_declaration_for_workspace wid seen (issue_declaration q) = Some l"
    using known_row [OF assms(2,3)] known_is_row [OF assms(1) now assms(2,3)] by blast
  moreover have "lease_declaration l = issue_declaration q"
    using assms(3) by (simp add: lease_ident_def)
  moreover have "list_all (\<lambda>m. sl_workspace_id m = wid \<longrightarrow> sl_status m = Revoked) tab"
    unfolding tab_def using revoked_rows [of seen] assms(1) by (simp add: list_all_iff leases_ok_def split: if_splits)
  moreover have "sl_status l \<in> {Issued, Mounted}" and "refresh_lease sanitize now' q l tab = (l, False, tab)"
    using assms(4) by (simp_all add: refresh_lease_def requires_reissue_iff lease_matches_def)
  ultimately show ?thesis
    by (simp add: issue_declared_leases_def current_lease_def)
qed

text \<open>
  Property C26: revoked secrets stay revoked.  After the leases of a workspace are revoked, none of them is issued, mounted or merely expired, and neither a
  later mount nor a later expiry sweep brings one back.  A sweep leaves no active lease behind its deadline.  Every
  operation keeps one well-formed lease per declaration.
\<close>

theorem revoked_until_reissued:
  fixes sanitize fmt wid now reason db tab
  assumes "leases_ok tab"
  defines "tab' \<equiv> snd (snd (revoke_workspace_leases sanitize fmt wid now reason (db, tab)))"
  shows "leases_ok tab' \<and> list_all (\<lambda>l. if sl_workspace_id l = wid then sl_status l = Revoked else l \<in> set tab) tab'
    \<and> (let tab1 = snd (snd (mark_issued_mounted sanitize fmt wid' now' md (db', tab'))); tab2 = snd (snd (expire_due_leases sanitize fmt now'' (db'', tab1))) in
       leases_ok tab1 \<and> leases_ok tab2 \<and> list_all (\<lambda>l. if sl_workspace_id l = wid then sl_status l = Revoked else True) tab2
       \<and> \<not> list_ex (lease_due now'') tab2)"
proof -
  have u: "leases_unique tab"
    using assms(1) by (simp add: leases_ok_def)
  have t': "tab' = map (\<lambda>l. if sl_workspace_id l = wid \<and> sl_status l \<in> set SECRET_LEASE_REVOCABLE_STATUSES then revoke_lease now reason l else l) tab"
    unfolding tab'_def using revoked_table [of "(db, tab)"] u by simp
  have ok': "leases_ok tab'"
    unfolding t' by (rule changed_ok [OF assms(1)]) (simp_all add: ok_changes)
  have rev': "list_all (\<lambda>l. if sl_workspace_id l = wid then sl_status l = Revoked else l \<in> set tab) tab'"
    unfolding tab'_def by (rule revoked_rows [OF u])
  define tab1 where "tab1 = snd (snd (mark_issued_mounted sanitize fmt wid' now' md (db', tab')))"
  have t1: "tab1 = map (\<lambda>l. if sl_workspace_id l = wid' \<and> sl_status l \<in> set [Issued] then mount_lease sanitize now' md l else l) tab'"
    unfolding tab1_def using mounted_table [of "(db', tab')"] ok' by (simp add: leases_ok_def)
  have ok1: "leases_ok tab1"
    unfolding t1 by (rule changed_ok [OF ok']) (use ok' in \<open>auto simp: ok_changes leases_ok_def list_all_iff\<close>)
  define tab2 where "tab2 = snd (snd (expire_due_leases sanitize fmt now'' (db'', tab1)))"
  have t2: "tab2 = map (\<lambda>l. if lease_due now'' l then expire_lease l else l) tab1"
    unfolding tab2_def using expired_table [of "(db'', tab1)"] ok1 by (simp add: leases_ok_def)
  have ok2: "leases_ok tab2"
    unfolding t2 by (rule changed_ok [OF ok1]) (use ok1 in \<open>auto simp: ok_changes leases_ok_def list_all_iff\<close>)
  have "list_all (\<lambda>l. if sl_workspace_id l = wid then sl_status l = Revoked else True) tab2"
    using rev' unfolding t2 t1 list_all_iff by (auto simp: mount_lease_def expire_lease_def lease_due_def SECRET_LEASE_ACTIVE_STATUSES_def)
  moreover have "\<not> list_ex (lease_due now'') tab2"
    unfolding t2 list_ex_iff by (auto simp: lease_due_def expire_lease_def SECRET_LEASE_ACTIVE_STATUSES_def)
  ultimately show ?thesis
    using ok' rev' ok1 ok2 unfolding tab1_def tab2_def by (simp add: Let_def)
qed

text \<open>
  A lease past its deadline is handed out again with the old deadline.  Between its deadline and the next sweep, issuing an unchanged declaration does not renew the
  active lease: the new expiry time of the declaration is dropped, and the lease returned is already due to expire.
\<close>

theorem overdue_lease_not_renewed:
  assumes "leases_ok tab" "l \<in> set tab" "snd (lease_ident l) = (wid, issue_declaration q)" "lease_matches sanitize l q" "lease_due now l"
  shows "issue_declared_leases sanitize fmt postgres wid [(q, i)] now tab (db, tab) = Inr ([l], db, tab) \<and> lease_due now l
    \<and> snd (snd (expire_due_leases sanitize fmt now (db, tab))) \<noteq> tab"
proof -
  have view: "knows wid (leases_by_declaration_for_workspace wid tab) tab"
    by (rule knows_view) simp
  have "issue_loop sanitize postgres wid now [(q, i)] (leases_by_declaration_for_workspace wid tab) tab
      = Inr ([l], [], leases_by_declaration_for_workspace wid tab, tab)"
    by (rule issue_again [OF assms(1) view]) (use assms known_row in auto)
  moreover have "snd (snd (expire_due_leases sanitize fmt now (db, tab))) \<noteq> tab"
  proof
    assume "snd (snd (expire_due_leases sanitize fmt now (db, tab))) = tab"
    then have e: "map (\<lambda>l. if lease_due now l then expire_lease l else l) tab = tab"
      using expired_table [of "(db, tab)"] assms(1) by (simp add: leases_ok_def)
    obtain n where "n < length tab" "tab ! n = l"
      using assms(2) by (auto simp: in_set_conv_nth)
    then have "expire_lease l = l"
      using arg_cong [OF e, of "\<lambda>xs. xs ! n"] assms(5) by simp
    then show False
      using assms(5) arg_cong [of _ _ sl_status] by (fastforce simp: expire_lease_def lease_due_def SECRET_LEASE_ACTIVE_STATUSES_def)
  qed
  moreover have "map (current_lease (leases_by_declaration_for_workspace wid tab)) [l] = [l]"
    by (rule current_rows [OF assms(1) view]) (use assms(2,3) in \<open>simp add: lease_ident_def\<close>)
  ultimately show ?thesis
    using assms(5) by (simp add: issue_declared_leases_def)
qed

section \<open>An example\<close>

definition lease_request :: SecretLeaseIssue where
  "lease_request = \<lparr>si_secret_name = ''token'', si_kind = ''env'', si_target = ''TOKEN'', si_mode = ''ro'', si_required = True, si_provider = None,
     si_ref_digest = None, si_expires_at = Some 20, si_issue_metadata = [], si_attempt_id = None\<rparr>"

definition old_lease :: WorkspaceSecretLease where
  "old_lease = (new_lease id ''l0'' ''w1'' lease_request 0)\<lparr>sl_expires_at := Some 10\<rparr>"

lemma old_lease_ok: "leases_ok [old_lease]" "snd (lease_ident old_lease) = (''w1'', issue_declaration lease_request)" "lease_matches id old_lease lease_request"
  "lease_due 12 old_lease"
  by code_simp+

theorem declared_leases_issued_witness:
  "\<exists>ls db' tab'. issue_declared_leases id (\<lambda>t. []) True ''w1'' [(lease_request, ''l1'')] 12 [] (sample_db Ready, [old_lease]) = Inr (ls, db', tab') \<and> leases_ok tab'"
proof -
  have "\<forall>l \<in> set []. sl_workspace_id l = ''w1'' \<longrightarrow> l \<in> set [old_lease]"
    by simp
  from declared_leases_issued [OF old_lease_ok(1) this, of "[(lease_request, ''l1'')]" id "\<lambda>t. []" True 12 "sample_db Ready"] show ?thesis
    by (force simp: old_lease_def new_lease_def)
qed

theorem revoked_until_reissued_witness:
  "list_all (\<lambda>l. if sl_workspace_id l = ''w1'' then sl_status l = Revoked else l \<in> set [old_lease])
     (snd (snd (revoke_workspace_leases id (\<lambda>t. []) ''w1'' 5 ''WORKSPACE_DESTROYED'' (sample_db Ready, [old_lease]))))"
  using revoked_until_reissued [OF old_lease_ok(1)] by blast

theorem overdue_lease_not_renewed_witness:
  "issue_declared_leases id (\<lambda>t. []) True ''w1'' [(lease_request, ''l1'')] 12 [old_lease] (sample_db Ready, [old_lease]) = Inr ([old_lease], sample_db Ready, [old_lease])
   \<and> sl_expires_at old_lease = Some 10"
  using overdue_lease_not_renewed [OF old_lease_ok(1) _ old_lease_ok(2-4), where i = "''l1''"] by (simp add: old_lease_def)

end
