(* ===== verification/Callback_Targets.thy ===== *)
theory Callback_Targets
  imports Prelude "HOL-Library.Word"
begin

text \<open>
  Which hosts and addresses a callback may be sent to (\<open>common/callback_targets.py\<close> and the target checks of \<open>service/callbacks.py\<close>).
  Addresses are machine words; networks are words with a prefix length, as in the \<open>ipaddress\<close> module.  Parsing of URLs and of address
  texts and the name service are parameters.
\<close>

unbundle bit_operations_syntax

section \<open>Addresses and networks\<close>

datatype ip_address = IPv4Address "32 word" | IPv6Address "128 word"

definition in_network :: "'a::len word \<Rightarrow> 'a word \<times> nat \<Rightarrow> bool" where
  "in_network a net = (drop_bit (LENGTH('a) - snd net) a = drop_bit (LENGTH('a) - snd net) (fst net))"

definition ipv4_octets :: "nat \<Rightarrow> nat \<Rightarrow> nat \<Rightarrow> nat \<Rightarrow> 32 word" where
  "ipv4_octets a b c d = of_nat (((a * 256 + b) * 256 + c) * 256 + d)"

text \<open>The tables of the \<open>ipaddress\<close> module.\<close>

definition ipv4_private_networks :: "(32 word \<times> nat) list" where
  "ipv4_private_networks =
     [(ipv4_octets 0 0 0 0, 8), (ipv4_octets 10 0 0 0, 8), (ipv4_octets 127 0 0 0, 8), (ipv4_octets 169 254 0 0, 16),
      (ipv4_octets 172 16 0 0, 12), (ipv4_octets 192 0 0 0, 24), (ipv4_octets 192 0 0 170, 31), (ipv4_octets 192 0 2 0, 24),
      (ipv4_octets 192 168 0 0, 16), (ipv4_octets 198 18 0 0, 15), (ipv4_octets 198 51 100 0, 24), (ipv4_octets 203 0 113 0, 24),
      (ipv4_octets 240 0 0 0, 4), (ipv4_octets 255 255 255 255, 32)]"

definition ipv4_private_exceptions :: "(32 word \<times> nat) list" where
  "ipv4_private_exceptions = [(ipv4_octets 192 0 0 9, 32), (ipv4_octets 192 0 0 10, 32)]"

definition ipv4_is_private :: "32 word \<Rightarrow> bool" where
  "ipv4_is_private a = (list_ex (in_network a) ipv4_private_networks \<and> \<not> list_ex (in_network a) ipv4_private_exceptions)"

definition ipv4_is_global :: "32 word \<Rightarrow> bool" where
  "ipv4_is_global a = (\<not> in_network a (ipv4_octets 100 64 0 0, 10) \<and> \<not> ipv4_is_private a)"

definition ipv4_is_multicast :: "32 word \<Rightarrow> bool" where
  "ipv4_is_multicast a = in_network a (ipv4_octets 224 0 0 0, 4)"

definition ipv6_private_networks :: "(128 word \<times> nat) list" where
  "ipv6_private_networks =
     [(1, 128), (0, 128), (0xFFFF00000000, 96), (0x0064FF9B000100000000000000000000, 48), (0x01000000000000000000000000000000, 64),
      (0x20010000000000000000000000000000, 23), (0x20010DB8000000000000000000000000, 32), (0x20020000000000000000000000000000, 16),
      (0xFC000000000000000000000000000000, 7), (0xFE800000000000000000000000000000, 10)]"

definition ipv6_private_exceptions :: "(128 word \<times> nat) list" where
  "ipv6_private_exceptions =
     [(0x20010001000000000000000000000001, 128), (0x20010001000000000000000000000002, 128), (0x20010003000000000000000000000000, 32),
      (0x20010004011200000000000000000000, 48), (0x20010020000000000000000000000000, 28), (0x20010030000000000000000000000000, 28)]"

definition ipv4_mapped :: "128 word \<Rightarrow> 32 word option" where
  "ipv4_mapped a = (if drop_bit 32 a = 0xFFFF then Some (ucast a) else None)"

definition ipv6_is_private :: "128 word \<Rightarrow> bool" where
  "ipv6_is_private a =
     (case ipv4_mapped a of
        Some v \<Rightarrow> ipv4_is_private v
      | None \<Rightarrow> list_ex (in_network a) ipv6_private_networks \<and> \<not> list_ex (in_network a) ipv6_private_exceptions)"

fun ip_is_global :: "ip_address \<Rightarrow> bool" where
  "ip_is_global (IPv4Address a) = ipv4_is_global a"
| "ip_is_global (IPv6Address a) = (\<not> ipv6_is_private a)"

fun ip_is_multicast :: "ip_address \<Rightarrow> bool" where
  "ip_is_multicast (IPv4Address a) = ipv4_is_multicast a"
| "ip_is_multicast (IPv6Address a) = in_network a (0xFF000000000000000000000000000000, 8)"

section \<open>Public addresses\<close>

definition NAT64_WELL_KNOWN_PREFIX :: "128 word \<times> nat" where
  "NAT64_WELL_KNOWN_PREFIX = (0x0064FF9B000000000000000000000000, 96)"

definition NAT64_LOCAL_USE_PREFIX :: "128 word \<times> nat" where
  "NAT64_LOCAL_USE_PREFIX = (0x0064FF9B000100000000000000000000, 48)"

definition SIX_TO_FOUR_PREFIX :: "128 word \<times> nat" where
  "SIX_TO_FOUR_PREFIX = (0x20020000000000000000000000000000, 16)"

definition IPV4_COMPATIBLE_PREFIX :: "128 word \<times> nat" where
  "IPV4_COMPATIBLE_PREFIX = (0, 96)"

definition IPV4_TRANSLATED_PREFIX :: "128 word \<times> nat" where
  "IPV4_TRANSLATED_PREFIX = (0xFFFF000000000000, 96)"

text \<open>The byte strings of the extraction are octet lists, most significant first.\<close>

definition packed :: "128 word \<Rightarrow> nat list" where
  "packed a = map (\<lambda>i. unat (drop_bit (8 * (15 - i)) a AND 255)) [0..<16]"

definition ipv4_from_bytes :: "nat list \<Rightarrow> 32 word" where
  "ipv4_from_bytes bs = of_nat (foldl (\<lambda>n b. n * 256 + b) 0 bs)"

definition extract_nat64_embedded_ipv4_address :: "128 word \<Rightarrow> nat \<Rightarrow> 32 word option" where
  "extract_nat64_embedded_ipv4_address a plen =
     (if plen = 96 then Some (ipv4_from_bytes (drop 12 (packed a)))
      else if plen \<notin> {32, 40, 48, 56, 64} then None
      else let bs = take 8 (packed a) @ drop 9 (packed a) in Some (ipv4_from_bytes (take 4 (drop (plen div 8) bs))))"

definition nat64_embedded_ipv4_address :: "128 word \<Rightarrow> 32 word option" where
  "nat64_embedded_ipv4_address a =
     (if in_network a NAT64_WELL_KNOWN_PREFIX then extract_nat64_embedded_ipv4_address a (snd NAT64_WELL_KNOWN_PREFIX) else None)"

fun callback_target_public_address :: "ip_address \<Rightarrow> ip_address" where
  "callback_target_public_address (IPv4Address a) = IPv4Address a"
| "callback_target_public_address (IPv6Address a) =
     (case ipv4_mapped a of
        Some v \<Rightarrow> IPv4Address v
      | None \<Rightarrow> (case nat64_embedded_ipv4_address a of Some v \<Rightarrow> IPv4Address v | None \<Rightarrow> IPv6Address a))"

fun is_blocked_callback_target_address :: "ip_address \<Rightarrow> bool" where
  "is_blocked_callback_target_address (IPv4Address a) = False"
| "is_blocked_callback_target_address (IPv6Address a) =
     (in_network a SIX_TO_FOUR_PREFIX \<or> in_network a NAT64_LOCAL_USE_PREFIX \<or> in_network a IPV4_COMPATIBLE_PREFIX
      \<or> in_network a IPV4_TRANSLATED_PREFIX)"

definition is_public_callback_target_address :: "ip_address \<Rightarrow> bool" where
  "is_public_callback_target_address a =
     (\<not> is_blocked_callback_target_address a
      \<and> (let p = callback_target_public_address a in ip_is_global p \<and> \<not> ip_is_multicast p))"

section \<open>Hosts\<close>

text \<open>\<open>str.isdigit\<close> also accepts the superscript digits.\<close>

definition isdigit_char :: "char \<Rightarrow> bool" where
  "isdigit_char c = (is_digit c \<or> (of_char c :: nat) \<in> {178, 179, 185})"

definition legacy_label :: "string \<Rightarrow> bool" where
  "legacy_label l =
     (if l = [] then False
      else let low = py_lower l in
        if startswith low ''0x'' then drop 2 low \<noteq> [] \<and> list_all (\<lambda>c. c \<in> set ''0123456789abcdef'') (drop 2 low)
        else low \<noteq> [] \<and> list_all isdigit_char low)"

definition looks_like_legacy_ipv4_literal :: "string \<Rightarrow> bool" where
  "looks_like_legacy_ipv4_literal host = list_all legacy_label (py_split (CHR ''.'') host)"

definition rstrip_dot :: "string \<Rightarrow> string" where
  "rstrip_dot s = rev (dropWhile (\<lambda>c. c = CHR ''.'') (rev s))"

text \<open>\<open>ip_address\<close> parses the text of an address; \<open>None\<close> is the \<open>ValueError\<close>.\<close>

type_synonym ip_parser = "string \<Rightarrow> ip_address option"

definition is_public_callback_target_host :: "ip_parser \<Rightarrow> string \<Rightarrow> bool" where
  "is_public_callback_target_host ip host =
     (let n = py_lower (rstrip_dot host) in
      case ip n of
        Some a \<Rightarrow> is_public_callback_target_address a
      | None \<Rightarrow>
          if n = ''localhost'' \<or> list_ex (endswith n) [''.localhost'', ''.local'', ''.localdomain''] then False
          else if CHR ''.'' \<notin> set n then False
          else \<not> looks_like_legacy_ipv4_literal n)"

section \<open>Validation of a target\<close>

text \<open>
  The parts of a split URL that are read.  Reading the port raises for a malformed one (\<open>None\<close>); splitting itself may raise, with a message.
\<close>

record SplitResult =
  sr_scheme :: string
  sr_hostname :: "string option"
  sr_port :: "int option option"
  sr_username :: "string option"
  sr_password :: "string option"
  sr_fragment :: string

record callback_settings =
  callbacks_require_https :: bool
  callbacks_allowed_hosts :: "string list"

datatype target_error = PolicyError string | PolicyViolation string | TargetValueError string

fun target_error_text :: "target_error \<Rightarrow> string" where
  "target_error_text (PolicyError m) = m"
| "target_error_text (PolicyViolation m) = m"
| "target_error_text (TargetValueError m) = m"

definition validate_callback_target_static_policy ::
    "(string \<Rightarrow> string + SplitResult) \<Rightarrow> ip_parser \<Rightarrow> callback_settings \<Rightarrow> string \<Rightarrow> target_error + string" where
  "validate_callback_target_static_policy urlsplit ip st url =
     (case urlsplit url of
        Inl m \<Rightarrow> Inl (TargetValueError m)
      | Inr u \<Rightarrow>
          if sr_scheme u \<notin> {''http'', ''https''} then Inl (PolicyError ''target_url must use http or https'')
          else (case sr_hostname u of
             None \<Rightarrow> Inl (PolicyError ''target_url must include a host'')
           | Some host \<Rightarrow>
               if host = [] then Inl (PolicyError ''target_url must include a host'')
               else if sr_port u = None then Inl (PolicyError ''target_url must include a valid port'')
               else if sr_username u \<noteq> None \<or> sr_password u \<noteq> None then Inl (PolicyError ''target_url must not include userinfo credentials'')
               else if sr_fragment u \<noteq> [] then Inl (PolicyError ''target_url must not include a fragment'')
               else if callbacks_require_https st \<and> sr_scheme u \<noteq> ''https'' then Inl (PolicyViolation ''target_url must use https'')
               else if callbacks_allowed_hosts st \<noteq> [] \<and> py_lower (rstrip_dot host) \<notin> set (callbacks_allowed_hosts st)
                 then Inl (PolicyViolation ''target_url host is not allowlisted'')
               else if \<not> is_public_callback_target_host ip host then Inl (PolicyError ''target_url must use a public host'')
               else Inr host))"

text \<open>\<open>getaddrinfo\<close> gives the addresses of a host, or raises (\<open>None\<close>); duplicates keep their first place.\<close>

definition resolve_callback_target_ip_addresses :: "(string \<Rightarrow> string list option) \<Rightarrow> string \<Rightarrow> target_error + string list" where
  "resolve_callback_target_ip_addresses dns host =
     (case dns host of None \<Rightarrow> Inl (TargetValueError ''target_url host resolution failed'') | Some as \<Rightarrow> Inr (rev (remdups (rev as))))"

fun all_public :: "ip_parser \<Rightarrow> string list \<Rightarrow> target_error option" where
  "all_public ip [] = None"
| "all_public ip (t # ts) =
     (case ip t of
        None \<Rightarrow> Some (TargetValueError ([CHR 0x27] @ t @ [CHR 0x27] @ '' does not appear to be an IPv4 or IPv6 address''))
      | Some a \<Rightarrow>
          if is_public_callback_target_address a then all_public ip ts
          else Some (TargetValueError (''target_url resolved host is not public: '' @ t)))"

definition callback_address_family_sort_key :: "ip_parser \<Rightarrow> string \<Rightarrow> nat" where
  "callback_address_family_sort_key ip t = (case ip t of Some (IPv4Address _) \<Rightarrow> 0 | _ \<Rightarrow> 1)"

definition validate_callback_target_dns :: "ip_parser \<Rightarrow> (string \<Rightarrow> string list option) \<Rightarrow> string \<Rightarrow> target_error + string list" where
  "validate_callback_target_dns ip dns host =
     (case resolve_callback_target_ip_addresses dns host of
        Inl e \<Rightarrow> Inl e
      | Inr ts \<Rightarrow>
          if ts = [] then Inl (TargetValueError ''target_url host could not be resolved'')
          else (case all_public ip ts of
             Some e \<Rightarrow> Inl e
           | None \<Rightarrow> Inr (sort_key (callback_address_family_sort_key ip) ts)))"

definition validate_callback_target ::
    "(string \<Rightarrow> string + SplitResult) \<Rightarrow> ip_parser \<Rightarrow> (string \<Rightarrow> string list option) \<Rightarrow> callback_settings \<Rightarrow> string
     \<Rightarrow> target_error + string list" where
  "validate_callback_target urlsplit ip dns st url =
     (case validate_callback_target_static_policy urlsplit ip st url of
        Inl e \<Rightarrow> Inl e
      | Inr host \<Rightarrow> validate_callback_target_dns ip dns host)"

end
