(* ===== verification/Callbacks.thy ===== *)
theory Callbacks
  imports Callback_Targets Service_GC Provider_Recovery Secret_Leases
begin

text \<open>
  The outbox of external callbacks: subscriptions and deliveries (\<open>db/repositories/workspace_repo_callbacks.py\<close>,
  \<open>db/repositories/base.py\<close>, \<open>common/callback_events.py\<close>) and the service that queues and drains them (\<open>service/callbacks.py\<close>).
  The clocks, the name service and the HTTP poster are parameters; a drain returns the posts it made beside the rows it wrote.
  Log lines are not modelled, nor is the bookkeeping column \<open>updated_at\<close>, which no operation reads.
\<close>

section \<open>Rows\<close>

datatype CallbackDeliveryStatus = CbPending | CbRunning | CbSucceeded | CbFailed | CbSkipped

datatype CallbackEventKind = KindWorkspace | KindMerge | KindOperation

fun kind_value :: "CallbackEventKind \<Rightarrow> string" where
  "kind_value KindWorkspace = ''workspace''"
| "kind_value KindMerge = ''merge''"
| "kind_value KindOperation = ''operation''"

record CallbackSubscription =
  cs_id :: string
  cs_name :: string
  cs_target_url :: string
  cs_event_types :: "string list"
  cs_enabled :: bool
  cs_timeout_seconds :: int
  cs_max_attempts :: int
  cs_initial_backoff_seconds :: int
  cs_idempotency_key :: string
  cs_request_hash :: string
  cs_created_at :: instant
  cs_disabled_at :: "instant option"

record CallbackDelivery =
  cd_id :: string
  cd_subscription_id :: string
  cd_event_kind :: string
  cd_event_type :: string
  cd_source_id :: string
  cd_dedupe_key :: string
  cd_workspace_id :: "string option"
  cd_operation_id :: "string option"
  cd_merge_candidate_id :: "string option"
  cd_envelope :: "(string \<times> json) list"
  cd_idempotency_key :: string
  cd_status :: CallbackDeliveryStatus
  cd_attempt_count :: int
  cd_max_attempts :: int
  cd_next_attempt_at :: "instant option"
  cd_last_attempt_at :: "instant option"
  cd_delivered_at :: "instant option"
  cd_response_status_code :: "int option"
  cd_error_code :: "string option"
  cd_error_message :: "string option"
  cd_created_at :: instant

text \<open>The columns of events and operations that callbacks read.\<close>

record StoredEvent =
  ev_id :: string
  ev_workspace_id :: string
  ev_type :: string
  ev_old_state :: "string option"
  ev_new_state :: "string option"
  ev_reason_code :: "string option"
  ev_occurred_at :: instant

record StoredOperation =
  so_id :: string
  so_workspace_id :: string
  so_type :: string
  so_status :: string
  so_error_code :: "string option"
  so_error_message :: "string option"
  so_created_at :: instant
  so_started_at :: "instant option"
  so_finished_at :: "instant option"

record outbox =
  ob_subscriptions :: "CallbackSubscription list"
  ob_deliveries :: "CallbackDelivery list"
  ob_events :: "StoredEvent list"
  ob_operations :: "StoredOperation list"

section \<open>Event types\<close>

definition CALLBACK_EVENT_WILDCARDS :: "string list" where
  "CALLBACK_EVENT_WILDCARDS = [''workspace.*'', ''merge.*'', ''operation.*'']"

definition PUBLIC_CALLBACK_EVENT_TYPES :: "string list" where
  "PUBLIC_CALLBACK_EVENT_TYPES =
     [''workspace.created'', ''workspace.state_changed'', ''workspace.secondary_failure_recorded'', ''workspace.attention_required'',
      ''workspace.attention_cleared'', ''operation.state_changed'', ''merge.candidate_updated'']"

definition is_valid_callback_subscription_event_type :: "string \<Rightarrow> bool" where
  "is_valid_callback_subscription_event_type t = (t \<in> set CALLBACK_EVENT_WILDCARDS \<or> t \<in> set PUBLIC_CALLBACK_EVENT_TYPES)"

definition callback_subscription_matches_event_type :: "string \<Rightarrow> string \<Rightarrow> bool" where
  "callback_subscription_matches_event_type sub t =
     (if t \<notin> set PUBLIC_CALLBACK_EVENT_TYPES then False
      else if sub \<in> set CALLBACK_EVENT_WILDCARDS then startswith t (butlast sub)
      else sub = t)"

definition callback_subscription_event_type_candidates :: "string \<Rightarrow> string list" where
  "callback_subscription_event_type_candidates t =
     (if t \<notin> set PUBLIC_CALLBACK_EVENT_TYPES then []
      else let ns = takeWhile (\<lambda>c. c \<noteq> CHR ''.'') t; wildcard = ns @ ''.*'' in
        if CHR ''.'' \<in> set t \<and> wildcard \<in> set CALLBACK_EVENT_WILDCARDS then [t, wildcard] else [t])"

definition callback_subscription_event_type_filter :: "string list \<Rightarrow> CallbackSubscription \<Rightarrow> bool" where
  "callback_subscription_event_type_filter cands s = list_ex (\<lambda>t. t \<in> set cands) (cs_event_types s)"

section \<open>Subscriptions\<close>

datatype callback_error = IdempotencyConflict | ConflictWithoutRow | CallbackIntegrityError

record subscription_request =
  sq_name :: string
  sq_target_url :: string
  sq_event_types :: "string list"
  sq_enabled :: bool
  sq_timeout_seconds :: int
  sq_max_attempts :: int
  sq_initial_backoff_seconds :: int

definition get_by_idempotency_key :: "string \<Rightarrow> CallbackSubscription list \<Rightarrow> CallbackSubscription option" where
  "get_by_idempotency_key k subs = find (\<lambda>s. cs_idempotency_key s = k) subs"

definition replay_or_conflict :: "string \<Rightarrow> CallbackSubscription \<Rightarrow> CallbackSubscription list \<Rightarrow> callback_error + CallbackSubscription \<times> bool \<times> CallbackSubscription list" where
  "replay_or_conflict h s subs = (if cs_request_hash s \<noteq> h then Inl IdempotencyConflict else Inr (s, False, subs))"

text \<open>
  \<open>seen\<close> is the table at the first look-up and \<open>subs\<close> the table the insertion meets: the same under the advisory lock.
\<close>

definition create_idempotent ::
    "bool \<Rightarrow> string \<Rightarrow> instant \<Rightarrow> subscription_request \<Rightarrow> string \<Rightarrow> string \<Rightarrow> CallbackSubscription list \<Rightarrow> CallbackSubscription list
     \<Rightarrow> callback_error + CallbackSubscription \<times> bool \<times> CallbackSubscription list" where
  "create_idempotent postgres i now q k h seen subs =
     (case get_by_idempotency_key k seen of
        Some s \<Rightarrow> replay_or_conflict h s subs
      | None \<Rightarrow>
          (let s = \<lparr>cs_id = i, cs_name = sq_name q, cs_target_url = sq_target_url q, cs_event_types = sq_event_types q, cs_enabled = sq_enabled q,
                    cs_timeout_seconds = sq_timeout_seconds q, cs_max_attempts = sq_max_attempts q,
                    cs_initial_backoff_seconds = sq_initial_backoff_seconds q, cs_idempotency_key = k, cs_request_hash = h, cs_created_at = now,
                    cs_disabled_at = (if sq_enabled q then None else Some now)\<rparr> in
           if \<not> list_ex (\<lambda>s. cs_idempotency_key s = k) subs then Inr (s, True, subs @ [s])
           else if \<not> postgres then Inl CallbackIntegrityError
           else (case get_by_idempotency_key k subs of
                   None \<Rightarrow> Inl ConflictWithoutRow
                 | Some e \<Rightarrow> replay_or_conflict h e subs)))"

definition list_idempotency_replay_keys :: "int \<Rightarrow> CallbackSubscription list \<Rightarrow> (string \<times> string) list" where
  "list_idempotency_replay_keys limit subs =
     (if limit \<le> 0 then []
      else map (\<lambda>s. (cs_idempotency_key s, cs_request_hash s)) (take (nat limit) (sort_key (\<lambda>s. (cs_created_at s, cs_id s)) subs)))"

definition list_enabled_for_event_type :: "database \<Rightarrow> string \<Rightarrow> CallbackSubscription list \<Rightarrow> CallbackSubscription list" where
  "list_enabled_for_event_type db t subs =
     (let cands = callback_subscription_event_type_candidates t in
      if cands = [] then []
      else sort_key (\<lambda>s. (cs_created_at s, cs_id s))
             (filter (\<lambda>s. cs_enabled s \<and> restore_row_allows_work db ''callback_subscriptions'' (cs_id s)
                \<and> callback_subscription_event_type_filter cands s) subs))"

text \<open>Registration checks the target, then creates or replays.\<close>

definition register ::
    "(string \<Rightarrow> string + SplitResult) \<Rightarrow> ip_parser \<Rightarrow> callback_settings \<Rightarrow> bool \<Rightarrow> string \<Rightarrow> instant \<Rightarrow> (subscription_request \<Rightarrow> string) \<Rightarrow> subscription_request
     \<Rightarrow> string \<Rightarrow> CallbackSubscription list \<Rightarrow> (target_error + callback_error) + CallbackSubscription \<times> CallbackSubscription list" where
  "register urlsplit ip st postgres i now hash q k subs =
     (case validate_callback_target_static_policy urlsplit ip st (sq_target_url q) of
        Inl e \<Rightarrow> Inl (Inl e)
      | Inr _ \<Rightarrow>
          (case create_idempotent postgres i now q k (hash q) subs subs of
             Inl e \<Rightarrow> Inl (Inr e)
           | Inr (s, _, subs') \<Rightarrow> Inr (s, subs')))"

definition replay_existing :: "(subscription_request \<Rightarrow> string) \<Rightarrow> subscription_request \<Rightarrow> string \<Rightarrow> CallbackSubscription list \<Rightarrow> callback_error + CallbackSubscription option" where
  "replay_existing hash q k subs =
     (case get_by_idempotency_key k subs of
        None \<Rightarrow> Inr None
      | Some s \<Rightarrow> if cs_request_hash s \<noteq> hash q then Inl IdempotencyConflict else Inr (Some s))"

section \<open>Deliveries\<close>

definition get_by_dedupe_key :: "string \<Rightarrow> string \<Rightarrow> CallbackDelivery list \<Rightarrow> CallbackDelivery option" where
  "get_by_dedupe_key sid k ds = find (\<lambda>d. cd_subscription_id d = sid \<and> cd_dedupe_key d = k) ds"

definition get_delivery :: "string \<Rightarrow> CallbackDelivery list \<Rightarrow> CallbackDelivery option" where
  "get_delivery i ds = find (\<lambda>d. cd_id d = i) ds"

record delivery_request =
  dq_event_kind :: CallbackEventKind
  dq_event_type :: string
  dq_source_id :: string
  dq_dedupe_key :: string
  dq_workspace_id :: "string option"
  dq_operation_id :: "string option"
  dq_merge_candidate_id :: "string option"
  dq_envelope :: "(string \<times> json) list"

definition delivery_metadata :: "string \<Rightarrow> string \<Rightarrow> string \<Rightarrow> string \<Rightarrow> int \<Rightarrow> int \<Rightarrow> (string \<times> json) list" where
  "delivery_metadata i sid ik dk made maximum =
     [(''id'', JStr i), (''subscription_id'', JStr sid), (''idempotency_key'', JStr ik), (''dedupe_key'', JStr dk),
      (''attempt_count'', JInt made), (''max_attempts'', JInt maximum)]"

definition new_delivery :: "string \<Rightarrow> instant \<Rightarrow> CallbackSubscription \<Rightarrow> delivery_request \<Rightarrow> CallbackDelivery" where
  "new_delivery i now s q =
     (let ik = ''callback-delivery:'' @ cs_id s @ '':'' @ dq_dedupe_key q in
      \<lparr>cd_id = i, cd_subscription_id = cs_id s, cd_event_kind = kind_value (dq_event_kind q), cd_event_type = dq_event_type q,
       cd_source_id = dq_source_id q, cd_dedupe_key = dq_dedupe_key q, cd_workspace_id = dq_workspace_id q, cd_operation_id = dq_operation_id q,
       cd_merge_candidate_id = dq_merge_candidate_id q,
       cd_envelope = dict_set ''delivery'' (JObj (delivery_metadata i (cs_id s) ik (dq_dedupe_key q) 0 (cs_max_attempts s))) (dq_envelope q),
       cd_idempotency_key = ik, cd_status = CbPending, cd_attempt_count = 0, cd_max_attempts = cs_max_attempts s, cd_next_attempt_at = Some now,
       cd_last_attempt_at = None, cd_delivered_at = None, cd_response_status_code = None, cd_error_code = None, cd_error_message = None,
       cd_created_at = now\<rparr>)"

text \<open>As for subscriptions, \<open>seen\<close> is what the first look-up saw and \<open>ds\<close> what the insertion meets.\<close>

definition enqueue_once ::
    "bool \<Rightarrow> string \<Rightarrow> instant \<Rightarrow> CallbackSubscription \<Rightarrow> delivery_request \<Rightarrow> CallbackDelivery list \<Rightarrow> CallbackDelivery list
     \<Rightarrow> callback_error + CallbackDelivery \<times> bool \<times> CallbackDelivery list" where
  "enqueue_once postgres i now s q seen ds =
     (case get_by_dedupe_key (cs_id s) (dq_dedupe_key q) seen of
        Some d \<Rightarrow> Inr (d, False, ds)
      | None \<Rightarrow>
          (let d = new_delivery i now s q in
           case get_by_dedupe_key (cs_id s) (dq_dedupe_key q) ds of
             None \<Rightarrow> Inr (d, True, ds @ [d])
           | Some e \<Rightarrow> if postgres then Inr (e, False, ds) else Inl CallbackIntegrityError))"

text \<open>Rows that a restore puts on hold, or whose workspace waits for an operator after one, are not delivered.\<close>

definition needs_restore_attention :: "Workspace \<Rightarrow> bool" where
  "needs_restore_attention w =
     (let recovery = json_get ''hosted_recovery'' (task_policy w) in
      \<not> json_path_null (Option.bind recovery (json_get ''restore_id''))
      \<and> Option.bind recovery (json_get ''disposition'') = Some (JStr ''attention''))"

definition delivery_workspaces :: "database \<Rightarrow> outbox \<Rightarrow> CallbackDelivery \<Rightarrow> string list" where
  "delivery_workspaces db ob d =
     (case cd_workspace_id d of None \<Rightarrow> [] | Some w \<Rightarrow> [w])
     @ map so_workspace_id (filter (\<lambda>x. Some (so_id x) = cd_operation_id d) (ob_operations ob))
     @ map mc_workspace_id (filter (\<lambda>c. Some (mc_id c) = cd_merge_candidate_id d) (candidates db))
     @ map ev_workspace_id (filter (\<lambda>e. ev_id e = cd_source_id d) (ob_events ob))"

definition restore_callback_allows_work :: "database \<Rightarrow> outbox \<Rightarrow> CallbackDelivery \<Rightarrow> bool" where
  "restore_callback_allows_work db ob d =
     (restore_row_allows_work db ''callback_deliveries'' (cd_id d)
      \<and> restore_row_allows_work db ''callback_subscriptions'' (cd_subscription_id d)
      \<and> \<not> list_ex (\<lambda>i. case workspaces db i of None \<Rightarrow> False | Some w \<Rightarrow> needs_restore_attention w) (delivery_workspaces db ob d))"

definition delivery_due :: "database \<Rightarrow> outbox \<Rightarrow> instant \<Rightarrow> CallbackDelivery \<Rightarrow> bool" where
  "delivery_due db ob now d =
     (cd_status d = CbPending \<and> restore_callback_allows_work db ob d
      \<and> (case cd_workspace_id d of
           None \<Rightarrow> True
         | Some i \<Rightarrow> (case workspaces db i of None \<Rightarrow> False | Some w \<Rightarrow> recovery_allows_work db w))
      \<and> (case cd_next_attempt_at d of None \<Rightarrow> True | Some t \<Rightarrow> t \<le> now))"

definition list_due :: "database \<Rightarrow> instant \<Rightarrow> nat \<Rightarrow> outbox \<Rightarrow> CallbackDelivery list" where
  "list_due db now limit ob = take limit (sort_key (\<lambda>d. (cd_created_at d, cd_id d)) (filter (delivery_due db ob now) (ob_deliveries ob)))"

definition mark_attempt_started :: "instant \<Rightarrow> CallbackDelivery \<Rightarrow> CallbackDelivery" where
  "mark_attempt_started now d =
     d\<lparr>cd_status := CbRunning, cd_attempt_count := cd_attempt_count d + 1, cd_last_attempt_at := Some now, cd_next_attempt_at := None,
       cd_response_status_code := None, cd_error_code := None, cd_error_message := None\<rparr>"

definition sync_envelope_delivery_metadata :: "CallbackDelivery \<Rightarrow> CallbackDelivery" where
  "sync_envelope_delivery_metadata d =
     (let old = (case dict_get ''delivery'' (cd_envelope d) of Some (JObj kvs) \<Rightarrow> kvs | _ \<Rightarrow> []);
          new = fold (\<lambda>(k, v). dict_set k v)
                  (delivery_metadata (cd_id d) (cd_subscription_id d) (cd_idempotency_key d) (cd_dedupe_key d) (cd_attempt_count d) (cd_max_attempts d)) old in
      d\<lparr>cd_envelope := dict_set ''delivery'' (JObj new) (cd_envelope d)\<rparr>)"

definition mark_succeeded :: "int \<Rightarrow> instant \<Rightarrow> CallbackDelivery \<Rightarrow> CallbackDelivery" where
  "mark_succeeded code now d =
     d\<lparr>cd_status := CbSucceeded, cd_delivered_at := Some now, cd_next_attempt_at := None, cd_response_status_code := Some code,
       cd_error_code := None, cd_error_message := None\<rparr>"

definition mark_failed_or_retry :: "string \<Rightarrow> string \<Rightarrow> int option \<Rightarrow> int \<Rightarrow> instant \<Rightarrow> CallbackDelivery \<Rightarrow> CallbackDelivery" where
  "mark_failed_or_retry code msg response backoff now d =
     (let d1 = d\<lparr>cd_response_status_code := response, cd_error_code := Some code, cd_error_message := Some (take 512 msg)\<rparr> in
      if cd_attempt_count d \<ge> cd_max_attempts d then d1\<lparr>cd_status := CbFailed, cd_next_attempt_at := None\<rparr>
      else d1\<lparr>cd_status := CbPending, cd_next_attempt_at := Some (now + backoff * 1000000)\<rparr>)"

definition mark_skipped :: "string \<Rightarrow> string \<Rightarrow> instant \<Rightarrow> CallbackDelivery \<Rightarrow> CallbackDelivery" where
  "mark_skipped code msg now d =
     d\<lparr>cd_status := CbSkipped, cd_last_attempt_at := Some now, cd_next_attempt_at := None, cd_error_code := Some code,
       cd_error_message := Some (take 512 msg)\<rparr>"

definition put_delivery :: "CallbackDelivery \<Rightarrow> CallbackDelivery list \<Rightarrow> CallbackDelivery list" where
  "put_delivery d ds = map (\<lambda>e. if cd_id e = cd_id d then d else e) ds"

section \<open>Queueing\<close>

definition workspace_event_envelope :: "(instant \<Rightarrow> string) \<Rightarrow> StoredEvent \<Rightarrow> (string \<times> json) list" where
  "workspace_event_envelope fmt e =
     [(''event'', JObj [(''kind'', JStr (kind_value KindWorkspace)), (''type'', JStr (ev_type e)), (''source_id'', JStr (ev_id e)),
                        (''occurred_at'', JStr (fmt (ev_occurred_at e)))]),
      (''workspace'', JObj [(''id'', JStr (ev_workspace_id e)), (''old_state'', opt_json_str (ev_old_state e)),
                            (''new_state'', opt_json_str (ev_new_state e)), (''reason_code'', opt_json_str (ev_reason_code e))])]"

definition operation_envelope :: "(instant \<Rightarrow> string) \<Rightarrow> string \<Rightarrow> StoredOperation \<Rightarrow> (string \<times> json) list" where
  "operation_envelope fmt t x =
     [(''event'', JObj [(''kind'', JStr (kind_value KindOperation)), (''type'', JStr t), (''source_id'', JStr (so_id x)),
                        (''occurred_at'', JStr (fmt (case so_finished_at x of Some f \<Rightarrow> f
                                                    | None \<Rightarrow> (case so_started_at x of Some b \<Rightarrow> b | None \<Rightarrow> so_created_at x))))]),
      (''operation'', JObj [(''id'', JStr (so_id x)), (''workspace_id'', JStr (so_workspace_id x)), (''type'', JStr (so_type x)),
                            (''status'', JStr (so_status x)), (''error_code'', opt_json_str (so_error_code x)),
                            (''error_message'', opt_json_str (so_error_message x)), (''created_at'', JStr (fmt (so_created_at x))),
                            (''started_at'', opt_time fmt (so_started_at x)), (''finished_at'', opt_time fmt (so_finished_at x))])]"

fun candidate_status_value :: "CandidateStatus \<Rightarrow> string" where
  "candidate_status_value Open = ''open''"
| "candidate_status_value Closed = ''closed''"
| "candidate_status_value Merged = ''merged''"

definition merge_envelope :: "(instant \<Rightarrow> string) \<Rightarrow> string \<Rightarrow> MergeCandidate \<Rightarrow> (string \<times> json) list" where
  "merge_envelope fmt t c =
     [(''event'', JObj [(''kind'', JStr (kind_value KindMerge)), (''type'', JStr t), (''source_id'', JStr (mc_id c)),
                        (''occurred_at'', JStr (fmt (mc_updated_at c)))]),
      (''merge'', JObj [(''candidate_id'', JStr (mc_id c)), (''workspace_id'', JStr (mc_workspace_id c)), (''task_id'', JStr (mc_task_id c)),
                        (''attempt_id'', JStr (mc_attempt_id c)), (''status'', JStr (candidate_status_value (mc_status c))),
                        (''ready'', JBool (ready c)), (''manual_merge_required'', JBool (manual_merge_required c)),
                        (''waiting_for_monitor'', JBool (waiting_for_monitor c)), (''failed_or_cancelled'', JBool (failed_or_cancelled c)),
                        (''completed'', JBool (completed c)), (''not_canonical'', JBool (not_canonical c)),
                        (''policy_blocked'', JBool (policy_blocked c)), (''stale'', JBool (stale c)),
                        (''stale_reason'', opt_json_str (stale_reason c)), (''updated_at'', JStr (fmt (mc_updated_at c)))])]"

text \<open>
  One delivery per subscription.  \<open>ids\<close> gives the identifier of the new row for a subscription, \<open>seen\<close> the rows the look-ups saw.
\<close>

fun enqueue_all ::
    "bool \<Rightarrow> (string \<Rightarrow> string) \<Rightarrow> instant \<Rightarrow> delivery_request \<Rightarrow> CallbackDelivery list \<Rightarrow> CallbackSubscription list \<Rightarrow> CallbackDelivery list
     \<Rightarrow> callback_error + CallbackDelivery list \<times> CallbackDelivery list" where
  "enqueue_all postgres ids now q seen [] ds = Inr ([], ds)"
| "enqueue_all postgres ids now q seen (s # ss) ds =
     (case enqueue_once postgres (ids (cs_id s)) now s q seen ds of
        Inl e \<Rightarrow> Inl e
      | Inr (d, _, ds') \<Rightarrow> map_sum id (\<lambda>(rs, t). (d # rs, t)) (enqueue_all postgres ids now q seen ss ds'))"

definition enqueue_request ::
    "bool \<Rightarrow> database \<Rightarrow> (string \<Rightarrow> string) \<Rightarrow> instant \<Rightarrow> delivery_request \<Rightarrow> CallbackDelivery list \<Rightarrow> outbox \<Rightarrow> callback_error + CallbackDelivery list \<times> outbox" where
  "enqueue_request postgres db ids now q seen ob =
     map_sum id (\<lambda>(rs, ds). (rs, ob\<lparr>ob_deliveries := ds\<rparr>))
       (enqueue_all postgres ids now q seen (list_enabled_for_event_type db (dq_event_type q) (ob_subscriptions ob)) (ob_deliveries ob))"

definition enqueue_workspace_event ::
    "bool \<Rightarrow> database \<Rightarrow> (instant \<Rightarrow> string) \<Rightarrow> (string \<Rightarrow> string) \<Rightarrow> instant \<Rightarrow> string \<Rightarrow> CallbackDelivery list \<Rightarrow> outbox
     \<Rightarrow> callback_error + CallbackDelivery list \<times> outbox" where
  "enqueue_workspace_event postgres db fmt ids now eid seen ob =
     (case find (\<lambda>e. ev_id e = eid) (ob_events ob) of
        None \<Rightarrow> Inr ([], ob)
      | Some e \<Rightarrow>
          enqueue_request postgres db ids now
            \<lparr>dq_event_kind = KindWorkspace, dq_event_type = ev_type e, dq_source_id = ev_id e, dq_dedupe_key = ''workspace:'' @ ev_id e,
             dq_workspace_id = Some (ev_workspace_id e), dq_operation_id = None, dq_merge_candidate_id = None,
             dq_envelope = workspace_event_envelope fmt e\<rparr> seen ob)"

definition enqueue_operation_event ::
    "bool \<Rightarrow> database \<Rightarrow> (instant \<Rightarrow> string) \<Rightarrow> (string \<Rightarrow> string) \<Rightarrow> instant \<Rightarrow> string \<Rightarrow> string \<Rightarrow> CallbackDelivery list \<Rightarrow> outbox
     \<Rightarrow> callback_error + CallbackDelivery list \<times> outbox" where
  "enqueue_operation_event postgres db fmt ids now i t seen ob =
     (case find (\<lambda>x. so_id x = i) (ob_operations ob) of
        None \<Rightarrow> Inr ([], ob)
      | Some x \<Rightarrow>
          enqueue_request postgres db ids now
            \<lparr>dq_event_kind = KindOperation, dq_event_type = t, dq_source_id = so_id x, dq_dedupe_key = ''operation:'' @ t @ '':'' @ so_id x,
             dq_workspace_id = Some (so_workspace_id x), dq_operation_id = Some (so_id x), dq_merge_candidate_id = None,
             dq_envelope = operation_envelope fmt t x\<rparr> seen ob)"

definition enqueue_merge_event ::
    "bool \<Rightarrow> database \<Rightarrow> (instant \<Rightarrow> string) \<Rightarrow> (string \<Rightarrow> string) \<Rightarrow> instant \<Rightarrow> string \<Rightarrow> string \<Rightarrow> CallbackDelivery list \<Rightarrow> outbox
     \<Rightarrow> callback_error + CallbackDelivery list \<times> outbox" where
  "enqueue_merge_event postgres db fmt ids now i t seen ob =
     (case find (\<lambda>c. mc_id c = i) (candidates db) of
        None \<Rightarrow> Inr ([], ob)
      | Some c \<Rightarrow>
          enqueue_request postgres db ids now
            \<lparr>dq_event_kind = KindMerge, dq_event_type = t, dq_source_id = mc_id c, dq_dedupe_key = ''merge:'' @ t @ '':'' @ mc_id c,
             dq_workspace_id = Some (mc_workspace_id c), dq_operation_id = None, dq_merge_candidate_id = Some (mc_id c),
             dq_envelope = merge_envelope fmt t c\<rparr> seen ob)"

section \<open>Posting\<close>

datatype post_outcome = Posted int | PosterRaised string string | PostTimedOut

text \<open>
  What surrounds one delivery: readings of the wall clock when it is skipped, started and finished, whether the validation timed out,
  successive readings of the monotonic clock in seconds, and what the poster does with an address: it returns a status code, raises an exception
  (class and text), or is still waiting when the time is up.
\<close>

record delivery_env =
  at_start :: instant
  at_end :: instant
  validation_timed_out :: bool
  monotonic :: "nat \<Rightarrow> rat"
  poster :: "string \<Rightarrow> post_outcome"

datatype post_error = BudgetExceeded string "string option" | RequestFailed string

definition callback_address_failure_summary :: "(string \<times> string \<times> string) list \<Rightarrow> string" where
  "callback_address_failure_summary fs = py_join '', '' (map (\<lambda>(address, cls, _). address @ '' ('' @ cls @ '')'') fs)"

definition posting_failed :: "(string \<times> string \<times> string) list \<Rightarrow> post_error" where
  "posting_failed fs =
     (case fs of
        [] \<Rightarrow> RequestFailed ''validated callback target has no connect IP addresses''
      | [(_, _, msg)] \<Rightarrow> RequestFailed msg
      | _ \<Rightarrow> RequestFailed (''callback request failed for all validated target addresses: '' @ callback_address_failure_summary fs
                 @ '' ('' @ py_str_int (int (length fs)) @ '' sub-exceptions)''))"

definition budget_spent :: "(string \<times> string \<times> string) list \<Rightarrow> post_error" where
  "budget_spent fs =
     (if fs = [] then BudgetExceeded ''Callback delivery timeout expired before any validated target address could be attempted'' None
      else BudgetExceeded ''Callback delivery timeout expired before remaining validated target addresses could be attempted''
             (Some (callback_address_failure_summary fs)))"

text \<open>
  The addresses are tried in order.  \<open>n\<close> counts readings of the monotonic clock, \<open>fs\<close> are the failures so far; the result comes with the addresses that
  were posted to.
\<close>

fun post_loop :: "delivery_env \<Rightarrow> rat \<Rightarrow> nat \<Rightarrow> (string \<times> string \<times> string) list \<Rightarrow> string list \<Rightarrow> (post_error + int) \<times> string list" where
  "post_loop env deadline n fs [] = (Inl (posting_failed fs), [])"
| "post_loop env deadline n fs (t # ts) =
     (if deadline - monotonic env n \<le> 0 then (Inl (budget_spent fs), [])
      else (case poster env t of
              Posted code \<Rightarrow> (Inr code, [t])
            | PosterRaised cls msg \<Rightarrow> map_prod id (\<lambda>ps. t # ps) (post_loop env deadline (Suc n) (fs @ [(t, cls, msg)]) ts)
            | PostTimedOut \<Rightarrow>
                (Inl (BudgetExceeded (''Callback delivery timeout expired while posting to validated target address '' @ t @ ''.'') None), [t])))"

definition post_to_validated_callback_addresses :: "delivery_env \<Rightarrow> rat \<Rightarrow> nat \<Rightarrow> string list \<Rightarrow> (post_error + int) \<times> string list" where
  "post_to_validated_callback_addresses env timeout n ts = post_loop env (monotonic env n + timeout) (Suc n) [] ts"

definition delivery_headers :: "CallbackDelivery \<Rightarrow> (string \<times> string) list" where
  "delivery_headers d =
     [(''Content-Type'', ''application/json''), (''User-Agent'', ''AWF-Callback-Delivery/1.0''), (''Idempotency-Key'', cd_idempotency_key d)]"

record callback_post =
  post_url :: string
  post_address :: string
  post_json :: "(string \<times> json) list"
  post_headers :: "(string \<times> string) list"

section \<open>Draining\<close>

text \<open>The world outside: URL and address parsing, the name service, settings and the \<open>:g\<close> format of a number of seconds.\<close>

record callback_world =
  cw_urlsplit :: "string \<Rightarrow> string + SplitResult"
  cw_ip_address :: ip_parser
  cw_getaddrinfo :: "string \<Rightarrow> string list option"
  cw_settings :: callback_settings
  cw_format_g :: "int \<Rightarrow> string"

datatype validation_error = ValidationTimeout string | TargetRejected target_error

definition validate_callback_target_with_timeout :: "callback_world \<Rightarrow> delivery_env \<Rightarrow> int \<Rightarrow> string \<Rightarrow> validation_error + string list" where
  "validate_callback_target_with_timeout W env timeout url =
     (if timeout \<le> 0 then Inl (ValidationTimeout ''Callback target validation timed out before it started.'')
      else if validation_timed_out env
        then Inl (ValidationTimeout (''Callback target validation timed out after '' @ cw_format_g W timeout @ ''s.''))
      else map_sum TargetRejected id (validate_callback_target (cw_urlsplit W) (cw_ip_address W) (cw_getaddrinfo W) (cw_settings W) url))"

fun rejection_code :: "target_error \<Rightarrow> string" where
  "rejection_code (PolicyViolation _) = ''CALLBACK_TARGET_POLICY_VIOLATION''"
| "rejection_code _ = ''CALLBACK_TARGET_INVALID''"

definition attempt_delivery :: "callback_world \<Rightarrow> delivery_env \<Rightarrow> CallbackSubscription \<Rightarrow> CallbackDelivery \<Rightarrow> CallbackDelivery \<times> string list" where
  "attempt_delivery W env s d =
     (let timeout = cs_timeout_seconds s;
          deadline = monotonic env 0 + of_int timeout;
          failed = (\<lambda>code msg response. mark_failed_or_retry code (take 512 msg) response (cs_initial_backoff_seconds s) (at_end env) d);
          budget = (\<lambda>msg. failed ''CALLBACK_DELIVERY_BUDGET_EXCEEDED'' (''Callback delivery budget exceeded: '' @ msg) None) in
      case validate_callback_target_with_timeout W env timeout (cs_target_url s) of
        Inl (ValidationTimeout m) \<Rightarrow>
          (failed ''CALLBACK_TARGET_VALIDATION_TIMEOUT'' (''Callback target validation timed out: '' @ m) None, [])
      | Inl (TargetRejected e) \<Rightarrow> (failed (rejection_code e) (''Callback target rejected: '' @ target_error_text e) None, [])
      | Inr ts \<Rightarrow>
          if deadline - monotonic env 1 \<le> 0 then (budget ''Callback delivery timeout expired after target validation.'', [])
          else (case post_to_validated_callback_addresses env (deadline - monotonic env 1) 2 ts of
                  (Inl (BudgetExceeded m _), ps) \<Rightarrow> (budget m, ps)
                | (Inl (RequestFailed m), ps) \<Rightarrow> (failed ''CALLBACK_REQUEST_FAILED'' m None, ps)
                | (Inr code, ps) \<Rightarrow>
                    (if 200 \<le> code \<and> code < 300 then mark_succeeded code (at_end env) d
                     else failed (''CALLBACK_HTTP_'' @ py_str_int code) (''Callback returned HTTP '' @ py_str_int code @ ''.'') (Some code), ps)))"

definition deliver :: "callback_world \<Rightarrow> delivery_env \<Rightarrow> CallbackSubscription \<Rightarrow> CallbackDelivery \<Rightarrow> CallbackDelivery \<times> callback_post list" where
  "deliver W env s d =
     (if \<not> cs_enabled s then (mark_skipped ''CALLBACK_DISABLED'' ''Callback subscription is disabled.'' (at_start env) d, [])
      else let d1 = sync_envelope_delivery_metadata (mark_attempt_started (at_start env) d); (d2, ps) = attempt_delivery W env s d1 in
        (d2, map (\<lambda>a. \<lparr>post_url = cs_target_url s, post_address = a, post_json = cd_envelope d1, post_headers = delivery_headers d1\<rparr>) ps))"

text \<open>
  A drain is one transaction over the rows that were due when it began.  The foreign key gives every delivery its subscription.
  \<open>env\<close> is what surrounds the delivery of a row.
\<close>

definition deliver_row :: "callback_world \<Rightarrow> (string \<Rightarrow> delivery_env) \<Rightarrow> CallbackSubscription list \<Rightarrow> CallbackDelivery \<Rightarrow> CallbackDelivery \<times> callback_post list" where
  "deliver_row W env subs d =
     (case find (\<lambda>s. cs_id s = cd_subscription_id d) subs of None \<Rightarrow> (d, []) | Some s \<Rightarrow> deliver W (env (cd_id d)) s d)"

definition drain_due ::
    "callback_world \<Rightarrow> (string \<Rightarrow> delivery_env) \<Rightarrow> database \<Rightarrow> instant \<Rightarrow> nat \<Rightarrow> outbox \<Rightarrow> CallbackDelivery list \<times> outbox \<times> callback_post list" where
  "drain_due W env db now limit ob =
     (let rows = list_due db now limit ob;
          results = map (deliver_row W env (ob_subscriptions ob)) rows in
      (map fst results,
       ob\<lparr>ob_deliveries := fold (\<lambda>d. put_delivery (fst (deliver_row W env (ob_subscriptions ob) d))) rows (ob_deliveries ob)\<rparr>,
       concat (map snd results)))"

end
