(* ===== verification/Callback_Target_Properties.thy ===== *)
theory Callback_Target_Properties
  imports Callback_Targets
begin

text \<open>
  What the public-address rule excludes.  The specification says which IPv4 address a connection reaches by each of the standard ways to carry
  one inside an IPv6 address; the rule is shown to let none of them reach an internal network.
\<close>

section \<open>Networks\<close>

lemma in_network_widen:
  fixes a :: "'a::len word"
  assumes "in_network a (q, m)" "l \<le> m" "m \<le> LENGTH('a)"
  shows "in_network a (p, l) \<longleftrightarrow> in_network q (p, l)"
proof -
  have split: "LENGTH('a) - l = (m - l) + (LENGTH('a) - m)"
    using assms by simp
  have "drop_bit (LENGTH('a) - l) a = drop_bit (m - l) (drop_bit (LENGTH('a) - m) a)"
    "drop_bit (LENGTH('a) - l) q = drop_bit (m - l) (drop_bit (LENGTH('a) - m) q)"
    unfolding split by (simp_all only: drop_bit_drop_bit)
  then show ?thesis
    using assms(1) unfolding in_network_def fst_conv snd_conv by metis
qed

lemma networks_disjoint:
  fixes a :: "'a::len word"
  assumes "in_network a n" "in_network a n'" "snd n' \<le> LENGTH('a)" "snd n \<le> snd n'" "\<not> in_network (fst n') n"
  shows False
  using in_network_widen [of a "fst n'" "snd n'" "snd n" "fst n"] assms by simp

section \<open>Embedded addresses\<close>

text \<open>
  IPv4-mapped, NAT64, IPv4-compatible and IPv4-translated addresses carry the IPv4 address in the low bits, 6to4 addresses behind the first
  sixteen bits.
\<close>

definition carries :: "128 word \<Rightarrow> 32 word \<Rightarrow> bool" where
  "carries a v =
     ((drop_bit 32 a \<in> {0xFFFF, 0x64FF9B0000000000000000, 0, 0xFFFF0000} \<and> ucast a = v)
      \<or> (drop_bit 112 a = 0x2002 \<and> ucast (drop_bit 80 a) = v))"

fun reaches :: "ip_address \<Rightarrow> 32 word \<Rightarrow> bool" where
  "reaches (IPv4Address a) v = (a = v)"
| "reaches (IPv6Address a) v = carries a v"

lemma octets_of_nat:
  fixes n :: nat
  shows "((n div 16777216 mod 256 * 256 + n div 65536 mod 256) * 256 + n div 256 mod 256) * 256 + n mod 256 = n mod 4294967296"
proof -
  have "n mod 4294967296 = 256 * (n div 256 mod 16777216) + n mod 256"
    using mod_mult2_eq [of n 256 16777216] by simp
  also have "n div 256 mod 16777216 = 256 * (n div 65536 mod 65536) + n div 256 mod 256"
    using mod_mult2_eq [of "n div 256" 256 65536] by (simp add: div_mult2_eq [symmetric])
  also have "n div 65536 mod 65536 = 256 * (n div 16777216 mod 256) + n div 65536 mod 256"
    using mod_mult2_eq [of "n div 65536" 256 256] by (simp add: div_mult2_eq [symmetric])
  finally show ?thesis
    by (simp add: algebra_simps)
qed

lemma unat_octet: "unat (drop_bit k a AND 255) = unat a div 2 ^ k mod 256" for a :: "128 word"
proof -
  have "drop_bit k a AND 255 = take_bit 8 (drop_bit k a)"
    by (simp add: take_bit_eq_mask mask_numeral)
  also have "unat \<dots> = take_bit 8 (drop_bit k (unat a))"
    by (simp only: unsigned_take_bit_eq unat_drop_bit_eq)
  finally show ?thesis
    by (simp add: take_bit_eq_mod drop_bit_eq_div)
qed

lemma extract_low_bytes: "extract_nat64_embedded_ipv4_address a 96 = Some (ucast a)"
proof -
  have "drop 12 (packed a) = [unat a div 2 ^ 24 mod 256, unat a div 2 ^ 16 mod 256, unat a div 2 ^ 8 mod 256, unat a mod 256]"
    unfolding packed_def drop_map unat_octet by (simp add: upt_conv_Cons)
  then have "ipv4_from_bytes (drop 12 (packed a)) = of_nat (unat a mod 4294967296)"
    using octets_of_nat [of "unat a"] by (simp add: ipv4_from_bytes_def del: of_nat_add of_nat_mult)
  also have "\<dots> = ucast a"
    by (rule unsigned_word_eqI [where 'a = nat]) (simp add: unsigned_of_nat unsigned_ucast_eq take_bit_eq_mod)
  finally show ?thesis
    by (simp add: extract_nat64_embedded_ipv4_address_def)
qed

lemma prefix_values:
  "in_network a NAT64_WELL_KNOWN_PREFIX \<longleftrightarrow> drop_bit 32 a = 0x64FF9B0000000000000000"
  "in_network a IPV4_COMPATIBLE_PREFIX \<longleftrightarrow> drop_bit 32 a = 0"
  "in_network a IPV4_TRANSLATED_PREFIX \<longleftrightarrow> drop_bit 32 a = 0xFFFF0000"
  "in_network a SIX_TO_FOUR_PREFIX \<longleftrightarrow> drop_bit 112 a = 0x2002"
  by (simp_all add: in_network_def NAT64_WELL_KNOWN_PREFIX_def IPV4_COMPATIBLE_PREFIX_def IPV4_TRANSLATED_PREFIX_def SIX_TO_FOUR_PREFIX_def)

lemma embedded_value:
  "nat64_embedded_ipv4_address a = (if drop_bit 32 a = 0x64FF9B0000000000000000 then Some (ucast a) else None)"
  by (simp add: nat64_embedded_ipv4_address_def prefix_values extract_low_bytes NAT64_WELL_KNOWN_PREFIX_def [THEN arg_cong, of snd])

section \<open>Internal networks\<close>

text \<open>Loopback, unspecified, unique-local, link-local and multicast addresses.\<close>

definition ipv6_internal_networks :: "(128 word \<times> nat) list" where
  "ipv6_internal_networks =
     [(1, 128), (0, 128), (0xFC000000000000000000000000000000, 7), (0xFE800000000000000000000000000000, 10), (0xFF000000000000000000000000000000, 8)]"

fun internal :: "ip_address \<Rightarrow> bool" where
  "internal (IPv4Address a) = (\<not> ipv4_is_global a \<or> ipv4_is_multicast a)"
| "internal (IPv6Address a) = list_ex (in_network a) ipv6_internal_networks"

lemma public_reaches:
  assumes "is_public_callback_target_address a" "reaches a v"
  shows "ipv4_is_global v \<and> \<not> ipv4_is_multicast v"
proof (cases a)
  case (IPv4Address x)
  then show ?thesis
    using assms by (simp add: is_public_callback_target_address_def)
next
  case (IPv6Address x)
  have "drop_bit 32 x \<noteq> 0" "drop_bit 32 x \<noteq> 0xFFFF0000" "drop_bit 112 x \<noteq> 0x2002"
    using assms(1) IPv6Address by (simp_all add: is_public_callback_target_address_def prefix_values)
  then have "ucast x = v" "drop_bit 32 x = 0xFFFF \<or> drop_bit 32 x = 0x64FF9B0000000000000000"
    using assms(2) IPv6Address by (auto simp: carries_def)
  then have "callback_target_public_address a = IPv4Address v"
    using IPv6Address by (auto simp: ipv4_mapped_def embedded_value)
  then show ?thesis
    using assms(1) by (simp add: is_public_callback_target_address_def)
qed

lemma internal_private:
  assumes "in_network a n" "n \<in> set ipv6_internal_networks" "ipv4_mapped a = None"
  shows "ipv6_is_private a \<or> in_network a (0xFF000000000000000000000000000000, 8)"
proof (cases "n = (0xFF000000000000000000000000000000, 8)")
  case False
  then have n: "n \<in> set ipv6_private_networks"
    using assms(2) by (auto simp: ipv6_internal_networks_def ipv6_private_networks_def)
  have "\<not> in_network a e" if e: "e \<in> set ipv6_private_exceptions" for e
  proof
    assume "in_network a e"
    then show False
      using assms(1,2) False e networks_disjoint [of a n e] networks_disjoint [of a e n]
      by (auto simp: ipv6_internal_networks_def ipv6_private_exceptions_def in_network_def)
  qed
  then show ?thesis
    using assms(1,3) n by (auto simp: ipv6_is_private_def list_ex_iff)
qed (use assms in simp)

lemma public_not_internal:
  assumes "is_public_callback_target_address a"
  shows "\<not> internal a"
proof (cases a)
  case (IPv4Address x)
  then show ?thesis
    using assms by (simp add: is_public_callback_target_address_def)
next
  case (IPv6Address x)
  show ?thesis
  proof
    assume "internal a"
    then obtain n where n: "in_network x n" "n \<in> set ipv6_internal_networks"
      using IPv6Address by (auto simp: list_ex_iff)
    have "drop_bit 32 x \<noteq> 0xFFFF" "drop_bit 32 x \<noteq> 0x64FF9B0000000000000000"
    proof -
      show "drop_bit 32 x \<noteq> 0xFFFF"
        using n networks_disjoint [of x n "(0xFFFF00000000, 96)"] networks_disjoint [of x "(0xFFFF00000000, 96)" n]
        by (auto simp: ipv6_internal_networks_def in_network_def)
      show "drop_bit 32 x \<noteq> 0x64FF9B0000000000000000"
        using n networks_disjoint [of x n NAT64_WELL_KNOWN_PREFIX] networks_disjoint [of x NAT64_WELL_KNOWN_PREFIX n]
        by (auto simp: ipv6_internal_networks_def in_network_def NAT64_WELL_KNOWN_PREFIX_def)
    qed
    then have "ipv4_mapped x = None" "callback_target_public_address a = a"
      using IPv6Address by (simp_all add: ipv4_mapped_def embedded_value)
    then show False
      using assms internal_private [OF n] IPv6Address by (simp add: is_public_callback_target_address_def)
  qed
qed

section \<open>Validated targets\<close>

lemma static_policy_ok:
  assumes "validate_callback_target_static_policy urlsplit ip st url = Inr host"
  shows "\<exists>u. urlsplit url = Inr u \<and> sr_hostname u = Some host \<and> sr_scheme u \<in> {''http'', ''https''} \<and> (callbacks_require_https st \<longrightarrow> sr_scheme u = ''https'')
    \<and> (callbacks_allowed_hosts st \<noteq> [] \<longrightarrow> py_lower (rstrip_dot host) \<in> set (callbacks_allowed_hosts st)) \<and> sr_username u = None \<and> sr_password u = None"
proof -
  obtain u where u: "urlsplit url = Inr u"
    using assms by (cases "urlsplit url") (simp_all add: validate_callback_target_static_policy_def)
  obtain h where h: "sr_hostname u = Some h"
    using assms u by (cases "sr_hostname u") (simp_all add: validate_callback_target_static_policy_def split: if_splits)
  show ?thesis
    using assms unfolding validate_callback_target_static_policy_def u h sum.case option.case by (auto simp: h split: if_splits)
qed

lemma all_public_None: "all_public ip ts = None \<longleftrightarrow> (\<forall>t \<in> set ts. \<exists>a. ip t = Some a \<and> is_public_callback_target_address a)"
  by (induction ts) (auto split: option.splits)

lemma validated_target:
  assumes "validate_callback_target urlsplit ip dns st url = Inr ts"
  shows "ts \<noteq> [] \<and> distinct ts \<and> (\<forall>t \<in> set ts. \<exists>a. ip t = Some a \<and> is_public_callback_target_address a)
    \<and> (\<exists>host. validate_callback_target_static_policy urlsplit ip st url = Inr host)"
proof -
  obtain host where host: "validate_callback_target_static_policy urlsplit ip st url = Inr host" and d: "validate_callback_target_dns ip dns host = Inr ts"
    using assms by (auto simp: validate_callback_target_def split: sum.splits)
  obtain rs where r: "resolve_callback_target_ip_addresses dns host = Inr rs" and ok: "rs \<noteq> []" "all_public ip rs = None"
      and ts: "ts = sort_key (callback_address_family_sort_key ip) rs"
    using d by (auto simp: validate_callback_target_dns_def split: sum.splits if_splits option.splits)
  have "set ts = set rs" "ts \<noteq> []"
    using ok(1) unfolding ts by (simp, metis set_empty set_sort)
  moreover have "distinct rs"
    using r by (auto simp: resolve_callback_target_ip_addresses_def split: option.splits)
  ultimately show ?thesis
    using ok(2) host ts by (simp add: all_public_None)
qed

end
