(* ===== verification/Callback_Properties.thy ===== *)
theory Callback_Properties
  imports Callbacks Callback_Target_Properties
begin

text \<open>
  Correctness of the callback outbox: where posts go, how often a delivery is attempted, and which subscriptions an event reaches.
\<close>

interpretation delivery_rows: keyed_rows cd_id put_delivery
  by unfold_locales (simp add: put_delivery_def)

section \<open>One delivery\<close>

definition delivery_key :: "CallbackDelivery \<Rightarrow> string \<times> string \<times> string \<times> string \<times> int" where
  "delivery_key d = (cd_id d, cd_subscription_id d, cd_dedupe_key d, cd_idempotency_key d, cd_max_attempts d)"

definition finished :: "CallbackDelivery \<Rightarrow> CallbackDelivery \<Rightarrow> bool" where
  "finished d d' =
     (delivery_key d' = delivery_key d \<and> cd_attempt_count d' = cd_attempt_count d
      \<and> (case cd_status d' of
           CbSucceeded \<Rightarrow> cd_delivered_at d' \<noteq> None \<and> (\<exists>c. cd_response_status_code d' = Some c \<and> 200 \<le> c \<and> c < 300)
         | CbFailed \<Rightarrow> cd_max_attempts d \<le> cd_attempt_count d \<and> cd_error_code d' \<noteq> None \<and> cd_next_attempt_at d' = None
         | CbPending \<Rightarrow> cd_attempt_count d < cd_max_attempts d \<and> cd_error_code d' \<noteq> None \<and> cd_next_attempt_at d' \<noteq> None
         | _ \<Rightarrow> False))"

lemma failed_finished: "finished d (mark_failed_or_retry code msg response backoff now d)"
  by (simp add: finished_def mark_failed_or_retry_def delivery_key_def Let_def)

lemma succeeded_finished: "200 \<le> code \<Longrightarrow> code < 300 \<Longrightarrow> finished d (mark_succeeded code now d)"
  by (simp add: finished_def mark_succeeded_def delivery_key_def)

lemma post_loop_addresses: "set (snd (post_loop env deadline n fs ts)) \<subseteq> set ts"
  by (induction env deadline n fs ts rule: post_loop.induct) (auto split: post_outcome.splits)

lemma attempt_finished: "finished d (fst (attempt_delivery W env s d))"
  by (auto simp: attempt_delivery_def Let_def failed_finished succeeded_finished split: sum.splits validation_error.splits post_error.splits prod.splits)

lemma attempt_addresses:
  assumes "t \<in> set (snd (attempt_delivery W env s d))"
  shows "\<exists>ts. validate_callback_target (cw_urlsplit W) (cw_ip_address W) (cw_getaddrinfo W) (cw_settings W) (cs_target_url s) = Inr ts \<and> t \<in> set ts"
proof -
  obtain ts where ts: "validate_callback_target_with_timeout W env (cs_timeout_seconds s) (cs_target_url s) = Inr ts"
    using assms by (cases "validate_callback_target_with_timeout W env (cs_timeout_seconds s) (cs_target_url s)")
      (auto simp: attempt_delivery_def Let_def split: validation_error.splits)
  have "set (snd (attempt_delivery W env s d)) \<subseteq> set ts"
  proof -
    let ?p = "post_loop env (monotonic env 2 + (monotonic env 0 + of_int (cs_timeout_seconds s) - monotonic env 1)) 3 [] ts"
    have "snd (attempt_delivery W env s d) = [] \<or> snd (attempt_delivery W env s d) = snd ?p"
      unfolding attempt_delivery_def Let_def ts post_to_validated_callback_addresses_def
      by (auto split: sum.splits post_error.splits prod.splits simp: eval_nat_numeral)
    then show ?thesis
      by (metis empty_subsetI list.set(1) post_loop_addresses)
  qed
  moreover have "validate_callback_target (cw_urlsplit W) (cw_ip_address W) (cw_getaddrinfo W) (cw_settings W) (cs_target_url s) = Inr ts"
    using ts by (cases "validate_callback_target (cw_urlsplit W) (cw_ip_address W) (cw_getaddrinfo W) (cw_settings W) (cs_target_url s)")
      (auto simp: validate_callback_target_with_timeout_def split: if_splits)
  ultimately show ?thesis
    using assms by blast
qed

text \<open>A row comes out of a drain skipped, or with one more attempt and its outcome.\<close>

definition drained :: "bool \<Rightarrow> CallbackDelivery \<Rightarrow> CallbackDelivery \<Rightarrow> bool" where
  "drained attempted d d' =
     (if attempted then \<exists>d1. delivery_key d1 = delivery_key d \<and> cd_attempt_count d1 = cd_attempt_count d + 1 \<and> finished d1 d'
      else delivery_key d' = delivery_key d \<and> cd_attempt_count d' = cd_attempt_count d \<and> cd_status d' = CbSkipped)"

lemma deliver_drained: "drained (cs_enabled s) d (fst (deliver W env s d))"
proof (cases "cs_enabled s")
  case True
  let ?d1 = "sync_envelope_delivery_metadata (mark_attempt_started (at_start env) d)"
  have "delivery_key ?d1 = delivery_key d" "cd_attempt_count ?d1 = cd_attempt_count d + 1"
    by (simp_all add: sync_envelope_delivery_metadata_def mark_attempt_started_def delivery_key_def Let_def)
  then show ?thesis
    using True attempt_finished [of ?d1 W env s] by (auto simp: drained_def deliver_def case_prod_beta Let_def)
next
  case False
  then show ?thesis
    by (simp add: drained_def deliver_def mark_skipped_def delivery_key_def)
qed

section \<open>One drain\<close>

definition subscription_of :: "outbox \<Rightarrow> CallbackDelivery \<Rightarrow> CallbackSubscription option" where
  "subscription_of ob d = find (\<lambda>s. cs_id s = cd_subscription_id d) (ob_subscriptions ob)"

definition attempted :: "outbox \<Rightarrow> CallbackDelivery \<Rightarrow> bool" where
  "attempted ob d = (case subscription_of ob d of None \<Rightarrow> False | Some s \<Rightarrow> cs_enabled s)"

lemma due_member: "d \<in> set (list_due db now limit ob) \<Longrightarrow> d \<in> set (ob_deliveries ob) \<and> delivery_due db ob now d"
  unfolding list_due_def by (drule in_set_takeD) simp

lemma deliver_row_drained:
  assumes "subscription_of ob d \<noteq> None"
  shows "drained (attempted ob d) d (fst (deliver_row W env (ob_subscriptions ob) d))"
  using assms deliver_drained by (auto simp: deliver_row_def subscription_of_def attempted_def)

lemma deliver_row_key: "cd_id (fst (deliver_row W env subs d)) = cd_id d"
proof (cases "find (\<lambda>s. cs_id s = cd_subscription_id d) subs")
  case (Some s)
  then show ?thesis
    using deliver_drained [of s d W "env (cd_id d)"]
    by (auto simp: deliver_row_def drained_def finished_def delivery_key_def split: if_splits)
qed (simp add: deliver_row_def)

lemma due_distinct:
  assumes "distinct (map cd_id (ob_deliveries ob))"
  shows "distinct (map cd_id (list_due db now limit ob))"
proof -
  have "distinct (map cd_id (sort_key (\<lambda>d. (cd_created_at d, cd_id d)) (filter (delivery_due db ob now) (ob_deliveries ob))))"
    using assms by (simp add: distinct_map inj_on_def)
  then show ?thesis
    unfolding list_due_def by (simp add: take_map [symmetric])
qed

lemma drained_table:
  assumes "distinct (map cd_id (ob_deliveries ob))"
  shows "ob_deliveries (fst (snd (drain_due W env db now limit ob)))
    = map (\<lambda>d. if d \<in> set (list_due db now limit ob) then fst (deliver_row W env (ob_subscriptions ob) d) else d) (ob_deliveries ob)"
proof -
  have "set (list_due db now limit ob) \<subseteq> set (ob_deliveries ob)"
    using due_member by blast
  from delivery_rows.fold_put [OF assms this deliver_row_key due_distinct [OF assms]] show ?thesis
    by (simp add: drain_due_def Let_def)
qed

section \<open>Histories\<close>

text \<open>
  Transactions in the order they commit.  The log has the identifier of a delivery once for every attempt to deliver it.  A subscription
  allows at least one attempt, as the request schema demands.
\<close>

inductive outbox_step :: "outbox \<Rightarrow> string list \<Rightarrow> outbox \<Rightarrow> bool" where
  subscribe: "create_idempotent postgres i now q k h seen (ob_subscriptions ob) = Inr (s, new, subs) \<Longrightarrow> i \<notin> cs_id ` set (ob_subscriptions ob) \<Longrightarrow> 1 \<le> sq_max_attempts q
    \<Longrightarrow> outbox_step ob [] (ob\<lparr>ob_subscriptions := subs\<rparr>)"
| record_source: "outbox_step ob [] (ob\<lparr>ob_events := es, ob_operations := xs\<rparr>)"
| enqueue_workspace: "enqueue_workspace_event postgres db fmt ids now i seen ob = Inr (rs, ob') \<Longrightarrow> inj ids \<Longrightarrow> range ids \<inter> cd_id ` set (ob_deliveries ob) = {}
    \<Longrightarrow> outbox_step ob [] ob'"
| enqueue_operation: "enqueue_operation_event postgres db fmt ids now i t seen ob = Inr (rs, ob') \<Longrightarrow> inj ids \<Longrightarrow> range ids \<inter> cd_id ` set (ob_deliveries ob) = {}
    \<Longrightarrow> outbox_step ob [] ob'"
| enqueue_merge: "enqueue_merge_event postgres db fmt ids now i t seen ob = Inr (rs, ob') \<Longrightarrow> inj ids \<Longrightarrow> range ids \<inter> cd_id ` set (ob_deliveries ob) = {}
    \<Longrightarrow> outbox_step ob [] ob'"
| drain: "drain_due W env db now limit ob = (rs, ob', ps) \<Longrightarrow> outbox_step ob (map cd_id (filter (attempted ob) (list_due db now limit ob))) ob'"

inductive outbox_history :: "string list \<Rightarrow> outbox \<Rightarrow> bool" where
  start: "outbox_history [] \<lparr>ob_subscriptions = [], ob_deliveries = [], ob_events = [], ob_operations = []\<rparr>"
| step: "outbox_history made ob \<Longrightarrow> outbox_step ob l ob' \<Longrightarrow> outbox_history (made @ l) ob'"

definition delivery_ok :: "CallbackDelivery \<Rightarrow> bool" where
  "delivery_ok d =
     (0 \<le> cd_attempt_count d \<and> cd_attempt_count d \<le> cd_max_attempts d
      \<and> (case cd_status d of
           CbPending \<Rightarrow> cd_attempt_count d < cd_max_attempts d
         | CbRunning \<Rightarrow> False
         | CbSucceeded \<Rightarrow> 1 \<le> cd_attempt_count d \<and> cd_delivered_at d \<noteq> None \<and> (\<exists>c. cd_response_status_code d = Some c \<and> 200 \<le> c \<and> c < 300)
         | CbFailed \<Rightarrow> cd_attempt_count d = cd_max_attempts d \<and> cd_error_code d \<noteq> None
         | CbSkipped \<Rightarrow> True))"

lemma drained_ok:
  assumes "drained a d d'" "delivery_ok d" "cd_status d = CbPending"
  shows "delivery_ok d' \<and> delivery_key d' = delivery_key d \<and> cd_attempt_count d' = cd_attempt_count d + (if a then 1 else 0)"
proof (cases a)
  case True
  then obtain d1 where d1: "delivery_key d1 = delivery_key d" "cd_attempt_count d1 = cd_attempt_count d + 1" "finished d1 d'"
    using assms(1) by (auto simp: drained_def)
  then show ?thesis
    using assms(2,3) True by (auto simp: finished_def delivery_ok_def delivery_key_def split: CallbackDeliveryStatus.splits)
next
  case False
  then show ?thesis
    using assms by (auto simp: drained_def delivery_ok_def delivery_key_def)
qed

text \<open>The deliveries of known subscriptions \<open>S\<close>, and the attempts \<open>made\<close> for them.\<close>

definition rows_inv :: "string list \<Rightarrow> string set \<Rightarrow> CallbackDelivery list \<Rightarrow> bool" where
  "rows_inv made S ds =
     (distinct (map cd_id ds) \<and> distinct (map (\<lambda>d. (cd_subscription_id d, cd_dedupe_key d)) ds) \<and> list_all delivery_ok ds
      \<and> list_all (\<lambda>d. int (count_list made (cd_id d)) = cd_attempt_count d) ds \<and> set made \<subseteq> cd_id ` set ds
      \<and> list_all (\<lambda>d. cd_subscription_id d \<in> S) ds)"

definition outbox_inv :: "string list \<Rightarrow> outbox \<Rightarrow> bool" where
  "outbox_inv made ob =
     (distinct (map cs_id (ob_subscriptions ob)) \<and> list_all (\<lambda>s. 1 \<le> cs_max_attempts s) (ob_subscriptions ob)
      \<and> rows_inv made (cs_id ` set (ob_subscriptions ob)) (ob_deliveries ob))"

lemma map_sum_Inr_iff: "map_sum f g x = Inr y \<longleftrightarrow> (\<exists>z. x = Inr z \<and> y = g z)"
  by (cases x) auto

lemma new_row:
  assumes "rows_inv made S ds" "i \<notin> cd_id ` set ds" "get_by_dedupe_key (cs_id s) (dq_dedupe_key q) ds = None" "1 \<le> cs_max_attempts s" "cs_id s \<in> S"
  shows "rows_inv made S (ds @ [new_delivery i now s q])"
proof -
  have "i \<notin> set made"
    using assms(1,2) by (auto simp: rows_inv_def)
  then have "count_list made i = 0"
    by (simp add: count_list_0_iff)
  then show ?thesis
    using assms by (auto simp: rows_inv_def new_delivery_def delivery_ok_def get_by_dedupe_key_def find_None_iff Let_def image_iff)
qed

lemma enqueue_once_table:
  assumes "enqueue_once postgres i now s q seen ds = Inr (d, new, ds')"
  shows "ds' = ds \<or> get_by_dedupe_key (cs_id s) (dq_dedupe_key q) ds = None \<and> ds' = ds @ [new_delivery i now s q]"
  using assms by (auto simp: enqueue_once_def Let_def split: option.splits if_splits)

lemma enqueue_all_inv:
  assumes "enqueue_all postgres ids now q seen ss ds = Inr (rs, ds')" "rows_inv made S ds" "inj ids" "distinct (map cs_id ss)"
    and "\<And>s. s \<in> set ss \<Longrightarrow> ids (cs_id s) \<notin> cd_id ` set ds \<and> 1 \<le> cs_max_attempts s \<and> cs_id s \<in> S"
  shows "rows_inv made S ds' \<and> set ds \<subseteq> set ds'"
  using assms
proof (induction ss arbitrary: ds rs)
  case (Cons s ss)
  obtain d new ds1 rs' where one: "enqueue_once postgres (ids (cs_id s)) now s q seen ds = Inr (d, new, ds1)"
      and rest: "enqueue_all postgres ids now q seen ss ds1 = Inr (rs', ds')"
    using Cons.prems(1) by (cases "enqueue_once postgres (ids (cs_id s)) now s q seen ds") (auto simp: map_sum_Inr_iff)
  consider "ds1 = ds" | "get_by_dedupe_key (cs_id s) (dq_dedupe_key q) ds = None" "ds1 = ds @ [new_delivery (ids (cs_id s)) now s q]"
    using enqueue_once_table [OF one] by (elim disjE conjE) simp_all
  then have "rows_inv made S ds1 \<and> set ds \<subseteq> set ds1 \<and> (\<forall>t \<in> set ss. ids (cs_id t) \<notin> cd_id ` set ds1)"
  proof cases
    case 2
    have "cd_id (new_delivery (ids (cs_id s)) now s q) = ids (cs_id s)"
      by (simp add: new_delivery_def Let_def)
    moreover have "ids (cs_id t) \<noteq> ids (cs_id s)" if "t \<in> set ss" for t
      using that Cons.prems(3,4) by (auto simp: inj_eq image_iff)
    ultimately show ?thesis
      using 2 new_row [OF Cons.prems(2)] Cons.prems(5) by (auto simp: image_iff)
  qed (use Cons.prems in auto)
  then have ds1: "rows_inv made S ds1" "set ds \<subseteq> set ds1" "\<forall>t \<in> set ss. ids (cs_id t) \<notin> cd_id ` set ds1"
    by simp_all
  have "rows_inv made S ds' \<and> set ds1 \<subseteq> set ds'"
    using Cons.prems(4,5) ds1(3) by (intro Cons.IH [OF rest ds1(1) Cons.prems(3)]) simp_all
  then show ?case
    using ds1(2) by blast
qed simp

lemma enqueue_request_inv:
  assumes "enqueue_request postgres db ids now q seen ob = Inr (rs, ob')" "outbox_inv made ob" "inj ids" "range ids \<inter> cd_id ` set (ob_deliveries ob) = {}"
  shows "outbox_inv made ob' \<and> set (ob_deliveries ob) \<subseteq> set (ob_deliveries ob')"
proof -
  let ?ss = "list_enabled_for_event_type db (dq_event_type q) (ob_subscriptions ob)"
  obtain ds' where ds': "enqueue_all postgres ids now q seen ?ss (ob_deliveries ob) = Inr (rs, ds')" "ob' = ob\<lparr>ob_deliveries := ds'\<rparr>"
    using assms(1) by (cases "enqueue_all postgres ids now q seen ?ss (ob_deliveries ob)") (auto simp: enqueue_request_def)
  have ss: "set ?ss \<subseteq> set (ob_subscriptions ob)" "distinct (map cs_id ?ss)"
    using assms(2) by (auto simp: list_enabled_for_event_type_def outbox_inv_def Let_def distinct_map inj_on_def)
  have "rows_inv made (cs_id ` set (ob_subscriptions ob)) ds' \<and> set (ob_deliveries ob) \<subseteq> set ds'"
    using ss assms(2,4) by (intro enqueue_all_inv [OF ds'(1) _ assms(3) ss(2)]) (auto simp: outbox_inv_def list_all_iff)
  then show ?thesis
    using assms(2) ds'(2) by (simp add: outbox_inv_def)
qed

lemma count_list_distinct: "distinct xs \<Longrightarrow> count_list xs x = (if x \<in> set xs then 1 else 0)"
  by (induction xs) auto

lemma count_rows:
  assumes "distinct (map cd_id ds)" "distinct (map cd_id rows)" "set rows \<subseteq> set ds" "d \<in> set ds"
  shows "count_list (map cd_id rows) (cd_id d) = (if d \<in> set rows then 1 else 0)"
proof -
  have "cd_id d \<in> set (map cd_id rows) \<longleftrightarrow> d \<in> set rows"
    using assms by (auto simp: distinct_map inj_on_def)
  then show ?thesis
    using count_list_distinct [OF assms(2)] by simp
qed

lemma subscription_known: "cd_subscription_id d \<in> cs_id ` set (ob_subscriptions ob) \<Longrightarrow> subscription_of ob d \<noteq> None"
  by (auto simp: subscription_of_def find_None_iff)

lemma drain_row:
  assumes "outbox_inv made ob" "d \<in> set (list_due db now limit ob)"
  shows "delivery_ok (fst (deliver_row W env (ob_subscriptions ob) d)) \<and> delivery_key (fst (deliver_row W env (ob_subscriptions ob) d)) = delivery_key d
    \<and> cd_attempt_count (fst (deliver_row W env (ob_subscriptions ob) d)) = cd_attempt_count d + (if attempted ob d then 1 else 0)"
proof -
  have d: "d \<in> set (ob_deliveries ob)" "cd_status d = CbPending"
    using due_member [OF assms(2)] by (simp_all add: delivery_due_def)
  then have "delivery_ok d" "subscription_of ob d \<noteq> None"
    using assms(1) subscription_known by (auto simp: outbox_inv_def rows_inv_def list_all_iff)
  then show ?thesis
    using drained_ok [OF deliver_row_drained _ d(2)] by blast
qed

lemma drain_inv:
  assumes "outbox_inv made ob" "drain_due W env db now limit ob = (rs, ob', ps)"
  shows "outbox_inv (made @ map cd_id (filter (attempted ob) (list_due db now limit ob))) ob'
    \<and> (\<forall>d \<in> set (ob_deliveries ob). cd_status d \<noteq> CbPending \<longrightarrow> d \<in> set (ob_deliveries ob'))"
proof -
  let ?due = "list_due db now limit ob"
  let ?rows = "filter (attempted ob) ?due"
  define f where "f d = (if d \<in> set ?due then fst (deliver_row W env (ob_subscriptions ob) d) else d)" for d
  have inv: "rows_inv made (cs_id ` set (ob_subscriptions ob)) (ob_deliveries ob)"
    using assms(1) by (simp add: outbox_inv_def)
  then have ids: "distinct (map cd_id (ob_deliveries ob))"
    by (simp add: rows_inv_def)
  have ob': "ob_deliveries ob' = map f (ob_deliveries ob)" "ob_subscriptions ob' = ob_subscriptions ob"
    using drained_table [OF ids, of W env db now limit] assms(2) unfolding f_def by (simp, simp add: drain_due_def Let_def) auto
  have row: "delivery_ok (f d) \<and> delivery_key (f d) = delivery_key d
      \<and> cd_attempt_count (f d) = cd_attempt_count d + (if d \<in> set ?rows then 1 else 0)" if "d \<in> set (ob_deliveries ob)" for d
    using drain_row [OF assms(1), of d] inv that by (auto simp: f_def rows_inv_def list_all_iff)
  have keys: "map delivery_key (map f (ob_deliveries ob)) = map delivery_key (ob_deliveries ob)"
    using row by simp
  have same: "map cd_id (map f (ob_deliveries ob)) = map cd_id (ob_deliveries ob)"
    "map (\<lambda>d. (cd_subscription_id d, cd_dedupe_key d)) (map f (ob_deliveries ob)) = map (\<lambda>d. (cd_subscription_id d, cd_dedupe_key d)) (ob_deliveries ob)"
    using row by (simp_all add: delivery_key_def)
  have count: "count_list (map cd_id ?rows) (cd_id d) = (if d \<in> set ?rows then 1 else 0)" if "d \<in> set (ob_deliveries ob)" for d
    using due_distinct [OF ids] due_member that by (intro count_rows [OF ids]) (auto simp: distinct_map_filter)
  have key: "cd_id (f d) = cd_id d" "cd_subscription_id (f d) = cd_subscription_id d" if "d \<in> set (ob_deliveries ob)" for d
    using row [OF that] by (simp_all add: delivery_key_def)
  have "int (count_list (made @ map cd_id ?rows) (cd_id (f d))) = cd_attempt_count (f d)" if d: "d \<in> set (ob_deliveries ob)" for d
    using inv row [OF d] count [OF d] key(1) [OF d] d by (simp add: rows_inv_def list_all_iff)
  moreover have "set (map cd_id ?rows) \<subseteq> cd_id ` set (ob_deliveries ob)"
    using due_member by auto
  moreover have "cd_id ` set (map f (ob_deliveries ob)) = cd_id ` set (ob_deliveries ob)"
    using same(1) by (metis list.set_map)
  ultimately have "rows_inv (made @ map cd_id ?rows) (cs_id ` set (ob_subscriptions ob)) (map f (ob_deliveries ob))"
    using inv row key(2) unfolding rows_inv_def same list_all_iff by simp
  moreover have "d \<in> set (map f (ob_deliveries ob))" if "d \<in> set (ob_deliveries ob)" "cd_status d \<noteq> CbPending" for d
    using that due_member [of d] by (force simp: f_def delivery_due_def)
  ultimately show ?thesis
    using assms(1) ob' by (simp add: outbox_inv_def)
qed

lemma subscribe_inv:
  assumes "outbox_inv made ob" "create_idempotent postgres i now q k h seen (ob_subscriptions ob) = Inr (s, new, subs)" "i \<notin> cs_id ` set (ob_subscriptions ob)"
    and "1 \<le> sq_max_attempts q"
  shows "outbox_inv made (ob\<lparr>ob_subscriptions := subs\<rparr>)"
proof -
  have "subs = ob_subscriptions ob \<or> (\<exists>s. subs = ob_subscriptions ob @ [s] \<and> cs_id s = i \<and> cs_max_attempts s = sq_max_attempts q)"
    using assms(2) by (auto simp: create_idempotent_def replay_or_conflict_def Let_def split: option.splits if_splits)
  then show ?thesis
    using assms(1,3,4) by (auto simp: outbox_inv_def rows_inv_def list_all_iff)
qed

lemma enqueue_event_cases:
  "enqueue_workspace_event postgres db fmt ids now i seen ob = Inr (rs, ob') \<Longrightarrow> ob' = ob \<or> (\<exists>q. enqueue_request postgres db ids now q seen ob = Inr (rs, ob'))"
  "enqueue_operation_event postgres db fmt ids now i t seen ob = Inr (rs, ob') \<Longrightarrow> ob' = ob \<or> (\<exists>q. enqueue_request postgres db ids now q seen ob = Inr (rs, ob'))"
  "enqueue_merge_event postgres db fmt ids now i t seen ob = Inr (rs, ob') \<Longrightarrow> ob' = ob \<or> (\<exists>q. enqueue_request postgres db ids now q seen ob = Inr (rs, ob'))"
  unfolding enqueue_workspace_event_def enqueue_operation_event_def enqueue_merge_event_def by (auto split: option.splits)

lemma enqueue_event_inv:
  assumes "ob' = ob \<or> (\<exists>q. enqueue_request postgres db ids now q seen ob = Inr (rs, ob'))" "outbox_inv made ob" "inj ids" "range ids \<inter> cd_id ` set (ob_deliveries ob) = {}"
  shows "outbox_inv made ob' \<and> set (ob_deliveries ob) \<subseteq> set (ob_deliveries ob')"
  using assms(1) enqueue_request_inv [OF _ assms(2-4)] assms(2) by blast

text \<open>A step keeps the invariant; rows that are settled stay as they are and are not attempted again.\<close>

lemma step_inv:
  assumes "outbox_step ob l ob'" "outbox_inv made ob"
  shows "outbox_inv (made @ l) ob' \<and> (\<forall>d \<in> set (ob_deliveries ob). cd_status d \<noteq> CbPending \<longrightarrow> d \<in> set (ob_deliveries ob') \<and> cd_id d \<notin> set l)"
  using assms
proof (cases rule: outbox_step.cases)
  case (subscribe postgres i now q k h seen s new subs)
  then show ?thesis
    using subscribe_inv [OF assms(2)] by simp
next
  case (record_source es xs)
  then show ?thesis
    using assms(2) by (simp add: outbox_inv_def)
next
  case (enqueue_workspace postgres db fmt ids now i seen rs)
  then show ?thesis
    using enqueue_event_inv [OF enqueue_event_cases(1) [OF enqueue_workspace(2)] assms(2) enqueue_workspace(3,4)] by auto
next
  case (enqueue_operation postgres db fmt ids now i t seen rs)
  then show ?thesis
    using enqueue_event_inv [OF enqueue_event_cases(2) [OF enqueue_operation(2)] assms(2) enqueue_operation(3,4)] by auto
next
  case (enqueue_merge postgres db fmt ids now i t seen rs)
  then show ?thesis
    using enqueue_event_inv [OF enqueue_event_cases(3) [OF enqueue_merge(2)] assms(2) enqueue_merge(3,4)] by auto
next
  case (drain W env db now limit rs ps)
  have "inj_on cd_id (set (ob_deliveries ob))"
    using assms(2) by (simp add: outbox_inv_def rows_inv_def distinct_map)
  then have "cd_id d \<notin> set l" if "d \<in> set (ob_deliveries ob)" "cd_status d \<noteq> CbPending" for d
    using that due_member drain(1) by (auto simp: delivery_due_def dest: inj_onD)
  then show ?thesis
    using drain_inv [OF assms(2) drain(2)] drain(1) by blast
qed

lemma history_inv: "outbox_history made ob \<Longrightarrow> outbox_inv made ob"
proof (induction rule: outbox_history.induct)
  case start
  show ?case
    by (simp add: outbox_inv_def rows_inv_def)
next
  case (step made ob l ob')
  then show ?case
    using step_inv by blast
qed

lemma public_event_types:
  "list_all (\<lambda>t. list_all (\<lambda>w. startswith t (butlast w) \<longleftrightarrow> w \<in> set (callback_subscription_event_type_candidates t)) CALLBACK_EVENT_WILDCARDS
     \<and> t \<in> set (callback_subscription_event_type_candidates t)
     \<and> list_all (\<lambda>c. c = t \<or> c \<in> set CALLBACK_EVENT_WILDCARDS) (callback_subscription_event_type_candidates t)
     \<and> t \<notin> set CALLBACK_EVENT_WILDCARDS) PUBLIC_CALLBACK_EVENT_TYPES"
  by code_simp

section \<open>Properties\<close>

text \<open>
  Property C13: callbacks never leave the public network.  Whatever the name service answers and whatever is stored, every post of a drain belongs to an enabled subscription
  whose URL satisfies the configured policy, and connects to an address that is neither internal itself nor carries an internal IPv4 address in
  any of the standard embeddings (mapped, compatible, translated, NAT64, 6to4).
\<close>

theorem callback_posts_stay_public:
  assumes "p \<in> set (snd (snd (drain_due W env db now limit ob)))"
  shows "\<exists>a u host s. cw_ip_address W (post_address p) = Some a \<and> \<not> internal a \<and> (\<forall>v. reaches a v \<longrightarrow> ipv4_is_global v \<and> \<not> ipv4_is_multicast v)
    \<and> s \<in> set (ob_subscriptions ob) \<and> cs_enabled s \<and> post_url p = cs_target_url s
    \<and> cw_urlsplit W (post_url p) = Inr u \<and> sr_hostname u = Some host \<and> sr_scheme u \<in> {''http'', ''https''}
    \<and> (callbacks_require_https (cw_settings W) \<longrightarrow> sr_scheme u = ''https'')
    \<and> (callbacks_allowed_hosts (cw_settings W) \<noteq> [] \<longrightarrow> py_lower (rstrip_dot host) \<in> set (callbacks_allowed_hosts (cw_settings W)))
    \<and> sr_username u = None \<and> sr_password u = None"
proof -
  obtain d where "p \<in> set (snd (deliver_row W env (ob_subscriptions ob) d))"
    using assms by (auto simp: drain_due_def Let_def)
  then obtain s where s: "find (\<lambda>s. cs_id s = cd_subscription_id d) (ob_subscriptions ob) = Some s" "p \<in> set (snd (deliver W (env (cd_id d)) s d))"
    by (auto simp: deliver_row_def split: option.splits)
  then obtain t d1 where t: "cs_enabled s" "t \<in> set (snd (attempt_delivery W (env (cd_id d)) s d1))" "post_address p = t" "post_url p = cs_target_url s"
    by (auto simp: deliver_def Let_def case_prod_beta split: if_splits)
  obtain ts where ts: "validate_callback_target (cw_urlsplit W) (cw_ip_address W) (cw_getaddrinfo W) (cw_settings W) (cs_target_url s) = Inr ts" "t \<in> set ts"
    using attempt_addresses [OF t(2)] by blast
  obtain a host where a: "cw_ip_address W t = Some a" "is_public_callback_target_address a"
      and host: "validate_callback_target_static_policy (cw_urlsplit W) (cw_ip_address W) (cw_settings W) (cs_target_url s) = Inr host"
    using validated_target [OF ts(1)] ts(2) by blast
  have "s \<in> set (ob_subscriptions ob)"
    using s(1) by (auto simp: find_Some_iff)
  then show ?thesis
    using static_policy_ok [OF host] a public_not_internal [OF a(2)] public_reaches [OF a(2)] t by auto
qed

text \<open>
  Property C14: deliveries are attempted a bounded number of times and then settled.  In every history there is one delivery per subscription and event, the number of attempts made
  is the stored count and never above the allowed number, no row is left running, a row has failed exactly with its last attempt, a success carries a
  success status code; and a settled delivery is never changed or attempted again.
\<close>

theorem callback_attempts_bounded:
  assumes "outbox_history made ob"
  shows "distinct (map (\<lambda>d. (cd_subscription_id d, cd_dedupe_key d)) (ob_deliveries ob))
    \<and> (\<forall>d \<in> set (ob_deliveries ob). int (count_list made (cd_id d)) = cd_attempt_count d \<and> cd_attempt_count d \<le> cd_max_attempts d
         \<and> cd_status d \<noteq> CbRunning \<and> (cd_status d = CbPending \<longrightarrow> cd_attempt_count d < cd_max_attempts d)
         \<and> (cd_status d = CbFailed \<longrightarrow> cd_attempt_count d = cd_max_attempts d)
         \<and> (cd_status d = CbSucceeded \<longrightarrow> (\<exists>c. cd_response_status_code d = Some c \<and> 200 \<le> c \<and> c < 300)))
    \<and> (\<forall>l ob'. outbox_step ob l ob' \<longrightarrow> (\<forall>d \<in> set (ob_deliveries ob). cd_status d \<noteq> CbPending \<longrightarrow> d \<in> set (ob_deliveries ob') \<and> cd_id d \<notin> set l))"
proof -
  have inv: "outbox_inv made ob"
    by (rule history_inv [OF assms])
  then have "distinct (map (\<lambda>d. (cd_subscription_id d, cd_dedupe_key d)) (ob_deliveries ob))"
      and row: "\<And>d. d \<in> set (ob_deliveries ob) \<Longrightarrow> delivery_ok d \<and> int (count_list made (cd_id d)) = cd_attempt_count d"
    by (auto simp: outbox_inv_def rows_inv_def list_all_iff)
  moreover have "cd_attempt_count d \<le> cd_max_attempts d \<and> cd_status d \<noteq> CbRunning \<and> (cd_status d = CbPending \<longrightarrow> cd_attempt_count d < cd_max_attempts d)
      \<and> (cd_status d = CbFailed \<longrightarrow> cd_attempt_count d = cd_max_attempts d)
      \<and> (cd_status d = CbSucceeded \<longrightarrow> (\<exists>c. cd_response_status_code d = Some c \<and> 200 \<le> c \<and> c < 300))" if "delivery_ok d" for d
    using that by (auto simp: delivery_ok_def)
  ultimately show ?thesis
    using step_inv [OF _ inv] by blast
qed

text \<open>
  Property C32: the query for subscribers is the matching rule.  The subscriptions that the database returns for an event are exactly the enabled, released ones of which some
  pattern matches the event type, whatever patterns are stored and whatever the event is.
\<close>

theorem subscribers_match_rule:
  "set (list_enabled_for_event_type db t subs)
    = {s \<in> set subs. cs_enabled s \<and> restore_row_allows_work db ''callback_subscriptions'' (cs_id s)
         \<and> list_ex (\<lambda>e. callback_subscription_matches_event_type e t) (cs_event_types s)}"
proof -
  let ?c = "callback_subscription_event_type_candidates t"
  have cand: "e \<in> set ?c \<longleftrightarrow> callback_subscription_matches_event_type e t" for e
  proof (cases "t \<in> set PUBLIC_CALLBACK_EVENT_TYPES")
    case True
    then have "list_all (\<lambda>w. startswith t (butlast w) \<longleftrightarrow> w \<in> set ?c) CALLBACK_EVENT_WILDCARDS" "t \<in> set ?c"
        "list_all (\<lambda>c. c = t \<or> c \<in> set CALLBACK_EVENT_WILDCARDS) ?c" "t \<notin> set CALLBACK_EVENT_WILDCARDS"
      using public_event_types by (simp_all add: list_all_iff)
    then show ?thesis
      using True by (auto simp: callback_subscription_matches_event_type_def list_all_iff)
  qed (simp add: callback_subscription_event_type_candidates_def callback_subscription_matches_event_type_def)
  have f: "callback_subscription_event_type_filter ?c s = list_ex (\<lambda>e. callback_subscription_matches_event_type e t) (cs_event_types s)" for s
    unfolding callback_subscription_event_type_filter_def cand ..
  show ?thesis
  proof (cases "?c = []")
    case True
    then have "\<not> callback_subscription_matches_event_type e t" for e
      using cand [of e] by simp
    then have "list_ex (\<lambda>e. callback_subscription_matches_event_type e t) xs \<longleftrightarrow> False" for xs
      by (simp add: list_ex_iff)
    then show ?thesis
      using True by (simp add: list_enabled_for_event_type_def)
  next
    case False
    then show ?thesis
      by (auto simp: list_enabled_for_event_type_def Let_def f)
  qed
qed

section \<open>An example\<close>

definition hook_request :: subscription_request where
  "hook_request = \<lparr>sq_name = ''hook'', sq_target_url = ''https://hooks.example.org/awf'', sq_event_types = [''workspace.*''], sq_enabled = True,
     sq_timeout_seconds = 10, sq_max_attempts = 3, sq_initial_backoff_seconds = 5\<rparr>"

definition hook_subscription :: CallbackSubscription where
  "hook_subscription = \<lparr>cs_id = ''s1'', cs_name = ''hook'', cs_target_url = ''https://hooks.example.org/awf'', cs_event_types = [''workspace.*''], cs_enabled = True,
     cs_timeout_seconds = 10, cs_max_attempts = 3, cs_initial_backoff_seconds = 5, cs_idempotency_key = ''k1'', cs_request_hash = ''h1'', cs_created_at = 1,
     cs_disabled_at = None\<rparr>"

definition hook_event :: StoredEvent where
  "hook_event = \<lparr>ev_id = ''e1'', ev_workspace_id = ''w1'', ev_type = ''workspace.created'', ev_old_state = None, ev_new_state = Some ''requested'',
     ev_reason_code = None, ev_occurred_at = 2\<rparr>"

definition hook_delivery :: CallbackDelivery where
  "hook_delivery = new_delivery ''ds1'' 3 hook_subscription
     \<lparr>dq_event_kind = KindWorkspace, dq_event_type = ''workspace.created'', dq_source_id = ''e1'', dq_dedupe_key = ''workspace:e1'',
      dq_workspace_id = Some ''w1'', dq_operation_id = None, dq_merge_candidate_id = None, dq_envelope = workspace_event_envelope (\<lambda>t. []) hook_event\<rparr>"

definition hook_outbox :: outbox where
  "hook_outbox = \<lparr>ob_subscriptions = [hook_subscription], ob_deliveries = [hook_delivery], ob_events = [hook_event], ob_operations = []\<rparr>"

definition hook_world :: callback_world where
  "hook_world = \<lparr>cw_urlsplit = (\<lambda>u. Inr \<lparr>sr_scheme = ''https'', sr_hostname = Some ''hooks.example.org'', sr_port = Some None, sr_username = None,
       sr_password = None, sr_fragment = []\<rparr>),
     cw_ip_address = (\<lambda>t. if t = ''93.184.216.34'' then Some (IPv4Address (ipv4_octets 93 184 216 34)) else None),
     cw_getaddrinfo = (\<lambda>h. Some [''93.184.216.34'']), cw_settings = \<lparr>callbacks_require_https = True, callbacks_allowed_hosts = []\<rparr>,
     cw_format_g = (\<lambda>n. [])\<rparr>"

definition hook_env :: delivery_env where
  "hook_env = \<lparr>at_start = 5, at_end = 6, validation_timed_out = False, monotonic = (\<lambda>n. 0), poster = (\<lambda>a. Posted 204)\<rparr>"

lemma hook_public: "is_public_callback_target_address (IPv4Address (ipv4_octets 93 184 216 34))"
  by (simp add: is_public_callback_target_address_def ipv4_is_global_def ipv4_is_private_def ipv4_is_multicast_def in_network_def
      ipv4_private_networks_def ipv4_private_exceptions_def ipv4_octets_def)

lemma hook_static: "validate_callback_target_static_policy (cw_urlsplit hook_world) (cw_ip_address hook_world) (cw_settings hook_world) u = Inr ''hooks.example.org''"
  by (simp add: validate_callback_target_static_policy_def hook_world_def is_public_callback_target_host_def rstrip_dot_def py_lower_def py_lower_char_def
    looks_like_legacy_ipv4_literal_def legacy_label_def startswith_def endswith_def isdigit_char_def is_digit_def Let_def)

lemma hook_target: "validate_callback_target (cw_urlsplit hook_world) (cw_ip_address hook_world) (cw_getaddrinfo hook_world) (cw_settings hook_world) u = Inr [''93.184.216.34'']"
  unfolding validate_callback_target_def hook_static sum.case
  using hook_public by (simp add: hook_world_def validate_callback_target_dns_def resolve_callback_target_ip_addresses_def)

lemma hook_due: "list_due (sample_db Ready) 4 10 hook_outbox = [hook_delivery]"
  by code_simp

lemma hook_posts: "map post_address (snd (snd (drain_due hook_world (\<lambda>i. hook_env) (sample_db Ready) 4 10 hook_outbox))) = [''93.184.216.34'']"
proof -
  have "deliver_row hook_world (\<lambda>i. hook_env) [hook_subscription] hook_delivery = deliver hook_world hook_env hook_subscription hook_delivery"
    by (simp add: deliver_row_def hook_subscription_def hook_delivery_def new_delivery_def Let_def)
  moreover have "snd (attempt_delivery hook_world hook_env hook_subscription d) = [''93.184.216.34'']" for d
    by (simp add: attempt_delivery_def validate_callback_target_with_timeout_def hook_target hook_subscription_def hook_env_def Let_def
        post_to_validated_callback_addresses_def)
  moreover have "cs_enabled hook_subscription" "ob_subscriptions hook_outbox = [hook_subscription]"
    by (simp_all add: hook_subscription_def hook_outbox_def)
  ultimately show ?thesis
    unfolding drain_due_def hook_due Let_def by (simp add: deliver_def Let_def case_prod_beta o_def)
qed

theorem callback_posts_stay_public_witness:
  "\<exists>p \<in> set (snd (snd (drain_due hook_world (\<lambda>i. hook_env) (sample_db Ready) 4 10 hook_outbox))). post_address p = ''93.184.216.34''
     \<and> (\<exists>a. cw_ip_address hook_world (post_address p) = Some a \<and> \<not> internal a)"
proof -
  let ?ps = "snd (snd (drain_due hook_world (\<lambda>i. hook_env) (sample_db Ready) 4 10 hook_outbox))"
  have "''93.184.216.34'' \<in> post_address ` set ?ps"
    unfolding set_map [symmetric] hook_posts by simp
  then obtain p where "p \<in> set ?ps" "post_address p = ''93.184.216.34''"
    by (elim imageE) simp
  then show ?thesis
    using callback_posts_stay_public by blast
qed

lemma hook_history: "outbox_history [''ds1''] (fst (snd (drain_due hook_world (\<lambda>i. hook_env) (sample_db Ready) 4 10 hook_outbox)))"
proof -
  let ?o0 = "\<lparr>ob_subscriptions = [], ob_deliveries = [], ob_events = [], ob_operations = []\<rparr> :: outbox"
  let ?o1 = "?o0\<lparr>ob_subscriptions := [hook_subscription]\<rparr>"
  let ?o2 = "?o1\<lparr>ob_events := [hook_event], ob_operations := []\<rparr>"
  have "outbox_step ?o0 [] ?o1"
    by (rule outbox_step.subscribe [where postgres = True and i = "''s1''" and now = 1 and q = hook_request and k = "''k1''" and h = "''h1''" and seen = "[]"
          and s = hook_subscription and new = True]) (simp_all add: create_idempotent_def get_by_idempotency_key_def hook_subscription_def hook_request_def Let_def)
  from outbox_history.step [OF outbox_history.start this]
  have h1: "outbox_history [] ?o1"
    by simp
  from outbox_history.step [OF h1 outbox_step.record_source]
  have h2: "outbox_history [] ?o2"
    by simp
  have "outbox_step ?o2 [] hook_outbox"
  proof (rule outbox_step.enqueue_workspace)
    show "enqueue_workspace_event True (sample_db Ready) (\<lambda>t. []) (\<lambda>i. ''d'' @ i) 3 ''e1'' [] ?o2 = Inr ([hook_delivery], hook_outbox)"
      by code_simp
  qed (simp_all add: inj_def)
  from outbox_history.step [OF h2 this]
  have h3: "outbox_history [] hook_outbox"
    by simp
  obtain rs ob' ps where d: "drain_due hook_world (\<lambda>i. hook_env) (sample_db Ready) 4 10 hook_outbox = (rs, ob', ps)"
    by (metis prod.exhaust)
  have "map cd_id (filter (attempted hook_outbox) [hook_delivery]) = [''ds1'']"
    by code_simp
  then show ?thesis
    using outbox_history.step [OF h3 outbox_step.drain [OF d]] by (simp add: hook_due d)
qed

theorem callback_attempts_bounded_witness:
  "let ob = fst (snd (drain_due hook_world (\<lambda>i. hook_env) (sample_db Ready) 4 10 hook_outbox)) in
   list_all (\<lambda>d. int (count_list [''ds1''] (cd_id d)) = cd_attempt_count d \<and> cd_attempt_count d \<le> cd_max_attempts d) (ob_deliveries ob)"
  using callback_attempts_bounded [OF hook_history] by (simp add: Let_def list_all_iff)

end
