(* ===== verification/Target_Branch.thy ===== *)
theory Target_Branch
  imports Staleness
begin

text \<open>
  Reconciliation of a target branch after a merge (\<open>service/target_branch_monitor.py\<close>): the checkout is brought up to date, resolvers may
  generate a repair that is committed and pushed, and the staleness of the open candidates of the branch is refreshed.  Commands are run by a
  parameter that sees the commands run before; every operation returns the log of the commands it ran.  The database part threads the
  tables through the candidates.
\<close>

section \<open>Commands\<close>

record CommandResult =
  cr_returncode :: int
  cr_stdout :: string
  cr_stderr :: string

type_synonym command = "string list"

datatype monitor_error = CommandFailed string CommandResult | NotACheckout string | NoGeneratedPath | NotBelowCheckout string | BadCount string

text \<open>An operation reads and extends the log of commands; \<open>Inl\<close> is the exception.\<close>

type_synonym 'a git = "command list \<Rightarrow> (monitor_error + 'a) \<times> command list"

type_synonym runner = "command list \<Rightarrow> command \<Rightarrow> CommandResult"

definition git_return :: "'a \<Rightarrow> 'a git" where
  "git_return x cmds = (Inr x, cmds)"

definition git_fail :: "monitor_error \<Rightarrow> 'a git" where
  "git_fail e cmds = (Inl e, cmds)"

definition git_bind :: "'a git \<Rightarrow> ('a \<Rightarrow> 'b git) \<Rightarrow> 'b git" where
  "git_bind m f cmds = (case m cmds of (Inl e, cmds') \<Rightarrow> (Inl e, cmds') | (Inr x, cmds') \<Rightarrow> f x cmds')"

definition run_raw :: "runner \<Rightarrow> command \<Rightarrow> CommandResult git" where
  "run_raw run args cmds = (Inr (run cmds args), cmds @ [args])"

definition run_command :: "runner \<Rightarrow> command \<Rightarrow> string \<Rightarrow> CommandResult git" where
  "run_command run args operation =
     git_bind (run_raw run args) (\<lambda>r. if cr_returncode r = 0 then git_return r else git_fail (CommandFailed operation r))"

definition run_git :: "runner \<Rightarrow> string \<Rightarrow> command \<Rightarrow> string \<Rightarrow> CommandResult git" where
  "run_git run cwd args operation = run_command run ([''git'', ''-C'', cwd] @ args) operation"

section \<open>The checkout\<close>

definition slug_char :: "char \<Rightarrow> bool" where
  "slug_char c = (is_alnum c \<or> c \<in> set ''_.-'')"

text \<open>A maximal run of other characters becomes one hyphen; \<open>r\<close> says that the run has been replaced already.\<close>

fun slug_sub :: "bool \<Rightarrow> string \<Rightarrow> string" where
  "slug_sub r [] = []"
| "slug_sub r (c # cs) = (if slug_char c then c # slug_sub False cs else if r then slug_sub True cs else CHR ''-'' # slug_sub True cs)"

definition strip_hyphens :: "string \<Rightarrow> string" where
  "strip_hyphens s = rev (dropWhile (\<lambda>c. c = CHR ''-'') (rev (dropWhile (\<lambda>c. c = CHR ''-'') s)))"

definition slugify_repo :: "string \<Rightarrow> string" where
  "slugify_repo url =
     (let tail = last (py_split (CHR ''/'') (rstrip_slash url));
          tail' = (if endswith tail ''.git'' then take (length tail - 4) tail else tail);
          s = slug_sub False tail' in
      if s = [] then ''repo'' else s)"

definition slugify_branch :: "string \<Rightarrow> string" where
  "slugify_branch b = (let s = strip_hyphens (slug_sub False b) in if s = [] then ''branch'' else s)"

text \<open>\<open>digest\<close> is the hexadecimal SHA-256 digest.\<close>

definition checkout_path :: "(string \<Rightarrow> string) \<Rightarrow> string \<Rightarrow> string \<Rightarrow> string \<Rightarrow> string" where
  "checkout_path digest work_dir url b =
     work_dir @ ''/target-branches/'' @ slugify_repo url @ ''-'' @ take 12 (digest url) @ ''-'' @ slugify_branch b"

text \<open>\<open>exists\<close> and \<open>has_git\<close> say what is on disk at the path of the checkout.\<close>

definition prepare_checkout :: "runner \<Rightarrow> bool \<Rightarrow> bool \<Rightarrow> string \<Rightarrow> string \<Rightarrow> string \<Rightarrow> unit git" where
  "prepare_checkout run exists has_git url b path =
     (if exists \<and> \<not> has_git then git_fail (NotACheckout path)
      else if has_git then
        git_bind (run_git run path [''fetch'', ''origin'', b, ''--prune''] ''target_branch.git_fetch'') (\<lambda>_.
        git_bind (run_git run path [''checkout'', b] ''target_branch.git_checkout'') (\<lambda>_.
        git_bind (run_git run path [''reset'', ''--hard'', ''origin/'' @ b] ''target_branch.git_reset'') (\<lambda>_.
        git_bind (run_git run path [''clean'', ''-fd''] ''target_branch.git_clean'') (\<lambda>_. git_return ()))))
      else
        git_bind (run_command run [''git'', ''clone'', ''--branch'', b, ''--single-branch'', url, path] ''target_branch.git_clone'') (\<lambda>_. git_return ()))"

section \<open>Reconciliation\<close>

record AlembicResolveResult =
  ar_resolved :: bool
  ar_generated_path :: "string option"
  ar_generated_path_relative :: "string option"

definition ar_changed :: "AlembicResolveResult \<Rightarrow> bool" where
  "ar_changed r = (ar_resolved r \<and> ar_generated_path r \<noteq> None)"

definition generated_relative_path :: "string \<Rightarrow> AlembicResolveResult \<Rightarrow> monitor_error + string" where
  "generated_relative_path checkout r =
     (case ar_generated_path_relative r of
        Some p \<Rightarrow> Inr p
      | None \<Rightarrow>
          (case ar_generated_path r of
             None \<Rightarrow> Inl NoGeneratedPath
           | Some p \<Rightarrow> if p = checkout then Inr ''.'' else if startswith p (checkout @ ''/'') then Inr (drop (length checkout + 1) p) else Inl (NotBelowCheckout p)))"

fun generated_paths :: "string \<Rightarrow> AlembicResolveResult list \<Rightarrow> monitor_error + string list" where
  "generated_paths checkout [] = Inr []"
| "generated_paths checkout (r # rs) =
     (if \<not> ar_changed r then generated_paths checkout rs
      else (case generated_relative_path checkout r of Inl e \<Rightarrow> Inl e | Inr p \<Rightarrow> map_sum id (Cons p) (generated_paths checkout rs)))"

datatype TargetBranchMonitorStatus = Clean | WouldCommit | PolicyBlocked | Committed

record TargetBranchMonitorResult =
  tm_repo_url :: string
  tm_branch :: string
  tm_checkout_path :: string
  tm_status :: TargetBranchMonitorStatus
  tm_resolver_results :: "AlembicResolveResult list"
  tm_commit_sha :: "string option"
  tm_pushed :: bool
  tm_changed_paths :: "string list"
  tm_dry_run :: bool
  tm_commit_allowed :: bool
  tm_policy_reason_code :: "string option"

definition monitor_result :: "string \<Rightarrow> string \<Rightarrow> string \<Rightarrow> bool \<Rightarrow> AlembicResolveResult list \<Rightarrow> TargetBranchMonitorStatus \<Rightarrow> TargetBranchMonitorResult" where
  "monitor_result url b path allow rs st =
     \<lparr>tm_repo_url = url, tm_branch = b, tm_checkout_path = path, tm_status = st, tm_resolver_results = rs, tm_commit_sha = None, tm_pushed = False,
      tm_changed_paths = [], tm_dry_run = False, tm_commit_allowed = allow, tm_policy_reason_code = None\<rparr>"

definition push_command :: "string \<Rightarrow> string \<Rightarrow> command" where
  "push_command path b = [''git'', ''-C'', path, ''push'', ''origin'', ''HEAD:'' @ b]"

definition commit_args :: "string \<Rightarrow> command" where
  "commit_args b =
     [''-m'', ''fix(migrations): merge Alembic heads on '' @ b, ''-m'',
      ''AWF detected multiple Alembic heads after integrating parallel workspace PRs and generated a merge revision.'']"

definition commit_and_push :: "runner \<Rightarrow> string \<Rightarrow> string \<Rightarrow> string git" where
  "commit_and_push run path b =
     git_bind (run_git run path (''commit'' # commit_args b) ''target_branch.git_commit'') (\<lambda>_.
     git_bind (run_git run path [''rev-parse'', ''HEAD''] ''target_branch.rev_parse'') (\<lambda>c.
     git_bind (run_command run (push_command path b) ''target_branch.git_push'') (\<lambda>_. git_return (cr_stdout c))))"

text \<open>\<open>resolve\<close> are the resolvers applied to the checkout.\<close>

definition publish_repair :: "runner \<Rightarrow> (string \<Rightarrow> AlembicResolveResult list) \<Rightarrow> bool \<Rightarrow> string \<Rightarrow> string \<Rightarrow> string \<Rightarrow> bool \<Rightarrow> TargetBranchMonitorResult git" where
  "publish_repair run resolve allow path url b dry_run =
     (let rs = resolve path; result = monitor_result url b path allow rs in
      case generated_paths path rs of
        Inl e \<Rightarrow> git_fail e
      | Inr paths \<Rightarrow>
          if paths = [] then git_return ((result Clean)\<lparr>tm_dry_run := dry_run\<rparr>)
          else if dry_run then
            git_return ((result WouldCommit)\<lparr>tm_changed_paths := paths, tm_dry_run := True, tm_policy_reason_code := Some ''TARGET_BRANCH_DRY_RUN''\<rparr>)
          else if \<not> allow then
            git_return ((result PolicyBlocked)\<lparr>tm_changed_paths := paths, tm_policy_reason_code := Some ''TARGET_BRANCH_COMMIT_POLICY_DENIED''\<rparr>)
          else
            git_bind (run_git run path ([''add'', ''--''] @ paths) ''target_branch.git_add'') (\<lambda>_.
            git_bind (run_raw run [''git'', ''-C'', path, ''diff'', ''--cached'', ''--quiet'']) (\<lambda>staged.
              if cr_returncode staged = 0 then git_return ((result Clean)\<lparr>tm_changed_paths := paths\<rparr>)
              else if cr_returncode staged \<noteq> 1 then git_fail (CommandFailed ''target_branch.git_diff_cached'' staged)
              else git_bind (commit_and_push run path b) (\<lambda>sha.
                git_return ((result Committed)\<lparr>tm_changed_paths := paths, tm_pushed := True,
                  tm_commit_sha := (if py_strip sha = [] then None else Some (py_strip sha))\<rparr>)))))"

text \<open>\<open>exists\<close> and \<open>has_git\<close> are the file-system tests at a path.\<close>

definition reconcile ::
    "(string \<Rightarrow> string) \<Rightarrow> string \<Rightarrow> runner \<Rightarrow> (string \<Rightarrow> AlembicResolveResult list) \<Rightarrow> (string \<Rightarrow> bool) \<Rightarrow> (string \<Rightarrow> bool) \<Rightarrow> bool \<Rightarrow> string \<Rightarrow> string \<Rightarrow> bool
     \<Rightarrow> TargetBranchMonitorResult git" where
  "reconcile digest work_dir run resolve exists has_git allow url b dry_run =
     (let path = checkout_path digest work_dir url b in
      git_bind (prepare_checkout run (exists path) (has_git path) url b path) (\<lambda>_. publish_repair run resolve allow path url b dry_run))"

section \<open>The state of the target branch\<close>

definition output_lines :: "string \<Rightarrow> string list" where
  "output_lines out = filter (\<lambda>l. l \<noteq> []) (py_split (CHR 10) (py_strip out))"

text \<open>The head is asked for once; \<open>head\<close> is the cached answer, and the result comes with the new one.\<close>

definition fetch_state :: "runner \<Rightarrow> string \<Rightarrow> string option \<Rightarrow> string \<Rightarrow> string \<Rightarrow> (TargetBranchState \<times> string option) git" where
  "fetch_state run path head b base =
     git_bind (case head of
         Some h \<Rightarrow> git_return h
       | None \<Rightarrow> git_bind (run_git run path [''rev-parse'', ''HEAD''] ''target_branch_state.rev_parse'') (\<lambda>r. git_return (py_strip (cr_stdout r)))) (\<lambda>h.
     git_bind (run_git run path [''rev-list'', ''--count'', base @ ''..HEAD''] ''target_branch_state.rev_list'') (\<lambda>c.
       case py_int (py_strip (cr_stdout c)) of
         None \<Rightarrow> git_fail (BadCount (cr_stdout c))
       | Some n \<Rightarrow>
           git_bind (run_git run path [''diff'', ''--name-only'', base @ ''..HEAD''] ''target_branch_state.diff_name_only'') (\<lambda>d.
             git_return (\<lparr>tb_branch = b, tb_head_sha = h, tb_changed_paths = output_lines (cr_stdout d), tb_advanced_commits = n\<rparr>, Some h))))"

section \<open>Refreshing the candidates\<close>

record CandidateRefreshSummary =
  su_candidate_id :: string
  su_workspace_id :: string
  su_stale :: bool
  su_findings_count :: nat
  su_stale_reason :: "string option"
  su_error :: "string option"

definition summary_stale_reason :: "StalenessFinding list \<Rightarrow> string option \<Rightarrow> string option" where
  "summary_stale_reason fs fallback = (case fs of [] \<Rightarrow> fallback | f # _ \<Rightarrow> Some (sf_reason_code f))"

text \<open>The row as it is stored when the summary is written; the session keeps one object per row.\<close>

definition current_row :: "database \<Rightarrow> MergeCandidate \<Rightarrow> MergeCandidate" where
  "current_row db c = (case find (\<lambda>d. mc_id d = mc_id c) (candidates db) of None \<Rightarrow> c | Some d \<Rightarrow> d)"

definition unrefreshed :: "MergeCandidate \<Rightarrow> string option \<Rightarrow> CandidateRefreshSummary" where
  "unrefreshed c e =
     \<lparr>su_candidate_id = mc_id c, su_workspace_id = mc_workspace_id c, su_stale = stale c, su_findings_count = 0, su_stale_reason = stale_reason c,
      su_error = map_option (take 1000) e\<rparr>"

text \<open>
  What the loop carries: the tables, the target states found so far by base, and how often the state was asked for.
\<close>

record refresh_state =
  rs_db :: database
  rs_stale :: "StaleReason list"
  rs_targets :: "(string \<times> TargetBranchState) list"
  rs_calls :: nat

text \<open>
  \<open>ask n base\<close> is the \<open>n\<close>-th call of \<open>target_state_for_base_sha\<close>, or the text of its exception; \<open>show\<close> prints the errors of the refresh service.
\<close>

definition target_for :: "(nat \<Rightarrow> string \<Rightarrow> string + TargetBranchState) \<Rightarrow> string \<Rightarrow> refresh_state \<Rightarrow> (string + TargetBranchState) \<times> refresh_state" where
  "target_for ask base s =
     (case map_of (rs_targets s) base of
        Some t \<Rightarrow> (Inr t, s)
      | None \<Rightarrow>
          (case ask (rs_calls s) base of
             Inl e \<Rightarrow> (Inl e, s\<lparr>rs_calls := rs_calls s + 1\<rparr>)
           | Inr t \<Rightarrow> (Inr t, s\<lparr>rs_calls := rs_calls s + 1, rs_targets := (base, t) # rs_targets s\<rparr>)))"

definition refresh_one ::
    "(string \<Rightarrow> nat \<Rightarrow> string) \<Rightarrow> (instant \<Rightarrow> string) \<Rightarrow> (StalenessRefreshError \<Rightarrow> string) \<Rightarrow> instant \<Rightarrow> (nat \<Rightarrow> string \<Rightarrow> string + TargetBranchState)
     \<Rightarrow> MergeCandidate \<Rightarrow> refresh_state \<Rightarrow> CandidateRefreshSummary \<times> refresh_state" where
  "refresh_one ids fmt explain now ask c0 s =
     (let c = current_row (rs_db s) c0 in
      case mc_base_sha c of
        None \<Rightarrow> (unrefreshed c None, s)
      | Some base \<Rightarrow>
          (case target_for ask base s of
             (Inl e, s1) \<Rightarrow> (unrefreshed c (Some e), s1)
           | (Inr t, s1) \<Rightarrow>
               (case refresh_candidate (ids (mc_id c)) fmt now DEFAULT_STALE_POLICY None (mc_id c) (Some t) (rs_db s1) (rs_stale s1) of
                  Inl e \<Rightarrow> (unrefreshed c (Some (explain e)), s1)
                | Inr (res, db', tab') \<Rightarrow>
                    (\<lparr>su_candidate_id = mc_id c, su_workspace_id = mc_workspace_id c, su_stale = rr_stale res, su_findings_count = length (rr_findings res),
                      su_stale_reason = summary_stale_reason (rr_findings res) (stale_reason (current_row db' c)), su_error = None\<rparr>,
                     s1\<lparr>rs_db := db', rs_stale := tab'\<rparr>))))"

fun refresh_all ::
    "(string \<Rightarrow> nat \<Rightarrow> string) \<Rightarrow> (instant \<Rightarrow> string) \<Rightarrow> (StalenessRefreshError \<Rightarrow> string) \<Rightarrow> instant \<Rightarrow> (nat \<Rightarrow> string \<Rightarrow> string + TargetBranchState)
     \<Rightarrow> string list \<Rightarrow> MergeCandidate list \<Rightarrow> refresh_state \<Rightarrow> CandidateRefreshSummary list \<times> refresh_state" where
  "refresh_all ids fmt explain now ask excluded [] s = ([], s)"
| "refresh_all ids fmt explain now ask excluded (c # cs) s =
     (if mc_workspace_id c \<in> set excluded then refresh_all ids fmt explain now ask excluded cs s
      else let (x, s1) = refresh_one ids fmt explain now ask c s; (xs, s2) = refresh_all ids fmt explain now ask excluded cs s1 in (x # xs, s2))"

text \<open>The default page of \<open>list_queue\<close> has fifty rows.\<close>

definition lane_page :: "database \<Rightarrow> string \<Rightarrow> string \<Rightarrow> LoadedCandidate list" where
  "lane_page db url b = list_queue db \<lparr>qf_repo_url = Some url, qf_base_branch = Some b, qf_status = None\<rparr> None None 50"

definition refresh_stale_candidates ::
    "(string \<Rightarrow> nat \<Rightarrow> string) \<Rightarrow> (instant \<Rightarrow> string) \<Rightarrow> (StalenessRefreshError \<Rightarrow> string) \<Rightarrow> instant \<Rightarrow> (nat \<Rightarrow> string \<Rightarrow> string + TargetBranchState)
     \<Rightarrow> string list \<Rightarrow> string \<Rightarrow> string \<Rightarrow> database \<Rightarrow> StaleReason list \<Rightarrow> CandidateRefreshSummary list \<times> database \<times> StaleReason list" where
  "refresh_stale_candidates ids fmt explain now ask excluded url b db tab =
     (let (xs, s) = refresh_all ids fmt explain now ask excluded (map lc_row (lane_page db url b))
                      \<lparr>rs_db = db, rs_stale = tab, rs_targets = [], rs_calls = 0\<rparr> in
      (xs, rs_db s, rs_stale s))"

text \<open>A reconciliation that raises leaves the tables alone.\<close>

definition reconcile_and_refresh_stale_candidates ::
    "(string \<Rightarrow> nat \<Rightarrow> string) \<Rightarrow> (instant \<Rightarrow> string) \<Rightarrow> (StalenessRefreshError \<Rightarrow> string) \<Rightarrow> instant \<Rightarrow> (nat \<Rightarrow> string \<Rightarrow> string + TargetBranchState)
     \<Rightarrow> string list \<Rightarrow> string \<Rightarrow> string \<Rightarrow> monitor_error + TargetBranchMonitorResult \<Rightarrow> database \<Rightarrow> StaleReason list
     \<Rightarrow> (monitor_error + TargetBranchMonitorResult \<times> CandidateRefreshSummary list) \<times> database \<times> StaleReason list" where
  "reconcile_and_refresh_stale_candidates ids fmt explain now ask excluded url b reconciled db tab =
     (case reconciled of
        Inl e \<Rightarrow> (Inl e, db, tab)
      | Inr m \<Rightarrow> (case refresh_stale_candidates ids fmt explain now ask excluded url b db tab of (xs, db', tab') \<Rightarrow> (Inr (m, xs), db', tab')))"

end
