(* ===== verification/Target_Branch_Properties.thy ===== *)
theory Target_Branch_Properties
  imports Target_Branch Staleness_Properties Transition_Facts
begin

text \<open>
  What a reconciliation may push, which candidates a refresh after a merge reaches, and two places where the code falls short: the
  checkout directories of two branches may coincide, and only the first page of candidates is refreshed.
\<close>

section \<open>Commands\<close>

lemma run_command_eq:
  "run_command run args operation cmds
    = (if cr_returncode (run cmds args) = 0 then Inr (run cmds args) else Inl (CommandFailed operation (run cmds args)), cmds @ [args])"
  by (simp add: run_command_def git_bind_def run_raw_def git_return_def git_fail_def)

lemma bind_run:
  "git_bind (run_command run args operation) f cmds
    = (if cr_returncode (run cmds args) = 0 then f (run cmds args) (cmds @ [args]) else (Inl (CommandFailed operation (run cmds args)), cmds @ [args]))"
  by (simp add: git_bind_def run_command_eq)

lemma bind_raw: "git_bind (run_raw run args) f cmds = f (run cmds args) (cmds @ [args])"
  by (simp add: git_bind_def run_raw_def)

lemma bind_assoc: "git_bind (git_bind m f) g = git_bind m (\<lambda>x. git_bind (f x) g)"
  by (simp add: git_bind_def fun_eq_iff split: prod.splits sum.splits)

lemma bind_return: "git_bind (git_return x) f = f x"
  by (simp add: git_bind_def git_return_def fun_eq_iff)

lemmas git_steps = run_git_def bind_assoc bind_return bind_run bind_raw git_return_def git_fail_def

text \<open>Whatever an operation does to the log, it appends commands; \<open>adds P m\<close> says all of them satisfy \<open>P\<close>.\<close>

definition adds :: "(command \<Rightarrow> bool) \<Rightarrow> 'a git \<Rightarrow> bool" where
  "adds P m = (\<forall>cmds. \<exists>l. snd (m cmds) = cmds @ l \<and> list_all P l)"

lemma adds_return: "adds P (git_return x)" "adds P (git_fail e)"
  by (simp_all add: adds_def git_return_def git_fail_def)

lemma adds_run: "P args \<Longrightarrow> adds P (run_command run args operation)"
  by (simp add: adds_def run_command_eq)

lemma adds_raw: "P args \<Longrightarrow> adds P (run_raw run args)"
  by (simp add: adds_def run_raw_def)

lemma adds_bind:
  assumes "adds P m" "\<And>x. adds P (f x)"
  shows "adds P (git_bind m f)"
  unfolding adds_def
proof
  fix cmds
  obtain r cmds1 where m: "m cmds = (r, cmds1)"
    by fastforce
  obtain l where l: "cmds1 = cmds @ l" "list_all P l"
    using assms(1) m unfolding adds_def by (metis snd_conv)
  show "\<exists>l. snd (git_bind m f cmds) = cmds @ l \<and> list_all P l"
  proof (cases r)
    case (Inl e)
    then show ?thesis
      using m l by (simp add: git_bind_def)
  next
    case (Inr x)
    obtain l' where "snd (f x cmds1) = cmds1 @ l'" "list_all P l'"
      using assms(2) unfolding adds_def by blast
    then show ?thesis
      using Inr m l by (intro exI [of _ "l @ l'"]) (simp add: git_bind_def)
  qed
qed

definition not_push :: "command \<Rightarrow> bool" where
  "not_push args = (\<not> (\<exists>path b. args = push_command path b))"

lemma push_simps [simp]:
  "\<not> not_push (push_command path b)"
  "x \<noteq> ''push'' \<Longrightarrow> not_push (''git'' # ''-C'' # cwd # x # xs)"
  "x \<noteq> ''push'' \<Longrightarrow> push_command path b \<noteq> ''git'' # ''-C'' # cwd # x # xs"
  "x \<noteq> ''push'' \<Longrightarrow> ''git'' # ''-C'' # cwd # x # xs \<noteq> push_command path b"
  "not_push (''git'' # ''clone'' # xs)"
  by (auto simp: not_push_def push_command_def)

lemma prepare_adds: "adds not_push (prepare_checkout run exists has_git url b path)"
  unfolding prepare_checkout_def run_git_def by (auto intro!: adds_bind adds_run adds_return)

definition push_log :: "(command \<Rightarrow> bool) \<Rightarrow> command \<Rightarrow> command list \<Rightarrow> (monitor_error + TargetBranchMonitorResult) \<Rightarrow> bool" where
  "push_log ok push l r =
     ((\<forall>x \<in> set l. \<not> not_push x \<longrightarrow> x = push \<and> x = last l \<and> ok x)
      \<and> (case r of Inl e \<Rightarrow> True | Inr m \<Rightarrow> (tm_pushed m \<longleftrightarrow> push \<in> set l) \<and> (tm_pushed m \<longleftrightarrow> tm_status m = Committed)))"

lemma push_log_append:
  assumes "list_all not_push l1" "push_log ok (push_command path b) l2 r"
  shows "push_log ok (push_command path b) (l1 @ l2) r"
proof -
  have same: "push_command path b \<in> set (l1 @ l2) \<longleftrightarrow> push_command path b \<in> set l2"
    using assms(1) by (auto simp: list_all_iff)
  have "x = push_command path b \<and> x = last (l1 @ l2) \<and> ok x" if x: "x \<in> set (l1 @ l2)" "\<not> not_push x" for x
  proof -
    have "x \<in> set l2"
      using x assms(1) by (auto simp: list_all_iff)
    moreover from this have "last (l1 @ l2) = last l2"
      by (intro last_appendR) force
    ultimately show ?thesis
      using assms(2) x(2) unfolding push_log_def by simp
  qed
  then show ?thesis
    using assms(2) unfolding push_log_def same by blast
qed

lemma publish_log:
  "\<exists>l. snd (publish_repair run resolve allow path url b dry_run cmds) = cmds @ l
    \<and> push_log (\<lambda>x. allow \<and> \<not> dry_run \<and> (\<exists>p ps. generated_paths path (resolve path) = Inr (p # ps))) (push_command path b) l
        (fst (publish_repair run resolve allow path url b dry_run cmds))"
proof (cases "generated_paths path (resolve path)")
  case (Inr paths)
  show ?thesis
  proof (cases "paths = [] \<or> dry_run \<or> \<not> allow")
    case True
    then show ?thesis
      using Inr by (auto simp: publish_repair_def monitor_result_def push_log_def git_return_def Let_def)
  next
    case False
    then obtain p ps where "paths = p # ps"
      by (cases paths) auto
    then show ?thesis
      using False Inr
      by (simp add: publish_repair_def monitor_result_def push_log_def commit_and_push_def git_steps Let_def)
  qed
qed (simp add: publish_repair_def push_log_def git_fail_def Let_def)

lemma reconcile_log:
  fixes digest work_dir run resolve exists has_git allow url b dry_run cmds
  defines "path \<equiv> checkout_path digest work_dir url b"
  shows
  "\<exists>l. snd (reconcile digest work_dir run resolve exists has_git allow url b dry_run cmds) = cmds @ l
    \<and> push_log (\<lambda>x. allow \<and> \<not> dry_run \<and> (\<exists>p ps. generated_paths path (resolve path) = Inr (p # ps))) (push_command path b) l
        (fst (reconcile digest work_dir run resolve exists has_git allow url b dry_run cmds))"
proof -
  obtain r1 cmds1 where p: "prepare_checkout run (exists path) (has_git path) url b path cmds = (r1, cmds1)"
    by fastforce
  obtain l1 where l1: "cmds1 = cmds @ l1" "list_all not_push l1"
    using prepare_adds p unfolding adds_def by (metis snd_conv)
  show ?thesis
  proof (cases r1)
    case (Inl e)
    then show ?thesis
      using p l1 by (simp add: reconcile_def Let_def path_def [symmetric] git_bind_def list_all_iff push_log_def)
  next
    case (Inr u)
    have r: "reconcile digest work_dir run resolve exists has_git allow url b dry_run cmds = publish_repair run resolve allow path url b dry_run cmds1"
      using p Inr by (simp add: reconcile_def Let_def path_def [symmetric] git_bind_def)
    obtain l2 where l2: "snd (publish_repair run resolve allow path url b dry_run cmds1) = cmds1 @ l2"
      "push_log (\<lambda>x. allow \<and> \<not> dry_run \<and> (\<exists>p ps. generated_paths path (resolve path) = Inr (p # ps))) (push_command path b) l2
        (fst (publish_repair run resolve allow path url b dry_run cmds1))"
      using publish_log by blast
    from push_log_append [OF l1(2) l2(2)]
    show ?thesis
      using l1 l2(1) by (intro exI [of _ "l1 @ l2"]) (simp add: r)
  qed
qed

section \<open>Checkouts\<close>

lemma slug_sub_safe: "list_all slug_char (slug_sub r s)"
  by (induction r s rule: slug_sub.induct) (auto simp: slug_char_def)

lemma strip_hyphens_subset: "set (strip_hyphens s) \<subseteq> set s"
  by (auto simp: strip_hyphens_def dest!: set_dropWhileD)

text \<open>Whatever the names of the repository and the branch, the checkout is one directory directly below \<open>target-branches\<close>.\<close>

lemma checkout_stays_inside:
  assumes "\<And>u. CHR ''/'' \<notin> set (digest u)"
  shows "\<exists>d. checkout_path digest work_dir url b = work_dir @ ''/target-branches/'' @ d \<and> CHR ''/'' \<notin> set d \<and> d \<notin> {''.'', ''..''}"
proof -
  have "\<not> slug_char (CHR ''/'')"
    by code_simp
  then have safe: "CHR ''/'' \<notin> set (slug_sub False x)" for x
    using slug_sub_safe [of False x] by (auto simp: list_all_iff)
  have "CHR ''/'' \<notin> set (slugify_repo url)" "CHR ''/'' \<notin> set (slugify_branch b)"
    using safe strip_hyphens_subset by (auto simp: slugify_repo_def slugify_branch_def Let_def)
  moreover have "CHR ''/'' \<notin> set (take 12 (digest url))"
    using assms set_take_subset by fastforce
  moreover have other: "slugify_repo url @ ''-'' @ take 12 (digest url) @ ''-'' @ slugify_branch b \<noteq> x" if "CHR ''-'' \<notin> set x" for x
    using that by auto
  ultimately show ?thesis
    unfolding checkout_path_def using other [of "''.''"] other [of "''..''"]
    by (intro exI [of _ "slugify_repo url @ ''-'' @ take 12 (digest url) @ ''-'' @ slugify_branch b"]) simp
qed

text \<open>The branch name is not part of the digest: two branches that differ in a replaced character share their checkout.\<close>

lemma slug_sub_append: "p \<noteq> [] \<Longrightarrow> slug_char (last p) \<Longrightarrow> slug_sub r (p @ q) = slug_sub r p @ slug_sub False q"
  by (induction r p rule: slug_sub.induct) (auto split: if_splits)

lemma branches_share_checkout:
  assumes "p \<noteq> []" "slug_char (last p)" "q \<noteq> []" "slug_char (hd q)" "\<not> slug_char c"
  shows "checkout_path digest work_dir url (p @ [c] @ q) = checkout_path digest work_dir url (p @ ''-'' @ q)"
proof -
  have "slug_sub True q = slug_sub False q"
    using assms(3,4) by (cases q) simp_all
  then have "slug_sub False (p @ [c] @ q) = slug_sub False (p @ ''-'' @ q)"
    using assms by (simp add: slug_sub_append slug_char_def)
  then show ?thesis
    by (simp add: checkout_path_def slugify_branch_def)
qed

section \<open>Refreshing one candidate\<close>

text \<open>A loaded candidate is what the tables hold.\<close>

definition present :: "database \<Rightarrow> LoadedCandidate \<Rightarrow> bool" where
  "present db r =
     (lc_row r \<in> set (candidates db) \<and> find (\<lambda>a. at_id a = mc_attempt_id (lc_row r)) (attempts db) = Some (lc_attempt r)
      \<and> workspaces db (mc_workspace_id (lc_row r)) = Some (lc_workspace r))"

lemma load_rows_present: "r \<in> set (load_rows db) \<longleftrightarrow> present db r"
proof
  assume "r \<in> set (load_rows db)"
  then obtain c where c: "c \<in> set (candidates db)"
      "(case (find (\<lambda>a. at_id a = mc_attempt_id c) (attempts db), workspaces db (mc_workspace_id c)) of
         (Some a, Some w) \<Rightarrow> Some \<lparr>lc_row = c, lc_attempt = a, lc_workspace = w\<rparr> | _ \<Rightarrow> None) = Some r"
    unfolding load_rows_def set_map_filter by blast
  then show "present db r"
    by (cases "find (\<lambda>a. at_id a = mc_attempt_id c) (attempts db)"; cases "workspaces db (mc_workspace_id c)") (auto simp: present_def)
next
  assume "present db r"
  then show "r \<in> set (load_rows db)"
    unfolding load_rows_def set_map_filter present_def by (intro CollectI bexI [of _ "lc_row r"]) auto
qed

lemma load_present:
  assumes "distinct (map mc_id (candidates db))" "present db r"
  shows "load_candidate db (lc_id r) = Some r"
proof -
  obtain x where x: "load_candidate db (lc_id r) = Some x"
    using assms(2) load_rows_present [of r db] by (cases "load_candidate db (lc_id r)") (auto simp: load_candidate_def find_None_iff)
  then have p: "present db x" "mc_id (lc_row x) = mc_id (lc_row r)"
    using load_rows_present [of x db] by (auto simp: load_candidate_def find_Some_iff lc_id_def)
  then have "lc_row x = lc_row r"
    using assms by (auto simp: present_def distinct_map inj_on_def)
  then have "x = r"
    using p(1) assms(2) by (auto simp: present_def)
  then show ?thesis
    using x by simp
qed

definition refreshed_row :: "instant \<Rightarrow> TargetBranchState \<Rightarrow> LoadedCandidate \<Rightarrow> MergeCandidate" where
  "refreshed_row now t r =
     touch now (lc_row r) (mark_candidate_stale (lc_workspace r) (lc_attempt r)
       (primary_blocking_reason (evaluate_staleness DEFAULT_STALE_POLICY (snapshot_for r) t)) (lc_row r))"

lemma refreshed_key: "mc_id (refreshed_row now t r) = lc_id r"
  using mark_key [of now "lc_row r"] by (simp add: refreshed_row_def mc_key_def lc_id_def)

lemma refresh_run:
  assumes "load_candidate db cid = Some r"
  obtains res added tab' where "refresh_candidate ids fmt now DEFAULT_STALE_POLICY None cid (Some t) db tab
      = Inr (res, emit_events fmt r t added (put_candidate db (refreshed_row now t r)), tab')"
    "rr_findings res = evaluate_staleness DEFAULT_STALE_POLICY (snapshot_for r) t"
    "rr_stale res \<longleftrightarrow> primary_blocking_reason (rr_findings res) \<noteq> None"
proof -
  obtain tab' added resolved where out: "stale_replace_active_findings ids now (mc_workspace_id (lc_row r)) (mc_id (lc_row r)) (Some (mc_attempt_id (lc_row r)))
      (Some (mc_task_id (lc_row r))) (map finding_row (evaluate_staleness DEFAULT_STALE_POLICY (snapshot_for r) t)) tab = (tab', added, resolved)"
    using prod_cases3 by blast
  let ?fs = "evaluate_staleness DEFAULT_STALE_POLICY (snapshot_for r) t"
  let ?res = "\<lparr>rr_candidate_id = mc_id (lc_row r), rr_target = t, rr_findings = ?fs, rr_newly_added = added, rr_newly_resolved = resolved,
      rr_stale = (primary_blocking_reason ?fs \<noteq> None)\<rparr>"
  have "refresh_candidate ids fmt now DEFAULT_STALE_POLICY None cid (Some t) db tab
      = Inr (?res, emit_events fmt r t added (put_candidate db (refreshed_row now t r)), tab')"
    by (simp add: refresh_candidate_def assms Let_def out refreshed_row_def)
  then show thesis
    by (rule that) simp_all
qed

text \<open>What a step on candidate \<open>i\<close> of workspace \<open>w\<close> leaves alone.\<close>

definition only_touches :: "string \<Rightarrow> string \<Rightarrow> database \<Rightarrow> database \<Rightarrow> bool" where
  "only_touches i w db db' =
     (map mc_id (candidates db') = map mc_id (candidates db) \<and> (\<forall>c. mc_id c \<noteq> i \<longrightarrow> c \<in> set (candidates db') \<longleftrightarrow> c \<in> set (candidates db))
      \<and> attempts db' = attempts db \<and> (\<forall>v. v \<noteq> w \<longrightarrow> workspaces db' v = workspaces db v))"

lemma only_touches_refl: "only_touches i w db db"
  by (simp add: only_touches_def)

lemma present_frame:
  assumes "only_touches i w db db'" "present db r" "lc_id r \<noteq> i" "mc_workspace_id (lc_row r) \<noteq> w"
  shows "present db' r"
  using assms by (simp add: only_touches_def present_def lc_id_def)

lemma emit_touches:
  assumes "distinct (map mc_id (candidates db))" "present db r" "ws_id (lc_workspace r) = mc_workspace_id (lc_row r)"
  shows "only_touches (lc_id r) (mc_workspace_id (lc_row r)) db (emit_events fmt r t added (put_candidate db (refreshed_row now t r)))
    \<and> refreshed_row now t r \<in> set (candidates (emit_events fmt r t added (put_candidate db (refreshed_row now t r))))"
proof -
  have "ws_id (add_events es v) = ws_id v" for es v
    by simp
  then show ?thesis
    using assms refreshed_key [of now t r]
    by (auto simp: only_touches_def emit_events_def put_candidate_def put_workspace_def present_def lc_id_def image_iff)
qed


section \<open>Refreshing the page\<close>

lemma current_row_present:
  assumes "distinct (map mc_id (candidates db))" "lc_row r \<in> set (candidates db)"
  shows "current_row db (lc_row r) = lc_row r"
proof (cases "find (\<lambda>d. mc_id d = mc_id (lc_row r)) (candidates db)")
  case (Some d)
  then have "d \<in> set (candidates db)" "mc_id d = mc_id (lc_row r)"
    by (auto simp: find_Some_iff)
  then show ?thesis
    using Some assms by (simp add: current_row_def distinct_map inj_on_def)
qed (simp add: current_row_def)

text \<open>The states of the target found so far are the right ones.\<close>

definition known_targets :: "(string \<Rightarrow> TargetBranchState) \<Rightarrow> refresh_state \<Rightarrow> bool" where
  "known_targets target s = (\<forall>base t. map_of (rs_targets s) base = Some t \<longrightarrow> t = target base)"

text \<open>The row of a candidate after the refresh, and its summary.\<close>

definition row_after :: "instant \<Rightarrow> (string \<Rightarrow> TargetBranchState) \<Rightarrow> LoadedCandidate \<Rightarrow> MergeCandidate" where
  "row_after now target r = (case mc_base_sha (lc_row r) of None \<Rightarrow> lc_row r | Some base \<Rightarrow> refreshed_row now (target base) r)"

definition blocked_by :: "(string \<Rightarrow> TargetBranchState) \<Rightarrow> LoadedCandidate \<Rightarrow> bool" where
  "blocked_by target r =
     (case mc_base_sha (lc_row r) of
        None \<Rightarrow> stale (lc_row r)
      | Some base \<Rightarrow> moved (snapshot_for r) (target base) \<and> must_revalidate DEFAULT_STALE_POLICY (snapshot_for r) (target base))"

lemma target_for_known:
  assumes ask: "\<And>n base. ask n base = Inr (target base)" and "known_targets target s"
  obtains s1 where "known_targets target s1" "rs_db s1 = rs_db s" "rs_stale s1 = rs_stale s" "target_for ask base s = (Inr (target base), s1)"
proof (cases "map_of (rs_targets s) base")
  case None
  then show thesis
    using assms(2) by (intro that [of "s\<lparr>rs_calls := rs_calls s + 1, rs_targets := (base, target base) # rs_targets s\<rparr>"])
      (simp_all add: target_for_def ask known_targets_def)
next
  case (Some t)
  then show thesis
    using assms(2) by (intro that [of s]) (simp_all add: target_for_def known_targets_def)
qed

lemma refresh_one_ok:
  assumes ask: "\<And>n base. ask n base = Inr (target base)" and known: "known_targets target s"
    and d: "distinct (map mc_id (candidates (rs_db s)))" and p: "present (rs_db s) r" and w: "ws_id (lc_workspace r) = mc_workspace_id (lc_row r)"
  obtains x s' where "refresh_one ids fmt explain now ask (lc_row r) s = (x, s')" "known_targets target s'"
    "su_candidate_id x = lc_id r" "su_error x = None" "su_stale x \<longleftrightarrow> blocked_by target r"
    "only_touches (lc_id r) (mc_workspace_id (lc_row r)) (rs_db s) (rs_db s')" "row_after now target r \<in> set (candidates (rs_db s'))"
proof (cases "mc_base_sha (lc_row r)")
  case None
  then show thesis
    using p current_row_present [OF d, of r] known only_touches_refl
    by (intro that [of "unrefreshed (lc_row r) None" s])
      (simp_all add: refresh_one_def unrefreshed_def Let_def lc_id_def present_def row_after_def blocked_by_def)
next
  case (Some base)
  obtain s1 where s1: "known_targets target s1" "rs_db s1 = rs_db s" "rs_stale s1 = rs_stale s" "target_for ask base s = (Inr (target base), s1)"
    by (rule target_for_known [OF ask known])
  obtain res added tab' where run: "refresh_candidate (ids (lc_id r)) fmt now DEFAULT_STALE_POLICY None (lc_id r) (Some (target base)) (rs_db s) (rs_stale s)
      = Inr (res, emit_events fmt r (target base) added (put_candidate (rs_db s) (refreshed_row now (target base) r)), tab')"
    "rr_findings res = evaluate_staleness DEFAULT_STALE_POLICY (snapshot_for r) (target base)"
    "rr_stale res \<longleftrightarrow> primary_blocking_reason (rr_findings res) \<noteq> None"
    by (rule refresh_run [OF load_present [OF d p]])
  have c: "current_row (rs_db s) (lc_row r) = lc_row r"
    by (rule current_row_present [OF d]) (use p in \<open>simp add: present_def\<close>)
  note touched = emit_touches [OF d p w, of fmt "target base" added now]
  have one: "refresh_one ids fmt explain now ask (lc_row r) s
      = (\<lparr>su_candidate_id = lc_id r, su_workspace_id = mc_workspace_id (lc_row r), su_stale = rr_stale res, su_findings_count = length (rr_findings res),
           su_stale_reason = summary_stale_reason (rr_findings res)
             (stale_reason (current_row (emit_events fmt r (target base) added (put_candidate (rs_db s) (refreshed_row now (target base) r))) (lc_row r))),
           su_error = None\<rparr>,
         s1\<lparr>rs_db := emit_events fmt r (target base) added (put_candidate (rs_db s) (refreshed_row now (target base) r)), rs_stale := tab'\<rparr>)"
    by (simp add: refresh_one_def c Some s1 run(1) [unfolded lc_id_def] lc_id_def Let_def)
  show thesis
    by (rule that [OF one]) (use s1(1) touched in \<open>simp_all add: known_targets_def row_after_def blocked_by_def Some run(2,3) primary_reason_None evaluate_blocking\<close>)
qed


lemma distinct_tail: "distinct (map f (x # xs)) \<Longrightarrow> y \<in> set xs \<Longrightarrow> f y \<noteq> f x"
  by (metis distinct.simps(2) imageI list.set_map list.simps(9))

lemma refresh_all_ok:
  fixes excluded :: "string list"
  assumes ask: "\<And>n base. ask n base = Inr (target base)" and "known_targets target s" "distinct (map mc_id (candidates (rs_db s)))"
    and "\<forall>r \<in> set rs. present (rs_db s) r \<and> ws_id (lc_workspace r) = mc_workspace_id (lc_row r)"
    and "distinct (map lc_id rs)" "distinct (map (\<lambda>r. mc_workspace_id (lc_row r)) rs)"
  defines "todo \<equiv> filter (\<lambda>r. mc_workspace_id (lc_row r) \<notin> set excluded) rs"
  shows "\<exists>xs s'. refresh_all ids fmt explain now ask excluded (map lc_row rs) s = (xs, s')
    \<and> map (\<lambda>x. (su_candidate_id x, su_stale x, su_error x)) xs = map (\<lambda>r. (lc_id r, blocked_by target r, None)) todo
    \<and> map mc_id (candidates (rs_db s')) = map mc_id (candidates (rs_db s))
    \<and> (\<forall>r \<in> set todo. row_after now target r \<in> set (candidates (rs_db s')))
    \<and> (\<forall>c. mc_id c \<notin> lc_id ` set todo \<longrightarrow> c \<in> set (candidates (rs_db s')) \<longleftrightarrow> c \<in> set (candidates (rs_db s)))"
  using assms(2-6) unfolding todo_def
proof (induction rs arbitrary: s)
  case (Cons r rs)
  show ?case
  proof (cases "mc_workspace_id (lc_row r) \<in> set excluded")
    case True
    with Cons.IH [of s] Cons.prems show ?thesis
      by simp
  next
    case False
    have here: "present (rs_db s) r" "ws_id (lc_workspace r) = mc_workspace_id (lc_row r)"
      using Cons.prems(3) by simp_all
    obtain x s1 where one: "refresh_one ids fmt explain now ask (lc_row r) s = (x, s1)" "known_targets target s1"
      "su_candidate_id x = lc_id r" "su_error x = None" "su_stale x \<longleftrightarrow> blocked_by target r"
      and t: "only_touches (lc_id r) (mc_workspace_id (lc_row r)) (rs_db s) (rs_db s1)" and row: "row_after now target r \<in> set (candidates (rs_db s1))"
      by (rule refresh_one_ok [OF ask Cons.prems(1,2) here])
    have "present (rs_db s1) q \<and> ws_id (lc_workspace q) = mc_workspace_id (lc_row q)" if q: "q \<in> set rs" for q
    proof -
      have "lc_id q \<noteq> lc_id r"
        by (rule distinct_tail [OF Cons.prems(4) q])
      moreover have "mc_workspace_id (lc_row q) \<noteq> mc_workspace_id (lc_row r)"
        by (rule distinct_tail [OF Cons.prems(5) q])
      ultimately show ?thesis
        using present_frame [OF t] Cons.prems(3) q by simp
    qed
    moreover have same: "map mc_id (candidates (rs_db s1)) = map mc_id (candidates (rs_db s))"
      "\<And>c. mc_id c \<noteq> lc_id r \<Longrightarrow> c \<in> set (candidates (rs_db s1)) \<longleftrightarrow> c \<in> set (candidates (rs_db s))"
      using t by (simp_all add: only_touches_def)
    ultimately obtain xs s' where all: "refresh_all ids fmt explain now ask excluded (map lc_row rs) s1 = (xs, s')"
        "map (\<lambda>x. (su_candidate_id x, su_stale x, su_error x)) xs
          = map (\<lambda>r. (lc_id r, blocked_by target r, None)) (filter (\<lambda>r. mc_workspace_id (lc_row r) \<notin> set excluded) rs)"
        "map mc_id (candidates (rs_db s')) = map mc_id (candidates (rs_db s1))"
        "\<forall>r \<in> set (filter (\<lambda>r. mc_workspace_id (lc_row r) \<notin> set excluded) rs). row_after now target r \<in> set (candidates (rs_db s'))"
        "\<forall>c. mc_id c \<notin> lc_id ` set (filter (\<lambda>r. mc_workspace_id (lc_row r) \<notin> set excluded) rs) \<longrightarrow>
          c \<in> set (candidates (rs_db s')) \<longleftrightarrow> c \<in> set (candidates (rs_db s1))"
      using Cons.IH [of s1] one(2) Cons.prems(2,4,5) by auto
    have "mc_id (row_after now target r) = lc_id r"
      by (simp add: row_after_def refreshed_key lc_id_def split: option.split)
    moreover have "lc_id r \<notin> lc_id ` set (filter (\<lambda>r. mc_workspace_id (lc_row r) \<notin> set excluded) rs)"
    proof
      assume "lc_id r \<in> lc_id ` set (filter (\<lambda>r. mc_workspace_id (lc_row r) \<notin> set excluded) rs)"
      then obtain q where "q \<in> set rs" "lc_id q = lc_id r"
        by auto
      then show False
        using distinct_tail [OF Cons.prems(4)] by simp
    qed
    ultimately have "row_after now target r \<in> set (candidates (rs_db s'))"
      using all(5) row by simp
    then show ?thesis
      using False one all same by (simp)
  qed
qed simp


lemma distinct_map_filter:
  assumes "\<And>x y. g x = Some y \<Longrightarrow> h y = f x"
  shows "distinct (map f xs) \<Longrightarrow> distinct (map h (List.map_filter g xs)) \<and> h ` set (List.map_filter g xs) \<subseteq> f ` set xs"
  using assms by (induction xs) (auto simp: List.map_filter_simps split: option.split)

lemma load_rows_distinct:
  assumes "distinct (map mc_id (candidates db))"
  shows "distinct (map lc_id (load_rows db))"
  unfolding load_rows_def
  by (rule distinct_map_filter [THEN conjunct1, OF _ assms]) (auto simp: lc_id_def split: option.splits)

lemma sort_desc_set [simp]: "set (sort_desc k xs) = set xs" "length (sort_desc k xs) = length xs"
  by (simp_all add: sort_desc_def)

lemma sort_desc_map_distinct: "distinct (map f xs) \<Longrightarrow> distinct (map f (sort_desc k xs))"
  by (simp add: sort_desc_def distinct_map)

text \<open>The open candidates of the lane.\<close>

definition lane_rows :: "database \<Rightarrow> string \<Rightarrow> string \<Rightarrow> LoadedCandidate list" where
  "lane_rows db url b = filter (queue_candidate \<lparr>qf_repo_url = Some url, qf_base_branch = Some b, qf_status = None\<rparr>) (load_rows db)"

lemma lane_page_eq: "lane_page db url b = take 50 (sort_desc (\<lambda>c. recency (lc_workspace c)) (lane_rows db url b))"
  by (simp add: lane_page_def list_queue_def before_cursor_def lane_rows_def)

lemma lane_page_set: "set (lane_page db url b) \<subseteq> set (lane_rows db url b)"
  unfolding lane_page_eq using set_take_subset by fastforce

lemma lane_page_distinct:
  assumes "distinct (map mc_id (candidates db))"
  shows "distinct (map lc_id (lane_page db url b))"
proof -
  have "distinct (map lc_id (lane_rows db url b))"
    using load_rows_distinct [OF assms] by (simp add: lane_rows_def distinct_map inj_on_def)
  then show ?thesis
    unfolding lane_page_eq take_map [symmetric] by (intro distinct_take sort_desc_map_distinct)
qed


lemma refresh_stale_run:
  fixes excluded :: "string list"
  assumes ask: "\<And>n base. ask n base = Inr (target base)" and keys: "distinct (map mc_id (candidates db))" "db_keys_ok db"
    and spaces: "distinct (map (\<lambda>r. mc_workspace_id (lc_row r)) (lane_page db url b))"
  defines "todo \<equiv> filter (\<lambda>r. mc_workspace_id (lc_row r) \<notin> set excluded) (lane_page db url b)"
  obtains xs db' tab' where "refresh_stale_candidates ids fmt explain now ask excluded url b db tab = (xs, db', tab')"
    "map (\<lambda>x. (su_candidate_id x, su_stale x, su_error x)) xs = map (\<lambda>r. (lc_id r, blocked_by target r, None)) todo"
    "map mc_id (candidates db') = map mc_id (candidates db)"
    "\<forall>r \<in> set todo. row_after now target r \<in> set (candidates db')"
    "\<forall>c. mc_id c \<notin> lc_id ` set todo \<longrightarrow> c \<in> set (candidates db') \<longleftrightarrow> c \<in> set (candidates db)"
proof -
  let ?s = "\<lparr>rs_db = db, rs_stale = tab, rs_targets = [], rs_calls = 0\<rparr>"
  have "\<forall>r \<in> set (lane_page db url b). present (rs_db ?s) r \<and> ws_id (lc_workspace r) = mc_workspace_id (lc_row r)"
    using lane_page_set [of db url b] keys(2) by (auto simp: lane_rows_def load_rows_present present_def db_keys_ok_def)
  moreover have "known_targets target ?s" "distinct (map mc_id (candidates (rs_db ?s)))"
    using keys(1) by (simp_all add: known_targets_def)
  ultimately obtain xs s' where run: "refresh_all ids fmt explain now ask excluded (map lc_row (lane_page db url b)) ?s = (xs, s')"
    "map (\<lambda>x. (su_candidate_id x, su_stale x, su_error x)) xs = map (\<lambda>r. (lc_id r, blocked_by target r, None)) todo"
    "map mc_id (candidates (rs_db s')) = map mc_id (candidates (rs_db ?s))"
    "\<forall>r \<in> set todo. row_after now target r \<in> set (candidates (rs_db s'))"
    "\<forall>c. mc_id c \<notin> lc_id ` set todo \<longrightarrow> c \<in> set (candidates (rs_db s')) \<longleftrightarrow> c \<in> set (candidates (rs_db ?s))"
    using refresh_all_ok [where ask = ask and target = target and s = ?s and excluded = excluded and ids = ids and fmt = fmt and explain = explain and now = now,
        OF ask _ _ _ lane_page_distinct [OF keys(1)] spaces] unfolding todo_def by blast
  show thesis
    by (rule that [of xs "rs_db s'" "rs_stale s'"]) (use run in \<open>simp_all add: refresh_stale_candidates_def\<close>)
qed

lemma row_after_flags:
  assumes "r \<in> set (lane_rows db url b)" "mc_base_sha (lc_row r) = Some base" "status (lc_workspace r) \<noteq> Completed"
  shows "stale (row_after now target r) \<longleftrightarrow> blocked_by target r \<or> fst (compute_stale_reason (lc_workspace r)) \<noteq> None"
    and "ready (row_after now target r) \<Longrightarrow> \<not> blocked_by target r"
proof -
  have "mc_status (lc_row r) \<noteq> Merged"
    using assms(1) by (simp add: lane_rows_def queue_candidate_def)
  note flags = marked_flags [OF this assms(3), of "lc_attempt r" "primary_blocking_reason (evaluate_staleness DEFAULT_STALE_POLICY (snapshot_for r) (target base))"]
  have reason: "primary_blocking_reason (evaluate_staleness DEFAULT_STALE_POLICY (snapshot_for r) (target base)) \<noteq> None \<longleftrightarrow> blocked_by target r"
    unfolding primary_reason_None evaluate_blocking not_not by (simp add: blocked_by_def assms(2))
  show "stale (row_after now target r) \<longleftrightarrow> blocked_by target r \<or> fst (compute_stale_reason (lc_workspace r)) \<noteq> None"
    using flags(1) unfolding reason by (simp add: row_after_def assms(2) refreshed_row_def touch_frame)
  show "\<not> blocked_by target r" if "ready (row_after now target r)"
    using flags(2) that unfolding reason [symmetric] by (simp add: row_after_def assms(2) refreshed_row_def touch_frame)
qed

section \<open>The properties\<close>

text \<open>
  Property C24: a reconciliation pushes only a repair it may push.  Every push among the commands it runs is the last command, goes from the checkout to the
  branch that was asked for, and is run only if commits are allowed, the pass is not a dry run and a resolver generated at least one file; and
  a result says pushed, and has the status committed, exactly when the push is among the commands.
\<close>

theorem reconcile_pushes_only_when_allowed:
  fixes digest work_dir run resolve exists has_git allow url b dry_run cmds
  defines "path \<equiv> checkout_path digest work_dir url b"
  shows
  "\<exists>l. snd (reconcile digest work_dir run resolve exists has_git allow url b dry_run cmds) = cmds @ l
    \<and> (\<forall>x \<in> set l. (\<exists>p c. x = push_command p c) \<longrightarrow>
         x = push_command path b \<and> x = last l \<and> allow \<and> \<not> dry_run \<and> (\<exists>p ps. generated_paths path (resolve path) = Inr (p # ps)))
    \<and> (\<forall>m. fst (reconcile digest work_dir run resolve exists has_git allow url b dry_run cmds) = Inr m \<longrightarrow>
         (tm_pushed m \<longleftrightarrow> push_command path b \<in> set l) \<and> (tm_pushed m \<longleftrightarrow> tm_status m = Committed))"
proof -
  obtain l where l: "snd (reconcile digest work_dir run resolve exists has_git allow url b dry_run cmds) = cmds @ l"
    "push_log (\<lambda>x. allow \<and> \<not> dry_run \<and> (\<exists>p ps. generated_paths path (resolve path) = Inr (p # ps))) (push_command path b) l
      (fst (reconcile digest work_dir run resolve exists has_git allow url b dry_run cmds))"
    unfolding path_def using reconcile_log by blast
  show ?thesis
    by (intro exI [of _ l] conjI l(1)) (use l(2) in \<open>auto simp: push_log_def not_push_def split: sum.splits\<close>)
qed

definition repair_run :: runner where
  "repair_run cmds args = \<lparr>cr_returncode = (if last args = ''--quiet'' then 1 else 0), cr_stdout = [], cr_stderr = []\<rparr>"

definition repair_result :: "string \<Rightarrow> AlembicResolveResult" where
  "repair_result path = \<lparr>ar_resolved = True, ar_generated_path = Some (path @ ''/m.py''), ar_generated_path_relative = None\<rparr>"

definition repair :: "(monitor_error + TargetBranchMonitorResult) \<times> command list" where
  "repair = reconcile id ''/w'' repair_run (\<lambda>p. [repair_result p]) (\<lambda>p. True) (\<lambda>p. True) True ''u/r.git'' ''main'' False []"

theorem reconcile_pushes_only_when_allowed_witness:
  "(\<exists>m. fst repair = Inr m \<and> tm_status m = Committed)
   \<and> last (snd repair) = push_command ''/w/target-branches/r-u/r.git-main'' ''main''"
proof -
  have path: "checkout_path id ''/w'' ''u/r.git'' ''main'' = ''/w/target-branches/r-u/r.git-main''"
    by code_simp
  have "case fst repair of Inl e \<Rightarrow> False | Inr m \<Rightarrow> tm_pushed m"
    by code_simp
  then obtain m where m: "fst repair = Inr m" "tm_pushed m"
    by (cases "fst repair") auto
  obtain l where l: "snd repair = l" "push_command ''/w/target-branches/r-u/r.git-main'' ''main'' \<in> set l"
      "\<And>x p c. x \<in> set l \<Longrightarrow> x = push_command p c \<Longrightarrow> x = last l" "tm_status m = Committed"
    using reconcile_pushes_only_when_allowed [where digest = id and work_dir = "''/w''" and run = repair_run and resolve = "\<lambda>p. [repair_result p]"
        and exists = "\<lambda>p. True" and has_git = "\<lambda>p. True" and allow = True and url = "''u/r.git''" and b = "''main''" and dry_run = False and cmds = "[]"] m
    unfolding append_Nil path repair_def [symmetric] by blast
  then show ?thesis
    using m by simp
qed

text \<open>
  Property C11: after a merge, the refresh brings the rows of the lane up to date.  Provided the state of the target can be determined for every base, each
  candidate of the page that is not excluded gets a summary without an error, in the order of the page, that says whether the policy asks for
  a new validation; its stored row, when it has a base and its workspace is not completed, is stale exactly if that is so or the validation
  evidence is insufficient, and is not ready if it is; every other row of the table stays as it was, and no row is added or removed.
\<close>

theorem post_merge_refresh_exact:
  assumes ask: "\<And>n base. ask n base = Inr (target base)" and keys: "distinct (map mc_id (candidates db))" "db_keys_ok db"
    and spaces: "distinct (map (\<lambda>r. mc_workspace_id (lc_row r)) (lane_page db url b))"
    and todo: "todo = filter (\<lambda>r. mc_workspace_id (lc_row r) \<notin> set excluded) (lane_page db url b)"
  shows "\<exists>xs db' tab'. refresh_stale_candidates ids fmt explain now ask excluded url b db tab = (xs, db', tab')
    \<and> map (\<lambda>x. (su_candidate_id x, su_stale x, su_error x)) xs = map (\<lambda>r. (lc_id r, blocked_by target r, None)) todo
    \<and> map mc_id (candidates db') = map mc_id (candidates db)
    \<and> (\<forall>c. mc_id c \<notin> lc_id ` set todo \<longrightarrow> c \<in> set (candidates db') \<longleftrightarrow> c \<in> set (candidates db))
    \<and> (\<forall>r \<in> set todo. \<exists>c \<in> set (candidates db'). mc_id c = lc_id r
         \<and> (mc_base_sha (lc_row r) = None \<longrightarrow> c = lc_row r)
         \<and> (mc_base_sha (lc_row r) \<noteq> None \<and> status (lc_workspace r) \<noteq> Completed \<longrightarrow>
              (stale c \<longleftrightarrow> blocked_by target r \<or> fst (compute_stale_reason (lc_workspace r)) \<noteq> None) \<and> (ready c \<longrightarrow> \<not> blocked_by target r)))"
proof -
  obtain xs db' tab' where run: "refresh_stale_candidates ids fmt explain now ask excluded url b db tab = (xs, db', tab')"
    "map (\<lambda>x. (su_candidate_id x, su_stale x, su_error x)) xs = map (\<lambda>r. (lc_id r, blocked_by target r, None)) todo"
    "map mc_id (candidates db') = map mc_id (candidates db)" "\<forall>r \<in> set todo. row_after now target r \<in> set (candidates db')"
    "\<forall>c. mc_id c \<notin> lc_id ` set todo \<longrightarrow> c \<in> set (candidates db') \<longleftrightarrow> c \<in> set (candidates db)"
    unfolding todo by (rule refresh_stale_run [OF ask keys spaces])
  have "\<exists>c \<in> set (candidates db'). mc_id c = lc_id r \<and> (mc_base_sha (lc_row r) = None \<longrightarrow> c = lc_row r)
      \<and> (mc_base_sha (lc_row r) \<noteq> None \<and> status (lc_workspace r) \<noteq> Completed \<longrightarrow>
           (stale c \<longleftrightarrow> blocked_by target r \<or> fst (compute_stale_reason (lc_workspace r)) \<noteq> None) \<and> (ready c \<longrightarrow> \<not> blocked_by target r))"
    if r: "r \<in> set todo" for r
  proof (intro bexI conjI impI)
    show "row_after now target r \<in> set (candidates db')"
      using run(4) r by blast
    show "mc_id (row_after now target r) = lc_id r"
      by (simp add: row_after_def refreshed_key lc_id_def split: option.split)
    show "row_after now target r = lc_row r" if "mc_base_sha (lc_row r) = None"
      using that by (simp add: row_after_def)
    have lane: "r \<in> set (lane_rows db url b)"
      using r lane_page_set unfolding todo by fastforce
    show "stale (row_after now target r) \<longleftrightarrow> blocked_by target r \<or> fst (compute_stale_reason (lc_workspace r)) \<noteq> None"
      if "mc_base_sha (lc_row r) \<noteq> None \<and> status (lc_workspace r) \<noteq> Completed"
      using that row_after_flags(1) [OF lane] by blast
    show "\<not> blocked_by target r"
      if "mc_base_sha (lc_row r) \<noteq> None \<and> status (lc_workspace r) \<noteq> Completed" "ready (row_after now target r)"
      using that row_after_flags(2) [OF lane] by blast
  qed
  then show ?thesis
    using run by (intro exI [of _ xs] exI [of _ db'] exI [of _ tab']) blast
qed


lemma stale_db_lane: "lane_page stale_db ''git@host:r'' ''main'' = [stale_loaded]"
proof -
  have "load_rows stale_db = [stale_loaded]"
    by (simp add: load_rows_def List.map_filter_simps stale_db_def stale_row_def stale_loaded_def queue_db_def older_row_def queue_candidate_row_def
        queue_attempt_def queue_workspace_def sample_workspace_def lc_id_def)
  then show ?thesis
    by (simp add: lane_page_eq lane_rows_def sort_desc_def queue_candidate_def stale_loaded_def older_row_def stale_row_def queue_candidate_row_def
        queue_workspace_def sample_workspace_def WORKSPACE_TEARDOWN_STATUSES_def opt_eq_def)
qed

theorem post_merge_refresh_exact_witness:
  "\<exists>xs db' tab'. refresh_stale_candidates (\<lambda>i k. ''s'') (\<lambda>i. ''now'') (\<lambda>e. ''e'') 5 (\<lambda>n base. Inr moved_target) [] ''git@host:r'' ''main'' stale_db []
      = (xs, db', tab')
    \<and> map (\<lambda>x. (su_candidate_id x, su_stale x, su_error x)) xs = [(''k1'', True, None)] \<and> list_ex stale (candidates db')"
proof -
  have keys: "distinct (map mc_id (candidates stale_db))" "db_keys_ok stale_db"
    by (simp_all add: stale_db_def db_keys_ok_def queue_db_def queue_workspace_def sample_workspace_def)
  have facts: "lc_id stale_loaded = ''k1''" "mc_base_sha (lc_row stale_loaded) = Some ''b0''" "status (lc_workspace stale_loaded) \<noteq> Completed"
    "blocked_by (\<lambda>base. moved_target) stale_loaded"
    by code_simp+
  show ?thesis
    using post_merge_refresh_exact [where ask = "\<lambda>n base. Inr moved_target" and target = "\<lambda>base. moved_target" and excluded = "[]"
        and ids = "\<lambda>i k. ''s''" and fmt = "\<lambda>i. ''now''" and explain = "\<lambda>e. ''e''" and now = 5 and tab = "[]" and todo = "[stale_loaded]",
        OF refl keys, of "''git@host:r''" "''main''"] facts
    unfolding stale_db_lane by (auto simp: list_ex_iff)
qed

text \<open>
  Only fifty candidates of a branch are refreshed.  The refresh is documented to reach all open candidates of the branch, but it takes one page of
  the queue; if the branch has more than fifty of them, there is one that gets no summary and whose row is left as it was, whatever has
  changed on the target and whichever workspaces are excluded.
\<close>

theorem refresh_misses_candidates:
  assumes ask: "\<And>n base. ask n base = Inr (target base)" and keys: "distinct (map mc_id (candidates db))" "db_keys_ok db"
    and spaces: "distinct (map (\<lambda>r. mc_workspace_id (lc_row r)) (lane_page db url b))" and many: "50 < length (lane_rows db url b)"
  shows "\<exists>r \<in> set (lane_rows db url b). \<exists>xs db' tab'. refresh_stale_candidates ids fmt explain now ask excluded url b db tab = (xs, db', tab')
    \<and> lc_row r \<in> set (candidates db') \<and> lc_id r \<notin> su_candidate_id ` set xs"
proof -
  have d: "distinct (map lc_id (lane_rows db url b))"
    using load_rows_distinct [OF keys(1)] by (simp add: lane_rows_def distinct_map inj_on_def)
  have "card (set (lane_page db url b)) < card (set (lane_rows db url b))"
    using many d card_length [of "lane_page db url b"] by (simp add: distinct_card distinct_map lane_page_eq)
  then obtain r where r: "r \<in> set (lane_rows db url b)" "r \<notin> set (lane_page db url b)"
    using lane_page_set [of db url b] by (metis less_irrefl subset_antisym subsetI)
  then have out: "lc_id r \<notin> lc_id ` set (lane_page db url b)"
    using d lane_page_set [of db url b] by (auto simp: distinct_map inj_on_def)
  let ?todo = "filter (\<lambda>r. mc_workspace_id (lc_row r) \<notin> set excluded) (lane_page db url b)"
  obtain xs db' tab' where run: "refresh_stale_candidates ids fmt explain now ask excluded url b db tab = (xs, db', tab')"
    "map (\<lambda>x. (su_candidate_id x, su_stale x, su_error x)) xs = map (\<lambda>r. (lc_id r, blocked_by target r, None)) ?todo"
    "map mc_id (candidates db') = map mc_id (candidates db)" "\<forall>r \<in> set ?todo. row_after now target r \<in> set (candidates db')"
    "\<forall>c. mc_id c \<notin> lc_id ` set ?todo \<longrightarrow> c \<in> set (candidates db') \<longleftrightarrow> c \<in> set (candidates db)"
    by (rule refresh_stale_run [OF ask keys spaces])
  have "map su_candidate_id xs = map fst (map (\<lambda>x. (su_candidate_id x, su_stale x, su_error x)) xs)"
    by simp
  also have "\<dots> = map lc_id ?todo"
    unfolding run(2) by simp
  finally have "su_candidate_id ` set xs = lc_id ` set ?todo"
    unfolding set_map [symmetric] by simp
  moreover have "lc_id r \<notin> lc_id ` set ?todo"
    using out by auto
  moreover have "lc_row r \<in> set (candidates db)"
    using r(1) load_rows_member by (auto simp: lane_rows_def)
  ultimately show ?thesis
    using run(1,5) r(1) by (metis lc_id_def)
qed

text \<open>Fifty-one candidates, each of its own workspace.\<close>

definition name_of :: "nat \<Rightarrow> string" where
  "name_of n = replicate n (CHR ''x'')"

definition crowded_db :: database where
  "crowded_db = queue_db
     \<lparr>workspaces := (\<lambda>i. Some (queue_workspace i [])), attempts := map (\<lambda>n. queue_attempt (name_of n) (name_of n)) [0..<51],
      candidates := map (\<lambda>n. queue_candidate_row (name_of n) (name_of n) (name_of n) 1) [0..<51]\<rparr>"


lemma find_by_key: "i \<in> set xs \<Longrightarrow> inj k \<Longrightarrow> (\<And>j. key (f j) = k j) \<Longrightarrow> find (\<lambda>a. key a = k i) (map f xs) = Some (f i)"
  by (induction xs) (auto dest: injD)

lemma map_filter_map: "(\<And>x. x \<in> set xs \<Longrightarrow> g (f x) = Some (h x)) \<Longrightarrow> List.map_filter g (map f xs) = map h xs"
  by (induction xs) (simp_all add: List.map_filter_simps)

lemma crowded_rows:
  "load_rows crowded_db
    = map (\<lambda>n. \<lparr>lc_row = queue_candidate_row (name_of n) (name_of n) (name_of n) 1, lc_attempt = queue_attempt (name_of n) (name_of n),
        lc_workspace = queue_workspace (name_of n) []\<rparr>) [0..<51]"
proof -
  have inj: "inj name_of"
    by (rule injI) (auto simp: name_of_def dest: arg_cong [of _ _ length])
  have "find (\<lambda>a. at_id a = name_of n) (attempts crowded_db) = Some (queue_attempt (name_of n) (name_of n))" if "n \<in> set [0..<51]" for n
    unfolding crowded_db_def by simp (rule find_by_key [OF that inj], simp add: queue_attempt_def)
  then show ?thesis
    unfolding load_rows_def by (simp add: crowded_db_def) (rule map_filter_map, simp add: queue_candidate_row_def)
qed

theorem refresh_misses_candidates_witness:
  "\<exists>r \<in> set (lane_rows crowded_db ''git@host:r'' ''main''). \<exists>xs db' tab'.
     refresh_stale_candidates (\<lambda>i k. ''s'') (\<lambda>i. ''now'') (\<lambda>e. ''e'') 5 (\<lambda>n base. Inr moved_target) [] ''git@host:r'' ''main'' crowded_db [] = (xs, db', tab')
     \<and> lc_row r \<in> set (candidates db') \<and> lc_id r \<notin> su_candidate_id ` set xs"
proof -
  have inj: "inj name_of"
    by (rule injI) (auto simp: name_of_def dest: arg_cong [of _ _ length])
  have keys: "distinct (map mc_id (candidates crowded_db))" "db_keys_ok crowded_db"
    using inj by (auto simp: crowded_db_def db_keys_ok_def queue_workspace_def sample_workspace_def distinct_map queue_candidate_row_def inj_on_def)
  have rows: "lane_rows crowded_db ''git@host:r'' ''main'' = load_rows crowded_db"
    unfolding lane_rows_def crowded_rows
    by (simp add: filter_id_conv queue_candidate_def queue_candidate_row_def queue_workspace_def sample_workspace_def WORKSPACE_TEARDOWN_STATUSES_def opt_eq_def)
  have "distinct (map (\<lambda>r. mc_workspace_id (lc_row r)) (lane_rows crowded_db ''git@host:r'' ''main''))"
    unfolding rows crowded_rows using inj by (simp add: distinct_map queue_candidate_row_def inj_on_def)
  then have spaces: "distinct (map (\<lambda>r. mc_workspace_id (lc_row r)) (lane_page crowded_db ''git@host:r'' ''main''))"
    unfolding lane_page_eq take_map [symmetric] by (intro distinct_take sort_desc_map_distinct)
  have many: "50 < length (lane_rows crowded_db ''git@host:r'' ''main'')"
    unfolding rows crowded_rows by simp
  show ?thesis
    by (rule refresh_misses_candidates [where target = "\<lambda>base. moved_target", OF refl keys spaces many])
qed

end
