(* ===== verification/Spec2Isabelle.thy ===== *)
theory Spec2Isabelle
  imports Blocking_Properties Monitor_Bounds Dispatch_Exact Capacity_Properties Scheduler_Bounds Recovery_Properties Merge_Queue_Paging Merge_Coordinator Tasks Overlap_Graph Staleness_Properties Service_GC Secret_Lease_Properties Callback_Properties Target_Branch_Properties
begin

text \<open>
  \<^bold>\<open>The control plane of the agent workspace fabric.\<close>

  The program (sources under \<open>src/src/awf\<close>) runs coding agents in workspaces.  A request becomes a \<^emph>\<open>task\<close>, an \<^emph>\<open>attempt\<close> and a
  \<^emph>\<open>workspace\<close> row; a worker claims the workspace, provisions it, runs the agent, validates and pushes; a monitor then watches the
  pull request, decides what to do next and finally merges it through the \<^emph>\<open>merge queue\<close>.  All parts share one relational
  database and coordinate by guarded updates of its rows.  This development models that core: the tables, the operations that
  change them, the decisions taken from them, and the interaction of the parts through the rows.

  \<^bold>\<open>Parts, theories and sources.\<close>

  \<^item> \<open>Prelude\<close>, \<open>Json_Text\<close>, \<open>Numeric_Text\<close>, \<open>Glob\<close>: the string, JSON, number and \<open>fnmatch\<close> operations of Python that the code uses,
    with their laws.  The collections \<open>row_simps\<close> and friends live here and in \<open>Rows\<close>.
  \<^item> \<open>Lifecycle\<close> (\<open>db/enums.py\<close>, the transition table): statuses, legal transitions, runs as an inductive relation.
  \<^item> \<open>Rows\<close> (\<open>db/models.py\<close>): the tables as records and the \<open>database\<close> that holds them.
  \<^item> \<open>Merge_Eligibility\<close> (\<open>runtime/merge_eligibility.py\<close>), \<open>Candidates\<close>, \<open>Merge_Invariant\<close> (\<open>db/repositories/quality_repo.py\<close>): which
    validation evidence counts, the readiness flags of a merge candidate, one open candidate and one canonical attempt per task.
  \<^item> \<open>Transitions\<close>, \<open>Transition_Facts\<close>, \<open>Transition_Properties\<close> (\<open>db/repositories/workspace_repo.py\<close>, \<open>workspace_recovery.py\<close>): the
    compare-and-set status change with all its side effects, in the row-locking and in the single-statement form.
  \<^item> \<open>Claims\<close>, \<open>Claim_Properties\<close> (\<open>workspace_repo_claims.py\<close>): leases of workers with fencing epochs.
  \<^item> \<open>Owned_Paths\<close>, \<open>Owned_Path_Properties\<close> (\<open>common/owned_paths.py\<close>, \<open>db/repositories/base.py\<close>), \<open>Overlap_Graph\<close>
    (\<open>service/overlap_graph.py\<close>): which workspaces touch the same files.
  \<^item> \<open>Quality_Gates\<close>, \<open>Blocking\<close>, \<open>Blocking_Properties\<close> (\<open>runtime/quality_gates.py\<close>, the blocked status and operator grants).
  \<^item> \<open>Monitor_Models\<close>, \<open>Feedback_Policy\<close>, \<open>CI_Classification\<close>, \<open>Monitor_State\<close>, \<open>Monitor_CI\<close>, \<open>Monitor_Decide\<close> and their property
    theories (\<open>runtime/pr_monitor*.py\<close>): the decision function of the pull-request monitor.
  \<^item> \<open>Scheduler\<close>, \<open>Scheduler_SQL\<close>, \<open>Scheduler_Rank\<close>, \<open>Scheduler_Paging\<close>, \<open>Scheduler_Dispatch\<close>, \<open>Dispatch_Exact\<close>, \<open>Capacity\<close>
    (\<open>service/scheduler.py\<close>, \<open>db/repositories/_scheduler.py\<close>, \<open>service/resource_capacity.py\<close>): the order of the queue in Python and in
    SQL, the page loop that picks workspaces, and local capacity.
  \<^item> \<open>Circuit_Breaker\<close>, \<open>Provider_Failures\<close>, \<open>Provider_Recovery\<close>, \<open>Recovery_Properties\<close> (\<open>adapters/provider_failures.py\<close>,
    \<open>service/provider_recovery.py\<close>): classification of provider failures, suppression of failing models and bounded recovery.
  \<^item> \<open>Findings\<close>, \<open>Merge_Queue\<close>, \<open>Merge_Queue_Properties\<close>, \<open>Merge_Queue_Paging\<close>, \<open>Merge_Coordinator\<close> (\<open>service/merge_queue.py\<close>,
    \<open>runtime/merge_coordinator.py\<close>): stored findings, the queue of merges and the lock that serialises them.
  \<^item> \<open>Tasks\<close> (\<open>db/repositories/task_repo.py\<close>): creation of tasks under unique constraints, numbering of attempts.
  \<^item> \<open>Staleness\<close>, \<open>Staleness_Properties\<close> (\<open>service/staleness.py\<close>): which candidates a moved target branch makes stale, and the refresh that
    stores the findings, marks the candidate and logs events.
  \<^item> \<open>Keyed_Rows\<close>: tables with one row per key as an interface.  \<open>Service_GC\<close> (\<open>db/repositories/service_gc_request_repo.py\<close>): the
    delegation of garbage collection to the worker.  \<open>Secret_Leases\<close>, \<open>Secret_Lease_Properties\<close>
    (\<open>db/repositories/workspace_repo_secrets.py\<close>, \<open>base.py\<close>): the leases of secrets declared by a profile, with their audit events.
  \<^item> \<open>Callback_Targets\<close>, \<open>Callback_Target_Properties\<close> (\<open>common/callback_targets.py\<close>), \<open>Callbacks\<close>, \<open>Callback_Properties\<close>
    (\<open>workspace_repo_callbacks.py\<close>, \<open>service/callbacks.py\<close>): the outbox of external callbacks and the rule which addresses it may reach.
  \<^item> \<open>Target_Branch\<close>, \<open>Target_Branch_Properties\<close> (\<open>service/target_branch_monitor.py\<close>): the reconciliation of a target branch after a merge as
    an exception monad over the log of commands, and the refresh of the candidates of the branch on top of \<open>Staleness\<close>.

  \<^bold>\<open>How the code is represented.\<close>

  A table is a list or a finite map of records with the columns of the model class; a query is a filter and a sort of the rows; a
  guarded \<open>UPDATE\<close> or \<open>INSERT\<close> is a function on the tables that returns the new tables or the error as a value of a sum type.  One
  transaction is one step: requests of several workers are interleaved as explicit sequences of steps, and the row-level lock or
  the compare-and-set that makes a step atomic in the code is part of the definition (the locked row is re-read, the guard is
  tested on the stored row).  Where two sessions may see different states, as in the creation race of \<open>Tasks\<close>, both states are
  arguments.  A transaction reads the clock once (\<open>now\<close>), and the identifiers of new rows are arguments.  Asynchronous code
  (\<open>Merge_Coordinator\<close>) is a set of events, each the code between two suspension points; reachability is an inductive predicate.

  Statuses are datatypes; free-form columns are strings; JSON values are the datatype \<open>json\<close> with objects as association lists in
  insertion order.  Strings are lists of characters with code points below 256, ordered by code point, so the database is assumed
  to compare text in the C collation.  Instants are integers (microseconds, all in UTC), unbounded; Python integers are \<open>int\<close>; the
  floating-point scores and capacities are rational numbers, so rounding is not modelled; machine words appear where the code has
  them (the signed 64-bit advisory lock keys of \<open>Scheduler_Bounds\<close>).  Code outside the repository or of the operating system is a
  parameter of the definitions that use it: secret redaction, the protected-file classifiers, SHA-256 digests, printing and parsing
  of time stamps and floats, the forge.  A hypothesis about a parameter is stated in the theorem that needs it.

  Loops are structural recursion, or recursion with a measure.  Fuel is used only in the page loop of the dispatcher
  (\<open>Scheduler_Dispatch\<close>), where one more than the number of rows is proved to be enough (\<open>Dispatch_Exact\<close>).

  \<^bold>\<open>Interfaces.\<close>

  Contracts shared by several components are locales, interpreted on the definitions of the code: status changes as compare-and-set
  with the invariants they keep (\<open>status_cas\<close>, \<open>status_cas_inv\<close>), epochs and fencing of leases and blocks (\<open>epoch_store\<close>, \<open>fenced_store\<close>),
  tables of findings (\<open>findings_table\<close>), tables with one row per key (\<open>keyed_rows\<close>), keyset pagination (\<open>keyset_pages\<close>), readers of task policies in Python and SQL
  (\<open>policy_reader\<close>) and prefix codes of JSON text (\<open>prefix_code\<close>).  The properties use the facts of the interpretations.

  \<^bold>\<open>What is shown.\<close>

  \<^item> Status changes: a commit is a compare-and-set along the transition table with its side effects; both SQL dialects agree; after any
    sequence of requests the lifecycle, the event numbering and the merge-candidate invariants hold.
  \<^item> Leases: a worker with an older epoch can neither refresh nor release; operator grants do not survive a new block.
  \<^item> Monitor: it merges exactly when every gate is green, what feedback a merge may leave open, no-op syncs and waits are bounded.
  \<^item> Scheduling: the dispatcher returns the best eligible workspaces, pages partition the queue, the SQL order is the Python order,
    claims never exceed the configured capacity.
  \<^item> Recovery: the number of recoveries is bounded, written state is read back, a cool-down gates dispatch.
  \<^item> Merging: overlapping work is merged one after the other by age, the queue always has a candidate that may go on, the coordinator
    excludes concurrent merges of one lane and loses no wake-up.
  \<^item> Staleness: the evaluation asks for a new validation exactly when the policy does; a refresh keeps findings, candidate and queue in
    step.  It also forgets a violation of the docs scope, which the readiness rules treat as stale.
  \<^item> Delegated work: a garbage-collection request is claimed at most once and never past its deadline, and an expired one stays expired.
  \<^item> Secrets: every declaration ends with exactly one active lease that matches it, also after a lost insertion race; mounting and expiry do not
    bring revoked leases back.  A lease past its expiry is handed out again unrenewed.  The repository reads leases without a row lock: a lease
    revoked between the first query of an issue and its use is handed out as active (\<open>revoked_meanwhile_handed_out\<close>); mounting and
    expiry are steps of their own, so a mount that overlaps a revocation is not covered.
  \<^item> Callbacks: a post never reaches an internal address, not even inside an IPv6 address; every delivery is attempted at most the allowed
    number of times and then settled for good; the query for subscribers is the matching rule.  Two drains that overlap in time are not ordered by
    the code, so the statements are about drains one after the other; a drain that is aborted after a post and before its commit is
    no step of the histories.
  \<^item> Target branches: a repair is pushed only when commits are allowed, and only to the branch asked for; a refresh brings the rows of the
    page up to date and touches no other row.  It reaches one page of fifty candidates, and two branches may share a checkout.

  \<^bold>\<open>Not modelled.\<close>

  The HTTP, command-line and MCP interfaces, the web console, the clients of the forges, the execution of agents, containers and
  git (\<open>adapters\<close>, \<open>node\<close>, \<open>runtime/validation_*\<close>, \<open>runtime/pr_monitor_runner\<close>), host set-up, profiles and configuration parsing, metrics,
  and the file-system garbage collectors: they are input/output around the decisions modelled here, or parse formats of other
  programs.  Of the components that are modelled partly, the manifest says which operations are missing.
\<close>

end
